(* ===== verification/Prelude.thy ===== *)
theory Prelude
  imports Main "HOL-Library.Word"
begin

text \<open>
  Shared vocabulary of the development: the integer and byte types of the Rust
  sources, the outcome of a contract invocation (a fault, or a value and the new
  storage), the host environment \<open>Env\<close> that Soroban hands to every entry point, the
  event log, and the generic lemmas that the component theories rely on.
\<close>

unbundle bit_operations_syntax

section \<open>Machine integers, bytes and addresses\<close>

type_synonym u8 = "8 word"
type_synonym u16 = "16 word"
type_synonym u32 = "32 word"
type_synonym u64 = "64 word"
type_synonym u128 = "128 word"

text \<open>
  Rust's \<open>i128\<close> is an unbounded \<open>int\<close> together with the range checks of the source: the
  release profile sets \<open>overflow-checks = true\<close>, so \<open>+\<close> and \<open>-\<close> panic out of range.
  \<open>BytesN<n>\<close> is a list of bytes; its length is stated where a claim depends on it.
\<close>

type_synonym i128 = int
type_synonym bytes = "u8 list"
type_synonym symbol = string

text \<open>An \<open>Address\<close> is opaque to the contracts; it is named by its strkey text.\<close>

datatype address = Address string

definition zero32 :: bytes where
  "zero32 = replicate 32 0"

section \<open>Outcome of an invocation\<close>

text \<open>
  An entry point either faults or returns. A fault is a \<open>panic!\<close> with its message, a
  failed \<open>require_auth\<close>, an arithmetic overflow, a call to an address where no
  contract lives, or a value of the contract's own error enum. Whatever the fault,
  the host rolls back every write of the invocation, so \<open>Inl\<close> carries no storage.
\<close>

datatype 'e fault =
    Panic string
  | AuthError address
  | Overflow
  | NoContract address
  | Err 'e

type_synonym ('e, 'a) result = "'e fault + 'a"

text \<open>Contracts without an error enum of their own never produce \<open>Err\<close>.\<close>

type_synonym 'a outcome = "(unit, 'a) result"

named_theorems outcome \<open>inversion of successful invocations\<close>
named_theorems faults \<open>inversion of failed invocations\<close>
named_theorems emits \<open>unfolding of event helpers\<close>

definition and_then :: "'e + 'a \<Rightarrow> ('a \<Rightarrow> 'e + 'b) \<Rightarrow> 'e + 'b" where
  "and_then r f = (case r of Inl e \<Rightarrow> Inl e | Inr x \<Rightarrow> f x)"

definition fail_if :: "bool \<Rightarrow> 'e \<Rightarrow> 'e + unit" where
  "fail_if c e = (if c then Inl e else Inr ())"

definition panic_if :: "bool \<Rightarrow> string \<Rightarrow> ('e, unit) result" where
  "panic_if c msg = fail_if c (Panic msg)"

definition ok_or :: "'e \<Rightarrow> 'a option \<Rightarrow> 'e + 'a" where
  "ok_or e x = (case x of None \<Rightarrow> Inl e | Some v \<Rightarrow> Inr v)"

definition expect :: "string \<Rightarrow> 'a option \<Rightarrow> ('e, 'a) result" where
  "expect msg x = ok_or (Panic msg) x"

definition unwrap_or :: "'a \<Rightarrow> 'a option \<Rightarrow> 'a" where
  "unwrap_or d x = (case x of None \<Rightarrow> d | Some v \<Rightarrow> v)"

lemma and_then_Inl [simp]: "and_then (Inl e) f = Inl e"
  by (simp add: and_then_def)

lemma and_then_Inr [simp]: "and_then (Inr x) f = f x"
  by (simp add: and_then_def)

lemma and_then_ok [simp, outcome]:
  "and_then r f = Inr y \<longleftrightarrow> (\<exists>x. r = Inr x \<and> f x = Inr y)"
  by (cases r) auto

lemma and_then_fault [faults]:
  "and_then r f = Inl e \<longleftrightarrow> r = Inl e \<or> (\<exists>x. r = Inr x \<and> f x = Inl e)"
  by (cases r) auto

lemma and_then_assoc:
  "and_then (and_then r f) g = and_then r (\<lambda>x. and_then (f x) g)"
  by (cases r) auto

lemma and_then_cong [fundef_cong]:
  assumes "r = r'" "\<And>x. r' = Inr x \<Longrightarrow> f x = g x"
  shows "and_then r f = and_then r' g"
  using assms by (cases r') auto

lemma fail_if_ok [simp, outcome]: "fail_if c e = Inr u \<longleftrightarrow> \<not> c"
  by (simp add: fail_if_def)

lemma fail_if_fault [simp, faults]: "fail_if c e = Inl e' \<longleftrightarrow> c \<and> e' = e"
  by (auto simp: fail_if_def)

lemma fail_if_simps [simp]: "fail_if True e = Inl e" "fail_if False e = Inr ()"
  by (simp_all add: fail_if_def)

lemma panic_if_ok [simp, outcome]: "panic_if c m = Inr u \<longleftrightarrow> \<not> c"
  by (simp add: panic_if_def)

lemma panic_if_fault [simp, faults]: "panic_if c m = Inl e \<longleftrightarrow> c \<and> e = Panic m"
  by (auto simp: panic_if_def)

lemma panic_if_simps [simp]: "panic_if True m = Inl (Panic m)" "panic_if False m = Inr ()"
  by (simp_all add: panic_if_def)

lemma ok_or_ok [simp, outcome]: "ok_or e x = Inr v \<longleftrightarrow> x = Some v"
  by (cases x) (auto simp: ok_or_def)

lemma ok_or_fault [simp, faults]: "ok_or e x = Inl e' \<longleftrightarrow> x = None \<and> e' = e"
  by (cases x) (auto simp: ok_or_def)

lemma ok_or_simps [simp]: "ok_or e None = Inl e" "ok_or e (Some v) = Inr v"
  by (simp_all add: ok_or_def)

lemma expect_ok [simp, outcome]: "expect m x = Inr v \<longleftrightarrow> x = Some v"
  by (simp add: expect_def)

lemma expect_fault [simp, faults]: "expect m x = Inl e \<longleftrightarrow> x = None \<and> e = Panic m"
  by (auto simp: expect_def)

lemma expect_simps [simp]: "expect m None = Inl (Panic m)" "expect m (Some v) = Inr v"
  by (simp_all add: expect_def)

lemma unwrap_or_simps [simp]: "unwrap_or d None = d" "unwrap_or d (Some v) = v"
  by (simp_all add: unwrap_or_def)

section \<open>Checked arithmetic\<close>

text \<open>\<open>a + b\<close> on an unsigned integer, under \<open>overflow-checks\<close>.\<close>

definition add_u :: "'a::len word \<Rightarrow> 'a word \<Rightarrow> ('e, 'a word) result" where
  "add_u a b = (if unat a + unat b < 2 ^ LENGTH('a) then Inr (a + b) else Inl Overflow)"

definition saturating_sub :: "'a::len word \<Rightarrow> 'a word \<Rightarrow> 'a word" where
  "saturating_sub a b = (if a < b then 0 else a - b)"

definition saturating_add :: "'a::len word \<Rightarrow> 'a word \<Rightarrow> 'a word" where
  "saturating_add a b = (if unat a + unat b < 2 ^ LENGTH('a) then a + b else - 1)"

definition in_i128 :: "i128 \<Rightarrow> bool" where
  "in_i128 x \<longleftrightarrow> - (2 ^ 127) \<le> x \<and> x < 2 ^ 127"

definition add_i128 :: "i128 \<Rightarrow> i128 \<Rightarrow> ('e, i128) result" where
  "add_i128 a b = (if in_i128 (a + b) then Inr (a + b) else Inl Overflow)"

definition sub_i128 :: "i128 \<Rightarrow> i128 \<Rightarrow> ('e, i128) result" where
  "sub_i128 a b = (if in_i128 (a - b) then Inr (a - b) else Inl Overflow)"

definition checked_add_i128 :: "i128 \<Rightarrow> i128 \<Rightarrow> i128 option" where
  "checked_add_i128 a b = (if in_i128 (a + b) then Some (a + b) else None)"

definition checked_sub_i128 :: "i128 \<Rightarrow> i128 \<Rightarrow> i128 option" where
  "checked_sub_i128 a b = (if in_i128 (a - b) then Some (a - b) else None)"

lemma add_u_ok [simp, outcome]:
  fixes a b c :: "'a::len word"
  shows "add_u a b = Inr c \<longleftrightarrow> unat a + unat b < 2 ^ LENGTH('a) \<and> c = a + b"
  by (auto simp: add_u_def)

lemma unat_add_u:
  fixes a b c :: "'a::len word"
  shows "add_u a b = Inr c \<Longrightarrow> unat c = unat a + unat b"
  by (auto simp: unat_word_ariths)

lemma add_u_less:
  fixes a b c :: "'a::len word"
  shows "add_u a b = Inr c \<Longrightarrow> b \<noteq> 0 \<Longrightarrow> a < c"
  using unat_add_u [of a b c] by (auto simp: word_less_nat_alt unat_gt_0)

lemma saturating_sub_unat: "unat (saturating_sub a b) = unat a - unat b"
  by (auto simp: saturating_sub_def unat_sub_if_size word_less_nat_alt not_less)

lemma saturating_add_ge:
  fixes a b :: "'a::len word"
  shows "a \<le> saturating_add a b"
proof (cases "unat a + unat b < 2 ^ LENGTH('a)")
  case True
  then show ?thesis by (simp add: saturating_add_def word_le_nat_alt unat_word_ariths)
next
  case False
  then show ?thesis by (simp add: saturating_add_def word_order.extremum)
qed

lemma add_i128_ok [simp, outcome]: "add_i128 a b = Inr c \<longleftrightarrow> in_i128 (a + b) \<and> c = a + b"
  by (auto simp: add_i128_def)

lemma sub_i128_ok [simp, outcome]: "sub_i128 a b = Inr c \<longleftrightarrow> in_i128 (a - b) \<and> c = a - b"
  by (auto simp: sub_i128_def)

lemma checked_add_i128_Some [simp]:
  "checked_add_i128 a b = Some c \<longleftrightarrow> in_i128 (a + b) \<and> c = a + b"
  by (auto simp: checked_add_i128_def)

lemma checked_sub_i128_Some [simp]:
  "checked_sub_i128 a b = Some c \<longleftrightarrow> in_i128 (a - b) \<and> c = a - b"
  by (auto simp: checked_sub_i128_def)

section \<open>The host environment\<close>

text \<open>
  \<open>Env\<close> as the entry points use it. The ledger's clock and sequence number, the
  addresses whose authorization the invocation carries (\<open>require_auth\<close>), the address of
  the running contract, and the host's \<open>sha256\<close> and XDR encoders are parameters of the
  model: they are code of the host, not of this repository.
\<close>

record env =
  timestamp :: u64
  sequence :: u32
  auth :: "address \<Rightarrow> bool"
  current_contract :: address
  sha256 :: "bytes \<Rightarrow> bytes"
  address_xdr :: "address \<Rightarrow> bytes"
  symbol_xdr :: "symbol \<Rightarrow> bytes"
  bytes_xdr :: "bytes \<Rightarrow> bytes"

definition require_auth :: "'x env_scheme \<Rightarrow> address \<Rightarrow> ('e, unit) result" where
  "require_auth e a = fail_if (\<not> auth e a) (AuthError a)"

lemma require_auth_ok [simp, outcome]: "require_auth e a = Inr u \<longleftrightarrow> auth e a"
  by (simp add: require_auth_def)

lemma require_auth_fault [simp, faults]:
  "require_auth e a = Inl x \<longleftrightarrow> \<not> auth e a \<and> x = AuthError a"
  by (auto simp: require_auth_def)

lemma require_auth_simps:
  "auth e a \<Longrightarrow> require_auth e a = Inr ()"
  "\<not> auth e a \<Longrightarrow> require_auth e a = Inl (AuthError a)"
  by (simp_all add: require_auth_def)

text \<open>
  A contract that calls another one is itself authorized in the callee: the host
  accepts \<open>require_auth\<close> on the address of the direct invoker.
\<close>

definition invoked_by_self :: "'x env_scheme \<Rightarrow> 'x env_scheme" where
  "invoked_by_self e = e\<lparr>auth := (\<lambda>a. auth e a \<or> a = current_contract e)\<rparr>"

lemma invoked_by_self_simps [simp]:
  "timestamp (invoked_by_self e) = timestamp e"
  "sequence (invoked_by_self e) = sequence e"
  "sha256 (invoked_by_self e) = sha256 e"
  "auth (invoked_by_self e) a = (auth e a \<or> a = current_contract e)"
  "env.more (invoked_by_self e) = env.more e"
  by (simp_all add: invoked_by_self_def)

section \<open>Events\<close>

text \<open>
  Values as the host encodes them in event topics and data: a Rust tuple is a vector
  (so a one-element tuple differs from its element), \<open>()\<close> is void, an enum whose
  variants carry discriminants is a \<open>u32\<close>, another enum is a vector of its name.
\<close>

datatype scval =
    VVoid
  | VBool bool
  | VU32 u32
  | VU64 u64
  | VI128 i128
  | VSym symbol
  | VStr string
  | VAddr address
  | VBytes bytes
  | VVec "scval list"

record event =
  topics :: "scval list"
  data :: scval

text \<open>The part of every contract's state that the host keeps: the events it published.\<close>

record host =
  events :: "event list"

definition publish :: "scval list \<Rightarrow> scval \<Rightarrow> 'x host_scheme \<Rightarrow> 'x host_scheme" where
  "publish ts d s = s\<lparr>events := events s @ [\<lparr>topics = ts, data = d\<rparr>]\<rparr>"

lemma publish_more [simp]: "host.more (publish ts d s) = host.more s"
  by (simp add: publish_def)

lemma events_publish [simp]: "events (publish ts d s) = events s @ [\<lparr>topics = ts, data = d\<rparr>]"
  by (simp add: publish_def)

section \<open>Byte encodings of integers\<close>

text \<open>\<open>to_le_bytes\<close> and \<open>to_be_bytes\<close>: the \<open>n\<close> bytes of an integer.\<close>

primrec le_bytes :: "nat \<Rightarrow> int \<Rightarrow> bytes" where
  "le_bytes 0 x = []"
| "le_bytes (Suc n) x = word_of_int x # le_bytes n (x div 256)"

definition be_bytes :: "nat \<Rightarrow> int \<Rightarrow> bytes" where
  "be_bytes n x = rev (le_bytes n x)"

lemma length_le_bytes [simp]: "length (le_bytes n x) = n"
  by (induction n arbitrary: x) simp_all

lemma length_be_bytes [simp]: "length (be_bytes n x) = n"
  by (simp add: be_bytes_def)

lemma le_bytes_inj:
  "le_bytes n x = le_bytes n y \<Longrightarrow> x mod 256 ^ n = y mod 256 ^ n"
proof (induction n arbitrary: x y)
  case 0
  then show ?case by simp
next
  case (Suc n)
  from Suc.prems have w: "(word_of_int x :: u8) = word_of_int y"
    and l: "le_bytes n (x div 256) = le_bytes n (y div 256)"
    by simp_all
  from l have d: "x div 256 mod 256 ^ n = y div 256 mod 256 ^ n" by (rule Suc.IH)
  from w have "take_bit 8 x = take_bit 8 y" by (simp add: word_of_int_eq_iff)
  then have m: "x mod 256 = y mod 256" by (simp add: take_bit_eq_mod)
  have "z mod 256 ^ Suc n = 256 * (z div 256 mod 256 ^ n) + z mod 256" for z :: int
    unfolding power_Suc by (rule zmod_zmult2_eq) simp
  from this [of x] this [of y] m d show ?case by presburger
qed

lemma be_bytes_inj: "be_bytes n x = be_bytes n y \<Longrightarrow> x mod 256 ^ n = y mod 256 ^ n"
  by (rule le_bytes_inj) (simp add: be_bytes_def)

section \<open>Lists\<close>

lemma sum_list_map_update:
  fixes f :: "'a \<Rightarrow> int"
  assumes "a \<notin> set xs"
  shows "sum_list (map (f(a := v)) xs) = sum_list (map f xs)"
  using assms by (intro arg_cong [where f = sum_list] map_cong) auto

lemma sum_fun_upd:
  fixes f :: "'a \<Rightarrow> int"
  assumes "finite A" "a \<in> A"
  shows "sum (f(a := v)) A = sum f A - f a + v"
proof -
  have "sum (f(a := v)) A = v + sum (f(a := v)) (A - {a})"
    using assms by (simp add: sum.remove)
  also have "sum (f(a := v)) (A - {a}) = sum f (A - {a})"
    by (rule sum.cong) auto
  also have "sum f (A - {a}) = sum f A - f a"
    using assms by (simp add: sum.remove)
  finally show ?thesis by simp
qed

end
