(* ===== verification/Events.thy ===== *)
theory Events
  imports Prelude
begin

text \<open>
  \<open>contracts/events/src/lib.rs\<close>: the helpers through which the contracts publish their
  events. Each definition gives the topics and the data that the helper publishes; the
  environment argument of the source only gives access to the host's log, which here is
  the \<open>events\<close> field of the publishing contract.
\<close>

definition payroll_topic :: scval where
  [emits]: "payroll_topic = VSym ''payroll''"

definition emit_payroll_initialized ::
  "address \<Rightarrow> address \<Rightarrow> address \<Rightarrow> address \<Rightarrow> address \<Rightarrow> address \<Rightarrow> 'x host_scheme \<Rightarrow> 'x host_scheme" where
  [emits]: "emit_payroll_initialized admin token verifier commitment treasury treasury_owner = publish
     [payroll_topic, VSym ''initialized'']
     (VVec [VAddr admin, VAddr token, VAddr verifier, VAddr commitment, VAddr treasury, VAddr treasury_owner])"

definition emit_pause_manager_set ::
  "address \<Rightarrow> 'x host_scheme \<Rightarrow> 'x host_scheme" where
  [emits]: "emit_pause_manager_set pause_manager = publish
     [payroll_topic, VSym ''pause_mgr_set'']
     (VVec [VAddr pause_manager])"

definition emit_deposit ::
  "address \<Rightarrow> i128 \<Rightarrow> bytes \<Rightarrow> 'x host_scheme \<Rightarrow> 'x host_scheme" where
  [emits]: "emit_deposit from amount deposit_id = publish
     [payroll_topic, VSym ''deposit'']
     (VVec [VAddr from, VI128 amount, VBytes deposit_id])"

definition emit_metadata_committed ::
  "bytes \<Rightarrow> 'x host_scheme \<Rightarrow> 'x host_scheme" where
  [emits]: "emit_metadata_committed metadata_hash = publish
     [payroll_topic, VSym ''meta_committed'']
     (VBytes metadata_hash)"

definition emit_metadata_bound ::
  "u64 \<Rightarrow> bytes \<Rightarrow> 'x host_scheme \<Rightarrow> 'x host_scheme" where
  [emits]: "emit_metadata_bound run_id metadata_hash = publish
     [payroll_topic, VSym ''meta_bound'']
     (VVec [VU64 run_id, VBytes metadata_hash])"

definition emit_draft_committed ::
  "bytes \<Rightarrow> 'x host_scheme \<Rightarrow> 'x host_scheme" where
  [emits]: "emit_draft_committed draft_hash = publish
     [payroll_topic, VSym ''draft_committed'']
     (VBytes draft_hash)"

definition emit_emergency_requested ::
  "i128 \<Rightarrow> address \<Rightarrow> 'x host_scheme \<Rightarrow> 'x host_scheme" where
  [emits]: "emit_emergency_requested amount recipient = publish
     [payroll_topic, VSym ''emrg_requested'']
     (VVec [VI128 amount, VAddr recipient])"

definition emit_emergency_approved ::
  "i128 \<Rightarrow> address \<Rightarrow> 'x host_scheme \<Rightarrow> 'x host_scheme" where
  [emits]: "emit_emergency_approved amount recipient = publish
     [payroll_topic, VSym ''emrg_approved'']
     (VVec [VI128 amount, VAddr recipient])"

definition emit_emergency_cancelled ::
  "address \<Rightarrow> 'x host_scheme \<Rightarrow> 'x host_scheme" where
  [emits]: "emit_emergency_cancelled caller = publish
     [payroll_topic, VSym ''emrg_cancelled'']
     (VAddr caller)"

definition emit_run_prepared ::
  "u64 \<Rightarrow> i128 \<Rightarrow> 'x host_scheme \<Rightarrow> 'x host_scheme" where
  [emits]: "emit_run_prepared run_id total_spend = publish
     [payroll_topic, VSym ''run_prepared'']
     (VVec [VU64 run_id, VI128 total_spend])"

definition emit_run_cancelled ::
  "u64 \<Rightarrow> i128 \<Rightarrow> 'x host_scheme \<Rightarrow> 'x host_scheme" where
  [emits]: "emit_run_cancelled run_id total_amount = publish
     [payroll_topic, VSym ''run_cancelled'']
     (VVec [VU64 run_id, VI128 total_amount])"

definition emit_payment_executed ::
  "address \<Rightarrow> i128 \<Rightarrow> 'x host_scheme \<Rightarrow> 'x host_scheme" where
  [emits]: "emit_payment_executed employee amount = publish
     [payroll_topic, VSym ''payment_executed'']
     (VVec [VAddr employee, VI128 amount])"

definition emit_run_executed ::
  "u64 \<Rightarrow> i128 \<Rightarrow> 'x host_scheme \<Rightarrow> 'x host_scheme" where
  [emits]: "emit_run_executed run_id total_spend = publish
     [payroll_topic, VSym ''run_executed'']
     (VVec [VU64 run_id, VI128 total_spend])"

definition emit_batch_checkpoint_started ::
  "address \<Rightarrow> bytes \<Rightarrow> address \<Rightarrow> bytes \<Rightarrow> u32 \<Rightarrow> 'x host_scheme \<Rightarrow> 'x host_scheme" where
  [emits]: "emit_batch_checkpoint_started employer batch_root asset execution_nonce checkpoint_index = publish
     [payroll_topic, VSym ''batch_checkpoint_started'']
     (VVec [VAddr employer, VBytes batch_root, VAddr asset, VBytes execution_nonce, VU32 checkpoint_index])"

definition emit_batch_checkpoint_updated ::
  "address \<Rightarrow> bytes \<Rightarrow> address \<Rightarrow> bytes \<Rightarrow> u32 \<Rightarrow> u32 \<Rightarrow> 'x host_scheme \<Rightarrow> 'x host_scheme" where
  [emits]: "emit_batch_checkpoint_updated employer batch_root asset execution_nonce checkpoint_index state = publish
     [payroll_topic, VSym ''batch_checkpoint_updated'']
     (VVec [VAddr employer, VBytes batch_root, VAddr asset, VBytes execution_nonce, VU32 checkpoint_index, VU32 state])"

definition emit_batch_checkpoint_resumed ::
  "address \<Rightarrow> bytes \<Rightarrow> address \<Rightarrow> bytes \<Rightarrow> u32 \<Rightarrow> 'x host_scheme \<Rightarrow> 'x host_scheme" where
  [emits]: "emit_batch_checkpoint_resumed employer batch_root asset execution_nonce checkpoint_index = publish
     [payroll_topic, VSym ''batch_checkpoint_resumed'']
     (VVec [VAddr employer, VBytes batch_root, VAddr asset, VBytes execution_nonce, VU32 checkpoint_index])"

definition emit_draft_created ::
  "u64 \<Rightarrow> address \<Rightarrow> symbol \<Rightarrow> 'x host_scheme \<Rightarrow> 'x host_scheme" where
  [emits]: "emit_draft_created draft_id admin period_label = publish
     [payroll_topic, VSym ''draft_created'']
     (VVec [VU64 draft_id, VAddr admin, VSym period_label])"

definition emit_draft_amended ::
  "u64 \<Rightarrow> i128 \<Rightarrow> u32 \<Rightarrow> 'x host_scheme \<Rightarrow> 'x host_scheme" where
  [emits]: "emit_draft_amended draft_id new_total amendment_count = publish
     [payroll_topic, VSym ''draft_amended'']
     (VVec [VU64 draft_id, VI128 new_total, VU32 amendment_count])"

definition emit_draft_updated ::
  "u64 \<Rightarrow> symbol \<Rightarrow> i128 \<Rightarrow> u32 \<Rightarrow> u32 \<Rightarrow> 'x host_scheme \<Rightarrow> 'x host_scheme" where
  [emits]: "emit_draft_updated draft_id period_label new_total new_employee_count amendment_count = publish
     [payroll_topic, VSym ''draft_updated'']
     (VVec [VU64 draft_id, VSym period_label, VI128 new_total, VU32 new_employee_count, VU32 amendment_count])"

definition emit_registry_pause_manager_set ::
  "address \<Rightarrow> 'x host_scheme \<Rightarrow> 'x host_scheme" where
  [emits]: "emit_registry_pause_manager_set pause_manager = publish
     [VSym ''RegistryPauseMgrSet'']
     (VVec [VAddr pause_manager])"

definition emit_company_admin_proposed ::
  "u64 \<Rightarrow> address \<Rightarrow> address \<Rightarrow> 'x host_scheme \<Rightarrow> 'x host_scheme" where
  [emits]: "emit_company_admin_proposed company_id current_admin new_admin = publish
     [VSym ''CompanyAdminProposed'', VU64 company_id, VAddr current_admin]
     (VVec [VAddr new_admin])"

definition emit_company_admin_rotated ::
  "u64 \<Rightarrow> address \<Rightarrow> address \<Rightarrow> 'x host_scheme \<Rightarrow> 'x host_scheme" where
  [emits]: "emit_company_admin_rotated company_id old_admin new_admin = publish
     [VSym ''CompanyAdminRotated'', VU64 company_id, VAddr old_admin]
     (VVec [VAddr new_admin])"

definition emit_company_admin_rotation_cancelled ::
  "u64 \<Rightarrow> address \<Rightarrow> 'x host_scheme \<Rightarrow> 'x host_scheme" where
  [emits]: "emit_company_admin_rotation_cancelled company_id caller = publish
     [VSym ''CompanyAdminRotCancelled'', VU64 company_id, VAddr caller]
     (VVoid)"

definition emit_company_treasury_proposed ::
  "u64 \<Rightarrow> address \<Rightarrow> address \<Rightarrow> 'x host_scheme \<Rightarrow> 'x host_scheme" where
  [emits]: "emit_company_treasury_proposed company_id current_admin new_treasury = publish
     [VSym ''CompanyTreasProposed'', VU64 company_id, VAddr current_admin]
     (VVec [VAddr new_treasury])"

definition emit_company_treasury_rotated ::
  "u64 \<Rightarrow> address \<Rightarrow> address \<Rightarrow> 'x host_scheme \<Rightarrow> 'x host_scheme" where
  [emits]: "emit_company_treasury_rotated company_id old_treasury new_treasury = publish
     [VSym ''CompanyTreasRotated'', VU64 company_id, VAddr old_treasury]
     (VVec [VAddr new_treasury])"

definition emit_company_treasury_rotation_cancelled ::
  "u64 \<Rightarrow> address \<Rightarrow> 'x host_scheme \<Rightarrow> 'x host_scheme" where
  [emits]: "emit_company_treasury_rotation_cancelled company_id caller = publish
     [VSym ''CompanyTreasRotCancelled'', VU64 company_id, VAddr caller]
     (VVoid)"

definition emit_commitment_stored ::
  "address \<Rightarrow> bytes \<Rightarrow> 'x host_scheme \<Rightarrow> 'x host_scheme" where
  [emits]: "emit_commitment_stored employee commitment = publish
     [VSym ''CommitmentUpdated'', VAddr employee]
     (VVec [VBytes commitment])"

definition emit_commitment_rotated ::
  "address \<Rightarrow> bytes \<Rightarrow> bytes \<Rightarrow> 'x host_scheme \<Rightarrow> 'x host_scheme" where
  [emits]: "emit_commitment_rotated employee old_commitment new_commitment = publish
     [VSym ''CommitmentRotated'', VAddr employee]
     (VVec [VBytes old_commitment, VBytes new_commitment])"

definition emit_commitment_locked ::
  "address \<Rightarrow> 'x host_scheme \<Rightarrow> 'x host_scheme" where
  [emits]: "emit_commitment_locked employee = publish
     [VSym ''CommitmentLocked'', VAddr employee]
     (VVoid)"

definition emit_commitment_unlocked ::
  "address \<Rightarrow> 'x host_scheme \<Rightarrow> 'x host_scheme" where
  [emits]: "emit_commitment_unlocked employee = publish
     [VSym ''CommitmentUnlocked'', VAddr employee]
     (VVoid)"

definition emit_reference_id_set ::
  "address \<Rightarrow> string \<Rightarrow> 'x host_scheme \<Rightarrow> 'x host_scheme" where
  [emits]: "emit_reference_id_set employee reference_id = publish
     [VSym ''ReferenceIdSet'', VAddr employee]
     (VVec [VStr reference_id])"

definition emit_nullifier_recorded ::
  "bytes \<Rightarrow> 'x host_scheme \<Rightarrow> 'x host_scheme" where
  [emits]: "emit_nullifier_recorded nullifier = publish
     [VSym ''NullifierRecorded'']
     (VVec [VBytes nullifier])"

definition emit_payroll_operator_set ::
  "address \<Rightarrow> 'x host_scheme \<Rightarrow> 'x host_scheme" where
  [emits]: "emit_payroll_operator_set operator = publish
     [VSym ''PayrollOperatorSet'']
     (VVec [VAddr operator])"

definition emit_payroll_operator_removed ::
  "address \<Rightarrow> 'x host_scheme \<Rightarrow> 'x host_scheme" where
  [emits]: "emit_payroll_operator_removed operator = publish
     [VSym ''PayrollOperatorRemoved'']
     (VVec [VAddr operator])"

definition emit_commitment_admin_proposed ::
  "address \<Rightarrow> address \<Rightarrow> 'x host_scheme \<Rightarrow> 'x host_scheme" where
  [emits]: "emit_commitment_admin_proposed current_admin new_admin = publish
     [VSym ''AdminRotationProposed'', VAddr current_admin]
     (VVec [VAddr new_admin])"

definition emit_commitment_admin_accepted ::
  "address \<Rightarrow> 'x host_scheme \<Rightarrow> 'x host_scheme" where
  [emits]: "emit_commitment_admin_accepted new_admin = publish
     [VSym ''AdminRotationAccepted'', VAddr new_admin]
     (VVoid)"

definition emit_commitment_admin_cancelled ::
  "address \<Rightarrow> 'x host_scheme \<Rightarrow> 'x host_scheme" where
  [emits]: "emit_commitment_admin_cancelled current_admin = publish
     [VSym ''AdminRotationCancelled'', VAddr current_admin]
     (VVoid)"

definition emit_commitment_pause_manager_set ::
  "address \<Rightarrow> 'x host_scheme \<Rightarrow> 'x host_scheme" where
  [emits]: "emit_commitment_pause_manager_set pause_manager = publish
     [VSym ''CommitPauseMgrSet'']
     (VVec [VAddr pause_manager])"

definition emit_executor_initialized ::
  "address \<Rightarrow> address \<Rightarrow> 'x host_scheme \<Rightarrow> 'x host_scheme" where
  [emits]: "emit_executor_initialized registry token = publish
     [VSym ''ExecutorInitialized'']
     (VVec [VAddr registry, VAddr token])"

definition emit_executor_admin_set ::
  "address \<Rightarrow> 'x host_scheme \<Rightarrow> 'x host_scheme" where
  [emits]: "emit_executor_admin_set admin = publish
     [VSym ''ExecutorAdminSet'']
     (VVec [VAddr admin])"

definition emit_executor_pause_manager_set ::
  "address \<Rightarrow> 'x host_scheme \<Rightarrow> 'x host_scheme" where
  [emits]: "emit_executor_pause_manager_set pause_manager = publish
     [VSym ''ExecutorPauseMgrSet'']
     (VVec [VAddr pause_manager])"

definition emit_period_created ::
  "u64 \<Rightarrow> u32 \<Rightarrow> 'x host_scheme \<Rightarrow> 'x host_scheme" where
  [emits]: "emit_period_created company_id period_id = publish
     [VSym ''PeriodCreated'', VU64 company_id]
     (VVec [VU32 period_id])"

definition emit_period_closed ::
  "u64 \<Rightarrow> u32 \<Rightarrow> 'x host_scheme \<Rightarrow> 'x host_scheme" where
  [emits]: "emit_period_closed company_id period_id = publish
     [VSym ''PeriodClosed'', VU64 company_id]
     (VVec [VU32 period_id])"

definition emit_executor_payment_processed ::
  "u64 \<Rightarrow> address \<Rightarrow> i128 \<Rightarrow> u32 \<Rightarrow> 'x host_scheme \<Rightarrow> 'x host_scheme" where
  [emits]: "emit_executor_payment_processed company_id employee amount period = publish
     [VSym ''PayrollProcessed'', VU64 company_id]
     (VVec [VAddr employee, VI128 amount, VU32 period])"

definition emit_asset_allowed_changed ::
  "address \<Rightarrow> bool \<Rightarrow> 'x host_scheme \<Rightarrow> 'x host_scheme" where
  [emits]: "emit_asset_allowed_changed asset allowed = publish
     [VSym ''AssetAllowedChanged'']
     (VVec [VAddr asset, VBool allowed])"

definition emit_pause_manager_initialized ::
  "address \<Rightarrow> 'x host_scheme \<Rightarrow> 'x host_scheme" where
  [emits]: "emit_pause_manager_initialized operator = publish
     [VSym ''PauseManager'', VSym ''initialized'']
     (VVec [VAddr operator])"

definition emit_paused ::
  "'x host_scheme \<Rightarrow> 'x host_scheme" where
  [emits]: "emit_paused = publish
     [VSym ''PauseManager'', VSym ''paused'']
     (VVoid)"

definition emit_unpaused ::
  "'x host_scheme \<Rightarrow> 'x host_scheme" where
  [emits]: "emit_unpaused = publish
     [VSym ''PauseManager'', VSym ''unpaused'']
     (VVoid)"

definition emit_category_paused ::
  "symbol \<Rightarrow> 'x host_scheme \<Rightarrow> 'x host_scheme" where
  [emits]: "emit_category_paused category_symbol = publish
     [VSym ''PauseManager'', VSym ''category_paused'']
     (VVec [VSym category_symbol])"

definition emit_category_unpaused ::
  "symbol \<Rightarrow> 'x host_scheme \<Rightarrow> 'x host_scheme" where
  [emits]: "emit_category_unpaused category_symbol = publish
     [VSym ''PauseManager'', VSym ''category_unpaused'']
     (VVec [VSym category_symbol])"

definition emit_pause_operator_proposed ::
  "address \<Rightarrow> address \<Rightarrow> 'x host_scheme \<Rightarrow> 'x host_scheme" where
  [emits]: "emit_pause_operator_proposed current new_op = publish
     [VSym ''PauseManager'', VSym ''op_proposed'']
     (VVec [VAddr current, VAddr new_op])"

definition emit_pause_operator_rotated ::
  "address \<Rightarrow> 'x host_scheme \<Rightarrow> 'x host_scheme" where
  [emits]: "emit_pause_operator_rotated new_op = publish
     [VSym ''PauseManager'', VSym ''op_rotated'']
     (VAddr new_op)"

definition emit_pause_operator_cancelled ::
  "address \<Rightarrow> 'x host_scheme \<Rightarrow> 'x host_scheme" where
  [emits]: "emit_pause_operator_cancelled current = publish
     [VSym ''PauseManager'', VSym ''op_cancelled'']
     (VAddr current)"

definition emit_view_key_generated ::
  "address \<Rightarrow> u32 \<Rightarrow> 'x host_scheme \<Rightarrow> 'x host_scheme" where
  [emits]: "emit_view_key_generated auditor expiration_ledger = publish
     [VSym ''ViewKeyGenerated'', VAddr auditor]
     (VVec [VU32 expiration_ledger])"

definition emit_audit_access_revoked ::
  "address \<Rightarrow> address \<Rightarrow> 'x host_scheme \<Rightarrow> 'x host_scheme" where
  [emits]: "emit_audit_access_revoked admin auditor = publish
     [VSym ''AuditAccessRevoked'', VAddr admin, VAddr auditor]
     (VVoid)"

definition emit_audit_successful ::
  "address \<Rightarrow> symbol \<Rightarrow> 'x host_scheme \<Rightarrow> 'x host_scheme" where
  [emits]: "emit_audit_successful auditor scope = publish
     [VSym ''AuditSuccessful'', VAddr auditor]
     (VVec [VSym scope])"

definition emit_aggregate_audit_generated ::
  "address \<Rightarrow> symbol \<Rightarrow> u64 \<Rightarrow> u64 \<Rightarrow> 'x host_scheme \<Rightarrow> 'x host_scheme" where
  [emits]: "emit_aggregate_audit_generated auditor company_id period_start period_end = publish
     [VSym ''AggregateAuditGenerated'', VAddr auditor]
     (VVec [VSym company_id, VU64 period_start, VU64 period_end])"

definition emit_audit_summary_exported ::
  "address \<Rightarrow> symbol \<Rightarrow> u64 \<Rightarrow> u64 \<Rightarrow> u32 \<Rightarrow> 'x host_scheme \<Rightarrow> 'x host_scheme" where
  [emits]: "emit_audit_summary_exported auditor company_id period_start period_end total_v = publish
     [VSym ''AuditSummaryExported'', VAddr auditor]
     (VVec [VSym company_id, VU64 period_start, VU64 period_end, VU32 total_v])"

definition emit_audit_pause_manager_set ::
  "address \<Rightarrow> 'x host_scheme \<Rightarrow> 'x host_scheme" where
  [emits]: "emit_audit_pause_manager_set pause_manager = publish
     [VSym ''AuditPauseMgrSet'']
     (VVec [VAddr pause_manager])"

definition emit_locked_funds_updated ::
  "address \<Rightarrow> i128 \<Rightarrow> 'x host_scheme \<Rightarrow> 'x host_scheme" where
  [emits]: "emit_locked_funds_updated asset locked_amount = publish
     [VSym ''treasury'', VSym ''locked_funds_updated'']
     (VVec [VAddr asset, VI128 locked_amount])"

definition emit_quorum_consumed ::
  "bytes \<Rightarrow> address \<Rightarrow> bytes \<Rightarrow> 'x host_scheme \<Rightarrow> 'x host_scheme" where
  [emits]: "emit_quorum_consumed batch_root employer nonce = publish
     [VSym ''signing'', VSym ''quorum_consumed'']
     (VVec [VBytes batch_root, VAddr employer, VBytes nonce])"

definition emit_compliance_hold_placed ::
  "u64 \<Rightarrow> symbol \<Rightarrow> address \<Rightarrow> symbol \<Rightarrow> address \<Rightarrow> 'x host_scheme \<Rightarrow> 'x host_scheme" where
  [emits]: "emit_compliance_hold_placed hold_id scope target reason_code placed_by = publish
     [payroll_topic, VSym ''hold_placed'']
     (VVec [VU64 hold_id, VSym scope, VAddr target, VSym reason_code, VAddr placed_by])"

definition emit_compliance_hold_released ::
  "u64 \<Rightarrow> address \<Rightarrow> 'x host_scheme \<Rightarrow> 'x host_scheme" where
  [emits]: "emit_compliance_hold_released hold_id released_by = publish
     [payroll_topic, VSym ''hold_released'']
     (VVec [VU64 hold_id, VAddr released_by])"

definition emit_reservation_expired ::
  "address \<Rightarrow> i128 \<Rightarrow> u64 \<Rightarrow> 'x host_scheme \<Rightarrow> 'x host_scheme" where
  [emits]: "emit_reservation_expired asset amount expired_at = publish
     [payroll_topic, VSym ''reservation_expired'']
     (VVec [VAddr asset, VI128 amount, VU64 expired_at])"

definition emit_reservation_expiry_released ::
  "address \<Rightarrow> i128 \<Rightarrow> 'x host_scheme \<Rightarrow> 'x host_scheme" where
  [emits]: "emit_reservation_expiry_released asset released_amount = publish
     [payroll_topic, VSym ''reservation_released'']
     (VVec [VAddr asset, VI128 released_amount])"

definition emit_payroll_run_archived ::
  "u64 \<Rightarrow> address \<Rightarrow> symbol \<Rightarrow> 'x host_scheme \<Rightarrow> 'x host_scheme" where
  [emits]: "emit_payroll_run_archived run_id archived_by archive_reason = publish
     [payroll_topic, VSym ''run_archived'']
     (VVec [VU64 run_id, VAddr archived_by, VSym archive_reason])"

definition emit_draft_finalized ::
  "u64 \<Rightarrow> i128 \<Rightarrow> u32 \<Rightarrow> 'x host_scheme \<Rightarrow> 'x host_scheme" where
  [emits]: "emit_draft_finalized draft_id total_v amendment_count = publish
     [payroll_topic, VSym ''draft_finalized'']
     (VVec [VU64 draft_id, VI128 total_v, VU32 amendment_count])"

definition emit_draft_submitted ::
  "u64 \<Rightarrow> address \<Rightarrow> 'x host_scheme \<Rightarrow> 'x host_scheme" where
  [emits]: "emit_draft_submitted draft_id admin = publish
     [payroll_topic, VSym ''draft_submitted'']
     (VVec [VU64 draft_id, VAddr admin])"

definition emit_draft_cancelled ::
  "u64 \<Rightarrow> address \<Rightarrow> 'x host_scheme \<Rightarrow> 'x host_scheme" where
  [emits]: "emit_draft_cancelled draft_id admin = publish
     [payroll_topic, VSym ''draft_cancelled'']
     (VVec [VU64 draft_id, VAddr admin])"

definition emit_draft_expired ::
  "u64 \<Rightarrow> address \<Rightarrow> 'x host_scheme \<Rightarrow> 'x host_scheme" where
  [emits]: "emit_draft_expired draft_id admin = publish
     [payroll_topic, VSym ''draft_expired'']
     (VVec [VU64 draft_id, VAddr admin])"

definition emit_reconciliation_updated ::
  "u64 \<Rightarrow> symbol \<Rightarrow> 'x host_scheme \<Rightarrow> 'x host_scheme" where
  [emits]: "emit_reconciliation_updated run_id status = publish
     [payroll_topic, VSym ''reconciliation_updated'']
     (VVec [VU64 run_id, VSym status])"

definition emit_admin_proposed ::
  "address \<Rightarrow> address \<Rightarrow> 'x host_scheme \<Rightarrow> 'x host_scheme" where
  [emits]: "emit_admin_proposed current_admin new_admin = publish
     [payroll_topic, VSym ''admin_proposed'']
     (VVec [VAddr current_admin, VAddr new_admin])"

definition emit_admin_rotated ::
  "address \<Rightarrow> address \<Rightarrow> 'x host_scheme \<Rightarrow> 'x host_scheme" where
  [emits]: "emit_admin_rotated old_admin new_admin = publish
     [payroll_topic, VSym ''admin_rotated'']
     (VVec [VAddr old_admin, VAddr new_admin])"

definition emit_admin_rotation_cancelled ::
  "address \<Rightarrow> 'x host_scheme \<Rightarrow> 'x host_scheme" where
  [emits]: "emit_admin_rotation_cancelled caller = publish
     [payroll_topic, VSym ''admin_rot_cancel'']
     (VAddr caller)"

definition emit_admin_handover_requested ::
  "address \<Rightarrow> address \<Rightarrow> 'x host_scheme \<Rightarrow> 'x host_scheme" where
  [emits]: "emit_admin_handover_requested current_admin pending_admin = publish
     [payroll_topic, VSym ''admin_handover_req'']
     (VVec [VAddr current_admin, VAddr pending_admin])"

definition emit_admin_handover_accepted ::
  "address \<Rightarrow> address \<Rightarrow> 'x host_scheme \<Rightarrow> 'x host_scheme" where
  [emits]: "emit_admin_handover_accepted old_admin new_admin = publish
     [payroll_topic, VSym ''admin_handover_acc'']
     (VVec [VAddr old_admin, VAddr new_admin])"

definition emit_admin_handover_cancelled ::
  "address \<Rightarrow> 'x host_scheme \<Rightarrow> 'x host_scheme" where
  [emits]: "emit_admin_handover_cancelled caller = publish
     [payroll_topic, VSym ''admin_handover_can'']
     (VAddr caller)"

definition emit_treasury_proposed ::
  "address \<Rightarrow> address \<Rightarrow> 'x host_scheme \<Rightarrow> 'x host_scheme" where
  [emits]: "emit_treasury_proposed current_owner new_owner = publish
     [payroll_topic, VSym ''treasury_proposed'']
     (VVec [VAddr current_owner, VAddr new_owner])"

definition emit_treasury_rotated ::
  "address \<Rightarrow> address \<Rightarrow> 'x host_scheme \<Rightarrow> 'x host_scheme" where
  [emits]: "emit_treasury_rotated old_owner new_owner = publish
     [payroll_topic, VSym ''treasury_rotated'']
     (VVec [VAddr old_owner, VAddr new_owner])"

definition emit_treasury_rotation_cancelled ::
  "address \<Rightarrow> 'x host_scheme \<Rightarrow> 'x host_scheme" where
  [emits]: "emit_treasury_rotation_cancelled caller = publish
     [payroll_topic, VSym ''treas_rot_cancel'']
     (VAddr caller)"

definition emit_reviewer_added ::
  "address \<Rightarrow> 'x host_scheme \<Rightarrow> 'x host_scheme" where
  [emits]: "emit_reviewer_added reviewer = publish
     [payroll_topic, VSym ''reviewer_added'']
     (VAddr reviewer)"

definition emit_reviewer_removed ::
  "address \<Rightarrow> 'x host_scheme \<Rightarrow> 'x host_scheme" where
  [emits]: "emit_reviewer_removed reviewer = publish
     [payroll_topic, VSym ''reviewer_removed'']
     (VAddr reviewer)"

definition emit_run_approved ::
  "u64 \<Rightarrow> address \<Rightarrow> 'x host_scheme \<Rightarrow> 'x host_scheme" where
  [emits]: "emit_run_approved run_id reviewer = publish
     [payroll_topic, VSym ''run_approved'']
     (VVec [VU64 run_id, VAddr reviewer])"

definition emit_run_rejected ::
  "u64 \<Rightarrow> address \<Rightarrow> symbol \<Rightarrow> 'x host_scheme \<Rightarrow> 'x host_scheme" where
  [emits]: "emit_run_rejected run_id reviewer reason = publish
     [payroll_topic, VSym ''run_rejected'']
     (VVec [VU64 run_id, VAddr reviewer, VSym reason])"

definition emit_run_changes_requested ::
  "u64 \<Rightarrow> address \<Rightarrow> symbol \<Rightarrow> 'x host_scheme \<Rightarrow> 'x host_scheme" where
  [emits]: "emit_run_changes_requested run_id reviewer reason = publish
     [payroll_topic, VSym ''changes_requested'']
     (VVec [VU64 run_id, VAddr reviewer, VSym reason])"

definition emit_company_registered ::
  "u64 \<Rightarrow> address \<Rightarrow> address \<Rightarrow> 'x host_scheme \<Rightarrow> 'x host_scheme" where
  [emits]: "emit_company_registered company_id admin treasury = publish
     [VSym ''CompanyRegistered'', VU64 company_id]
     (VVec [VAddr admin, VAddr treasury])"

definition emit_employee_added ::
  "u64 \<Rightarrow> address \<Rightarrow> bytes \<Rightarrow> 'x host_scheme \<Rightarrow> 'x host_scheme" where
  [emits]: "emit_employee_added company_id employee commitment = publish
     [VSym ''EmployeeAdded'', VU64 company_id, VAddr employee]
     (VVec [VBytes commitment])"

definition emit_employee_removed ::
  "u64 \<Rightarrow> address \<Rightarrow> 'x host_scheme \<Rightarrow> 'x host_scheme" where
  [emits]: "emit_employee_removed company_id employee = publish
     [VSym ''EmployeeRemoved'', VU64 company_id, VAddr employee]
     (VVoid)"

definition emit_registry_commitment_updated ::
  "u64 \<Rightarrow> address \<Rightarrow> bytes \<Rightarrow> 'x host_scheme \<Rightarrow> 'x host_scheme" where
  [emits]: "emit_registry_commitment_updated company_id employee new_commitment = publish
     [VSym ''CommitmentUpdated'', VU64 company_id, VAddr employee]
     (VVec [VBytes new_commitment])"

definition emit_employee_status_changed ::
  "u64 \<Rightarrow> address \<Rightarrow> symbol \<Rightarrow> symbol \<Rightarrow> 'x host_scheme \<Rightarrow> 'x host_scheme" where
  [emits]: "emit_employee_status_changed company_id employee previous_status new_status = publish
     [VSym ''EmployeeStatusChanged'', VU64 company_id, VAddr employee]
     (VVec [VSym previous_status, VSym new_status])"

lemmas publish_unfold [emits] = publish_def

end
