(* ===== verification/Interfaces.thy ===== *)
theory Interfaces
  imports Prelude
begin

text \<open>
  The contracts that components promise each other, as locales: sequences of
  transactions against one contract, the two-step handover of a privileged role
  (propose by the holder, accept by the successor), and the token ledger that the
  paying contracts call. Each locale is interpreted in the theory of the component that
  provides the operations.
\<close>

section \<open>Transactions\<close>

text \<open>
  A transaction that faults leaves the storage as it was; a history of transactions runs
  them in order.
\<close>

definition transact :: "('c \<Rightarrow> 's \<Rightarrow> 'r + 's) \<Rightarrow> 'c \<Rightarrow> 's \<Rightarrow> 's" where
  "transact invoke c s = (case invoke c s of Inl _ \<Rightarrow> s | Inr s' \<Rightarrow> s')"

primrec run_calls :: "('c \<Rightarrow> 's \<Rightarrow> 'r + 's) \<Rightarrow> 'c list \<Rightarrow> 's \<Rightarrow> 's" where
  "run_calls invoke [] s = s"
| "run_calls invoke (c # cs) s = run_calls invoke cs (transact invoke c s)"

lemma run_calls_append [simp]:
  "run_calls f (xs @ ys) s = run_calls f ys (run_calls f xs s)"
  by (induction xs arbitrary: s) simp_all

lemma transact_cases:
  obtains "transact f c s = s" | s' where "f c s = Inr s'" "transact f c s = s'"
  by (cases "f c s") (auto simp: transact_def)

text \<open>An invariant that every successful call keeps holds after every history.\<close>

lemma run_calls_invariant:
  assumes "\<And>c s s'. I s \<Longrightarrow> f c s = Inr s' \<Longrightarrow> I s'" and "I s"
  shows "I (run_calls f cs s)"
  using assms(2)
proof (induction cs arbitrary: s)
  case Nil
  then show ?case by simp
next
  case (Cons c cs)
  have "I (transact f c s)"
    using Cons.prems assms(1) by (cases rule: transact_cases [of f c s]) auto
  then show ?case by (simp add: Cons.IH)
qed

text \<open>The same when only the calls of this history are known to keep the invariant.\<close>

lemma run_calls_invariant_on:
  assumes "I s" "\<And>c s s'. c \<in> set cs \<Longrightarrow> I s \<Longrightarrow> f c s = Inr s' \<Longrightarrow> I s'"
  shows "I (run_calls f cs s)"
  using assms
proof (induction cs arbitrary: s)
  case Nil
  then show ?case by simp
next
  case (Cons c cs)
  have "I (transact f c s)"
    using Cons.prems by (cases rule: transact_cases [of f c s]) auto
  with Cons.IH [OF this] Cons.prems(2) show ?case by auto
qed

text \<open>A relation between the first and the last state that each call extends.\<close>

lemma run_calls_relation:
  assumes "\<And>s. R s s" and "\<And>s t u. R s t \<Longrightarrow> R t u \<Longrightarrow> R s u"
    and "\<And>c s s'. f c s = Inr s' \<Longrightarrow> R s s'"
  shows "R s (run_calls f cs s)"
proof (induction cs arbitrary: s)
  case Nil
  then show ?case by (simp add: assms(1))
next
  case (Cons c cs)
  have "R s (transact f c s)"
    using assms(1,3) by (cases rule: transact_cases [of f c s]) auto
  from assms(2) [OF this Cons.IH] show ?case by simp
qed

section \<open>Change of a role with consent\<close>

text \<open>
  A role has a holder, and proposals that name a successor together with the address that
  made them. Of all the calls of a contract, only one that the holder authorizes may record
  a proposal, and only one that a proposed successor authorizes may change the holder. The
  laws are required in the legal states, which the calls preserve.
\<close>

locale role_change =
  fixes invoke :: "'c \<Rightarrow> 's \<Rightarrow> 'r + 's"
    and holder :: "'s \<Rightarrow> address option"
    and proposals :: "'s \<Rightarrow> (address \<times> address) set"
    and proposal :: "'c \<Rightarrow> (address \<times> address) option"
    and acceptance :: "'c \<Rightarrow> address option"
    and authorised :: "'c \<Rightarrow> address \<Rightarrow> bool"
    and legal :: "'s \<Rightarrow> bool"
  assumes holder_change:
    "legal s \<Longrightarrow> invoke c s = Inr s' \<Longrightarrow> holder s = Some h \<Longrightarrow> holder s' \<noteq> Some h \<Longrightarrow>
      \<exists>n by. acceptance c = Some n \<and> authorised c n \<and> (n, by) \<in> proposals s \<and> holder s' = Some n"
    and proposal_new:
    "legal s \<Longrightarrow> invoke c s = Inr s' \<Longrightarrow> (n, by) \<in> proposals s' \<Longrightarrow> (n, by) \<notin> proposals s \<Longrightarrow>
      proposal c = Some (by, n) \<and> authorised c by \<and> holder s = Some by"
    and legal_step: "legal s \<Longrightarrow> invoke c s = Inr s' \<Longrightarrow> legal s'"
begin

lemma legal_run: "legal s \<Longrightarrow> legal (run_calls invoke cs s)"
  by (rule run_calls_invariant [where I = legal]) (auto intro: legal_step)

text \<open>A recorded proposal goes back to a successful call of the address that then held the role.\<close>

lemma proposal_made:
  assumes "(n, by) \<in> proposals (run_calls invoke cs s)" "proposals s = {}" "legal s"
  shows "\<exists>xs p ys s1. cs = xs @ p # ys \<and> invoke p (run_calls invoke xs s) = Inr s1 \<and>
    proposal p = Some (by, n) \<and> authorised p by \<and> holder (run_calls invoke xs s) = Some by"
  using assms(1)
proof (induction cs rule: rev_induct)
  case Nil
  then show ?case using assms(2) by simp
next
  case (snoc c cs)
  let ?t = "run_calls invoke cs s"
  show ?case
  proof (cases "(n, by) \<in> proposals ?t")
    case True
    then obtain xs p ys s1 where "cs = xs @ p # ys" "invoke p (run_calls invoke xs s) = Inr s1"
      "proposal p = Some (by, n)" "authorised p by" "holder (run_calls invoke xs s) = Some by"
      using snoc.IH by blast
    then show ?thesis by (intro exI [of _ xs] exI [of _ p] exI [of _ "ys @ [c]"] exI [of _ s1]) simp
  next
    case False
    with snoc.prems obtain s' where s': "invoke c ?t = Inr s'" "(n, by) \<in> proposals s'"
      by (cases rule: transact_cases [of invoke c ?t]) auto
    from proposal_new [OF legal_run [OF assms(3)] s' False] s'(1) show ?thesis by blast
  qed
qed

text \<open>The role changes hands only by a successful proposal of the holder of that time, and after it a
  successful acceptance that makes the proposed address the holder, each with the authorization of
  its party.\<close>

lemma handover_steps:
  assumes "holder s = Some h" "proposals s = {}"
    and "holder (run_calls invoke cs s) = Some n" "n \<noteq> h" "legal s"
  shows "\<exists>xs p ys a zs by s1 s2. cs = xs @ p # ys @ a # zs \<and>
    invoke p (run_calls invoke xs s) = Inr s1 \<and> proposal p = Some (by, n) \<and> authorised p by \<and>
    holder (run_calls invoke xs s) = Some by \<and>
    invoke a (run_calls invoke (xs @ p # ys) s) = Inr s2 \<and> acceptance a = Some n \<and> authorised a n \<and> holder s2 = Some n"
  using assms(3)
proof (induction cs rule: rev_induct)
  case Nil
  then show ?case using assms by simp
next
  case (snoc c cs)
  let ?t = "run_calls invoke cs s"
  have L: "legal ?t" by (rule legal_run [OF assms(5)])
  show ?case
  proof (cases "holder ?t = Some n")
    case True
    from snoc.IH [OF this] obtain xs p ys a zs b s1 s2 where "cs = xs @ p # ys @ a # zs"
      "invoke p (run_calls invoke xs s) = Inr s1" "proposal p = Some (b, n)" "authorised p b"
      "holder (run_calls invoke xs s) = Some b" "invoke a (run_calls invoke (xs @ p # ys) s) = Inr s2"
      "acceptance a = Some n" "authorised a n" "holder s2 = Some n" by blast
    then show ?thesis
      by (intro exI [of _ xs] exI [of _ p] exI [of _ ys] exI [of _ a] exI [of _ "zs @ [c]"] exI [of _ b]
          exI [of _ s1] exI [of _ s2]) simp
  next
    case False
    with snoc.prems obtain s' where s': "invoke c ?t = Inr s'" "holder s' = Some n"
      by (cases rule: transact_cases [of invoke c ?t]) auto
    have "legal ?t \<and> (\<exists>m. holder ?t = Some m)"
      by (rule run_calls_invariant [where I = "\<lambda>s. legal s \<and> (\<exists>m. holder s = Some m)"])
        (use holder_change legal_step assms(1,5) in blast)+
    then obtain m where m: "holder ?t = Some m" by blast
    with False s'(2) have "holder s' \<noteq> Some m" by auto
    from holder_change [OF L s'(1) m this] s'(2)
    obtain b where a: "acceptance c = Some n" "authorised c n" "(n, b) \<in> proposals ?t"
      by auto
    from proposal_made [OF a(3) assms(2,5)] obtain xs p ys s1 where p: "cs = xs @ p # ys"
      "invoke p (run_calls invoke xs s) = Inr s1" "proposal p = Some (b, n)" "authorised p b"
      "holder (run_calls invoke xs s) = Some b" by blast
    with a(1,2) s' show ?thesis
      by (intro exI [of _ xs] exI [of _ p] exI [of _ ys] exI [of _ c] exI [of _ "[]"] exI [of _ b]
          exI [of _ s1] exI [of _ s']) simp
  qed
qed

text \<open>In particular both parties authorized a call.\<close>

lemma handover_consent:
  assumes "holder s = Some h" "proposals s = {}"
    and "holder (run_calls invoke cs s) = Some n" "n \<noteq> h" "legal s"
  shows "(\<exists>c \<in> set cs. acceptance c = Some n \<and> authorised c n) \<and>
    (\<exists>c \<in> set cs. \<exists>by. proposal c = Some (by, n) \<and> authorised c by)"
  using handover_steps [OF assms] by fastforce

end

text \<open>The two-step handover has a single pending proposal, which acceptance clears.\<close>

locale two_step_role =
  fixes invoke :: "'c \<Rightarrow> 's \<Rightarrow> 'r + 's"
    and holder :: "'s \<Rightarrow> address option"
    and pending :: "'s \<Rightarrow> (address \<times> address) option"
    and proposal :: "'c \<Rightarrow> (address \<times> address) option"
    and acceptance :: "'c \<Rightarrow> address option"
    and authorised :: "'c \<Rightarrow> address \<Rightarrow> bool"
    and legal :: "'s \<Rightarrow> bool"
  assumes holder_step:
    "legal s \<Longrightarrow> invoke c s = Inr s' \<Longrightarrow> holder s = Some h \<Longrightarrow> holder s' \<noteq> Some h \<Longrightarrow>
      \<exists>n by. acceptance c = Some n \<and> authorised c n \<and> pending s = Some (n, by) \<and>
        holder s' = Some n \<and> pending s' = None"
    and pending_step:
    "legal s \<Longrightarrow> invoke c s = Inr s' \<Longrightarrow> pending s' = Some (n, by) \<Longrightarrow> pending s \<noteq> Some (n, by) \<Longrightarrow>
      proposal c = Some (by, n) \<and> authorised c by \<and> holder s = Some by \<and> holder s' = holder s"
    and legal_kept: "legal s \<Longrightarrow> invoke c s = Inr s' \<Longrightarrow> legal s'"
begin

text \<open>In particular a pending proposal always stems from the present holder.\<close>

definition consented :: "'s \<Rightarrow> bool" where
  "consented s \<longleftrightarrow> (\<forall>n by. pending s = Some (n, by) \<longrightarrow> holder s = Some by)"

lemma consented_step:
  assumes "legal s" "invoke c s = Inr s'" "consented s"
  shows "consented s'"
  unfolding consented_def
proof (intro allI impI)
  fix n b assume p: "pending s' = Some (n, b)"
  show "holder s' = Some b"
  proof (cases "pending s = Some (n, b)")
    case True
    then have h: "holder s = Some b" using assms(3) by (simp add: consented_def)
    show ?thesis
    proof (rule ccontr)
      assume "holder s' \<noteq> Some b"
      with holder_step [OF assms(1,2) h] p show False by auto
    qed
  next
    case False
    with pending_step [OF assms(1,2) p] show ?thesis by auto
  qed
qed

lemma consented_run:
  assumes "legal s" "consented s"
  shows "consented (run_calls invoke cs s)"
proof -
  have "legal (run_calls invoke cs s) \<and> consented (run_calls invoke cs s)"
    by (rule run_calls_invariant [where I = "\<lambda>s. legal s \<and> consented s"])
      (use assms consented_step legal_kept in blast)+
  then show ?thesis ..
qed

end

sublocale two_step_role \<subseteq> role_change invoke holder "\<lambda>s. set_option (pending s)" proposal acceptance
  authorised legal
proof unfold_locales
  fix s c s' h
  assume "legal s" "invoke c s = Inr s'" "holder s = Some h" "holder s' \<noteq> Some h"
  from holder_step [OF this] show "\<exists>n by. acceptance c = Some n \<and> authorised c n \<and>
    (n, by) \<in> set_option (pending s) \<and> holder s' = Some n" by auto
next
  fix s c s' n b
  assume "legal s" "invoke c s = Inr s'" "(n, b) \<in> set_option (pending s')" "(n, b) \<notin> set_option (pending s)"
  with pending_step [of s c s' n b] show "proposal c = Some (b, n) \<and> authorised c b \<and> holder s = Some b" by auto
qed (rule legal_kept)

section \<open>Token ledger\<close>

text \<open>
  What the paying contracts rely on: a transfer moves exactly the amount, from the payer
  to the payee, and touches no other balance.
\<close>

locale token_ledger =
  fixes transfer :: "address \<Rightarrow> address \<Rightarrow> i128 \<Rightarrow> 't \<Rightarrow> 'r + 't"
    and balance :: "'t \<Rightarrow> address \<Rightarrow> i128"
  assumes transfer_ok:
    "transfer a b m t = Inr t' \<Longrightarrow>
      balance t' = (balance t)(a := balance t a - m, b := (if a = b then balance t a else balance t b + m))"
    and transfer_amount: "transfer a b m t = Inr t' \<Longrightarrow> 0 \<le> m \<and> m \<le> balance t a"
begin

lemma transfer_payer: "transfer a b m t = Inr t' \<Longrightarrow> a \<noteq> b \<Longrightarrow> balance t' a = balance t a - m"
  by (simp add: transfer_ok)

lemma transfer_payee: "transfer a b m t = Inr t' \<Longrightarrow> a \<noteq> b \<Longrightarrow> balance t' b = balance t b + m"
  by (simp add: transfer_ok)

lemma transfer_other:
  "transfer a b m t = Inr t' \<Longrightarrow> c \<noteq> a \<Longrightarrow> c \<noteq> b \<Longrightarrow> balance t' c = balance t c"
  by (simp add: transfer_ok)

lemma transfer_conserves:
  assumes "transfer a b m t = Inr t'" "finite A" "a \<in> A" "b \<in> A"
  shows "sum (balance t') A = sum (balance t) A"
proof (cases "a = b")
  case True
  then show ?thesis by (simp add: transfer_ok [OF assms(1)])
next
  case False
  let ?f = "(balance t)(a := balance t a - m)"
  have "sum (balance t') A = sum (?f(b := balance t b + m)) A"
    using False by (simp only: transfer_ok [OF assms(1)] if_False)
  also have "\<dots> = sum ?f A - ?f b + (balance t b + m)"
    by (rule sum_fun_upd [OF assms(2,4)])
  also have "sum ?f A = sum (balance t) A - balance t a + (balance t a - m)"
    by (rule sum_fun_upd [OF assms(2,3)])
  finally show ?thesis using False by simp
qed

lemma transfer_nonneg:
  assumes "transfer a b m t = Inr t'" "\<forall>c. 0 \<le> balance t c"
  shows "0 \<le> balance t' c"
  using assms transfer_ok [OF assms(1)] transfer_amount [OF assms(1)] by (auto simp: add_nonneg_nonneg)

text \<open>Payments to a list of payees from one payer.\<close>

primrec pay_all :: "address \<Rightarrow> (address \<times> i128) list \<Rightarrow> 't \<Rightarrow> 'r + 't" where
  "pay_all a [] t = Inr t"
| "pay_all a (p # ps) t = and_then (transfer a (fst p) (snd p) t) (pay_all a ps)"

lemma pay_all_payer:
  "pay_all a ps t = Inr t' \<Longrightarrow> a \<notin> fst ` set ps \<Longrightarrow>
    balance t' a = balance t a - sum_list (map snd ps)"
  by (induction ps arbitrary: t) (auto simp: transfer_payer)

lemma pay_all_payee:
  assumes "pay_all a ps t = Inr t'" "a \<notin> fst ` set ps" "distinct (map fst ps)" "(b, m) \<in> set ps"
  shows "balance t' b = balance t b + m"
  using assms
proof (induction ps arbitrary: t)
  case Nil
  then show ?case by simp
next
  case (Cons p ps)
  from Cons.prems obtain t1 where t1: "transfer a (fst p) (snd p) t = Inr t1" "pay_all a ps t1 = Inr t'"
    by auto
  have other: "balance t' c = balance t1 c" if "c \<notin> fst ` set ps" "c \<noteq> a" for c
    using t1(2) that
  proof (induction ps arbitrary: t1)
    case Nil
    then show ?case by simp
  next
    case (Cons q qs)
    then show ?case by (auto simp: transfer_other)
  qed
  show ?case
  proof (cases "(b, m) = p")
    case True
    with Cons.prems have "b \<notin> fst ` set ps" "b \<noteq> a" by (force simp: image_iff)+
    with other t1(1) True show ?thesis by (auto simp: transfer_payee)
  next
    case False
    with Cons.prems have "(b, m) \<in> set ps" by auto
    moreover from this Cons.prems have "b \<noteq> fst p" "b \<noteq> a" by (force simp: image_iff)+
    ultimately show ?thesis
      using Cons.IH [OF t1(2)] Cons.prems t1(1) by (auto simp: transfer_other)
  qed
qed

lemma pay_all_other:
  "pay_all a ps t = Inr t' \<Longrightarrow> c \<notin> fst ` set ps \<Longrightarrow> c \<noteq> a \<Longrightarrow> balance t' c = balance t c"
  by (induction ps arbitrary: t) (auto simp: transfer_other)

text \<open>Payer and payees together, also when the payer is a payee of its own payments.\<close>

lemma pay_all_balance:
  "pay_all a ps t = Inr t' \<Longrightarrow>
    balance t' c = balance t c - (if c = a then sum_list (map snd ps) else 0) +
      sum_list (map snd (filter (\<lambda>p. fst p = c) ps))"
  by (induction ps arbitrary: t) (auto simp: transfer_ok)

lemma pay_all_conserves:
  assumes "pay_all a ps t = Inr t'" "finite A" "a \<in> A" "fst ` set ps \<subseteq> A"
  shows "sum (balance t') A = sum (balance t) A"
  using assms
proof (induction ps arbitrary: t)
  case Nil
  then show ?case by simp
next
  case (Cons p ps)
  then obtain t1 where t1: "transfer a (fst p) (snd p) t = Inr t1" "pay_all a ps t1 = Inr t'"
    by auto
  from Cons.IH [OF t1(2)] Cons.prems transfer_conserves [OF t1(1)] show ?case by auto
qed

end

end
