(* ===== verification/Pause_Manager.thy ===== *)
theory Pause_Manager
  imports Events Interfaces
begin

text \<open>
  \<open>contracts/pause_manager/src/lib.rs\<close>: the emergency switch that the other contracts
  consult. Its storage, every entry point, the two-step rotation of the operator (an
  instance of \<open>two_step_role\<close>) and the effect of each call on the pause flags. The
  environment of the contracts that hold a pause manager's address extends \<open>env\<close> by the
  deployed pause managers (\<open>penv\<close>).
\<close>

section \<open>Storage\<close>

datatype PauseCategory = Payroll | Treasury | Audit | Admin

record PauseStatus =
  payroll_paused :: bool
  treasury_paused :: bool
  audit_paused :: bool
  admin_paused :: bool

record PendingOperatorRotation =
  new_operator :: address
  op_proposed_by :: address
  op_proposed_at :: u64

record pause_manager = host +
  paused :: "PauseCategory \<rightharpoonup> bool"
  operator :: "address option"
  pending_operator :: "PendingOperatorRotation option"

definition all_categories :: "PauseCategory list" where
  "all_categories = [Payroll, Treasury, Audit, Admin]"

definition category_symbol :: "PauseCategory \<Rightarrow> symbol" where
  "category_symbol c = (case c of Payroll \<Rightarrow> ''payroll'' | Treasury \<Rightarrow> ''treasury''
     | Audit \<Rightarrow> ''audit'' | Admin \<Rightarrow> ''admin'')"

primrec set_paused_each :: "bool \<Rightarrow> PauseCategory list \<Rightarrow> pause_manager \<Rightarrow> pause_manager" where
  "set_paused_each b [] s = s"
| "set_paused_each b (c # cs) s = set_paused_each b cs (s\<lparr>paused := (paused s)(c \<mapsto> b)\<rparr>)"

section \<open>Entry points\<close>

definition initialize_pm ::
  "'x env_scheme \<Rightarrow> address \<Rightarrow> pause_manager \<Rightarrow> ('e, pause_manager) result" where
  "initialize_pm e op s =
     and_then (panic_if (operator s \<noteq> None) ''Already initialized'') (\<lambda>_.
     Inr (emit_pause_manager_initialized op
            (set_paused_each False all_categories (s\<lparr>operator := Some op\<rparr>))))"

definition pause :: "'x env_scheme \<Rightarrow> pause_manager \<Rightarrow> ('e, pause_manager) result" where
  "pause e s =
     and_then (expect ''Not initialized'' (operator s)) (\<lambda>op.
     and_then (require_auth e op) (\<lambda>_.
     Inr (emit_paused (set_paused_each True all_categories s))))"

definition unpause :: "'x env_scheme \<Rightarrow> pause_manager \<Rightarrow> ('e, pause_manager) result" where
  "unpause e s =
     and_then (expect ''Not initialized'' (operator s)) (\<lambda>op.
     and_then (require_auth e op) (\<lambda>_.
     Inr (emit_unpaused (set_paused_each False all_categories s))))"

definition pause_category ::
  "'x env_scheme \<Rightarrow> PauseCategory \<Rightarrow> pause_manager \<Rightarrow> ('e, pause_manager) result" where
  "pause_category e c s =
     and_then (expect ''Not initialized'' (operator s)) (\<lambda>op.
     and_then (require_auth e op) (\<lambda>_.
     Inr (emit_category_paused (category_symbol c) (s\<lparr>paused := (paused s)(c \<mapsto> True)\<rparr>))))"

definition unpause_category ::
  "'x env_scheme \<Rightarrow> PauseCategory \<Rightarrow> pause_manager \<Rightarrow> ('e, pause_manager) result" where
  "unpause_category e c s =
     and_then (expect ''Not initialized'' (operator s)) (\<lambda>op.
     and_then (require_auth e op) (\<lambda>_.
     Inr (emit_category_unpaused (category_symbol c) (s\<lparr>paused := (paused s)(c \<mapsto> False)\<rparr>))))"

primrec any_paused :: "PauseCategory list \<Rightarrow> pause_manager \<Rightarrow> bool" where
  "any_paused [] s = False"
| "any_paused (c # cs) s = (if unwrap_or False (paused s c) then True else any_paused cs s)"

definition is_paused :: "pause_manager \<Rightarrow> bool" where
  "is_paused s = any_paused all_categories s"

definition is_category_paused :: "pause_manager \<Rightarrow> PauseCategory \<Rightarrow> bool" where
  "is_category_paused s c = unwrap_or False (paused s c)"

definition get_pause_status :: "pause_manager \<Rightarrow> PauseStatus" where
  "get_pause_status s =
     \<lparr>payroll_paused = unwrap_or False (paused s Payroll),
      treasury_paused = unwrap_or False (paused s Treasury),
      audit_paused = unwrap_or False (paused s Audit),
      admin_paused = unwrap_or False (paused s Admin)\<rparr>"

definition propose_operator_rotation ::
  "'x env_scheme \<Rightarrow> address \<Rightarrow> address \<Rightarrow> pause_manager \<Rightarrow> ('e, pause_manager) result" where
  "propose_operator_rotation e current new s =
     and_then (expect ''Not initialized'' (operator s)) (\<lambda>op.
     and_then (panic_if (current \<noteq> op) ''Unauthorized: caller is not the current operator'') (\<lambda>_.
     and_then (require_auth e current) (\<lambda>_.
     and_then (panic_if (pending_operator s \<noteq> None)
                 ''A pending operator rotation already exists'') (\<lambda>_.
     Inr (publish [VSym ''PauseManager'', VSym ''op_proposed''] (VVec [VAddr current, VAddr new])
            (s\<lparr>pending_operator := Some \<lparr>new_operator = new, op_proposed_by = current,
               op_proposed_at = timestamp e\<rparr>\<rparr>))))))"

definition accept_operator_rotation ::
  "'x env_scheme \<Rightarrow> address \<Rightarrow> pause_manager \<Rightarrow> ('e, pause_manager) result" where
  "accept_operator_rotation e new s =
     and_then (expect ''No pending operator rotation'' (pending_operator s)) (\<lambda>p.
     and_then (panic_if (new \<noteq> new_operator p)
                 ''Unauthorized: caller is not the proposed operator'') (\<lambda>_.
     and_then (require_auth e new) (\<lambda>_.
     Inr (publish [VSym ''PauseManager'', VSym ''op_rotated''] (VAddr new)
            (s\<lparr>operator := Some new, pending_operator := None\<rparr>)))))"

definition cancel_operator_rotation ::
  "'x env_scheme \<Rightarrow> address \<Rightarrow> pause_manager \<Rightarrow> ('e, pause_manager) result" where
  "cancel_operator_rotation e current s =
     and_then (expect ''Not initialized'' (operator s)) (\<lambda>op.
     and_then (panic_if (current \<noteq> op) ''Unauthorized'') (\<lambda>_.
     and_then (require_auth e current) (\<lambda>_.
     and_then (panic_if (pending_operator s = None)
                 ''No pending operator rotation to cancel'') (\<lambda>_.
     Inr (publish [VSym ''PauseManager'', VSym ''op_cancelled''] (VAddr current)
            (s\<lparr>pending_operator := None\<rparr>))))))"

definition get_pending_operator_rotation :: "pause_manager \<Rightarrow> PendingOperatorRotation option" where
  "get_pending_operator_rotation s = pending_operator s"

definition get_operator :: "pause_manager \<Rightarrow> ('e, address) result" where
  "get_operator s = expect ''Not initialized'' (operator s)"

text \<open>The state-changing entry points as one dispatch function.\<close>

datatype pm_call =
    PmInitialize address
  | PmPause
  | PmUnpause
  | PmPauseCategory PauseCategory
  | PmUnpauseCategory PauseCategory
  | PmPropose address address
  | PmAccept address
  | PmCancel address

definition pm_invoke :: "env \<times> pm_call \<Rightarrow> pause_manager \<Rightarrow> (unit, pause_manager) result" where
  "pm_invoke c s = (case c of (e, call) \<Rightarrow> (case call of
     PmInitialize op \<Rightarrow> initialize_pm e op s
   | PmPause \<Rightarrow> pause e s
   | PmUnpause \<Rightarrow> unpause e s
   | PmPauseCategory k \<Rightarrow> pause_category e k s
   | PmUnpauseCategory k \<Rightarrow> unpause_category e k s
   | PmPropose a b \<Rightarrow> propose_operator_rotation e a b s
   | PmAccept a \<Rightarrow> accept_operator_rotation e a s
   | PmCancel a \<Rightarrow> cancel_operator_rotation e a s))"

lemmas pm_defs = initialize_pm_def pause_def unpause_def pause_category_def unpause_category_def
  propose_operator_rotation_def accept_operator_rotation_def cancel_operator_rotation_def

section \<open>Pause flags\<close>

lemma set_paused_each_frame [simp]:
  "operator (set_paused_each b cs s) = operator s"
  "pending_operator (set_paused_each b cs s) = pending_operator s"
  "events (set_paused_each b cs s) = events s"
  by (induction cs arbitrary: s) simp_all

lemma paused_set_paused_each:
  "paused (set_paused_each b cs s) c = (if c \<in> set cs then Some b else paused s c)"
  by (induction cs arbitrary: s) auto

lemma set_all_categories [simp]: "set all_categories = UNIV"
proof -
  have "c \<in> set all_categories" for c by (cases c) (simp_all add: all_categories_def)
  then show ?thesis by auto
qed

lemma any_paused_iff: "any_paused cs s \<longleftrightarrow> (\<exists>c \<in> set cs. is_category_paused s c)"
  by (induction cs) (auto simp: is_category_paused_def)

lemma is_paused_iff: "is_paused s \<longleftrightarrow> (\<exists>c. is_category_paused s c)"
  by (simp add: is_paused_def any_paused_iff)

text \<open>A successful \<open>pause\<close> makes \<open>is_paused\<close> true and every category paused, whatever the
  flags were; a successful \<open>unpause\<close> makes \<open>is_paused\<close> false again; both need the operator's
  authorization and neither touches the operator or a pending rotation.\<close>

lemma pause_unpause_effect:
  assumes "pause e s = Inr s1" "unpause e' s1 = Inr s2"
  shows "is_paused s1 \<and> (\<forall>c. is_category_paused s1 c) \<and> \<not> is_paused s2 \<and>
    (\<exists>op. operator s = Some op \<and> auth e op \<and> auth e' op) \<and>
    operator s2 = operator s \<and> pending_operator s2 = pending_operator s"
  using assms
  by (auto simp: pause_def unpause_def is_paused_iff is_category_paused_def emits
      paused_set_paused_each)

text \<open>\<open>is_paused\<close> agrees with the four flags that \<open>get_pause_status\<close> reports, and pausing
  or releasing one category changes the status of that category only, so the system stays
  paused exactly while another category is.\<close>

lemma category_pause_effect:
  assumes "unpause_category e c s = Inr s'"
  shows "(is_paused s' \<longleftrightarrow> (\<exists>k. k \<noteq> c \<and> is_category_paused s k)) \<and>
    (is_paused s' \<longleftrightarrow>
      payroll_paused (get_pause_status s') \<or> treasury_paused (get_pause_status s') \<or>
      audit_paused (get_pause_status s') \<or> admin_paused (get_pause_status s'))"
proof
  show "is_paused s' \<longleftrightarrow> (\<exists>k. k \<noteq> c \<and> is_category_paused s k)"
    using assms by (auto simp: unpause_category_def is_paused_iff is_category_paused_def emits
        split: if_splits)
  show "is_paused s' \<longleftrightarrow>
      payroll_paused (get_pause_status s') \<or> treasury_paused (get_pause_status s') \<or>
      audit_paused (get_pause_status s') \<or> admin_paused (get_pause_status s')"
    by (auto simp: is_paused_def all_categories_def get_pause_status_def)
qed

definition pm_env :: "address list \<Rightarrow> env" where
  "pm_env as = \<lparr>timestamp = 1000, sequence = 10, auth = (\<lambda>a. a \<in> set as),
     current_contract = Address ''PM'', sha256 = (\<lambda>b. take 32 (b @ zero32)), address_xdr = (\<lambda>_. []),
     symbol_xdr = (\<lambda>_. []), bytes_xdr = id\<rparr>"

definition pm_demo :: pause_manager where
  "pm_demo = \<lparr>events = [], paused = [Payroll \<mapsto> False, Audit \<mapsto> True],
     operator = Some (Address ''OP''), pending_operator = None\<rparr>"

lemmas pm_demo_defs = pm_env_def pm_demo_def all_categories_def emits

lemma pause_unpause_effect_witness:
  "\<exists>s1 s2. pause (pm_env [Address ''OP'']) pm_demo = (Inr s1 :: (unit, pause_manager) result) \<and>
    unpause (pm_env [Address ''OP'']) s1 = (Inr s2 :: (unit, pause_manager) result) \<and>
    is_paused s1 \<and> \<not> is_paused s2"
proof -
  let ?e = "pm_env [Address ''OP'']"
  obtain s1 s2 where s: "pause ?e pm_demo = (Inr s1 :: (unit, pause_manager) result)"
    "unpause ?e s1 = (Inr s2 :: (unit, pause_manager) result)"
    by (simp add: pause_def unpause_def pm_demo_defs require_auth_def)
  from pause_unpause_effect [OF s] s show ?thesis by blast
qed

lemma category_pause_effect_witness:
  "\<exists>s'. unpause_category (pm_env [Address ''OP'']) Audit pm_demo = (Inr s' :: (unit, pause_manager) result)
    \<and> \<not> is_paused s'"
proof -
  let ?e = "pm_env [Address ''OP'']"
  obtain s' where s: "unpause_category ?e Audit pm_demo = (Inr s' :: (unit, pause_manager) result)"
    by (simp add: unpause_category_def pm_demo_defs require_auth_def)
  have "\<not> (\<exists>k. k \<noteq> Audit \<and> is_category_paused pm_demo k)"
    by (simp add: is_category_paused_def pm_demo_def unwrap_or_def split: if_splits)
  with category_pause_effect [OF s] s show ?thesis by blast
qed

section \<open>Operator rotation\<close>

definition pm_pending :: "pause_manager \<Rightarrow> (address \<times> address) option" where
  "pm_pending s = map_option (\<lambda>p. (new_operator p, op_proposed_by p)) (pending_operator s)"

definition pm_proposal :: "env \<times> pm_call \<Rightarrow> (address \<times> address) option" where
  "pm_proposal c = (case snd c of PmPropose a b \<Rightarrow> Some (a, b) | _ \<Rightarrow> None)"

definition pm_acceptance :: "env \<times> pm_call \<Rightarrow> address option" where
  "pm_acceptance c = (case snd c of PmAccept a \<Rightarrow> Some a | _ \<Rightarrow> None)"

interpretation pm_role: two_step_role pm_invoke operator pm_pending pm_proposal pm_acceptance
  "\<lambda>c. auth (fst c)" "\<lambda>_. True"
proof unfold_locales
  fix c s s' h
  assume "pm_invoke c s = Inr s'" "operator s = Some h" "operator s' \<noteq> Some h"
  then show "\<exists>n by. pm_acceptance c = Some n \<and> auth (fst c) n \<and> pm_pending s = Some (n, by) \<and>
      operator s' = Some n \<and> pm_pending s' = None"
    by (cases c; cases "snd c")
      (auto simp: pm_invoke_def pm_defs pm_acceptance_def pm_pending_def emits)
next
  fix c s s' n b
  assume "pm_invoke c s = Inr s'" "pm_pending s' = Some (n, b)" "pm_pending s \<noteq> Some (n, b)"
  then show "pm_proposal c = Some (b, n) \<and> auth (fst c) b \<and> operator s = Some b \<and> operator s' = operator s"
    by (cases c; cases "snd c")
      (auto simp: pm_invoke_def pm_defs pm_proposal_def pm_pending_def emits)
qed simp

text \<open>Over any history of calls to the pause manager, the operator changes only when some
  operator authorized a proposal naming the new one and the new one authorized its
  acceptance.\<close>

lemma operator_handover_needs_both:
  assumes "operator s = Some h" "pending_operator s = None"
    and "operator (run_calls pm_invoke cs s) = Some n" "n \<noteq> h"
  shows "(\<exists>e. (e, PmAccept n) \<in> set cs \<and> auth e n) \<and>
    (\<exists>e by. (e, PmPropose by n) \<in> set cs \<and> auth e by)"
proof -
  have "pm_pending s = None" using assms(2) by (simp add: pm_pending_def)
  then have "set_option (pm_pending s) = {}" by simp
  from pm_role.handover_consent [OF assms(1) this assms(3,4) TrueI] show ?thesis
    by (fastforce simp: pm_acceptance_def pm_proposal_def split: pm_call.splits)
qed

definition pm_handover_calls :: "(env \<times> pm_call) list" where
  "pm_handover_calls = [(pm_env [Address ''OP''], PmPropose (Address ''OP'') (Address ''NEW'')),
     (pm_env [Address ''NEW''], PmAccept (Address ''NEW''))]"

lemma operator_handover_needs_both_witness:
  "operator (run_calls pm_invoke pm_handover_calls pm_demo) = Some (Address ''NEW'') \<and>
   (\<exists>e. (e, PmAccept (Address ''NEW'')) \<in> set pm_handover_calls \<and> auth e (Address ''NEW'')) \<and>
   (\<exists>e by. (e, PmPropose by (Address ''NEW'')) \<in> set pm_handover_calls \<and> auth e by)"
proof -
  have h: "operator pm_demo = Some (Address ''OP'')" "pending_operator pm_demo = None"
    by (simp_all add: pm_demo_def)
  have n: "operator (run_calls pm_invoke pm_handover_calls pm_demo) = Some (Address ''NEW'')"
    by (simp add: pm_handover_calls_def transact_def pm_invoke_def pm_defs pm_demo_defs require_auth_def)
  from operator_handover_needs_both [OF h n] n show ?thesis by simp
qed

section \<open>Pause guard of the other contracts\<close>

record penv = env +
  pause_managers :: "address \<rightharpoonup> pause_manager"

text \<open>
  The guard \<open>require_not_paused\<close> that payroll, payment executor, registry, salary commitment
  and audit module share: no configured pause manager, or one that is not paused. The
  message is the caller's.
\<close>

definition pause_guard :: "string \<Rightarrow> 'x penv_scheme \<Rightarrow> address option \<Rightarrow> ('e, unit) result" where
  "pause_guard msg e pm = (case pm of
     None \<Rightarrow> Inr ()
   | Some a \<Rightarrow> and_then (ok_or (NoContract a) (pause_managers e a)) (\<lambda>m.
       panic_if (is_paused m) msg))"

lemma pause_guard_ok [simp, outcome]:
  "pause_guard msg e pm = Inr u \<longleftrightarrow>
     (\<forall>a. pm = Some a \<longrightarrow> (\<exists>m. pause_managers e a = Some m \<and> \<not> is_paused m))"
  by (cases pm) (auto simp: pause_guard_def)

lemma pause_guard_None [simp]: "pause_guard msg e None = Inr ()"
  by (simp add: pause_guard_def)

lemma pause_guard_paused:
  assumes "pm = Some a" "pause_managers e a = Some m" "is_paused m"
  shows "pause_guard msg e pm = Inl (Panic msg)"
  using assms by (simp add: pause_guard_def)

lemma pause_managers_invoked_by_self [simp]:
  "pause_managers (invoked_by_self e) = pause_managers e"
  by (simp add: invoked_by_self_def)

end
