(* ===== verification/Token.thy ===== *)
theory Token
  imports Interfaces
begin

text \<open>
  \<open>contracts/token/src/lib.rs\<close>: the token contract of the workspace. Balances, \<open>mint\<close>,
  \<open>balance\<close> and \<open>transfer\<close>, and the proof that they provide the \<open>token_ledger\<close> interface
  the paying contracts call.
\<close>

record token =
  balances :: "address \<rightharpoonup> i128"

definition balance :: "token \<Rightarrow> address \<Rightarrow> i128" where
  "balance t a = unwrap_or 0 (balances t a)"

text \<open>\<open>initialize\<close> is a placeholder in the source: it stores nothing.\<close>

definition token_initialize :: "address \<Rightarrow> u32 \<Rightarrow> string \<Rightarrow> string \<Rightarrow> token \<Rightarrow> ('e, token) result" where
  "token_initialize adm decimal name sy t = Inr t"

definition mint :: "address \<Rightarrow> i128 \<Rightarrow> token \<Rightarrow> ('e, token) result" where
  "mint to amount t =
     and_then (panic_if (amount < 0) ''Mint amount must be non-negative'') (\<lambda>_.
     and_then (add_i128 (unwrap_or 0 (balances t to)) amount) (\<lambda>v.
     Inr (t\<lparr>balances := (balances t)(to \<mapsto> v)\<rparr>)))"

definition transfer :: "address \<Rightarrow> address \<Rightarrow> i128 \<Rightarrow> token \<Rightarrow> ('e, token) result" where
  "transfer from to amount t =
     and_then (panic_if (amount < 0) ''Transfer amount must be non-negative'') (\<lambda>_.
     let from_balance = unwrap_or 0 (balances t from) in
     and_then (panic_if (from_balance < amount) ''Insufficient balance'') (\<lambda>_.
     and_then (sub_i128 from_balance amount) (\<lambda>v.
     let t1 = t\<lparr>balances := (balances t)(from \<mapsto> v)\<rparr> in
     and_then (add_i128 (unwrap_or 0 (balances t1 to)) amount) (\<lambda>v2.
     Inr (t1\<lparr>balances := (balances t1)(to \<mapsto> v2)\<rparr>)))))"

lemma transfer_balance:
  assumes "transfer a b m t = Inr t'"
  shows "balance t' = (balance t)(a := balance t a - m, b := (if a = b then balance t a else balance t b + m))"
  using assms by (auto simp: transfer_def balance_def fun_eq_iff Let_def)

lemma transfer_bound:
  assumes "transfer a b m t = Inr t'"
  shows "0 \<le> m \<and> m \<le> balance t a"
  using assms by (auto simp: transfer_def balance_def Let_def)

interpretation tok: token_ledger transfer balance
  by unfold_locales (simp_all add: transfer_balance transfer_bound)

text \<open>In a list of payments to different payees the payments to one of them are one payment.\<close>

lemma paid_once: "distinct (map fst ps) \<Longrightarrow> (c, m) \<in> set ps \<Longrightarrow> sum_list (map snd (filter (\<lambda>p. fst p = c) ps)) = m"
proof (induction ps)
  case (Cons p ps)
  show ?case
  proof (cases "p = (c, m)")
    case True
    then have "filter (\<lambda>p. fst p = c) ps = []" using Cons.prems(1) by (force simp: filter_empty_conv)
    with True show ?thesis by simp
  next
    case False
    with Cons.prems(2) have mem: "(c, m) \<in> set ps" by simp
    then have "c \<in> fst ` set ps" by force
    with Cons.prems(1) have "fst p \<noteq> c" by auto
    with Cons mem show ?thesis by simp
  qed
qed simp

text \<open>A transfer is rejected when the amount is negative or exceeds the payer's balance;
  otherwise it moves exactly the amount and leaves every other balance and the total over any
  set of accounts that holds both parties unchanged, also when payer and payee coincide.\<close>

lemma transfer_conserves_supply:
  assumes "transfer a b m t = (Inr t' :: ('e, token) result)" "finite A" "a \<in> A" "b \<in> A"
  shows "sum (balance t') A = sum (balance t) A \<and> 0 \<le> m \<and> m \<le> balance t a \<and>
    (a \<noteq> b \<longrightarrow> balance t' a = balance t a - m \<and> balance t' b = balance t b + m) \<and>
    (\<forall>c. c \<noteq> a \<and> c \<noteq> b \<longrightarrow> balance t' c = balance t c)"
  using tok.transfer_conserves [OF assms] transfer_bound [OF assms(1)]
    tok.transfer_payer [OF assms(1)] tok.transfer_payee [OF assms(1)] tok.transfer_other [OF assms(1)]
  by blast

definition token_demo :: token where
  "token_demo = \<lparr>balances = [Address ''T'' \<mapsto> 100, Address ''A'' \<mapsto> 5]\<rparr>"

lemma transfer_conserves_supply_witness:
  "\<exists>t'. transfer (Address ''T'') (Address ''A'') 30 token_demo = (Inr t' :: (unit, token) result) \<and>
     sum (balance t') {Address ''T'', Address ''A''} = 105"
proof -
  obtain t' where t: "transfer (Address ''T'') (Address ''A'') 30 token_demo = (Inr t' :: (unit, token) result)"
    by (simp add: transfer_def token_demo_def in_i128_def add_i128_def sub_i128_def)
  from transfer_conserves_supply [OF t, of "{Address ''T'', Address ''A''}"] t show ?thesis
    by (simp add: balance_def token_demo_def)
qed

end
