(* ===== verification/Proof_Verifier.thy ===== *)
theory Proof_Verifier
  imports Pause_Manager
begin

text \<open>
  \<open>contracts/proof_verifier/src/lib.rs\<close>: the verification key, the arity check in front of
  the (simulated) Groth16 pairing check, and the expiring, revocable proof references. The
  theorems are about the references: what a positive answer through a reference implies,
  and that expiry and revocation are final over every history of calls.
\<close>

section \<open>Storage\<close>

record Groth16Proof =
  proof_a :: bytes
  proof_b :: bytes
  proof_c :: bytes

record VerificationKey =
  vk_alpha :: bytes
  vk_beta :: bytes
  vk_gamma :: bytes
  vk_delta :: bytes
  vk_ic :: "bytes list"

record ProofReference =
  proof_hash :: bytes
  registered_at_ledger :: u32
  expires_at_ledger :: u32
  revoked :: bool

datatype ProofError =
    NotInitialized
  | AlreadyInitialized
  | ReferenceAlreadyExists
  | ReferenceNotFound
  | ReferenceExpired
  | ReferenceRevoked
  | InvalidExpiry
  | ExpiryBeyondCap
  | ProofMismatch

record proof_verifier = host +
  verification_key :: "VerificationKey option"
  verifier_admin :: "address option"
  references :: "bytes \<rightharpoonup> ProofReference"

definition MAX_REFERENCE_TTL_LEDGERS :: u32 where
  "MAX_REFERENCE_TTL_LEDGERS = 518400"

section \<open>Entry points\<close>

definition init_verifier_admin ::
  "address \<Rightarrow> proof_verifier \<Rightarrow> ('e, proof_verifier) result" where
  "init_verifier_admin admin s =
     and_then (panic_if (verifier_admin s \<noteq> None) ''Already initialized'') (\<lambda>_.
     Inr (s\<lparr>verifier_admin := Some admin\<rparr>))"

definition get_verifier_admin :: "proof_verifier \<Rightarrow> ('e, address) result" where
  "get_verifier_admin s = expect ''Not initialized'' (verifier_admin s)"

definition require_verifier_admin :: "'x env_scheme \<Rightarrow> proof_verifier \<Rightarrow> ('e, unit) result" where
  "require_verifier_admin e s =
     and_then (expect ''Not initialized'' (verifier_admin s)) (\<lambda>admin. require_auth e admin)"

definition initialize_verifier ::
  "'x env_scheme \<Rightarrow> VerificationKey \<Rightarrow> proof_verifier \<Rightarrow> ('e, proof_verifier) result" where
  "initialize_verifier e vk s =
     and_then (require_verifier_admin e s) (\<lambda>_.
     and_then (panic_if (verification_key s \<noteq> None) ''Verifier already initialized'') (\<lambda>_.
     Inr (s\<lparr>verification_key := Some vk\<rparr>)))"

definition get_verification_key :: "proof_verifier \<Rightarrow> ('e, VerificationKey) result" where
  "get_verification_key s = expect ''Verifier not initialized'' (verification_key s)"

definition simulated_verify_groth16 :: "VerificationKey \<Rightarrow> bytes \<Rightarrow> bytes list \<Rightarrow> bool" where
  "simulated_verify_groth16 vk prf public_inputs = True"

definition verify_payment_proof ::
  "bytes \<Rightarrow> bytes list \<Rightarrow> proof_verifier \<Rightarrow> ('e, bool) result" where
  "verify_payment_proof prf public_inputs s =
     and_then (expect ''Verifier not initialized'' (verification_key s)) (\<lambda>vk.
     if length public_inputs + 1 \<noteq> length (vk_ic vk) then Inr False
     else Inr (simulated_verify_groth16 vk prf public_inputs))"

text \<open>Copying \<open>a\<close>, \<open>b\<close> and \<open>c\<close> into a zeroed 256-byte buffer at offsets 0, 64 and 192.\<close>

definition copy_at :: "nat \<Rightarrow> bytes \<Rightarrow> bytes \<Rightarrow> bytes" where
  "copy_at i src buf = take i buf @ src @ drop (i + length src) buf"

definition pack_groth16_proof :: "Groth16Proof \<Rightarrow> bytes" where
  "pack_groth16_proof p =
     copy_at 192 (proof_c p) (copy_at 64 (proof_b p) (copy_at 0 (proof_a p) (replicate 256 0)))"

definition verify :: "Groth16Proof \<Rightarrow> bytes list \<Rightarrow> proof_verifier \<Rightarrow> ('e, bool) result" where
  "verify p public_inputs s = verify_payment_proof (pack_groth16_proof p) public_inputs s"

definition proof_digest :: "'x env_scheme \<Rightarrow> bytes \<Rightarrow> bytes" where
  "proof_digest e prf = sha256 e prf"

definition register_proof_reference ::
  "'x env_scheme \<Rightarrow> address \<Rightarrow> bytes \<Rightarrow> bytes \<Rightarrow> u32 \<Rightarrow> proof_verifier \<Rightarrow>
   (ProofError, ProofReference \<times> proof_verifier) result" where
  "register_proof_reference e admin ref_id prf expires s =
     and_then (require_auth e admin) (\<lambda>_.
     and_then (fail_if (references s ref_id \<noteq> None) (Err ReferenceAlreadyExists)) (\<lambda>_.
     and_then (fail_if (expires \<le> sequence e) (Err InvalidExpiry)) (\<lambda>_.
     and_then (fail_if (saturating_sub expires (sequence e) > MAX_REFERENCE_TTL_LEDGERS)
                 (Err ExpiryBeyondCap)) (\<lambda>_.
     let reference = \<lparr>proof_hash = proof_digest e prf, registered_at_ledger = sequence e,
                      expires_at_ledger = expires, revoked = False\<rparr> in
     Inr (reference,
          publish [VSym ''ProofRefRegistered'', VBytes ref_id] (VVec [VU32 expires])
            (s\<lparr>references := (references s)(ref_id \<mapsto> reference)\<rparr>))))))"

definition revoke_proof_reference ::
  "'x env_scheme \<Rightarrow> address \<Rightarrow> bytes \<Rightarrow> proof_verifier \<Rightarrow> (ProofError, proof_verifier) result" where
  "revoke_proof_reference e admin ref_id s =
     and_then (require_auth e admin) (\<lambda>_.
     and_then (ok_or (Err ReferenceNotFound) (references s ref_id)) (\<lambda>reference.
     Inr (publish [VSym ''ProofRefRevoked'', VBytes ref_id] VVoid
            (s\<lparr>references := (references s)(ref_id \<mapsto> reference\<lparr>revoked := True\<rparr>)\<rparr>))))"

definition get_proof_reference ::
  "bytes \<Rightarrow> proof_verifier \<Rightarrow> (ProofError, ProofReference) result" where
  "get_proof_reference ref_id s = ok_or (Err ReferenceNotFound) (references s ref_id)"

definition reference_is_current ::
  "'x env_scheme \<Rightarrow> ProofReference \<Rightarrow> (ProofError, unit) result" where
  "reference_is_current e r =
     and_then (fail_if (revoked r) (Err ReferenceRevoked)) (\<lambda>_.
     and_then (fail_if (sequence e > expires_at_ledger r) (Err ReferenceExpired)) (\<lambda>_.
     Inr ()))"

definition is_ok :: "'e + 'a \<Rightarrow> bool" where
  "is_ok r = (case r of Inl _ \<Rightarrow> False | Inr _ \<Rightarrow> True)"

definition is_proof_reference_valid :: "'x env_scheme \<Rightarrow> bytes \<Rightarrow> proof_verifier \<Rightarrow> bool" where
  "is_proof_reference_valid e ref_id s = (case references s ref_id of
     Some r \<Rightarrow> is_ok (reference_is_current e r)
   | None \<Rightarrow> False)"

definition verify_with_reference ::
  "'x env_scheme \<Rightarrow> bytes \<Rightarrow> bytes \<Rightarrow> bytes list \<Rightarrow> proof_verifier \<Rightarrow> ('e, bool) result" where
  "verify_with_reference e ref_id prf public_inputs s = (case references s ref_id of
     None \<Rightarrow> Inr False
   | Some r \<Rightarrow>
       if \<not> is_ok (reference_is_current e r) then Inr False
       else if proof_hash r \<noteq> proof_digest e prf then Inr False
       else verify_payment_proof prf public_inputs s)"

datatype pv_call =
    PvInitAdmin address
  | PvInitVerifier VerificationKey
  | PvRegister address bytes bytes u32
  | PvRevoke address bytes

definition pv_invoke ::
  "env \<times> pv_call \<Rightarrow> proof_verifier \<Rightarrow> (ProofError, proof_verifier) result" where
  "pv_invoke c s = (case c of (e, call) \<Rightarrow> (case call of
     PvInitAdmin a \<Rightarrow> init_verifier_admin a s
   | PvInitVerifier vk \<Rightarrow> initialize_verifier e vk s
   | PvRegister a i p x \<Rightarrow> and_then (register_proof_reference e a i p x s) (\<lambda>(_, s'). Inr s')
   | PvRevoke a i \<Rightarrow> revoke_proof_reference e a i s))"

lemmas pv_defs = init_verifier_admin_def initialize_verifier_def register_proof_reference_def
  revoke_proof_reference_def require_verifier_admin_def

section \<open>References\<close>

lemma reference_is_current_ok [simp]:
  "is_ok (reference_is_current e r) \<longleftrightarrow> \<not> revoked r \<and> sequence e \<le> expires_at_ledger r"
  by (auto simp: is_ok_def reference_is_current_def fail_if_def)

text \<open>A positive answer through a reference: the reference exists, is neither revoked nor past
  its expiry ledger, was registered for exactly these proof bytes (up to the digest), and
  the number of public inputs fits the verification key.\<close>

text \<open>\<open>verify_with_reference\<close> answers true exactly when the reference is registered, not
  revoked, not past its expiry ledger, carries the digest of the supplied proof, and the
  number of public inputs matches the verification key.\<close>

lemma verify_with_reference_iff:
  "verify_with_reference e i prf ins s = (Inr True :: ('e, bool) result) \<longleftrightarrow>
    (\<exists>r vk. references s i = Some r \<and> \<not> revoked r \<and> sequence e \<le> expires_at_ledger r \<and>
      proof_hash r = sha256 e prf \<and> verification_key s = Some vk \<and>
      length ins + 1 = length (vk_ic vk))"
  by (auto simp: verify_with_reference_def verify_payment_proof_def proof_digest_def
      simulated_verify_groth16_def split: option.splits)

text \<open>References evolve only by being revoked: the digest and both ledgers are fixed.\<close>

definition refs_extend :: "proof_verifier \<Rightarrow> proof_verifier \<Rightarrow> bool" where
  "refs_extend s t \<longleftrightarrow> (\<forall>i r. references s i = Some r \<longrightarrow>
     (\<exists>r'. references t i = Some r' \<and> proof_hash r' = proof_hash r \<and>
       expires_at_ledger r' = expires_at_ledger r \<and>
       registered_at_ledger r' = registered_at_ledger r \<and> (revoked r \<longrightarrow> revoked r')))"

lemma pv_invoke_extends: "pv_invoke c s = Inr s' \<Longrightarrow> refs_extend s s'"
  by (cases c; cases "snd c")
    (auto simp: pv_invoke_def pv_defs refs_extend_def emits publish_def Let_def)

lemma refs_extend_refl: "refs_extend s s"
  by (simp add: refs_extend_def)

lemma refs_extend_trans: "refs_extend s t \<Longrightarrow> refs_extend t u \<Longrightarrow> refs_extend s u"
  unfolding refs_extend_def by metis

lemma refs_extend_run: "refs_extend s (run_calls pv_invoke cs s)"
  by (rule run_calls_relation [OF refs_extend_refl refs_extend_trans pv_invoke_extends])

text \<open>Expiry and revocation are final: once a registered reference does not authorize, no
  later ledger and no further history of calls to the verifier makes it authorize again.\<close>

lemma reference_never_revives:
  assumes "references s i = Some r" "\<not> is_proof_reference_valid e i s" "sequence e \<le> sequence e'"
  shows "\<not> is_proof_reference_valid e' i (run_calls pv_invoke cs s)"
proof -
  from refs_extend_run [of s cs] assms(1) obtain r' where
    "references (run_calls pv_invoke cs s) i = Some r'" "expires_at_ledger r' = expires_at_ledger r"
    "revoked r \<longrightarrow> revoked r'"
    by (auto simp: refs_extend_def)
  with assms show ?thesis
    by (auto simp: is_proof_reference_valid_def)
qed

definition refs_wf :: "proof_verifier \<Rightarrow> bool" where
  "refs_wf s \<longleftrightarrow> (\<forall>i r. references s i = Some r \<longrightarrow>
     registered_at_ledger r < expires_at_ledger r \<and>
     unat (expires_at_ledger r) \<le> unat (registered_at_ledger r) + 518400)"

lemma refs_wf_step:
  assumes "refs_wf s" "pv_invoke c s = Inr s'"
  shows "refs_wf s'"
proof (cases c)
  case (Pair e call)
  show ?thesis
  proof (cases call)
    case (PvRegister a i p x)
    with Pair assms(2) have c: "sequence e < x" "saturating_sub x (sequence e) \<le> MAX_REFERENCE_TTL_LEDGERS"
      and s': "references s' = (references s)(i \<mapsto> \<lparr>proof_hash = proof_digest e p,
        registered_at_ledger = sequence e, expires_at_ledger = x, revoked = False\<rparr>)"
      by (auto simp: pv_invoke_def pv_defs emits publish_def Let_def)
    from c(2) have "unat x - unat (sequence e) \<le> 518400"
      by (simp add: word_le_nat_alt saturating_sub_unat MAX_REFERENCE_TTL_LEDGERS_def)
    with c(1) s' assms(1) show ?thesis by (auto simp: refs_wf_def)
  qed (use Pair assms in \<open>auto simp: pv_invoke_def pv_defs refs_wf_def publish_def split: if_splits\<close>)
qed

text \<open>In every state reached from one without references, each reference lives for at
  least one and at most 518400 ledgers after its registration.\<close>

lemma reference_lifetime_bounded:
  assumes "references s = Map.empty" "references (run_calls pv_invoke cs s) i = Some r"
  shows "registered_at_ledger r < expires_at_ledger r \<and>
    unat (expires_at_ledger r) - unat (registered_at_ledger r) \<le> 518400"
proof -
  have "refs_wf s" using assms(1) by (simp add: refs_wf_def)
  then have "refs_wf (run_calls pv_invoke cs s)"
    by (rule run_calls_invariant [where I = refs_wf, rotated]) (rule refs_wf_step)
  with assms(2) have "registered_at_ledger r < expires_at_ledger r"
    "unat (expires_at_ledger r) \<le> unat (registered_at_ledger r) + 518400"
    unfolding refs_wf_def by blast+
  then show ?thesis by linarith
qed

text \<open>The stored verifier admin plays no part in revocation: any address that signs for
  itself revokes any registered reference.\<close>

lemma any_signer_revokes_reference:
  assumes "references s i = Some r" "auth e intruder"
  shows "\<exists>s'. revoke_proof_reference e intruder i s = Inr s' \<and>
    references s' i = Some (r\<lparr>revoked := True\<rparr>) \<and> verifier_admin s' = verifier_admin s"
  using assms by (auto simp: revoke_proof_reference_def publish_def)

section \<open>Packing a proof\<close>

text \<open>\<open>pack_groth16_proof\<close> loses nothing: from a proof with components of 64, 128 and 64
  bytes it makes 256 bytes whose slices are the three components.\<close>

lemma pack_groth16_roundtrip:
  assumes "length (proof_a p) = 64" "length (proof_b p) = 128" "length (proof_c p) = 64"
  shows "length (pack_groth16_proof p) = 256 \<and>
    take 64 (pack_groth16_proof p) = proof_a p \<and>
    take 128 (drop 64 (pack_groth16_proof p)) = proof_b p \<and>
    drop 192 (pack_groth16_proof p) = proof_c p"
  using assms by (simp add: pack_groth16_proof_def copy_at_def)

section \<open>Witnesses\<close>

definition ref_id_demo :: bytes where
  "ref_id_demo = [7]"

definition verifier_demo :: proof_verifier where
  "verifier_demo = \<lparr>events = [],
     verification_key = Some \<lparr>vk_alpha = [], vk_beta = [], vk_gamma = [], vk_delta = [], vk_ic = [[1], [2]]\<rparr>,
     verifier_admin = Some (Address ''ADM''),
     references = [ref_id_demo \<mapsto> \<lparr>proof_hash = [1], registered_at_ledger = 1,
       expires_at_ledger = 5, revoked = False\<rparr>]\<rparr>"

lemma reference_never_revives_witness:
  "\<not> is_proof_reference_valid (pm_env []) ref_id_demo
     (run_calls pv_invoke [(pm_env [Address ''X''], PvRegister (Address ''X'') ref_id_demo [3] 20)] verifier_demo)"
proof -
  have r: "references verifier_demo ref_id_demo = Some \<lparr>proof_hash = [1], registered_at_ledger = 1,
       expires_at_ledger = 5, revoked = False\<rparr>"
    by (simp add: verifier_demo_def)
  have "\<not> is_proof_reference_valid (pm_env []) ref_id_demo verifier_demo"
    by (simp add: is_proof_reference_valid_def r pm_env_def)
  then show ?thesis by (rule reference_never_revives [OF r]) simp
qed

lemma reference_lifetime_bounded_witness:
  "\<exists>r. references (run_calls pv_invoke
      [(pm_env [Address ''X''], PvRegister (Address ''X'') [9] [3] 20)]
      (verifier_demo\<lparr>references := Map.empty\<rparr>)) [9] = Some r \<and>
    unat (expires_at_ledger r) - unat (registered_at_ledger r) \<le> 518400"
proof -
  let ?s = "verifier_demo\<lparr>references := Map.empty\<rparr>"
  let ?cs = "[(pm_env [Address ''X''], PvRegister (Address ''X'') [9] [3] 20)]"
  have e: "references ?s = Map.empty" by simp
  obtain r where r: "references (run_calls pv_invoke ?cs ?s) [9] = Some r"
    by (simp add: transact_def pv_invoke_def pv_defs pm_env_def MAX_REFERENCE_TTL_LEDGERS_def
        saturating_sub_def publish_def Let_def require_auth_def)
  from reference_lifetime_bounded [OF e r] r show ?thesis by blast
qed

lemma any_signer_revokes_reference_witness:
  "\<exists>s'. revoke_proof_reference (pm_env [Address ''MALLORY'']) (Address ''MALLORY'') ref_id_demo verifier_demo
     = Inr s' \<and> \<not> is_proof_reference_valid (pm_env []) ref_id_demo s'"
proof -
  have r: "references verifier_demo ref_id_demo = Some \<lparr>proof_hash = [1], registered_at_ledger = 1,
       expires_at_ledger = 5, revoked = False\<rparr>"
    by (simp add: verifier_demo_def)
  have "auth (pm_env [Address ''MALLORY'']) (Address ''MALLORY'')" by (simp add: pm_env_def)
  from any_signer_revokes_reference [OF r this] show ?thesis
    by (auto simp: is_proof_reference_valid_def)
qed

lemma pack_groth16_roundtrip_witness:
  "take 128 (drop 64 (pack_groth16_proof
     \<lparr>proof_a = replicate 64 1, proof_b = replicate 128 2, proof_c = replicate 64 3\<rparr>)) = replicate 128 2"
  using pack_groth16_roundtrip [of
    "\<lparr>proof_a = replicate 64 1, proof_b = replicate 128 2, proof_c = replicate 64 3\<rparr>"]
  by simp

end
