(* ===== verification/Salary_Commitment.thy ===== *)
theory Salary_Commitment
  imports Pause_Manager Events
begin

text \<open>
  \<open>contracts/salary_commitment/src/lib.rs\<close>: salary commitments per employee with their
  archive, update locks, employee reference ids, payment nullifiers, the delegated payroll
  operator and the two-step admin rotation. The theorems state that a commitment value is
  never bound twice, that the archive is an append-only list, that a lock freezes a
  commitment, that reference ids are a bijection, and that a nullifier is used at most once.
\<close>

section \<open>Storage\<close>

record SalaryCommitment =
  commitment :: bytes
  created_at :: u64
  updated_at :: u64
  version :: u32
  commitment_revoked :: bool

record PaymentNullifier =
  nullifier :: bytes
  used_at :: u64

record CommitmentSnapshot =
  snapshot_commitment :: bytes
  snapshot_version :: u32
  rotated_at :: u64

record PendingRotation =
  new_holder :: address
  proposed_by :: address
  proposed_at :: u64

record salary_commitment = host +
  commitments :: "address \<rightharpoonup> SalaryCommitment"
  nullifiers :: "bytes \<rightharpoonup> PaymentNullifier"
  commitment_history :: "address \<times> u32 \<rightharpoonup> CommitmentSnapshot"
  commitment_admin :: "address option"
  payroll_operator :: "address option"
  employee_reference_id :: "address \<rightharpoonup> string"
  reference_id_index :: "string \<rightharpoonup> address"
  commitment_lock :: "address \<rightharpoonup> bool"
  commitment_index :: "bytes \<rightharpoonup> bool"
  sc_pause_manager :: "address option"
  sc_pending_admin :: "PendingRotation option"

section \<open>Guards\<close>

definition require_commitment_admin ::
  "'x env_scheme \<Rightarrow> salary_commitment \<Rightarrow> ('e, unit) result" where
  "require_commitment_admin e s =
     and_then (expect ''Not initialized'' (commitment_admin s)) (\<lambda>admin. require_auth e admin)"

definition require_admin_or_operator ::
  "'x env_scheme \<Rightarrow> salary_commitment \<Rightarrow> ('e, unit) result" where
  "require_admin_or_operator e s =
     and_then (expect ''Not initialized'' (commitment_admin s)) (\<lambda>admin.
     case payroll_operator s of
       Some op \<Rightarrow> require_auth e op
     | None \<Rightarrow> require_auth e admin)"

definition sc_require_not_paused ::
  "'x penv_scheme \<Rightarrow> salary_commitment \<Rightarrow> ('e, unit) result" where
  "sc_require_not_paused e s =
     pause_guard ''Salary commitment operations are paused'' e (sc_pause_manager s)"

section \<open>Roles and locks\<close>

definition init_commitment_admin ::
  "address \<Rightarrow> salary_commitment \<Rightarrow> ('e, salary_commitment) result" where
  "init_commitment_admin admin s =
     and_then (panic_if (commitment_admin s \<noteq> None) ''Already initialized'') (\<lambda>_.
     Inr (s\<lparr>commitment_admin := Some admin\<rparr>))"

definition set_payroll_operator ::
  "'x penv_scheme \<Rightarrow> address \<Rightarrow> salary_commitment \<Rightarrow> ('e, salary_commitment) result" where
  "set_payroll_operator e op s =
     and_then (sc_require_not_paused e s) (\<lambda>_.
     and_then (require_commitment_admin e s) (\<lambda>_.
     Inr (emit_payroll_operator_set op (s\<lparr>payroll_operator := Some op\<rparr>))))"

definition remove_payroll_operator ::
  "'x penv_scheme \<Rightarrow> salary_commitment \<Rightarrow> ('e, salary_commitment) result" where
  "remove_payroll_operator e s =
     and_then (sc_require_not_paused e s) (\<lambda>_.
     and_then (require_commitment_admin e s) (\<lambda>_.
     and_then (expect ''No payroll operator set'' (payroll_operator s)) (\<lambda>prev_op.
     Inr (emit_payroll_operator_removed prev_op (s\<lparr>payroll_operator := None\<rparr>)))))"

definition is_commitment_locked :: "address \<Rightarrow> salary_commitment \<Rightarrow> bool" where
  "is_commitment_locked employee s \<longleftrightarrow> commitment_lock s employee \<noteq> None"

definition lock_commitment_updates ::
  "'x penv_scheme \<Rightarrow> address \<Rightarrow> salary_commitment \<Rightarrow> ('e, salary_commitment) result" where
  "lock_commitment_updates e employee s =
     and_then (sc_require_not_paused e s) (\<lambda>_.
     and_then (require_admin_or_operator e s) (\<lambda>_.
     and_then (panic_if (commitment_lock s employee \<noteq> None) ''Commitment is already locked'') (\<lambda>_.
     Inr (emit_commitment_locked employee
       (s\<lparr>commitment_lock := (commitment_lock s)(employee \<mapsto> True)\<rparr>)))))"

definition unlock_commitment_updates ::
  "'x penv_scheme \<Rightarrow> address \<Rightarrow> salary_commitment \<Rightarrow> ('e, salary_commitment) result" where
  "unlock_commitment_updates e employee s =
     and_then (sc_require_not_paused e s) (\<lambda>_.
     and_then (require_commitment_admin e s) (\<lambda>_.
     and_then (panic_if (commitment_lock s employee = None) ''Commitment is not locked'') (\<lambda>_.
     Inr (emit_commitment_unlocked employee
       (s\<lparr>commitment_lock := (commitment_lock s)(employee := None)\<rparr>)))))"

definition get_commitment_admin :: "salary_commitment \<Rightarrow> ('e, address) result" where
  "get_commitment_admin s = expect ''Not initialized'' (commitment_admin s)"

definition get_payroll_operator :: "salary_commitment \<Rightarrow> address option" where
  "get_payroll_operator s = payroll_operator s"

section \<open>Commitments\<close>

definition register_commitment_uniqueness ::
  "bytes \<Rightarrow> salary_commitment \<Rightarrow> ('e, salary_commitment) result" where
  "register_commitment_uniqueness c s =
     and_then (panic_if (commitment_index s c \<noteq> None)
       ''Commitment already in use: commitments must be unique across employees and payroll runs'') (\<lambda>_.
     Inr (s\<lparr>commitment_index := (commitment_index s)(c \<mapsto> True)\<rparr>))"

text \<open>
  The loop of \<open>archive_commitment\<close> looks for the first free slot; \<open>idx += 1\<close> panics when
  all \<open>2 ^ 32\<close> slots are taken. The loop of \<open>get_commitment_history\<close> collects the slots up
  to the first free one.
\<close>

definition put_snapshot ::
  "'x env_scheme \<Rightarrow> address \<Rightarrow> bytes \<Rightarrow> u32 \<Rightarrow> u32 \<Rightarrow> salary_commitment \<Rightarrow> salary_commitment" where
  "put_snapshot e employee c ver idx s =
     s\<lparr>commitment_history := (commitment_history s)((employee, idx) \<mapsto>
       \<lparr>snapshot_commitment = c, snapshot_version = ver, rotated_at = timestamp e\<rparr>)\<rparr>"

function archive_loop ::
  "'x env_scheme \<Rightarrow> address \<Rightarrow> bytes \<Rightarrow> u32 \<Rightarrow> u32 \<Rightarrow> salary_commitment \<Rightarrow>
   ('e, salary_commitment) result" where
  "archive_loop e employee c ver idx s =
     (if commitment_history s (employee, idx) = None
      then Inr (put_snapshot e employee c ver idx s)
      else and_then (add_u idx 1) (\<lambda>idx'. archive_loop e employee c ver idx' s))"
  by pat_completeness auto
termination
  by (relation "measure (\<lambda>(e, employee, c, ver, idx, s). 2 ^ 32 - unat idx)")
    (auto simp: unat_word_ariths)

definition archive_commitment ::
  "'x env_scheme \<Rightarrow> address \<Rightarrow> bytes \<Rightarrow> u32 \<Rightarrow> salary_commitment \<Rightarrow>
   ('e, salary_commitment) result" where
  "archive_commitment e employee c ver s = archive_loop e employee c ver 0 s"

function history_loop ::
  "address \<Rightarrow> u32 \<Rightarrow> CommitmentSnapshot list \<Rightarrow> salary_commitment \<Rightarrow>
   ('e, CommitmentSnapshot list) result" where
  "history_loop employee idx acc s = (case commitment_history s (employee, idx) of
     Some snapshot \<Rightarrow> and_then (add_u idx 1) (\<lambda>idx'. history_loop employee idx' (acc @ [snapshot]) s)
   | None \<Rightarrow> Inr acc)"
  by pat_completeness auto
termination
  by (relation "measure (\<lambda>(employee, idx, acc, s). 2 ^ 32 - unat idx)")
    (auto simp: unat_word_ariths)

declare archive_loop.simps [simp del] history_loop.simps [simp del]

definition get_commitment_history ::
  "address \<Rightarrow> salary_commitment \<Rightarrow> ('e, CommitmentSnapshot list) result" where
  "get_commitment_history employee s = history_loop employee 0 [] s"

definition store_commitment ::
  "'x penv_scheme \<Rightarrow> address \<Rightarrow> bytes \<Rightarrow> salary_commitment \<Rightarrow>
   ('e, SalaryCommitment \<times> salary_commitment) result" where
  "store_commitment e employee c s =
     and_then (sc_require_not_paused e s) (\<lambda>_.
     and_then (require_commitment_admin e s) (\<lambda>_.
     and_then (register_commitment_uniqueness c s) (\<lambda>s.
     let sc = \<lparr>commitment = c, created_at = timestamp e, updated_at = timestamp e,
               version = 1, commitment_revoked = False\<rparr> in
     Inr (sc, emit_commitment_stored employee c
       (s\<lparr>commitments := (commitments s)(employee \<mapsto> sc)\<rparr>)))))"

definition update_commitment ::
  "'x penv_scheme \<Rightarrow> address \<Rightarrow> bytes \<Rightarrow> salary_commitment \<Rightarrow>
   ('e, SalaryCommitment \<times> salary_commitment) result" where
  "update_commitment e employee new_commitment s =
     and_then (sc_require_not_paused e s) (\<lambda>_.
     and_then (require_commitment_admin e s) (\<lambda>_.
     and_then (panic_if (is_commitment_locked employee s)
       ''Commitment is locked: cannot update until unlocked by admin'') (\<lambda>_.
     and_then (expect ''Commitment not found'' (commitments s employee)) (\<lambda>existing.
     and_then (register_commitment_uniqueness new_commitment s) (\<lambda>s.
     and_then (archive_commitment e employee (commitment existing) (version existing) s) (\<lambda>s.
     and_then (add_u (version existing) 1) (\<lambda>ver.
     let updated = \<lparr>commitment = new_commitment, created_at = created_at existing,
                    updated_at = timestamp e, version = ver, commitment_revoked = False\<rparr> in
     Inr (updated, emit_commitment_stored employee new_commitment
       (s\<lparr>commitments := (commitments s)(employee \<mapsto> updated)\<rparr>)))))))))"

definition rotate_commitment ::
  "'x penv_scheme \<Rightarrow> address \<Rightarrow> bytes \<Rightarrow> salary_commitment \<Rightarrow>
   ('e, SalaryCommitment \<times> salary_commitment) result" where
  "rotate_commitment e employee new_commitment s =
     and_then (sc_require_not_paused e s) (\<lambda>_.
     and_then (require_commitment_admin e s) (\<lambda>_.
     and_then (panic_if (is_commitment_locked employee s)
       ''Commitment is locked: cannot rotate until unlocked by admin'') (\<lambda>_.
     and_then (expect ''Commitment not found'' (commitments s employee)) (\<lambda>existing.
     let existing = existing\<lparr>commitment_revoked := True\<rparr>;
         s = s\<lparr>commitments := (commitments s)(employee \<mapsto> existing)\<rparr> in
     and_then (archive_commitment e employee (commitment existing) (version existing) s) (\<lambda>s.
     and_then (store_commitment e employee new_commitment s) (\<lambda>(rotated, s).
     Inr (rotated, emit_commitment_rotated employee (commitment existing) (commitment rotated) s)))))))"

definition is_commitment_active :: "address \<Rightarrow> salary_commitment \<Rightarrow> bool" where
  "is_commitment_active employee s = (case commitments s employee of
     Some c \<Rightarrow> \<not> commitment_revoked c
   | None \<Rightarrow> False)"

definition get_commitment ::
  "address \<Rightarrow> salary_commitment \<Rightarrow> ('e, SalaryCommitment) result" where
  "get_commitment employee s = expect ''Commitment not found'' (commitments s employee)"

definition has_commitment :: "address \<Rightarrow> salary_commitment \<Rightarrow> bool" where
  "has_commitment employee s \<longleftrightarrow> commitments s employee \<noteq> None"

section \<open>Employee reference ids\<close>

definition set_employee_reference_id ::
  "'x penv_scheme \<Rightarrow> address \<Rightarrow> string \<Rightarrow> salary_commitment \<Rightarrow> ('e, salary_commitment) result" where
  "set_employee_reference_id e employee reference_id s =
     and_then (sc_require_not_paused e s) (\<lambda>_.
     and_then (require_commitment_admin e s) (\<lambda>_.
     and_then (panic_if (reference_id = [] \<or> length reference_id > 256)
       ''Reference ID must be 1-256 characters'') (\<lambda>_.
     and_then (panic_if (case reference_id_index s reference_id of
         Some existing_employee \<Rightarrow> existing_employee \<noteq> employee | None \<Rightarrow> False)
       ''Reference ID already assigned to another employee'') (\<lambda>_.
     let s = (case employee_reference_id s employee of
           Some old_ref_id \<Rightarrow>
             if old_ref_id \<noteq> reference_id
             then s\<lparr>reference_id_index := (reference_id_index s)(old_ref_id := None)\<rparr>
             else s
         | None \<Rightarrow> s);
         s = s\<lparr>employee_reference_id := (employee_reference_id s)(employee \<mapsto> reference_id)\<rparr>;
         s = s\<lparr>reference_id_index := (reference_id_index s)(reference_id \<mapsto> employee)\<rparr> in
     Inr (emit_reference_id_set employee reference_id s)))))"

definition get_employee_reference_id :: "address \<Rightarrow> salary_commitment \<Rightarrow> string option" where
  "get_employee_reference_id employee s = employee_reference_id s employee"

definition get_employee_by_reference_id :: "string \<Rightarrow> salary_commitment \<Rightarrow> address option" where
  "get_employee_by_reference_id reference_id s =
     (if reference_id = [] \<or> length reference_id > 256 then None
      else reference_id_index s reference_id)"

section \<open>Nullifiers and commitment openings\<close>

definition record_nullifier ::
  "'x penv_scheme \<Rightarrow> bytes \<Rightarrow> salary_commitment \<Rightarrow> ('e, salary_commitment) result" where
  "record_nullifier e n s =
     and_then (sc_require_not_paused e s) (\<lambda>_.
     and_then (require_admin_or_operator e s) (\<lambda>_.
     and_then (panic_if (nullifiers s n \<noteq> None) ''Nullifier already used'') (\<lambda>_.
     Inr (emit_nullifier_recorded n
       (s\<lparr>nullifiers := (nullifiers s)(n \<mapsto> \<lparr>nullifier = n, used_at = timestamp e\<rparr>)\<rparr>)))))"

definition is_nullifier_used :: "bytes \<Rightarrow> salary_commitment \<Rightarrow> bool" where
  "is_nullifier_used n s \<longleftrightarrow> nullifiers s n \<noteq> None"

definition commitment_preimage :: "u64 \<Rightarrow> bytes \<Rightarrow> bytes" where
  "commitment_preimage salary blinding_factor = le_bytes 8 (uint salary) @ blinding_factor"

definition compute_commitment :: "'x env_scheme \<Rightarrow> u64 \<Rightarrow> bytes \<Rightarrow> bytes" where
  "compute_commitment e salary blinding_factor = sha256 e (commitment_preimage salary blinding_factor)"

definition verify_commitment ::
  "'x env_scheme \<Rightarrow> address \<Rightarrow> u64 \<Rightarrow> bytes \<Rightarrow> salary_commitment \<Rightarrow> ('e, bool) result" where
  "verify_commitment e employee claimed_salary blinding_factor s =
     and_then (get_commitment employee s) (\<lambda>stored.
     Inr (commitment stored = compute_commitment e claimed_salary blinding_factor \<and>
          \<not> commitment_revoked stored))"

section \<open>Admin rotation and pause manager\<close>

definition sc_propose_admin_rotation ::
  "'x penv_scheme \<Rightarrow> address \<Rightarrow> address \<Rightarrow> salary_commitment \<Rightarrow> ('e, salary_commitment) result" where
  "sc_propose_admin_rotation e current_admin new_admin s =
     and_then (sc_require_not_paused e s) (\<lambda>_.
     and_then (expect ''Not initialized'' (commitment_admin s)) (\<lambda>stored.
     and_then (panic_if (current_admin \<noteq> stored) ''Unauthorized: caller is not the current admin'') (\<lambda>_.
     and_then (require_auth e current_admin) (\<lambda>_.
     and_then (panic_if (sc_pending_admin s \<noteq> None) ''A pending admin rotation already exists'') (\<lambda>_.
     Inr (emit_commitment_admin_proposed current_admin new_admin
       (s\<lparr>sc_pending_admin := Some \<lparr>new_holder = new_admin, proposed_by = current_admin,
          proposed_at = timestamp e\<rparr>\<rparr>)))))))"

definition sc_accept_admin_rotation ::
  "'x penv_scheme \<Rightarrow> address \<Rightarrow> salary_commitment \<Rightarrow> ('e, salary_commitment) result" where
  "sc_accept_admin_rotation e new_admin s =
     and_then (sc_require_not_paused e s) (\<lambda>_.
     and_then (expect ''No pending admin rotation'' (sc_pending_admin s)) (\<lambda>p.
     and_then (panic_if (new_admin \<noteq> new_holder p) ''Unauthorized: caller is not the proposed admin'') (\<lambda>_.
     and_then (require_auth e new_admin) (\<lambda>_.
     Inr (emit_commitment_admin_accepted new_admin
       (s\<lparr>commitment_admin := Some new_admin, sc_pending_admin := None\<rparr>))))))"

definition sc_cancel_admin_rotation ::
  "'x penv_scheme \<Rightarrow> address \<Rightarrow> salary_commitment \<Rightarrow> ('e, salary_commitment) result" where
  "sc_cancel_admin_rotation e current_admin s =
     and_then (sc_require_not_paused e s) (\<lambda>_.
     and_then (expect ''Not initialized'' (commitment_admin s)) (\<lambda>stored.
     and_then (panic_if (current_admin \<noteq> stored) ''Unauthorized'') (\<lambda>_.
     and_then (require_auth e current_admin) (\<lambda>_.
     and_then (panic_if (sc_pending_admin s = None) ''No pending admin rotation to cancel'') (\<lambda>_.
     Inr (emit_commitment_admin_cancelled current_admin (s\<lparr>sc_pending_admin := None\<rparr>)))))))"

definition sc_get_pending_admin_rotation :: "salary_commitment \<Rightarrow> PendingRotation option" where
  "sc_get_pending_admin_rotation s = sc_pending_admin s"

definition sc_set_pause_manager ::
  "'x env_scheme \<Rightarrow> address \<Rightarrow> salary_commitment \<Rightarrow> ('e, salary_commitment) result" where
  "sc_set_pause_manager e pm s =
     and_then (require_commitment_admin e s) (\<lambda>_.
     Inr (emit_commitment_pause_manager_set pm (s\<lparr>sc_pause_manager := Some pm\<rparr>)))"

section \<open>Calls\<close>

datatype sc_call =
    ScInit address
  | ScSetOperator address
  | ScRemoveOperator
  | ScLock address
  | ScUnlock address
  | ScStore address bytes
  | ScUpdate address bytes
  | ScRotate address bytes
  | ScSetReference address string
  | ScNullifier bytes
  | ScPropose address address
  | ScAccept address
  | ScCancel address
  | ScSetPause address

definition sc_invoke ::
  "penv \<times> sc_call \<Rightarrow> salary_commitment \<Rightarrow> (unit, salary_commitment) result" where
  "sc_invoke c s = (case c of (e, call) \<Rightarrow> (case call of
     ScInit a \<Rightarrow> init_commitment_admin a s
   | ScSetOperator a \<Rightarrow> set_payroll_operator e a s
   | ScRemoveOperator \<Rightarrow> remove_payroll_operator e s
   | ScLock a \<Rightarrow> lock_commitment_updates e a s
   | ScUnlock a \<Rightarrow> unlock_commitment_updates e a s
   | ScStore a b \<Rightarrow> and_then (store_commitment e a b s) (\<lambda>(_, s'). Inr s')
   | ScUpdate a b \<Rightarrow> and_then (update_commitment e a b s) (\<lambda>(_, s'). Inr s')
   | ScRotate a b \<Rightarrow> and_then (rotate_commitment e a b s) (\<lambda>(_, s'). Inr s')
   | ScSetReference a r \<Rightarrow> set_employee_reference_id e a r s
   | ScNullifier n \<Rightarrow> record_nullifier e n s
   | ScPropose a b \<Rightarrow> sc_propose_admin_rotation e a b s
   | ScAccept a \<Rightarrow> sc_accept_admin_rotation e a s
   | ScCancel a \<Rightarrow> sc_cancel_admin_rotation e a s
   | ScSetPause a \<Rightarrow> sc_set_pause_manager e a s))"

lemmas sc_guards = require_commitment_admin_def require_admin_or_operator_def sc_require_not_paused_def

lemmas sc_defs = init_commitment_admin_def set_payroll_operator_def remove_payroll_operator_def
  lock_commitment_updates_def unlock_commitment_updates_def register_commitment_uniqueness_def
  store_commitment_def update_commitment_def rotate_commitment_def set_employee_reference_id_def
  record_nullifier_def sc_propose_admin_rotation_def sc_accept_admin_rotation_def
  sc_cancel_admin_rotation_def sc_set_pause_manager_def

section \<open>The archive of an employee\<close>

text \<open>The slots of an employee hold the list \<open>hs\<close> and nothing else.\<close>

definition history_is :: "salary_commitment \<Rightarrow> address \<Rightarrow> CommitmentSnapshot list \<Rightarrow> bool" where
  "history_is s employee hs \<longleftrightarrow> length hs \<le> 2 ^ 32 \<and>
     (\<forall>i. commitment_history s (employee, i) = (if unat i < length hs then Some (hs ! unat i) else None))"

definition history_wf :: "salary_commitment \<Rightarrow> bool" where
  "history_wf s \<longleftrightarrow> (\<forall>employee. \<exists>hs. history_is s employee hs)"

lemma unat_u32_less: "unat (i :: u32) < 2 ^ 32"
  using unsigned_less [of i, where ?'a = nat] by simp

lemma unat_u32_Suc:
  fixes i :: u32
  assumes "unat i + 1 < 2 ^ 32"
  shows "add_u i 1 = (Inr (i + 1) :: ('e, u32) result)" "unat (i + 1) = unat i + 1"
  using assms by (simp_all add: add_u_def unat_word_ariths)

lemma archive_loop_ok:
  assumes "archive_loop e employee c ver idx s = (Inr s' :: ('e, salary_commitment) result)"
  shows "\<exists>i. commitment_history s (employee, i) = None \<and> s' = put_snapshot e employee c ver i s"
  using assms
proof (induction "2 ^ 32 - unat idx" arbitrary: idx rule: less_induct)
  case less
  show ?case
  proof (cases "commitment_history s (employee, idx) = None")
    case True
    with less.prems show ?thesis by (auto simp: archive_loop.simps [of e employee c ver idx])
  next
    case False
    with less.prems have l: "archive_loop e employee c ver (idx + 1) s = (Inr s' :: ('e, salary_commitment) result)"
      and u: "unat idx + 1 < 2 ^ 32"
      by (auto simp: archive_loop.simps [of e employee c ver idx])
    from u have k: "unat (idx + 1) = unat idx + 1" by (rule unat_u32_Suc)
    with u have "2 ^ 32 - unat (idx + 1) < 2 ^ 32 - unat idx" by linarith
    from less.hyps [OF this l] show ?thesis .
  qed
qed

lemma archive_loop_appends:
  assumes "history_is s employee hs" "length hs < 2 ^ 32" "unat idx \<le> length hs"
  shows "archive_loop e employee c ver idx s =
    (Inr (put_snapshot e employee c ver (of_nat (length hs)) s) :: ('e, _) result)"
  using assms
proof (induction "length hs - unat idx" arbitrary: idx)
  case 0
  then have "idx = of_nat (length hs)" "commitment_history s (employee, idx) = None"
    by (auto simp: history_is_def)
  then show ?case by (simp add: archive_loop.simps)
next
  case (Suc n)
  then have l: "unat idx < length hs" by simp
  with Suc.prems have h: "commitment_history s (employee, idx) \<noteq> None"
    and n: "add_u idx 1 = (Inr (idx + 1) :: ('e, u32) result)" "unat (idx + 1) = unat idx + 1"
    using unat_u32_Suc [of idx] by (auto simp: history_is_def)
  have "archive_loop e employee c ver (idx + 1) s =
    (Inr (put_snapshot e employee c ver (of_nat (length hs)) s) :: ('e, _) result)"
    using Suc n l by (intro Suc.hyps(1)) auto
  moreover have "archive_loop e employee c ver idx s = (archive_loop e employee c ver (idx + 1) s :: ('e, _) result)"
    using h Suc.prems l by (subst archive_loop.simps) (auto simp: add_u_def)
  ultimately show ?case by simp
qed

lemma history_loop_reads:
  assumes "history_is s employee hs" "length hs < 2 ^ 32" "unat idx \<le> length hs"
  shows "history_loop employee idx acc s = (Inr (acc @ drop (unat idx) hs) :: ('e, _) result)"
  using assms
proof (induction "length hs - unat idx" arbitrary: idx acc)
  case 0
  then have "commitment_history s (employee, idx) = None" by (auto simp: history_is_def)
  with 0 show ?case by (simp add: history_loop.simps)
next
  case (Suc n)
  then have l: "unat idx < length hs" by simp
  with Suc.prems have h: "commitment_history s (employee, idx) = Some (hs ! unat idx)"
    and n: "add_u idx 1 = (Inr (idx + 1) :: ('e, u32) result)" "unat (idx + 1) = unat idx + 1"
    using unat_u32_Suc [of idx] by (auto simp: history_is_def)
  have "history_loop employee (idx + 1) (acc @ [hs ! unat idx]) s =
      (Inr ((acc @ [hs ! unat idx]) @ drop (unat (idx + 1)) hs) :: ('e, _) result)"
    using Suc n l by (intro Suc.hyps(1)) auto
  with h n l show ?case
    by (simp add: history_loop.simps [of employee idx] Cons_nth_drop_Suc)
qed

lemma history_is_append:
  assumes "history_is s employee hs" "length hs < 2 ^ 32"
    "commitment_history s' = (commitment_history s)((employee, of_nat (length hs)) \<mapsto> h)"
  shows "history_is s' employee (hs @ [h])"
proof -
  have u: "unat (of_nat (length hs) :: u32) = length hs"
    using assms(2) by (simp add: unat_of_nat)
  have "i = of_nat (length hs) \<longleftrightarrow> unat i = length hs" for i :: u32
    using u by (auto simp: word_unat_eq_iff)
  with assms show ?thesis by (auto simp: history_is_def nth_append)
qed

lemma archive_commitment_appends:
  assumes "archive_commitment e employee c ver s = (Inr s' :: ('e, _) result)" "history_is s employee hs"
  shows "length hs < 2 ^ 32 \<and> s' = put_snapshot e employee c ver (of_nat (length hs)) s"
proof -
  from archive_loop_ok [OF assms(1) [unfolded archive_commitment_def]]
  obtain i where "commitment_history s (employee, i) = None" by blast
  with assms(2) have "length hs \<le> unat i" by (auto simp: history_is_def split: if_splits)
  with unat_u32_less [of i] have l: "length hs < 2 ^ 32" by simp
  with archive_loop_appends [OF assms(2) l, of 0 e c ver, where ?'e = 'e] assms(1) show ?thesis
    unfolding archive_commitment_def by simp
qed

section \<open>Effects of the operations\<close>

text \<open>Where a commitment value can be bound: to an employee, or to a slot of the archive.\<close>

definition binding :: "salary_commitment \<Rightarrow> address + address \<times> u32 \<Rightarrow> bytes option" where
  "binding s p = (case p of
     Inl employee \<Rightarrow> map_option commitment (commitments s employee)
   | Inr k \<Rightarrow> map_option snapshot_commitment (commitment_history s k))"

definition bound_once :: "('p \<rightharpoonup> 'v) \<Rightarrow> ('v \<rightharpoonup> bool) \<Rightarrow> bool" where
  "bound_once b ix \<longleftrightarrow> (\<forall>p q v. b p = Some v \<and> b q = Some v \<longrightarrow> p = q) \<and>
     (\<forall>p v. b p = Some v \<longrightarrow> ix v \<noteq> None)"

lemma bound_once_fresh:
  assumes "bound_once b ix" "ix c = None"
  shows "bound_once (b(p \<mapsto> c)) (ix(c \<mapsto> t))"
  unfolding bound_once_def
proof (intro conjI allI impI)
  fix x y v assume "(b(p \<mapsto> c)) x = Some v \<and> (b(p \<mapsto> c)) y = Some v"
  moreover from assms have "b z \<noteq> Some c" for z unfolding bound_once_def by force
  ultimately show "x = y" using assms(1) unfolding bound_once_def
    by (auto split: if_splits)
next
  fix x v assume "(b(p \<mapsto> c)) x = Some v"
  with assms show "(ix(c \<mapsto> t)) v \<noteq> None" unfolding bound_once_def
    by (auto split: if_splits)
qed

lemma bound_once_move:
  assumes "bound_once b ix" "ix c = None" "b p = Some v" "p \<noteq> q"
  shows "bound_once (b(q \<mapsto> v, p \<mapsto> c)) (ix(c \<mapsto> t))"
proof -
  have "bound_once (b(q \<mapsto> v, p := None)) ix"
    using assms(1,3,4) unfolding bound_once_def by (auto split: if_splits)
  from bound_once_fresh [OF this assms(2), of p t] show ?thesis by simp
qed

text \<open>\<open>store_commitment\<close> binds a fresh value; the others that replace a commitment also archive
  the previous one.\<close>

lemma store_commitment_effect:
  assumes "store_commitment e a c s = Inr (x, s')"
  shows "commitment_index s c = None" "commitments s' = (commitments s)(a \<mapsto> x)"
    "x = \<lparr>commitment = c, created_at = timestamp e, updated_at = timestamp e, version = 1,
      commitment_revoked = False\<rparr>"
    "commitment_index s' = (commitment_index s)(c \<mapsto> True)"
    "commitment_history s' = commitment_history s" "commitment_lock s' = commitment_lock s"
    "nullifiers s' = nullifiers s" "commitment_admin s' = commitment_admin s"
    "employee_reference_id s' = employee_reference_id s" "reference_id_index s' = reference_id_index s"
    "sc_pending_admin s' = sc_pending_admin s"
  using assms by (auto simp: store_commitment_def register_commitment_uniqueness_def emits Let_def)

definition first_free :: "salary_commitment \<Rightarrow> address \<Rightarrow> u32 \<Rightarrow> bool" where
  "first_free s a i \<longleftrightarrow> (\<forall>hs. history_is s a hs \<longrightarrow> length hs < 2 ^ 32 \<and> i = of_nat (length hs))"

lemma first_free_cong:
  "commitment_history s = commitment_history s' \<Longrightarrow> first_free s = first_free s'"
  by (simp add: first_free_def history_is_def fun_eq_iff)

lemma archive_commitment_effect:
  assumes "archive_commitment e a c v s = Inr s'"
  shows "\<exists>i. commitment_history s (a, i) = None \<and> first_free s a i \<and> s' = put_snapshot e a c v i s"
proof -
  from archive_loop_ok [OF assms [unfolded archive_commitment_def]] obtain i where
    i: "commitment_history s (a, i) = None" "s' = put_snapshot e a c v i s" by blast
  have "i = of_nat (length hs)" if "history_is s a hs" for hs
  proof -
    from archive_commitment_appends [OF assms that] i(2)
    have "commitment_history (put_snapshot e a c v (of_nat (length hs)) s) (a, i) =
        commitment_history (put_snapshot e a c v i s) (a, i)"
      by simp
    with i(1) show ?thesis by (auto simp: put_snapshot_def split: if_splits)
  qed
  with i archive_commitment_appends [OF assms] show ?thesis by (auto simp: first_free_def)
qed

definition replaced_by ::
  "address \<Rightarrow> SalaryCommitment \<Rightarrow> u32 \<Rightarrow> u64 \<Rightarrow> SalaryCommitment \<Rightarrow>
   salary_commitment \<Rightarrow> salary_commitment \<Rightarrow> bool" where
  "replaced_by a old i t x s s' \<longleftrightarrow>
     commitments s a = Some old \<and> commitment_history s (a, i) = None \<and> first_free s a i \<and>
     commitment_index s (commitment x) = None \<and> commitment_lock s a = None \<and> \<not> commitment_revoked x \<and>
     commitments s' = (commitments s)(a \<mapsto> x) \<and>
     commitment_history s' = (commitment_history s)((a, i) \<mapsto>
       \<lparr>snapshot_commitment = commitment old, snapshot_version = version old, rotated_at = t\<rparr>) \<and>
     commitment_index s' = (commitment_index s)(commitment x \<mapsto> True) \<and>
     commitment_lock s' = commitment_lock s \<and> nullifiers s' = nullifiers s \<and>
     commitment_admin s' = commitment_admin s \<and> sc_pending_admin s' = sc_pending_admin s \<and>
     employee_reference_id s' = employee_reference_id s \<and> reference_id_index s' = reference_id_index s"

lemma update_commitment_effect:
  assumes "update_commitment e a c s = (Inr (x, s') :: ('e, _) result)"
  obtains old i where "replaced_by a old i (timestamp e) x s s'" "unat (version old) + 1 < 2 ^ 32"
    "x = \<lparr>commitment = c, created_at = created_at old, updated_at = timestamp e,
      version = version old + 1, commitment_revoked = False\<rparr>"
proof -
  from assms obtain old s2 where *: "commitments s a = Some old" "commitment_lock s a = None"
    "commitment_index s c = None" "unat (version old) + 1 < 2 ^ 32"
    "x = \<lparr>commitment = c, created_at = created_at old, updated_at = timestamp e,
      version = version old + 1, commitment_revoked = False\<rparr>"
    "s' = emit_commitment_stored a c (s2\<lparr>commitments := (commitments s2)(a \<mapsto> x)\<rparr>)"
    and s2: "archive_commitment e a (commitment old) (version old)
      (s\<lparr>commitment_index := (commitment_index s)(c \<mapsto> True)\<rparr>) = (Inr s2 :: ('e, _) result)"
    by (auto simp: update_commitment_def register_commitment_uniqueness_def is_commitment_locked_def Let_def)
  from archive_commitment_effect [OF s2] obtain i where "commitment_history s (a, i) = None" "first_free s a i"
    "s2 = put_snapshot e a (commitment old) (version old) i
      (s\<lparr>commitment_index := (commitment_index s)(c \<mapsto> True)\<rparr>)"
    using first_free_cong [of "s\<lparr>commitment_index := (commitment_index s)(c \<mapsto> True)\<rparr>" s] by auto
  with * that [of old i] show thesis by (simp add: replaced_by_def put_snapshot_def emits)
qed

lemma rotate_commitment_effect:
  assumes "rotate_commitment e a c s = (Inr (x, s') :: ('e, _) result)"
  obtains old i where "replaced_by a old i (timestamp e) x s s'"
    "x = \<lparr>commitment = c, created_at = timestamp e, updated_at = timestamp e, version = 1,
      commitment_revoked = False\<rparr>"
proof -
  from assms obtain old s2 s3 where old: "commitments s a = Some old" "commitment_lock s a = None"
    and s2: "archive_commitment e a (commitment old) (version old)
       (s\<lparr>commitments := (commitments s)(a \<mapsto> old\<lparr>commitment_revoked := True\<rparr>)\<rparr>) = (Inr s2 :: ('e, _) result)"
    and s3: "store_commitment e a c s2 = (Inr (x, s3) :: ('e, _) result)"
    and s': "s' = emit_commitment_rotated a (commitment old) (commitment x) s3"
    by (auto simp: rotate_commitment_def is_commitment_locked_def Let_def)
  note st = store_commitment_effect [OF s3]
  from archive_commitment_effect [OF s2] obtain i where i: "commitment_history s (a, i) = None" "first_free s a i"
    "s2 = put_snapshot e a (commitment old) (version old) i
       (s\<lparr>commitments := (commitments s)(a \<mapsto> old\<lparr>commitment_revoked := True\<rparr>)\<rparr>)"
    using first_free_cong [of "s\<lparr>commitments := (commitments s)(a \<mapsto> old\<lparr>commitment_revoked := True\<rparr>)\<rparr>" s]
    by auto
  from old i st s' have "replaced_by a old i (timestamp e) x s s'"
    by (simp add: replaced_by_def put_snapshot_def emits)
  from that [OF this st(3)] show thesis .
qed

text \<open>The calls that bind a commitment value, by employee and value.\<close>

definition sc_binds :: "sc_call \<Rightarrow> (address \<times> bytes) option" where
  "sc_binds c = (case c of ScStore a b \<Rightarrow> Some (a, b) | ScUpdate a b \<Rightarrow> Some (a, b)
     | ScRotate a b \<Rightarrow> Some (a, b) | _ \<Rightarrow> None)"

lemma sc_invoke_frame:
  assumes "sc_invoke (e, c) s = Inr s'" "sc_binds c = None"
  shows "commitments s' = commitments s \<and> commitment_history s' = commitment_history s \<and>
    commitment_index s' = commitment_index s"
  using assms
  by (cases c)
    (auto simp: sc_invoke_def sc_defs sc_binds_def emits Let_def split: option.splits)

lemma sc_invoke_bind_cases:
  assumes "sc_invoke (e, c) s = Inr s'" "sc_binds c = Some (a, b)"
  obtains x where "c = ScStore a b" "store_commitment e a b s = (Inr (x, s') :: (unit, _) result)"
  | old i x where "c \<noteq> ScStore a b" "replaced_by a old i (timestamp e) x s s'" "commitment x = b"
proof (cases c)
  case (ScStore a' b')
  with assms that(1) show thesis by (auto simp: sc_invoke_def sc_binds_def)
next
  case (ScUpdate a' b')
  with assms obtain x where "update_commitment e a b s = (Inr (x, s') :: (unit, _) result)"
    by (auto simp: sc_invoke_def sc_binds_def)
  then show thesis using that(2) ScUpdate by (auto elim!: update_commitment_effect)
next
  case (ScRotate a' b')
  with assms obtain x where "rotate_commitment e a b s = (Inr (x, s') :: (unit, _) result)"
    by (auto simp: sc_invoke_def sc_binds_def)
  then show thesis using that(2) ScRotate by (auto elim!: rotate_commitment_effect)
qed (use assms(2) in \<open>simp_all add: sc_binds_def\<close>)

section \<open>A commitment value is bound once\<close>

lemma binding_simps:
  "binding s (Inl a) = map_option commitment (commitments s a)"
  "binding s (Inr k) = map_option snapshot_commitment (commitment_history s k)"
  by (simp_all add: binding_def)

lemma binding_eqI:
  assumes "\<And>a. b (Inl a) = map_option commitment (commitments s a)"
    "\<And>k. b (Inr k) = map_option snapshot_commitment (commitment_history s k)"
  shows "binding s = b"
proof
  fix p show "binding s p = b p" using assms by (cases p) (simp_all add: binding_simps)
qed

lemma bound_once_step:
  assumes "bound_once (binding s) (commitment_index s)" "sc_invoke (e, c) s = Inr s'"
  shows "bound_once (binding s') (commitment_index s')"
proof (cases "sc_binds c")
  case None
  from sc_invoke_frame [OF assms(2) None] have "binding s' = binding s"
    by (intro binding_eqI) (simp_all add: binding_simps)
  with sc_invoke_frame [OF assms(2) None] assms(1) show ?thesis by simp
next
  case (Some ab)
  obtain a b where ab: "ab = (a, b)" by force
  from assms(2) Some [unfolded ab] show ?thesis
  proof (cases rule: sc_invoke_bind_cases)
    case (1 x)
    note st = store_commitment_effect [OF 1(2)]
    from st have "binding s' = (binding s)(Inl a \<mapsto> b)"
      by (intro binding_eqI) (simp_all add: binding_simps)
    with bound_once_fresh [OF assms(1) st(1)] st(4) show ?thesis by simp
  next
    case (2 old i x)
    then have o: "commitments s a = Some old" "commitment_index s b = None"
      "commitment_index s' = (commitment_index s)(b \<mapsto> True)"
      by (simp_all add: replaced_by_def)
    have b: "binding s' = (binding s)(Inr (a, i) \<mapsto> commitment old, Inl a \<mapsto> b)"
      using 2(2,3) by (intro binding_eqI) (simp_all add: binding_simps replaced_by_def)
    from o(1) have "binding s (Inl a) = Some (commitment old)" by (simp add: binding_simps)
    from bound_once_move [OF assms(1) o(2) this] b o(3) show ?thesis by simp
  qed
qed

lemma bound_once_run:
  assumes "commitments s = Map.empty" "commitment_history s = Map.empty"
  shows "bound_once (binding (run_calls sc_invoke cs s)) (commitment_index (run_calls sc_invoke cs s))"
proof (rule run_calls_invariant [where I = "\<lambda>s. bound_once (binding s) (commitment_index s)"])
  show "bound_once (binding s) (commitment_index s)"
    using assms by (auto simp: bound_once_def binding_def split: sum.splits)
qed (metis bound_once_step surj_pair)

text \<open>C15. In every state reached from one without commitments, a commitment value is bound at
  most once: to one employee's active record or to one slot of one employee's archive, never
  to two places.\<close>

theorem commitment_values_bound_once:
  assumes "commitments s0 = Map.empty" "commitment_history s0 = Map.empty"
    and "s = run_calls sc_invoke cs s0"
  shows "(\<forall>a b x y. commitments s a = Some x \<and> commitments s b = Some y \<and>
      commitment x = commitment y \<longrightarrow> a = b) \<and>
    (\<forall>a x k h. commitments s a = Some x \<and> commitment_history s k = Some h \<longrightarrow>
      commitment x \<noteq> snapshot_commitment h) \<and>
    (\<forall>k l g h. commitment_history s k = Some g \<and> commitment_history s l = Some h \<and>
      snapshot_commitment g = snapshot_commitment h \<longrightarrow> k = l)"
proof -
  have inj: "binding s p = Some v \<Longrightarrow> binding s q = Some v \<Longrightarrow> p = q" for p q v
    using bound_once_run [OF assms(1,2), of cs] unfolding assms(3) bound_once_def by blast
  have act: "binding s (Inl a) = Some (commitment x)" if "commitments s a = Some x" for a x
    using that by (simp add: binding_simps)
  have arc: "binding s (Inr k) = Some (snapshot_commitment h)" if "commitment_history s k = Some h" for k h
    using that by (simp add: binding_simps)
  show ?thesis
  proof (intro conjI allI impI)
    fix a b x y assume "commitments s a = Some x \<and> commitments s b = Some y \<and> commitment x = commitment y"
    then show "a = b" using inj [of "Inl a" "commitment x" "Inl b"] act by (metis sum.inject(1))
  next
    fix a x k h assume "commitments s a = Some x \<and> commitment_history s k = Some h"
    then show "commitment x \<noteq> snapshot_commitment h"
      using inj [of "Inl a" "commitment x" "Inr k"] act arc by (metis sum.distinct(1))
  next
    fix k l g h assume "commitment_history s k = Some g \<and> commitment_history s l = Some h \<and>
      snapshot_commitment g = snapshot_commitment h"
    then show "k = l" using inj [of "Inr k" "snapshot_commitment g" "Inr l"] arc by (metis sum.inject(2))
  qed
qed

section \<open>The archive is append-only\<close>

lemma history_is_cong:
  assumes "\<And>i. commitment_history s' (a, i) = commitment_history s (a, i)"
  shows "history_is s' a hs = history_is s a hs"
  using assms by (simp add: history_is_def)

lemma replaced_by_history:
  assumes "replaced_by a old i t x s s'" "history_is s a hs"
  shows "length hs < 2 ^ 32 \<and> history_is s' a (hs @
    [\<lparr>snapshot_commitment = commitment old, snapshot_version = version old, rotated_at = t\<rparr>])"
  using assms history_is_append [OF assms(2)] by (auto simp: replaced_by_def first_free_def)

lemma replaced_by_history_other:
  assumes "replaced_by a old i t x s s'" "b \<noteq> a"
  shows "history_is s' b hs = history_is s b hs"
  using assms by (intro history_is_cong) (simp add: replaced_by_def)

lemma history_wf_step:
  assumes "history_wf s" "sc_invoke (e, c) s = Inr s'"
  shows "history_wf s'"
proof (cases "sc_binds c")
  case None
  from sc_invoke_frame [OF assms(2) None] assms(1) show ?thesis
    by (simp add: history_wf_def history_is_def)
next
  case (Some ab)
  obtain a b where ab: "ab = (a, b)" by force
  from assms(2) Some [unfolded ab] show ?thesis
  proof (cases rule: sc_invoke_bind_cases)
    case (1 x)
    with store_commitment_effect(5) [OF 1(2)] assms(1) show ?thesis
      by (simp add: history_wf_def history_is_def)
  next
    case (2 old i x)
    have "\<exists>hs. history_is s' d hs" for d
      using replaced_by_history [OF 2(2)] replaced_by_history_other [OF 2(2), of d] assms(1)
      unfolding history_wf_def by (cases "d = a") blast+
    then show ?thesis by (simp add: history_wf_def)
  qed
qed

lemma history_wf_run:
  assumes "commitment_history s = Map.empty"
  shows "history_wf (run_calls sc_invoke cs s)"
proof (rule run_calls_invariant [where I = history_wf])
  show "history_wf s"
    using assms by (auto simp: history_wf_def history_is_def intro!: exI [of _ "[]"])
qed (metis history_wf_step surj_pair)

lemma get_commitment_history_is:
  assumes "history_is s a hs" "length hs < 2 ^ 32"
  shows "get_commitment_history a s = Inr hs"
  using history_loop_reads [OF assms, of 0 "[]"] by (simp add: get_commitment_history_def)

text \<open>Updating or rotating a commitment appends the previous value, with its version and the
  time, to the employee's archive as \<open>get_commitment_history\<close> returns it, and touches neither
  the archive nor the commitment of another employee.\<close>

lemma replaced_commitment_archived:
  assumes "commitment_history s0 = Map.empty" "s = run_calls sc_invoke cs s0"
    and "update_commitment e a c s = (Inr (x, s') :: (unit, _) result) \<or>
      rotate_commitment e a c s = (Inr (x, s') :: (unit, _) result)"
    and "get_commitment_history a s = (Inr hs :: (unit, _) result)" "length hs + 1 < 2 ^ 32"
  shows "\<exists>old. commitments s a = Some old \<and> commitments s' a = Some x \<and> commitment x = c \<and>
    get_commitment_history a s' = (Inr (hs @ [\<lparr>snapshot_commitment = commitment old,
      snapshot_version = version old, rotated_at = timestamp e\<rparr>]) :: (unit, _) result) \<and>
    (\<forall>b i. b \<noteq> a \<longrightarrow> commitments s' b = commitments s b \<and>
      commitment_history s' (b, i) = commitment_history s (b, i))"
proof -
  obtain old i where r: "replaced_by a old i (timestamp e) x s s'" "commitment x = c"
    using assms(3) by (auto elim!: update_commitment_effect rotate_commitment_effect)
  obtain gs where g: "history_is s a gs"
    using history_wf_run [OF assms(1), of cs] assms(2) by (auto simp: history_wf_def)
  from replaced_by_history [OF r(1) g] have l: "length gs < 2 ^ 32"
    and g': "history_is s' a (gs @ [\<lparr>snapshot_commitment = commitment old,
      snapshot_version = version old, rotated_at = timestamp e\<rparr>])"
    by simp_all
  from get_commitment_history_is [OF g l, where ?'a = unit] assms(4) have "gs = hs" by simp
  with get_commitment_history_is [OF g', where ?'a = unit] assms(5) r show ?thesis
    by (simp add: replaced_by_def)
qed

section \<open>Locks\<close>

lemma locked_step:
  assumes "sc_invoke (e, c) s = Inr s'" "is_commitment_locked a s" "c \<noteq> ScUnlock a" "\<And>b. c \<noteq> ScStore a b"
  shows "is_commitment_locked a s' \<and> commitments s' a = commitments s a \<and>
    commitment_history s' (a, i) = commitment_history s (a, i)"
proof (cases "sc_binds c")
  case None
  from sc_invoke_frame [OF assms(1) None] have "commitments s' = commitments s"
    "commitment_history s' = commitment_history s" by simp_all
  moreover have "is_commitment_locked a s'"
    using assms None by (cases c)
      (auto simp: sc_invoke_def sc_defs is_commitment_locked_def sc_binds_def emits Let_def split: option.splits)
  ultimately show ?thesis by simp
next
  case (Some db)
  obtain d b where db: "db = (d, b)" by force
  from assms(1) Some [unfolded db] show ?thesis
  proof (cases rule: sc_invoke_bind_cases)
    case (1 x)
    with assms(4) have "d \<noteq> a" by auto
    with store_commitment_effect [OF 1(2)] assms(2) show ?thesis by (simp add: is_commitment_locked_def)
  next
    case (2 old j x)
    with assms(2) have "d \<noteq> a" by (auto simp: replaced_by_def is_commitment_locked_def)
    with 2(2) assms(2) show ?thesis by (simp add: replaced_by_def is_commitment_locked_def)
  qed
qed

text \<open>While an employee's commitment is locked, no history of calls that neither unlocks it
  nor stores a commitment for that employee afresh changes the commitment or its archive.\<close>

lemma locked_commitment_frozen:
  assumes "is_commitment_locked a s"
    and "\<forall>(e, c) \<in> set cs. c \<noteq> ScUnlock a \<and> (\<forall>b. c \<noteq> ScStore a b)"
  shows "is_commitment_locked a (run_calls sc_invoke cs s) \<and>
    commitments (run_calls sc_invoke cs s) a = commitments s a \<and>
    (\<forall>i. commitment_history (run_calls sc_invoke cs s) (a, i) = commitment_history s (a, i))"
proof (rule run_calls_invariant_on [where I = "\<lambda>t. is_commitment_locked a t \<and> commitments t a = commitments s a
    \<and> (\<forall>i. commitment_history t (a, i) = commitment_history s (a, i))"])
  fix c t t' assume *: "c \<in> set cs" "sc_invoke c t = Inr t'"
    and I: "is_commitment_locked a t \<and> commitments t a = commitments s a
      \<and> (\<forall>i. commitment_history t (a, i) = commitment_history s (a, i))"
  obtain e k where c: "c = (e, k)" by force
  with * assms(2) have "k \<noteq> ScUnlock a" "k \<noteq> ScStore a b" for b by auto
  from locked_step [OF *(2) [unfolded c] _ this] I
  show "is_commitment_locked a t' \<and> commitments t' a = commitments s a
      \<and> (\<forall>i. commitment_history t' (a, i) = commitment_history s (a, i))" by auto
qed (use assms(1) in simp)

text \<open>The lock does not guard \<open>store_commitment\<close>: the admin overwrites a locked commitment
  with a fresh value, and the overwritten value reaches no archive.\<close>

lemma store_bypasses_lock:
  assumes "is_commitment_locked a s" "commitments s a = Some old"
    and "commitment_admin s = Some admin" "auth e admin" "sc_pause_manager s = None"
    and "commitment_index s c = None"
  shows "\<exists>x s'. store_commitment e a c s = (Inr (x, s') :: (unit, _) result) \<and>
    commitments s' a = Some x \<and> commitment x = c \<and> is_commitment_locked a s' \<and>
    commitment_history s' = commitment_history s"
  using assms by (auto simp: store_commitment_def sc_guards register_commitment_uniqueness_def
      is_commitment_locked_def emits Let_def)

section \<open>Reference ids\<close>

definition reference_ids_bij :: "salary_commitment \<Rightarrow> bool" where
  "reference_ids_bij s \<longleftrightarrow> (\<forall>a r. employee_reference_id s a = Some r \<longleftrightarrow> reference_id_index s r = Some a) \<and>
     (\<forall>a r. employee_reference_id s a = Some r \<longrightarrow> r \<noteq> [] \<and> length r \<le> 256)"

lemma set_reference_bij:
  assumes "reference_ids_bij s" "set_employee_reference_id e a r s = (Inr s' :: ('e, _) result)"
  shows "reference_ids_bij s'"
proof -
  from assms(1) have bij: "employee_reference_id s b = Some q \<longleftrightarrow> reference_id_index s q = Some b" for b q
    by (simp add: reference_ids_bij_def)
  from assms(2) have r: "r \<noteq> []" "length r \<le> 256"
    and own: "reference_id_index s r = None \<or> reference_id_index s r = Some a"
    and s': "employee_reference_id s' = (employee_reference_id s)(a \<mapsto> r)"
    "reference_id_index s' = (case employee_reference_id s a of
        Some old \<Rightarrow> (reference_id_index s)(old := None, r \<mapsto> a) | None \<Rightarrow> (reference_id_index s)(r \<mapsto> a))"
    by (auto simp: set_employee_reference_id_def Let_def emits split: option.splits if_splits)
  have "employee_reference_id s' b = Some q \<longleftrightarrow> reference_id_index s' q = Some b" for b q
  proof (cases "employee_reference_id s a")
    case None
    with bij [of a q] have "reference_id_index s q \<noteq> Some a" by simp
    with None own bij [of b q] bij [of b r] show ?thesis by (auto simp: s')
  next
    case (Some old)
    with bij [of a q] bij [of a old] bij [of b q] bij [of b r] own show ?thesis
      by (auto simp: s')
  qed
  moreover have "q \<noteq> [] \<and> length q \<le> 256" if "employee_reference_id s' b = Some q" for b q
    using that assms(1) r unfolding reference_ids_bij_def s'(1) by (cases "b = a") auto
  ultimately show ?thesis unfolding reference_ids_bij_def by blast
qed

lemma reference_ids_step:
  assumes "reference_ids_bij s" "sc_invoke (e, c) s = Inr s'"
  shows "reference_ids_bij s'"
proof (cases "sc_binds c")
  case None
  show ?thesis
  proof (cases "\<exists>a r. c = ScSetReference a r")
    case True
    then obtain a r where "set_employee_reference_id e a r s = (Inr s' :: (unit, _) result)"
      using assms(2) by (auto simp: sc_invoke_def)
    with assms(1) show ?thesis by (rule set_reference_bij)
  next
    case False
    with assms(2) None have "employee_reference_id s' = employee_reference_id s \<and>
        reference_id_index s' = reference_id_index s"
      by (cases c) (auto simp: sc_invoke_def sc_defs sc_binds_def emits)
    with assms(1) show ?thesis by (simp add: reference_ids_bij_def)
  qed
next
  case (Some ab)
  obtain a b where ab: "ab = (a, b)" by force
  from assms(2) Some [unfolded ab] show ?thesis
    by (cases rule: sc_invoke_bind_cases)
      (use assms(1) in \<open>auto simp: store_commitment_effect replaced_by_def reference_ids_bij_def\<close>)
qed

text \<open>C31. From a contract without reference ids, after any history of calls the two lookups
  are inverse to each other: an employee has a reference id exactly when that id leads back
  to the employee.\<close>

theorem reference_ids_inverse:
  assumes "employee_reference_id s0 = Map.empty" "reference_id_index s0 = Map.empty"
    and "s = run_calls sc_invoke cs s0"
  shows "get_employee_reference_id a s = Some r \<longleftrightarrow> get_employee_by_reference_id r s = Some a"
proof -
  have "reference_ids_bij s0" using assms(1,2) by (simp add: reference_ids_bij_def)
  then have "reference_ids_bij s" unfolding assms(3)
    by (rule run_calls_invariant [where I = reference_ids_bij, rotated]) (metis reference_ids_step surj_pair)
  then have bij: "employee_reference_id s a = Some r \<longleftrightarrow> reference_id_index s r = Some a"
    and len: "employee_reference_id s a = Some r \<Longrightarrow> r \<noteq> [] \<and> length r \<le> 256"
    unfolding reference_ids_bij_def by blast+
  show ?thesis
    unfolding get_employee_reference_id_def get_employee_by_reference_id_def using bij len by auto
qed

section \<open>Nullifiers\<close>

lemma nullifiers_step:
  assumes "sc_invoke c s = Inr s'" "nullifiers s n = Some v"
  shows "nullifiers s' n = Some v"
proof -
  obtain e k where c: "c = (e, k)" by force
  show ?thesis
  proof (cases "sc_binds k")
    case None
    with assms c show ?thesis
      by (cases k) (auto simp: sc_invoke_def sc_defs sc_binds_def emits Let_def split: option.splits)
  next
    case (Some ab)
    obtain a b where ab: "ab = (a, b)" by force
    from assms(1) [unfolded c] Some [unfolded ab] show ?thesis
      by (cases rule: sc_invoke_bind_cases)
        (use assms(2) in \<open>auto simp: store_commitment_effect replaced_by_def\<close>)
  qed
qed

text \<open>C21. A recorded nullifier stays recorded, with the time of its use, through every history
  of calls, and no later attempt to record it again succeeds, whoever makes it.\<close>

theorem nullifier_recorded_once:
  assumes "record_nullifier e n s = (Inr s1 :: (unit, _) result)"
  shows "nullifiers (run_calls sc_invoke cs s1) n = Some \<lparr>nullifier = n, used_at = timestamp e\<rparr> \<and>
    is_nullifier_used n (run_calls sc_invoke cs s1) \<and>
    (\<forall>e' :: penv. \<forall>t. record_nullifier e' n (run_calls sc_invoke cs s1) \<noteq> (Inr t :: (unit, _) result))"
proof -
  let ?v = "\<lparr>nullifier = n, used_at = timestamp e\<rparr>"
  have "nullifiers s1 n = Some ?v" using assms by (auto simp: record_nullifier_def emits)
  then have "nullifiers (run_calls sc_invoke cs s1) n = Some ?v"
    by (rule run_calls_invariant [where I = "\<lambda>s. nullifiers s n = Some ?v", rotated]) (rule nullifiers_step)
  then show ?thesis by (auto simp: is_nullifier_used_def record_nullifier_def)
qed

section \<open>Openings\<close>

lemma commitment_preimage_inj:
  assumes "commitment_preimage v b = commitment_preimage w d"
  shows "v = w \<and> b = d"
proof -
  from assms have "le_bytes 8 (uint v) = le_bytes 8 (uint w)" and b: "b = d"
    by (simp_all add: commitment_preimage_def)
  from le_bytes_inj [OF this(1)] have "uint v mod 2 ^ 64 = uint w mod 2 ^ 64" by simp
  moreover have "uint x mod 2 ^ 64 = uint x" for x :: u64
    using unsigned_less [of x, where ?'a = int] by (intro mod_pos_pos_trivial) simp_all
  ultimately have "uint v = uint w" by metis
  with b show ?thesis by (simp add: word_uint_eq_iff)
qed

text \<open>A stored commitment opens to one salary and blinding factor: two different accepted
  openings exhibit two different byte strings with the same SHA-256 digest.\<close>

lemma commitment_opening_binding:
  assumes "verify_commitment e a v b s = (Inr True :: (unit, _) result)"
    "verify_commitment e a w d s = (Inr True :: (unit, _) result)" "(v, b) \<noteq> (w, d)"
  shows "commitment_preimage v b \<noteq> commitment_preimage w d \<and>
    sha256 e (commitment_preimage v b) = sha256 e (commitment_preimage w d) \<and>
    is_commitment_active a s"
  using assms commitment_preimage_inj [of v b w d]
  by (auto simp: verify_commitment_def get_commitment_def compute_commitment_def is_commitment_active_def)

section \<open>Admin rotation\<close>

definition sc_pending :: "salary_commitment \<Rightarrow> (address \<times> address) option" where
  "sc_pending s = map_option (\<lambda>p. (new_holder p, proposed_by p)) (sc_pending_admin s)"

definition sc_proposal :: "penv \<times> sc_call \<Rightarrow> (address \<times> address) option" where
  "sc_proposal c = (case snd c of ScPropose a b \<Rightarrow> Some (a, b) | _ \<Rightarrow> None)"

definition sc_acceptance :: "penv \<times> sc_call \<Rightarrow> address option" where
  "sc_acceptance c = (case snd c of ScAccept a \<Rightarrow> Some a | _ \<Rightarrow> None)"

lemma sc_admin_frame:
  assumes "sc_invoke (e, c) s = Inr s'" "sc_binds c \<noteq> None"
  shows "commitment_admin s' = commitment_admin s \<and> sc_pending s' = sc_pending s \<and>
    sc_proposal (e, c) = None \<and> sc_acceptance (e, c) = None"
proof -
  from assms(2) obtain a b where ab: "sc_binds c = Some (a, b)" by force
  from ab have "sc_proposal (e, c) = None \<and> sc_acceptance (e, c) = None"
    by (cases c) (simp_all add: sc_binds_def sc_proposal_def sc_acceptance_def)
  moreover from assms(1) ab have "commitment_admin s' = commitment_admin s \<and> sc_pending s' = sc_pending s"
    by (cases rule: sc_invoke_bind_cases)
      (auto simp: store_commitment_effect replaced_by_def sc_pending_def)
  ultimately show ?thesis by simp
qed

lemmas sc_role_defs = sc_pending_def sc_proposal_def sc_acceptance_def

interpretation sc_role: two_step_role sc_invoke commitment_admin sc_pending sc_proposal sc_acceptance
  "\<lambda>c. auth (fst c)" "\<lambda>_. True"
proof unfold_locales
  fix c s s' h
  assume *: "sc_invoke c s = Inr s'" "commitment_admin s = Some h" "commitment_admin s' \<noteq> Some h"
  then have "sc_binds (snd c) = None" using sc_admin_frame [of "fst c" "snd c" s s']
    by (cases "sc_binds (snd c)") auto
  with * show "\<exists>n by. sc_acceptance c = Some n \<and> auth (fst c) n \<and> sc_pending s = Some (n, by) \<and>
      commitment_admin s' = Some n \<and> sc_pending s' = None"
    by (cases c; cases "snd c")
      (auto simp: sc_invoke_def sc_defs sc_role_defs sc_binds_def emits Let_def split: option.splits if_splits)
next
  fix c s s' n b
  assume *: "sc_invoke c s = Inr s'" "sc_pending s' = Some (n, b)" "sc_pending s \<noteq> Some (n, b)"
  then have "sc_binds (snd c) = None" using sc_admin_frame [of "fst c" "snd c" s s']
    by (cases "sc_binds (snd c)") auto
  with * show "sc_proposal c = Some (b, n) \<and> auth (fst c) b \<and> commitment_admin s = Some b \<and>
      commitment_admin s' = commitment_admin s"
    by (cases c; cases "snd c")
      (auto simp: sc_invoke_def sc_defs sc_role_defs sc_binds_def emits Let_def split: option.splits if_splits)
qed simp

text \<open>The HR admin of the commitments changes only with the signature of an admin on a
  proposal that names the successor and the successor's signature on the acceptance.\<close>

lemma commitment_admin_handover_needs_both:
  assumes "commitment_admin s = Some h" "sc_pending_admin s = None"
    and "commitment_admin (run_calls sc_invoke cs s) = Some n" "n \<noteq> h"
  shows "(\<exists>e. (e, ScAccept n) \<in> set cs \<and> auth e n) \<and>
    (\<exists>e by. (e, ScPropose by n) \<in> set cs \<and> auth e by)"
proof -
  have "sc_pending s = None" using assms(2) by (simp add: sc_pending_def)
  then have "set_option (sc_pending s) = {}" by simp
  from sc_role.handover_consent [OF assms(1) this assms(3,4) TrueI] show ?thesis
    by (fastforce simp: sc_acceptance_def sc_proposal_def split: sc_call.splits)
qed

section \<open>Witnesses\<close>

definition sc_env :: "address list \<Rightarrow> penv" where
  "sc_env as = \<lparr>timestamp = 1000, sequence = 10, auth = (\<lambda>a. a \<in> set as),
     current_contract = Address ''SC'', sha256 = (\<lambda>b. take 32 (b @ zero32)), address_xdr = (\<lambda>_. []),
     symbol_xdr = (\<lambda>_. []), bytes_xdr = id, pause_managers = Map.empty\<rparr>"

definition sc_fresh :: salary_commitment where
  "sc_fresh = \<lparr>events = [], commitments = Map.empty, nullifiers = Map.empty,
     commitment_history = Map.empty, commitment_admin = Some (Address ''HR''), payroll_operator = None,
     employee_reference_id = Map.empty, reference_id_index = Map.empty, commitment_lock = Map.empty,
     commitment_index = Map.empty, sc_pause_manager = None, sc_pending_admin = None\<rparr>"

abbreviation HR :: "penv" where
  "HR \<equiv> sc_env [Address ''HR'']"

definition sc_demo :: salary_commitment where
  "sc_demo = run_calls sc_invoke [(HR, ScStore (Address ''A'') [1]), (HR, ScUpdate (Address ''A'') [2])] sc_fresh"

lemmas sc_eval = transact_def sc_invoke_def sc_defs sc_guards sc_env_def sc_fresh_def emits Let_def
  require_auth_def is_commitment_locked_def archive_commitment_def archive_loop.simps put_snapshot_def
  add_u_def

lemma sc_demo_state:
  "commitments sc_demo (Address ''A'') = Some \<lparr>commitment = [2], created_at = 1000, updated_at = 1000,
     version = 2, commitment_revoked = False\<rparr>"
  "commitment_history sc_demo = [(Address ''A'', 0) \<mapsto>
     \<lparr>snapshot_commitment = [1], snapshot_version = 1, rotated_at = 1000\<rparr>]"
  "commitment_index sc_demo = [[1] \<mapsto> True, [2] \<mapsto> True]"
  "commitment_admin sc_demo = Some (Address ''HR'')" "commitment_lock sc_demo = Map.empty"
  "sc_pause_manager sc_demo = None"
  by (simp_all add: sc_demo_def sc_eval)

lemma sc_fresh_simps:
  "commitments sc_fresh = Map.empty" "commitment_history sc_fresh = Map.empty"
  "employee_reference_id sc_fresh = Map.empty" "reference_id_index sc_fresh = Map.empty"
  "commitment_admin sc_fresh = Some (Address ''HR'')" "sc_pending_admin sc_fresh = None"
  by (simp_all add: sc_fresh_def)

theorem commitment_values_bound_once_witness:
  "commitment (the (commitments sc_demo (Address ''A''))) \<noteq>
   snapshot_commitment (the (commitment_history sc_demo (Address ''A'', 0)))"
  using commitment_values_bound_once [OF sc_fresh_simps(1,2) sc_demo_def]
  by (simp add: sc_demo_state)

lemma replaced_commitment_archived_witness:
  "\<exists>x s'. update_commitment HR (Address ''A'') [3] sc_demo = (Inr (x, s') :: (unit, _) result) \<and>
    get_commitment_history (Address ''A'') s' =
      (Inr [\<lparr>snapshot_commitment = [1], snapshot_version = 1, rotated_at = 1000\<rparr>,
        \<lparr>snapshot_commitment = [2], snapshot_version = 2, rotated_at = 1000\<rparr>] :: (unit, _) result)"
proof -
  obtain x s' where u: "update_commitment HR (Address ''A'') [3] sc_demo = (Inr (x, s') :: (unit, _) result)"
    by (simp add: update_commitment_def sc_demo_state sc_guards require_auth_def sc_env_def Let_def
        is_commitment_locked_def register_commitment_uniqueness_def archive_commitment_def
        archive_loop.simps add_u_def put_snapshot_def)
  have h: "get_commitment_history (Address ''A'') sc_demo =
      (Inr [\<lparr>snapshot_commitment = [1], snapshot_version = 1, rotated_at = 1000\<rparr>] :: (unit, _) result)"
    by (simp add: get_commitment_history_def history_loop.simps sc_demo_state add_u_def)
  from replaced_commitment_archived [OF sc_fresh_simps(2) sc_demo_def disjI1 [OF u] h] u show ?thesis
    by (auto simp: sc_demo_state sc_env_def)
qed

definition sc_locked :: salary_commitment where
  "sc_locked = transact sc_invoke (HR, ScLock (Address ''A'')) sc_demo"

lemma sc_locked_state:
  "sc_locked = emit_commitment_locked (Address ''A'')
     (sc_demo\<lparr>commitment_lock := [Address ''A'' \<mapsto> True]\<rparr>)"
  "is_commitment_locked (Address ''A'') sc_locked"
  "payroll_operator sc_demo = None"
proof -
  show "payroll_operator sc_demo = None" by (simp add: sc_demo_def sc_eval)
  then show "sc_locked = emit_commitment_locked (Address ''A'')
     (sc_demo\<lparr>commitment_lock := [Address ''A'' \<mapsto> True]\<rparr>)"
    by (simp add: sc_locked_def transact_def sc_invoke_def lock_commitment_updates_def sc_guards
        sc_demo_state require_auth_def sc_env_def)
  from arg_cong [OF this, where f = commitment_lock]
  have "commitment_lock sc_locked = [Address ''A'' \<mapsto> True]" by (simp add: emits)
  then show "is_commitment_locked (Address ''A'') sc_locked"
    by (simp add: is_commitment_locked_def)
qed

lemma locked_commitment_frozen_witness:
  "commitments (run_calls sc_invoke [(HR, ScRotate (Address ''A'') [3])] sc_locked) (Address ''A'') =
   Some \<lparr>commitment = [2], created_at = 1000, updated_at = 1000, version = 2, commitment_revoked = False\<rparr>"
proof -
  have "\<forall>(e, c) \<in> set [(HR, ScRotate (Address ''A'') [3])].
      c \<noteq> ScUnlock (Address ''A'') \<and> (\<forall>b. c \<noteq> ScStore (Address ''A'') b)" by simp
  from locked_commitment_frozen [OF sc_locked_state(2) this] show ?thesis
    by (simp add: sc_locked_state(1) sc_demo_state emits)
qed

lemma store_bypasses_lock_witness:
  "\<exists>x s'. store_commitment HR (Address ''A'') [3] sc_locked = (Inr (x, s') :: (unit, _) result) \<and>
    commitment (the (commitments s' (Address ''A''))) = [3] \<and> is_commitment_locked (Address ''A'') s'"
proof -
  have "commitments sc_locked (Address ''A'') = Some \<lparr>commitment = [2], created_at = 1000,
      updated_at = 1000, version = 2, commitment_revoked = False\<rparr>"
    "commitment_admin sc_locked = Some (Address ''HR'')" "auth HR (Address ''HR'')"
    "sc_pause_manager sc_locked = None" "commitment_index sc_locked [3] = None"
    by (simp_all add: sc_locked_state(1) sc_demo_state emits sc_env_def)
  from store_bypasses_lock [OF sc_locked_state(2) this] show ?thesis by auto
qed

theorem reference_ids_inverse_witness:
  "get_employee_by_reference_id ''EMP1''
     (run_calls sc_invoke [(HR, ScSetReference (Address ''A'') ''EMP1'')] sc_fresh) = Some (Address ''A'')"
proof -
  have "get_employee_reference_id (Address ''A'')
     (run_calls sc_invoke [(HR, ScSetReference (Address ''A'') ''EMP1'')] sc_fresh) = Some ''EMP1''"
    by (simp add: sc_eval get_employee_reference_id_def)
  with reference_ids_inverse [OF sc_fresh_simps(3,4) refl] show ?thesis by blast
qed

theorem nullifier_recorded_once_witness:
  "\<exists>s1. record_nullifier HR [9] sc_fresh = (Inr s1 :: (unit, _) result) \<and>
    is_nullifier_used [9] (run_calls sc_invoke [(HR, ScNullifier [9])] s1)"
proof -
  obtain s1 where r: "record_nullifier HR [9] sc_fresh = (Inr s1 :: (unit, _) result)"
    by (simp add: sc_eval)
  from nullifier_recorded_once [OF r] r show ?thesis by blast
qed

lemma commitment_opening_binding_witness:
  "commitment_preimage 5 (replicate 32 1) \<noteq> commitment_preimage 5 (replicate 31 1 @ [2]) \<and>
   sha256 HR (commitment_preimage 5 (replicate 32 1)) = sha256 HR (commitment_preimage 5 (replicate 31 1 @ [2]))"
proof -
  let ?s = "sc_fresh\<lparr>commitments := [Address ''A'' \<mapsto>
    \<lparr>commitment = take 32 (commitment_preimage 5 (replicate 32 1)), created_at = 0, updated_at = 0,
     version = 1, commitment_revoked = False\<rparr>]\<rparr>"
  have v: "verify_commitment HR (Address ''A'') 5 b ?s = (Inr True :: (unit, _) result)"
    if "b = replicate 32 1 \<or> b = replicate 31 1 @ [2]" for b
    using that by (auto simp: verify_commitment_def get_commitment_def compute_commitment_def sc_env_def
        commitment_preimage_def)
  have "(5 :: u64, replicate 32 (1 :: u8)) \<noteq> (5, replicate 31 1 @ [2])"
    by (simp add: replicate_app_Cons_same numeral_eq_Suc)
  from commitment_opening_binding [OF v v this] show ?thesis by simp
qed

lemma commitment_admin_handover_needs_both_witness:
  "(\<exists>e. (e, ScAccept (Address ''NEW'')) \<in> set [(HR, ScPropose (Address ''HR'') (Address ''NEW'')),
     (sc_env [Address ''NEW''], ScAccept (Address ''NEW''))] \<and> auth e (Address ''NEW''))"
proof -
  let ?cs = "[(HR, ScPropose (Address ''HR'') (Address ''NEW'')),
     (sc_env [Address ''NEW''], ScAccept (Address ''NEW''))]"
  have "commitment_admin (run_calls sc_invoke ?cs sc_fresh) = Some (Address ''NEW'')"
    by (simp add: sc_eval)
  from commitment_admin_handover_needs_both [OF sc_fresh_simps(5,6) this] show ?thesis by simp
qed

end
