(* ===== verification/Payroll_State.thy ===== *)
theory Payroll_State
  imports Proof_Verifier Salary_Commitment Token
begin

text \<open>
  \<open>contracts/payroll/src/lib.rs\<close>, first part: the data types, the storage (one field per
  variant of \<open>DataKey\<close>) and the contracts that an invocation reads or changes.
\<close>

section \<open>Data\<close>

record ContractAddresses =
  ca_admin :: address
  ca_token :: address
  ca_verifier :: address
  ca_commitment :: address
  ca_treasury :: address
  ca_treasury_owner :: address

datatype ReconciliationStatus = Unreconciled | Reconciled | ReconciliationFailed

datatype PayrollRunState = Draft | Validating | ProofPending | ReadyToSubmit | Submitted
  | Confirming | Completed | Failed | Cancelled | ReconciliationRequired

record PendingPayrollRun =
  pp_run_id :: u64
  pp_prepared_at :: u64
  pp_admin :: address
  pp_total_amount :: i128
  pp_employee_count :: u32
  pp_draft_hash :: bytes
  pp_nonce :: bytes

record PayrollRun =
  pr_run_id :: u64
  pr_executed_at :: u64
  pr_admin :: address
  pr_total_amount :: i128
  pr_employee_count :: u32
  pr_draft_hash :: bytes
  pr_nonce :: bytes
  pr_reconciliation_status :: ReconciliationStatus
  pr_metadata_hash :: bytes

record EmergencyWithdrawalRequest =
  ew_amount :: i128
  ew_recipient :: address
  ew_requested_at :: u64
  ew_approved :: bool

datatype BatchCheckpointState = CpStarted | CpPartiallyCheckpointed | CpResumed | CpCompleted | CpFailed

record BatchCheckpoint =
  bc_employer :: address
  bc_batch_root :: bytes
  bc_asset :: address
  bc_execution_nonce :: bytes
  bc_state :: BatchCheckpointState
  bc_last_checkpoint_index :: u32
  bc_total_checkpoints :: u32
  bc_completed :: bool
  bc_failed :: bool

datatype RunDraftState = DraftPending | DraftFinalized | DraftSubmitted | DraftCancelled | DraftExpired

record PayrollRunDraft =
  rd_draft_id :: u64
  rd_created_at :: u64
  rd_admin :: address
  rd_total_amount :: i128
  rd_employee_count :: u32
  rd_period_label :: symbol
  rd_state :: RunDraftState
  rd_amendment_count :: u32

datatype ReviewDecision = Approved | Rejected | ChangesRequested

record RunReview =
  rv_run_id :: u64
  rv_reviewer :: address
  rv_decision :: ReviewDecision
  rv_reason :: symbol
  rv_reviewed_at :: u64

record PendingAdminHandover =
  ah_current_admin :: address
  ah_pending_admin :: address
  ah_requested_at :: u64

record QuorumApprovalPayload =
  qa_batch_root :: bytes
  qa_employer :: address
  qa_period :: symbol
  qa_asset :: address
  qa_nonce :: bytes
  qa_policy_version :: u32

datatype ComplianceHoldScope = HoldBatch | HoldEmployee | HoldEmployer

record ComplianceHold =
  ch_hold_id :: u64
  ch_scope :: ComplianceHoldScope
  ch_target :: address
  ch_reason_code :: symbol
  ch_placed_at :: u64
  ch_placed_by :: address
  ch_is_active :: bool

record ReservationExpiry =
  re_asset :: address
  re_reserved_amount :: i128
  re_expires_at :: u64
  re_created_at :: u64

record ArchiveMarker =
  am_run_id :: u64
  am_archived_at :: u64
  am_archived_by :: address
  am_archive_reason :: symbol

record SafeTreasurySummary =
  ts_asset :: address
  ts_total_balance :: i128
  ts_available_balance :: i128
  ts_reserved_balance :: i128
  ts_blocked_balance :: i128

record CancelledBatchStatus =
  cb_run_id :: u64
  cb_cancelled_at :: u64
  cb_cancelled_by :: address
  cb_reason :: symbol
  cb_employee_count :: u32
  cb_total_amount :: i128
  cb_draft_hash :: bytes
  cb_is_cancelled :: bool

record BatchSplitRecord =
  bs_parent_run_id :: u64
  bs_child_run_id :: u64
  bs_parent_total :: i128
  bs_parent_employee_count :: u32
  bs_child_total :: i128
  bs_child_employee_count :: u32
  bs_split_at :: u64
  bs_split_by :: address

datatype CompanyState = Active | Paused | Archived | Incomplete

record StorageVersionState =
  sv_version :: u32
  sv_updated_at :: u64
  sv_migration_complete :: bool
  sv_version_description :: string

record MigrationReadinessState =
  mr_ready :: bool
  mr_current_version :: u32
  mr_min_supported :: u32
  mr_max_supported :: u32
  mr_checked_at :: u64

record EmployerNonceSequenceState =
  ns_current_sequence :: u64
  ns_last_accepted_at :: u64
  ns_last_nonce :: bytes

datatype EvidencePointerScope = EvidenceEmployer | EvidencePeriod | EvidenceReviewCase

record ComplianceEvidencePointer =
  ep_pointer_id :: bytes
  ep_content_hash :: bytes
  ep_scope :: EvidencePointerScope
  ep_target :: address
  ep_created_at :: u64
  ep_created_by :: address
  ep_metadata_hash :: bytes

section \<open>Storage\<close>

record payroll = host +
  addresses :: "ContractAddresses option"
  payroll_pause_manager :: "address option"
  payroll_runs :: "u64 \<rightharpoonup> PayrollRun"
  pending_runs :: "u64 \<rightharpoonup> PendingPayrollRun"
  treasury_owner_key :: "address option"
  run_counter :: "u64 option"
  run_drafts :: "u64 \<rightharpoonup> PayrollRunDraft"
  run_draft_counter :: "u64 option"
  pending_admin_rotation :: "PendingRotation option"
  pending_treasury_rotation :: "PendingRotation option"
  run_nonces :: "bytes \<rightharpoonup> u64"
  deposit_nonces :: "bytes \<rightharpoonup> bool"
  draft_commitments :: "bytes \<rightharpoonup> bool"
  emergency_request :: "EmergencyWithdrawalRequest option"
  company_balances :: "address \<rightharpoonup> i128"
  archived_runs :: "u64 \<rightharpoonup> bool"
  challenged_runs :: "u64 \<rightharpoonup> bool"
  active_draft_for_period :: "symbol \<rightharpoonup> u64"
  company_state :: "CompanyState option"
  payroll_states :: "u64 \<rightharpoonup> PayrollRunState"
  allowed_assets :: "address \<rightharpoonup> bool"
  supported_assets :: "address list option"
  pending_run_count :: "u32 option"
  batch_checkpoints :: "address \<times> bytes \<times> address \<times> bytes \<rightharpoonup> BatchCheckpoint"
  authorized_reviewers :: "address \<rightharpoonup> bool"
  run_reviews :: "u64 \<rightharpoonup> RunReview"
  pending_admin_handover :: "PendingAdminHandover option"
  locked_payroll_funds :: "address \<rightharpoonup> i128"
  consumed_quorums :: "bytes \<rightharpoonup> u64"
  compliance_holds :: "u64 \<rightharpoonup> ComplianceHold"
  compliance_hold_counter :: "u64 option"
  reservation_expiries :: "address \<rightharpoonup> ReservationExpiry"
  archive_markers :: "u64 \<rightharpoonup> ArchiveMarker"
  employer_nonce_sequences :: "address \<rightharpoonup> EmployerNonceSequenceState"
  evidence_pointers :: "bytes \<rightharpoonup> ComplianceEvidencePointer"
  evidence_pointer_index :: "bytes \<rightharpoonup> bytes"
  storage_version :: "StorageVersionState option"
  migration_readiness :: "MigrationReadinessState option"
  cancelled_batches :: "u64 \<rightharpoonup> CancelledBatchStatus"
  batch_splits :: "u64 \<times> u64 \<rightharpoonup> BatchSplitRecord"

text \<open>
  The contracts that an invocation of the payroll contract reads (pause managers and proof
  verifiers) are part of the environment; those it changes (tokens and commitment
  contracts) are part of the world that the invocation transforms.
\<close>

record venv = penv +
  verifiers :: "address \<rightharpoonup> proof_verifier"

record world =
  pay :: payroll
  tokens :: "address \<rightharpoonup> token"
  commitment_contracts :: "address \<rightharpoonup> salary_commitment"

end
