(* ===== verification/Payroll_Config.thy ===== *)
theory Payroll_Config
  imports Payroll_State
begin

text \<open>
  \<open>contracts/payroll/src/lib.rs\<close>, second part: initialization, the guards and validation
  helpers, the nonce order, storage versions, compliance evidence pointers, the asset
  allowlist and the company state.
\<close>

section \<open>Constants\<close>

definition MAX_BATCH :: nat where "MAX_BATCH = 50"

definition DEFAULT_APPROVAL_EXPIRY_SECONDS :: u64 where
  "DEFAULT_APPROVAL_EXPIRY_SECONDS = 7 * 24 * 60 * 60"

definition CURRENT_STORAGE_VERSION :: u32 where "CURRENT_STORAGE_VERSION = 1"

definition MIN_SUPPORTED_STORAGE_VERSION :: u32 where "MIN_SUPPORTED_STORAGE_VERSION = 1"

definition MAX_SUPPORTED_STORAGE_VERSION :: u32 where "MAX_SUPPORTED_STORAGE_VERSION = 1"

text \<open>The values of the enums with and without discriminants as the host encodes them.\<close>

definition PayrollRunState_code :: "PayrollRunState \<Rightarrow> u32" where
  "PayrollRunState_code st = (case st of Draft \<Rightarrow> 0 | Validating \<Rightarrow> 1 | ProofPending \<Rightarrow> 2
     | ReadyToSubmit \<Rightarrow> 3 | Submitted \<Rightarrow> 4 | Confirming \<Rightarrow> 5 | Completed \<Rightarrow> 6 | Failed \<Rightarrow> 7
     | Cancelled \<Rightarrow> 8 | ReconciliationRequired \<Rightarrow> 9)"

definition BatchCheckpointState_code :: "BatchCheckpointState \<Rightarrow> u32" where
  "BatchCheckpointState_code st = (case st of CpStarted \<Rightarrow> 0 | CpPartiallyCheckpointed \<Rightarrow> 1
     | CpResumed \<Rightarrow> 2 | CpCompleted \<Rightarrow> 3 | CpFailed \<Rightarrow> 4)"

definition EvidencePointerScope_code :: "EvidencePointerScope \<Rightarrow> u32" where
  "EvidencePointerScope_code sc = (case sc of EvidenceEmployer \<Rightarrow> 0 | EvidencePeriod \<Rightarrow> 1
     | EvidenceReviewCase \<Rightarrow> 2)"

definition ReconciliationStatus_val :: "ReconciliationStatus \<Rightarrow> scval" where
  "ReconciliationStatus_val st = VVec [VSym (case st of Unreconciled \<Rightarrow> ''Unreconciled''
     | Reconciled \<Rightarrow> ''Reconciled'' | ReconciliationFailed \<Rightarrow> ''Failed'')]"

definition CompanyState_val :: "CompanyState \<Rightarrow> scval" where
  "CompanyState_val st = VVec [VSym (case st of Active \<Rightarrow> ''Active'' | Paused \<Rightarrow> ''Paused''
     | Archived \<Rightarrow> ''Archived'' | Incomplete \<Rightarrow> ''Incomplete'')]"

text \<open>Decimal rendering of numbers in panic messages.\<close>

fun show_nat :: "nat \<Rightarrow> string" where
  "show_nat n = (if n < 10 then [char_of (48 + n)] else show_nat (n div 10) @ [char_of (48 + n mod 10)])"

declare show_nat.simps [simp del]

definition show_int :: "int \<Rightarrow> string" where
  "show_int i = (if i < 0 then ''-'' @ show_nat (nat (- i)) else show_nat (nat i))"

section \<open>Guards\<close>

definition require_not_paused :: "'x penv_scheme \<Rightarrow> payroll \<Rightarrow> unit outcome" where
  "require_not_paused e s = pause_guard ''Payroll is paused'' e (payroll_pause_manager s)"

text \<open>The check that opens the admin-only entry points: the caller is the stored admin and
  has authorized the invocation.\<close>

definition admin_guard :: "'x env_scheme \<Rightarrow> string \<Rightarrow> address \<Rightarrow> payroll \<Rightarrow> ContractAddresses outcome" where
  "admin_guard e msg adm s =
     and_then (expect ''Not initialized'' (addresses s)) (\<lambda>addrs.
     and_then (panic_if (adm \<noteq> ca_admin addrs) msg) (\<lambda>_.
     and_then (require_auth e adm) (\<lambda>_.
     Inr addrs)))"

lemma admin_guard_ok [simp]:
  "admin_guard e msg adm s = Inr a \<longleftrightarrow> addresses s = Some a \<and> adm = ca_admin a \<and> auth e adm"
  by (auto simp: admin_guard_def)

definition require_company_active :: "payroll \<Rightarrow> unit outcome" where
  "require_company_active s = (case company_state s of
     None \<Rightarrow> Inr ()
   | Some Active \<Rightarrow> Inr ()
   | Some Paused \<Rightarrow> Inl (Panic ''Company is paused; payroll execution is not permitted'')
   | Some Archived \<Rightarrow> Inl (Panic ''Company is archived; payroll execution is not permitted'')
   | Some Incomplete \<Rightarrow> Inl (Panic ''Company setup is incomplete; payroll execution is not permitted''))"

definition pending_payroll_run_count :: "payroll \<Rightarrow> u32" where
  "pending_payroll_run_count s = unwrap_or 0 (pending_run_count s)"

definition require_no_active_payroll_run :: "payroll \<Rightarrow> unit outcome" where
  "require_no_active_payroll_run s = panic_if (pending_payroll_run_count s > 0)
     ''Configuration is locked: a payroll run is currently in progress. Cancel all pending runs before changing this setting''"

definition has_active_payroll_run :: "payroll \<Rightarrow> bool" where
  "has_active_payroll_run s \<longleftrightarrow> pending_payroll_run_count s > 0"

definition validate_run_id :: "u64 \<Rightarrow> unit outcome" where
  "validate_run_id run_id = panic_if (run_id = - 1) ''Invalid payroll run ID''"

definition validate_draft_id :: "u64 \<Rightarrow> unit outcome" where
  "validate_draft_id draft_id = panic_if (draft_id = 0) ''Invalid draft ID: must be non-zero''"

definition validate_non_zero_digest :: "bytes \<Rightarrow> unit outcome" where
  "validate_non_zero_digest digest = panic_if (digest = zero32) ''Digest cannot be all-zero bytes''"

definition validate_symbol_not_empty :: "symbol \<Rightarrow> unit outcome" where
  "validate_symbol_not_empty sb = panic_if (sb = []) ''Symbol cannot be empty''"

text \<open>The pairwise scan for a wallet that occurs twice: each element is compared with the
  ones after it.\<close>

primrec scan_for :: "address \<Rightarrow> address list \<Rightarrow> unit outcome" where
  "scan_for current [] = Inr ()"
| "scan_for current (x # xs) = and_then
     (panic_if (current = x) ''Duplicate employee wallet in payroll batch'') (\<lambda>_. scan_for current xs)"

primrec validate_no_duplicate_employees :: "address list \<Rightarrow> unit outcome" where
  "validate_no_duplicate_employees [] = Inr ()"
| "validate_no_duplicate_employees (x # xs) =
     and_then (scan_for x xs) (\<lambda>_. validate_no_duplicate_employees xs)"

section \<open>Nonces\<close>

definition nonce_to_u256 :: "bytes \<Rightarrow> u128" where
  "nonce_to_u256 nonce = fold (\<lambda>b v. (push_bit 8 v) OR ucast b) (take 16 nonce) 0"

definition validate_nonce_monotonicity :: "address \<Rightarrow> bytes \<Rightarrow> payroll \<Rightarrow> unit outcome" where
  "validate_nonce_monotonicity employer nonce s = (case employer_nonce_sequences s employer of
     Some st \<Rightarrow>
       and_then (panic_if (nonce = ns_last_nonce st)
         ''Nonce replay detected: this nonce has already been used for this employer'') (\<lambda>_.
       panic_if (nonce_to_u256 nonce \<le> nonce_to_u256 (ns_last_nonce st))
         ''Stale nonce detected: nonce must be strictly greater than the last accepted nonce for this employer'')
   | None \<Rightarrow> Inr ())"

definition update_nonce_sequence ::
  "'x env_scheme \<Rightarrow> address \<Rightarrow> bytes \<Rightarrow> payroll \<Rightarrow> payroll outcome" where
  "update_nonce_sequence e employer nonce s =
     and_then (case employer_nonce_sequences s employer of
         Some st \<Rightarrow> and_then (add_u (ns_current_sequence st) 1) (\<lambda>n.
           Inr (st\<lparr>ns_current_sequence := n, ns_last_accepted_at := timestamp e, ns_last_nonce := nonce\<rparr>))
       | None \<Rightarrow> Inr \<lparr>ns_current_sequence = 1, ns_last_accepted_at = timestamp e, ns_last_nonce = nonce\<rparr>)
     (\<lambda>st. Inr (s\<lparr>employer_nonce_sequences := (employer_nonce_sequences s)(employer \<mapsto> st)\<rparr>))"

definition get_employer_nonce_sequence :: "address \<Rightarrow> payroll \<Rightarrow> EmployerNonceSequenceState option" where
  "get_employer_nonce_sequence employer s = employer_nonce_sequences s employer"

section \<open>Compliance evidence pointers\<close>

definition generate_pointer_id :: "'x env_scheme \<Rightarrow> bytes \<Rightarrow> bytes" where
  "generate_pointer_id e content_hash = sha256 e (content_hash @ be_bytes 8 (uint (timestamp e)))"

definition create_evidence_pointer ::
  "'x penv_scheme \<Rightarrow> address \<Rightarrow> bytes \<Rightarrow> EvidencePointerScope \<Rightarrow> address \<Rightarrow> bytes option \<Rightarrow>
   payroll \<Rightarrow> (bytes \<times> payroll) outcome" where
  "create_evidence_pointer e adm content_hash scope target metadata_hash s =
     and_then (require_not_paused e s) (\<lambda>_.
     and_then (require_auth e adm) (\<lambda>_.
     and_then (panic_if (content_hash = zero32) ''Content hash cannot be empty (all zeros)'') (\<lambda>_.
     and_then (panic_if (evidence_pointer_index s content_hash \<noteq> None)
       ''Duplicate evidence pointer: content hash already exists'') (\<lambda>_.
     let pointer_id = generate_pointer_id e content_hash in
     and_then (panic_if (evidence_pointers s pointer_id \<noteq> None)
       ''Duplicate evidence pointer: pointer ID already exists'') (\<lambda>_.
     let pointer = \<lparr>ep_pointer_id = pointer_id, ep_content_hash = content_hash, ep_scope = scope,
           ep_target = target, ep_created_at = timestamp e, ep_created_by = adm,
           ep_metadata_hash = unwrap_or zero32 metadata_hash\<rparr> in
     Inr (pointer_id,
       publish [VSym ''payroll'', VSym ''evidence_pointer_created'']
         (VVec [VBytes pointer_id, VBytes content_hash, VU32 (EvidencePointerScope_code scope),
            VAddr target, VAddr adm])
         (s\<lparr>evidence_pointers := (evidence_pointers s)(pointer_id \<mapsto> pointer),
            evidence_pointer_index := (evidence_pointer_index s)(content_hash \<mapsto> pointer_id)\<rparr>)))))))"

definition get_evidence_pointer :: "bytes \<Rightarrow> payroll \<Rightarrow> ComplianceEvidencePointer outcome" where
  "get_evidence_pointer pointer_id s = expect ''Evidence pointer not found'' (evidence_pointers s pointer_id)"

definition evidence_pointer_exists :: "bytes \<Rightarrow> payroll \<Rightarrow> bool" where
  "evidence_pointer_exists content_hash s \<longleftrightarrow> evidence_pointer_index s content_hash \<noteq> None"

section \<open>Storage versions\<close>

definition readiness :: "'x env_scheme \<Rightarrow> bool \<Rightarrow> u32 \<Rightarrow> MigrationReadinessState" where
  "readiness e ready ver = \<lparr>mr_ready = ready, mr_current_version = ver,
     mr_min_supported = MIN_SUPPORTED_STORAGE_VERSION, mr_max_supported = MAX_SUPPORTED_STORAGE_VERSION,
     mr_checked_at = timestamp e\<rparr>"

definition set_storage_version ::
  "'x penv_scheme \<Rightarrow> address \<Rightarrow> u32 \<Rightarrow> string \<Rightarrow> payroll \<Rightarrow> payroll outcome" where
  "set_storage_version e adm ver description s =
     and_then (require_not_paused e s) (\<lambda>_.
     and_then (admin_guard e ''Unauthorized'' adm s) (\<lambda>addrs.
     and_then (panic_if (ver < MIN_SUPPORTED_STORAGE_VERSION \<or> ver > MAX_SUPPORTED_STORAGE_VERSION)
       ''Storage version out of supported range'') (\<lambda>_.
     Inr (publish [VSym ''payroll'', VSym ''storage_version_set''] (VVec [VU32 ver, VAddr adm])
       (s\<lparr>storage_version := Some \<lparr>sv_version = ver, sv_updated_at = timestamp e,
            sv_migration_complete = True, sv_version_description = description\<rparr>,
          migration_readiness := Some (readiness e True ver)\<rparr>)))))"

definition get_storage_version :: "payroll \<Rightarrow> StorageVersionState option" where
  "get_storage_version s = storage_version s"

definition is_storage_version_supported :: "payroll \<Rightarrow> bool" where
  "is_storage_version_supported s = (case storage_version s of
     Some st \<Rightarrow> sv_version st \<ge> MIN_SUPPORTED_STORAGE_VERSION \<and> sv_version st \<le> MAX_SUPPORTED_STORAGE_VERSION
   | None \<Rightarrow> True)"

definition is_migration_required :: "payroll \<Rightarrow> bool" where
  "is_migration_required s = (case storage_version s of
     Some st \<Rightarrow> sv_version st < MIN_SUPPORTED_STORAGE_VERSION
   | None \<Rightarrow> False)"

definition validate_storage_version_for_operation :: "string \<Rightarrow> payroll \<Rightarrow> unit outcome" where
  "validate_storage_version_for_operation operation_name s = (case storage_version s of
     Some st \<Rightarrow>
       and_then (panic_if (sv_version st < MIN_SUPPORTED_STORAGE_VERSION \<or>
           sv_version st > MAX_SUPPORTED_STORAGE_VERSION)
         (''Storage version '' @ show_nat (unat (sv_version st)) @
          '' is not supported for operation: '' @ operation_name @ ''. Supported range: '' @
          show_nat (unat MIN_SUPPORTED_STORAGE_VERSION) @ ''-'' @ show_nat (unat MAX_SUPPORTED_STORAGE_VERSION))) (\<lambda>_.
       panic_if (\<not> sv_migration_complete st)
         (''Migration not complete for operation: '' @ operation_name @ ''. Current version: '' @
          show_nat (unat (sv_version st))))
   | None \<Rightarrow> Inr ())"

definition check_migration_readiness :: "'x env_scheme \<Rightarrow> payroll \<Rightarrow> MigrationReadinessState" where
  "check_migration_readiness e s = (case storage_version s of
     Some st \<Rightarrow> readiness e (sv_version st \<ge> MIN_SUPPORTED_STORAGE_VERSION \<and>
       sv_version st \<le> MAX_SUPPORTED_STORAGE_VERSION \<and> sv_migration_complete st) (sv_version st)
   | None \<Rightarrow> readiness e True CURRENT_STORAGE_VERSION)"

definition initialize_storage_version :: "'x env_scheme \<Rightarrow> payroll \<Rightarrow> payroll" where
  "initialize_storage_version e s =
     (if storage_version s \<noteq> None then s
      else s\<lparr>storage_version := Some \<lparr>sv_version = CURRENT_STORAGE_VERSION, sv_updated_at = timestamp e,
               sv_migration_complete = True, sv_version_description = ''Initial version''\<rparr>,
             migration_readiness := Some (readiness e True CURRENT_STORAGE_VERSION)\<rparr>)"

section \<open>Initialization and configuration\<close>

definition initialize ::
  "'x env_scheme \<Rightarrow> address \<Rightarrow> address \<Rightarrow> address \<Rightarrow> address \<Rightarrow> address \<Rightarrow> address \<Rightarrow>
   payroll \<Rightarrow> payroll outcome" where
  "initialize e adm tok ver com treas owner s =
     and_then (panic_if (addresses s \<noteq> None) ''Already initialized'') (\<lambda>_.
     Inr (initialize_storage_version e (emit_payroll_initialized adm tok ver com treas owner
       (s\<lparr>addresses := Some \<lparr>ca_admin = adm, ca_token = tok, ca_verifier = ver, ca_commitment = com,
            ca_treasury = treas, ca_treasury_owner = owner\<rparr>,
          allowed_assets := (allowed_assets s)(tok \<mapsto> True),
          treasury_owner_key := Some owner,
          run_counter := Some 0\<rparr>))))"

definition set_pause_manager :: "'x env_scheme \<Rightarrow> address \<Rightarrow> payroll \<Rightarrow> payroll outcome" where
  "set_pause_manager e pm s =
     and_then (expect ''Not initialized'' (addresses s)) (\<lambda>addrs.
     and_then (require_auth e (ca_admin addrs)) (\<lambda>_.
     Inr (emit_pause_manager_set pm (s\<lparr>payroll_pause_manager := Some pm\<rparr>))))"

definition is_asset_allowed :: "address \<Rightarrow> payroll \<Rightarrow> bool" where
  "is_asset_allowed asset s = unwrap_or False (allowed_assets s asset)"

text \<open>\<open>first_index_of\<close> followed by \<open>remove\<close>, or \<open>push_back\<close>, on the enumerable list.\<close>

definition update_supported :: "address \<Rightarrow> bool \<Rightarrow> address list \<Rightarrow> address list" where
  "update_supported asset allowed assets =
     (if allowed \<and> asset \<notin> set assets then assets @ [asset]
      else if \<not> allowed then remove1 asset assets
      else assets)"

definition set_asset_allowed ::
  "'x env_scheme \<Rightarrow> address \<Rightarrow> bool \<Rightarrow> payroll \<Rightarrow> payroll outcome" where
  "set_asset_allowed e asset allowed s =
     and_then (expect ''Not initialized'' (addresses s)) (\<lambda>addrs.
     and_then (require_auth e (ca_admin addrs)) (\<lambda>_.
     and_then (require_no_active_payroll_run s) (\<lambda>_.
     let s = s\<lparr>allowed_assets := (allowed_assets s)(asset \<mapsto> allowed)\<rparr>;
         assets = (case supported_assets s of
           Some stored \<Rightarrow> stored
         | None \<Rightarrow> (if is_asset_allowed (ca_token addrs) s then [ca_token addrs] else [])) in
     Inr (s\<lparr>supported_assets := Some (update_supported asset allowed assets)\<rparr>))))"

definition get_supported_assets :: "payroll \<Rightarrow> address list" where
  "get_supported_assets s = (case supported_assets s of
     Some assets \<Rightarrow> assets
   | None \<Rightarrow> (case addresses s of
       Some addrs \<Rightarrow> (if is_asset_allowed (ca_token addrs) s then [ca_token addrs] else [])
     | None \<Rightarrow> []))"

definition set_company_state ::
  "'x env_scheme \<Rightarrow> address \<Rightarrow> CompanyState \<Rightarrow> payroll \<Rightarrow> payroll outcome" where
  "set_company_state e adm st s =
     and_then (admin_guard e ''Unauthorized'' adm s) (\<lambda>addrs.
     and_then (require_no_active_payroll_run s) (\<lambda>_.
     Inr (publish [VSym ''payroll'', VSym ''state_changed''] (CompanyState_val st)
       (s\<lparr>company_state := Some st\<rparr>))))"

definition get_company_state :: "payroll \<Rightarrow> CompanyState" where
  "get_company_state s = unwrap_or Active (company_state s)"

definition get_addresses :: "payroll \<Rightarrow> ContractAddresses outcome" where
  "get_addresses s = expect ''Not initialized'' (addresses s)"

definition get_treasury_owner :: "payroll \<Rightarrow> address outcome" where
  "get_treasury_owner s = expect ''Treasury owner not set'' (treasury_owner_key s)"

definition get_run_counter :: "payroll \<Rightarrow> u64" where
  "get_run_counter s = unwrap_or 0 (run_counter s)"

definition derive_run_id :: "payroll \<Rightarrow> (u64 \<times> payroll) outcome" where
  "derive_run_id s =
     and_then (add_u (unwrap_or 0 (run_counter s)) 1) (\<lambda>run_id.
     Inr (run_id, s\<lparr>run_counter := Some run_id\<rparr>))"

end
