(* ===== verification/Payroll_Runs.thy ===== *)
theory Payroll_Runs
  imports Payroll_Config
begin

text \<open>
  \<open>contracts/payroll/src/lib.rs\<close>, third part: the canonical state machine of a payroll run,
  deposits, emergency withdrawals, locked funds, and the life of a run: prepare, finalize,
  cancel, batch execution, metadata and reconciliation.
\<close>

section \<open>The canonical state machine\<close>

definition is_allowed_payroll_state_transition_internal ::
  "PayrollRunState \<Rightarrow> PayrollRunState \<Rightarrow> bool" where
  "is_allowed_payroll_state_transition_internal from to = (case from of
     Draft \<Rightarrow> to = Validating \<or> to = Cancelled
   | Validating \<Rightarrow> to = ProofPending \<or> to = Failed \<or> to = Cancelled
   | ProofPending \<Rightarrow> to = ReadyToSubmit \<or> to = Failed \<or> to = Cancelled
   | ReadyToSubmit \<Rightarrow> to = Submitted \<or> to = Failed \<or> to = Cancelled
   | Submitted \<Rightarrow> to = Confirming \<or> to = Failed \<or> to = Cancelled
   | Confirming \<Rightarrow> to = Completed \<or> to = Failed \<or> to = ReconciliationRequired
   | Failed \<Rightarrow> to = Validating \<or> to = ProofPending \<or> to = Cancelled
   | ReconciliationRequired \<Rightarrow> to = Completed \<or> to = Failed
   | Completed \<Rightarrow> False
   | Cancelled \<Rightarrow> False)"

definition is_terminal_payroll_state_internal :: "PayrollRunState \<Rightarrow> bool" where
  "is_terminal_payroll_state_internal st \<longleftrightarrow> st = Completed \<or> st = Cancelled"

definition is_retryable_payroll_state_internal :: "PayrollRunState \<Rightarrow> bool" where
  "is_retryable_payroll_state_internal st \<longleftrightarrow> st = Failed"

definition is_state_transition_allowed :: "PayrollRunState \<Rightarrow> PayrollRunState \<Rightarrow> bool" where
  "is_state_transition_allowed from to = is_allowed_payroll_state_transition_internal from to"

definition is_payroll_state_terminal :: "PayrollRunState \<Rightarrow> bool" where
  "is_payroll_state_terminal st = is_terminal_payroll_state_internal st"

definition is_payroll_state_retryable :: "PayrollRunState \<Rightarrow> bool" where
  "is_payroll_state_retryable st = is_retryable_payroll_state_internal st"

definition record_payroll_run_state :: "u64 \<Rightarrow> PayrollRunState \<Rightarrow> payroll \<Rightarrow> payroll" where
  "record_payroll_run_state run_id st s =
     publish [VSym ''payroll'', VSym ''run_state''] (VVec [VU64 run_id, VU32 (PayrollRunState_code st)])
       (s\<lparr>payroll_states := (payroll_states s)(run_id \<mapsto> st)\<rparr>)"

definition get_payroll_run_state_internal :: "u64 \<Rightarrow> payroll \<Rightarrow> PayrollRunState outcome" where
  "get_payroll_run_state_internal run_id s = (case payroll_states s run_id of
     Some st \<Rightarrow> Inr st
   | None \<Rightarrow> (case payroll_runs s run_id of
       Some run \<Rightarrow> Inr (case pr_reconciliation_status run of
           Reconciled \<Rightarrow> Completed
         | Unreconciled \<Rightarrow> ReconciliationRequired
         | ReconciliationFailed \<Rightarrow> ReconciliationRequired)
     | None \<Rightarrow>
         if pending_runs s run_id \<noteq> None then Inr Submitted
         else Inl (Panic ''Payroll run state not found'')))"

definition get_payroll_run_state :: "u64 \<Rightarrow> payroll \<Rightarrow> PayrollRunState outcome" where
  "get_payroll_run_state run_id s = get_payroll_run_state_internal run_id s"

definition transition_payroll_run_state ::
  "'x penv_scheme \<Rightarrow> address \<Rightarrow> u64 \<Rightarrow> PayrollRunState \<Rightarrow> payroll \<Rightarrow> payroll outcome" where
  "transition_payroll_run_state e adm run_id next_state s =
     and_then (require_not_paused e s) (\<lambda>_.
     and_then (admin_guard e ''Unauthorized'' adm s) (\<lambda>addrs.
     and_then (get_payroll_run_state_internal run_id s) (\<lambda>current.
     and_then (panic_if (\<not> is_allowed_payroll_state_transition_internal current next_state)
       ''Invalid payroll state transition'') (\<lambda>_.
     Inr (record_payroll_run_state run_id next_state s)))))"

definition get_payroll_run :: "u64 \<Rightarrow> payroll \<Rightarrow> PayrollRun outcome" where
  "get_payroll_run run_id s =
     and_then (validate_run_id run_id) (\<lambda>_. expect ''Run not found'' (payroll_runs s run_id))"

section \<open>Calls into token contracts\<close>

definition token_balance :: "address \<Rightarrow> address \<Rightarrow> world \<Rightarrow> i128 outcome" where
  "token_balance asset a w =
     and_then (ok_or (NoContract asset) (tokens w asset)) (\<lambda>t. Inr (balance t a))"

definition token_transfer :: "address \<Rightarrow> address \<Rightarrow> address \<Rightarrow> i128 \<Rightarrow> world \<Rightarrow> world outcome" where
  "token_transfer asset from to amount w =
     and_then (ok_or (NoContract asset) (tokens w asset)) (\<lambda>t.
     and_then (transfer from to amount t) (\<lambda>t'.
     Inr (w\<lparr>tokens := (tokens w)(asset \<mapsto> t')\<rparr>)))"

definition on_pay :: "(payroll \<Rightarrow> payroll outcome) \<Rightarrow> world \<Rightarrow> world outcome" where
  "on_pay f w = and_then (f (pay w)) (\<lambda>p. Inr (w\<lparr>pay := p\<rparr>))"

section \<open>Deposits and the treasury\<close>

definition deposit :: "'x penv_scheme \<Rightarrow> address \<Rightarrow> i128 \<Rightarrow> bytes \<Rightarrow> world \<Rightarrow> world outcome" where
  "deposit e from amount deposit_id w =
     and_then (require_not_paused e (pay w)) (\<lambda>_.
     and_then (validate_non_zero_digest deposit_id) (\<lambda>_.
     and_then (panic_if (amount \<le> 0) ''Deposit amount must be positive'') (\<lambda>_.
     and_then (panic_if (deposit_nonces (pay w) deposit_id \<noteq> None) ''Deposit already processed'') (\<lambda>_.
     let w = w\<lparr>pay := (pay w)\<lparr>deposit_nonces := (deposit_nonces (pay w))(deposit_id \<mapsto> True)\<rparr>\<rparr> in
     and_then (expect ''Not initialized'' (addresses (pay w))) (\<lambda>addrs.
     and_then (expect ''Treasury owner not set'' (treasury_owner_key (pay w))) (\<lambda>owner.
     and_then (require_auth e from) (\<lambda>_.
     and_then (require_auth e owner) (\<lambda>_.
     and_then (token_transfer (ca_token addrs) from (ca_treasury addrs) amount w) (\<lambda>w.
     and_then (add_i128 (unwrap_or 0 (company_balances (pay w) from)) amount) (\<lambda>new_balance.
     Inr (w\<lparr>pay := publish [VSym ''payroll'', VSym ''deposit'']
         (VVec [VAddr from, VI128 amount, VBytes deposit_id, VI128 new_balance])
         ((pay w)\<lparr>company_balances := (company_balances (pay w))(from \<mapsto> new_balance)\<rparr>)\<rparr>)))))))))))"

definition get_treasury_balance :: "address \<Rightarrow> payroll \<Rightarrow> i128" where
  "get_treasury_balance depositor s = unwrap_or 0 (company_balances s depositor)"

definition get_locked_funds :: "address \<Rightarrow> payroll \<Rightarrow> i128" where
  "get_locked_funds asset s = unwrap_or 0 (locked_payroll_funds s asset)"

definition get_available_treasury_balance :: "address \<Rightarrow> world \<Rightarrow> i128 outcome" where
  "get_available_treasury_balance asset w =
     and_then (expect ''Not initialized'' (addresses (pay w))) (\<lambda>addrs.
     and_then (token_balance asset (ca_treasury addrs) w) (\<lambda>total_balance.
     Inr (unwrap_or 0 (checked_sub_i128 total_balance (get_locked_funds asset (pay w))))))"

definition add_locked_funds :: "address \<Rightarrow> i128 \<Rightarrow> payroll \<Rightarrow> payroll outcome" where
  "add_locked_funds asset amount s =
     and_then (expect ''Locked funds overflow''
       (checked_add_i128 (unwrap_or 0 (locked_payroll_funds s asset)) amount)) (\<lambda>new_locked.
     Inr (emit_locked_funds_updated asset new_locked
       (s\<lparr>locked_payroll_funds := (locked_payroll_funds s)(asset \<mapsto> new_locked)\<rparr>)))"

definition subtract_locked_funds :: "address \<Rightarrow> i128 \<Rightarrow> payroll \<Rightarrow> payroll outcome" where
  "subtract_locked_funds asset amount s =
     and_then (expect ''Locked funds underflow''
       (checked_sub_i128 (unwrap_or 0 (locked_payroll_funds s asset)) amount)) (\<lambda>new_locked.
     Inr (emit_locked_funds_updated asset new_locked
       (s\<lparr>locked_payroll_funds := (locked_payroll_funds s)(asset \<mapsto> new_locked)\<rparr>)))"

definition get_safe_treasury_summary :: "address \<Rightarrow> world \<Rightarrow> SafeTreasurySummary outcome" where
  "get_safe_treasury_summary asset w =
     and_then (expect ''Not initialized'' (addresses (pay w))) (\<lambda>addrs.
     and_then (token_balance asset (ca_treasury addrs) w) (\<lambda>total_balance.
     let reserved_balance = get_locked_funds asset (pay w); blocked_balance = 0 in
     Inr \<lparr>ts_asset = asset, ts_total_balance = total_balance,
          ts_available_balance = unwrap_or 0 (checked_sub_i128
            (unwrap_or 0 (checked_sub_i128 total_balance reserved_balance)) blocked_balance),
          ts_reserved_balance = reserved_balance, ts_blocked_balance = blocked_balance\<rparr>))"

definition request_emergency_withdrawal ::
  "'x penv_scheme \<Rightarrow> address \<Rightarrow> i128 \<Rightarrow> address \<Rightarrow> world \<Rightarrow> world outcome" where
  "request_emergency_withdrawal e owner amount recipient w =
     and_then (require_not_paused e (pay w)) (\<lambda>_.
     and_then (panic_if (amount \<le> 0) ''Amount must be positive'') (\<lambda>_.
     and_then (expect ''Treasury owner not set'' (treasury_owner_key (pay w))) (\<lambda>stored_owner.
     and_then (panic_if (owner \<noteq> stored_owner) ''Unauthorized: caller is not treasury owner'') (\<lambda>_.
     and_then (require_auth e owner) (\<lambda>_.
     and_then (panic_if (emergency_request (pay w) \<noteq> None)
       ''A pending emergency request already exists'') (\<lambda>_.
     and_then (expect ''Not initialized'' (addresses (pay w))) (\<lambda>addrs.
     and_then (get_available_treasury_balance (ca_token addrs) w) (\<lambda>available.
     and_then (panic_if (amount > available)
       ''Insufficient available treasury balance: funds locked for pending payroll'') (\<lambda>_.
     Inr (w\<lparr>pay := emit_emergency_requested amount recipient
       ((pay w)\<lparr>emergency_request := Some \<lparr>ew_amount = amount, ew_recipient = recipient,
          ew_requested_at = timestamp e, ew_approved = False\<rparr>\<rparr>)\<rparr>))))))))))"

definition approve_emergency_withdrawal ::
  "'x penv_scheme \<Rightarrow> address \<Rightarrow> world \<Rightarrow> world outcome" where
  "approve_emergency_withdrawal e adm w =
     and_then (require_not_paused e (pay w)) (\<lambda>_.
     and_then (admin_guard e ''Unauthorized'' adm (pay w)) (\<lambda>addrs.
     and_then (expect ''No pending emergency request'' (emergency_request (pay w))) (\<lambda>request.
     and_then (get_available_treasury_balance (ca_token addrs) w) (\<lambda>available.
     and_then (panic_if (ew_amount request > available)
       ''Insufficient available treasury balance: funds locked for pending payroll'') (\<lambda>_.
     let w = w\<lparr>pay := (pay w)\<lparr>emergency_request := None\<rparr>\<rparr> in
     and_then (token_transfer (ca_token addrs) (ca_treasury addrs) (ew_recipient request) (ew_amount request) w) (\<lambda>w.
     Inr (w\<lparr>pay := emit_emergency_approved (ew_amount request) (ew_recipient request) (pay w)\<rparr>)))))))"

definition cancel_emergency_withdrawal ::
  "'x penv_scheme \<Rightarrow> address \<Rightarrow> payroll \<Rightarrow> payroll outcome" where
  "cancel_emergency_withdrawal e caller s =
     and_then (require_not_paused e s) (\<lambda>_.
     and_then (expect ''Not initialized'' (addresses s)) (\<lambda>addrs.
     and_then (expect ''Treasury owner not set'' (treasury_owner_key s)) (\<lambda>stored_owner.
     and_then (panic_if (caller \<noteq> ca_admin addrs \<and> caller \<noteq> stored_owner)
       ''Unauthorized: only admin or treasury owner may cancel'') (\<lambda>_.
     and_then (require_auth e caller) (\<lambda>_.
     and_then (panic_if (emergency_request s = None) ''No pending emergency request to cancel'') (\<lambda>_.
     Inr (emit_emergency_cancelled caller (s\<lparr>emergency_request := None\<rparr>))))))))"

definition get_emergency_request :: "payroll \<Rightarrow> EmergencyWithdrawalRequest option" where
  "get_emergency_request s = emergency_request s"

section \<open>Reviews of a run\<close>

definition get_run_review :: "u64 \<Rightarrow> payroll \<Rightarrow> RunReview option" where
  "get_run_review run_id s = run_reviews s run_id"

definition is_payroll_approval_expired :: "'x env_scheme \<Rightarrow> u64 \<Rightarrow> u64 \<Rightarrow> payroll \<Rightarrow> bool" where
  "is_payroll_approval_expired e run_id max_age_seconds s = (case get_run_review run_id s of
     Some review \<Rightarrow>
       if rv_decision review = Approved
       then timestamp e > saturating_add (rv_reviewed_at review) max_age_seconds
       else False
   | None \<Rightarrow> False)"

definition validate_approval_not_expired :: "'x env_scheme \<Rightarrow> u64 \<Rightarrow> u64 \<Rightarrow> payroll \<Rightarrow> unit outcome" where
  "validate_approval_not_expired e run_id max_age_seconds s =
     panic_if (is_payroll_approval_expired e run_id max_age_seconds s)
       ''Payroll approval expired: approval record exceeds maximum allowed age''"

section \<open>Preparing, finalizing and cancelling a run\<close>

primrec sum_amounts :: "i128 \<Rightarrow> i128 list \<Rightarrow> i128 outcome" where
  "sum_amounts acc [] = Inr acc"
| "sum_amounts acc (amt # amounts) =
     and_then (panic_if (amt \<le> 0) ''Amount must be positive'') (\<lambda>_.
     and_then (add_i128 acc amt) (\<lambda>acc. sum_amounts acc amounts))"

definition spend_mismatch :: "i128 \<Rightarrow> i128 \<Rightarrow> string" where
  "spend_mismatch expected tot = ''Expected spend mismatch: authorised '' @ show_int expected @
     '' but batch totals '' @ show_int tot"

definition prepare_payroll_run ::
  "'x penv_scheme \<Rightarrow> bytes list \<Rightarrow> i128 list \<Rightarrow> address list \<Rightarrow> i128 \<Rightarrow> bytes \<Rightarrow> bytes option \<Rightarrow>
   payroll \<Rightarrow> (u64 \<times> payroll) outcome" where
  "prepare_payroll_run e proofs amounts employees expected_total_spend nonce draft_hash s =
     and_then (require_company_active s) (\<lambda>_.
     and_then (validate_storage_version_for_operation ''prepare_payroll_run'' s) (\<lambda>_.
     let count = length proofs in
     and_then (panic_if (length amounts \<noteq> count \<or> length employees \<noteq> count) ''Array length mismatch'') (\<lambda>_.
     and_then (panic_if (count = 0) ''Empty payroll batch'') (\<lambda>_.
     and_then (panic_if (\<not> count \<le> MAX_BATCH) ''Batch too large'') (\<lambda>_.
     and_then (panic_if (run_nonces s nonce \<noteq> None)
       ''Duplicate run nonce: this payroll batch has already been submitted'') (\<lambda>_.
     and_then (case draft_hash of
         Some dh \<Rightarrow> and_then (panic_if (draft_commitments s dh = None)
           ''Draft hash not pre-committed: call commit_draft first'') (\<lambda>_. Inr dh)
       | None \<Rightarrow> Inr zero32) (\<lambda>resolved_draft_hash.
     and_then (validate_no_duplicate_employees employees) (\<lambda>_.
     and_then (sum_amounts 0 amounts) (\<lambda>total.
     and_then (panic_if (total \<noteq> expected_total_spend) (spend_mismatch expected_total_spend total)) (\<lambda>_.
     and_then (expect ''Not initialized'' (addresses s)) (\<lambda>addrs.
     and_then (validate_nonce_monotonicity (ca_admin addrs) nonce s) (\<lambda>_.
     and_then (require_auth e (ca_admin addrs)) (\<lambda>_.
     and_then (panic_if (\<not> is_asset_allowed (ca_token addrs) s) ''Asset not allowed'') (\<lambda>_.
     and_then (derive_run_id s) (\<lambda>(run_id, s).
     let s = s\<lparr>run_nonces := (run_nonces s)(nonce \<mapsto> run_id)\<rparr> in
     and_then (update_nonce_sequence e (ca_admin addrs) nonce s) (\<lambda>s.
     let s = s\<lparr>pending_runs := (pending_runs s)(run_id \<mapsto> \<lparr>pp_run_id = run_id,
               pp_prepared_at = timestamp e, pp_admin = ca_admin addrs,
               pp_total_amount = expected_total_spend, pp_employee_count = of_nat count,
               pp_draft_hash = resolved_draft_hash, pp_nonce = nonce\<rparr>)\<rparr>;
         s = record_payroll_run_state run_id Submitted s in
     and_then (add_u (pending_payroll_run_count s) 1) (\<lambda>n.
     let s = s\<lparr>pending_run_count := Some n\<rparr> in
     and_then (add_locked_funds (ca_token addrs) expected_total_spend s) (\<lambda>s.
     Inr (run_id, emit_run_prepared run_id expected_total_spend s)))))))))))))))))))"

definition get_pending_run :: "u64 \<Rightarrow> payroll \<Rightarrow> PendingPayrollRun option" where
  "get_pending_run run_id s = pending_runs s run_id"

definition finalize_payroll_run ::
  "'x penv_scheme \<Rightarrow> address \<Rightarrow> u64 \<Rightarrow> payroll \<Rightarrow> payroll outcome" where
  "finalize_payroll_run e adm run_id s =
     and_then (require_not_paused e s) (\<lambda>_.
     and_then (validate_run_id run_id) (\<lambda>_.
     and_then (admin_guard e ''Unauthorized'' adm s) (\<lambda>addrs.
     and_then (expect ''Pending run not found'' (pending_runs s run_id)) (\<lambda>pending_run.
     and_then (validate_approval_not_expired e run_id DEFAULT_APPROVAL_EXPIRY_SECONDS s) (\<lambda>_.
     and_then (panic_if (payroll_runs s run_id \<noteq> None)
       ''Cannot cancel: run has already been executed'') (\<lambda>_.
     and_then (subtract_locked_funds (ca_token addrs) (pp_total_amount pending_run) s) (\<lambda>s.
     let s = s\<lparr>pending_runs := (pending_runs s)(run_id := None)\<rparr>;
         s = record_payroll_run_state run_id ReconciliationRequired s;
         s = s\<lparr>pending_run_count := Some (saturating_sub (pending_payroll_run_count s) 1)\<rparr>;
         run = \<lparr>pr_run_id = run_id, pr_executed_at = timestamp e, pr_admin = ca_admin addrs,
               pr_total_amount = pp_total_amount pending_run,
               pr_employee_count = pp_employee_count pending_run,
               pr_draft_hash = pp_draft_hash pending_run, pr_nonce = pp_nonce pending_run,
               pr_reconciliation_status = Unreconciled, pr_metadata_hash = zero32\<rparr> in
     Inr (publish [VSym ''payroll'', VSym ''run_finalized'']
         (VVec [VU64 run_id, VI128 (pp_total_amount pending_run)])
         (s\<lparr>payroll_runs := (payroll_runs s)(run_id \<mapsto> run)\<rparr>)))))))))"

definition cancel_payroll_run_with_reason ::
  "'x env_scheme \<Rightarrow> address \<Rightarrow> u64 \<Rightarrow> symbol \<Rightarrow> payroll \<Rightarrow> payroll outcome" where
  "cancel_payroll_run_with_reason e adm run_id reason s =
     and_then (validate_run_id run_id) (\<lambda>_.
     and_then (validate_symbol_not_empty reason) (\<lambda>_.
     and_then (admin_guard e ''Unauthorized'' adm s) (\<lambda>addrs.
     and_then (panic_if (payroll_runs s run_id \<noteq> None) ''Cannot cancel a finalized payroll run'') (\<lambda>_.
     and_then (expect ''Pending run not found'' (pending_runs s run_id)) (\<lambda>pending_run.
     and_then (subtract_locked_funds (ca_token addrs) (pp_total_amount pending_run) s) (\<lambda>s.
     let s = s\<lparr>cancelled_batches := (cancelled_batches s)(run_id \<mapsto> \<lparr>cb_run_id = run_id,
               cb_cancelled_at = timestamp e, cb_cancelled_by = adm, cb_reason = reason,
               cb_employee_count = pp_employee_count pending_run,
               cb_total_amount = pp_total_amount pending_run,
               cb_draft_hash = pp_draft_hash pending_run, cb_is_cancelled = True\<rparr>)\<rparr>;
         s = s\<lparr>pending_runs := (pending_runs s)(run_id := None)\<rparr>;
         s = record_payroll_run_state run_id Cancelled s in
     Inr (publish [VSym ''payroll'', VSym ''run_cancelled''] (VVec [VU64 run_id, VSym reason])
       (s\<lparr>pending_run_count := Some (saturating_sub (pending_payroll_run_count s) 1)\<rparr>))))))))"

definition cancel_payroll_run ::
  "'x env_scheme \<Rightarrow> address \<Rightarrow> u64 \<Rightarrow> symbol \<Rightarrow> payroll \<Rightarrow> payroll outcome" where
  "cancel_payroll_run e adm run_id reason s = cancel_payroll_run_with_reason e adm run_id reason s"

definition get_cancelled_batch_status :: "u64 \<Rightarrow> payroll \<Rightarrow> CancelledBatchStatus option" where
  "get_cancelled_batch_status run_id s = cancelled_batches s run_id"

definition get_batch_lock_timestamp :: "u64 \<Rightarrow> payroll \<Rightarrow> u64 option" where
  "get_batch_lock_timestamp run_id s = (case pending_runs s run_id of
     Some pending \<Rightarrow> Some (pp_prepared_at pending)
   | None \<Rightarrow> (case payroll_runs s run_id of
       Some run \<Rightarrow> Some (pr_executed_at run)
     | None \<Rightarrow> None))"

section \<open>Executing a batch\<close>

definition batch_nullifier :: "nat \<Rightarrow> bytes" where
  "batch_nullifier i = [of_nat (i mod 256), of_nat (i div 256)] @ replicate 30 0"

text \<open>One round of the payment loop: the calls into the commitment contract, the verifier
  and the token, in the order of the source.\<close>

definition pay_employee ::
  "venv \<Rightarrow> ContractAddresses \<Rightarrow> nat \<Rightarrow> bytes \<Rightarrow> i128 \<Rightarrow> address \<Rightarrow> world \<Rightarrow> world outcome" where
  "pay_employee e addrs i prf amount employee w =
     and_then (ok_or (NoContract (ca_commitment addrs)) (commitment_contracts w (ca_commitment addrs))) (\<lambda>cc.
     and_then (get_commitment employee cc) (\<lambda>commitment_struct.
     and_then (ok_or (NoContract (ca_verifier addrs)) (verifiers e (ca_verifier addrs))) (\<lambda>v.
     and_then (verify_payment_proof prf
       [commitment commitment_struct, batch_nullifier i, zero32] v) (\<lambda>ok.
     and_then (panic_if (\<not> ok) (''Invalid payment proof for employee '' @ show_nat i)) (\<lambda>_.
     and_then (record_nullifier (invoked_by_self e) (batch_nullifier i) cc) (\<lambda>cc.
     let w = w\<lparr>commitment_contracts := (commitment_contracts w)(ca_commitment addrs \<mapsto> cc)\<rparr> in
     and_then (token_transfer (ca_token addrs) (ca_treasury addrs) employee amount w) (\<lambda>w.
     and_then (lock_commitment_updates (invoked_by_self e) employee cc) (\<lambda>cc.
     let w = w\<lparr>commitment_contracts := (commitment_contracts w)(ca_commitment addrs \<mapsto> cc)\<rparr> in
     Inr (w\<lparr>pay := emit_payment_executed employee amount (pay w)\<rparr>)))))))))"

fun pay_employees ::
  "venv \<Rightarrow> ContractAddresses \<Rightarrow> nat \<Rightarrow> bytes list \<Rightarrow> i128 list \<Rightarrow> address list \<Rightarrow> world \<Rightarrow> world outcome" where
  "pay_employees e addrs i (prf # proofs) (amount # amounts) (employee # employees) w =
     and_then (pay_employee e addrs i prf amount employee w) (\<lambda>w.
     pay_employees e addrs (i + 1) proofs amounts employees w)"
| "pay_employees e addrs i _ _ _ w = Inr w"

definition consume_draft_commitment :: "bytes option \<Rightarrow> payroll \<Rightarrow> (bytes \<times> payroll) outcome" where
  "consume_draft_commitment draft_hash s = (case draft_hash of
     Some dh \<Rightarrow> and_then (panic_if (draft_commitments s dh = None)
       ''Draft hash not pre-committed: call commit_draft first'') (\<lambda>_.
       Inr (dh, s\<lparr>draft_commitments := (draft_commitments s)(dh := None)\<rparr>))
   | None \<Rightarrow> Inr (zero32, s))"

definition batch_process_payroll ::
  "venv \<Rightarrow> bytes list \<Rightarrow> i128 list \<Rightarrow> address list \<Rightarrow> i128 \<Rightarrow> bytes \<Rightarrow> bytes option \<Rightarrow>
   world \<Rightarrow> (u64 \<times> world) outcome" where
  "batch_process_payroll e proofs amounts employees expected_total_spend nonce draft_hash w =
     (let s = pay w in
     and_then (require_company_active s) (\<lambda>_.
     and_then (validate_storage_version_for_operation ''batch_process_payroll'' s) (\<lambda>_.
     and_then (validate_non_zero_digest nonce) (\<lambda>_.
     and_then (case draft_hash of Some dh \<Rightarrow> validate_non_zero_digest dh | None \<Rightarrow> Inr ()) (\<lambda>_.
     let count = length proofs in
     and_then (panic_if (length amounts \<noteq> count \<or> length employees \<noteq> count) ''Array length mismatch'') (\<lambda>_.
     and_then (panic_if (count = 0) ''Empty payroll batch'') (\<lambda>_.
     and_then (panic_if (\<not> count \<le> MAX_BATCH) ''Batch too large'') (\<lambda>_.
     and_then (panic_if (run_nonces s nonce \<noteq> None)
       ''Duplicate run nonce: this payroll batch has already been submitted'') (\<lambda>_.
     and_then (consume_draft_commitment draft_hash s) (\<lambda>(resolved_draft_hash, s).
     and_then (validate_no_duplicate_employees employees) (\<lambda>_.
     and_then (sum_amounts 0 amounts) (\<lambda>total.
     and_then (panic_if (total \<noteq> expected_total_spend) (spend_mismatch expected_total_spend total)) (\<lambda>_.
     and_then (expect ''Not initialized'' (addresses s)) (\<lambda>addrs.
     and_then (validate_nonce_monotonicity (ca_admin addrs) nonce s) (\<lambda>_.
     and_then (panic_if (\<not> is_asset_allowed (ca_token addrs) s) ''Asset not allowed'') (\<lambda>_.
     and_then (require_not_paused e s) (\<lambda>_.
     and_then (require_auth e (ca_admin addrs)) (\<lambda>_.
     and_then (derive_run_id s) (\<lambda>(run_id, s).
     let s = s\<lparr>run_nonces := (run_nonces s)(nonce \<mapsto> run_id)\<rparr> in
     and_then (update_nonce_sequence e (ca_admin addrs) nonce s) (\<lambda>s.
     and_then (token_balance (ca_token addrs) (ca_treasury addrs) w) (\<lambda>treasury_balance.
     and_then (panic_if (treasury_balance < expected_total_spend)
       (''Insufficient treasury balance: available '' @ show_int treasury_balance @
        '' but batch requires '' @ show_int expected_total_spend)) (\<lambda>_.
     and_then (pay_employees e addrs 0 proofs amounts employees (w\<lparr>pay := s\<rparr>)) (\<lambda>w.
     let run = \<lparr>pr_run_id = run_id, pr_executed_at = timestamp e, pr_admin = ca_admin addrs,
               pr_total_amount = expected_total_spend, pr_employee_count = of_nat count,
               pr_draft_hash = resolved_draft_hash, pr_nonce = nonce,
               pr_reconciliation_status = Unreconciled, pr_metadata_hash = zero32\<rparr>;
         s = pay w;
         s = s\<lparr>payroll_runs := (payroll_runs s)(run_id \<mapsto> run)\<rparr>;
         s = record_payroll_run_state run_id ReconciliationRequired s in
     Inr (run_id, w\<lparr>pay := emit_run_executed run_id expected_total_spend s\<rparr>))))))))))))))))))))))))"

section \<open>Metadata, pre-committed drafts and reconciliation\<close>

definition commit_metadata_hash ::
  "'x penv_scheme \<Rightarrow> address \<Rightarrow> bytes \<Rightarrow> payroll \<Rightarrow> payroll outcome" where
  "commit_metadata_hash e adm metadata_hash s =
     and_then (require_not_paused e s) (\<lambda>_.
     and_then (validate_non_zero_digest metadata_hash) (\<lambda>_.
     and_then (admin_guard e ''Unauthorized'' adm s) (\<lambda>addrs.
     and_then (panic_if (draft_commitments s metadata_hash \<noteq> None) ''Metadata hash already committed'') (\<lambda>_.
     Inr (emit_metadata_committed metadata_hash
       (s\<lparr>draft_commitments := (draft_commitments s)(metadata_hash \<mapsto> True)\<rparr>))))))"

definition set_run_metadata ::
  "'x penv_scheme \<Rightarrow> address \<Rightarrow> u64 \<Rightarrow> bytes \<Rightarrow> payroll \<Rightarrow> payroll outcome" where
  "set_run_metadata e adm run_id metadata_hash s =
     and_then (require_not_paused e s) (\<lambda>_.
     and_then (validate_run_id run_id) (\<lambda>_.
     and_then (validate_non_zero_digest metadata_hash) (\<lambda>_.
     and_then (admin_guard e ''Unauthorized'' adm s) (\<lambda>addrs.
     and_then (panic_if (draft_commitments s metadata_hash = None)
       ''Metadata hash not pre-committed: call commit_metadata_hash first'') (\<lambda>_.
     let s = s\<lparr>draft_commitments := (draft_commitments s)(metadata_hash := None)\<rparr> in
     and_then (expect ''Run not found'' (payroll_runs s run_id)) (\<lambda>run.
     Inr (emit_metadata_bound run_id metadata_hash
       (s\<lparr>payroll_runs := (payroll_runs s)(run_id \<mapsto> run\<lparr>pr_metadata_hash := metadata_hash\<rparr>)\<rparr>))))))))"

definition commit_draft :: "'x penv_scheme \<Rightarrow> address \<Rightarrow> bytes \<Rightarrow> payroll \<Rightarrow> payroll outcome" where
  "commit_draft e adm draft_hash s =
     and_then (require_not_paused e s) (\<lambda>_.
     and_then (validate_non_zero_digest draft_hash) (\<lambda>_.
     and_then (admin_guard e ''Unauthorized'' adm s) (\<lambda>addrs.
     and_then (panic_if (draft_commitments s draft_hash \<noteq> None) ''Draft already committed'') (\<lambda>_.
     Inr (emit_draft_committed draft_hash
       (s\<lparr>draft_commitments := (draft_commitments s)(draft_hash \<mapsto> True)\<rparr>))))))"

definition get_metadata_hash :: "u64 \<Rightarrow> payroll \<Rightarrow> bytes outcome" where
  "get_metadata_hash run_id s =
     and_then (validate_run_id run_id) (\<lambda>_.
     and_then (expect ''Run not found'' (payroll_runs s run_id)) (\<lambda>run. Inr (pr_metadata_hash run)))"

definition verify_metadata_hash :: "u64 \<Rightarrow> bytes \<Rightarrow> payroll \<Rightarrow> bool outcome" where
  "verify_metadata_hash run_id expected_hash s =
     and_then (validate_run_id run_id) (\<lambda>_.
     and_then (expect ''Run not found'' (payroll_runs s run_id)) (\<lambda>run.
     Inr (pr_metadata_hash run = expected_hash)))"

definition update_reconciliation_status ::
  "'x penv_scheme \<Rightarrow> address \<Rightarrow> u64 \<Rightarrow> ReconciliationStatus \<Rightarrow> payroll \<Rightarrow> payroll outcome" where
  "update_reconciliation_status e adm run_id status s =
     and_then (require_not_paused e s) (\<lambda>_.
     and_then (admin_guard e ''Unauthorized'' adm s) (\<lambda>addrs.
     and_then (expect ''Run not found'' (payroll_runs s run_id)) (\<lambda>run.
     and_then (get_payroll_run_state_internal run_id s) (\<lambda>current_state.
     and_then (panic_if (current_state = Completed)
       ''Settlement already finalized: run is Completed and cannot be updated again'') (\<lambda>_.
     let s = s\<lparr>payroll_runs := (payroll_runs s)(run_id \<mapsto> run\<lparr>pr_reconciliation_status := status\<rparr>)\<rparr>;
         next_state = (case status of Reconciled \<Rightarrow> Completed | Unreconciled \<Rightarrow> ReconciliationRequired
           | ReconciliationFailed \<Rightarrow> Failed) in
     and_then (panic_if (current_state \<noteq> next_state \<and>
         \<not> is_allowed_payroll_state_transition_internal current_state next_state)
       ''Invalid payroll state transition'') (\<lambda>_.
     Inr (publish [VSym ''payroll'', VSym ''reconciliation_updated'']
       (VVec [VU64 run_id, ReconciliationStatus_val status])
       (record_payroll_run_state run_id next_state s))))))))"

end
