(* ===== verification/Payroll_Admin.thy ===== *)
theory Payroll_Admin
  imports Payroll_Runs
begin

text \<open>
  \<open>contracts/payroll/src/lib.rs\<close>, fourth part: batch checkpoints, run drafts, rotation of the
  admin and the treasury owner, admin handover, signer quorums, archiving, reviews,
  compliance holds, reservation expiry and batch splits.
\<close>

section \<open>Batch checkpoints\<close>

definition begin_batch_execution_checkpoint ::
  "'x env_scheme \<Rightarrow> address \<Rightarrow> address \<Rightarrow> bytes \<Rightarrow> address \<Rightarrow> bytes \<Rightarrow> u32 \<Rightarrow> payroll \<Rightarrow> payroll outcome" where
  "begin_batch_execution_checkpoint e adm employer batch_root asset execution_nonce checkpoint_index s =
     and_then (validate_non_zero_digest batch_root) (\<lambda>_.
     and_then (validate_non_zero_digest execution_nonce) (\<lambda>_.
     and_then (admin_guard e ''Unauthorized'' adm s) (\<lambda>addrs.
     let key = (employer, batch_root, asset, execution_nonce) in
     and_then (panic_if (batch_checkpoints s key \<noteq> None) ''Batch execution checkpoint already exists'') (\<lambda>_.
     Inr (emit_batch_checkpoint_started employer batch_root asset execution_nonce checkpoint_index
       (s\<lparr>batch_checkpoints := (batch_checkpoints s)(key \<mapsto> \<lparr>bc_employer = employer,
          bc_batch_root = batch_root, bc_asset = asset, bc_execution_nonce = execution_nonce,
          bc_state = CpStarted, bc_last_checkpoint_index = checkpoint_index,
          bc_total_checkpoints = 1, bc_completed = False, bc_failed = False\<rparr>)\<rparr>))))))"

definition checkpoint_mismatch :: "address \<Rightarrow> bytes \<Rightarrow> address \<Rightarrow> bytes \<Rightarrow> BatchCheckpoint \<Rightarrow> bool" where
  "checkpoint_mismatch employer batch_root asset execution_nonce c \<longleftrightarrow>
     bc_employer c \<noteq> employer \<or> bc_batch_root c \<noteq> batch_root \<or> bc_asset c \<noteq> asset \<or>
     bc_execution_nonce c \<noteq> execution_nonce"

definition record_batch_checkpoint_progress ::
  "'x env_scheme \<Rightarrow> address \<Rightarrow> address \<Rightarrow> bytes \<Rightarrow> address \<Rightarrow> bytes \<Rightarrow> u32 \<Rightarrow> BatchCheckpointState \<Rightarrow>
   payroll \<Rightarrow> payroll outcome" where
  "record_batch_checkpoint_progress e adm employer batch_root asset execution_nonce checkpoint_index st s =
     and_then (admin_guard e ''Unauthorized'' adm s) (\<lambda>addrs.
     let key = (employer, batch_root, asset, execution_nonce) in
     and_then (expect ''ERR_BATCH_CHECKPOINT_MISMATCH'' (batch_checkpoints s key)) (\<lambda>c.
     and_then (panic_if (checkpoint_mismatch employer batch_root asset execution_nonce c)
       ''ERR_BATCH_CHECKPOINT_MISMATCH'') (\<lambda>_.
     and_then (panic_if (bc_completed c \<or> bc_failed c \<or> checkpoint_index < bc_last_checkpoint_index c \<or>
         st = CpStarted \<or> st = CpResumed) ''ERR_BATCH_CHECKPOINT_MISMATCH'') (\<lambda>_.
     and_then (expect ''ERR_BATCH_CHECKPOINT_MISMATCH''
       (if unat (bc_total_checkpoints c) + 1 < 2 ^ 32 then Some (bc_total_checkpoints c + 1) else None)) (\<lambda>n.
     Inr (emit_batch_checkpoint_updated employer batch_root asset execution_nonce checkpoint_index
         (BatchCheckpointState_code st)
       (s\<lparr>batch_checkpoints := (batch_checkpoints s)(key \<mapsto>
          c\<lparr>bc_last_checkpoint_index := checkpoint_index, bc_state := st, bc_total_checkpoints := n,
             bc_completed := (st = CpCompleted), bc_failed := (st = CpFailed)\<rparr>)\<rparr>)))))))"

definition get_batch_execution_checkpoint ::
  "address \<Rightarrow> bytes \<Rightarrow> address \<Rightarrow> bytes \<Rightarrow> payroll \<Rightarrow> BatchCheckpoint outcome" where
  "get_batch_execution_checkpoint employer batch_root asset execution_nonce s =
     expect ''Batch execution checkpoint not found''
       (batch_checkpoints s (employer, batch_root, asset, execution_nonce))"

definition resume_batch_execution ::
  "'x env_scheme \<Rightarrow> address \<Rightarrow> address \<Rightarrow> bytes \<Rightarrow> address \<Rightarrow> bytes \<Rightarrow> u32 \<Rightarrow> payroll \<Rightarrow>
   (bool \<times> payroll) outcome" where
  "resume_batch_execution e adm employer batch_root asset execution_nonce checkpoint_index s =
     and_then (validate_non_zero_digest batch_root) (\<lambda>_.
     and_then (validate_non_zero_digest execution_nonce) (\<lambda>_.
     and_then (admin_guard e ''Unauthorized'' adm s) (\<lambda>addrs.
     let key = (employer, batch_root, asset, execution_nonce) in
     and_then (expect ''ERR_BATCH_CHECKPOINT_MISMATCH'' (batch_checkpoints s key)) (\<lambda>c.
     and_then (panic_if (checkpoint_mismatch employer batch_root asset execution_nonce c \<or>
         checkpoint_index \<noteq> bc_last_checkpoint_index c \<or>
         bc_state c = CpResumed \<or> bc_state c = CpCompleted \<or> bc_state c = CpFailed \<or>
         bc_completed c \<or> bc_failed c) ''ERR_BATCH_CHECKPOINT_MISMATCH'') (\<lambda>_.
     Inr (True, emit_batch_checkpoint_resumed employer batch_root asset execution_nonce checkpoint_index
       (s\<lparr>batch_checkpoints := (batch_checkpoints s)(key \<mapsto>
          c\<lparr>bc_state := CpResumed, bc_last_checkpoint_index := checkpoint_index\<rparr>)\<rparr>)))))))"

section \<open>Run drafts\<close>

definition is_allowed_draft_state_transition_internal :: "RunDraftState \<Rightarrow> RunDraftState \<Rightarrow> bool" where
  "is_allowed_draft_state_transition_internal from to = (case from of
     DraftPending \<Rightarrow> to = DraftFinalized \<or> to = DraftSubmitted \<or> to = DraftCancelled \<or> to = DraftExpired
   | DraftFinalized \<Rightarrow> to = DraftSubmitted \<or> to = DraftCancelled \<or> to = DraftExpired
   | DraftSubmitted \<Rightarrow> False
   | DraftCancelled \<Rightarrow> False
   | DraftExpired \<Rightarrow> False)"

definition is_terminal_draft_state_internal :: "RunDraftState \<Rightarrow> bool" where
  "is_terminal_draft_state_internal st \<longleftrightarrow> st = DraftSubmitted \<or> st = DraftCancelled \<or> st = DraftExpired"

definition is_draft_transition_allowed :: "RunDraftState \<Rightarrow> RunDraftState \<Rightarrow> bool" where
  "is_draft_transition_allowed from to = is_allowed_draft_state_transition_internal from to"

definition is_draft_state_terminal :: "RunDraftState \<Rightarrow> bool" where
  "is_draft_state_terminal st = is_terminal_draft_state_internal st"

definition create_run_draft ::
  "'x penv_scheme \<Rightarrow> address \<Rightarrow> i128 \<Rightarrow> u32 \<Rightarrow> symbol \<Rightarrow> payroll \<Rightarrow> (u64 \<times> payroll) outcome" where
  "create_run_draft e adm total_amount employee_count period_label s =
     and_then (require_not_paused e s) (\<lambda>_.
     and_then (validate_symbol_not_empty period_label) (\<lambda>_.
     and_then (admin_guard e ''Unauthorized'' adm s) (\<lambda>addrs.
     and_then (panic_if (total_amount \<le> 0) ''total_amount must be positive'') (\<lambda>_.
     and_then (panic_if (active_draft_for_period s period_label \<noteq> None)
       ''A pending draft already exists for this payroll period'') (\<lambda>_.
     and_then (add_u (unwrap_or 0 (run_draft_counter s)) 1) (\<lambda>draft_id.
     Inr (draft_id, emit_draft_created draft_id adm period_label
       (s\<lparr>run_draft_counter := Some draft_id,
          run_drafts := (run_drafts s)(draft_id \<mapsto> \<lparr>rd_draft_id = draft_id, rd_created_at = timestamp e,
            rd_admin = adm, rd_total_amount = total_amount, rd_employee_count = employee_count,
            rd_period_label = period_label, rd_state = DraftPending, rd_amendment_count = 0\<rparr>),
          active_draft_for_period := (active_draft_for_period s)(period_label \<mapsto> draft_id)\<rparr>))))))))"

definition amend_run_draft ::
  "'x penv_scheme \<Rightarrow> address \<Rightarrow> u64 \<Rightarrow> i128 \<Rightarrow> u32 \<Rightarrow> payroll \<Rightarrow> payroll outcome" where
  "amend_run_draft e adm draft_id new_total_amount new_employee_count s =
     and_then (require_not_paused e s) (\<lambda>_.
     and_then (validate_draft_id draft_id) (\<lambda>_.
     and_then (admin_guard e ''Unauthorized'' adm s) (\<lambda>addrs.
     and_then (expect ''Draft not found'' (run_drafts s draft_id)) (\<lambda>draft.
     and_then (panic_if (rd_state draft \<noteq> DraftPending) ''Only pending drafts can be amended'') (\<lambda>_.
     and_then (panic_if (new_total_amount \<le> 0) ''total_amount must be positive'') (\<lambda>_.
     and_then (add_u (rd_amendment_count draft) 1) (\<lambda>n.
     let draft = draft\<lparr>rd_total_amount := new_total_amount, rd_employee_count := new_employee_count,
                  rd_amendment_count := n\<rparr> in
     Inr (emit_draft_updated draft_id (rd_period_label draft) new_total_amount new_employee_count n
       (emit_draft_amended draft_id new_total_amount n
         (s\<lparr>run_drafts := (run_drafts s)(draft_id \<mapsto> draft)\<rparr>))))))))))"

definition finalize_run_draft :: "'x penv_scheme \<Rightarrow> address \<Rightarrow> u64 \<Rightarrow> payroll \<Rightarrow> payroll outcome" where
  "finalize_run_draft e adm draft_id s =
     and_then (require_not_paused e s) (\<lambda>_.
     and_then (admin_guard e ''Unauthorized'' adm s) (\<lambda>addrs.
     and_then (expect ''Draft not found'' (run_drafts s draft_id)) (\<lambda>draft.
     and_then (panic_if (rd_state draft \<noteq> DraftPending) ''Draft is already finalized'') (\<lambda>_.
     Inr (emit_draft_finalized draft_id (rd_total_amount draft) (rd_amendment_count draft)
       (s\<lparr>run_drafts := (run_drafts s)(draft_id \<mapsto> draft\<lparr>rd_state := DraftFinalized\<rparr>)\<rparr>))))))"

definition get_run_draft :: "u64 \<Rightarrow> payroll \<Rightarrow> PayrollRunDraft outcome" where
  "get_run_draft draft_id s = expect ''Draft not found'' (run_drafts s draft_id)"

text \<open>\<open>submit_run_draft\<close>, \<open>cancel_run_draft\<close> and \<open>expire_run_draft\<close> differ in the target state
  and the event.\<close>

definition move_run_draft ::
  "'x penv_scheme \<Rightarrow> address \<Rightarrow> u64 \<Rightarrow> RunDraftState \<Rightarrow> payroll \<Rightarrow> payroll outcome" where
  "move_run_draft e adm draft_id target s =
     and_then (require_not_paused e s) (\<lambda>_.
     and_then (admin_guard e ''Unauthorized'' adm s) (\<lambda>addrs.
     and_then (expect ''Draft not found'' (run_drafts s draft_id)) (\<lambda>draft.
     and_then (panic_if (\<not> is_allowed_draft_state_transition_internal (rd_state draft) target)
       ''Invalid draft state transition'') (\<lambda>_.
     Inr (s\<lparr>run_drafts := (run_drafts s)(draft_id \<mapsto> draft\<lparr>rd_state := target\<rparr>)\<rparr>)))))"

definition submit_run_draft :: "'x penv_scheme \<Rightarrow> address \<Rightarrow> u64 \<Rightarrow> payroll \<Rightarrow> payroll outcome" where
  "submit_run_draft e adm draft_id s =
     and_then (move_run_draft e adm draft_id DraftSubmitted s) (\<lambda>s. Inr (emit_draft_submitted draft_id adm s))"

definition cancel_run_draft :: "'x penv_scheme \<Rightarrow> address \<Rightarrow> u64 \<Rightarrow> payroll \<Rightarrow> payroll outcome" where
  "cancel_run_draft e adm draft_id s =
     and_then (move_run_draft e adm draft_id DraftCancelled s) (\<lambda>s. Inr (emit_draft_cancelled draft_id adm s))"

definition expire_run_draft :: "'x penv_scheme \<Rightarrow> address \<Rightarrow> u64 \<Rightarrow> payroll \<Rightarrow> payroll outcome" where
  "expire_run_draft e adm draft_id s =
     and_then (move_run_draft e adm draft_id DraftExpired s) (\<lambda>s. Inr (emit_draft_expired draft_id adm s))"

section \<open>Rotation of the admin and the treasury owner\<close>

definition propose_admin_rotation ::
  "'x penv_scheme \<Rightarrow> address \<Rightarrow> address \<Rightarrow> payroll \<Rightarrow> payroll outcome" where
  "propose_admin_rotation e current_admin new_admin s =
     and_then (require_not_paused e s) (\<lambda>_.
     and_then (admin_guard e ''Unauthorized: caller is not the current admin'' current_admin s) (\<lambda>addrs.
     and_then (panic_if (pending_admin_rotation s \<noteq> None) ''A pending admin rotation already exists'') (\<lambda>_.
     Inr (emit_admin_proposed current_admin new_admin
       (s\<lparr>pending_admin_rotation := Some \<lparr>new_holder = new_admin, proposed_by = current_admin,
          proposed_at = timestamp e\<rparr>\<rparr>)))))"

definition accept_admin_rotation ::
  "'x penv_scheme \<Rightarrow> address \<Rightarrow> payroll \<Rightarrow> payroll outcome" where
  "accept_admin_rotation e new_admin s =
     and_then (require_not_paused e s) (\<lambda>_.
     and_then (expect ''No pending admin rotation'' (pending_admin_rotation s)) (\<lambda>p.
     and_then (panic_if (new_admin \<noteq> new_holder p) ''Unauthorized: caller is not the proposed admin'') (\<lambda>_.
     and_then (require_auth e new_admin) (\<lambda>_.
     and_then (require_no_active_payroll_run s) (\<lambda>_.
     and_then (expect ''Not initialized'' (addresses s)) (\<lambda>addrs.
     Inr (emit_admin_rotated (ca_admin addrs) new_admin
       (s\<lparr>addresses := Some (addrs\<lparr>ca_admin := new_admin\<rparr>), pending_admin_rotation := None\<rparr>))))))))"

definition cancel_admin_rotation ::
  "'x penv_scheme \<Rightarrow> address \<Rightarrow> payroll \<Rightarrow> payroll outcome" where
  "cancel_admin_rotation e current_admin s =
     and_then (require_not_paused e s) (\<lambda>_.
     and_then (admin_guard e ''Unauthorized'' current_admin s) (\<lambda>addrs.
     and_then (panic_if (pending_admin_rotation s = None) ''No pending admin rotation to cancel'') (\<lambda>_.
     Inr (emit_admin_rotation_cancelled current_admin (s\<lparr>pending_admin_rotation := None\<rparr>)))))"

definition owner_guard :: "'x env_scheme \<Rightarrow> string \<Rightarrow> address \<Rightarrow> payroll \<Rightarrow> unit outcome" where
  "owner_guard e msg owner s =
     and_then (expect ''Treasury owner not set'' (treasury_owner_key s)) (\<lambda>stored_owner.
     and_then (panic_if (owner \<noteq> stored_owner) msg) (\<lambda>_.
     require_auth e owner))"

lemma owner_guard_ok [simp]:
  "owner_guard e msg owner s = Inr u \<longleftrightarrow> treasury_owner_key s = Some owner \<and> auth e owner"
  by (auto simp: owner_guard_def)

definition propose_treasury_rotation ::
  "'x penv_scheme \<Rightarrow> address \<Rightarrow> address \<Rightarrow> payroll \<Rightarrow> payroll outcome" where
  "propose_treasury_rotation e current_owner new_owner s =
     and_then (require_not_paused e s) (\<lambda>_.
     and_then (owner_guard e ''Unauthorized: caller is not the current treasury owner'' current_owner s) (\<lambda>_.
     and_then (panic_if (pending_treasury_rotation s \<noteq> None)
       ''A pending treasury rotation already exists'') (\<lambda>_.
     Inr (emit_treasury_proposed current_owner new_owner
       (s\<lparr>pending_treasury_rotation := Some \<lparr>new_holder = new_owner, proposed_by = current_owner,
          proposed_at = timestamp e\<rparr>\<rparr>)))))"

definition accept_treasury_rotation ::
  "'x penv_scheme \<Rightarrow> address \<Rightarrow> payroll \<Rightarrow> payroll outcome" where
  "accept_treasury_rotation e new_owner s =
     and_then (require_not_paused e s) (\<lambda>_.
     and_then (expect ''No pending treasury rotation'' (pending_treasury_rotation s)) (\<lambda>p.
     and_then (panic_if (new_owner \<noteq> new_holder p)
       ''Unauthorized: caller is not the proposed treasury owner'') (\<lambda>_.
     and_then (require_auth e new_owner) (\<lambda>_.
     and_then (require_no_active_payroll_run s) (\<lambda>_.
     and_then (expect ''Treasury owner not set'' (treasury_owner_key s)) (\<lambda>old_owner.
     and_then (expect ''Not initialized'' (addresses s)) (\<lambda>addrs.
     Inr (emit_treasury_rotated old_owner new_owner
       (s\<lparr>treasury_owner_key := Some new_owner,
          addresses := Some (addrs\<lparr>ca_treasury_owner := new_owner\<rparr>),
          pending_treasury_rotation := None\<rparr>)))))))))"

definition cancel_treasury_rotation ::
  "'x penv_scheme \<Rightarrow> address \<Rightarrow> payroll \<Rightarrow> payroll outcome" where
  "cancel_treasury_rotation e current_owner s =
     and_then (require_not_paused e s) (\<lambda>_.
     and_then (owner_guard e ''Unauthorized'' current_owner s) (\<lambda>_.
     and_then (panic_if (pending_treasury_rotation s = None) ''No pending treasury rotation to cancel'') (\<lambda>_.
     Inr (emit_treasury_rotation_cancelled current_owner (s\<lparr>pending_treasury_rotation := None\<rparr>)))))"

definition get_pending_admin_rotation :: "payroll \<Rightarrow> PendingRotation option" where
  "get_pending_admin_rotation s = pending_admin_rotation s"

definition get_pending_treasury_rotation :: "payroll \<Rightarrow> PendingRotation option" where
  "get_pending_treasury_rotation s = pending_treasury_rotation s"

section \<open>Admin handover\<close>

definition request_admin_handover ::
  "'x penv_scheme \<Rightarrow> address \<Rightarrow> address \<Rightarrow> payroll \<Rightarrow> payroll outcome" where
  "request_admin_handover e current_admin pending_admin s =
     and_then (require_not_paused e s) (\<lambda>_.
     and_then (admin_guard e ''Unauthorized: caller is not current admin'' current_admin s) (\<lambda>addrs.
     and_then (panic_if (pending_admin_handover s \<noteq> None) ''A pending admin handover already exists'') (\<lambda>_.
     Inr (emit_admin_handover_requested current_admin pending_admin
       (s\<lparr>pending_admin_handover := Some \<lparr>ah_current_admin = current_admin,
          ah_pending_admin = pending_admin, ah_requested_at = timestamp e\<rparr>\<rparr>)))))"

definition accept_admin_handover ::
  "'x penv_scheme \<Rightarrow> address \<Rightarrow> payroll \<Rightarrow> payroll outcome" where
  "accept_admin_handover e pending_admin s =
     and_then (require_not_paused e s) (\<lambda>_.
     and_then (expect ''No pending admin handover'' (pending_admin_handover s)) (\<lambda>h.
     and_then (panic_if (pending_admin \<noteq> ah_pending_admin h)
       ''Unauthorized: caller is not the pending admin'') (\<lambda>_.
     and_then (require_auth e pending_admin) (\<lambda>_.
     and_then (expect ''Not initialized'' (addresses s)) (\<lambda>addrs.
     Inr (emit_admin_handover_accepted (ca_admin addrs) pending_admin
       (s\<lparr>addresses := Some (addrs\<lparr>ca_admin := pending_admin\<rparr>), pending_admin_handover := None\<rparr>)))))))"

definition cancel_admin_handover ::
  "'x penv_scheme \<Rightarrow> address \<Rightarrow> payroll \<Rightarrow> payroll outcome" where
  "cancel_admin_handover e current_admin s =
     and_then (require_not_paused e s) (\<lambda>_.
     and_then (admin_guard e ''Unauthorized: caller is not current admin'' current_admin s) (\<lambda>addrs.
     and_then (panic_if (pending_admin_handover s = None) ''No pending admin handover to cancel'') (\<lambda>_.
     Inr (emit_admin_handover_cancelled current_admin (s\<lparr>pending_admin_handover := None\<rparr>)))))"

definition get_pending_admin_handover :: "payroll \<Rightarrow> PendingAdminHandover option" where
  "get_pending_admin_handover s = pending_admin_handover s"

section \<open>Signer quorums\<close>

definition quorum_preimage :: "'x env_scheme \<Rightarrow> QuorumApprovalPayload \<Rightarrow> bytes" where
  "quorum_preimage e p = bytes_xdr e (qa_batch_root p) @ address_xdr e (qa_employer p) @
     symbol_xdr e (qa_period p) @ address_xdr e (qa_asset p) @ bytes_xdr e (qa_nonce p) @
     be_bytes 4 (uint (qa_policy_version p))"

definition hash_quorum_payload :: "'x env_scheme \<Rightarrow> QuorumApprovalPayload \<Rightarrow> bytes" where
  "hash_quorum_payload e p = sha256 e (quorum_preimage e p)"

definition is_quorum_consumed :: "bytes \<Rightarrow> payroll \<Rightarrow> bool" where
  "is_quorum_consumed quorum_hash s \<longleftrightarrow> consumed_quorums s quorum_hash \<noteq> None"

primrec require_auth_all :: "'x env_scheme \<Rightarrow> address list \<Rightarrow> unit outcome" where
  "require_auth_all e [] = Inr ()"
| "require_auth_all e (a # as) = and_then (require_auth e a) (\<lambda>_. require_auth_all e as)"

definition verify_and_consume_quorum ::
  "'x penv_scheme \<Rightarrow> QuorumApprovalPayload \<Rightarrow> address list \<Rightarrow> u32 \<Rightarrow> payroll \<Rightarrow>
   (bytes \<times> payroll) outcome" where
  "verify_and_consume_quorum e payload signers required_quorum s =
     and_then (require_not_paused e s) (\<lambda>_.
     and_then (panic_if (length signers < unat required_quorum) ''Insufficient signer quorum'') (\<lambda>_.
     and_then (require_auth_all e signers) (\<lambda>_.
     and_then (expect ''Not initialized'' (addresses s)) (\<lambda>addrs.
     and_then (panic_if (qa_employer payload \<noteq> ca_admin addrs) ''Employer mismatch in quorum payload'') (\<lambda>_.
     and_then (panic_if (qa_asset payload \<noteq> ca_token addrs) ''Asset mismatch in quorum payload'') (\<lambda>_.
     let q_hash = hash_quorum_payload e payload in
     and_then (panic_if (is_quorum_consumed q_hash s)
       ''Quorum approval payload already consumed: replay rejected'') (\<lambda>_.
     Inr (q_hash, emit_quorum_consumed (qa_batch_root payload) (qa_employer payload) (qa_nonce payload)
       (s\<lparr>consumed_quorums := (consumed_quorums s)(q_hash \<mapsto> timestamp e)\<rparr>)))))))))"

section \<open>Archiving and challenges\<close>

definition archive_payroll_run :: "'x env_scheme \<Rightarrow> address \<Rightarrow> u64 \<Rightarrow> payroll \<Rightarrow> payroll outcome" where
  "archive_payroll_run e adm run_id s =
     and_then (validate_run_id run_id) (\<lambda>_.
     and_then (admin_guard e ''Unauthorized'' adm s) (\<lambda>addrs.
     and_then (panic_if (payroll_runs s run_id = None) ''Run not found'') (\<lambda>_.
     and_then (panic_if (challenged_runs s run_id \<noteq> None) ''Run has an unresolved audit challenge'') (\<lambda>_.
     and_then (panic_if (archived_runs s run_id \<noteq> None) ''Run is already archived'') (\<lambda>_.
     Inr (publish [VSym ''payroll'', VSym ''run_archived''] (VU64 run_id)
       (s\<lparr>archived_runs := (archived_runs s)(run_id \<mapsto> True)\<rparr>)))))))"

definition flag_run_challenged :: "'x env_scheme \<Rightarrow> address \<Rightarrow> u64 \<Rightarrow> payroll \<Rightarrow> payroll outcome" where
  "flag_run_challenged e adm run_id s =
     and_then (admin_guard e ''Unauthorized'' adm s) (\<lambda>addrs.
     Inr (publish [VSym ''payroll'', VSym ''run_challenged''] (VU64 run_id)
       (s\<lparr>challenged_runs := (challenged_runs s)(run_id \<mapsto> True)\<rparr>)))"

definition clear_run_challenge :: "'x env_scheme \<Rightarrow> address \<Rightarrow> u64 \<Rightarrow> payroll \<Rightarrow> payroll outcome" where
  "clear_run_challenge e adm run_id s =
     and_then (admin_guard e ''Unauthorized'' adm s) (\<lambda>addrs.
     Inr (publish [VSym ''payroll'', VSym ''run_challenge_cleared''] (VU64 run_id)
       (s\<lparr>challenged_runs := (challenged_runs s)(run_id := None)\<rparr>)))"

definition get_archived_run :: "u64 \<Rightarrow> payroll \<Rightarrow> PayrollRun outcome" where
  "get_archived_run run_id s =
     and_then (validate_run_id run_id) (\<lambda>_.
     and_then (panic_if (archived_runs s run_id = None) ''Run is not archived'') (\<lambda>_.
     expect ''Run not found'' (payroll_runs s run_id)))"

definition is_run_archived :: "u64 \<Rightarrow> payroll \<Rightarrow> bool outcome" where
  "is_run_archived run_id s =
     and_then (validate_run_id run_id) (\<lambda>_. Inr (archived_runs s run_id \<noteq> None))"

section \<open>Reviewers and reviews\<close>

definition add_reviewer :: "'x penv_scheme \<Rightarrow> address \<Rightarrow> address \<Rightarrow> payroll \<Rightarrow> payroll outcome" where
  "add_reviewer e adm reviewer s =
     and_then (require_not_paused e s) (\<lambda>_.
     and_then (admin_guard e ''Unauthorized'' adm s) (\<lambda>addrs.
     Inr (emit_reviewer_added reviewer
       (s\<lparr>authorized_reviewers := (authorized_reviewers s)(reviewer \<mapsto> True)\<rparr>))))"

definition remove_reviewer :: "'x penv_scheme \<Rightarrow> address \<Rightarrow> address \<Rightarrow> payroll \<Rightarrow> payroll outcome" where
  "remove_reviewer e adm reviewer s =
     and_then (require_not_paused e s) (\<lambda>_.
     and_then (admin_guard e ''Unauthorized'' adm s) (\<lambda>addrs.
     Inr (emit_reviewer_removed reviewer
       (s\<lparr>authorized_reviewers := (authorized_reviewers s)(reviewer := None)\<rparr>))))"

definition is_reviewer :: "address \<Rightarrow> payroll \<Rightarrow> bool" where
  "is_reviewer reviewer s = unwrap_or False (authorized_reviewers s reviewer)"

text \<open>The three review entry points share the guard and the record they store.\<close>

definition store_review ::
  "'x penv_scheme \<Rightarrow> address \<Rightarrow> u64 \<Rightarrow> ReviewDecision \<Rightarrow> symbol \<Rightarrow> payroll \<Rightarrow> payroll outcome" where
  "store_review e reviewer run_id decision reason s =
     and_then (require_not_paused e s) (\<lambda>_.
     and_then (panic_if (\<not> is_reviewer reviewer s)
       ''Unauthorized: caller is not an authorized reviewer'') (\<lambda>_.
     and_then (require_auth e reviewer) (\<lambda>_.
     Inr (s\<lparr>run_reviews := (run_reviews s)(run_id \<mapsto> \<lparr>rv_run_id = run_id, rv_reviewer = reviewer,
       rv_decision = decision, rv_reason = reason, rv_reviewed_at = timestamp e\<rparr>)\<rparr>))))"

definition approve_payroll_run :: "'x penv_scheme \<Rightarrow> address \<Rightarrow> u64 \<Rightarrow> payroll \<Rightarrow> payroll outcome" where
  "approve_payroll_run e reviewer run_id s =
     and_then (store_review e reviewer run_id Approved ''approved'' s) (\<lambda>s.
     Inr (emit_run_approved run_id reviewer s))"

definition reject_payroll_run ::
  "'x penv_scheme \<Rightarrow> address \<Rightarrow> u64 \<Rightarrow> symbol \<Rightarrow> payroll \<Rightarrow> payroll outcome" where
  "reject_payroll_run e reviewer run_id reason s =
     and_then (store_review e reviewer run_id Rejected reason s) (\<lambda>s.
     Inr (emit_run_rejected run_id reviewer reason s))"

definition request_changes_payroll_run ::
  "'x penv_scheme \<Rightarrow> address \<Rightarrow> u64 \<Rightarrow> symbol \<Rightarrow> payroll \<Rightarrow> payroll outcome" where
  "request_changes_payroll_run e reviewer run_id reason s =
     and_then (store_review e reviewer run_id ChangesRequested reason s) (\<lambda>s.
     Inr (emit_run_changes_requested run_id reviewer reason s))"

section \<open>Compliance holds\<close>

definition hold_scope_symbol :: "ComplianceHoldScope \<Rightarrow> symbol" where
  "hold_scope_symbol scope = (case scope of HoldBatch \<Rightarrow> ''batch'' | HoldEmployee \<Rightarrow> ''employee''
     | HoldEmployer \<Rightarrow> ''employer'')"

definition place_compliance_hold ::
  "'x env_scheme \<Rightarrow> address \<Rightarrow> ComplianceHoldScope \<Rightarrow> address \<Rightarrow> symbol \<Rightarrow> payroll \<Rightarrow>
   (u64 \<times> payroll) outcome" where
  "place_compliance_hold e adm scope target reason_code s =
     and_then (require_auth e adm) (\<lambda>_.
     and_then (add_u (unwrap_or 0 (compliance_hold_counter s)) 1) (\<lambda>hold_id.
     Inr (hold_id, emit_compliance_hold_placed hold_id (hold_scope_symbol scope) target reason_code adm
       (s\<lparr>compliance_holds := (compliance_holds s)(hold_id \<mapsto> \<lparr>ch_hold_id = hold_id, ch_scope = scope,
            ch_target = target, ch_reason_code = reason_code, ch_placed_at = timestamp e,
            ch_placed_by = adm, ch_is_active = True\<rparr>),
          compliance_hold_counter := Some hold_id\<rparr>))))"

definition release_compliance_hold :: "'x env_scheme \<Rightarrow> address \<Rightarrow> u64 \<Rightarrow> payroll \<Rightarrow> payroll outcome" where
  "release_compliance_hold e adm hold_id s =
     and_then (require_auth e adm) (\<lambda>_.
     and_then (expect ''Hold not found'' (compliance_holds s hold_id)) (\<lambda>hold.
     and_then (panic_if (\<not> ch_is_active hold) ''Hold is not active'') (\<lambda>_.
     Inr (emit_compliance_hold_released hold_id adm
       (s\<lparr>compliance_holds := (compliance_holds s)(hold_id \<mapsto> hold\<lparr>ch_is_active := False\<rparr>)\<rparr>)))))"

definition is_compliance_hold_active :: "u64 \<Rightarrow> payroll \<Rightarrow> bool" where
  "is_compliance_hold_active hold_id s = unwrap_or False (map_option ch_is_active (compliance_holds s hold_id))"

definition get_compliance_hold :: "u64 \<Rightarrow> payroll \<Rightarrow> ComplianceHold option" where
  "get_compliance_hold hold_id s = compliance_holds s hold_id"

section \<open>Reservation expiry\<close>

definition set_reservation_expiry_policy ::
  "'x env_scheme \<Rightarrow> address \<Rightarrow> address \<Rightarrow> i128 \<Rightarrow> u64 \<Rightarrow> payroll \<Rightarrow> payroll outcome" where
  "set_reservation_expiry_policy e adm asset reserved_amount expiry_ledger_offset s =
     and_then (require_auth e adm) (\<lambda>_.
     and_then (add_u (timestamp e) expiry_ledger_offset) (\<lambda>expires_at.
     Inr (s\<lparr>reservation_expiries := (reservation_expiries s)(asset \<mapsto> \<lparr>re_asset = asset,
       re_reserved_amount = reserved_amount, re_expires_at = expires_at, re_created_at = timestamp e\<rparr>)\<rparr>)))"

definition release_expired_reservation :: "'x env_scheme \<Rightarrow> address \<Rightarrow> payroll \<Rightarrow> payroll outcome" where
  "release_expired_reservation e asset s =
     and_then (expect ''Reservation not found'' (reservation_expiries s asset)) (\<lambda>expiry.
     and_then (panic_if (timestamp e \<le> re_expires_at expiry) ''Reservation has not yet expired'') (\<lambda>_.
     Inr (emit_reservation_expiry_released asset (re_reserved_amount expiry)
       (s\<lparr>reservation_expiries := (reservation_expiries s)(asset := None)\<rparr>))))"

definition get_reservation_expiry :: "address \<Rightarrow> payroll \<Rightarrow> ReservationExpiry option" where
  "get_reservation_expiry asset s = reservation_expiries s asset"

definition get_required_reservation_expiry :: "address \<Rightarrow> payroll \<Rightarrow> ReservationExpiry outcome" where
  "get_required_reservation_expiry asset s =
     expect ''Treasury reservation not found'' (reservation_expiries s asset)"

section \<open>Archive markers and batch splits\<close>

definition archive_payroll_run_with_reason ::
  "'x env_scheme \<Rightarrow> address \<Rightarrow> u64 \<Rightarrow> symbol \<Rightarrow> payroll \<Rightarrow> payroll outcome" where
  "archive_payroll_run_with_reason e adm run_id archive_reason s =
     and_then (require_auth e adm) (\<lambda>_.
     and_then (expect ''Payroll run not found'' (payroll_runs s run_id)) (\<lambda>run.
     and_then (panic_if (archive_markers s run_id \<noteq> None) ''Payroll run is already archived'') (\<lambda>_.
     Inr (emit_payroll_run_archived run_id adm archive_reason
       (s\<lparr>archive_markers := (archive_markers s)(run_id \<mapsto> \<lparr>am_run_id = run_id,
          am_archived_at = timestamp e, am_archived_by = adm, am_archive_reason = archive_reason\<rparr>)\<rparr>)))))"

definition is_payroll_run_archived :: "u64 \<Rightarrow> payroll \<Rightarrow> bool" where
  "is_payroll_run_archived run_id s \<longleftrightarrow> archive_markers s run_id \<noteq> None"

definition get_archive_marker :: "u64 \<Rightarrow> payroll \<Rightarrow> ArchiveMarker option" where
  "get_archive_marker run_id s = archive_markers s run_id"

definition record_batch_split ::
  "'x env_scheme \<Rightarrow> address \<Rightarrow> u64 \<Rightarrow> u64 \<Rightarrow> i128 \<Rightarrow> u32 \<Rightarrow> i128 \<Rightarrow> u32 \<Rightarrow> payroll \<Rightarrow> payroll outcome" where
  "record_batch_split e adm parent_run_id child_run_id parent_total parent_employee_count
       child_total child_employee_count s =
     and_then (require_auth e adm) (\<lambda>_.
     and_then (panic_if (child_total \<le> 0 \<or> parent_total \<le> 0) ''Batch amounts must be positive'') (\<lambda>_.
     and_then (panic_if (child_total > parent_total) ''Child batch total cannot exceed parent total'') (\<lambda>_.
     and_then (panic_if (child_employee_count > parent_employee_count)
       ''Child employee count cannot exceed parent count'') (\<lambda>_.
     Inr (publish [VSym ''BatchSplitRecorded'', VU64 parent_run_id]
         (VVec [VU64 child_run_id, VI128 child_total, VU64 (timestamp e)])
       (s\<lparr>batch_splits := (batch_splits s)((parent_run_id, child_run_id) \<mapsto>
          \<lparr>bs_parent_run_id = parent_run_id, bs_child_run_id = child_run_id,
           bs_parent_total = parent_total, bs_parent_employee_count = parent_employee_count,
           bs_child_total = child_total, bs_child_employee_count = child_employee_count,
           bs_split_at = timestamp e, bs_split_by = adm\<rparr>)\<rparr>))))))"

definition get_batch_split :: "u64 \<Rightarrow> u64 \<Rightarrow> payroll \<Rightarrow> BatchSplitRecord option" where
  "get_batch_split parent_run_id child_run_id s = batch_splits s (parent_run_id, child_run_id)"

definition validate_batch_split_aggregate :: "u64 \<Rightarrow> i128 \<Rightarrow> u32 \<Rightarrow> payroll \<Rightarrow> bool" where
  "validate_batch_split_aggregate parent_run_id expected_total_amount expected_employee_count s =
     (case payroll_runs s parent_run_id of
        Some run \<Rightarrow> pr_total_amount run = expected_total_amount \<and> pr_employee_count run = expected_employee_count
      | None \<Rightarrow> False)"

end
