(* ===== verification/Payroll_Calls.thy ===== *)
theory Payroll_Calls
  imports Payroll_Admin
begin

text \<open>
  Histories of the payroll contract: the calls that change its storage, the accounting
  invariant that ties pending runs, their counter, the locked funds and the consumed nonces
  together, and its preservation by every call.

  \<open>add_locked_funds\<close> and \<open>subtract_locked_funds\<close> are public functions of the contract and are
  therefore calls of their own here, beside their use inside the run operations.
\<close>

section \<open>Calls\<close>

text \<open>The entry points that change nothing outside the payroll contract and neither create nor
  end a run, grouped: configuration and run records, checkpoints and drafts, roles, reviews
  and archiving, holds and reservations.\<close>

datatype config_call =
    CfSetPauseManager address
  | CfSetAsset address bool
  | CfSetCompanyState address CompanyState
  | CfSetStorageVersion address u32 string
  | CfEvidence address bytes EvidencePointerScope address "bytes option"
  | CfTransition address u64 PayrollRunState
  | CfCommitMetadata address bytes
  | CfSetMetadata address u64 bytes
  | CfCommitDraft address bytes
  | CfReconcile address u64 ReconciliationStatus
  | CfCancelEmergency address

datatype draft_call =
    DrBeginCheckpoint address address bytes address bytes u32
  | DrCheckpoint address address bytes address bytes u32 BatchCheckpointState
  | DrResume address address bytes address bytes u32
  | DrCreateDraft address i128 u32 symbol
  | DrAmendDraft address u64 i128 u32
  | DrFinalizeDraft address u64
  | DrSubmitDraft address u64
  | DrCancelDraft address u64
  | DrExpireDraft address u64

datatype role_call =
    RoProposeAdmin address address
  | RoAcceptAdmin address
  | RoCancelAdmin address
  | RoProposeTreasury address address
  | RoAcceptTreasury address
  | RoCancelTreasury address
  | RoRequestHandover address address
  | RoAcceptHandover address
  | RoCancelHandover address

datatype review_call =
    RvQuorum QuorumApprovalPayload "address list" u32
  | RvArchive address u64
  | RvFlag address u64
  | RvClear address u64
  | RvAddReviewer address address
  | RvRemoveReviewer address address
  | RvApprove address u64
  | RvReject address u64 symbol
  | RvRequestChanges address u64 symbol

datatype hold_call =
    HoPlaceHold address ComplianceHoldScope address symbol
  | HoReleaseHold address u64
  | HoReservation address address i128 u64
  | HoReleaseReservation address
  | HoArchiveReason address u64 symbol
  | HoSplit address u64 u64 i128 u32 i128 u32

definition keep_state :: "('a \<times> 's) outcome \<Rightarrow> 's outcome" where
  "keep_state r = and_then r (\<lambda>(_, s). Inr s)"

lemma keep_state_ok [simp]: "keep_state r = Inr s \<longleftrightarrow> (\<exists>x. r = Inr (x, s))"
  by (auto simp: keep_state_def)

definition config_invoke :: "venv \<Rightarrow> config_call \<Rightarrow> payroll \<Rightarrow> payroll outcome" where
  "config_invoke e c s = (case c of
     CfSetPauseManager a \<Rightarrow> set_pause_manager e a s
   | CfSetAsset a b \<Rightarrow> set_asset_allowed e a b s
   | CfSetCompanyState a st \<Rightarrow> set_company_state e a st s
   | CfSetStorageVersion a v d \<Rightarrow> set_storage_version e a v d s
   | CfEvidence a h sc t m \<Rightarrow> keep_state (create_evidence_pointer e a h sc t m s)
   | CfTransition a r st \<Rightarrow> transition_payroll_run_state e a r st s
   | CfCommitMetadata a h \<Rightarrow> commit_metadata_hash e a h s
   | CfSetMetadata a r h \<Rightarrow> set_run_metadata e a r h s
   | CfCommitDraft a h \<Rightarrow> commit_draft e a h s
   | CfReconcile a r st \<Rightarrow> update_reconciliation_status e a r st s
   | CfCancelEmergency a \<Rightarrow> cancel_emergency_withdrawal e a s)"

definition draft_invoke :: "venv \<Rightarrow> draft_call \<Rightarrow> payroll \<Rightarrow> payroll outcome" where
  "draft_invoke e c s = (case c of
     DrBeginCheckpoint a em r at n i \<Rightarrow> begin_batch_execution_checkpoint e a em r at n i s
   | DrCheckpoint a em r at n i st \<Rightarrow> record_batch_checkpoint_progress e a em r at n i st s
   | DrResume a em r at n i \<Rightarrow> keep_state (resume_batch_execution e a em r at n i s)
   | DrCreateDraft a m n l \<Rightarrow> keep_state (create_run_draft e a m n l s)
   | DrAmendDraft a d m n \<Rightarrow> amend_run_draft e a d m n s
   | DrFinalizeDraft a d \<Rightarrow> finalize_run_draft e a d s
   | DrSubmitDraft a d \<Rightarrow> submit_run_draft e a d s
   | DrCancelDraft a d \<Rightarrow> cancel_run_draft e a d s
   | DrExpireDraft a d \<Rightarrow> expire_run_draft e a d s)"

definition role_invoke :: "venv \<Rightarrow> role_call \<Rightarrow> payroll \<Rightarrow> payroll outcome" where
  "role_invoke e c s = (case c of
     RoProposeAdmin a b \<Rightarrow> propose_admin_rotation e a b s
   | RoAcceptAdmin a \<Rightarrow> accept_admin_rotation e a s
   | RoCancelAdmin a \<Rightarrow> cancel_admin_rotation e a s
   | RoProposeTreasury a b \<Rightarrow> propose_treasury_rotation e a b s
   | RoAcceptTreasury a \<Rightarrow> accept_treasury_rotation e a s
   | RoCancelTreasury a \<Rightarrow> cancel_treasury_rotation e a s
   | RoRequestHandover a b \<Rightarrow> request_admin_handover e a b s
   | RoAcceptHandover a \<Rightarrow> accept_admin_handover e a s
   | RoCancelHandover a \<Rightarrow> cancel_admin_handover e a s)"

definition review_invoke :: "venv \<Rightarrow> review_call \<Rightarrow> payroll \<Rightarrow> payroll outcome" where
  "review_invoke e c s = (case c of
     RvQuorum p ss q \<Rightarrow> keep_state (verify_and_consume_quorum e p ss q s)
   | RvArchive a r \<Rightarrow> archive_payroll_run e a r s
   | RvFlag a r \<Rightarrow> flag_run_challenged e a r s
   | RvClear a r \<Rightarrow> clear_run_challenge e a r s
   | RvAddReviewer a b \<Rightarrow> add_reviewer e a b s
   | RvRemoveReviewer a b \<Rightarrow> remove_reviewer e a b s
   | RvApprove a r \<Rightarrow> approve_payroll_run e a r s
   | RvReject a r y \<Rightarrow> reject_payroll_run e a r y s
   | RvRequestChanges a r y \<Rightarrow> request_changes_payroll_run e a r y s)"

definition hold_invoke :: "venv \<Rightarrow> hold_call \<Rightarrow> payroll \<Rightarrow> payroll outcome" where
  "hold_invoke e c s = (case c of
     HoPlaceHold a sc t y \<Rightarrow> keep_state (place_compliance_hold e a sc t y s)
   | HoReleaseHold a h \<Rightarrow> release_compliance_hold e a h s
   | HoReservation a at m n \<Rightarrow> set_reservation_expiry_policy e a at m n s
   | HoReleaseReservation a \<Rightarrow> release_expired_reservation e a s
   | HoArchiveReason a r y \<Rightarrow> archive_payroll_run_with_reason e a r y s
   | HoSplit a p ch m n m' n' \<Rightarrow> record_batch_split e a p ch m n m' n' s)"

datatype payroll_call =
    PcInitialize address address address address address address
  | PcPrepare "bytes list" "i128 list" "address list" i128 bytes "bytes option"
  | PcFinalize address u64
  | PcCancel address u64 symbol
  | PcBatch "bytes list" "i128 list" "address list" i128 bytes "bytes option"
  | PcDeposit address i128 bytes
  | PcRequestEmergency address i128 address
  | PcApproveEmergency address
  | PcConfig config_call
  | PcDraft draft_call
  | PcRole role_call
  | PcReview review_call
  | PcHold hold_call
  | PcAddLocked address i128
  | PcSubtractLocked address i128
  | PcOutside "address \<rightharpoonup> token" "address \<rightharpoonup> salary_commitment"

text \<open>\<open>PcOutside\<close> is any activity of the token and commitment contracts between two calls of
  the payroll contract.\<close>

definition payroll_invoke :: "venv \<times> payroll_call \<Rightarrow> world \<Rightarrow> world outcome" where
  "payroll_invoke c w = (case c of (e, call) \<Rightarrow> (case call of
     PcInitialize a t v cc tr ow \<Rightarrow> on_pay (initialize e a t v cc tr ow) w
   | PcPrepare ps ms es x n d \<Rightarrow> on_pay (\<lambda>s. keep_state (prepare_payroll_run e ps ms es x n d s)) w
   | PcFinalize a r \<Rightarrow> on_pay (finalize_payroll_run e a r) w
   | PcCancel a r y \<Rightarrow> on_pay (cancel_payroll_run e a r y) w
   | PcBatch ps ms es x n d \<Rightarrow> keep_state (batch_process_payroll e ps ms es x n d w)
   | PcDeposit a m i \<Rightarrow> deposit e a m i w
   | PcRequestEmergency a m r \<Rightarrow> request_emergency_withdrawal e a m r w
   | PcApproveEmergency a \<Rightarrow> approve_emergency_withdrawal e a w
   | PcConfig k \<Rightarrow> on_pay (config_invoke e k) w
   | PcDraft k \<Rightarrow> on_pay (draft_invoke e k) w
   | PcRole k \<Rightarrow> on_pay (role_invoke e k) w
   | PcReview k \<Rightarrow> on_pay (review_invoke e k) w
   | PcHold k \<Rightarrow> on_pay (hold_invoke e k) w
   | PcAddLocked asset m \<Rightarrow> on_pay (add_locked_funds asset m) w
   | PcSubtractLocked asset m \<Rightarrow> on_pay (subtract_locked_funds asset m) w
   | PcOutside ts cs \<Rightarrow> Inr (w\<lparr>tokens := ts, commitment_contracts := cs\<rparr>)))"

lemma on_pay_ok [simp]: "on_pay f w = Inr w' \<longleftrightarrow> (\<exists>p. f (pay w) = Inr p \<and> w' = w\<lparr>pay := p\<rparr>)"
  by (auto simp: on_pay_def)

lemmas config_defs = config_invoke_def set_pause_manager_def set_asset_allowed_def set_company_state_def
  set_storage_version_def create_evidence_pointer_def transition_payroll_run_state_def
  commit_metadata_hash_def set_run_metadata_def commit_draft_def update_reconciliation_status_def
  cancel_emergency_withdrawal_def

lemmas draft_defs = draft_invoke_def begin_batch_execution_checkpoint_def
  record_batch_checkpoint_progress_def resume_batch_execution_def create_run_draft_def
  amend_run_draft_def finalize_run_draft_def submit_run_draft_def cancel_run_draft_def
  expire_run_draft_def move_run_draft_def

lemmas role_defs = role_invoke_def propose_admin_rotation_def accept_admin_rotation_def
  cancel_admin_rotation_def propose_treasury_rotation_def accept_treasury_rotation_def
  cancel_treasury_rotation_def request_admin_handover_def accept_admin_handover_def
  cancel_admin_handover_def

lemmas review_defs = review_invoke_def verify_and_consume_quorum_def archive_payroll_run_def
  flag_run_challenged_def clear_run_challenge_def add_reviewer_def remove_reviewer_def
  approve_payroll_run_def reject_payroll_run_def request_changes_payroll_run_def store_review_def

lemmas hold_defs = hold_invoke_def place_compliance_hold_def release_compliance_hold_def
  set_reservation_expiry_policy_def release_expired_reservation_def
  archive_payroll_run_with_reason_def record_batch_split_def

section \<open>The accounting invariant\<close>

definition run_ids_used :: "payroll \<Rightarrow> u64 set" where
  "run_ids_used s = dom (pending_runs s) \<union> dom (payroll_runs s) \<union> dom (payroll_states s) \<union> ran (run_nonces s)"

definition pending_total :: "payroll \<Rightarrow> i128" where
  "pending_total s = (\<Sum>r \<in> dom (pending_runs s). pp_total_amount (the (pending_runs s r)))"

definition accounted :: "payroll \<Rightarrow> bool" where
  "accounted s \<longleftrightarrow>
     (\<forall>r \<in> run_ids_used s. r \<le> get_run_counter s) \<and>
     dom (pending_runs s) \<inter> dom (payroll_runs s) = {} \<and>
     finite (dom (pending_runs s)) \<and>
     unat (pending_payroll_run_count s) = card (dom (pending_runs s)) \<and>
     (\<forall>r p. pending_runs s r = Some p \<longrightarrow> pp_run_id p = r \<and> run_nonces s (pp_nonce p) = Some r \<and>
        0 < pp_total_amount p) \<and>
     (addresses s = None \<longrightarrow> run_ids_used s = {})"

definition funds_locked :: "payroll \<Rightarrow> bool" where
  "funds_locked s \<longleftrightarrow> (\<forall>asset. get_locked_funds asset s =
     (if map_option ca_token (addresses s) = Some asset then pending_total s else 0))"

definition same_accounts :: "payroll \<Rightarrow> payroll \<Rightarrow> bool" where
  "same_accounts s s' \<longleftrightarrow> run_counter s' = run_counter s \<and> pending_runs s' = pending_runs s \<and>
     dom (payroll_runs s') = dom (payroll_runs s) \<and> pending_run_count s' = pending_run_count s \<and>
     locked_payroll_funds s' = locked_payroll_funds s \<and> run_nonces s' = run_nonces s \<and>
     employer_nonce_sequences s' = employer_nonce_sequences s \<and>
     map_option ca_token (addresses s') = map_option ca_token (addresses s) \<and>
     (\<forall>r. payroll_states s' r \<noteq> payroll_states s r \<longrightarrow> r \<in> run_ids_used s)"

lemma get_state_used:
  "get_payroll_run_state_internal r s = Inr st \<Longrightarrow> r \<in> run_ids_used s"
  by (auto simp: get_payroll_run_state_internal_def run_ids_used_def split: option.splits if_splits)

lemma record_state_same_accounts:
  assumes "r \<in> run_ids_used s" "dom rs = dom (payroll_runs s)"
  shows "same_accounts s (record_payroll_run_state r st (s\<lparr>payroll_runs := rs\<rparr>))"
  using assms by (auto simp: same_accounts_def record_payroll_run_state_def publish_def)

lemma transition_same_accounts:
  assumes "transition_payroll_run_state e a r st s = Inr s'"
  shows "same_accounts s s'"
proof -
  from assms have "s' = record_payroll_run_state r st (s\<lparr>payroll_runs := payroll_runs s\<rparr>)"
    "r \<in> run_ids_used s"
    by (auto simp: transition_payroll_run_state_def dest: get_state_used)
  then show ?thesis by (simp only: record_state_same_accounts)
qed

lemma reconcile_effect:
  assumes "update_reconciliation_status e a r st s = Inr s'"
  obtains run nxt where "payroll_runs s r = Some run"
    "s' = publish [VSym ''payroll'', VSym ''reconciliation_updated'']
       (VVec [VU64 r, ReconciliationStatus_val st])
       (record_payroll_run_state r nxt
         (s\<lparr>payroll_runs := (payroll_runs s)(r \<mapsto> run\<lparr>pr_reconciliation_status := st\<rparr>)\<rparr>))"
    "nxt = (case st of Reconciled \<Rightarrow> Completed | Unreconciled \<Rightarrow> ReconciliationRequired
           | ReconciliationFailed \<Rightarrow> Failed)"
    "\<exists>cur. get_payroll_run_state_internal r s = Inr cur \<and> cur \<noteq> Completed \<and>
      (cur = nxt \<or> is_allowed_payroll_state_transition_internal cur nxt)"
  using assms by (auto simp: update_reconciliation_status_def Let_def)

lemma same_accounts_publish [simp]: "same_accounts s (publish ts d s') = same_accounts s s'"
  by (simp add: same_accounts_def publish_def)

lemma reconcile_same_accounts:
  assumes "update_reconciliation_status e a r st s = Inr s'"
  shows "same_accounts s s'"
  using assms
proof (rule reconcile_effect)
  fix run nxt
  assume r: "payroll_runs s r = Some run"
    and s': "s' = publish [VSym ''payroll'', VSym ''reconciliation_updated'']
       (VVec [VU64 r, ReconciliationStatus_val st])
       (record_payroll_run_state r nxt
         (s\<lparr>payroll_runs := (payroll_runs s)(r \<mapsto> run\<lparr>pr_reconciliation_status := st\<rparr>)\<rparr>))"
  have "r \<in> run_ids_used s" using r by (auto simp: run_ids_used_def)
  moreover have "dom ((payroll_runs s)(r \<mapsto> run\<lparr>pr_reconciliation_status := st\<rparr>)) = dom (payroll_runs s)"
    using r by auto
  ultimately show ?thesis unfolding s' by (simp add: record_state_same_accounts)
qed

lemma set_run_metadata_same_accounts:
  assumes "set_run_metadata e a r h s = Inr s'"
  shows "same_accounts s s'"
proof -
  from assms obtain run where "payroll_runs s r = Some run"
    "s' = emit_metadata_bound r h (s\<lparr>draft_commitments := (draft_commitments s)(h := None),
       payroll_runs := (payroll_runs s)(r \<mapsto> run\<lparr>pr_metadata_hash := h\<rparr>)\<rparr>)"
    by (auto simp: set_run_metadata_def Let_def)
  then show ?thesis by (auto simp: same_accounts_def emits)
qed

lemma config_same_accounts: "config_invoke e c s = Inr s' \<Longrightarrow> same_accounts s s'"
proof (cases c)
  case (CfTransition a r st)
  then show "config_invoke e c s = Inr s' \<Longrightarrow> same_accounts s s'"
    by (simp add: config_invoke_def transition_same_accounts)
next
  case (CfReconcile a r st)
  then show "config_invoke e c s = Inr s' \<Longrightarrow> same_accounts s s'"
    by (simp add: config_invoke_def reconcile_same_accounts)
next
  case (CfSetMetadata a r h)
  then show "config_invoke e c s = Inr s' \<Longrightarrow> same_accounts s s'"
    by (simp add: config_invoke_def set_run_metadata_same_accounts)
qed (auto simp: config_defs same_accounts_def emits Let_def)

lemma draft_same_accounts: "draft_invoke e c s = Inr s' \<Longrightarrow> same_accounts s s'"
  by (cases c) (auto simp: draft_defs same_accounts_def emits Let_def)

lemma role_same_accounts: "role_invoke e c s = Inr s' \<Longrightarrow> same_accounts s s'"
  by (cases c) (auto simp: role_defs same_accounts_def emits Let_def)

lemma review_same_accounts: "review_invoke e c s = Inr s' \<Longrightarrow> same_accounts s s'"
  by (cases c) (auto simp: review_defs same_accounts_def emits Let_def)

lemma hold_same_accounts: "hold_invoke e c s = Inr s' \<Longrightarrow> same_accounts s s'"
  by (cases c) (auto simp: hold_defs same_accounts_def emits Let_def)

section \<open>Effects of the run operations\<close>

definition prepared ::
  "'x env_scheme \<Rightarrow> i128 \<Rightarrow> bytes \<Rightarrow> nat \<Rightarrow> ContractAddresses \<Rightarrow> PendingPayrollRun \<Rightarrow>
   payroll \<Rightarrow> payroll \<Rightarrow> bool" where
  "prepared e x n count addrs p s s' \<longleftrightarrow>
     addresses s = Some addrs \<and> auth e (ca_admin addrs) \<and> is_asset_allowed (ca_token addrs) s \<and>
     run_nonces s n = None \<and> validate_nonce_monotonicity (ca_admin addrs) n s = Inr () \<and>
     unat (get_run_counter s) + 1 < 2 ^ 64 \<and> unat (pending_payroll_run_count s) + 1 < 2 ^ 32 \<and>
     pp_run_id p = get_run_counter s + 1 \<and> pp_prepared_at p = timestamp e \<and>
     pp_admin p = ca_admin addrs \<and> pp_total_amount p = x \<and> pp_employee_count p = of_nat count \<and>
     pp_nonce p = n \<and>
     addresses s' = addresses s \<and> payroll_runs s' = payroll_runs s \<and>
     run_counter s' = Some (get_run_counter s + 1) \<and>
     run_nonces s' = (run_nonces s)(n \<mapsto> get_run_counter s + 1) \<and>
     pending_runs s' = (pending_runs s)(get_run_counter s + 1 \<mapsto> p) \<and>
     payroll_states s' = (payroll_states s)(get_run_counter s + 1 \<mapsto> Submitted) \<and>
     pending_run_count s' = Some (pending_payroll_run_count s + 1) \<and>
     in_i128 (get_locked_funds (ca_token addrs) s + x) \<and>
     locked_payroll_funds s' = (locked_payroll_funds s)(ca_token addrs \<mapsto>
       get_locked_funds (ca_token addrs) s + x) \<and>
     draft_commitments s' = draft_commitments s"

lemma update_nonce_effect:
  assumes "update_nonce_sequence e a n s = Inr s'"
  obtains st where "s' = s\<lparr>employer_nonce_sequences := (employer_nonce_sequences s)(a \<mapsto> st)\<rparr>"
    "ns_last_nonce st = n" "ns_last_accepted_at st = timestamp e"
    "unat (ns_current_sequence st) =
      (case employer_nonce_sequences s a of None \<Rightarrow> 1 | Some old \<Rightarrow> unat (ns_current_sequence old) + 1)"
  using assms
  by (auto simp: update_nonce_sequence_def unat_word_ariths split: option.splits)

lemma prepare_effect:
  assumes "prepare_payroll_run e ps ms es x n d s = Inr (r, s')"
  obtains addrs p st where "prepared e x n (length ps) addrs p s s'" "r = get_run_counter s + 1"
    "length ms = length ps" "length es = length ps" "0 < length ps" "length ps \<le> 50"
    "validate_no_duplicate_employees es = Inr ()" "sum_amounts 0 ms = Inr x"
    "require_company_active s = Inr ()"
    "d = Some (pp_draft_hash p) \<and> draft_commitments s (pp_draft_hash p) \<noteq> None \<or>
      d = None \<and> pp_draft_hash p = zero32"
    "employer_nonce_sequences s' = (employer_nonce_sequences s)(ca_admin addrs \<mapsto> st)"
    "ns_last_nonce st = n"
proof -
  from assms obtain addrs dh s1 where *:
    "require_company_active s = Inr ()" "length ms = length ps" "length es = length ps" "0 < length ps"
    "length ps \<le> 50" "run_nonces s n = None" "validate_no_duplicate_employees es = Inr ()"
    "sum_amounts 0 ms = Inr x" "addresses s = Some addrs"
    "validate_nonce_monotonicity (ca_admin addrs) n s = Inr ()" "auth e (ca_admin addrs)"
    "is_asset_allowed (ca_token addrs) s" "unat (get_run_counter s) + 1 < 2 ^ 64"
    "r = get_run_counter s + 1"
    "d = Some dh \<and> draft_commitments s dh \<noteq> None \<or> d = None \<and> dh = zero32"
    and u: "update_nonce_sequence e (ca_admin addrs) n
      (s\<lparr>run_counter := Some r, run_nonces := (run_nonces s)(n \<mapsto> r)\<rparr>) = Inr s1"
    and c: "unat (pending_payroll_run_count s1) + 1 < 2 ^ 32"
    "in_i128 (get_locked_funds (ca_token addrs) s1 + x)"
    and s': "s' = emit_run_prepared r x (emit_locked_funds_updated (ca_token addrs)
        (get_locked_funds (ca_token addrs) s1 + x)
        ((record_payroll_run_state r Submitted (s1\<lparr>pending_runs := (pending_runs s1)(r \<mapsto>
          \<lparr>pp_run_id = r, pp_prepared_at = timestamp e, pp_admin = ca_admin addrs,
           pp_total_amount = x, pp_employee_count = of_nat (length ps), pp_draft_hash = dh, pp_nonce = n\<rparr>)\<rparr>))
          \<lparr>pending_run_count := Some (pending_payroll_run_count s1 + 1),
           locked_payroll_funds := (locked_payroll_funds s1)(ca_token addrs \<mapsto>
             get_locked_funds (ca_token addrs) s1 + x)\<rparr>))"
    by (auto simp: prepare_payroll_run_def derive_run_id_def add_locked_funds_def get_run_counter_def
        MAX_BATCH_def get_locked_funds_def pending_payroll_run_count_def record_payroll_run_state_def
        publish_def Let_def split: option.splits)
  from u show thesis
  proof (rule update_nonce_effect)
    fix st
    assume s1: "s1 = s\<lparr>run_counter := Some r, run_nonces := (run_nonces s)(n \<mapsto> r),
        employer_nonce_sequences := (employer_nonce_sequences
          (s\<lparr>run_counter := Some r, run_nonces := (run_nonces s)(n \<mapsto> r)\<rparr>))(ca_admin addrs \<mapsto> st)\<rparr>"
      and n: "ns_last_nonce st = n"
    let ?p = "\<lparr>pp_run_id = r, pp_prepared_at = timestamp e, pp_admin = ca_admin addrs,
           pp_total_amount = x, pp_employee_count = of_nat (length ps), pp_draft_hash = dh, pp_nonce = n\<rparr>"
    have "prepared e x n (length ps) addrs ?p s s'"
      using * c unfolding prepared_def s' s1
      by (simp add: emits record_payroll_run_state_def get_locked_funds_def pending_payroll_run_count_def)
    moreover have "employer_nonce_sequences s' = (employer_nonce_sequences s)(ca_admin addrs \<mapsto> st)"
      unfolding s' s1 by (simp add: emits record_payroll_run_state_def)
    ultimately show thesis using * n that [of addrs ?p st] by auto
  qed
qed

definition closed_run ::
  "u64 \<Rightarrow> PendingPayrollRun \<Rightarrow> ContractAddresses \<Rightarrow> payroll \<Rightarrow> payroll \<Rightarrow> bool" where
  "closed_run r p addrs s s' \<longleftrightarrow>
     addresses s = Some addrs \<and> pending_runs s r = Some p \<and> payroll_runs s r = None \<and>
     addresses s' = addresses s \<and> run_counter s' = run_counter s \<and> run_nonces s' = run_nonces s \<and>
     employer_nonce_sequences s' = employer_nonce_sequences s \<and>
     pending_runs s' = (pending_runs s)(r := None) \<and>
     pending_run_count s' = Some (saturating_sub (pending_payroll_run_count s) 1) \<and>
     in_i128 (get_locked_funds (ca_token addrs) s - pp_total_amount p) \<and>
     locked_payroll_funds s' = (locked_payroll_funds s)(ca_token addrs \<mapsto>
       get_locked_funds (ca_token addrs) s - pp_total_amount p)"

lemma finalize_effect:
  assumes "finalize_payroll_run e a r s = Inr s'"
  obtains addrs p where "closed_run r p addrs s s'" "a = ca_admin addrs" "auth e a"
    "payroll_runs s' = (payroll_runs s)(r \<mapsto> \<lparr>pr_run_id = r, pr_executed_at = timestamp e, pr_admin = a,
       pr_total_amount = pp_total_amount p, pr_employee_count = pp_employee_count p,
       pr_draft_hash = pp_draft_hash p, pr_nonce = pp_nonce p,
       pr_reconciliation_status = Unreconciled, pr_metadata_hash = zero32\<rparr>)"
    "payroll_states s' = (payroll_states s)(r \<mapsto> ReconciliationRequired)"
    "\<not> is_payroll_approval_expired e r DEFAULT_APPROVAL_EXPIRY_SECONDS s"
  using assms
  by (auto simp: finalize_payroll_run_def subtract_locked_funds_def validate_approval_not_expired_def
      closed_run_def get_locked_funds_def pending_payroll_run_count_def record_payroll_run_state_def
      emits Let_def)

lemma cancel_effect:
  assumes "cancel_payroll_run e a r y s = Inr s'"
  obtains addrs p where "closed_run r p addrs s s'" "a = ca_admin addrs" "auth e a"
    "payroll_runs s' = payroll_runs s"
    "payroll_states s' = (payroll_states s)(r \<mapsto> Cancelled)"
    "cancelled_batches s' = (cancelled_batches s)(r \<mapsto> \<lparr>cb_run_id = r, cb_cancelled_at = timestamp e,
       cb_cancelled_by = a, cb_reason = y, cb_employee_count = pp_employee_count p,
       cb_total_amount = pp_total_amount p, cb_draft_hash = pp_draft_hash p, cb_is_cancelled = True\<rparr>)"
  using assms
  by (auto simp: cancel_payroll_run_def cancel_payroll_run_with_reason_def subtract_locked_funds_def
      closed_run_def get_locked_funds_def pending_payroll_run_count_def record_payroll_run_state_def
      emits Let_def)

text \<open>The payment loop touches the payroll contract's own storage only through its events.\<close>

definition same_storage :: "payroll \<Rightarrow> payroll \<Rightarrow> bool" where
  "same_storage s s' \<longleftrightarrow> (\<exists>evs. s' = s\<lparr>events := evs\<rparr>)"

lemma same_storage_refl [simp]: "same_storage s s"
  by (auto simp: same_storage_def intro: exI [where x = "events s"])

lemma same_storage_trans: "same_storage s t \<Longrightarrow> same_storage t u \<Longrightarrow> same_storage s u"
  by (auto simp: same_storage_def)

lemma token_transfer_pay: "token_transfer at a b m w = Inr w' \<Longrightarrow> pay w' = pay w"
  by (auto simp: token_transfer_def)

lemma pay_employee_storage:
  assumes "pay_employee e addrs i prf m emp w = Inr w'"
  shows "same_storage (pay w) (pay w')"
  using assms
  by (auto simp: pay_employee_def Let_def emits same_storage_def dest!: token_transfer_pay)

lemma pay_employees_storage:
  assumes "pay_employees e addrs i ps ms es w = Inr w'"
  shows "same_storage (pay w) (pay w')"
  using assms
proof (induction e addrs i ps ms es w rule: pay_employees.induct)
  case (1 e addrs i pf proofs amount amounts employee employees w)
  then show ?case using pay_employee_storage same_storage_trans by fastforce
qed auto

definition executed ::
  "venv \<Rightarrow> i128 \<Rightarrow> bytes \<Rightarrow> ContractAddresses \<Rightarrow> PayrollRun \<Rightarrow> payroll \<Rightarrow> payroll \<Rightarrow> bool" where
  "executed e x n addrs run s s' \<longleftrightarrow>
     addresses s = Some addrs \<and> auth e (ca_admin addrs) \<and> is_asset_allowed (ca_token addrs) s \<and>
     run_nonces s n = None \<and> n \<noteq> zero32 \<and> validate_nonce_monotonicity (ca_admin addrs) n s = Inr () \<and>
     require_not_paused e s = Inr () \<and> unat (get_run_counter s) + 1 < 2 ^ 64 \<and>
     pr_run_id run = get_run_counter s + 1 \<and> pr_total_amount run = x \<and> pr_nonce run = n \<and>
     pr_reconciliation_status run = Unreconciled \<and>
     addresses s' = addresses s \<and> pending_runs s' = pending_runs s \<and>
     pending_run_count s' = pending_run_count s \<and> locked_payroll_funds s' = locked_payroll_funds s \<and>
     run_counter s' = Some (get_run_counter s + 1) \<and>
     run_nonces s' = (run_nonces s)(n \<mapsto> get_run_counter s + 1) \<and>
     payroll_runs s' = (payroll_runs s)(get_run_counter s + 1 \<mapsto> run) \<and>
     payroll_states s' = (payroll_states s)(get_run_counter s + 1 \<mapsto> ReconciliationRequired) \<and>
     (\<exists>st. ns_last_nonce st = n \<and>
       employer_nonce_sequences s' = (employer_nonce_sequences s)(ca_admin addrs \<mapsto> st))"

lemma consume_draft_effect:
  assumes "consume_draft_commitment d s = Inr (dh, s')"
  shows "\<exists>dc. s' = s\<lparr>draft_commitments := dc\<rparr>"
  using assms
  by (cases d) (auto simp: consume_draft_commitment_def intro: exI [where x = "draft_commitments s"])

lemma batch_effect:
  assumes "batch_process_payroll e ps ms es x n d w = Inr (r, w')"
  obtains addrs run s1 bal w1 where "executed e x n addrs run (pay w) (pay w')"
    "r = get_run_counter (pay w) + 1" "length ms = length ps" "length es = length ps"
    "0 < length ps" "length ps \<le> 50" "validate_no_duplicate_employees es = Inr ()"
    "sum_amounts 0 ms = Inr x" "token_balance (ca_token addrs) (ca_treasury addrs) w = Inr bal" "x \<le> bal"
    "pay_employees e addrs 0 ps ms es (w\<lparr>pay := s1\<rparr>) = Inr w1"
    "tokens w' = tokens w1" "commitment_contracts w' = commitment_contracts w1"
proof -
  from assms obtain addrs dh s0 s1 bal w1 where *:
    "n \<noteq> zero32" "length ms = length ps" "length es = length ps" "0 < length ps" "length ps \<le> 50"
    "run_nonces (pay w) n = None" "validate_no_duplicate_employees es = Inr ()"
    "sum_amounts 0 ms = Inr x" "addresses s0 = Some addrs"
    "validate_nonce_monotonicity (ca_admin addrs) n s0 = Inr ()" "auth e (ca_admin addrs)"
    "is_asset_allowed (ca_token addrs) s0" "require_not_paused e s0 = Inr ()"
    "unat (get_run_counter s0) + 1 < 2 ^ 64"
    "r = get_run_counter s0 + 1"
    "token_balance (ca_token addrs) (ca_treasury addrs) w = Inr bal" "x \<le> bal"
    and s0: "consume_draft_commitment d (pay w) = Inr (dh, s0)"
    and u: "update_nonce_sequence e (ca_admin addrs) n
      (s0\<lparr>run_counter := Some r, run_nonces := (run_nonces s0)(n \<mapsto> r)\<rparr>) = Inr s1"
    and l: "pay_employees e addrs 0 ps ms es (w\<lparr>pay := s1\<rparr>) = Inr w1"
    and w': "w' = w1\<lparr>pay := emit_run_executed r x (record_payroll_run_state r ReconciliationRequired
      ((pay w1)\<lparr>payroll_runs := (payroll_runs (pay w1))(r \<mapsto> \<lparr>pr_run_id = r,
        pr_executed_at = timestamp e, pr_admin = ca_admin addrs, pr_total_amount = x,
        pr_employee_count = of_nat (length ps), pr_draft_hash = dh, pr_nonce = n,
        pr_reconciliation_status = Unreconciled, pr_metadata_hash = zero32\<rparr>)\<rparr>))\<rparr>"
    by (auto simp: batch_process_payroll_def derive_run_id_def get_run_counter_def validate_non_zero_digest_def
        MAX_BATCH_def Let_def split: option.splits)
  from pay_employees_storage [OF l] obtain evs where e1: "pay w1 = s1\<lparr>events := evs\<rparr>"
    by (auto simp: same_storage_def)
  from consume_draft_effect [OF s0] obtain dc where s0: "s0 = (pay w)\<lparr>draft_commitments := dc\<rparr>" ..
  from * have f: "addresses (pay w) = Some addrs" "unat (get_run_counter (pay w)) + 1 < 2 ^ 64"
    "r = get_run_counter (pay w) + 1"
    by (simp_all add: s0 get_run_counter_def)
  from u show thesis
  proof (rule update_nonce_effect)
    fix st
    assume s1: "s1 = s0\<lparr>run_counter := Some r, run_nonces := (run_nonces s0)(n \<mapsto> r),
        employer_nonce_sequences := (employer_nonce_sequences
          (s0\<lparr>run_counter := Some r, run_nonces := (run_nonces s0)(n \<mapsto> r)\<rparr>))(ca_admin addrs \<mapsto> st)\<rparr>"
      and n: "ns_last_nonce st = n"
    let ?run = "\<lparr>pr_run_id = r,
        pr_executed_at = timestamp e, pr_admin = ca_admin addrs, pr_total_amount = x,
        pr_employee_count = of_nat (length ps), pr_draft_hash = dh, pr_nonce = n,
        pr_reconciliation_status = Unreconciled, pr_metadata_hash = zero32\<rparr>"
    have "validate_nonce_monotonicity (ca_admin addrs) n (pay w) = Inr ()"
      "is_asset_allowed (ca_token addrs) (pay w)" "require_not_paused e (pay w) = Inr ()"
      using * by (simp_all add: s0 validate_nonce_monotonicity_def is_asset_allowed_def require_not_paused_def)
    with * f n have "executed e x n addrs ?run (pay w) (pay w')"
      unfolding executed_def w'
      by (auto simp: e1 s1 s0 emits record_payroll_run_state_def)
    moreover have "tokens w' = tokens w1" "commitment_contracts w' = commitment_contracts w1"
      by (simp_all add: w')
    ultimately show thesis using * f l that by auto
  qed
qed

end
