(* ===== verification/Payroll_Invariants.thy ===== *)
theory Payroll_Invariants
  imports Payroll_Calls
begin

text \<open>
  The properties of the payroll contract over histories of calls: accounting of pending runs
  and locked funds, the configuration lock, one-time nonces and their order, and the life of
  a run.
\<close>

section \<open>Preservation of the accounting invariant\<close>

lemma accounted_same:
  assumes "accounted s" "same_accounts s s'"
  shows "accounted s'"
proof -
  have used: "run_ids_used s' \<subseteq> run_ids_used s"
  proof
    fix r assume r: "r \<in> run_ids_used s'"
    show "r \<in> run_ids_used s"
    proof (cases "payroll_states s' r = payroll_states s r")
      case True
      with r assms(2) show ?thesis by (auto simp: same_accounts_def run_ids_used_def)
    next
      case False
      with assms(2) show ?thesis by (simp add: same_accounts_def)
    qed
  qed
  have "get_run_counter s' = get_run_counter s"
    "pending_payroll_run_count s' = pending_payroll_run_count s"
    using assms(2) by (simp_all add: same_accounts_def get_run_counter_def pending_payroll_run_count_def)
  moreover have "addresses s' = None \<longleftrightarrow> addresses s = None"
    using assms(2) by (metis same_accounts_def option.map_disc_iff)
  ultimately show ?thesis
    using assms used unfolding accounted_def same_accounts_def by auto
qed

lemma pending_total_insert:
  assumes "pending_runs s' = (pending_runs s)(r \<mapsto> p)" "r \<notin> dom (pending_runs s)" "finite (dom (pending_runs s))"
  shows "pending_total s' = pending_total s + pp_total_amount p"
proof -
  have "(\<Sum>q \<in> dom (pending_runs s). pp_total_amount (the (((pending_runs s)(r \<mapsto> p)) q))) =
      (\<Sum>q \<in> dom (pending_runs s). pp_total_amount (the (pending_runs s q)))"
    using assms(2) by (intro sum.cong) auto
  then show ?thesis using assms by (simp add: pending_total_def)
qed

lemma pending_total_remove:
  assumes "pending_runs s' = (pending_runs s)(r := None)" "pending_runs s r = Some p"
    "finite (dom (pending_runs s))"
  shows "pending_total s' = pending_total s - pp_total_amount p"
proof -
  have "dom (pending_runs s') = dom (pending_runs s) - {r}" using assms(1) by auto
  then have "pending_total s' = (\<Sum>q \<in> dom (pending_runs s) - {r}. pp_total_amount (the (pending_runs s q)))"
    unfolding pending_total_def using assms(1) by (auto intro!: sum.cong)
  moreover have "r \<in> dom (pending_runs s)" using assms(2) by auto
  ultimately show ?thesis
    using assms(2,3) by (simp add: pending_total_def sum.remove [of _ r])
qed

lemma next_id_unused:
  assumes "accounted s" "unat (get_run_counter s) + 1 < 2 ^ 64"
  shows "get_run_counter s < get_run_counter s + 1" "get_run_counter s + 1 \<notin> run_ids_used s"
proof -
  show l: "get_run_counter s < get_run_counter s + 1"
    using assms(2) by (simp add: word_less_nat_alt unat_word_ariths)
  show "get_run_counter s + 1 \<notin> run_ids_used s"
  proof
    assume "get_run_counter s + 1 \<in> run_ids_used s"
    with assms(1) have "get_run_counter s + 1 \<le> get_run_counter s" by (simp add: accounted_def)
    with l show False by simp
  qed
qed

lemma accounted_prepared:
  assumes "accounted s" "prepared e x n count addrs p s s'" "0 < x"
  shows "accounted s'"
proof -
  let ?r = "get_run_counter s + 1"
  note P = assms(2) [unfolded prepared_def]
  have id: "get_run_counter s < ?r" "?r \<notin> run_ids_used s"
    using next_id_unused [OF assms(1)] P by auto
  have fin: "finite (dom (pending_runs s))" using assms(1) by (simp add: accounted_def)
  have new: "?r \<notin> dom (pending_runs s)" "?r \<notin> dom (payroll_runs s)"
    using id(2) by (auto simp: run_ids_used_def)
  have used: "run_ids_used s' = insert ?r (run_ids_used s)"
  proof -
    have "ran ((run_nonces s)(n \<mapsto> ?r)) = insert ?r (ran (run_nonces s))"
      using P by (intro ran_map_upd) simp
    with P show ?thesis by (auto simp: run_ids_used_def)
  qed
  have ctr: "get_run_counter s' = ?r" using P by (simp add: get_run_counter_def)
  have old: "pp_run_id q = r \<and> run_nonces s (pp_nonce q) = Some r \<and> 0 < pp_total_amount q"
    if "pending_runs s r = Some q" for r q
    using assms(1) that by (simp add: accounted_def)
  show ?thesis
    unfolding accounted_def
  proof (intro conjI)
    show "\<forall>r \<in> run_ids_used s'. r \<le> get_run_counter s'"
    proof
      fix r assume "r \<in> run_ids_used s'"
      then consider "r = ?r" | "r \<le> get_run_counter s" using used assms(1) by (auto simp: accounted_def)
      then show "r \<le> get_run_counter s'" using id(1) ctr by cases auto
    qed
    show "dom (pending_runs s') \<inter> dom (payroll_runs s') = {}"
      using assms(1) P new by (auto simp: accounted_def)
    show "finite (dom (pending_runs s'))" using fin P by simp
    show "unat (pending_payroll_run_count s') = card (dom (pending_runs s'))"
      using assms(1) P new fin by (simp add: accounted_def pending_payroll_run_count_def unat_word_ariths)
    show "\<forall>r q. pending_runs s' r = Some q \<longrightarrow> pp_run_id q = r \<and> run_nonces s' (pp_nonce q) = Some r \<and>
        0 < pp_total_amount q"
    proof (intro allI impI)
      fix r q assume q: "pending_runs s' r = Some q"
      show "pp_run_id q = r \<and> run_nonces s' (pp_nonce q) = Some r \<and> 0 < pp_total_amount q"
      proof (cases "r = ?r")
        case True
        with q P assms(3) show ?thesis by auto
      next
        case False
        with q P have "pending_runs s r = Some q" by simp
        from old [OF this] P show ?thesis by auto
      qed
    qed
    show "addresses s' = None \<longrightarrow> run_ids_used s' = {}" using P by simp
  qed
qed

lemma accounted_closed:
  assumes "accounted s" "closed_run r p addrs s s'"
    and "dom (payroll_runs s') \<subseteq> insert r (dom (payroll_runs s))"
    and "dom (payroll_states s') \<subseteq> insert r (dom (payroll_states s))"
  shows "accounted s'"
proof -
  note C = assms(2) [unfolded closed_run_def]
  have fin: "finite (dom (pending_runs s))" using assms(1) by (simp add: accounted_def)
  have r: "r \<in> dom (pending_runs s)" using C by auto
  have pos: "0 < card (dom (pending_runs s))" using r fin by (auto simp: card_gt_0_iff)
  have used: "run_ids_used s' \<subseteq> run_ids_used s"
    using C assms(3,4) r by (auto simp: run_ids_used_def)
  show ?thesis
    unfolding accounted_def
  proof (intro conjI)
    show "\<forall>r \<in> run_ids_used s'. r \<le> get_run_counter s'"
      using assms(1) used C by (auto simp: accounted_def get_run_counter_def)
    show "dom (pending_runs s') \<inter> dom (payroll_runs s') = {}"
      using assms(1,3) C by (auto simp: accounted_def)
    show "finite (dom (pending_runs s'))" using fin C by simp
    show "unat (pending_payroll_run_count s') = card (dom (pending_runs s'))"
      using assms(1) C r fin pos
      by (simp add: accounted_def pending_payroll_run_count_def saturating_sub_unat)
    show "\<forall>r q. pending_runs s' r = Some q \<longrightarrow> pp_run_id q = r \<and> run_nonces s' (pp_nonce q) = Some r \<and>
        0 < pp_total_amount q"
      using assms(1) C by (auto simp: accounted_def split: if_splits)
    show "addresses s' = None \<longrightarrow> run_ids_used s' = {}" using C by simp
  qed
qed

lemma accounted_executed:
  assumes "accounted s" "executed e x n addrs run s s'"
  shows "accounted s'"
proof -
  let ?r = "get_run_counter s + 1"
  note P = assms(2) [unfolded executed_def]
  have id: "get_run_counter s < ?r" "?r \<notin> run_ids_used s"
    using next_id_unused [OF assms(1)] P by auto
  have used: "run_ids_used s' = insert ?r (run_ids_used s)"
  proof -
    have "ran ((run_nonces s)(n \<mapsto> ?r)) = insert ?r (ran (run_nonces s))"
      using P by (intro ran_map_upd) simp
    with P show ?thesis by (auto simp: run_ids_used_def)
  qed
  have ctr: "get_run_counter s' = ?r" using P by (simp add: get_run_counter_def)
  have same: "pending_payroll_run_count s' = pending_payroll_run_count s"
    using P by (simp add: pending_payroll_run_count_def)
  show ?thesis
    unfolding accounted_def
  proof (intro conjI)
    show "\<forall>r \<in> run_ids_used s'. r \<le> get_run_counter s'"
    proof
      fix r assume "r \<in> run_ids_used s'"
      then consider "r = ?r" | "r \<le> get_run_counter s" using used assms(1) by (auto simp: accounted_def)
      then show "r \<le> get_run_counter s'" using id(1) ctr by cases auto
    qed
    show "dom (pending_runs s') \<inter> dom (payroll_runs s') = {}"
      using assms(1) P id(2) by (auto simp: accounted_def run_ids_used_def)
    show "\<forall>r q. pending_runs s' r = Some q \<longrightarrow> pp_run_id q = r \<and> run_nonces s' (pp_nonce q) = Some r \<and>
        0 < pp_total_amount q"
    proof (intro allI impI)
      fix r q assume "pending_runs s' r = Some q"
      with P assms(1) have "pp_run_id q = r \<and> run_nonces s (pp_nonce q) = Some r \<and> 0 < pp_total_amount q"
        by (simp add: accounted_def)
      with P show "pp_run_id q = r \<and> run_nonces s' (pp_nonce q) = Some r \<and> 0 < pp_total_amount q" by auto
    qed
  qed (use assms(1) P same in \<open>simp_all add: accounted_def\<close>)
qed

section \<open>Amounts and employees of a batch\<close>

lemma sum_amounts_ok:
  "sum_amounts acc ms = Inr x \<Longrightarrow> x = acc + sum_list ms \<and> (\<forall>m \<in> set ms. 0 < m)"
proof (induction ms arbitrary: acc)
  case Nil
  then show ?case by simp
next
  case (Cons m ms)
  then show ?case by fastforce
qed

lemma sum_amounts_pos:
  assumes "sum_amounts 0 ms = Inr x" "ms \<noteq> []"
  shows "0 < x"
proof -
  from sum_amounts_ok [OF assms(1)] have x: "x = sum_list ms" and pos: "\<forall>m \<in> set ms. 0 < m" by auto
  obtain m ms' where ms: "ms = m # ms'" using assms(2) by (cases ms) auto
  have "0 \<le> sum_list ms'" using pos ms by (intro sum_list_nonneg) auto
  then show ?thesis using pos ms x by auto
qed

lemma scan_for_ok: "scan_for a xs = Inr u \<longleftrightarrow> a \<notin> set xs"
  by (induction xs) auto

lemma no_duplicates_ok: "validate_no_duplicate_employees xs = Inr u \<longleftrightarrow> distinct xs"
  by (induction xs) (auto simp: scan_for_ok)

lemma scan_for_fault: "scan_for a xs = Inl f \<longleftrightarrow> a \<in> set xs \<and> f = Panic ''Duplicate employee wallet in payroll batch''"
  by (induction xs) (auto simp: faults)

lemma no_duplicates_fault:
  "validate_no_duplicate_employees xs = Inl f \<longleftrightarrow>
     \<not> distinct xs \<and> f = Panic ''Duplicate employee wallet in payroll batch''"
  by (induction xs) (auto simp: faults scan_for_fault scan_for_ok)

section \<open>The invariant over histories\<close>

lemma accounted_initialize:
  assumes "accounted s" "initialize e a t v cc tr ow s = Inr s'"
  shows "accounted s'"
proof -
  from assms(2) have n: "addresses s = None" by (simp add: initialize_def)
  with assms(1) have u: "run_ids_used s = {}" by (simp add: accounted_def)
  from assms(2) n have f: "pending_runs s' = pending_runs s" "payroll_runs s' = payroll_runs s"
    "payroll_states s' = payroll_states s" "run_nonces s' = run_nonces s"
    "pending_run_count s' = pending_run_count s" "addresses s' \<noteq> None"
    by (auto simp: initialize_def initialize_storage_version_def emits)
  from u have e: "pending_runs s = Map.empty" by (auto simp: run_ids_used_def)
  have "run_ids_used s' = {}" using u f by (simp add: run_ids_used_def)
  moreover have "pending_payroll_run_count s' = pending_payroll_run_count s"
    using f by (simp add: pending_payroll_run_count_def)
  ultimately show ?thesis
    using assms(1) f e unfolding accounted_def by simp
qed

lemma deposit_pay:
  assumes "deposit e a m i w = Inr w'"
  shows "same_accounts (pay w) (pay w') \<and> addresses (pay w') = addresses (pay w) \<and>
    payroll_runs (pay w') = payroll_runs (pay w) \<and> payroll_states (pay w') = payroll_states (pay w)"
  using assms
  by (auto simp: deposit_def same_accounts_def publish_def Let_def dest!: token_transfer_pay)

lemma request_emergency_pay:
  assumes "request_emergency_withdrawal e a m r w = Inr w'"
  shows "same_accounts (pay w) (pay w') \<and> addresses (pay w') = addresses (pay w) \<and>
    payroll_runs (pay w') = payroll_runs (pay w) \<and> payroll_states (pay w') = payroll_states (pay w)"
  using assms by (auto simp: request_emergency_withdrawal_def same_accounts_def emits)

lemma approve_emergency_pay:
  assumes "approve_emergency_withdrawal e a w = Inr w'"
  shows "same_accounts (pay w) (pay w') \<and> addresses (pay w') = addresses (pay w) \<and>
    payroll_runs (pay w') = payroll_runs (pay w) \<and> payroll_states (pay w') = payroll_states (pay w)"
  using assms
  by (auto simp: approve_emergency_withdrawal_def same_accounts_def emits Let_def dest!: token_transfer_pay)

text \<open>Every successful call initializes, prepares, finalizes, cancels or executes a run,
  changes the locked funds directly, or leaves the accounts as they are.\<close>

definition direct_locking :: "payroll_call \<Rightarrow> bool" where
  "direct_locking c = (case c of PcAddLocked _ _ \<Rightarrow> True | PcSubtractLocked _ _ \<Rightarrow> True | _ \<Rightarrow> False)"

lemma direct_locking_effect:
  "add_locked_funds asset m s = Inr s' \<Longrightarrow> \<exists>evs lf. s' = s\<lparr>locked_payroll_funds := lf, events := evs\<rparr>"
  "subtract_locked_funds asset m s = Inr s' \<Longrightarrow> \<exists>evs lf. s' = s\<lparr>locked_payroll_funds := lf, events := evs\<rparr>"
  by (auto simp: add_locked_funds_def subtract_locked_funds_def emits)

lemma payroll_invoke_cases:
  assumes "payroll_invoke (e, c) w = Inr w'"
  obtains (init) a t v cc tr ow where "c = PcInitialize a t v cc tr ow"
      "initialize e a t v cc tr ow (pay w) = Inr (pay w')"
  | (prep) ps ms es x n d r where "c = PcPrepare ps ms es x n d"
      "prepare_payroll_run e ps ms es x n d (pay w) = Inr (r, pay w')"
  | (fin) a r where "c = PcFinalize a r" "finalize_payroll_run e a r (pay w) = Inr (pay w')"
  | (canc) a r y where "c = PcCancel a r y" "cancel_payroll_run e a r y (pay w) = Inr (pay w')"
  | (batch) ps ms es x n d r where "c = PcBatch ps ms es x n d"
      "batch_process_payroll e ps ms es x n d w = Inr (r, w')"
  | (lock) evs lf where "direct_locking c" "pay w' = (pay w)\<lparr>locked_payroll_funds := lf, events := evs\<rparr>"
  | (frame) "same_accounts (pay w) (pay w')"
proof (cases c)
  case (PcAddLocked asset m)
  with assms have "add_locked_funds asset m (pay w) = Inr (pay w')" by (auto simp: payroll_invoke_def)
  then show thesis using PcAddLocked lock direct_locking_effect(1) by (force simp: direct_locking_def)
next
  case (PcSubtractLocked asset m)
  with assms have "subtract_locked_funds asset m (pay w) = Inr (pay w')" by (auto simp: payroll_invoke_def)
  then show thesis using PcSubtractLocked lock direct_locking_effect(2) by (force simp: direct_locking_def)
next
  case (PcOutside ts cs)
  with assms have "pay w' = pay w" by (auto simp: payroll_invoke_def)
  then show thesis using frame by (simp add: same_accounts_def)
qed (use assms init prep fin canc batch frame in
  \<open>auto simp: payroll_invoke_def dest: deposit_pay request_emergency_pay approve_emergency_pay
    config_same_accounts draft_same_accounts role_same_accounts review_same_accounts hold_same_accounts\<close>)

lemma accounted_step:
  assumes "accounted (pay w)" "payroll_invoke c w = Inr w'"
  shows "accounted (pay w')"
proof -
  obtain e k where c: "c = (e, k)" by force
  from assms(2) [unfolded c] show ?thesis
  proof (cases rule: payroll_invoke_cases)
    case (init a t v cc tr ow)
    then show ?thesis using accounted_initialize [OF assms(1)] by blast
  next
    case (prep ps ms es x n d r)
    from prep(2) show ?thesis
    proof (rule prepare_effect)
      fix addrs p assume "prepared e x n (length ps) addrs p (pay w) (pay w')"
        "sum_amounts 0 ms = Inr x" "length ms = length ps" "0 < length ps"
      moreover from this have "0 < x" by (intro sum_amounts_pos [of ms]) auto
      ultimately show ?thesis using accounted_prepared [OF assms(1)] by blast
    qed
  next
    case (fin a r)
    from fin(2) show ?thesis
      by (rule finalize_effect) (rule accounted_closed [OF assms(1)], auto)
  next
    case (canc a r y)
    from canc(2) show ?thesis
      by (rule cancel_effect) (rule accounted_closed [OF assms(1)], auto)
  next
    case (batch ps ms es x n d r)
    from batch(2) show ?thesis
      by (rule batch_effect) (rule accounted_executed [OF assms(1)])
  next
    case (lock evs lf)
    with assms(1) show ?thesis
      by (simp add: accounted_def run_ids_used_def get_run_counter_def pending_payroll_run_count_def)
  next
    case frame
    then show ?thesis by (rule accounted_same [OF assms(1)])
  qed
qed

definition blank :: "payroll \<Rightarrow> bool" where
  "blank s \<longleftrightarrow> addresses s = None \<and> run_ids_used s = {} \<and> pending_run_count s = None \<and>
     locked_payroll_funds s = Map.empty"

lemma accounted_run:
  assumes "blank (pay w0)"
  shows "accounted (pay (run_calls payroll_invoke cs w0))"
proof (rule run_calls_invariant [where I = "\<lambda>w. accounted (pay w)"])
  from assms have "pending_runs (pay w0) = Map.empty" by (auto simp: blank_def run_ids_used_def)
  with assms show "accounted (pay w0)"
    by (simp add: accounted_def blank_def pending_payroll_run_count_def)
qed (rule accounted_step)

section \<open>Locked funds over histories\<close>

lemma funds_same:
  assumes "funds_locked s" "same_accounts s s'"
  shows "funds_locked s'"
proof -
  have "pending_total s' = pending_total s" "get_locked_funds asset s' = get_locked_funds asset s"
    "map_option ca_token (addresses s') = map_option ca_token (addresses s)" for asset
    using assms(2) by (simp_all add: same_accounts_def pending_total_def get_locked_funds_def)
  with assms(1) show ?thesis unfolding funds_locked_def by presburger
qed

lemma funds_initialize:
  assumes "accounted s" "funds_locked s" "initialize e a t v cc tr ow s = Inr s'"
  shows "funds_locked s'"
proof -
  from assms(3) have n: "addresses s = None" by (simp add: initialize_def)
  with assms(1) have "pending_runs s = Map.empty" by (auto simp: accounted_def run_ids_used_def)
  moreover from assms(3) have "pending_runs s' = pending_runs s" "locked_payroll_funds s' = locked_payroll_funds s"
    by (auto simp: initialize_def initialize_storage_version_def emits)
  ultimately show ?thesis
    using assms(2) n by (simp add: funds_locked_def pending_total_def get_locked_funds_def)
qed

lemma funds_prepared:
  assumes "accounted s" "funds_locked s" "prepared e x n count addrs p s s'"
  shows "funds_locked s'"
proof -
  note P = assms(3) [unfolded prepared_def]
  have "get_run_counter s + 1 \<notin> dom (pending_runs s)"
    using next_id_unused(2) [OF assms(1)] P by (auto simp: run_ids_used_def)
  then have "pending_total s' = pending_total s + x"
    using pending_total_insert [of s' s "get_run_counter s + 1" p] P assms(1) by (simp add: accounted_def)
  then show ?thesis using assms(2) P by (auto simp: funds_locked_def get_locked_funds_def)
qed

lemma funds_closed:
  assumes "accounted s" "funds_locked s" "closed_run r p addrs s s'"
  shows "funds_locked s'"
proof -
  note C = assms(3) [unfolded closed_run_def]
  have "pending_total s' = pending_total s - pp_total_amount p"
    using C assms(1) by (intro pending_total_remove) (auto simp: accounted_def)
  then show ?thesis using assms(2) C by (auto simp: funds_locked_def get_locked_funds_def)
qed

lemma funds_executed:
  assumes "funds_locked s" "executed e x n addrs run s s'"
  shows "funds_locked s'"
  using assms by (simp add: funds_locked_def executed_def pending_total_def get_locked_funds_def)

lemma funds_step:
  assumes "accounted (pay w)" "funds_locked (pay w)" "payroll_invoke (e, k) w = Inr w'" "\<not> direct_locking k"
  shows "funds_locked (pay w')"
  using assms(3)
proof (cases rule: payroll_invoke_cases)
  case (init a t v cc tr ow)
  then show ?thesis using funds_initialize [OF assms(1,2)] by blast
next
  case (prep ps ms es x n d r)
  from prep(2) show ?thesis by (rule prepare_effect) (rule funds_prepared [OF assms(1,2)])
next
  case (fin a r)
  from fin(2) show ?thesis by (rule finalize_effect) (rule funds_closed [OF assms(1,2)])
next
  case (canc a r y)
  from canc(2) show ?thesis by (rule cancel_effect) (rule funds_closed [OF assms(1,2)])
next
  case (batch ps ms es x n d r)
  from batch(2) show ?thesis by (rule batch_effect) (rule funds_executed [OF assms(2)])
next
  case (lock evs lf)
  with assms(4) show ?thesis by simp
next
  case frame
  then show ?thesis by (rule funds_same [OF assms(2)])
qed

lemma funds_run:
  assumes "blank (pay w0)" "\<And>e k. (e, k) \<in> set cs \<Longrightarrow> \<not> direct_locking k"
  shows "funds_locked (pay (run_calls payroll_invoke cs w0))"
proof -
  have "accounted (pay (run_calls payroll_invoke cs w0)) \<and> funds_locked (pay (run_calls payroll_invoke cs w0))"
  proof (rule run_calls_invariant_on [where I = "\<lambda>w. accounted (pay w) \<and> funds_locked (pay w)"])
    from assms(1) have "pending_runs (pay w0) = Map.empty" by (auto simp: blank_def run_ids_used_def)
    moreover have "accounted (pay w0)" using accounted_run [OF assms(1), of "[]"] by simp
    ultimately show "accounted (pay w0) \<and> funds_locked (pay w0)"
      using assms(1) by (simp add: funds_locked_def blank_def pending_total_def get_locked_funds_def)
  next
    fix c w w' assume c: "c \<in> set cs" "accounted (pay w) \<and> funds_locked (pay w)" "payroll_invoke c w = Inr w'"
    obtain e k where k: "c = (e, k)" by force
    then have "funds_locked (pay w')" using c funds_step assms(2) by blast
    then show "accounted (pay w') \<and> funds_locked (pay w')" using c(2,3) accounted_step by blast
  qed
  then show ?thesis ..
qed

end
