(* ===== verification/Payroll_Theorems.thy ===== *)
theory Payroll_Theorems
  imports Payroll_Invariants
begin

text \<open>
  Theorems about the payroll contract: accounting, nonces, the life
  of a run, payments, withdrawals, and the flaws that the model shows.
\<close>

section \<open>A concrete deployment\<close>

definition pay_env :: "address list \<Rightarrow> venv" where
  "pay_env as = \<lparr>timestamp = 1000, sequence = 10, auth = (\<lambda>a. a \<in> set as),
     current_contract = Address ''PAY'', sha256 = (\<lambda>b. take 32 (b @ zero32)), address_xdr = (\<lambda>_. []),
     symbol_xdr = (\<lambda>_. []), bytes_xdr = id, pause_managers = Map.empty,
     verifiers = [Address ''V'' \<mapsto> verifier_demo\<lparr>verification_key := Some
       \<lparr>vk_alpha = [], vk_beta = [], vk_gamma = [], vk_delta = [], vk_ic = [[0], [1], [2], [3]]\<rparr>\<rparr>]\<rparr>"

definition pay_blank :: payroll where
  "pay_blank = \<lparr>events = [], addresses = None, payroll_pause_manager = None, payroll_runs = Map.empty,
     pending_runs = Map.empty, treasury_owner_key = None, run_counter = None, run_drafts = Map.empty,
     run_draft_counter = None, pending_admin_rotation = None, pending_treasury_rotation = None,
     run_nonces = Map.empty, deposit_nonces = Map.empty, draft_commitments = Map.empty,
     emergency_request = None, company_balances = Map.empty, archived_runs = Map.empty,
     challenged_runs = Map.empty, active_draft_for_period = Map.empty, company_state = None,
     payroll_states = Map.empty, allowed_assets = Map.empty, supported_assets = None,
     pending_run_count = None, batch_checkpoints = Map.empty, authorized_reviewers = Map.empty,
     run_reviews = Map.empty, pending_admin_handover = None, locked_payroll_funds = Map.empty,
     consumed_quorums = Map.empty, compliance_holds = Map.empty, compliance_hold_counter = None,
     reservation_expiries = Map.empty, archive_markers = Map.empty,
     employer_nonce_sequences = Map.empty, evidence_pointers = Map.empty,
     evidence_pointer_index = Map.empty, storage_version = None, migration_readiness = None,
     cancelled_batches = Map.empty, batch_splits = Map.empty\<rparr>"

definition addrs_demo :: ContractAddresses where
  "addrs_demo = \<lparr>ca_admin = Address ''ADM'', ca_token = Address ''TOK'', ca_verifier = Address ''V'',
     ca_commitment = Address ''CC'', ca_treasury = Address ''T'', ca_treasury_owner = Address ''OWN''\<rparr>"

definition world_blank :: world where
  "world_blank = \<lparr>pay = pay_blank, tokens = [Address ''TOK'' \<mapsto> token_demo],
     commitment_contracts = [Address ''CC'' \<mapsto> sc_demo\<lparr>payroll_operator := Some (Address ''PAY'')\<rparr>]\<rparr>"

definition init_call :: "venv \<times> payroll_call" where
  "init_call = (pay_env [], PcInitialize (Address ''ADM'') (Address ''TOK'') (Address ''V'')
     (Address ''CC'') (Address ''T'') (Address ''OWN''))"

definition nonce_demo :: bytes where
  "nonce_demo = replicate 31 0 @ [1]"

definition prepare_call :: "venv \<times> payroll_call" where
  "prepare_call = (pay_env [Address ''ADM''], PcPrepare [[7]] [30] [Address ''A''] 30 nonce_demo None)"

lemma blank_demo: "blank (pay world_blank)"
  by (simp add: blank_def world_blank_def pay_blank_def run_ids_used_def)

definition world_prepared :: world where
  "world_prepared = run_calls payroll_invoke [init_call, prepare_call] world_blank"

definition pending_demo :: PendingPayrollRun where
  "pending_demo = \<lparr>pp_run_id = 1, pp_prepared_at = 1000, pp_admin = Address ''ADM'',
     pp_total_amount = 30, pp_employee_count = 1, pp_draft_hash = zero32, pp_nonce = nonce_demo\<rparr>"

lemmas prepare_eval = prepare_payroll_run_def require_company_active_def
  validate_storage_version_for_operation_def MAX_BATCH_def add_i128_def in_i128_def
  validate_nonce_monotonicity_def derive_run_id_def update_nonce_sequence_def add_u_def
  pending_payroll_run_count_def add_locked_funds_def checked_add_i128_def is_asset_allowed_def
  require_auth_def record_payroll_run_state_def Let_def

lemmas pay_eval = init_call_def prepare_call_def transact_def payroll_invoke_def on_pay_def keep_state_def
  initialize_def initialize_storage_version_def readiness_def emits world_blank_def pay_blank_def
  pay_env_def CURRENT_STORAGE_VERSION_def MIN_SUPPORTED_STORAGE_VERSION_def
  MAX_SUPPORTED_STORAGE_VERSION_def

lemma world_prepared_state:
  "pending_runs (pay world_prepared) = [1 \<mapsto> pending_demo]"
  "addresses (pay world_prepared) = Some addrs_demo"
  "run_nonces (pay world_prepared) = [nonce_demo \<mapsto> 1]"
  "payroll_runs (pay world_prepared) = Map.empty"
  "payroll_states (pay world_prepared) = [1 \<mapsto> Submitted]"
  "payroll_pause_manager (pay world_prepared) = None"
  "run_reviews (pay world_prepared) = Map.empty"
  "get_locked_funds (Address ''TOK'') (pay world_prepared) = 30"
  "pending_run_count (pay world_prepared) = Some 1"
  "employer_nonce_sequences (pay world_prepared) = [Address ''ADM'' \<mapsto>
     \<lparr>ns_current_sequence = 1, ns_last_accepted_at = 1000, ns_last_nonce = nonce_demo\<rparr>]"
  "treasury_owner_key (pay world_prepared) = Some (Address ''OWN'')"
  "pending_admin_handover (pay world_prepared) = None"
  "tokens world_prepared = [Address ''TOK'' \<mapsto> token_demo]"
  by (simp_all add: world_prepared_def prepare_eval pay_eval pending_demo_def addrs_demo_def get_locked_funds_def)

section \<open>Accounting\<close>

text \<open>C2. In every state that the contract reaches from deployment, the pending-run counter is
  the number of pending runs. As long as nobody has called \<open>add_locked_funds\<close> or
  \<open>subtract_locked_funds\<close> from outside, the funds locked for the payroll token are the sum of
  the amounts of the pending runs, and no other asset has locked funds.\<close>

theorem locked_funds_match_pending_runs:
  assumes "blank (pay w0)" "s = pay (run_calls payroll_invoke cs w0)"
  shows "unat (pending_payroll_run_count s) = card (dom (pending_runs s)) \<and>
    (has_active_payroll_run s \<longleftrightarrow> (\<exists>r. get_pending_run r s \<noteq> None)) \<and>
    (list_all (\<lambda>(e, c). \<not> direct_locking c) cs \<longrightarrow> (\<forall>addrs. addresses s = Some addrs \<longrightarrow>
      get_locked_funds (ca_token addrs) s =
        (\<Sum>r \<in> dom (pending_runs s). pp_total_amount (the (get_pending_run r s))) \<and>
      (\<forall>asset. asset \<noteq> ca_token addrs \<longrightarrow> get_locked_funds asset s = 0)))"
proof -
  have a: "accounted s" unfolding assms(2) by (rule accounted_run [OF assms(1)])
  then have c: "unat (pending_payroll_run_count s) = card (dom (pending_runs s))"
    and f: "finite (dom (pending_runs s))" by (simp_all add: accounted_def)
  have "has_active_payroll_run s \<longleftrightarrow> 0 < card (dom (pending_runs s))"
    using c by (simp add: has_active_payroll_run_def word_less_nat_alt)
  also have "\<dots> \<longleftrightarrow> (\<exists>r. get_pending_run r s \<noteq> None)"
    using f by (auto simp: card_gt_0_iff get_pending_run_def)
  finally have h: "has_active_payroll_run s \<longleftrightarrow> (\<exists>r. get_pending_run r s \<noteq> None)" .
  have "funds_locked s" if "list_all (\<lambda>(e, c). \<not> direct_locking c) cs"
    unfolding assms(2) using that by (intro funds_run [OF assms(1)]) (auto simp: list_all_iff)
  with c h show ?thesis by (simp add: funds_locked_def pending_total_def get_pending_run_def)
qed

theorem locked_funds_match_pending_runs_witness:
  "get_locked_funds (Address ''TOK'') (pay world_prepared) = 30 \<and>
   has_active_payroll_run (pay world_prepared)"
  using locked_funds_match_pending_runs [OF blank_demo arg_cong [OF world_prepared_def, of pay]]
  by (simp add: world_prepared_state get_pending_run_def addrs_demo_def pending_demo_def
      init_call_def prepare_call_def direct_locking_def)

section \<open>Handover while a run is pending\<close>

text \<open>The handover path lacks the lock that the rotations have: the pending admin of a handover takes over the admin
  role whether or not runs are pending.\<close>

lemma handover_ignores_configuration_lock:
  assumes "addresses s = Some addrs" "pending_admin_handover s = Some h" "payroll_pause_manager s = None"
    and "auth (e :: venv) (ah_pending_admin h)"
  shows "\<exists>s'. accept_admin_handover e (ah_pending_admin h) s = Inr s' \<and>
    addresses s' = Some (addrs\<lparr>ca_admin := ah_pending_admin h\<rparr>) \<and> pending_runs s' = pending_runs s"
  using assms by (auto simp: accept_admin_handover_def require_not_paused_def emits)

lemma handover_ignores_configuration_lock_witness:
  "\<exists>s s'. get_pending_run 1 s = Some pending_demo \<and>
    accept_admin_handover (pay_env [Address ''EVE'']) (Address ''EVE'') s = Inr s' \<and>
    addresses s' = Some (addrs_demo\<lparr>ca_admin := Address ''EVE''\<rparr>)"
proof -
  let ?s = "(pay world_prepared)\<lparr>pending_admin_handover := Some \<lparr>ah_current_admin = Address ''ADM'',
    ah_pending_admin = Address ''EVE'', ah_requested_at = 0\<rparr>\<rparr>"
  have "\<exists>s'. accept_admin_handover (pay_env [Address ''EVE'']) (Address ''EVE'') ?s = Inr s' \<and>
    addresses s' = Some (addrs_demo\<lparr>ca_admin := Address ''EVE''\<rparr>) \<and> pending_runs s' = pending_runs ?s"
    using handover_ignores_configuration_lock [of ?s addrs_demo
      "\<lparr>ah_current_admin = Address ''ADM'', ah_pending_admin = Address ''EVE'', ah_requested_at = 0\<rparr>"
      "pay_env [Address ''EVE'']"]
    by (simp add: world_prepared_state pay_env_def)
  moreover have "get_pending_run 1 ?s = Some pending_demo"
    by (simp add: get_pending_run_def world_prepared_state)
  ultimately show ?thesis by blast
qed

section \<open>Run nonces\<close>

lemma initialize_frame:
  assumes "initialize e a t v cc tr ow s = Inr s'"
  shows "addresses s = None" "run_nonces s' = run_nonces s" "pending_runs s' = pending_runs s"
    "payroll_runs s' = payroll_runs s" "payroll_states s' = payroll_states s"
    "employer_nonce_sequences s' = employer_nonce_sequences s"
  using assms by (auto simp: initialize_def initialize_storage_version_def emits)

lemma run_nonces_step:
  assumes "payroll_invoke c w = Inr w'" "run_nonces (pay w) n = Some r"
  shows "run_nonces (pay w') n = Some r"
proof -
  obtain e k where c: "c = (e, k)" by force
  from assms(1) [unfolded c] show ?thesis
  proof (cases rule: payroll_invoke_cases)
    case (init a t v cc tr ow)
    then show ?thesis using assms(2) initialize_frame by metis
  next
    case (prep ps ms es x n' d r')
    from prep(2) show ?thesis
      by (rule prepare_effect) (use assms(2) in \<open>auto simp: prepared_def\<close>)
  next
    case (fin a r')
    from fin(2) show ?thesis by (rule finalize_effect) (simp add: closed_run_def assms(2))
  next
    case (canc a r' y)
    from canc(2) show ?thesis by (rule cancel_effect) (simp add: closed_run_def assms(2))
  next
    case (batch ps ms es x n' d r')
    from batch(2) show ?thesis
      by (rule batch_effect) (use assms(2) in \<open>auto simp: executed_def\<close>)
  next
    case (lock evs lf)
    then show ?thesis using assms by simp
  next
    case frame
    then show ?thesis using assms(2) by (simp add: same_accounts_def)
  qed
qed

text \<open>C24. A nonce that a run has consumed stays bound to that run through every history, also
  after the run is cancelled, and neither \<open>prepare_payroll_run\<close> nor \<open>batch_process_payroll\<close>
  accepts it again.\<close>

theorem run_nonce_spent_forever:
  assumes "run_nonces (pay w) n = Some r" "w' = run_calls payroll_invoke cs w"
  shows "run_nonces (pay w') n = Some r \<and>
    (\<forall>e :: venv. \<forall>ps ms es x d t. prepare_payroll_run e ps ms es x n d (pay w') \<noteq> Inr t) \<and>
    (\<forall>e ps ms es x d t. batch_process_payroll e ps ms es x n d w' \<noteq> Inr t)"
proof -
  have k: "run_nonces (pay w') n = Some r" unfolding assms(2) using assms(1)
    by (rule run_calls_invariant [where I = "\<lambda>w. run_nonces (pay w) n = Some r", rotated])
      (rule run_nonces_step)
  have "prepare_payroll_run e ps ms es x n d (pay w') \<noteq> Inr t" for e :: venv and ps ms es x d t
  proof
    assume "prepare_payroll_run e ps ms es x n d (pay w') = Inr t"
    then have "prepare_payroll_run e ps ms es x n d (pay w') = Inr (fst t, snd t)" by simp
    then show False by (rule prepare_effect) (use k in \<open>simp add: prepared_def\<close>)
  qed
  moreover have "batch_process_payroll e ps ms es x n d w' \<noteq> Inr t" for e ps ms es x d t
  proof
    assume "batch_process_payroll e ps ms es x n d w' = Inr t"
    then have "batch_process_payroll e ps ms es x n d w' = Inr (fst t, snd t)" by simp
    then show False by (rule batch_effect) (use k in \<open>simp add: executed_def\<close>)
  qed
  ultimately show ?thesis using k by blast
qed

theorem run_nonce_spent_forever_witness:
  "\<forall>t. prepare_payroll_run (pay_env [Address ''ADM'']) [[7]] [30] [Address ''A''] 30 nonce_demo None
     (pay (run_calls payroll_invoke [(pay_env [Address ''ADM''], PcCancel (Address ''ADM'') 1 ''wrong_period'')] world_prepared))
     \<noteq> Inr t"
proof -
  have "run_nonces (pay world_prepared) nonce_demo = Some 1" by (simp add: world_prepared_state)
  from run_nonce_spent_forever [OF this refl] show ?thesis by blast
qed

section \<open>Order of the nonces of an employer\<close>

text \<open>The value of a byte string as a big-endian number.\<close>

definition be_value :: "bytes \<Rightarrow> int" where
  "be_value bs = foldl (\<lambda>v b. v * 256 + uint b) 0 bs"

lemma be_value_snoc: "be_value (bs @ [b]) = be_value bs * 256 + uint b"
  by (simp add: be_value_def)

lemma be_value_bounds: "0 \<le> be_value bs \<and> be_value bs < 256 ^ length bs"
proof (induction bs rule: rev_induct)
  case Nil
  then show ?case by (simp add: be_value_def)
next
  case (snoc b bs)
  have "0 \<le> uint b" "uint b < 256" using unsigned_less [of b, where ?'a = int] by simp_all
  with snoc.IH show ?case by (simp add: be_value_snoc)
qed

lemma push_or_value:
  fixes v :: u128 and b :: u8
  assumes "uint v < 2 ^ 120"
  shows "uint (push_bit 8 v OR ucast b) = uint v * 256 + uint b"
proof -
  have b: "0 \<le> uint b" "uint b < 256" using unsigned_less [of b, where ?'a = int] by simp_all
  have "uint (push_bit 8 v) = take_bit 128 (push_bit 8 (uint v))"
    using unsigned_push_bit_eq [where ?'a = int and ?'b = 128, of 8 v] by simp
  also have "\<dots> = uint v * 256"
    using assms by (simp add: take_bit_eq_mod push_bit_eq_mult)
  finally have "uint (push_bit 8 v) = uint v * 256" .
  moreover have "uint (ucast b :: u128) = uint b"
    using b by (simp add: unsigned_ucast_eq take_bit_eq_mod mod_pos_pos_trivial)
  moreover have "(uint v * 256) OR uint b = uint v * 256 + uint b"
  proof -
    have "push_bit 8 (uint v) OR take_bit 8 (uint b) = push_bit 8 (uint v) + take_bit 8 (uint b)"
      by (rule disjunctive_add [symmetric]) (auto simp: bit_push_bit_iff bit_take_bit_iff)
    then show ?thesis using b by (simp add: push_bit_eq_mult take_bit_eq_mod)
  qed
  ultimately show ?thesis by (simp add: uint_or)
qed

lemma fold_value:
  assumes "length bs \<le> 16"
  shows "uint (fold (\<lambda>b v. (push_bit 8 v :: u128) OR ucast b) bs 0) = be_value bs"
  using assms
proof (induction bs rule: rev_induct)
  case Nil
  then show ?case by (simp add: be_value_def)
next
  case (snoc b bs)
  have "be_value bs < 256 ^ length bs" using be_value_bounds by simp
  also have "(256 :: int) ^ length bs \<le> 256 ^ 15" using snoc.prems by (intro power_increasing) auto
  finally have "be_value bs < 2 ^ 120" by simp
  with snoc show ?case by (simp add: push_or_value be_value_snoc)
qed

lemma nonce_value: "uint (nonce_to_u256 n) = be_value (take 16 n)"
  unfolding nonce_to_u256_def by (rule fold_value) simp

definition last_nonce_value :: "payroll \<Rightarrow> address \<Rightarrow> int" where
  "last_nonce_value s a = (case employer_nonce_sequences s a of
     None \<Rightarrow> -1 | Some st \<Rightarrow> be_value (take 16 (ns_last_nonce st)))"

lemma monotonic_nonce_value:
  assumes "validate_nonce_monotonicity a n s = Inr u"
  shows "last_nonce_value s a < be_value (take 16 n)"
proof (cases "employer_nonce_sequences s a")
  case None
  then show ?thesis using be_value_bounds [of "take 16 n"] by (simp add: last_nonce_value_def)
next
  case (Some st)
  with assms have "\<not> nonce_to_u256 n \<le> nonce_to_u256 (ns_last_nonce st)"
    by (simp add: validate_nonce_monotonicity_def)
  then have "uint (nonce_to_u256 (ns_last_nonce st)) < uint (nonce_to_u256 n)"
    by (simp add: word_le_def not_le)
  with Some show ?thesis by (simp add: last_nonce_value_def nonce_value)
qed

lemma nonce_order_step:
  assumes "payroll_invoke c w = Inr w'"
  shows "employer_nonce_sequences (pay w') a = employer_nonce_sequences (pay w) a \<or>
    last_nonce_value (pay w) a < last_nonce_value (pay w') a"
proof -
  obtain e k where c: "c = (e, k)" by force
  from assms [unfolded c] show ?thesis
  proof (cases rule: payroll_invoke_cases)
    case (init a t v cc tr ow)
    then show ?thesis using initialize_frame by metis
  next
    case (prep ps ms es x n d r)
    from prep(2) show ?thesis
    proof (rule prepare_effect)
      fix addrs p st assume P: "prepared e x n (length ps) addrs p (pay w) (pay w')"
        and st: "employer_nonce_sequences (pay w') = (employer_nonce_sequences (pay w))(ca_admin addrs \<mapsto> st)"
          "ns_last_nonce st = n"
      from P have "last_nonce_value (pay w) (ca_admin addrs) < be_value (take 16 n)"
        unfolding prepared_def using monotonic_nonce_value by blast
      then show ?thesis using st by (cases "a = ca_admin addrs") (auto simp: last_nonce_value_def)
    qed
  next
    case (fin b r)
    from fin(2) show ?thesis by (rule finalize_effect) (simp add: closed_run_def)
  next
    case (canc b r y)
    from canc(2) show ?thesis by (rule cancel_effect) (simp add: closed_run_def)
  next
    case (batch ps ms es x n d r)
    from batch(2) show ?thesis
    proof (rule batch_effect)
      fix addrs run assume P: "executed e x n addrs run (pay w) (pay w')"
      then obtain st where st: "ns_last_nonce st = n"
        "employer_nonce_sequences (pay w') = (employer_nonce_sequences (pay w))(ca_admin addrs \<mapsto> st)"
        by (auto simp: executed_def)
      from P have "last_nonce_value (pay w) (ca_admin addrs) < be_value (take 16 n)"
        unfolding executed_def using monotonic_nonce_value by blast
      then show ?thesis using st by (cases "a = ca_admin addrs") (auto simp: last_nonce_value_def)
    qed
  next
    case (lock evs lf)
    then show ?thesis using assms by (simp add: last_nonce_value_def)
  next
    case frame
    then show ?thesis by (simp add: same_accounts_def)
  qed
qed

text \<open>Over every history, the nonce last accepted for an employer is replaced only by one
  whose first sixteen bytes are a strictly larger big-endian number.\<close>

lemma employer_nonces_increase:
  assumes "w' = run_calls payroll_invoke cs w"
  shows "employer_nonce_sequences (pay w') a = employer_nonce_sequences (pay w) a \<or>
    last_nonce_value (pay w) a < last_nonce_value (pay w') a"
  unfolding assms
proof (rule run_calls_relation [where R = "\<lambda>w w'. employer_nonce_sequences (pay w') a =
    employer_nonce_sequences (pay w) a \<or> last_nonce_value (pay w) a < last_nonce_value (pay w') a"])
  fix s t u
  assume "employer_nonce_sequences (pay t) a = employer_nonce_sequences (pay s) a \<or>
      last_nonce_value (pay s) a < last_nonce_value (pay t) a"
    "employer_nonce_sequences (pay u) a = employer_nonce_sequences (pay t) a \<or>
      last_nonce_value (pay t) a < last_nonce_value (pay u) a"
  then show "employer_nonce_sequences (pay u) a = employer_nonce_sequences (pay s) a \<or>
      last_nonce_value (pay s) a < last_nonce_value (pay u) a"
    by (auto simp: last_nonce_value_def)
qed (simp, rule nonce_order_step)

lemma employer_nonces_increase_witness:
  "last_nonce_value (pay world_blank) (Address ''ADM'') < last_nonce_value (pay world_prepared) (Address ''ADM'')"
  using employer_nonces_increase [OF world_prepared_def, of "Address ''ADM''"]
  by (simp add: world_prepared_state) (simp add: world_blank_def pay_blank_def)

text \<open>Only the first sixteen of the thirty-two bytes take part in the order: a fresh nonce
  that shares them with the last accepted one is rejected as stale, although it was never
  used.\<close>

lemma nonce_tail_ignored:
  assumes "employer_nonce_sequences s a = Some st" "take 16 n = take 16 (ns_last_nonce st)"
    "n \<noteq> ns_last_nonce st"
  shows "validate_nonce_monotonicity a n s =
    Inl (Panic ''Stale nonce detected: nonce must be strictly greater than the last accepted nonce for this employer'')"
  using assms by (simp add: validate_nonce_monotonicity_def nonce_to_u256_def)

lemma nonce_tail_ignored_witness:
  "validate_nonce_monotonicity (Address ''ADM'') (replicate 31 0 @ [2]) (pay world_prepared) =
    Inl (Panic ''Stale nonce detected: nonce must be strictly greater than the last accepted nonce for this employer'')"
proof -
  have e: "employer_nonce_sequences (pay world_prepared) (Address ''ADM'') = Some
     \<lparr>ns_current_sequence = 1, ns_last_accepted_at = 1000, ns_last_nonce = nonce_demo\<rparr>"
    by (simp add: world_prepared_state)
  show ?thesis by (rule nonce_tail_ignored [OF e]) (simp_all add: nonce_demo_def)
qed

section \<open>The life of a run\<close>

text \<open>C25. A successful \<open>prepare_payroll_run\<close> was authorized by the admin for between one and
  fifty distinct employees with positive amounts that add up to the authorized total; it
  stores that total under a fresh run id and locks exactly that amount.\<close>

theorem prepare_payroll_run_sound:
  assumes "prepare_payroll_run e ps ms es x n d s = Inr (r, s')"
  shows "\<exists>addrs p. addresses s = Some addrs \<and> auth e (ca_admin addrs) \<and>
    length ms = length ps \<and> length es = length ps \<and> 0 < length ps \<and> length ps \<le> 50 \<and>
    distinct es \<and> (\<forall>m \<in> set ms. 0 < m) \<and> x = sum_list ms \<and>
    get_run_counter s < r \<and> get_pending_run r s' = Some p \<and> pp_total_amount p = x \<and> pp_nonce p = n \<and>
    pp_employee_count p = of_nat (length ps) \<and>
    get_locked_funds (ca_token addrs) s' = get_locked_funds (ca_token addrs) s + x \<and>
    (\<forall>q. q \<noteq> r \<longrightarrow> get_pending_run q s' = get_pending_run q s)"
  using assms
proof (rule prepare_effect)
  fix addrs p
  assume P: "prepared e x n (length ps) addrs p s s'" and r: "r = get_run_counter s + 1"
    and *: "length ms = length ps" "length es = length ps" "0 < length ps" "length ps \<le> 50"
      "validate_no_duplicate_employees es = Inr ()" "sum_amounts 0 ms = Inr x"
  from P have "get_run_counter s < r"
    unfolding r by (simp add: prepared_def word_less_nat_alt unat_word_ariths)
  then show ?thesis
    using P * sum_amounts_ok [OF *(6)] unfolding r
    by (intro exI [of _ addrs] exI [of _ p])
      (simp add: prepared_def no_duplicates_ok get_pending_run_def get_locked_funds_def)
qed

theorem prepare_payroll_run_sound_witness:
  "\<exists>r s'. prepare_payroll_run (pay_env [Address ''ADM'']) [[7]] [30] [Address ''A''] 30 nonce_demo None
     (pay (run_calls payroll_invoke [init_call] world_blank)) = Inr (r, s') \<and>
     get_run_counter (pay (run_calls payroll_invoke [init_call] world_blank)) < r"
proof -
  obtain r s' where p: "prepare_payroll_run (pay_env [Address ''ADM'']) [[7]] [30] [Address ''A''] 30
     nonce_demo None (pay (run_calls payroll_invoke [init_call] world_blank)) = Inr (r, s')"
    by (simp add: prepare_eval pay_eval)
  from prepare_payroll_run_sound [OF p] p show ?thesis by blast
qed

text \<open>Cancelling a run right after preparing it restores the pending runs, their number and
  the locked funds; the nonce stays consumed and the cancellation is on record.\<close>

lemma cancel_undoes_prepare:
  assumes "blank (pay w0)" "s = pay (run_calls payroll_invoke cs w0)"
    and "prepare_payroll_run e ps ms es x n d s = Inr (r, s1)"
    and "cancel_payroll_run e' a r y s1 = Inr s2"
  shows "pending_runs s2 = pending_runs s \<and>
    pending_payroll_run_count s2 = pending_payroll_run_count s \<and>
    (\<forall>asset. get_locked_funds asset s2 = get_locked_funds asset s) \<and>
    run_nonces s2 n = Some r \<and> payroll_runs s2 = payroll_runs s \<and>
    (\<exists>c. get_cancelled_batch_status r s2 = Some c \<and> cb_total_amount c = x \<and> cb_cancelled_by c = a)"
  using assms(3)
proof (rule prepare_effect)
  fix addrs p
  assume P: "prepared e x n (length ps) addrs p s s1" and r: "r = get_run_counter s + 1"
  then have P: "addresses s = Some addrs" "addresses s1 = Some addrs" "pending_runs s1 = (pending_runs s)(r \<mapsto> p)"
    "pending_payroll_run_count s1 = pending_payroll_run_count s + 1"
    "unat (pending_payroll_run_count s) + 1 < 2 ^ 32" "pp_total_amount p = x"
    "locked_payroll_funds s1 = (locked_payroll_funds s)(ca_token addrs \<mapsto> get_locked_funds (ca_token addrs) s + x)"
    "run_nonces s1 = (run_nonces s)(n \<mapsto> r)" "payroll_runs s1 = payroll_runs s"
    "unat (get_run_counter s) + 1 < 2 ^ 64"
    by (simp_all add: prepared_def pending_payroll_run_count_def)
  have new: "pending_runs s r = None"
    using next_id_unused(2) [OF accounted_run [OF assms(1)], of cs] P(10)
    unfolding r assms(2) by (auto simp: run_ids_used_def)
  from assms(4) show ?thesis
  proof (rule cancel_effect)
    fix addrs' p'
    assume C: "closed_run r p' addrs' s1 s2" and rest: "payroll_runs s2 = payroll_runs s1"
      "cancelled_batches s2 = (cancelled_batches s1)(r \<mapsto> \<lparr>cb_run_id = r, cb_cancelled_at = timestamp e',
       cb_cancelled_by = a, cb_reason = y, cb_employee_count = pp_employee_count p',
       cb_total_amount = pp_total_amount p', cb_draft_hash = pp_draft_hash p', cb_is_cancelled = True\<rparr>)"
    from C P have eq: "p' = p" "addrs' = addrs" by (simp_all add: closed_run_def)
    have "saturating_sub (pending_payroll_run_count s + 1) 1 = pending_payroll_run_count s"
      using P(5) by (simp add: word_unat_eq_iff saturating_sub_unat unat_word_ariths)
    moreover have "(pending_runs s)(r := None) = pending_runs s" using new by auto
    ultimately show ?thesis
      using C P rest eq
      by (auto simp: closed_run_def pending_payroll_run_count_def get_locked_funds_def
          get_cancelled_batch_status_def)
  qed
qed

lemma cancel_undoes_prepare_witness:
  "\<exists>s2. cancel_payroll_run (pay_env [Address ''ADM'']) (Address ''ADM'') 1 ''typo'' (pay world_prepared) = Inr s2 \<and>
    get_locked_funds (Address ''TOK'') s2 = 0 \<and> run_nonces s2 nonce_demo = Some 1"
proof -
  let ?s = "pay (run_calls payroll_invoke [init_call] world_blank)"
  have p: "prepare_payroll_run (pay_env [Address ''ADM'']) [[7]] [30] [Address ''A''] 30
     nonce_demo None ?s = Inr (1, pay world_prepared)"
    by (simp add: world_prepared_def prepare_eval pay_eval)
  obtain s2 where c: "cancel_payroll_run (pay_env [Address ''ADM'']) (Address ''ADM'') 1 ''typo''
      (pay world_prepared) = Inr s2"
    by (simp add: cancel_payroll_run_def cancel_payroll_run_with_reason_def validate_run_id_def
        validate_symbol_not_empty_def admin_guard_def world_prepared_state addrs_demo_def require_auth_def
        pay_env_def subtract_locked_funds_def checked_sub_i128_def in_i128_def
        get_locked_funds_def [symmetric] pending_demo_def Let_def)
  have "get_locked_funds (Address ''TOK'') ?s = 0" by (simp add: pay_eval get_locked_funds_def)
  with cancel_undoes_prepare [OF blank_demo refl p c] c show ?thesis by auto
qed

text \<open>Finalizing turns a pending run into a permanent record with the same amount, employee
  count, draft hash and nonce, releases the locked amount, and moves no token at all.\<close>

lemma finalize_payroll_run_effect:
  assumes "payroll_invoke (e, PcFinalize a r) w = Inr w'"
  shows "tokens w' = tokens w \<and> commitment_contracts w' = commitment_contracts w \<and>
    (\<exists>p run addrs. get_pending_run r (pay w) = Some p \<and> get_pending_run r (pay w') = None \<and>
      payroll_runs (pay w) r = None \<and> payroll_runs (pay w') r = Some run \<and>
      pr_total_amount run = pp_total_amount p \<and> pr_employee_count run = pp_employee_count p \<and>
      pr_draft_hash run = pp_draft_hash p \<and> pr_nonce run = pp_nonce p \<and>
      addresses (pay w) = Some addrs \<and> a = ca_admin addrs \<and> auth e a \<and>
      get_locked_funds (ca_token addrs) (pay w') =
        get_locked_funds (ca_token addrs) (pay w) - pp_total_amount p \<and>
      get_payroll_run_state r (pay w') = Inr ReconciliationRequired)"
proof -
  from assms have f: "finalize_payroll_run e a r (pay w) = Inr (pay w')" and w': "tokens w' = tokens w"
    "commitment_contracts w' = commitment_contracts w"
    by (auto simp: payroll_invoke_def)
  from f show ?thesis
  proof (rule finalize_effect)
    fix addrs p
    assume "closed_run r p addrs (pay w) (pay w')" "a = ca_admin addrs" "auth e a"
      "payroll_runs (pay w') = (payroll_runs (pay w))(r \<mapsto> \<lparr>pr_run_id = r, pr_executed_at = timestamp e, pr_admin = a,
       pr_total_amount = pp_total_amount p, pr_employee_count = pp_employee_count p,
       pr_draft_hash = pp_draft_hash p, pr_nonce = pp_nonce p,
       pr_reconciliation_status = Unreconciled, pr_metadata_hash = zero32\<rparr>)"
      "payroll_states (pay w') = (payroll_states (pay w))(r \<mapsto> ReconciliationRequired)"
    with w' show ?thesis
      by (simp add: closed_run_def get_pending_run_def get_locked_funds_def get_payroll_run_state_def
          get_payroll_run_state_internal_def)
  qed
qed

lemma finalize_demo:
  obtains w' where "payroll_invoke (pay_env [Address ''ADM''], PcFinalize (Address ''ADM'') 1) world_prepared = Inr w'"
proof -
  have "\<exists>s. finalize_payroll_run (pay_env [Address ''ADM'']) (Address ''ADM'') 1 (pay world_prepared) = Inr s"
    by (simp add: finalize_payroll_run_def require_not_paused_def validate_run_id_def admin_guard_def
        world_prepared_state addrs_demo_def require_auth_def pay_env_def validate_approval_not_expired_def
        is_payroll_approval_expired_def get_run_review_def subtract_locked_funds_def checked_sub_i128_def
        in_i128_def get_locked_funds_def [symmetric] pending_demo_def Let_def)
  then show thesis using that by (auto simp: payroll_invoke_def on_pay_def)
qed

lemma finalize_payroll_run_effect_witness:
  "\<exists>w'. payroll_invoke (pay_env [Address ''ADM''], PcFinalize (Address ''ADM'') 1) world_prepared = Inr w' \<and>
    tokens w' = [Address ''TOK'' \<mapsto> token_demo]"
proof -
  obtain w' where f: "payroll_invoke (pay_env [Address ''ADM''], PcFinalize (Address ''ADM'') 1) world_prepared = Inr w'"
    by (rule finalize_demo)
  from finalize_payroll_run_effect [OF f] f show ?thesis by (simp add: world_prepared_state)
qed

end
