(* ===== verification/Payroll_Payments.thy ===== *)
theory Payroll_Payments
  imports Payroll_Theorems
begin

text \<open>
  Payments and the treasury: what a batch pays and locks, why a commitment contract serves
  only one batch, deposits, and emergency withdrawals beside locked funds. The token facts
  come from the interpretation \<open>tok\<close> of the token interface.
\<close>

section \<open>The payment loop\<close>

lemma token_transfer_effect:
  assumes "token_transfer at a b m w = Inr w'"
  obtains t t' where "tokens w at = Some t" "transfer a b m t = (Inr t' :: token outcome)"
    "w' = w\<lparr>tokens := (tokens w)(at \<mapsto> t')\<rparr>"
  using assms by (auto simp: token_transfer_def)

lemma pay_employee_effect:
  assumes "pay_employee e addrs i pf m emp w = Inr w'"
  obtains t t' cc cc' where "tokens w (ca_token addrs) = Some t"
    "transfer (ca_treasury addrs) emp m t = (Inr t' :: token outcome)"
    "tokens w' = (tokens w)(ca_token addrs \<mapsto> t')"
    "commitment_contracts w (ca_commitment addrs) = Some cc"
    "commitment_contracts w' = (commitment_contracts w)(ca_commitment addrs \<mapsto> cc')"
    "commitments cc emp \<noteq> None" "nullifiers cc (batch_nullifier i) = None" "commitment_lock cc emp = None"
    "nullifiers cc' = (nullifiers cc)(batch_nullifier i \<mapsto>
      \<lparr>nullifier = batch_nullifier i, used_at = timestamp e\<rparr>)"
    "commitment_lock cc' = (commitment_lock cc)(emp \<mapsto> True)"
  using assms
  by (auto simp: pay_employee_def record_nullifier_def lock_commitment_updates_def get_commitment_def
      emits Let_def elim!: token_transfer_effect)

lemma pay_employees_tokens:
  assumes "pay_employees e addrs i ps ms es w = Inr w'" "length ms = length ps" "length es = length ps"
    and "tokens w (ca_token addrs) = Some t"
  shows "\<exists>t'. tok.pay_all (ca_treasury addrs) (zip es ms) t = (Inr t' :: token outcome) \<and>
    tokens w' = (tokens w)(ca_token addrs \<mapsto> t')"
  using assms
proof (induction e addrs i ps ms es w arbitrary: t rule: pay_employees.induct)
  case (1 e addrs i pf proofs amount amounts employee employees w)
  from "1.prems"(1) obtain w1 where w1: "pay_employee e addrs i pf amount employee w = Inr w1"
    "pay_employees e addrs (i + 1) proofs amounts employees w1 = Inr w'" by auto
  from w1(1) show ?case
  proof (rule pay_employee_effect)
    fix t0 t1
    assume t0: "tokens w (ca_token addrs) = Some t0"
      and t1: "transfer (ca_treasury addrs) employee amount t0 = (Inr t1 :: token outcome)"
        "tokens w1 = (tokens w)(ca_token addrs \<mapsto> t1)"
    from t0 "1.prems"(4) have "t0 = t" by simp
    have "tokens w1 (ca_token addrs) = Some t1" using t1(2) by simp
    moreover have "length amounts = length proofs" "length employees = length proofs"
      using "1.prems"(2,3) by simp_all
    ultimately obtain t'
      where "tok.pay_all (ca_treasury addrs) (zip employees amounts) t1 = (Inr t' :: token outcome)"
        "tokens w' = (tokens w1)(ca_token addrs \<mapsto> t')" using "1.IH" [OF w1(1) w1(2)] by blast
    with \<open>t0 = t\<close> t1 show ?thesis by (intro exI [of _ t']) simp
  qed
qed auto

lemma pay_employees_commitments:
  assumes "pay_employees e addrs i ps ms es w = Inr w'" "length ms = length ps" "length es = length ps"
    and "commitment_contracts w (ca_commitment addrs) = Some cc"
  shows "\<exists>cc'. commitment_contracts w' (ca_commitment addrs) = Some cc' \<and>
    (\<forall>emp. is_commitment_locked emp cc' \<longleftrightarrow> is_commitment_locked emp cc \<or> emp \<in> set es) \<and>
    (\<forall>n. nullifiers cc n \<noteq> None \<longrightarrow> nullifiers cc' n \<noteq> None) \<and>
    (\<forall>j < length es. nullifiers cc' (batch_nullifier (i + j)) \<noteq> None) \<and>
    (es \<noteq> [] \<longrightarrow> nullifiers cc (batch_nullifier i) = None)"
  using assms
proof (induction e addrs i ps ms es w arbitrary: cc rule: pay_employees.induct)
  case (1 e addrs i pf proofs amount amounts employee employees w)
  from "1.prems"(1) obtain w1 where w1: "pay_employee e addrs i pf amount employee w = Inr w1"
    "pay_employees e addrs (i + 1) proofs amounts employees w1 = Inr w'" by auto
  from w1(1) show ?case
  proof (rule pay_employee_effect)
    fix c0 c1
    assume c0: "commitment_contracts w (ca_commitment addrs) = Some c0"
      and c1: "commitment_contracts w1 = (commitment_contracts w)(ca_commitment addrs \<mapsto> c1)"
      and n: "nullifiers c0 (batch_nullifier i) = None"
      "nullifiers c1 = (nullifiers c0)(batch_nullifier i \<mapsto> \<lparr>nullifier = batch_nullifier i, used_at = timestamp e\<rparr>)"
      "commitment_lock c1 = (commitment_lock c0)(employee \<mapsto> True)"
    from c0 "1.prems"(4) have cc: "c0 = cc" by simp
    from "1.IH" [OF w1(1) w1(2)] "1.prems"(2,3) c1 obtain cc'
      where I: "commitment_contracts w' (ca_commitment addrs) = Some cc'"
        "\<forall>emp. is_commitment_locked emp cc' \<longleftrightarrow> is_commitment_locked emp c1 \<or> emp \<in> set employees"
        "\<forall>k. nullifiers c1 k \<noteq> None \<longrightarrow> nullifiers cc' k \<noteq> None"
        "\<forall>j < length employees. nullifiers cc' (batch_nullifier (i + 1 + j)) \<noteq> None"
      by auto
    have "nullifiers cc' (batch_nullifier (i + j)) \<noteq> None" if "j < length (employee # employees)" for j
    proof (cases j)
      case 0
      then show ?thesis using I(3) n(2) by simp
    next
      case (Suc k)
      then show ?thesis using I(4) that by auto
    qed
    moreover have "is_commitment_locked emp cc' \<longleftrightarrow> is_commitment_locked emp cc \<or> emp \<in> set (employee # employees)" for emp
      using I(2) n(3) cc by (auto simp: is_commitment_locked_def)
    moreover have "\<forall>k. nullifiers cc k \<noteq> None \<longrightarrow> nullifiers cc' k \<noteq> None"
      using I(3) n(2) cc by auto
    ultimately show ?thesis using I(1) n(1) cc by blast
  qed
qed (auto simp: is_commitment_locked_def)

text \<open>C1. A successful batch pays each employee exactly the stated amount out of the treasury, lowers the
  treasury by exactly the authorized total, which is the sum of the amounts, and changes no other
  balance and no other token. Nothing keeps the treasury itself off the list of employees; an
  amount that is listed for it comes back to it, and that is all that changes.\<close>

theorem batch_pays_exactly:
  assumes "batch_process_payroll e ps ms es x n d w = Inr (r, w')" "addresses (pay w) = Some addrs"
  shows "\<exists>t t'. tokens w (ca_token addrs) = Some t \<and> tokens w' = (tokens w)(ca_token addrs \<mapsto> t') \<and>
    x = sum_list ms \<and> length es = length ms \<and> distinct es \<and>
    balance t' (ca_treasury addrs) = balance t (ca_treasury addrs) - x +
      sum_list (map snd (filter (\<lambda>p. fst p = ca_treasury addrs) (zip es ms))) \<and>
    (\<forall>i < length es. es ! i \<noteq> ca_treasury addrs \<longrightarrow> balance t' (es ! i) = balance t (es ! i) + ms ! i) \<and>
    (\<forall>c. c \<noteq> ca_treasury addrs \<and> c \<notin> set es \<longrightarrow> balance t' c = balance t c)"
  using assms(1)
proof (rule batch_effect)
  fix addrs' run s1 bal w1
  assume X: "executed e x n addrs' run (pay w) (pay w')"
    and len: "length ms = length ps" "length es = length ps"
    and dup: "validate_no_duplicate_employees es = Inr ()" and sum: "sum_amounts 0 ms = Inr x"
    and b: "token_balance (ca_token addrs') (ca_treasury addrs') w = Inr bal"
    and l: "pay_employees e addrs' 0 ps ms es (w\<lparr>pay := s1\<rparr>) = Inr w1" and w': "tokens w' = tokens w1"
  from X assms(2) have a: "addrs' = addrs" by (simp add: executed_def)
  from b a obtain t where t: "tokens w (ca_token addrs) = Some t" by (auto simp: token_balance_def)
  obtain t' where t': "tok.pay_all (ca_treasury addrs) (zip es ms) t = (Inr t' :: token outcome)"
    "tokens w1 = (tokens w)(ca_token addrs \<mapsto> t')"
    using pay_employees_tokens [OF l [unfolded a] len, of t] t by auto
  have len': "length es = length ms" using len by simp
  have fsts: "map fst (zip es ms) = es" "map snd (zip es ms) = ms" using len' by simp_all
  then have sets: "fst ` set (zip es ms) = set es" by (metis list.set_map)
  have dis: "distinct (map fst (zip es ms))" using dup fsts by (simp add: no_duplicates_ok)
  note bal = tok.pay_all_balance [OF t'(1)]
  have "balance t' (es ! i) = balance t (es ! i) + ms ! i" if "i < length es" "es ! i \<noteq> ca_treasury addrs" for i
    using bal [of "es ! i"] that paid_once [OF dis, of "es ! i" "ms ! i"] len' by (auto simp: set_zip)
  moreover have "balance t' c = balance t c" if "c \<noteq> ca_treasury addrs" "c \<notin> set es" for c
    using tok.pay_all_other [OF t'(1)] that sets by auto
  ultimately show ?thesis
    using t t'(2) w' len' sum_amounts_ok [OF sum] bal [of "ca_treasury addrs"] fsts dis by auto
qed

text \<open>C36. The nullifiers of a batch depend only on the position in the batch: after one
  successful batch, every later batch against the same commitment contract fails, whatever
  happens to that contract in between.\<close>

theorem second_batch_rejected:
  assumes "batch_process_payroll e ps ms es x n d w = Inr (r, w1)" "addresses (pay w) = Some addrs"
    and "commitment_contracts w1 (ca_commitment addrs) = Some cc"
    and "addresses (pay w2) = Some addrs2" "ca_commitment addrs2 = ca_commitment addrs"
    and "commitment_contracts w2 (ca_commitment addrs) = Some (run_calls sc_invoke cs cc)"
  shows "batch_process_payroll e' ps' ms' es' x' n' d' w2 \<noteq> Inr t"
proof
  assume "batch_process_payroll e' ps' ms' es' x' n' d' w2 = Inr t"
  then have second: "batch_process_payroll e' ps' ms' es' x' n' d' w2 = Inr (fst t, snd t)" by simp
  have "nullifiers cc (batch_nullifier 0) \<noteq> None"
    using assms(1)
  proof (rule batch_effect)
    fix addrs' run s1 bal w'
    assume X: "executed e x n addrs' run (pay w) (pay w1)" and len: "length ms = length ps" "length es = length ps" "0 < length ps"
      and l: "pay_employees e addrs' 0 ps ms es (w\<lparr>pay := s1\<rparr>) = Inr w'"
      and c: "commitment_contracts w1 = commitment_contracts w'"
    from X assms(2) have a: "addrs' = addrs" by (simp add: executed_def)
    from l len obtain c0 where c0: "commitment_contracts w (ca_commitment addrs) = Some c0"
      unfolding a by (cases ps; cases ms; cases es) (auto elim!: pay_employee_effect)
    from pay_employees_commitments [OF l [unfolded a] len(1,2), of c0] c0 assms(3) c len
    show ?thesis by auto
  qed
  then obtain v where "nullifiers cc (batch_nullifier 0) = Some v" by auto
  then have "nullifiers (run_calls sc_invoke cs cc) (batch_nullifier 0) = Some v"
    by (rule run_calls_invariant [where I = "\<lambda>s. nullifiers s (batch_nullifier 0) = Some v", rotated])
      (rule nullifiers_step)
  moreover from second have "nullifiers (run_calls sc_invoke cs cc) (batch_nullifier 0) = None"
  proof (rule batch_effect)
    fix addrs' run s1 bal w'
    assume X: "executed e' x' n' addrs' run (pay w2) (pay (snd t))" and len: "length ms' = length ps'" "length es' = length ps'" "0 < length ps'"
      and l: "pay_employees e' addrs' 0 ps' ms' es' (w2\<lparr>pay := s1\<rparr>) = Inr w'"
    from X assms(4) have a: "addrs' = addrs2" by (simp add: executed_def)
    have "es' \<noteq> []" using len by auto
    with pay_employees_commitments [OF l [unfolded a] len(1,2), of "run_calls sc_invoke cs cc"] assms(5,6)
    show ?thesis by auto
  qed
  ultimately show False by simp
qed

section \<open>Witnesses for batches\<close>

definition world_ready :: world where
  "world_ready = run_calls payroll_invoke [init_call] world_blank"

lemma world_ready_state:
  "addresses (pay world_ready) = Some addrs_demo"
  "commitment_contracts world_ready = [Address ''CC'' \<mapsto> sc_demo\<lparr>payroll_operator := Some (Address ''PAY'')\<rparr>]"
  "tokens world_ready = [Address ''TOK'' \<mapsto> token_demo]"
  by (simp_all add: world_ready_def pay_eval addrs_demo_def)

lemma sc_demo_nullifiers: "nullifiers sc_demo = Map.empty"
  by (simp add: sc_demo_def sc_eval)

lemmas batch_eval = batch_process_payroll_def pay_employee_def validate_non_zero_digest_def
  consume_draft_commitment_def require_not_paused_def token_balance_def token_transfer_def
  verify_payment_proof_def simulated_verify_groth16_def get_commitment_def record_nullifier_def
  lock_commitment_updates_def sc_guards transfer_def balance_def token_demo_def sub_i128_def
  invoked_by_self_def verifier_demo_def

lemma batch_demo:
  obtains w' where "batch_process_payroll (pay_env [Address ''ADM'']) [[7]] [30] [Address ''A''] 30 nonce_demo None
     world_ready = Inr (1, w')"
proof -
  have "last nonce_demo \<noteq> last zero32" by (simp add: nonce_demo_def zero32_def)
  then have "nonce_demo \<noteq> zero32" by auto
  then have "\<exists>w'. batch_process_payroll (pay_env [Address ''ADM'']) [[7]] [30] [Address ''A''] 30 nonce_demo None
     world_ready = Inr (1, w')"
    by (simp add: world_ready_def prepare_eval pay_eval batch_eval sc_demo_state sc_demo_nullifiers)
  then show thesis using that by blast
qed

theorem batch_pays_exactly_witness:
  "\<exists>w' t'. batch_process_payroll (pay_env [Address ''ADM'']) [[7]] [30] [Address ''A''] 30 nonce_demo None
     world_ready = Inr (1, w') \<and> tokens w' (Address ''TOK'') = Some t' \<and>
     balance t' (Address ''T'') = 70 \<and> balance t' (Address ''A'') = 35"
proof -
  obtain w' where b: "batch_process_payroll (pay_env [Address ''ADM'']) [[7]] [30] [Address ''A''] 30 nonce_demo None
     world_ready = Inr (1, w')" by (rule batch_demo)
  from batch_pays_exactly [OF b world_ready_state(1)] b show ?thesis
    by (auto simp: world_ready_state addrs_demo_def balance_def token_demo_def)
qed

theorem second_batch_rejected_witness:
  "\<exists>w'. batch_process_payroll (pay_env [Address ''ADM'']) [[7]] [30] [Address ''A''] 30 nonce_demo None
     world_ready = Inr (1, w') \<and>
     (\<forall>t. batch_process_payroll (pay_env [Address ''ADM'']) [[8]] [5] [Address ''B''] 5 (replicate 32 2) None w' \<noteq> Inr t)"
proof -
  obtain w' where b: "batch_process_payroll (pay_env [Address ''ADM'']) [[7]] [30] [Address ''A''] 30 nonce_demo None
     world_ready = Inr (1, w')" by (rule batch_demo)
  from b have a: "addresses (pay w') = Some addrs_demo"
    by (rule batch_effect) (simp add: executed_def world_ready_state)
  from b obtain cc where c: "commitment_contracts w' (ca_commitment addrs_demo) = Some cc"
  proof (rule batch_effect)
    fix addrs run s1 bal w1
    assume X: "executed (pay_env [Address ''ADM'']) 30 nonce_demo addrs run (pay world_ready) (pay w')"
      and l: "pay_employees (pay_env [Address ''ADM'']) addrs 0 [[7]] [30] [Address ''A''] (world_ready\<lparr>pay := s1\<rparr>) = Inr w1"
      and cw: "commitment_contracts w' = commitment_contracts w1"
    from X have "addrs = addrs_demo" by (simp add: executed_def world_ready_state)
    with l cw that show thesis
      using pay_employees_commitments [OF l] by (auto simp: world_ready_state addrs_demo_def)
  qed
  have c2: "commitment_contracts w' (ca_commitment addrs_demo) = Some (run_calls sc_invoke [] cc)"
    using c by simp
  from second_batch_rejected [OF b world_ready_state(1) c a refl c2] b show ?thesis by blast
qed

end
