(* ===== verification/Payroll_Frames.thy ===== *)
theory Payroll_Frames
  imports Payroll_Payments
begin

text \<open>
  Which call of the payroll contract changes which part of its storage: the roles, the
  drafts with the batch checkpoints, the consumed deposit ids, the consumed quorums and the
  records of executed runs.
\<close>

definition roles_of :: "payroll \<Rightarrow> _" where
  "roles_of s = (addresses s, treasury_owner_key s, pending_admin_rotation s,
     pending_treasury_rotation s, pending_admin_handover s)"

definition drafts_of :: "payroll \<Rightarrow> _" where
  "drafts_of s = (run_drafts s, run_draft_counter s, batch_checkpoints s)"

definition ids_of :: "payroll \<Rightarrow> _" where
  "ids_of s = (deposit_nonces s, consumed_quorums s)"

lemmas slice_defs = roles_of_def drafts_of_def ids_of_def

lemma config_frame:
  assumes "config_invoke e c s = Inr s'"
  shows "roles_of s' = roles_of s \<and> drafts_of s' = drafts_of s \<and> ids_of s' = ids_of s \<and>
    (emergency_request s' = emergency_request s \<or> emergency_request s' = None)"
proof (cases c)
  case (CfReconcile a r st)
  with assms have "update_reconciliation_status e a r st s = Inr s'" by (simp add: config_invoke_def)
  then show ?thesis by (rule reconcile_effect) (simp add: slice_defs record_payroll_run_state_def publish_def)
qed (use assms in \<open>auto simp: config_defs slice_defs record_payroll_run_state_def emits Let_def\<close>)

lemma draft_frame:
  assumes "draft_invoke e c s = Inr s'"
  shows "roles_of s' = roles_of s \<and> ids_of s' = ids_of s \<and> payroll_runs s' = payroll_runs s \<and>
    payroll_states s' = payroll_states s \<and> emergency_request s' = emergency_request s"
  using assms by (cases c) (auto simp: draft_defs slice_defs emits Let_def)

lemma role_frame:
  assumes "role_invoke e c s = Inr s'"
  shows "drafts_of s' = drafts_of s \<and> ids_of s' = ids_of s \<and> payroll_runs s' = payroll_runs s \<and>
    payroll_states s' = payroll_states s \<and> emergency_request s' = emergency_request s"
  using assms by (cases c) (auto simp: role_defs slice_defs emits Let_def)

lemma review_frame:
  assumes "review_invoke e c s = Inr s'"
  shows "roles_of s' = roles_of s \<and> drafts_of s' = drafts_of s \<and> deposit_nonces s' = deposit_nonces s \<and>
    payroll_runs s' = payroll_runs s \<and> payroll_states s' = payroll_states s \<and> emergency_request s' = emergency_request s"
  using assms by (cases c) (auto simp: review_defs slice_defs emits Let_def)

lemma hold_frame:
  assumes "hold_invoke e c s = Inr s'"
  shows "roles_of s' = roles_of s \<and> drafts_of s' = drafts_of s \<and> ids_of s' = ids_of s \<and>
    payroll_runs s' = payroll_runs s \<and> payroll_states s' = payroll_states s \<and> emergency_request s' = emergency_request s"
  using assms by (cases c) (auto simp: hold_defs slice_defs emits Let_def)

lemma prepare_frame:
  assumes "prepare_payroll_run e ps ms es x n d s = Inr (r, s')"
  shows "roles_of s' = roles_of s \<and> drafts_of s' = drafts_of s \<and> ids_of s' = ids_of s \<and>
    emergency_request s' = emergency_request s"
  using assms
  by (auto simp: prepare_payroll_run_def derive_run_id_def add_locked_funds_def slice_defs
      record_payroll_run_state_def emits Let_def elim!: update_nonce_effect split: option.splits)

lemma finalize_frame:
  assumes "finalize_payroll_run e a r s = Inr s'"
  shows "roles_of s' = roles_of s \<and> drafts_of s' = drafts_of s \<and> ids_of s' = ids_of s \<and>
    emergency_request s' = emergency_request s"
  using assms
  by (auto simp: finalize_payroll_run_def subtract_locked_funds_def slice_defs
      record_payroll_run_state_def emits Let_def)

lemma cancel_frame:
  assumes "cancel_payroll_run e a r y s = Inr s'"
  shows "roles_of s' = roles_of s \<and> drafts_of s' = drafts_of s \<and> ids_of s' = ids_of s \<and>
    emergency_request s' = emergency_request s"
  using assms
  by (auto simp: cancel_payroll_run_def cancel_payroll_run_with_reason_def subtract_locked_funds_def slice_defs
      record_payroll_run_state_def emits Let_def)

text \<open>All that a batch writes in the storage of the payroll contract.\<close>

lemma batch_storage:
  assumes "batch_process_payroll e ps ms es x n d w = Inr (r, w')"
  obtains dc rc rn ns runs states evs where
    "pay w' = (pay w)\<lparr>draft_commitments := dc, run_counter := rc, run_nonces := rn, employer_nonce_sequences := ns,
       payroll_runs := runs, payroll_states := states, events := evs\<rparr>"
proof -
  from assms obtain dh s0 addrs s1 w1 run where
    s0: "consume_draft_commitment d (pay w) = Inr (dh, s0)"
    and u: "update_nonce_sequence e (ca_admin addrs) n
      (s0\<lparr>run_counter := Some r, run_nonces := (run_nonces s0)(n \<mapsto> r)\<rparr>) = Inr s1"
    and l: "pay_employees e addrs 0 ps ms es (w\<lparr>pay := s1\<rparr>) = Inr w1"
    and w': "w' = w1\<lparr>pay := emit_run_executed r x (record_payroll_run_state r ReconciliationRequired
      ((pay w1)\<lparr>payroll_runs := (payroll_runs (pay w1))(r \<mapsto> run)\<rparr>))\<rparr>"
    by (auto simp: batch_process_payroll_def derive_run_id_def Let_def split: option.splits)
  from pay_employees_storage [OF l] obtain evs where "pay w1 = s1\<lparr>events := evs\<rparr>" by (auto simp: same_storage_def)
  moreover from consume_draft_effect [OF s0] obtain dc where "s0 = (pay w)\<lparr>draft_commitments := dc\<rparr>" ..
  ultimately show thesis using u w' that
    by (auto simp: record_payroll_run_state_def emits elim!: update_nonce_effect)
qed

lemma batch_frame:
  assumes "batch_process_payroll e ps ms es x n d w = Inr (r, w')"
  shows "roles_of (pay w') = roles_of (pay w) \<and> drafts_of (pay w') = drafts_of (pay w) \<and>
    ids_of (pay w') = ids_of (pay w) \<and> emergency_request (pay w') = emergency_request (pay w)"
  using assms by (rule batch_storage) (simp add: slice_defs)

lemma treasury_frames:
  "deposit e a m i w = Inr w' \<Longrightarrow> roles_of (pay w') = roles_of (pay w) \<and> drafts_of (pay w') = drafts_of (pay w) \<and>
     consumed_quorums (pay w') = consumed_quorums (pay w) \<and> emergency_request (pay w') = emergency_request (pay w)"
  "request_emergency_withdrawal e a m b w = Inr w' \<Longrightarrow> roles_of (pay w') = roles_of (pay w) \<and>
     drafts_of (pay w') = drafts_of (pay w) \<and> ids_of (pay w') = ids_of (pay w)"
  "approve_emergency_withdrawal e a w = Inr w' \<Longrightarrow> roles_of (pay w') = roles_of (pay w) \<and>
     drafts_of (pay w') = drafts_of (pay w) \<and> ids_of (pay w') = ids_of (pay w)"
  by (auto simp: deposit_def request_emergency_withdrawal_def approve_emergency_withdrawal_def slice_defs
      publish_def emits Let_def dest!: token_transfer_pay)

lemma lock_frame:
  "add_locked_funds asset m s = Inr s' \<Longrightarrow> roles_of s' = roles_of s \<and> drafts_of s' = drafts_of s \<and> ids_of s' = ids_of s \<and>
    emergency_request s' = emergency_request s"
  "subtract_locked_funds asset m s = Inr s' \<Longrightarrow> roles_of s' = roles_of s \<and> drafts_of s' = drafts_of s \<and> ids_of s' = ids_of s \<and>
    emergency_request s' = emergency_request s"
  using direct_locking_effect [of asset m s s'] by (auto simp: slice_defs)

section \<open>What a call may change\<close>

definition is_role_call :: "payroll_call \<Rightarrow> bool" where
  "is_role_call c = (case c of PcInitialize _ _ _ _ _ _ \<Rightarrow> True | PcRole _ \<Rightarrow> True | _ \<Rightarrow> False)"

lemma roles_frame:
  assumes "payroll_invoke (e, c) w = Inr w'" "\<not> is_role_call c"
  shows "roles_of (pay w') = roles_of (pay w)"
  using assms
  by (cases c)
    (auto simp: payroll_invoke_def is_role_call_def
      dest: config_frame draft_frame review_frame hold_frame prepare_frame finalize_frame cancel_frame
        batch_frame treasury_frames lock_frame)

lemma drafts_frame:
  assumes "payroll_invoke (e, c) w = Inr w'" "\<And>k. c \<noteq> PcDraft k"
  shows "drafts_of (pay w') = drafts_of (pay w)"
proof (cases c)
  case (PcInitialize a t v cc tr ow)
  with assms show ?thesis
    by (auto simp: payroll_invoke_def initialize_def initialize_storage_version_def slice_defs emits)
qed (use assms in \<open>auto simp: payroll_invoke_def
      dest: config_frame role_frame review_frame hold_frame prepare_frame finalize_frame cancel_frame
        batch_frame treasury_frames lock_frame\<close>)

lemma ids_frame:
  assumes "payroll_invoke (e, c) w = Inr w'" "\<And>k. c \<noteq> PcReview k" "\<And>a m i. c \<noteq> PcDeposit a m i"
  shows "ids_of (pay w') = ids_of (pay w)"
proof (cases c)
  case (PcInitialize a t v cc tr ow)
  with assms show ?thesis
    by (auto simp: payroll_invoke_def initialize_def initialize_storage_version_def slice_defs emits)
qed (use assms in \<open>auto simp: payroll_invoke_def
      dest: config_frame draft_frame role_frame hold_frame prepare_frame finalize_frame cancel_frame
        batch_frame treasury_frames lock_frame\<close>)

text \<open>An emergency request appears only through \<open>request_emergency_withdrawal\<close>.\<close>

lemma emergency_frame:
  assumes "payroll_invoke (e, c) w = Inr w'" "\<And>a m b. c \<noteq> PcRequestEmergency a m b"
  shows "emergency_request (pay w') = emergency_request (pay w) \<or> emergency_request (pay w') = None"
proof (cases c)
  case (PcInitialize a t v cc tr ow)
  with assms show ?thesis
    by (auto simp: payroll_invoke_def initialize_def initialize_storage_version_def emits)
next
  case (PcApproveEmergency a)
  with assms show ?thesis
    by (auto simp: payroll_invoke_def approve_emergency_withdrawal_def emits Let_def dest!: token_transfer_pay)
qed (use assms in \<open>auto simp: payroll_invoke_def
      dest: config_frame draft_frame role_frame review_frame hold_frame prepare_frame finalize_frame cancel_frame
        batch_frame treasury_frames lock_frame\<close>)

text \<open>The settings: the allowlist of assets and the company state.\<close>

definition settings_of :: "payroll \<Rightarrow> _" where
  "settings_of s = (allowed_assets s, supported_assets s, company_state s)"

definition is_setting_call :: "payroll_call \<Rightarrow> bool" where
  "is_setting_call c = (case c of PcInitialize _ _ _ _ _ _ \<Rightarrow> True | PcConfig (CfSetAsset _ _) \<Rightarrow> True
     | PcConfig (CfSetCompanyState _ _) \<Rightarrow> True | _ \<Rightarrow> False)"

lemma config_settings:
  assumes "config_invoke e c s = Inr s'" "\<not> is_setting_call (PcConfig c)"
  shows "settings_of s' = settings_of s"
proof (cases c)
  case (CfReconcile a r st)
  with assms have "update_reconciliation_status e a r st s = Inr s'" by (simp add: config_invoke_def)
  then show ?thesis by (rule reconcile_effect) (simp add: settings_of_def record_payroll_run_state_def publish_def)
qed (use assms in \<open>auto simp: config_defs settings_of_def is_setting_call_def record_payroll_run_state_def emits Let_def\<close>)

lemma settings_frame:
  assumes "payroll_invoke (e, c) w = Inr w'" "\<not> is_setting_call c"
  shows "settings_of (pay w') = settings_of (pay w)"
proof (cases c)
  case (PcPrepare ps ms es x n d)
  with assms show ?thesis
    by (auto simp: payroll_invoke_def prepare_payroll_run_def derive_run_id_def add_locked_funds_def settings_of_def
      record_payroll_run_state_def emits Let_def elim!: update_nonce_effect split: option.splits)
next
  case (PcFinalize a r)
  with assms show ?thesis
    by (auto simp: payroll_invoke_def finalize_payroll_run_def subtract_locked_funds_def settings_of_def
      record_payroll_run_state_def emits Let_def)
next
  case (PcCancel a r y)
  with assms show ?thesis
    by (auto simp: payroll_invoke_def cancel_payroll_run_def cancel_payroll_run_with_reason_def subtract_locked_funds_def
      settings_of_def record_payroll_run_state_def emits Let_def)
next
  case (PcBatch ps ms es x n d)
  with assms(1) obtain r where "batch_process_payroll e ps ms es x n d w = Inr (r, w')" by (auto simp: payroll_invoke_def)
  then show ?thesis by (rule batch_storage) (simp add: settings_of_def)
next
  case (PcConfig k)
  with assms show ?thesis by (auto simp: payroll_invoke_def dest: config_settings)
next
  case (PcDraft k)
  with assms show ?thesis by (cases k) (auto simp: payroll_invoke_def draft_defs settings_of_def emits Let_def)
next
  case (PcRole k)
  with assms show ?thesis by (cases k) (auto simp: payroll_invoke_def role_defs settings_of_def emits Let_def)
next
  case (PcReview k)
  with assms show ?thesis by (cases k) (auto simp: payroll_invoke_def review_defs settings_of_def emits Let_def)
next
  case (PcHold k)
  with assms show ?thesis by (cases k) (auto simp: payroll_invoke_def hold_defs settings_of_def emits Let_def)
next
  case (PcAddLocked asset m)
  with assms show ?thesis by (auto simp: payroll_invoke_def settings_of_def dest!: direct_locking_effect)
next
  case (PcSubtractLocked asset m)
  with assms show ?thesis by (auto simp: payroll_invoke_def settings_of_def dest!: direct_locking_effect)
qed (use assms in \<open>auto simp: payroll_invoke_def is_setting_call_def deposit_def request_emergency_withdrawal_def
    approve_emergency_withdrawal_def settings_of_def publish_def emits Let_def dest!: token_transfer_pay\<close>)

lemma request_emergency_effect:
  assumes "request_emergency_withdrawal e ow m b w = Inr w'"
  shows "auth e ow" "treasury_owner_key (pay w) = Some ow" "0 < m"
    "emergency_request (pay w') = Some \<lparr>ew_amount = m, ew_recipient = b, ew_requested_at = timestamp e, ew_approved = False\<rparr>"
  using assms by (auto simp: request_emergency_withdrawal_def emits)

end
