(* ===== verification/Payroll_Lifecycle.thy ===== *)
theory Payroll_Lifecycle
  imports Payroll_Frames
begin

text \<open>
  The life of a run as an abstract transition system, the refinement of that system by the
  payroll contract, and the finality of terminal states.
\<close>

section \<open>The abstract life of a run\<close>

text \<open>A phase carries the amount, the number of employees and the nonce of the run.\<close>

datatype run_phase = Unknown | Prepared i128 u32 bytes | Recorded i128 u32 bytes | Dropped

inductive phase_step :: "run_phase \<Rightarrow> run_phase \<Rightarrow> bool" where
  prepare: "phase_step Unknown (Prepared m k n)"
| execute: "phase_step Unknown (Recorded m k n)"
| finalize: "phase_step (Prepared m k n) (Recorded m k n)"
| cancel: "phase_step (Prepared m k n) Dropped"

inductive_simps phase_step_simps [simp]:
  "phase_step (Recorded m k n) p"
  "phase_step Dropped p"

inductive_cases phase_step_Prepared: "phase_step (Prepared m k n) p"

lemma recorded_final: "phase_step\<^sup>*\<^sup>* p q \<Longrightarrow> p = Recorded m k n \<Longrightarrow> q = Recorded m k n"
  by (induction rule: rtranclp_induct) auto

lemma dropped_final: "phase_step\<^sup>*\<^sup>* p q \<Longrightarrow> p = Dropped \<Longrightarrow> q = Dropped"
  by (induction rule: rtranclp_induct) auto

lemma prepared_outcomes:
  "phase_step\<^sup>*\<^sup>* p q \<Longrightarrow> p = Prepared m k n \<Longrightarrow> q = Prepared m k n \<or> q = Recorded m k n \<or> q = Dropped"
  by (induction rule: rtranclp_induct) (auto elim: phase_step_Prepared)

section \<open>Abstraction\<close>

definition run_phase :: "u64 \<Rightarrow> payroll \<Rightarrow> run_phase" where
  "run_phase r s = (case get_pending_run r s of
     Some p \<Rightarrow> Prepared (pp_total_amount p) (pp_employee_count p) (pp_nonce p)
   | None \<Rightarrow> (case payroll_runs s r of
       Some run \<Rightarrow> Recorded (pr_total_amount run) (pr_employee_count run) (pr_nonce run)
     | None \<Rightarrow> (if r \<in> ran (run_nonces s) then Dropped else Unknown)))"

definition run_core :: "PayrollRun \<Rightarrow> i128 \<times> u32 \<times> bytes \<times> address \<times> u64" where
  "run_core run = (pr_total_amount run, pr_employee_count run, pr_nonce run, pr_admin run, pr_executed_at run)"

definition is_run_call :: "payroll_call \<Rightarrow> bool" where
  "is_run_call c = (case c of PcPrepare _ _ _ _ _ _ \<Rightarrow> True | PcFinalize _ _ \<Rightarrow> True | PcCancel _ _ _ \<Rightarrow> True
     | PcBatch _ _ _ _ _ _ \<Rightarrow> True | _ \<Rightarrow> False)"

lemma config_cores:
  assumes "config_invoke e c s = Inr s'"
  shows "map_option run_core (payroll_runs s' r) = map_option run_core (payroll_runs s r)"
proof (cases c)
  case (CfReconcile a q st)
  with assms have "update_reconciliation_status e a q st s = Inr s'" by (simp add: config_invoke_def)
  then show ?thesis
    by (rule reconcile_effect) (simp add: run_core_def record_payroll_run_state_def publish_def)
qed (use assms in \<open>auto simp: config_defs run_core_def record_payroll_run_state_def emits Let_def\<close>)

lemma cores_frame:
  assumes "payroll_invoke (e, c) w = Inr w'" "\<not> is_run_call c"
  shows "map_option run_core (payroll_runs (pay w') r) = map_option run_core (payroll_runs (pay w) r)"
proof (cases c)
  case (PcConfig k)
  with assms show ?thesis by (auto simp: payroll_invoke_def dest: config_cores)
next
  case (PcAddLocked asset m)
  with assms show ?thesis by (auto simp: payroll_invoke_def dest!: direct_locking_effect)
next
  case (PcSubtractLocked asset m)
  with assms show ?thesis by (auto simp: payroll_invoke_def dest!: direct_locking_effect)
qed (use assms in \<open>auto simp: payroll_invoke_def is_run_call_def
      dest: initialize_frame draft_frame role_frame review_frame hold_frame
        deposit_pay request_emergency_pay approve_emergency_pay\<close>)

lemma accounts_frame:
  assumes "payroll_invoke (e, c) w = Inr w'" "\<not> is_run_call c"
  shows "pending_runs (pay w') = pending_runs (pay w) \<and> run_nonces (pay w') = run_nonces (pay w)"
  using assms(1)
proof (cases rule: payroll_invoke_cases)
  case (init a t v cc tr ow)
  then show ?thesis using initialize_frame(2,3) by blast
qed (use assms(2) in \<open>auto simp: is_run_call_def same_accounts_def\<close>)

lemma phase_cong:
  assumes "pending_runs s' r = pending_runs s r"
    and "map_option run_core (payroll_runs s' r) = map_option run_core (payroll_runs s r)"
    and "r \<in> ran (run_nonces s') \<longleftrightarrow> r \<in> ran (run_nonces s)"
  shows "run_phase r s' = run_phase r s"
  using assms
  by (cases "payroll_runs s r"; cases "payroll_runs s' r")
    (auto simp: run_phase_def get_pending_run_def run_core_def split: option.splits)

lemma phase_other_call:
  assumes "payroll_invoke (e, c) w = Inr w'" "\<not> is_run_call c"
  shows "run_phase r (pay w') = run_phase r (pay w)"
proof (rule phase_cong [OF _ cores_frame [OF assms]])
  show "pending_runs (pay w') r = pending_runs (pay w) r"
    "r \<in> ran (run_nonces (pay w')) \<longleftrightarrow> r \<in> ran (run_nonces (pay w))"
    using accounts_frame [OF assms] by simp_all
qed

lemma fresh_phase:
  assumes "accounted s" "unat (get_run_counter s) + 1 < 2 ^ 64"
  shows "run_phase (get_run_counter s + 1) s = Unknown"
  using next_id_unused(2) [OF assms]
  by (auto simp: run_ids_used_def run_phase_def get_pending_run_def domIff split: option.splits)

lemma ran_fresh: "m n = None \<Longrightarrow> ran (m(n \<mapsto> q)) = insert q (ran m)"
  by (rule ran_map_upd) 

lemma phase_prepared:
  assumes "accounted s" "prepared e x n count addrs p s s'"
  shows "run_phase r s' = run_phase r s \<or> phase_step (run_phase r s) (run_phase r s')"
proof (cases "r = get_run_counter s + 1")
  case True
  note P = assms(2) [unfolded prepared_def]
  have "run_phase r s = Unknown" using fresh_phase [OF assms(1)] P True by simp
  moreover have "run_phase r s' = Prepared x (of_nat count) n"
    using P True by (simp add: run_phase_def get_pending_run_def)
  ultimately show ?thesis by (simp add: phase_step.prepare)
next
  case False
  then have "run_phase r s' = run_phase r s"
    using assms(2) by (intro phase_cong) (auto simp: prepared_def ran_fresh)
  then show ?thesis ..
qed

lemma phase_executed:
  assumes "accounted s" "executed e x n addrs run s s'"
  shows "run_phase r s' = run_phase r s \<or> phase_step (run_phase r s) (run_phase r s')"
proof (cases "r = get_run_counter s + 1")
  case True
  note P = assms(2) [unfolded executed_def]
  have u: "r \<notin> run_ids_used s" using next_id_unused(2) [OF assms(1)] P True by simp
  have "run_phase r s = Unknown" using fresh_phase [OF assms(1)] P True by simp
  moreover have "run_phase r s' = Recorded x (pr_employee_count run) n"
    using P True u by (simp add: run_phase_def get_pending_run_def run_ids_used_def domIff)
  ultimately show ?thesis by (simp add: phase_step.execute)
next
  case False
  then have "run_phase r s' = run_phase r s"
    using assms(2) by (intro phase_cong) (auto simp: executed_def ran_fresh)
  then show ?thesis ..
qed

lemma phase_closed_other:
  assumes "closed_run q p addrs s s'" "r \<noteq> q"
    and "payroll_runs s' r = payroll_runs s r"
  shows "run_phase r s' = run_phase r s"
  using assms by (intro phase_cong) (auto simp: closed_run_def)

lemma phase_finalize:
  assumes "finalize_payroll_run e a q s = Inr s'"
  shows "run_phase r s' = run_phase r s \<or> phase_step (run_phase r s) (run_phase r s')"
  using assms
proof (rule finalize_effect)
  fix addrs p
  assume C: "closed_run q p addrs s s'" and R: "payroll_runs s' = (payroll_runs s)(q \<mapsto>
       \<lparr>pr_run_id = q, pr_executed_at = timestamp e, pr_admin = a,
       pr_total_amount = pp_total_amount p, pr_employee_count = pp_employee_count p,
       pr_draft_hash = pp_draft_hash p, pr_nonce = pp_nonce p,
       pr_reconciliation_status = Unreconciled, pr_metadata_hash = zero32\<rparr>)"
  show ?thesis
  proof (cases "r = q")
    case True
    with C R show ?thesis
      by (simp add: run_phase_def get_pending_run_def closed_run_def phase_step.finalize)
  next
    case False
    then show ?thesis using phase_closed_other [OF C] R by simp
  qed
qed

lemma phase_cancel:
  assumes "accounted s" "cancel_payroll_run e a q y s = Inr s'"
  shows "run_phase r s' = run_phase r s \<or> phase_step (run_phase r s) (run_phase r s')"
  using assms(2)
proof (rule cancel_effect)
  fix addrs p
  assume C: "closed_run q p addrs s s'" and R: "payroll_runs s' = payroll_runs s"
  show ?thesis
  proof (cases "r = q")
    case True
    from C assms(1) have "run_nonces s (pp_nonce p) = Some q" by (simp add: closed_run_def accounted_def)
    then have "q \<in> ran (run_nonces s)" by (rule ranI)
    with C R True show ?thesis
      by (simp add: run_phase_def get_pending_run_def closed_run_def phase_step.cancel)
  next
    case False
    then show ?thesis using phase_closed_other [OF C] R by simp
  qed
qed

lemma phase_refines:
  assumes "accounted (pay w)" "payroll_invoke (e, c) w = Inr w'"
  shows "run_phase r (pay w') = run_phase r (pay w) \<or> phase_step (run_phase r (pay w)) (run_phase r (pay w'))"
proof (cases c)
  case (PcPrepare ps ms es x n d)
  with assms(2) obtain q where "prepare_payroll_run e ps ms es x n d (pay w) = Inr (q, pay w')"
    by (auto simp: payroll_invoke_def)
  then show ?thesis by (rule prepare_effect) (rule phase_prepared [OF assms(1)])
next
  case (PcFinalize a q)
  with assms(2) show ?thesis by (intro phase_finalize) (auto simp: payroll_invoke_def)
next
  case (PcCancel a q y)
  with assms(2) show ?thesis by (intro phase_cancel [OF assms(1)]) (auto simp: payroll_invoke_def)
next
  case (PcBatch ps ms es x n d)
  with assms(2) obtain q where "batch_process_payroll e ps ms es x n d w = Inr (q, w')"
    by (auto simp: payroll_invoke_def)
  then show ?thesis by (rule batch_effect) (rule phase_executed [OF assms(1)])
qed (use phase_other_call [OF assms(2)] in \<open>simp_all add: is_run_call_def\<close>)

text \<open>C4. Seen through \<open>run_phase\<close>, every history of the contract moves every run only along the
  abstract life: unknown, then prepared and afterwards recorded or dropped, or recorded at
  once by a batch. The amount, the number of employees and the nonce never change on the
  way, and a recorded or a dropped run stays what it is.\<close>

theorem run_life_refines:
  assumes "blank (pay w0)" "w = run_calls payroll_invoke cs w0" "w' = run_calls payroll_invoke cs' w"
  shows "phase_step\<^sup>*\<^sup>* (run_phase r (pay w)) (run_phase r (pay w')) \<and>
    (run_phase r (pay w) = Recorded m k n \<longrightarrow> run_phase r (pay w') = Recorded m k n) \<and>
    (run_phase r (pay w) = Dropped \<longrightarrow> run_phase r (pay w') = Dropped) \<and>
    (run_phase r (pay w) = Prepared m k n \<longrightarrow>
      run_phase r (pay w') \<in> {Prepared m k n, Recorded m k n, Dropped})"
proof -
  have "accounted (pay w') \<and> phase_step\<^sup>*\<^sup>* (run_phase r (pay w)) (run_phase r (pay w'))"
    unfolding assms(3)
  proof (rule run_calls_invariant [where I = "\<lambda>v. accounted (pay v) \<and>
      phase_step\<^sup>*\<^sup>* (run_phase r (pay w)) (run_phase r (pay v))"])
    show "accounted (pay w) \<and> phase_step\<^sup>*\<^sup>* (run_phase r (pay w)) (run_phase r (pay w))"
      using accounted_run [OF assms(1)] assms(2) by simp
  next
    fix c v v'
    assume I: "accounted (pay v) \<and> phase_step\<^sup>*\<^sup>* (run_phase r (pay w)) (run_phase r (pay v))"
      and s: "payroll_invoke c v = Inr v'"
    obtain e k where "c = (e, k)" by force
    with phase_refines [of v e k v' r] I s show "accounted (pay v') \<and>
        phase_step\<^sup>*\<^sup>* (run_phase r (pay w)) (run_phase r (pay v'))"
      using accounted_step [of v c v'] by (auto intro: rtranclp.rtrancl_into_rtrancl)
  qed
  then have p: "phase_step\<^sup>*\<^sup>* (run_phase r (pay w)) (run_phase r (pay w'))" ..
  then show ?thesis using recorded_final [OF p] dropped_final [OF p] prepared_outcomes [OF p] by auto
qed

theorem run_life_refines_witness:
  "run_phase 1 (pay world_prepared) = Prepared 30 1 nonce_demo \<and>
   run_phase 1 (pay (run_calls payroll_invoke [(pay_env [Address ''ADM''], PcFinalize (Address ''ADM'') 1)] world_prepared))
     \<in> {Prepared 30 1 nonce_demo, Recorded 30 1 nonce_demo, Dropped}"
proof -
  have "run_phase 1 (pay world_prepared) = Prepared 30 1 nonce_demo"
    by (simp add: run_phase_def get_pending_run_def world_prepared_state pending_demo_def)
  then show ?thesis
    using run_life_refines [OF blank_demo world_prepared_def refl] by blast
qed

section \<open>Terminal states\<close>

lemma state_cong:
  assumes "payroll_states s' r = payroll_states s r"
    and "map_option pr_reconciliation_status (payroll_runs s' r) =
      map_option pr_reconciliation_status (payroll_runs s r)"
    and "pending_runs s' r = pending_runs s r"
  shows "get_payroll_run_state r s' = get_payroll_run_state r s"
  using assms
  by (cases "payroll_runs s r"; cases "payroll_runs s' r")
    (auto simp: get_payroll_run_state_def get_payroll_run_state_internal_def split: option.splits)

lemma terminal_blocks:
  assumes "get_payroll_run_state r s = Inr st" "is_payroll_state_terminal st"
  shows "transition_payroll_run_state e a r nxt s \<noteq> Inr s'" "update_reconciliation_status e a r rs s \<noteq> Inr s'"
  using assms
  by (auto simp: get_payroll_run_state_def transition_payroll_run_state_def update_reconciliation_status_def
      is_payroll_state_terminal_def is_terminal_payroll_state_internal_def Let_def
      is_allowed_payroll_state_transition_internal_def split: ReconciliationStatus.splits)

lemma config_terminal:
  assumes "config_invoke e c s = Inr s'" "get_payroll_run_state r s = Inr st" "is_payroll_state_terminal st"
  shows "get_payroll_run_state r s' = Inr st"
proof -
  note blocked = terminal_blocks [OF assms(2,3)]
  have "get_payroll_run_state r s' = get_payroll_run_state r s"
  proof (cases c)
    case (CfReconcile a q rs)
    with assms(1) have u: "update_reconciliation_status e a q rs s = Inr s'" by (simp add: config_invoke_def)
    with blocked(2) have "q \<noteq> r" by auto
    with u show ?thesis
      by (intro state_cong; elim reconcile_effect)
        (simp_all add: record_payroll_run_state_def publish_def)
  next
    case (CfTransition a q nxt)
    with assms(1) have u: "transition_payroll_run_state e a q nxt s = Inr s'" by (simp add: config_invoke_def)
    with blocked(1) have "q \<noteq> r" by auto
    with u show ?thesis
      by (intro state_cong) (auto simp: transition_payroll_run_state_def record_payroll_run_state_def publish_def)
  qed (use assms(1) in \<open>auto simp: config_defs emits Let_def intro!: state_cong\<close>)
  then show ?thesis using assms(2) by simp
qed

lemma other_state:
  assumes "payroll_invoke (e, c) w = Inr w'" "\<not> is_run_call c" "\<And>k. c \<noteq> PcConfig k"
  shows "get_payroll_run_state r (pay w') = get_payroll_run_state r (pay w)"
proof (rule state_cong)
  have "payroll_states (pay w') = payroll_states (pay w) \<and> payroll_runs (pay w') = payroll_runs (pay w)"
  proof (cases c)
    case (PcInitialize a t v cc tr ow)
    with assms(1) show ?thesis by (auto simp: payroll_invoke_def intro: initialize_frame(4,5))
  next
    case (PcAddLocked asset m)
    with assms show ?thesis by (auto simp: payroll_invoke_def dest!: direct_locking_effect)
  next
    case (PcSubtractLocked asset m)
    with assms show ?thesis by (auto simp: payroll_invoke_def dest!: direct_locking_effect)
  qed (use assms in \<open>auto simp: payroll_invoke_def is_run_call_def
      dest: draft_frame role_frame review_frame hold_frame
        deposit_pay request_emergency_pay approve_emergency_pay\<close>)
  then show "payroll_states (pay w') r = payroll_states (pay w) r"
    "map_option pr_reconciliation_status (payroll_runs (pay w') r) =
      map_option pr_reconciliation_status (payroll_runs (pay w) r)" by simp_all
  show "pending_runs (pay w') r = pending_runs (pay w) r"
    using accounts_frame [OF assms(1,2)] by simp
qed

lemma run_call_state:
  assumes "accounted (pay w)" "payroll_invoke (e, c) w = Inr w'" "is_run_call c"
    and "r \<in> run_ids_used (pay w)" "get_pending_run r (pay w) = None"
  shows "get_payroll_run_state r (pay w') = get_payroll_run_state r (pay w)"
proof (cases c)
  case (PcPrepare ps ms es x n d)
  with assms(2) obtain q where "prepare_payroll_run e ps ms es x n d (pay w) = Inr (q, pay w')"
    by (auto simp: payroll_invoke_def)
  then show ?thesis
  proof (rule prepare_effect)
    fix addrs p assume P: "prepared e x n (length ps) addrs p (pay w) (pay w')"
    with next_id_unused(2) [OF assms(1)] assms(4) have "r \<noteq> get_run_counter (pay w) + 1"
      by (auto simp: prepared_def)
    with P show ?thesis by (intro state_cong) (simp_all add: prepared_def)
  qed
next
  case (PcFinalize a q)
  with assms(2) have "finalize_payroll_run e a q (pay w) = Inr (pay w')" by (auto simp: payroll_invoke_def)
  then show ?thesis
    by (rule finalize_effect, intro state_cong)
      (use assms(5) in \<open>auto simp: closed_run_def get_pending_run_def\<close>)
next
  case (PcCancel a q y)
  with assms(2) have "cancel_payroll_run e a q y (pay w) = Inr (pay w')" by (auto simp: payroll_invoke_def)
  then show ?thesis
    by (rule cancel_effect, intro state_cong)
      (use assms(5) in \<open>auto simp: closed_run_def get_pending_run_def\<close>)
next
  case (PcBatch ps ms es x n d)
  with assms(2) obtain q where "batch_process_payroll e ps ms es x n d w = Inr (q, w')"
    by (auto simp: payroll_invoke_def)
  then show ?thesis
  proof (rule batch_effect)
    fix addrs run assume P: "executed e x n addrs run (pay w) (pay w')"
    with next_id_unused(2) [OF assms(1)] assms(4) have "r \<noteq> get_run_counter (pay w) + 1"
      by (auto simp: executed_def)
    with P show ?thesis by (intro state_cong) (simp_all add: executed_def)
  qed
qed (use assms(3) in \<open>simp_all add: is_run_call_def\<close>)

lemma terminal_step:
  assumes "accounted (pay w)" "payroll_invoke (e, c) w = Inr w'" "get_pending_run r (pay w) = None"
    and "get_payroll_run_state r (pay w) = Inr st" "is_payroll_state_terminal st"
  shows "get_payroll_run_state r (pay w') = Inr st \<and> get_pending_run r (pay w') = None"
proof
  have u: "r \<in> run_ids_used (pay w)" using assms(4) by (simp add: get_payroll_run_state_def get_state_used)
  show "get_payroll_run_state r (pay w') = Inr st"
  proof (cases "is_run_call c")
    case True
    then show ?thesis using run_call_state [OF assms(1,2) _ u assms(3)] assms(4) by simp
  next
    case False
    then show ?thesis
      using other_state [OF assms(2)] config_terminal [OF _ assms(4,5)] assms(2,4)
      by (cases "\<exists>k. c = PcConfig k") (auto simp: payroll_invoke_def)
  qed
  show "get_pending_run r (pay w') = None"
  proof (cases c)
    case (PcPrepare ps ms es x n d)
    with assms(2) obtain q where "prepare_payroll_run e ps ms es x n d (pay w) = Inr (q, pay w')"
      by (auto simp: payroll_invoke_def)
    then show ?thesis
      by (rule prepare_effect)
        (use next_id_unused(2) [OF assms(1)] u assms(3) in \<open>auto simp: prepared_def get_pending_run_def\<close>)
  next
    case (PcFinalize a q)
    with assms(2) have "finalize_payroll_run e a q (pay w) = Inr (pay w')" by (auto simp: payroll_invoke_def)
    then show ?thesis
      by (rule finalize_effect) (use assms(3) in \<open>simp add: closed_run_def get_pending_run_def\<close>)
  next
    case (PcCancel a q y)
    with assms(2) have "cancel_payroll_run e a q y (pay w) = Inr (pay w')" by (auto simp: payroll_invoke_def)
    then show ?thesis
      by (rule cancel_effect) (use assms(3) in \<open>simp add: closed_run_def get_pending_run_def\<close>)
  next
    case (PcBatch ps ms es x n d)
    with assms(2) obtain q where "batch_process_payroll e ps ms es x n d w = Inr (q, w')"
      by (auto simp: payroll_invoke_def)
    then show ?thesis
      by (rule batch_effect) (use assms(3) in \<open>simp add: executed_def get_pending_run_def\<close>)
  qed (use accounts_frame [OF assms(2)] assms(3) in \<open>simp_all add: is_run_call_def get_pending_run_def\<close>)
qed

text \<open>C22. Once a run that is not pending has reached \<open>Completed\<close> or \<open>Cancelled\<close>, no history of
  calls changes its state again.\<close>

theorem terminal_state_final:
  assumes "blank (pay w0)" "w = run_calls payroll_invoke cs w0" "get_pending_run r (pay w) = None"
    and "get_payroll_run_state r (pay w) = Inr st" "is_payroll_state_terminal st"
  shows "get_payroll_run_state r (pay (run_calls payroll_invoke cs' w)) = Inr st"
proof -
  let ?I = "\<lambda>v. accounted (pay v) \<and> get_payroll_run_state r (pay v) = Inr st \<and> get_pending_run r (pay v) = None"
  have "?I (run_calls payroll_invoke cs' w)"
  proof (rule run_calls_invariant [where I = ?I])
    show "?I w" using accounted_run [OF assms(1)] assms by simp
  next
    fix c v v' assume I: "?I v" and s: "payroll_invoke c v = Inr v'"
    obtain e k where "c = (e, k)" by force
    with s have "payroll_invoke (e, k) v = Inr v'" by simp
    from terminal_step [OF _ this] accounted_step [OF _ s] I assms(5) show "?I v'" by simp
  qed
  then show ?thesis by blast
qed

definition world_cancelled :: world where
  "world_cancelled = run_calls payroll_invoke
     [init_call, prepare_call, (pay_env [Address ''ADM''], PcCancel (Address ''ADM'') 1 ''typo'')] world_blank"

lemma world_cancelled_state:
  "get_pending_run 1 (pay world_cancelled) = None"
  "get_payroll_run_state 1 (pay world_cancelled) = Inr Cancelled"
proof -
  let ?c = "(pay_env [Address ''ADM''], PcCancel (Address ''ADM'') 1 ''typo'')"
  have "\<exists>s. cancel_payroll_run (pay_env [Address ''ADM'']) (Address ''ADM'') 1 ''typo'' (pay world_prepared) = Inr s"
    by (simp add: cancel_payroll_run_def cancel_payroll_run_with_reason_def validate_run_id_def
        validate_symbol_not_empty_def admin_guard_def world_prepared_state addrs_demo_def require_auth_def
        pay_env_def subtract_locked_funds_def checked_sub_i128_def in_i128_def
        get_locked_funds_def [symmetric] pending_demo_def Let_def)
  then obtain s where c: "cancel_payroll_run (pay_env [Address ''ADM'']) (Address ''ADM'') 1 ''typo''
    (pay world_prepared) = Inr s" ..
  have "pay (run_calls payroll_invoke [?c] world_prepared) = s"
    using c by (simp add: transact_def payroll_invoke_def on_pay_def)
  then have "pay world_cancelled = s" by (simp add: world_cancelled_def world_prepared_def)
  moreover from c have "pending_runs s 1 = None" "payroll_states s 1 = Some Cancelled"
    by (rule cancel_effect, simp add: closed_run_def)+
  ultimately show "get_pending_run 1 (pay world_cancelled) = None"
    "get_payroll_run_state 1 (pay world_cancelled) = Inr Cancelled"
    by (simp_all add: get_pending_run_def get_payroll_run_state_def get_payroll_run_state_internal_def)
qed

theorem terminal_state_final_witness:
  "\<forall>cs. get_payroll_run_state 1 (pay (run_calls payroll_invoke cs world_cancelled)) = Inr Cancelled"
  using terminal_state_final [OF blank_demo world_cancelled_def world_cancelled_state]
  by (simp add: is_payroll_state_terminal_def is_terminal_payroll_state_internal_def)

text \<open>For a pending run the terminal states are not final: the admin moves a prepared run to
  \<open>Cancelled\<close> with \<open>transition_payroll_run_state\<close>, and \<open>finalize_payroll_run\<close> still turns it
  into an executed run that requires reconciliation.\<close>

lemma cancelled_state_reopened:
  "\<exists>e s s'. transition_payroll_run_state e (Address ''ADM'') 1 Cancelled (pay world_prepared) = Inr s \<and>
    get_payroll_run_state 1 s = Inr Cancelled \<and> is_payroll_state_terminal Cancelled \<and>
    finalize_payroll_run (e :: venv) (Address ''ADM'') 1 s = Inr s' \<and>
    get_payroll_run_state 1 s' = Inr ReconciliationRequired"
proof -
  let ?e = "pay_env [Address ''ADM'']" and ?ready = "pay world_prepared"
  let ?s = "record_payroll_run_state 1 Cancelled ?ready"
  have "transition_payroll_run_state ?e (Address ''ADM'') 1 Cancelled ?ready = Inr ?s"
    by (simp add: transition_payroll_run_state_def require_not_paused_def admin_guard_def world_prepared_state
        addrs_demo_def require_auth_def pay_env_def get_payroll_run_state_internal_def
        is_allowed_payroll_state_transition_internal_def)
  moreover have "get_payroll_run_state 1 ?s = Inr Cancelled"
    by (simp add: get_payroll_run_state_def get_payroll_run_state_internal_def record_payroll_run_state_def publish_def)
  moreover have "\<exists>s'. finalize_payroll_run ?e (Address ''ADM'') 1 ?s = Inr s'"
    by (simp add: finalize_payroll_run_def require_not_paused_def validate_run_id_def admin_guard_def
        world_prepared_state addrs_demo_def require_auth_def pay_env_def validate_approval_not_expired_def
        is_payroll_approval_expired_def get_run_review_def subtract_locked_funds_def checked_sub_i128_def
        in_i128_def get_locked_funds_def [symmetric] pending_demo_def Let_def
        record_payroll_run_state_def publish_def)
  moreover have "get_payroll_run_state 1 s' = Inr ReconciliationRequired"
    if "finalize_payroll_run ?e (Address ''ADM'') 1 ?s = Inr s'" for s'
    using that by (rule finalize_effect)
      (simp add: get_payroll_run_state_def get_payroll_run_state_internal_def)
  moreover have "is_payroll_state_terminal Cancelled"
    by (simp add: is_payroll_state_terminal_def is_terminal_payroll_state_internal_def)
  ultimately show ?thesis by blast
qed

end
