(* ===== verification/Payroll_Roles.thy ===== *)
theory Payroll_Roles
  imports Payroll_Lifecycle
begin

text \<open>
  Who may become the admin or the treasury owner of the payroll contract. The treasury owner
  is an instance of \<open>two_step_role\<close>; the admin, which has two independent ways of changing
  hands, only of the weaker \<open>role_change\<close>. And what stays locked while a run is pending.
\<close>

section \<open>The treasury owner\<close>

definition treasury_holder :: "world \<Rightarrow> address option" where
  "treasury_holder w = treasury_owner_key (pay w)"

definition treasury_pending :: "world \<Rightarrow> (address \<times> address) option" where
  "treasury_pending w = map_option (\<lambda>p. (new_holder p, proposed_by p)) (pending_treasury_rotation (pay w))"

definition treasury_proposal :: "venv \<times> payroll_call \<Rightarrow> (address \<times> address) option" where
  "treasury_proposal c = (case snd c of PcRole (RoProposeTreasury a b) \<Rightarrow> Some (a, b) | _ \<Rightarrow> None)"

definition treasury_acceptance :: "venv \<times> payroll_call \<Rightarrow> address option" where
  "treasury_acceptance c = (case snd c of PcRole (RoAcceptTreasury a) \<Rightarrow> Some a | _ \<Rightarrow> None)"

text \<open>Before initialization there is neither an owner nor a proposal.\<close>

definition treasury_legal :: "world \<Rightarrow> bool" where
  "treasury_legal w \<longleftrightarrow> (addresses (pay w) = None \<longrightarrow>
     treasury_owner_key (pay w) = None \<and> pending_treasury_rotation (pay w) = None)"

lemmas treasury_defs = treasury_holder_def treasury_pending_def treasury_proposal_def
  treasury_acceptance_def treasury_legal_def

lemma treasury_other_call:
  assumes "payroll_invoke (e, c) w = Inr w'" "\<not> is_role_call c"
  shows "treasury_holder w' = treasury_holder w" "treasury_pending w' = treasury_pending w"
    "treasury_legal w' = treasury_legal w"
  using roles_frame [OF assms] by (simp_all add: treasury_defs roles_of_def)

lemma treasury_initialize:
  assumes "payroll_invoke (e, PcInitialize a t v cc tr ow) w = Inr w'"
  shows "addresses (pay w) = None" "treasury_legal w'" "treasury_pending w' = treasury_pending w"
  using assms
  by (auto simp: payroll_invoke_def initialize_def initialize_storage_version_def treasury_defs emits)

lemma treasury_role_call:
  assumes "payroll_invoke (e, PcRole k) w = Inr w'" "treasury_legal w"
  shows "(treasury_holder w' = treasury_holder w \<or>
      (\<exists>n b. k = RoAcceptTreasury n \<and> auth e n \<and> treasury_pending w = Some (n, b) \<and>
        treasury_holder w' = Some n \<and> treasury_pending w' = None)) \<and>
    (treasury_pending w' = treasury_pending w \<or> treasury_pending w' = None \<or>
      (\<exists>n b. k = RoProposeTreasury b n \<and> auth e b \<and> treasury_pending w' = Some (n, b) \<and>
        treasury_holder w = Some b \<and> treasury_holder w' = treasury_holder w)) \<and> treasury_legal w'"
  using assms
  by (cases k) (auto simp: payroll_invoke_def role_defs treasury_defs emits)

interpretation treasury_role: two_step_role payroll_invoke treasury_holder treasury_pending
  treasury_proposal treasury_acceptance "\<lambda>c. auth (fst c)" treasury_legal
proof unfold_locales
  fix w c w' h
  assume *: "treasury_legal w" "payroll_invoke c w = Inr w'" "treasury_holder w = Some h" "treasury_holder w' \<noteq> Some h"
  obtain e k where c: "c = (e, k)" by force
  from * have r: "is_role_call k" using treasury_other_call(1) [of e k w w'] c by auto
  show "\<exists>n by. treasury_acceptance c = Some n \<and> auth (fst c) n \<and> treasury_pending w = Some (n, by) \<and>
      treasury_holder w' = Some n \<and> treasury_pending w' = None"
  proof (cases k)
    case (PcInitialize a t v cc tr ow)
    with * c treasury_initialize(1) show ?thesis by (auto simp: treasury_legal_def treasury_holder_def)
  next
    case (PcRole k')
    with treasury_role_call [of e k' w w'] * c show ?thesis by (auto simp: treasury_acceptance_def)
  qed (use r in \<open>simp_all add: is_role_call_def\<close>)
next
  fix w c w' n b
  assume *: "treasury_legal w" "payroll_invoke c w = Inr w'" "treasury_pending w' = Some (n, b)"
    "treasury_pending w \<noteq> Some (n, b)"
  obtain e k where c: "c = (e, k)" by force
  from * have r: "is_role_call k" using treasury_other_call(2) [of e k w w'] c by auto
  show "treasury_proposal c = Some (b, n) \<and> auth (fst c) b \<and> treasury_holder w = Some b \<and>
      treasury_holder w' = treasury_holder w"
  proof (cases k)
    case (PcInitialize a t v cc tr ow)
    with * c treasury_initialize(3) show ?thesis by auto
  next
    case (PcRole k')
    with treasury_role_call [of e k' w w'] * c show ?thesis by (auto simp: treasury_proposal_def)
  qed (use r in \<open>simp_all add: is_role_call_def\<close>)
next
  fix w c w'
  assume *: "treasury_legal w" "payroll_invoke c w = Inr w'"
  obtain e k where c: "c = (e, k)" by force
  show "treasury_legal w'"
  proof (cases "is_role_call k")
    case True
    then show ?thesis
      using * c treasury_initialize(2) treasury_role_call
      by (cases k) (auto simp: is_role_call_def)
  next
    case False
    then show ?thesis using treasury_other_call(3) * c by blast
  qed
qed

text \<open>After initialization the treasury owner changes only with the signature of an owner on
  a proposal that names the successor and the successor's signature on the acceptance, and
  a pending proposal is always one of the present owner.\<close>

lemma treasury_owner_change_needs_both:
  assumes "addresses (pay w) \<noteq> None" "treasury_owner_key (pay w) = Some h"
    and "pending_treasury_rotation (pay w) = None" "w' = run_calls payroll_invoke cs w"
  shows "(\<forall>n. treasury_owner_key (pay w') = Some n \<and> n \<noteq> h \<longrightarrow>
      (\<exists>e. (e, PcRole (RoAcceptTreasury n)) \<in> set cs \<and> auth e n) \<and>
      (\<exists>e by. (e, PcRole (RoProposeTreasury by n)) \<in> set cs \<and> auth e by)) \<and>
    (\<forall>p. get_pending_treasury_rotation (pay w') = Some p \<longrightarrow>
      treasury_owner_key (pay w') = Some (proposed_by p))"
proof -
  have L: "treasury_legal w" using assms(1) by (auto simp: treasury_legal_def)
  have p: "set_option (treasury_pending w) = {}" using assms(3) by (simp add: treasury_pending_def)
  have h: "treasury_holder w = Some h" using assms(2) by (simp add: treasury_holder_def)
  have "treasury_role.consented w" using assms(3) by (simp add: treasury_role.consented_def treasury_pending_def)
  from treasury_role.consented_run [OF L this, of cs]
  have "treasury_owner_key (pay w') = Some (proposed_by p)" if "get_pending_treasury_rotation (pay w') = Some p" for p
    using that assms(4)
    by (auto simp: treasury_role.consented_def treasury_pending_def treasury_holder_def get_pending_treasury_rotation_def)
  moreover have "(\<exists>e. (e, PcRole (RoAcceptTreasury n)) \<in> set cs \<and> auth e n) \<and>
      (\<exists>e by. (e, PcRole (RoProposeTreasury by n)) \<in> set cs \<and> auth e by)"
    if "treasury_owner_key (pay w') = Some n" "n \<noteq> h" for n
  proof -
    have "treasury_holder (run_calls payroll_invoke cs w) = Some n"
      using that(1) assms(4) by (simp add: treasury_holder_def)
    from treasury_role.handover_consent [OF h p this that(2) L] show ?thesis
      by (fastforce simp: treasury_acceptance_def treasury_proposal_def
          split: payroll_call.splits role_call.splits)
  qed
  ultimately show ?thesis by blast
qed

definition treasury_calls :: "(venv \<times> payroll_call) list" where
  "treasury_calls = [(pay_env [Address ''OWN''], PcRole (RoProposeTreasury (Address ''OWN'') (Address ''NEW''))),
     (pay_env [Address ''NEW''], PcRole (RoAcceptTreasury (Address ''NEW'')))]"

lemma treasury_owner_change_needs_both_witness:
  "treasury_owner_key (pay (run_calls payroll_invoke treasury_calls world_ready)) = Some (Address ''NEW'') \<and>
   (\<exists>e. (e, PcRole (RoAcceptTreasury (Address ''NEW''))) \<in> set treasury_calls \<and> auth e (Address ''NEW''))"
proof -
  let ?w = "run_calls payroll_invoke treasury_calls world_ready"
  have o: "treasury_owner_key (pay ?w) = Some (Address ''NEW'')"
    by (simp add: treasury_calls_def world_ready_def pay_eval role_defs require_not_paused_def owner_guard_def
        require_auth_def require_no_active_payroll_run_def pending_payroll_run_count_def)
  have a: "addresses (pay world_ready) \<noteq> None" "treasury_owner_key (pay world_ready) = Some (Address ''OWN'')"
    "pending_treasury_rotation (pay world_ready) = None"
    by (simp_all add: world_ready_def pay_eval)
  from treasury_owner_change_needs_both [OF a refl, of treasury_calls] o show ?thesis by auto
qed

section \<open>The admin\<close>

definition admin_holder :: "world \<Rightarrow> address option" where
  "admin_holder w = map_option ca_admin (addresses (pay w))"

definition admin_proposals :: "world \<Rightarrow> (address \<times> address) set" where
  "admin_proposals w = set_option (map_option (\<lambda>p. (new_holder p, proposed_by p)) (pending_admin_rotation (pay w))) \<union>
     set_option (map_option (\<lambda>h. (ah_pending_admin h, ah_current_admin h)) (pending_admin_handover (pay w)))"

definition admin_proposal :: "venv \<times> payroll_call \<Rightarrow> (address \<times> address) option" where
  "admin_proposal c = (case snd c of PcRole (RoProposeAdmin a b) \<Rightarrow> Some (a, b)
     | PcRole (RoRequestHandover a b) \<Rightarrow> Some (a, b) | _ \<Rightarrow> None)"

definition admin_acceptance :: "venv \<times> payroll_call \<Rightarrow> address option" where
  "admin_acceptance c = (case snd c of PcRole (RoAcceptAdmin a) \<Rightarrow> Some a
     | PcRole (RoAcceptHandover a) \<Rightarrow> Some a | _ \<Rightarrow> None)"

lemmas admin_defs = admin_holder_def admin_proposals_def admin_proposal_def admin_acceptance_def

lemma admin_other_call:
  assumes "payroll_invoke (e, c) w = Inr w'" "\<not> is_role_call c"
  shows "admin_holder w' = admin_holder w" "admin_proposals w' = admin_proposals w"
  using roles_frame [OF assms] by (simp_all add: admin_defs roles_of_def)

lemma admin_initialize:
  assumes "payroll_invoke (e, PcInitialize a t v cc tr ow) w = Inr w'"
  shows "admin_holder w = None" "admin_proposals w' = admin_proposals w"
  using assms
  by (auto simp: payroll_invoke_def initialize_def initialize_storage_version_def admin_defs emits)

lemma admin_role_call:
  assumes "payroll_invoke (e, PcRole k) w = Inr w'"
  shows "admin_holder w' = admin_holder w \<or> (\<exists>n b. admin_acceptance (e, PcRole k) = Some n \<and> auth e n \<and>
      (n, b) \<in> admin_proposals w \<and> admin_holder w' = Some n)"
    and "(n, b) \<in> admin_proposals w' \<Longrightarrow> (n, b) \<in> admin_proposals w \<or>
      admin_proposal (e, PcRole k) = Some (b, n) \<and> auth e b \<and> admin_holder w = Some b"
  using assms
  by (cases k; auto simp: payroll_invoke_def role_defs admin_defs emits)+

interpretation admin_role: role_change payroll_invoke admin_holder admin_proposals admin_proposal
  admin_acceptance "\<lambda>c. auth (fst c)" "\<lambda>_. True"
proof unfold_locales
  fix w c w' h
  assume *: "payroll_invoke c w = Inr w'" "admin_holder w = Some h" "admin_holder w' \<noteq> Some h"
  obtain e k where c: "c = (e, k)" by force
  from * have r: "is_role_call k" using admin_other_call(1) [of e k w w'] c by auto
  show "\<exists>n by. admin_acceptance c = Some n \<and> auth (fst c) n \<and> (n, by) \<in> admin_proposals w \<and> admin_holder w' = Some n"
  proof (cases k)
    case (PcInitialize a t v cc tr ow)
    with * c admin_initialize(1) show ?thesis by fastforce
  next
    case (PcRole k')
    with admin_role_call(1) [of e k' w w'] * c show ?thesis by auto
  qed (use r in \<open>simp_all add: is_role_call_def\<close>)
next
  fix w c w' n b
  assume *: "payroll_invoke c w = Inr w'" "(n, b) \<in> admin_proposals w'" "(n, b) \<notin> admin_proposals w"
  obtain e k where c: "c = (e, k)" by force
  from * have r: "is_role_call k" using admin_other_call(2) [of e k w w'] c by auto
  show "admin_proposal c = Some (b, n) \<and> auth (fst c) b \<and> admin_holder w = Some b"
  proof (cases k)
    case (PcInitialize a t v cc tr ow)
    with * c admin_initialize(2) show ?thesis by blast
  next
    case (PcRole k')
    with admin_role_call(2) [of e k' w w' n b] * c show ?thesis by auto
  qed (use r in \<open>simp_all add: is_role_call_def\<close>)
qed simp

text \<open>C30. The admin changes only in two steps. First the admin of that time signs a successful rotation
  proposal or handover request that names the successor; later the successor signs a successful
  acceptance of the one or the other, which makes it the admin.\<close>

theorem admin_change_needs_both:
  assumes "addresses (pay w) = Some addrs" "pending_admin_rotation (pay w) = None"
    and "pending_admin_handover (pay w) = None"
    and "addresses (pay (run_calls payroll_invoke cs w)) = Some addrs'" "n = ca_admin addrs'" "n \<noteq> ca_admin addrs"
  shows "\<exists>xs e c ys e' c' zs by w1 w2. cs = xs @ (e, PcRole c) # ys @ (e', PcRole c') # zs \<and>
    map_option ca_admin (addresses (pay (run_calls payroll_invoke xs w))) = Some by \<and> auth e by \<and>
    (c = RoProposeAdmin by n \<or> c = RoRequestHandover by n) \<and>
    payroll_invoke (e, PcRole c) (run_calls payroll_invoke xs w) = Inr w1 \<and>
    auth e' n \<and> (c' = RoAcceptAdmin n \<or> c' = RoAcceptHandover n) \<and>
    payroll_invoke (e', PcRole c') (run_calls payroll_invoke (xs @ (e, PcRole c) # ys) w) = Inr w2 \<and>
    map_option ca_admin (addresses (pay w2)) = Some n"
proof -
  have "admin_holder w = Some (ca_admin addrs)" "admin_proposals w = {}"
    "admin_holder (run_calls payroll_invoke cs w) = Some n"
    using assms by (simp_all add: admin_defs)
  from admin_role.handover_steps [OF this assms(6) TrueI] obtain xs p ys a zs b w1 w2 where
    s: "cs = xs @ p # ys @ a # zs" "payroll_invoke p (run_calls payroll_invoke xs w) = Inr w1"
    "admin_proposal p = Some (b, n)" "auth (fst p) b" "admin_holder (run_calls payroll_invoke xs w) = Some b"
    "payroll_invoke a (run_calls payroll_invoke (xs @ p # ys) w) = Inr w2" "admin_acceptance a = Some n"
    "auth (fst a) n" "admin_holder w2 = Some n" by blast
  obtain e c where p: "p = (e, PcRole c)" "c = RoProposeAdmin b n \<or> c = RoRequestHandover b n"
    using s(3) by (cases p) (auto simp: admin_proposal_def split: payroll_call.splits role_call.splits)
  obtain e' c' where a: "a = (e', PcRole c')" "c' = RoAcceptAdmin n \<or> c' = RoAcceptHandover n"
    using s(7) by (cases a) (auto simp: admin_acceptance_def split: payroll_call.splits role_call.splits)
  show ?thesis
    by (intro exI [of _ xs] exI [of _ e] exI [of _ c] exI [of _ ys] exI [of _ e'] exI [of _ c'] exI [of _ zs]
        exI [of _ b] exI [of _ w1] exI [of _ w2])
      (use s p a in \<open>simp add: admin_holder_def\<close>)
qed

definition admin_calls :: "(venv \<times> payroll_call) list" where
  "admin_calls = [(pay_env [Address ''ADM''], PcRole (RoProposeAdmin (Address ''ADM'') (Address ''C''))),
     (pay_env [Address ''ADM''], PcRole (RoRequestHandover (Address ''ADM'') (Address ''B''))),
     (pay_env [Address ''B''], PcRole (RoAcceptHandover (Address ''B'')))]"

lemmas admin_eval = admin_calls_def world_ready_def pay_eval role_defs require_not_paused_def
  admin_guard_def require_auth_def require_no_active_payroll_run_def pending_payroll_run_count_def

lemma admin_calls_state:
  "addresses (pay (run_calls payroll_invoke admin_calls world_ready)) = Some (addrs_demo\<lparr>ca_admin := Address ''B''\<rparr>)"
  by (simp add: admin_eval addrs_demo_def)

theorem admin_change_needs_both_witness:
  "addresses (pay (run_calls payroll_invoke admin_calls world_ready)) = Some (addrs_demo\<lparr>ca_admin := Address ''B''\<rparr>) \<and>
   (\<exists>xs e c zs. admin_calls = xs @ (e, PcRole c) # zs \<and> auth e (Address ''B'') \<and>
     (c = RoAcceptAdmin (Address ''B'') \<or> c = RoAcceptHandover (Address ''B'')))"
proof -
  have "pending_admin_rotation (pay world_ready) = None" "pending_admin_handover (pay world_ready) = None"
    by (simp_all add: admin_eval)
  from admin_change_needs_both [OF world_ready_state(1) this admin_calls_state refl] obtain xs e c ys e' c' zs where
    "admin_calls = (xs @ (e, PcRole c) # ys) @ (e', PcRole c') # zs" "auth e' (Address ''B'')"
    "c' = RoAcceptAdmin (Address ''B'') \<or> c' = RoAcceptHandover (Address ''B'')"
    by (auto simp: addrs_demo_def)
  then show ?thesis using admin_calls_state by blast
qed

section \<open>The configuration lock\<close>

text \<open>C23. While any run is pending, no call changes the asset allowlist, the company state or the treasury
  owner, and the admin changes only by the acceptance of a handover: \<open>set_asset_allowed\<close>,
  \<open>set_company_state\<close> and the acceptance of an admin or treasury rotation fail, whoever calls with
  whatever arguments. Rotations may still be proposed and cancelled.\<close>

theorem configuration_locked_while_pending:
  assumes "blank (pay w0)" "w = run_calls payroll_invoke cs w0" "get_pending_run r (pay w) = Some p"
  shows "(\<forall>e :: venv. \<forall>asset b t. set_asset_allowed e asset b (pay w) \<noteq> Inr t) \<and>
    (\<forall>e :: venv. \<forall>a st t. set_company_state e a st (pay w) \<noteq> Inr t) \<and>
    (\<forall>e :: venv. \<forall>a t. accept_admin_rotation e a (pay w) \<noteq> Inr t) \<and>
    (\<forall>e :: venv. \<forall>a t. accept_treasury_rotation e a (pay w) \<noteq> Inr t) \<and>
    (\<forall>e c w'. payroll_invoke (e, c) w = Inr w' \<longrightarrow>
      allowed_assets (pay w') = allowed_assets (pay w) \<and> supported_assets (pay w') = supported_assets (pay w) \<and>
      company_state (pay w') = company_state (pay w) \<and> treasury_owner_key (pay w') = treasury_owner_key (pay w) \<and>
      (addresses (pay w') = addresses (pay w) \<or> (\<exists>n addrs. c = PcRole (RoAcceptHandover n) \<and> auth e n \<and>
        addresses (pay w) = Some addrs \<and> addresses (pay w') = Some (addrs\<lparr>ca_admin := n\<rparr>))))"
proof -
  let ?s = "pay w"
  have a: "accounted ?s" unfolding assms(2) by (rule accounted_run [OF assms(1)])
  have "r \<in> dom (pending_runs ?s)" using assms(3) by (auto simp: get_pending_run_def)
  then have "0 < card (dom (pending_runs ?s))" "addresses ?s \<noteq> None"
    using a by (auto simp: accounted_def card_gt_0_iff run_ids_used_def)
  then have "0 < pending_payroll_run_count ?s"
    using a by (simp add: accounted_def word_less_nat_alt)
  then have no: "require_no_active_payroll_run ?s \<noteq> Inr u" for u
    by (simp add: require_no_active_payroll_run_def)
  have locked: "set_asset_allowed e asset b ?s \<noteq> Inr t" "set_company_state e k st ?s \<noteq> Inr t"
    "accept_admin_rotation e k ?s \<noteq> Inr t" "accept_treasury_rotation e k ?s \<noteq> Inr t" for e :: venv and asset b t k st
    using no by (auto simp: set_asset_allowed_def set_company_state_def accept_admin_rotation_def
        accept_treasury_rotation_def)
  have "settings_of (pay w') = settings_of ?s \<and> treasury_owner_key (pay w') = treasury_owner_key ?s \<and>
      (addresses (pay w') = addresses ?s \<or> (\<exists>n addrs. c = PcRole (RoAcceptHandover n) \<and> auth e n \<and>
        addresses ?s = Some addrs \<and> addresses (pay w') = Some (addrs\<lparr>ca_admin := n\<rparr>)))"
    if i: "payroll_invoke (e, c) w = Inr w'" for e c w'
  proof -
    have "\<not> is_setting_call c" using i locked \<open>addresses ?s \<noteq> None\<close>
      by (auto simp: is_setting_call_def payroll_invoke_def config_invoke_def initialize_def
          split: payroll_call.splits config_call.splits)
    then have set: "settings_of (pay w') = settings_of ?s" by (rule settings_frame [OF i])
    show ?thesis
    proof (cases c)
      case (PcRole k)
      then show ?thesis using i set no
        by (cases k) (auto simp: payroll_invoke_def role_defs emits)
    qed (use i set \<open>\<not> is_setting_call c\<close> roles_frame [OF i] in
        \<open>simp_all add: is_role_call_def is_setting_call_def roles_of_def\<close>)
  qed
  with locked show ?thesis by (simp add: settings_of_def)
qed

theorem configuration_locked_while_pending_witness:
  "\<forall>t. set_asset_allowed (pay_env [Address ''ADM'']) (Address ''TOK'') False (pay world_prepared) \<noteq> Inr t"
  using configuration_locked_while_pending [OF blank_demo world_prepared_def, of 1 pending_demo]
  by (simp add: get_pending_run_def world_prepared_state)

section \<open>Rotation and handover together\<close>

text \<open>The two paths do not know of each other: a rotation proposal of the former admin
  survives a completed handover, and its addressee takes the role from the new admin
  without the new admin's consent.\<close>

lemma rotation_survives_handover:
  assumes "addresses s = Some addrs" "payroll_pause_manager s = None" "\<not> has_active_payroll_run s"
    and "pending_admin_rotation s = Some p" "pending_admin_handover s = Some h"
    and "auth (e :: venv) (ah_pending_admin h)" "auth (e' :: venv) (new_holder p)"
  shows "\<exists>s1 s2. accept_admin_handover e (ah_pending_admin h) s = Inr s1 \<and>
    accept_admin_rotation e' (new_holder p) s1 = Inr s2 \<and>
    addresses s2 = Some (addrs\<lparr>ca_admin := new_holder p\<rparr>)"
  using assms
  by (auto simp: accept_admin_handover_def accept_admin_rotation_def require_not_paused_def emits
      require_no_active_payroll_run_def has_active_payroll_run_def pending_payroll_run_count_def)

lemma rotation_survives_handover_witness:
  "\<exists>s s1 s2. s = pay (run_calls payroll_invoke (take 2 admin_calls) world_ready) \<and>
    accept_admin_handover (pay_env [Address ''B'']) (Address ''B'') s = Inr s1 \<and>
    accept_admin_rotation (pay_env [Address ''C'']) (Address ''C'') s1 = Inr s2 \<and>
    addresses s2 = Some (addrs_demo\<lparr>ca_admin := Address ''C''\<rparr>)"
proof -
  let ?s = "pay (run_calls payroll_invoke (take 2 admin_calls) world_ready)"
  let ?p = "\<lparr>new_holder = Address ''C'', proposed_by = Address ''ADM'', proposed_at = 1000\<rparr>"
  let ?h = "\<lparr>ah_current_admin = Address ''ADM'', ah_pending_admin = Address ''B'', ah_requested_at = 1000\<rparr>"
  have "addresses ?s = Some addrs_demo" "payroll_pause_manager ?s = None" "\<not> has_active_payroll_run ?s"
    "pending_admin_rotation ?s = Some ?p" "pending_admin_handover ?s = Some ?h"
    by (simp_all add: admin_eval addrs_demo_def has_active_payroll_run_def)
  from rotation_survives_handover [OF this, of "pay_env [Address ''B'']" "pay_env [Address ''C'']"]
  show ?thesis by (simp add: pay_env_def)
qed

end
