(* ===== verification/Payroll_Treasury.thy ===== *)
theory Payroll_Treasury
  imports Payroll_Roles
begin

text \<open>
  Money of the payroll contract beside the runs: emergency withdrawals, the reserve that
  they must leave, deposits, and the quorum approvals.
\<close>

section \<open>Emergency withdrawals\<close>

definition requested_in :: "world \<Rightarrow> (venv \<times> payroll_call) list \<Rightarrow> i128 \<Rightarrow> address \<Rightarrow> bool" where
  "requested_in w0 cs m b \<longleftrightarrow> (\<exists>pre e ow post. cs = pre @ (e, PcRequestEmergency ow m b) # post \<and> auth e ow \<and>
     get_treasury_owner (pay (run_calls payroll_invoke pre w0)) = Inr ow)"

lemma requested_in_snoc: "requested_in w0 cs m b \<Longrightarrow> requested_in w0 (cs @ [c]) m b"
  unfolding requested_in_def by (metis append_Cons append_assoc)

lemma request_origin:
  assumes "emergency_request (pay w0) = None" "emergency_request (pay (run_calls payroll_invoke cs w0)) = Some q"
  shows "0 < ew_amount q \<and> requested_in w0 cs (ew_amount q) (ew_recipient q)"
  using assms(2)
proof (induction cs rule: rev_induct)
  case Nil
  then show ?case using assms(1) by simp
next
  case (snoc c cs)
  let ?w = "run_calls payroll_invoke cs w0"
  show ?case
  proof (cases "emergency_request (pay ?w) = Some q")
    case True
    then show ?thesis using snoc.IH requested_in_snoc by blast
  next
    case False
    with snoc.prems obtain w' where w': "payroll_invoke c ?w = Inr w'" "emergency_request (pay w') = Some q"
      by (cases rule: transact_cases [of payroll_invoke c ?w]) auto
    obtain e k where c: "c = (e, k)" by force
    have "\<exists>a m b. k = PcRequestEmergency a m b"
      using emergency_frame [of e k ?w w'] w' False c by auto
    then obtain a m b where k: "k = PcRequestEmergency a m b" by blast
    then have "request_emergency_withdrawal e a m b ?w = Inr w'"
      using w'(1) c by (simp add: payroll_invoke_def)
    from request_emergency_effect [OF this] w'(2) k c show ?thesis
      by (auto simp: requested_in_def get_treasury_owner_def expect_def)
  qed
qed

lemma available_balance:
  assumes "get_available_treasury_balance asset w = Inr v" "m \<le> v" "0 < m" "addresses (pay w) = Some addrs"
  shows "\<exists>t. tokens w asset = Some t \<and> m \<le> balance t (ca_treasury addrs) - get_locked_funds asset (pay w)"
  using assms
  by (auto simp: get_available_treasury_balance_def token_balance_def checked_sub_i128_def split: if_splits)

text \<open>C17. Every emergency payout was requested by a signer who was the treasury owner at that
  time and approved by the admin; it pays exactly the requested positive amount to the
  requested recipient, consumes the request, and leaves in the treasury at least what is
  locked for pending runs.\<close>

theorem emergency_withdrawal_controlled:
  assumes "emergency_request (pay w0) = None" "w = run_calls payroll_invoke cs w0"
    and "approve_emergency_withdrawal e a w = Inr w'" "addresses (pay w) = Some addrs"
  shows "\<exists>q t t'. get_emergency_request (pay w) = Some q \<and> get_emergency_request (pay w') = None \<and>
    a = ca_admin addrs \<and> auth e a \<and> 0 < ew_amount q \<and>
    requested_in w0 cs (ew_amount q) (ew_recipient q) \<and>
    tokens w (ca_token addrs) = Some t \<and> tokens w' = (tokens w)(ca_token addrs \<mapsto> t') \<and>
    (ew_recipient q \<noteq> ca_treasury addrs \<longrightarrow>
      balance t' (ew_recipient q) = balance t (ew_recipient q) + ew_amount q \<and>
      balance t' (ca_treasury addrs) = balance t (ca_treasury addrs) - ew_amount q) \<and>
    get_locked_funds (ca_token addrs) (pay w') \<le> balance t' (ca_treasury addrs)"
proof -
  from assms(3,4) obtain q v w1 where
    q: "emergency_request (pay w) = Some q" "a = ca_admin addrs" "auth e a"
    and v: "get_available_treasury_balance (ca_token addrs) w = Inr v" "ew_amount q \<le> v"
    and t: "token_transfer (ca_token addrs) (ca_treasury addrs) (ew_recipient q) (ew_amount q)
      (w\<lparr>pay := (pay w)\<lparr>emergency_request := None\<rparr>\<rparr>) = Inr w1"
    and w': "w' = w1\<lparr>pay := emit_emergency_approved (ew_amount q) (ew_recipient q) (pay w1)\<rparr>"
    by (auto simp: approve_emergency_withdrawal_def Let_def)
  have o: "0 < ew_amount q \<and> requested_in w0 cs (ew_amount q) (ew_recipient q)"
    using request_origin [OF assms(1)] q(1) assms(2) by simp
  then have pos: "0 < ew_amount q" by blast
  from available_balance [OF v pos assms(4)] obtain t0 where
    t0: "tokens w (ca_token addrs) = Some t0"
    "ew_amount q \<le> balance t0 (ca_treasury addrs) - get_locked_funds (ca_token addrs) (pay w)" by blast
  from t obtain t' where t': "transfer (ca_treasury addrs) (ew_recipient q) (ew_amount q) t0 = (Inr t' :: token outcome)"
    "tokens w1 = (tokens w)(ca_token addrs \<mapsto> t')"
    using t0(1) by (auto elim!: token_transfer_effect)
  have p: "pay w1 = (pay w)\<lparr>emergency_request := None\<rparr>" using token_transfer_pay [OF t] by simp
  have b: "balance t' (ca_treasury addrs) = (if ew_recipient q = ca_treasury addrs then balance t0 (ca_treasury addrs)
      else balance t0 (ca_treasury addrs) - ew_amount q)"
    using tok.transfer_ok [OF t'(1)] by auto
  have "get_locked_funds (ca_token addrs) (pay w') = get_locked_funds (ca_token addrs) (pay w)"
    using w' p by (simp add: get_locked_funds_def emits)
  then have "get_locked_funds (ca_token addrs) (pay w') \<le> balance t' (ca_treasury addrs)"
    using b t0(2) pos by auto
  moreover have "balance t' (ew_recipient q) = balance t0 (ew_recipient q) + ew_amount q"
    if "ew_recipient q \<noteq> ca_treasury addrs"
    using tok.transfer_payee [OF t'(1)] that by auto
  moreover have "get_emergency_request (pay w') = None" "tokens w' = (tokens w)(ca_token addrs \<mapsto> t')"
    using w' p t'(2) by (simp_all add: get_emergency_request_def emits)
  ultimately show ?thesis
    using q o b t0(1) by (intro exI [of _ q] exI [of _ t0] exI [of _ t']) (simp add: get_emergency_request_def)
qed

definition request_call :: "venv \<times> payroll_call" where
  "request_call = (pay_env [Address ''OWN''], PcRequestEmergency (Address ''OWN'') 60 (Address ''X''))"

definition world_requested :: world where
  "world_requested = run_calls payroll_invoke [init_call, request_call] world_blank"

lemma world_requested_state:
  "addresses (pay world_requested) = Some addrs_demo"
  "payroll_pause_manager (pay world_requested) = None"
  "emergency_request (pay world_requested) = Some \<lparr>ew_amount = 60, ew_recipient = Address ''X'',
     ew_requested_at = 1000, ew_approved = False\<rparr>"
  "locked_payroll_funds (pay world_requested) = Map.empty"
  "tokens world_requested = [Address ''TOK'' \<mapsto> token_demo]"
proof -
  have "balance token_demo (Address ''T'') = 100" by (simp add: balance_def token_demo_def)
  then show "addresses (pay world_requested) = Some addrs_demo"
    "payroll_pause_manager (pay world_requested) = None"
    "emergency_request (pay world_requested) = Some \<lparr>ew_amount = 60, ew_recipient = Address ''X'',
       ew_requested_at = 1000, ew_approved = False\<rparr>"
    "locked_payroll_funds (pay world_requested) = Map.empty"
    "tokens world_requested = [Address ''TOK'' \<mapsto> token_demo]"
    by (simp_all add: world_requested_def request_call_def pay_eval request_emergency_withdrawal_def
        require_not_paused_def require_auth_def get_available_treasury_balance_def token_balance_def
        checked_sub_i128_def in_i128_def get_locked_funds_def addrs_demo_def)
qed

lemma approve_demo:
  obtains w' where "approve_emergency_withdrawal (pay_env [Address ''ADM'']) (Address ''ADM'') world_requested = Inr w'"
proof -
  have b: "balance token_demo (Address ''T'') = 100" by (simp add: balance_def token_demo_def)
  have "\<exists>t'. transfer (Address ''T'') (Address ''X'') 60 token_demo = (Inr t' :: token outcome)"
    by (simp add: transfer_def balance_def token_demo_def sub_i128_def add_i128_def in_i128_def Let_def)
  then show thesis
    using that b
    by (auto simp: approve_emergency_withdrawal_def world_requested_state require_not_paused_def admin_guard_def
        require_auth_def pay_env_def addrs_demo_def get_available_treasury_balance_def token_balance_def
        checked_sub_i128_def in_i128_def get_locked_funds_def token_transfer_def Let_def)
qed

theorem emergency_withdrawal_controlled_witness:
  "\<exists>w' t'. approve_emergency_withdrawal (pay_env [Address ''ADM'']) (Address ''ADM'') world_requested = Inr w' \<and>
    tokens w' (Address ''TOK'') = Some t' \<and> balance t' (Address ''T'') = 40 \<and>
    requested_in world_blank [init_call, request_call] 60 (Address ''X'')"
proof -
  obtain w' where w': "approve_emergency_withdrawal (pay_env [Address ''ADM'']) (Address ''ADM'') world_requested = Inr w'"
    by (rule approve_demo)
  have "emergency_request (pay world_blank) = None" by (simp add: world_blank_def pay_blank_def)
  from emergency_withdrawal_controlled [OF this world_requested_def w' world_requested_state(1)] w' show ?thesis
    by (auto simp: addrs_demo_def world_requested_state get_emergency_request_def balance_def token_demo_def)
qed

text \<open>C37. The reserve itself is not protected: \<open>subtract_locked_funds\<close> is public and asks for no
  signature, so anybody lowers the locked funds of any asset to zero while runs are still
  pending, and with them what an emergency withdrawal has to leave.\<close>

theorem anyone_unlocks_funds:
  assumes "addresses (pay w) = Some addrs" "tokens w asset = Some t"
    and "in_i128 (balance t (ca_treasury addrs))"
  shows "\<exists>w'. payroll_invoke (e, PcSubtractLocked asset (get_locked_funds asset (pay w))) w = Inr w' \<and>
    get_locked_funds asset (pay w') = 0 \<and> pending_runs (pay w') = pending_runs (pay w) \<and>
    get_available_treasury_balance asset w' = Inr (balance t (ca_treasury addrs))"
proof -
  let ?l = "get_locked_funds asset (pay w)"
  have "\<exists>s. subtract_locked_funds asset ?l (pay w) = Inr s \<and> get_locked_funds asset s = 0 \<and>
      pending_runs s = pending_runs (pay w) \<and> addresses s = Some addrs"
    using assms(1) by (simp add: subtract_locked_funds_def checked_sub_i128_def in_i128_def get_locked_funds_def emits)
  then obtain s where s: "subtract_locked_funds asset ?l (pay w) = Inr s" "get_locked_funds asset s = 0"
      "pending_runs s = pending_runs (pay w)" "addresses s = Some addrs" by blast
  then have "payroll_invoke (e, PcSubtractLocked asset ?l) w = Inr (w\<lparr>pay := s\<rparr>)"
    by (simp add: payroll_invoke_def)
  moreover have "get_available_treasury_balance asset (w\<lparr>pay := s\<rparr>) = Inr (balance t (ca_treasury addrs))"
    using s(2,4) assms(2,3) by (simp add: get_available_treasury_balance_def token_balance_def checked_sub_i128_def)
  ultimately show ?thesis using s(2,3) by auto
qed

theorem anyone_unlocks_funds_witness:
  "\<exists>w'. payroll_invoke (pay_env [], PcSubtractLocked (Address ''TOK'') 30) world_prepared = Inr w' \<and>
    get_locked_funds (Address ''TOK'') (pay w') = 0 \<and> get_pending_run 1 (pay w') = Some pending_demo"
proof -
  have "tokens world_prepared (Address ''TOK'') = Some token_demo" by (simp add: world_prepared_state)
  moreover have "in_i128 (balance token_demo (ca_treasury addrs_demo))"
    by (simp add: addrs_demo_def balance_def token_demo_def in_i128_def)
  ultimately show ?thesis
    using anyone_unlocks_funds [OF world_prepared_state(2), of "Address ''TOK''" token_demo "pay_env []"]
    by (auto simp: world_prepared_state get_pending_run_def)
qed

section \<open>Deposits\<close>

lemma deposit_ids_step:
  assumes "payroll_invoke c w = Inr w'" "deposit_nonces (pay w) i \<noteq> None"
  shows "deposit_nonces (pay w') i \<noteq> None"
proof -
  obtain e k where c: "c = (e, k)" by force
  show ?thesis
  proof (cases k)
    case (PcReview k')
    with assms c show ?thesis by (auto simp: payroll_invoke_def dest!: review_frame)
  next
    case (PcDeposit a m j)
    with assms c show ?thesis
      by (auto simp: payroll_invoke_def deposit_def publish_def Let_def dest!: token_transfer_pay)
  qed (use ids_frame [of e k w w'] assms c in \<open>simp_all add: ids_of_def\<close>)
qed

text \<open>A deposit moves exactly its positive amount from the depositor to the treasury with
  the signatures of the depositor and of the treasury owner, credits the depositor, and its
  id is never accepted again, by no depositor and after no history.\<close>

lemma deposit_processed_once:
  assumes "deposit e a m i w = Inr w'" "addresses (pay w) = Some addrs" "a \<noteq> ca_treasury addrs"
  shows "(\<exists>t t' ow. tokens w (ca_token addrs) = Some t \<and> tokens w' = (tokens w)(ca_token addrs \<mapsto> t') \<and>
      0 < m \<and> balance t' a = balance t a - m \<and>
      balance t' (ca_treasury addrs) = balance t (ca_treasury addrs) + m \<and>
      (\<forall>b. b \<noteq> a \<and> b \<noteq> ca_treasury addrs \<longrightarrow> balance t' b = balance t b) \<and>
      get_treasury_balance a (pay w') = get_treasury_balance a (pay w) + m \<and>
      auth e a \<and> get_treasury_owner (pay w) = Inr ow \<and> auth e ow) \<and>
    (\<forall>e' a' m' t. deposit (e' :: venv) a' m' i (run_calls payroll_invoke cs w') \<noteq> Inr t)"
proof
  let ?w1 = "w\<lparr>pay := (pay w)\<lparr>deposit_nonces := (deposit_nonces (pay w))(i \<mapsto> True)\<rparr>\<rparr>"
  from assms(1,2) obtain ow w2 where
    m: "0 < m" "auth e a" "auth e ow" "treasury_owner_key (pay w) = Some ow"
    and t: "token_transfer (ca_token addrs) a (ca_treasury addrs) m ?w1 = Inr w2"
    and w': "w' = w2\<lparr>pay := publish [VSym ''payroll'', VSym ''deposit'']
         (VVec [VAddr a, VI128 m, VBytes i, VI128 (unwrap_or 0 (company_balances (pay w2) a) + m)])
         ((pay w2)\<lparr>company_balances := (company_balances (pay w2))(a \<mapsto> unwrap_or 0 (company_balances (pay w2) a) + m)\<rparr>)\<rparr>"
    by (auto simp: deposit_def Let_def)
  from t obtain t0 t' where t': "tokens w (ca_token addrs) = Some t0"
    "transfer a (ca_treasury addrs) m t0 = (Inr t' :: token outcome)" "tokens w2 = (tokens w)(ca_token addrs \<mapsto> t')"
    by (auto elim!: token_transfer_effect)
  have p: "pay w2 = pay ?w1" by (rule token_transfer_pay [OF t])
  have "get_treasury_balance a (pay w') = get_treasury_balance a (pay w) + m"
    by (simp add: w' p get_treasury_balance_def publish_def)
  moreover have "tokens w' = (tokens w)(ca_token addrs \<mapsto> t')" by (simp add: w' t'(3))
  ultimately show "\<exists>t t' ow. tokens w (ca_token addrs) = Some t \<and> tokens w' = (tokens w)(ca_token addrs \<mapsto> t') \<and>
      0 < m \<and> balance t' a = balance t a - m \<and>
      balance t' (ca_treasury addrs) = balance t (ca_treasury addrs) + m \<and>
      (\<forall>b. b \<noteq> a \<and> b \<noteq> ca_treasury addrs \<longrightarrow> balance t' b = balance t b) \<and>
      get_treasury_balance a (pay w') = get_treasury_balance a (pay w) + m \<and>
      auth e a \<and> get_treasury_owner (pay w) = Inr ow \<and> auth e ow"
    using m t' tok.transfer_payer [OF t'(2) assms(3)] tok.transfer_payee [OF t'(2) assms(3)]
      tok.transfer_other [OF t'(2)]
    by (intro exI [of _ t0] exI [of _ t'] exI [of _ ow]) (simp add: get_treasury_owner_def expect_def)
  have "deposit_nonces (pay w') i \<noteq> None" by (simp add: w' p publish_def)
  then have "deposit_nonces (pay (run_calls payroll_invoke cs w')) i \<noteq> None"
    by (rule run_calls_invariant [where I = "\<lambda>v. deposit_nonces (pay v) i \<noteq> None", rotated])
      (rule deposit_ids_step)
  then show "\<forall>e' a' m' t. deposit (e' :: venv) a' m' i (run_calls payroll_invoke cs w') \<noteq> Inr t"
    by (auto simp: deposit_def)
qed

lemma deposit_demo:
  obtains w' where "deposit (pay_env [Address ''A'', Address ''OWN'']) (Address ''A'') 5 nonce_demo world_ready = Inr w'"
proof -
  have "last nonce_demo \<noteq> last zero32" by (simp add: nonce_demo_def zero32_def)
  then have n: "nonce_demo \<noteq> zero32" by auto
  have "\<exists>t'. transfer (Address ''A'') (Address ''T'') 5 token_demo = (Inr t' :: token outcome)"
    by (simp add: transfer_def balance_def token_demo_def sub_i128_def add_i128_def in_i128_def Let_def)
  then obtain t' where "transfer (Address ''A'') (Address ''T'') 5 token_demo = (Inr t' :: token outcome)" ..
  moreover have "payroll_pause_manager (pay world_ready) = None" "deposit_nonces (pay world_ready) = Map.empty"
    "treasury_owner_key (pay world_ready) = Some (Address ''OWN'')" "company_balances (pay world_ready) = Map.empty"
    by (simp_all add: world_ready_def pay_eval)
  ultimately have "\<exists>w'. deposit (pay_env [Address ''A'', Address ''OWN'']) (Address ''A'') 5 nonce_demo world_ready = Inr w'"
    using n by (simp add: deposit_def require_not_paused_def validate_non_zero_digest_def require_auth_def
        world_ready_state addrs_demo_def token_transfer_def add_i128_def in_i128_def pay_env_def Let_def)
  then show thesis using that by blast
qed

lemma deposit_processed_once_witness:
  "\<exists>w' t'. deposit (pay_env [Address ''A'', Address ''OWN'']) (Address ''A'') 5 nonce_demo world_ready = Inr w' \<and>
    tokens w' (Address ''TOK'') = Some t' \<and> balance t' (Address ''T'') = 105"
proof -
  obtain w' where w': "deposit (pay_env [Address ''A'', Address ''OWN'']) (Address ''A'') 5 nonce_demo world_ready = Inr w'"
    by (rule deposit_demo)
  have "Address ''A'' \<noteq> ca_treasury addrs_demo" by (simp add: addrs_demo_def)
  from deposit_processed_once [OF w' world_ready_state(1) this, where cs = "[]"] w' show ?thesis
    by (auto simp: addrs_demo_def world_ready_state balance_def token_demo_def)
qed

section \<open>Quorums\<close>

lemma quorums_step:
  assumes "payroll_invoke c w = Inr w'" "is_quorum_consumed h (pay w)"
  shows "is_quorum_consumed h (pay w')"
proof -
  obtain e k where c: "c = (e, k)" by force
  show ?thesis
  proof (cases k)
    case (PcReview k')
    with assms c show ?thesis
      by (cases k') (auto simp: payroll_invoke_def review_defs is_quorum_consumed_def emits Let_def)
  next
    case (PcDeposit a m j)
    with assms c show ?thesis
      by (auto simp: payroll_invoke_def is_quorum_consumed_def dest!: treasury_frames)
  qed (use ids_frame [of e k w w'] assms c in \<open>simp_all add: ids_of_def is_quorum_consumed_def\<close>)
qed

lemma require_auth_all_ok [simp]: "require_auth_all e as = Inr u \<longleftrightarrow> (\<forall>a \<in> set as. auth e a)"
  by (induction as) auto

text \<open>A quorum approval counts once: it was signed by every listed signer, of which there
  are at least as many as required, and no payload with the same digest is ever accepted
  again, whatever is called in between.\<close>

lemma quorum_consumed_once:
  assumes "verify_and_consume_quorum e p signers q s = Inr (h, s')" "pay w = s'"
    and "w' = run_calls payroll_invoke cs w"
  shows "h = hash_quorum_payload e p \<and> unat q \<le> length signers \<and> (\<forall>a \<in> set signers. auth e a) \<and>
    is_quorum_consumed h (pay w') \<and>
    (\<forall>e' p' signers' q' t. hash_quorum_payload e' p' = h \<longrightarrow>
      verify_and_consume_quorum (e' :: venv) p' signers' q' (pay w') \<noteq> Inr t)"
proof -
  from assms(1) have e: "h = hash_quorum_payload e p" "unat q \<le> length signers" "\<forall>a \<in> set signers. auth e a"
    "is_quorum_consumed h s'"
    by (auto simp: verify_and_consume_quorum_def is_quorum_consumed_def emits Let_def)
  have "is_quorum_consumed h (pay w')" unfolding assms(3) using e(4) assms(2)
    by (intro run_calls_invariant [where I = "\<lambda>v. is_quorum_consumed h (pay v)"]) (auto intro: quorums_step)
  then show ?thesis using e by (auto simp: verify_and_consume_quorum_def Let_def)
qed

text \<open>What the quorum shows is left to the caller: the required number and the signers are
  arguments that the contract compares with nothing it stores. With no signer and a
  required number of zero, anybody consumes an approval for the stored admin and token.\<close>

lemma quorum_without_signers:
  assumes "addresses s = Some addrs" "payroll_pause_manager s = None"
    and "qa_employer p = ca_admin addrs" "qa_asset p = ca_token addrs"
    and "\<not> is_quorum_consumed (hash_quorum_payload (e :: venv) p) s"
  shows "\<exists>s'. verify_and_consume_quorum e p [] 0 s = Inr (hash_quorum_payload e p, s') \<and>
    is_quorum_consumed (hash_quorum_payload e p) s'"
  using assms by (simp add: verify_and_consume_quorum_def require_not_paused_def is_quorum_consumed_def emits Let_def)

definition quorum_demo :: QuorumApprovalPayload where
  "quorum_demo = \<lparr>qa_batch_root = [1], qa_employer = Address ''ADM'', qa_period = ''p1'',
     qa_asset = Address ''TOK'', qa_nonce = [2], qa_policy_version = 1\<rparr>"

lemma quorum_without_signers_witness:
  "\<exists>s'. verify_and_consume_quorum (pay_env []) quorum_demo [] 0 (pay world_ready) =
    Inr (hash_quorum_payload (pay_env []) quorum_demo, s')"
proof -
  have "payroll_pause_manager (pay world_ready) = None" "consumed_quorums (pay world_ready) = Map.empty"
    by (simp_all add: world_ready_def pay_eval)
  then show ?thesis
    using quorum_without_signers [OF world_ready_state(1), of quorum_demo "pay_env []"]
    by (auto simp: quorum_demo_def addrs_demo_def is_quorum_consumed_def)
qed

lemma quorum_consumed_once_witness:
  "\<exists>h s'. verify_and_consume_quorum (pay_env [Address ''A'']) quorum_demo [Address ''A''] 1 (pay world_ready) = Inr (h, s') \<and>
    (\<forall>t. verify_and_consume_quorum (pay_env [Address ''A'']) quorum_demo [Address ''A''] 1
      (pay (run_calls payroll_invoke [] (world_ready\<lparr>pay := s'\<rparr>))) \<noteq> Inr t)"
proof -
  have "payroll_pause_manager (pay world_ready) = None" "consumed_quorums (pay world_ready) = Map.empty"
    by (simp_all add: world_ready_def pay_eval)
  then have "\<exists>h s'. verify_and_consume_quorum (pay_env [Address ''A'']) quorum_demo [Address ''A''] 1
      (pay world_ready) = Inr (h, s')"
    by (simp add: verify_and_consume_quorum_def require_not_paused_def is_quorum_consumed_def
        world_ready_state quorum_demo_def addrs_demo_def require_auth_def pay_env_def Let_def)
  then obtain h s' where c: "verify_and_consume_quorum (pay_env [Address ''A'']) quorum_demo [Address ''A''] 1
      (pay world_ready) = Inr (h, s')" by blast
  have "pay (world_ready\<lparr>pay := s'\<rparr>) = s'" by simp
  from quorum_consumed_once [OF c this refl, of "[]"] c show ?thesis by blast
qed

end
