(* ===== verification/Payroll_Drafts.thy ===== *)
theory Payroll_Drafts
  imports Payroll_Treasury
begin

text \<open>
  Run drafts and batch checkpoints: how a stored draft or checkpoint may evolve over the
  histories of the payroll contract.
\<close>

section \<open>The life of a draft\<close>

definition drafts_bounded :: "payroll \<Rightarrow> bool" where
  "drafts_bounded s \<longleftrightarrow> (\<forall>d \<in> dom (run_drafts s). d \<le> unwrap_or 0 (run_draft_counter s))"

definition draft_life :: "PayrollRunDraft \<Rightarrow> PayrollRunDraft \<Rightarrow> bool" where
  "draft_life dr dr' \<longleftrightarrow>
     rd_draft_id dr' = rd_draft_id dr \<and> rd_admin dr' = rd_admin dr \<and> rd_created_at dr' = rd_created_at dr \<and>
     rd_period_label dr' = rd_period_label dr \<and>
     is_draft_transition_allowed\<^sup>*\<^sup>* (rd_state dr) (rd_state dr') \<and>
     (rd_state dr \<noteq> DraftPending \<longrightarrow> rd_total_amount dr' = rd_total_amount dr \<and>
        rd_employee_count dr' = rd_employee_count dr \<and> rd_amendment_count dr' = rd_amendment_count dr) \<and>
     rd_amendment_count dr \<le> rd_amendment_count dr'"

lemma no_way_back:
  "is_draft_transition_allowed\<^sup>*\<^sup>* a b \<Longrightarrow> a \<noteq> DraftPending \<Longrightarrow> b \<noteq> DraftPending"
  by (induction rule: rtranclp_induct)
    (auto simp: is_draft_transition_allowed_def is_allowed_draft_state_transition_internal_def
      split: RunDraftState.splits)

lemma terminal_stays:
  "is_draft_transition_allowed\<^sup>*\<^sup>* a b \<Longrightarrow> is_draft_state_terminal a \<Longrightarrow> b = a"
  by (induction rule: converse_rtranclp_induct)
    (auto simp: is_draft_transition_allowed_def is_allowed_draft_state_transition_internal_def
      is_draft_state_terminal_def is_terminal_draft_state_internal_def split: RunDraftState.splits)

lemma draft_life_refl [simp]: "draft_life dr dr"
  by (simp add: draft_life_def)

lemma draft_life_trans: "draft_life a b \<Longrightarrow> draft_life b c \<Longrightarrow> draft_life a c"
  unfolding draft_life_def using no_way_back [of "rd_state a" "rd_state b"]
  by (auto intro: rtranclp_trans)

lemma draft_life_move:
  "is_allowed_draft_state_transition_internal (rd_state dr) st \<Longrightarrow> draft_life dr (dr\<lparr>rd_state := st\<rparr>)"
  by (auto simp: draft_life_def is_draft_transition_allowed_def)

lemma draft_life_finalize: "rd_state dr = DraftPending \<Longrightarrow> draft_life dr (dr\<lparr>rd_state := DraftFinalized\<rparr>)"
  by (rule draft_life_move) (simp add: is_allowed_draft_state_transition_internal_def)

lemma draft_life_amend:
  assumes "rd_state dr = DraftPending" "unat (rd_amendment_count dr) + 1 < 2 ^ 32"
  shows "draft_life dr (dr\<lparr>rd_total_amount := m, rd_employee_count := k, rd_amendment_count := rd_amendment_count dr + 1\<rparr>)"
proof -
  have "rd_amendment_count dr \<le> rd_amendment_count dr + 1"
    using assms(2) by (simp add: word_le_nat_alt unat_word_ariths)
  then show ?thesis using assms(1) by (simp add: draft_life_def)
qed

lemma create_draft_effect:
  assumes "create_run_draft e a m n l s = Inr (d, s')"
  obtains "unat (unwrap_or 0 (run_draft_counter s)) + 1 < 2 ^ 64" "d = unwrap_or 0 (run_draft_counter s) + 1"
    "run_drafts s' = (run_drafts s)(d \<mapsto> \<lparr>rd_draft_id = d, rd_created_at = timestamp e, rd_admin = a,
       rd_total_amount = m, rd_employee_count = n, rd_period_label = l, rd_state = DraftPending,
       rd_amendment_count = 0\<rparr>)" "run_draft_counter s' = Some d"
  using assms by (auto simp: create_run_draft_def emits)

lemma draft_call_step:
  assumes "draft_invoke e k s = Inr s'" "drafts_bounded s" "run_drafts s d = Some dr"
  shows "\<exists>dr'. run_drafts s' d = Some dr' \<and> draft_life dr dr'"
proof (cases k)
  case (DrCreateDraft a m n l)
  with assms(1) obtain q where "create_run_draft e a m n l s = Inr (q, s')" by (auto simp: draft_invoke_def)
  then show ?thesis
  proof (rule create_draft_effect)
    assume c: "unat (unwrap_or 0 (run_draft_counter s)) + 1 < 2 ^ 64" "q = unwrap_or 0 (run_draft_counter s) + 1"
      "run_drafts s' = (run_drafts s)(q \<mapsto> \<lparr>rd_draft_id = q, rd_created_at = timestamp e, rd_admin = a,
       rd_total_amount = m, rd_employee_count = n, rd_period_label = l, rd_state = DraftPending,
       rd_amendment_count = 0\<rparr>)"
    have "d \<le> unwrap_or 0 (run_draft_counter s)" using assms(2,3) by (auto simp: drafts_bounded_def)
    with c(1,2) have "d \<noteq> q" by (auto simp: word_le_nat_alt unat_word_ariths)
    with c(3) assms(3) show ?thesis by simp
  qed
qed (use assms(1,3) in \<open>auto simp: draft_defs emits Let_def draft_life_move draft_life_finalize
  draft_life_amend is_allowed_draft_state_transition_internal_def\<close>)

lemma draft_bounded_step:
  assumes "draft_invoke e k s = Inr s'" "drafts_bounded s"
  shows "drafts_bounded s'"
proof (cases k)
  case (DrCreateDraft a m n l)
  with assms(1) obtain q where "create_run_draft e a m n l s = Inr (q, s')" by (auto simp: draft_invoke_def)
  then show ?thesis
  proof (rule create_draft_effect)
    assume c: "unat (unwrap_or 0 (run_draft_counter s)) + 1 < 2 ^ 64" "q = unwrap_or 0 (run_draft_counter s) + 1"
      "run_drafts s' = (run_drafts s)(q \<mapsto> \<lparr>rd_draft_id = q, rd_created_at = timestamp e, rd_admin = a,
       rd_total_amount = m, rd_employee_count = n, rd_period_label = l, rd_state = DraftPending,
       rd_amendment_count = 0\<rparr>)" "run_draft_counter s' = Some q"
    have "unwrap_or 0 (run_draft_counter s) \<le> q" using c(1,2) by (simp add: word_le_nat_alt unat_word_ariths)
    then have "d \<le> q" if "d \<in> dom (run_drafts s)" for d
      using that assms(2) by (auto simp: drafts_bounded_def intro: order_trans)
    with c(3,4) show ?thesis by (auto simp: drafts_bounded_def)
  qed
qed (use assms in \<open>auto simp: drafts_bounded_def draft_defs emits Let_def split: if_splits\<close>)

text \<open>C29. Through every history a stored draft keeps its id, creator, creation time and period;
  its state moves only along the allowed transitions; once it is no longer pending its
  amount and employee count are frozen; and once it is submitted, cancelled or expired its
  state is final.\<close>

theorem draft_life_cycle:
  assumes "run_drafts (pay w0) = Map.empty" "w = run_calls payroll_invoke cs w0"
    and "get_run_draft d (pay w) = Inr dr"
  shows "\<exists>dr'. get_run_draft d (pay (run_calls payroll_invoke cs' w)) = Inr dr' \<and> draft_life dr dr' \<and>
    (is_draft_state_terminal (rd_state dr) \<longrightarrow> rd_state dr' = rd_state dr)"
proof -
  have step: "drafts_bounded (pay v')" if "drafts_bounded (pay v)" "payroll_invoke (e, k) v = Inr v'" for e k v v'
  proof (cases "\<exists>k'. k = PcDraft k'")
    case True
    then show ?thesis using that draft_bounded_step by (auto simp: payroll_invoke_def)
  next
    case False
    then show ?thesis using drafts_frame [OF that(2)] that(1) by (auto simp: drafts_of_def drafts_bounded_def)
  qed
  have b: "drafts_bounded (pay w)" unfolding assms(2)
    by (rule run_calls_invariant [where I = "\<lambda>v. drafts_bounded (pay v)"])
      (use assms(1) step in \<open>auto simp: drafts_bounded_def [of "pay w0"]\<close>)
  let ?I = "\<lambda>v. drafts_bounded (pay v) \<and> (\<exists>dr'. run_drafts (pay v) d = Some dr' \<and> draft_life dr dr')"
  have "?I (run_calls payroll_invoke cs' w)"
  proof (rule run_calls_invariant [where I = ?I])
    show "?I w" using b assms(3) by (auto simp: get_run_draft_def)
  next
    fix c v v' assume I: "?I v" and s: "payroll_invoke c v = Inr v'"
    obtain e k where c: "c = (e, k)" by force
    from I obtain dr' where dr': "run_drafts (pay v) d = Some dr'" "draft_life dr dr'" by blast
    have "\<exists>dr''. run_drafts (pay v') d = Some dr'' \<and> draft_life dr' dr''"
    proof (cases "\<exists>k'. k = PcDraft k'")
      case True
      then obtain k' where "draft_invoke e k' (pay v) = Inr (pay v')" using s c by (auto simp: payroll_invoke_def)
      from draft_call_step [OF this _ dr'(1)] I show ?thesis by blast
    next
      case False
      then have "run_drafts (pay v') = run_drafts (pay v)"
        using drafts_frame [of e k v v'] s c by (auto simp: drafts_of_def)
      then show ?thesis using dr'(1) by simp
    qed
    then show "?I v'" using dr'(2) draft_life_trans step I s c by blast
  qed
  then obtain dr' where "run_drafts (pay (run_calls payroll_invoke cs' w)) d = Some dr'" "draft_life dr dr'" by blast
  then show ?thesis using terminal_stays by (auto simp: get_run_draft_def draft_life_def expect_def)
qed

definition draft_calls :: "(venv \<times> payroll_call) list" where
  "draft_calls = [init_call, (pay_env [Address ''ADM''], PcDraft (DrCreateDraft (Address ''ADM'') 500 2 ''may'')),
     (pay_env [Address ''ADM''], PcDraft (DrSubmitDraft (Address ''ADM'') 1))]"

definition draft_demo :: PayrollRunDraft where
  "draft_demo = \<lparr>rd_draft_id = 1, rd_created_at = 1000, rd_admin = Address ''ADM'', rd_total_amount = 500,
     rd_employee_count = 2, rd_period_label = ''may'', rd_state = DraftSubmitted, rd_amendment_count = 0\<rparr>"

lemma draft_calls_state:
  "get_run_draft 1 (pay (run_calls payroll_invoke draft_calls world_blank)) = Inr draft_demo"
  by (simp add: draft_calls_def draft_demo_def pay_eval draft_defs require_not_paused_def
      validate_symbol_not_empty_def admin_guard_def require_auth_def add_u_def get_run_draft_def
      is_allowed_draft_state_transition_internal_def expect_def)

theorem draft_life_cycle_witness:
  "\<forall>cs. \<exists>dr. get_run_draft 1 (pay (run_calls payroll_invoke cs (run_calls payroll_invoke draft_calls world_blank))) = Inr dr \<and>
    rd_total_amount dr = 500 \<and> rd_state dr = DraftSubmitted"
proof
  fix cs
  have "run_drafts (pay world_blank) = Map.empty" by (simp add: world_blank_def pay_blank_def)
  from draft_life_cycle [OF this refl draft_calls_state, of cs]
  show "\<exists>dr. get_run_draft 1 (pay (run_calls payroll_invoke cs (run_calls payroll_invoke draft_calls world_blank))) = Inr dr \<and>
    rd_total_amount dr = 500 \<and> rd_state dr = DraftSubmitted"
    by (auto simp: draft_life_def draft_demo_def is_draft_state_terminal_def is_terminal_draft_state_internal_def)
qed

section \<open>Checkpoints\<close>

definition checkpoint_life :: "BatchCheckpoint \<Rightarrow> BatchCheckpoint \<Rightarrow> bool" where
  "checkpoint_life c c' \<longleftrightarrow>
     bc_employer c' = bc_employer c \<and> bc_batch_root c' = bc_batch_root c \<and> bc_asset c' = bc_asset c \<and>
     bc_execution_nonce c' = bc_execution_nonce c \<and>
     bc_last_checkpoint_index c \<le> bc_last_checkpoint_index c' \<and> bc_total_checkpoints c \<le> bc_total_checkpoints c' \<and>
     (bc_completed c \<or> bc_failed c \<longrightarrow> c' = c)"

lemma checkpoint_life_refl [simp]: "checkpoint_life c c"
  by (simp add: checkpoint_life_def)

lemma checkpoint_life_trans: "checkpoint_life a b \<Longrightarrow> checkpoint_life b c \<Longrightarrow> checkpoint_life a c"
  unfolding checkpoint_life_def by (metis order_trans)

lemma checkpoint_call_step:
  assumes "draft_invoke e k s = Inr s'" "batch_checkpoints s key = Some c"
  shows "\<exists>c'. batch_checkpoints s' key = Some c' \<and> checkpoint_life c c'"
proof (cases k)
  case (DrCheckpoint a em r at n i st)
  have "x \<le> x + 1" if "unat x + 1 < 2 ^ 32" for x :: u32
    using that by (simp add: word_le_nat_alt unat_word_ariths)
  with assms DrCheckpoint show ?thesis
    by (auto simp: draft_defs emits Let_def checkpoint_life_def split: if_splits)
qed (use assms in \<open>auto simp: draft_defs emits Let_def checkpoint_life_def\<close>)

text \<open>Through every history a batch checkpoint keeps the employer, batch root, asset and
  nonce it was started for; its index and its count never go back; and once it is completed
  or failed it never changes again.\<close>

lemma checkpoint_never_goes_back:
  assumes "get_batch_execution_checkpoint em r asset n (pay w) = Inr c"
  shows "\<exists>c'. get_batch_execution_checkpoint em r asset n (pay (run_calls payroll_invoke cs w)) = Inr c' \<and>
    checkpoint_life c c'"
proof -
  let ?key = "(em, r, asset, n)"
  let ?I = "\<lambda>v. \<exists>c'. batch_checkpoints (pay v) ?key = Some c' \<and> checkpoint_life c c'"
  have "?I (run_calls payroll_invoke cs w)"
  proof (rule run_calls_invariant [where I = ?I])
    show "?I w" using assms by (auto simp: get_batch_execution_checkpoint_def)
  next
    fix d v v' assume "?I v" and s: "payroll_invoke d v = Inr v'"
    then obtain c' where c': "batch_checkpoints (pay v) ?key = Some c'" "checkpoint_life c c'" by blast
    obtain e k where d: "d = (e, k)" by force
    have "\<exists>c''. batch_checkpoints (pay v') ?key = Some c'' \<and> checkpoint_life c' c''"
    proof (cases "\<exists>k'. k = PcDraft k'")
      case True
      then obtain k' where "draft_invoke e k' (pay v) = Inr (pay v')" using s d by (auto simp: payroll_invoke_def)
      from checkpoint_call_step [OF this c'(1)] show ?thesis .
    next
      case False
      then have "batch_checkpoints (pay v') = batch_checkpoints (pay v)"
        using drafts_frame [of e k v v'] s d by (auto simp: drafts_of_def)
      then show ?thesis using c'(1) by simp
    qed
    then show "?I v'" using c'(2) checkpoint_life_trans by blast
  qed
  then show ?thesis by (auto simp: get_batch_execution_checkpoint_def expect_def)
qed

definition checkpoint_calls :: "(venv \<times> payroll_call) list" where
  "checkpoint_calls = [init_call, (pay_env [Address ''ADM''],
     PcDraft (DrBeginCheckpoint (Address ''ADM'') (Address ''ADM'') nonce_demo (Address ''TOK'') nonce_demo 3))]"

lemma checkpoint_never_goes_back_witness:
  "\<forall>cs. \<exists>c. get_batch_execution_checkpoint (Address ''ADM'') nonce_demo (Address ''TOK'') nonce_demo
     (pay (run_calls payroll_invoke cs (run_calls payroll_invoke checkpoint_calls world_blank))) = Inr c \<and>
     3 \<le> bc_last_checkpoint_index c"
proof
  fix cs
  let ?c = "\<lparr>bc_employer = Address ''ADM'', bc_batch_root = nonce_demo, bc_asset = Address ''TOK'',
     bc_execution_nonce = nonce_demo, bc_state = CpStarted, bc_last_checkpoint_index = 3, bc_total_checkpoints = 1,
     bc_completed = False, bc_failed = False\<rparr>"
  have "last nonce_demo \<noteq> last zero32" by (simp add: nonce_demo_def zero32_def)
  then have "nonce_demo \<noteq> zero32" by auto
  then have "get_batch_execution_checkpoint (Address ''ADM'') nonce_demo (Address ''TOK'') nonce_demo
     (pay (run_calls payroll_invoke checkpoint_calls world_blank)) = Inr ?c"
    by (simp add: checkpoint_calls_def pay_eval draft_defs admin_guard_def require_auth_def
        validate_non_zero_digest_def get_batch_execution_checkpoint_def expect_def)
  from checkpoint_never_goes_back [OF this, of cs]
  show "\<exists>c. get_batch_execution_checkpoint (Address ''ADM'') nonce_demo (Address ''TOK'') nonce_demo
     (pay (run_calls payroll_invoke cs (run_calls payroll_invoke checkpoint_calls world_blank))) = Inr c \<and>
     3 \<le> bc_last_checkpoint_index c" by (auto simp: checkpoint_life_def)
qed

end
