(* ===== verification/Payroll_Liabilities.thy ===== *)
theory Payroll_Liabilities
  imports Payroll_Lifecycle
begin

text \<open>
  The conservation of payroll obligations that \<open>contracts/tests/liability_invariants.rs\<close> states and tests on
  examples: everything that was ever prepared or executed is still reserved, or settled, or released. The
  buckets are read from the storage: the reserved amount from the locked funds, the settled one from the
  records of runs, the released one from the records of cancelled batches.
\<close>

section \<open>Buckets\<close>

definition amounts_in :: "('v \<Rightarrow> i128) \<Rightarrow> (u64 \<rightharpoonup> 'v) \<Rightarrow> i128" where
  "amounts_in f m = (\<Sum>r \<in> dom m. f (the (m r)))"

definition settled_total :: "payroll \<Rightarrow> i128" where
  "settled_total s = amounts_in pr_total_amount (payroll_runs s)"

definition released_total :: "payroll \<Rightarrow> i128" where
  "released_total s = amounts_in cb_total_amount (cancelled_batches s)"

text \<open>What a call adds to the obligations: the amount of a run that it prepares or executes.\<close>

definition new_liability :: "venv \<times> payroll_call \<Rightarrow> world \<Rightarrow> i128" where
  "new_liability c w = (case payroll_invoke c w of
     Inl _ \<Rightarrow> 0
   | Inr _ \<Rightarrow> (case snd c of PcPrepare _ _ _ x _ _ \<Rightarrow> x | PcBatch _ _ _ x _ _ \<Rightarrow> x | _ \<Rightarrow> 0))"

primrec total_liabilities :: "(venv \<times> payroll_call) list \<Rightarrow> world \<Rightarrow> i128" where
  "total_liabilities [] w = 0"
| "total_liabilities (c # cs) w = new_liability c w + total_liabilities cs (transact payroll_invoke c w)"

lemma amounts_in_empty [simp]: "amounts_in f Map.empty = 0"
  by (simp add: amounts_in_def)

lemma amounts_in_insert:
  assumes "finite (dom m)" "r \<notin> dom m"
  shows "amounts_in f (m(r \<mapsto> v)) = amounts_in f m + f v"
proof -
  have "(\<Sum>q \<in> dom m. f (the ((m(r \<mapsto> v)) q))) = amounts_in f m"
    unfolding amounts_in_def using assms(2) by (intro sum.cong) auto
  then show ?thesis using assms by (simp add: amounts_in_def)
qed

lemma amounts_in_cong:
  assumes "\<And>r. map_option f (m' r) = map_option f (m r)"
  shows "amounts_in f m' = amounts_in f m" "dom m' = dom m"
proof -
  show d: "dom m' = dom m" using assms by (metis (no_types, lifting) domIff map_option_is_None subsetI subset_antisym)
  show "amounts_in f m' = amounts_in f m" unfolding amounts_in_def d
  proof (rule sum.cong [OF refl])
    fix r assume "r \<in> dom m"
    with d obtain v v' where "m r = Some v" "m' r = Some v'" by (metis domD)
    with assms [of r] show "f (the (m' r)) = f (the (m r))" by simp
  qed
qed

section \<open>Frames\<close>

definition is_cancel :: "payroll_call \<Rightarrow> bool" where
  "is_cancel c = (case c of PcCancel _ _ _ \<Rightarrow> True | _ \<Rightarrow> False)"

lemma config_cancelled:
  assumes "config_invoke e c s = Inr s'"
  shows "cancelled_batches s' = cancelled_batches s"
proof (cases c)
  case (CfReconcile a q st)
  with assms have "update_reconciliation_status e a q st s = Inr s'" by (simp add: config_invoke_def)
  then show ?thesis by (rule reconcile_effect) (simp add: record_payroll_run_state_def publish_def)
qed (use assms in \<open>auto simp: config_defs record_payroll_run_state_def emits Let_def\<close>)

lemma cancelled_frame:
  assumes "payroll_invoke (e, c) w = Inr w'" "\<not> is_cancel c"
  shows "cancelled_batches (pay w') = cancelled_batches (pay w)"
proof (cases c)
  case (PcInitialize a t v cc tr ow)
  with assms show ?thesis by (auto simp: payroll_invoke_def initialize_def initialize_storage_version_def emits)
next
  case (PcPrepare ps ms es x n d)
  with assms show ?thesis
    by (auto simp: payroll_invoke_def prepare_payroll_run_def derive_run_id_def add_locked_funds_def
      record_payroll_run_state_def emits Let_def elim!: update_nonce_effect split: option.splits)
next
  case (PcFinalize a r)
  with assms show ?thesis
    by (auto simp: payroll_invoke_def finalize_payroll_run_def subtract_locked_funds_def record_payroll_run_state_def emits Let_def)
next
  case (PcBatch ps ms es x n d)
  with assms(1) obtain r where "batch_process_payroll e ps ms es x n d w = Inr (r, w')" by (auto simp: payroll_invoke_def)
  then show ?thesis by (rule batch_storage) simp
next
  case (PcConfig k)
  with assms show ?thesis by (auto simp: payroll_invoke_def dest: config_cancelled)
next
  case (PcDraft k)
  with assms show ?thesis by (cases k) (auto simp: payroll_invoke_def draft_defs emits Let_def)
next
  case (PcRole k)
  with assms show ?thesis by (cases k) (auto simp: payroll_invoke_def role_defs emits Let_def)
next
  case (PcReview k)
  with assms show ?thesis by (cases k) (auto simp: payroll_invoke_def review_defs emits Let_def)
next
  case (PcHold k)
  with assms show ?thesis by (cases k) (auto simp: payroll_invoke_def hold_defs emits Let_def)
next
  case (PcAddLocked asset m)
  with assms show ?thesis by (auto simp: payroll_invoke_def dest!: direct_locking_effect)
next
  case (PcSubtractLocked asset m)
  with assms show ?thesis by (auto simp: payroll_invoke_def dest!: direct_locking_effect)
qed (use assms in \<open>auto simp: payroll_invoke_def is_cancel_def deposit_def request_emergency_withdrawal_def
    approve_emergency_withdrawal_def publish_def emits Let_def dest!: token_transfer_pay\<close>)

section \<open>Conservation\<close>

text \<open>A cancelled run has an identifier that was given out and is not pending any more.\<close>

definition obligations_kept :: "payroll \<Rightarrow> bool" where
  "obligations_kept s \<longleftrightarrow> accounted s \<and> finite (dom (payroll_runs s)) \<and> finite (dom (cancelled_batches s)) \<and>
     dom (cancelled_batches s) \<inter> dom (pending_runs s) = {} \<and> (\<forall>r \<in> dom (cancelled_batches s). r \<le> get_run_counter s) \<and>
     (addresses s = None \<longrightarrow> cancelled_batches s = Map.empty)"

definition obligations :: "payroll \<Rightarrow> i128" where
  "obligations s = pending_total s + settled_total s + released_total s"

lemma settled_record:
  assumes "payroll_runs s' = (payroll_runs s)(r \<mapsto> run)" "r \<notin> dom (payroll_runs s)" "finite (dom (payroll_runs s))"
  shows "settled_total s' = settled_total s + pr_total_amount run"
  using assms by (simp add: settled_total_def amounts_in_insert)

lemma next_id_not_cancelled:
  assumes "obligations_kept s" "unat (get_run_counter s) + 1 < 2 ^ 64"
  shows "\<forall>r \<in> dom (cancelled_batches s). r \<le> get_run_counter s + 1 \<and> r \<noteq> get_run_counter s + 1"
proof
  fix r assume "r \<in> dom (cancelled_batches s)"
  then have "r \<le> get_run_counter s" using assms(1) unfolding obligations_kept_def by blast
  also have "\<dots> < get_run_counter s + 1"
    using next_id_unused(1) [of s] assms by (simp add: obligations_kept_def)
  finally show "r \<le> get_run_counter s + 1 \<and> r \<noteq> get_run_counter s + 1" by auto
qed

lemma obligations_prepared:
  assumes "obligations_kept s" "prepared e x n count addrs p s s'" "accounted s'"
    "cancelled_batches s' = cancelled_batches s"
  shows "obligations_kept s' \<and> obligations s' = obligations s + x"
proof -
  note K = assms(1) [unfolded obligations_kept_def] and P = assms(2) [unfolded prepared_def]
  have id: "get_run_counter s + 1 \<notin> run_ids_used s"
    and old: "\<forall>r \<in> dom (cancelled_batches s). r \<le> get_run_counter s + 1 \<and> r \<noteq> get_run_counter s + 1"
    using next_id_unused(2) [of s] next_id_not_cancelled [OF assms(1)] K P by auto
  have ctr: "get_run_counter s' = get_run_counter s + 1" using P by (simp add: get_run_counter_def)
  have "pending_total s' = pending_total s + x"
    using pending_total_insert [of s' s "get_run_counter s + 1" p] P K id
    by (simp add: accounted_def run_ids_used_def)
  then have "obligations s' = obligations s + x"
    using P assms(4) by (simp add: obligations_def settled_total_def released_total_def)
  moreover have "payroll_runs s' = payroll_runs s" "addresses s' \<noteq> None"
    "dom (pending_runs s') = insert (get_run_counter s + 1) (dom (pending_runs s))"
    using P by auto
  ultimately show ?thesis
    using K assms(3,4) ctr old unfolding obligations_kept_def by auto
qed

lemma obligations_executed:
  assumes "obligations_kept s" "executed e x n addrs run s s'" "accounted s'"
    "cancelled_batches s' = cancelled_batches s"
  shows "obligations_kept s' \<and> obligations s' = obligations s + x"
proof -
  note K = assms(1) [unfolded obligations_kept_def] and E = assms(2) [unfolded executed_def]
  have id: "get_run_counter s + 1 \<notin> run_ids_used s"
    and old: "\<forall>r \<in> dom (cancelled_batches s). r \<le> get_run_counter s + 1 \<and> r \<noteq> get_run_counter s + 1"
    using next_id_unused(2) [of s] next_id_not_cancelled [OF assms(1)] K E by auto
  have ctr: "get_run_counter s' = get_run_counter s + 1" using E by (simp add: get_run_counter_def)
  have "settled_total s' = settled_total s + x"
    using settled_record [of s' s "get_run_counter s + 1" run] E K id by (simp add: run_ids_used_def)
  then have "obligations s' = obligations s + x"
    using E assms(4) by (simp add: obligations_def pending_total_def released_total_def)
  moreover have "pending_runs s' = pending_runs s" "finite (dom (payroll_runs s'))" "addresses s' \<noteq> None" using E K by auto
  ultimately show ?thesis
    using K assms(3,4) ctr old unfolding obligations_kept_def by auto
qed

text \<open>Closing a run moves its amount out of the pending total.\<close>

lemma closed_pending:
  assumes "obligations_kept s" "closed_run r p addrs s s'"
  shows "pending_total s' = pending_total s - pp_total_amount p" "get_run_counter s' = get_run_counter s"
    "r \<in> run_ids_used s" "r \<notin> dom (cancelled_batches s)" "r \<notin> dom (payroll_runs s)" "r \<le> get_run_counter s"
proof -
  note K = assms(1) [unfolded obligations_kept_def] and C = assms(2) [unfolded closed_run_def]
  show "pending_total s' = pending_total s - pp_total_amount p"
    using C K by (intro pending_total_remove) (auto simp: accounted_def)
  show used: "r \<in> run_ids_used s" using C by (auto simp: run_ids_used_def)
  show "r \<notin> dom (cancelled_batches s)" using C K by blast
  show "r \<notin> dom (payroll_runs s)" using C by auto
  show "r \<le> get_run_counter s" using used K by (simp add: accounted_def)
qed (use assms in \<open>simp add: closed_run_def get_run_counter_def\<close>)

lemma obligations_finalized:
  assumes "obligations_kept s" "closed_run r p addrs s s'" "accounted s'"
    "cancelled_batches s' = cancelled_batches s" "payroll_runs s' = (payroll_runs s)(r \<mapsto> run)"
    "pr_total_amount run = pp_total_amount p"
  shows "obligations_kept s' \<and> obligations s' = obligations s"
proof -
  note c = closed_pending [OF assms(1,2)]
  have "settled_total s' = settled_total s + pp_total_amount p"
    using settled_record [OF assms(5) c(5)] assms(1,6) by (simp add: obligations_kept_def)
  then show ?thesis
    using assms c unfolding obligations_kept_def
    by (auto simp: obligations_def released_total_def closed_run_def)
qed

lemma obligations_cancelled:
  assumes "obligations_kept s" "closed_run r p addrs s s'" "accounted s'"
    "cancelled_batches s' = (cancelled_batches s)(r \<mapsto> b)" "payroll_runs s' = payroll_runs s"
    "cb_total_amount b = pp_total_amount p"
  shows "obligations_kept s' \<and> obligations s' = obligations s"
proof -
  note c = closed_pending [OF assms(1,2)]
  have "released_total s' = released_total s + pp_total_amount p"
    using assms(1,4,6) c(4) by (simp add: released_total_def amounts_in_insert obligations_kept_def)
  then show ?thesis
    using assms c unfolding obligations_kept_def
    by (auto simp: obligations_def settled_total_def closed_run_def)
qed

lemma obligations_frame:
  assumes "obligations_kept s" "accounted s'" "cancelled_batches s' = cancelled_batches s"
    "pending_runs s' = pending_runs s" "addresses s' = None \<Longrightarrow> addresses s = None"
    "addresses s \<noteq> None \<Longrightarrow> get_run_counter s' = get_run_counter s"
    "\<And>r. map_option run_core (payroll_runs s' r) = map_option run_core (payroll_runs s r)"
  shows "obligations_kept s' \<and> obligations s' = obligations s"
proof -
  have "map_option pr_total_amount (payroll_runs s' r) = map_option pr_total_amount (payroll_runs s r)" for r
    using assms(7) [of r] by (cases "payroll_runs s r"; cases "payroll_runs s' r") (auto simp: run_core_def)
  note a = amounts_in_cong [of pr_total_amount, OF this]
  show ?thesis
    using assms(1-6) a unfolding obligations_kept_def
    by (cases "addresses s") (auto simp: obligations_def settled_total_def released_total_def pending_total_def)
qed

lemma counter_frame:
  assumes "payroll_invoke (e, c) w = Inr w'" "\<not> is_run_call c"
  shows "(addresses (pay w') = None \<longrightarrow> addresses (pay w) = None) \<and>
    (addresses (pay w) \<noteq> None \<longrightarrow> get_run_counter (pay w') = get_run_counter (pay w))"
  using assms(1)
proof (cases rule: payroll_invoke_cases)
  case (init a t v cc tr ow)
  then show ?thesis by (auto simp: initialize_def)
next
  case frame
  then have "map_option ca_token (addresses (pay w')) = map_option ca_token (addresses (pay w))"
    "run_counter (pay w') = run_counter (pay w)" by (simp_all add: same_accounts_def)
  then show ?thesis by (auto simp: get_run_counter_def)
qed (use assms(2) in \<open>auto simp: is_run_call_def get_run_counter_def\<close>)

lemma obligations_step:
  assumes "obligations_kept (pay w)" "payroll_invoke (e, c) w = Inr w'"
  shows "obligations_kept (pay w') \<and> obligations (pay w') = obligations (pay w) + new_liability (e, c) w"
proof -
  have acc: "accounted (pay w')"
    using accounted_step [OF _ assms(2)] assms(1) by (simp add: obligations_kept_def)
  note cf = cancelled_frame [OF assms(2)]
  show ?thesis
  proof (cases "is_run_call c")
    case False
    then have "\<not> is_cancel c" by (auto simp: is_run_call_def is_cancel_def split: payroll_call.splits)
    moreover have "new_liability (e, c) w = 0"
      using False by (auto simp: new_liability_def assms(2) is_run_call_def split: payroll_call.splits)
    ultimately show ?thesis
      using obligations_frame [OF assms(1) acc cf] accounts_frame [OF assms(2) False]
        counter_frame [OF assms(2) False] cores_frame [OF assms(2) False] by simp
  next
    case True
    then consider (prep) ps ms es x n d where "c = PcPrepare ps ms es x n d" | (fin) a r where "c = PcFinalize a r"
      | (canc) a r y where "c = PcCancel a r y" | (batch) ps ms es x n d where "c = PcBatch ps ms es x n d"
      by (auto simp: is_run_call_def split: payroll_call.splits)
    then show ?thesis
    proof cases
      case prep
      with assms(2) obtain r where "prepare_payroll_run e ps ms es x n d (pay w) = Inr (r, pay w')"
        by (auto simp: payroll_invoke_def)
      then show ?thesis
      proof (rule prepare_effect)
        fix addrs p assume "prepared e x n (length ps) addrs p (pay w) (pay w')"
        from obligations_prepared [OF assms(1) this acc] show ?thesis
          using cf prep assms(2) by (simp add: is_cancel_def new_liability_def)
      qed
    next
      case fin
      with assms(2) have "finalize_payroll_run e a r (pay w) = Inr (pay w')" by (auto simp: payroll_invoke_def)
      then show ?thesis
        by (rule finalize_effect)
          (use obligations_finalized [OF assms(1) _ acc] cf fin assms(2) in \<open>simp add: is_cancel_def new_liability_def\<close>)
    next
      case canc
      with assms(2) have "cancel_payroll_run e a r y (pay w) = Inr (pay w')" by (auto simp: payroll_invoke_def)
      then show ?thesis
        by (rule cancel_effect)
          (use obligations_cancelled [OF assms(1) _ acc] canc assms(2) in \<open>simp add: new_liability_def\<close>)
    next
      case batch
      with assms(2) obtain r where "batch_process_payroll e ps ms es x n d w = Inr (r, w')"
        by (auto simp: payroll_invoke_def)
      then show ?thesis
      proof (rule batch_effect)
        fix addrs run assume "executed e x n addrs run (pay w) (pay w')"
        from obligations_executed [OF assms(1) this acc] show ?thesis
          using cf batch assms(2) by (simp add: is_cancel_def new_liability_def)
      qed
    qed
  qed
qed

lemma obligations_run:
  "obligations_kept (pay w) \<Longrightarrow> obligations_kept (pay (run_calls payroll_invoke cs w)) \<and>
    obligations (pay (run_calls payroll_invoke cs w)) = obligations (pay w) + total_liabilities cs w"
proof (induction cs arbitrary: w)
  case (Cons c cs)
  obtain e k where c: "c = (e, k)" by force
  let ?w' = "transact payroll_invoke c w"
  have "obligations_kept (pay ?w') \<and> obligations (pay ?w') = obligations (pay w) + new_liability c w"
  proof (cases "payroll_invoke c w")
    case (Inl x)
    then show ?thesis using Cons.prems by (simp add: transact_def new_liability_def)
  next
    case (Inr w')
    then show ?thesis using obligations_step [OF Cons.prems, of e k w'] c by (simp add: transact_def)
  qed
  with Cons.IH [of ?w'] show ?case by simp
qed simp

lemma cancelled_demo: "cancelled_batches (pay world_prepared) = Map.empty"
  by (simp add: world_prepared_def prepare_eval pay_eval addrs_demo_def get_locked_funds_def)

text \<open>C3. Payroll obligations are conserved across periods: after any history of calls on a new contract,
  whatever fails in between, the amounts of all runs that were prepared or executed are exactly the
  amounts of the pending runs, of the recorded runs and of the cancelled runs together. As long as
  nobody has called \<open>add_locked_funds\<close> or \<open>subtract_locked_funds\<close> from outside, the first part is what the
  contract reports as locked for its token.\<close>

theorem liabilities_conserved:
  assumes "blank (pay w0)" "cancelled_batches (pay w0) = Map.empty" "s = pay (run_calls payroll_invoke cs w0)"
  shows "total_liabilities cs w0 = pending_total s + settled_total s + released_total s \<and>
    (list_all (\<lambda>(e, c). \<not> direct_locking c) cs \<longrightarrow> (\<forall>addrs. addresses s = Some addrs \<longrightarrow>
      total_liabilities cs w0 = get_locked_funds (ca_token addrs) s + settled_total s + released_total s))"
proof -
  have e: "pending_runs (pay w0) = Map.empty" "payroll_runs (pay w0) = Map.empty"
    using assms(1) by (auto simp: blank_def run_ids_used_def)
  have "accounted (pay w0)" using accounted_run [OF assms(1), of "[]"] by simp
  with assms(2) e have "obligations_kept (pay w0)" "obligations (pay w0) = 0"
    by (simp_all add: obligations_kept_def obligations_def pending_total_def settled_total_def released_total_def)
  from obligations_run [OF this(1), of cs] this(2)
  have t: "total_liabilities cs w0 = pending_total s + settled_total s + released_total s"
    by (simp add: assms(3) obligations_def)
  have "funds_locked s" if "list_all (\<lambda>(e, c). \<not> direct_locking c) cs"
    unfolding assms(3) using that by (intro funds_run [OF assms(1)]) (auto simp: list_all_iff)
  with t show ?thesis by (simp add: funds_locked_def)
qed

theorem liabilities_conserved_witness:
  "total_liabilities [init_call, prepare_call] world_blank = 30 \<and> get_locked_funds (Address ''TOK'') (pay world_prepared) = 30"
proof -
  have "cancelled_batches (pay world_blank) = Map.empty" by (simp add: world_blank_def pay_blank_def)
  from liabilities_conserved [OF blank_demo this arg_cong [OF world_prepared_def, of pay]] show ?thesis
    by (simp add: settled_total_def released_total_def pending_total_def world_prepared_state cancelled_demo pending_demo_def)
qed

end
