(* ===== verification/Payroll_Symbols.thy ===== *)
theory Payroll_Symbols
  imports Prelude
begin

text \<open>
  \<open>normalize_asset_symbol\<close> of \<open>payroll/src/lib.rs\<close>: trimming, length check and upper-casing of an
  asset symbol. The argument is the list of the Unicode scalar values of the text. \<open>Symbol::new\<close> of
  the host, which checks the alphabet of symbols, is the argument \<open>symbol_new\<close>. The module
  \<open>payroll/src/assets.rs\<close> has a second normalization, \<open>normalize_symbol\<close>, that upper-cases with the
  full case table of Unicode; the table beyond ASCII is the argument \<open>upper\<close>.
\<close>

section \<open>Text as the Rust library sees it\<close>

type_synonym scalars = "nat list"

text \<open>The code points with the property \<open>White_Space\<close>, which \<open>str::trim\<close> removes on both sides.\<close>

definition is_whitespace :: "nat \<Rightarrow> bool" where
  "is_whitespace c \<longleftrightarrow> 9 \<le> c \<and> c \<le> 13 \<or> c \<in> {0x20, 0x85, 0xA0, 0x1680} \<or> 0x2000 \<le> c \<and> c \<le> 0x200A \<or>
     c \<in> {0x2028, 0x2029, 0x202F, 0x205F, 0x3000}"

definition trim :: "scalars \<Rightarrow> scalars" where
  "trim t = rev (dropWhile is_whitespace (rev (dropWhile is_whitespace t)))"

definition utf8 :: "nat \<Rightarrow> nat list" where
  "utf8 c =
     (if c < 0x80 then [c]
      else if c < 0x800 then [0xC0 + c div 64, 0x80 + c mod 64]
      else if c < 0x10000 then [0xE0 + c div 4096, 0x80 + c div 64 mod 64, 0x80 + c mod 64]
      else [0xF0 + c div 262144, 0x80 + c div 4096 mod 64, 0x80 + c div 64 mod 64, 0x80 + c mod 64])"

definition as_bytes :: "scalars \<Rightarrow> nat list" where
  "as_bytes t = concat (map utf8 t)"

section \<open>The helper\<close>

definition normalize_byte :: "nat \<Rightarrow> nat outcome" where
  "normalize_byte b =
     and_then (panic_if (\<not> b < 128) ''Asset symbol must be ASCII'') (\<lambda>_.
     Inr (if 97 \<le> b \<and> b \<le> 122 then b - 32 else b))"

primrec normalize_bytes :: "nat list \<Rightarrow> nat list outcome" where
  "normalize_bytes [] = Inr []"
| "normalize_bytes (b # bs) =
     and_then (normalize_byte b) (\<lambda>n.
     and_then (normalize_bytes bs) (\<lambda>ns. Inr (n # ns)))"

definition normalize_asset_symbol :: "(string \<Rightarrow> symbol outcome) \<Rightarrow> scalars \<Rightarrow> symbol outcome" where
  "normalize_asset_symbol symbol_new symbol =
     (let trimmed = trim symbol in
     and_then (panic_if (trimmed = []) ''Asset symbol cannot be empty'') (\<lambda>_.
     let bytes = as_bytes trimmed in
     and_then (panic_if (length bytes > 32) ''Asset symbol too long'') (\<lambda>_.
     and_then (normalize_bytes bytes) (\<lambda>normalized.
     symbol_new (map char_of normalized)))))"

section \<open>Correctness\<close>

definition ascii_upper :: "nat \<Rightarrow> nat" where
  "ascii_upper c = (if 97 \<le> c \<and> c \<le> 122 then c - 32 else c)"

lemma normalize_bytes_iff: "normalize_bytes bs = Inr ns \<longleftrightarrow> list_all (\<lambda>b. b < 128) bs \<and> ns = map ascii_upper bs"
  by (induction bs arbitrary: ns) (auto simp: normalize_byte_def ascii_upper_def)

lemma ascii_bytes: "list_all (\<lambda>b. b < 128) (as_bytes t) \<longleftrightarrow> list_all (\<lambda>c. c < 128) t"
  by (induction t) (auto simp: as_bytes_def utf8_def)

lemma as_bytes_ascii: "list_all (\<lambda>c. c < 128) t \<Longrightarrow> as_bytes t = t"
  by (induction t) (auto simp: as_bytes_def utf8_def)

lemma trim_fixed:
  assumes "t \<noteq> []" "\<not> is_whitespace (hd t)" "\<not> is_whitespace (last t)"
  shows "trim t = t"
proof -
  have "dropWhile is_whitespace t = t" "dropWhile is_whitespace (rev t) = rev t"
    using assms by (simp_all add: dropWhile_eq_self_iff hd_rev)
  then show ?thesis by (simp add: trim_def)
qed

lemma trim_ends:
  assumes "trim t \<noteq> []"
  shows "\<not> is_whitespace (hd (trim t))" "\<not> is_whitespace (last (trim t))"
proof -
  let ?r = "rev (dropWhile is_whitespace t)"
  have r: "dropWhile is_whitespace ?r \<noteq> []" using assms by (simp add: trim_def)
  have l: "last (dropWhile is_whitespace ?r) = last ?r" using r by (metis append_is_Nil_conv last_append takeWhile_dropWhile_id)
  have "?r \<noteq> []" using r by (metis dropWhile.simps(1))
  then have "\<not> is_whitespace (last ?r)" by (simp add: last_rev hd_dropWhile)
  then show "\<not> is_whitespace (hd (trim t))" using l r by (simp add: trim_def hd_rev)
  show "\<not> is_whitespace (last (trim t))" using hd_dropWhile [OF r] by (simp add: trim_def last_rev)
qed

text \<open>The helper succeeds exactly on texts that are, after trimming, one to 32 ASCII characters, and
  returns their upper-case form; non-ASCII text is rejected wherever it stands.\<close>

lemma normalize_asset_symbol_iff:
  "normalize_asset_symbol sn t = Inr s \<longleftrightarrow> trim t \<noteq> [] \<and> length (trim t) \<le> 32 \<and> list_all (\<lambda>c. c < 128) (trim t) \<and>
    sn (map (\<lambda>c. char_of (ascii_upper c)) (trim t)) = Inr s"
  by (auto simp: normalize_asset_symbol_def Let_def normalize_bytes_iff ascii_bytes as_bytes_ascii comp_def not_less)

lemma ascii_upper_ws: "is_whitespace (ascii_upper c) = is_whitespace c"
  by (auto simp: ascii_upper_def is_whitespace_def)

lemma ascii_upper_lt: "c < 128 \<Longrightarrow> ascii_upper c < 128"
  by (auto simp: ascii_upper_def)

lemma ascii_upper_idem: "ascii_upper (ascii_upper c) = ascii_upper c"
  by (auto simp: ascii_upper_def)

text \<open>A symbol that was produced once is a fixed point, where \<open>Symbol::new\<close> keeps the text it accepts;
  and texts that differ only in surrounding space and in the case of ASCII letters give one symbol.\<close>

lemma normalize_asset_symbol_idempotent:
  assumes "normalize_asset_symbol sn t = Inr s" "\<And>x y. sn x = Inr y \<Longrightarrow> y = x"
  shows "normalize_asset_symbol sn (map of_char s) = Inr s"
proof -
  let ?u = "map ascii_upper (trim t)"
  from assms(1) have t: "trim t \<noteq> []" "length (trim t) \<le> 32" "list_all (\<lambda>c. c < 128) (trim t)" and
    sn: "sn (map (\<lambda>c. char_of (ascii_upper c)) (trim t)) = Inr s" by (auto simp: normalize_asset_symbol_iff)
  from assms(2) [OF sn] have s: "s = map (\<lambda>c. char_of (ascii_upper c)) (trim t)" .
  have lt: "list_all (\<lambda>c. c < 128) ?u" using t(3) by (auto simp: list_all_iff ascii_upper_lt)
  have u: "map of_char s = ?u" unfolding s using lt by (auto simp: list_all_iff)
  have "trim ?u = ?u" using t(1) trim_ends [OF t(1)] by (intro trim_fixed) (simp_all add: hd_map last_map ascii_upper_ws)
  then show ?thesis unfolding u using t lt sn by (simp add: normalize_asset_symbol_iff comp_def ascii_upper_idem)
qed

lemma normalize_asset_symbol_case_insensitive:
  assumes "map ascii_upper (trim t) = map ascii_upper (trim u)"
  shows "normalize_asset_symbol sn t = Inr s \<longleftrightarrow> normalize_asset_symbol sn u = Inr s"
proof -
  have "list_all (\<lambda>c. c < 128) x \<longleftrightarrow> list_all (\<lambda>c. c < 128) (map ascii_upper x)" for x
    by (induction x) (auto simp: ascii_upper_def)
  moreover have "map (\<lambda>c. char_of (ascii_upper c)) x = map char_of (map ascii_upper x)" for x by simp
  moreover have "length (trim t) = length (trim u)" using assms by (rule map_eq_imp_length_eq)
  ultimately show ?thesis using assms by (metis normalize_asset_symbol_iff list.size(3) length_0_conv)
qed

section \<open>The normalization of assets.rs\<close>

definition to_uppercase :: "(nat \<Rightarrow> scalars) \<Rightarrow> scalars \<Rightarrow> scalars" where
  "to_uppercase upper t = concat (map (\<lambda>c. if c < 128 then [ascii_upper c] else upper c) t)"

definition normalize_symbol :: "(nat \<Rightarrow> scalars) \<Rightarrow> scalars \<Rightarrow> scalars option" where
  "normalize_symbol upper symbol = (let t = trim symbol in if t = [] then None else Some (to_uppercase upper t))"

lemma to_uppercase_ascii: "list_all (\<lambda>c. c < 128) t \<Longrightarrow> to_uppercase upper t = map ascii_upper t"
  by (induction t) (simp_all add: to_uppercase_def)

text \<open>Where the contract's helper succeeds, and \<open>Symbol::new\<close> keeps the text, the two normalizations agree;
  but \<open>normalize_symbol\<close> also accepts text that is too long or not ASCII.\<close>

lemma normalizations_agree:
  assumes "normalize_asset_symbol sn t = Inr s" "\<And>x y. sn x = Inr y \<Longrightarrow> y = x"
  shows "normalize_symbol upper t = Some (map of_char s)"
proof -
  from assms(1) have t: "trim t \<noteq> []" "list_all (\<lambda>c. c < 128) (trim t)" and
    sn: "sn (map (\<lambda>c. char_of (ascii_upper c)) (trim t)) = Inr s" by (auto simp: normalize_asset_symbol_iff)
  have m: "ascii_upper c mod 256 = ascii_upper c" if "c < 128" for c using ascii_upper_lt [OF that] by simp
  have "map of_char s = map ascii_upper (trim t)" unfolding assms(2) [OF sn] using t(2) by (auto simp: list_all_iff m)
  then show ?thesis using t by (simp add: normalize_symbol_def Let_def to_uppercase_ascii)
qed

lemma normalize_symbol_accepts_more:
  "normalize_asset_symbol Inr (replicate 33 97) = Inl (Panic ''Asset symbol too long'') \<and> normalize_symbol upper (replicate 33 97) = Some (replicate 33 65) \<and>
   normalize_asset_symbol Inr [0xE9] = Inl (Panic ''Asset symbol must be ASCII'') \<and> normalize_symbol upper [0xE9] = Some (upper 0xE9)"
proof -
  have w: "\<not> is_whitespace 97" "\<not> is_whitespace 0xE9" by (simp_all add: is_whitespace_def)
  then have t: "trim (replicate 33 97) = replicate 33 97" "trim [0xE9] = [0xE9]"
    by (intro trim_fixed; simp add: hd_replicate last_replicate)+
  have "as_bytes (replicate 33 97) = replicate 33 97" by (rule as_bytes_ascii) (simp add: list_all_iff)
  moreover have "to_uppercase upper (replicate 33 97) = replicate 33 65" by (simp add: to_uppercase_ascii list_all_iff ascii_upper_def)
  ultimately show ?thesis
    by (simp add: normalize_asset_symbol_def normalize_symbol_def t Let_def as_bytes_def utf8_def normalize_byte_def to_uppercase_def)
qed

end
