(* ===== verification/Payroll_Registry.thy ===== *)
theory Payroll_Registry
  imports Pause_Manager
begin

text \<open>
  \<open>contracts/payroll_registry/src/lib.rs\<close>: companies with their admin and treasury, employees
  with their commitments and eligibility, rotation of admin and treasury, approval
  thresholds, and the check of Stellar account addresses.
\<close>

section \<open>Data and storage\<close>

record CompanyInfo =
  ci_admin :: address
  ci_treasury :: address

datatype EmployeeStatus = EmpActive | EmpInactive | EmpIncomplete

record PendingCompanyRotation =
  cr_new_holder :: address
  cr_proposed_by :: address
  cr_proposed_at :: u64

record ApprovalThreshold =
  at_company_id :: u64
  at_required_approvals :: u32
  at_configured_at :: u64
  at_configured_by :: address
  at_is_active :: bool

record PendingThresholdRotation =
  pt_company_id :: u64
  pt_new_threshold :: u32
  pt_proposed_at :: u64
  pt_proposed_by :: address
  pt_effective_after :: u64

record registry = host +
  companies :: "u64 \<rightharpoonup> CompanyInfo"
  employees_of :: "u64 \<times> address \<rightharpoonup> bytes"
  company_sequence :: "u64 option"
  emp_status :: "u64 \<times> address \<rightharpoonup> EmployeeStatus"
  reg_pending_admin :: "u64 \<rightharpoonup> PendingCompanyRotation"
  reg_pending_treasury :: "u64 \<rightharpoonup> PendingCompanyRotation"
  company_of_admin :: "address \<rightharpoonup> u64"
  reg_pause_manager :: "address option"
  approval_thresholds :: "u64 \<rightharpoonup> ApprovalThreshold"
  pending_thresholds :: "u64 \<rightharpoonup> PendingThresholdRotation"

definition EmployeeStatus_val :: "EmployeeStatus \<Rightarrow> scval" where
  "EmployeeStatus_val st = VU32 (case st of EmpActive \<Rightarrow> 0 | EmpInactive \<Rightarrow> 1 | EmpIncomplete \<Rightarrow> 2)"

section \<open>Stellar account addresses\<close>

definition STELLAR_ACCOUNT_STRKEY_LEN :: nat where "STELLAR_ACCOUNT_STRKEY_LEN = 56"

definition STELLAR_ACCOUNT_VERSION_BYTE :: u8 where "STELLAR_ACCOUNT_VERSION_BYTE = push_bit 3 6"

definition decode_base32_char :: "u8 \<Rightarrow> u8 option" where
  "decode_base32_char ch =
     (if 65 \<le> ch \<and> ch \<le> 90 then Some (ch - 65)
      else if 50 \<le> ch \<and> ch \<le> 55 then Some (ch - 50 + 26)
      else None)"

text \<open>The decoding loop: the bit buffer, the number of bits it holds, and the bytes written so
  far; the output array has 35 places.\<close>

fun decode_loop :: "u16 \<Rightarrow> nat \<Rightarrow> bytes \<Rightarrow> bytes \<Rightarrow> bytes option" where
  "decode_loop buffer bits_left out [] = (if length out = 35 \<and> bits_left = 0 then Some out else None)"
| "decode_loop buffer bits_left out (ch # rest) = (case decode_base32_char ch of
     None \<Rightarrow> None
   | Some v \<Rightarrow>
       let buffer = push_bit 5 buffer OR ucast v; bits_left = bits_left + 5 in
       if bits_left \<ge> 8 then
         let bits_left = bits_left - 8 in
         if length out \<ge> 35 then None
         else decode_loop (if bits_left > 0 then buffer AND (push_bit bits_left 1 - 1) else 0) bits_left
           (out @ [ucast (drop_bit bits_left buffer)]) rest
       else decode_loop buffer bits_left out rest)"

definition decode_stellar_base32 :: "bytes \<Rightarrow> bytes option" where
  "decode_stellar_base32 encoded = decode_loop 0 0 [] encoded"

definition crc_shift :: "u16 \<Rightarrow> u16" where
  "crc_shift crc = (if crc AND 0x8000 \<noteq> 0 then push_bit 1 crc XOR 0x1021 else push_bit 1 crc)"

definition crc_byte :: "u16 \<Rightarrow> u8 \<Rightarrow> u16" where
  "crc_byte crc byte = (crc_shift ^^ 8) (crc XOR push_bit 8 (ucast byte))"

definition crc16_xmodem :: "bytes \<Rightarrow> u16" where
  "crc16_xmodem bs = foldl crc_byte 0 bs"

definition from_le_bytes16 :: "u8 \<Rightarrow> u8 \<Rightarrow> u16" where
  "from_le_bytes16 lo hi = ucast lo OR push_bit 8 (ucast hi)"

definition string_bytes :: "string \<Rightarrow> bytes" where
  "string_bytes s = map of_char s"

definition employee_wallet_format_is_valid :: "string \<Rightarrow> bool" where
  "employee_wallet_format_is_valid employee_wallet =
     (if length employee_wallet \<noteq> STELLAR_ACCOUNT_STRKEY_LEN then False
      else (case decode_stellar_base32 (string_bytes employee_wallet) of
        None \<Rightarrow> False
      | Some decoded \<Rightarrow>
          if decoded ! 0 \<noteq> STELLAR_ACCOUNT_VERSION_BYTE then False
          else from_le_bytes16 (decoded ! 33) (decoded ! 34) = crc16_xmodem (take 33 decoded)))"

definition require_valid_employee_wallet_format :: "string \<Rightarrow> unit outcome" where
  "require_valid_employee_wallet_format employee_wallet =
     panic_if (\<not> employee_wallet_format_is_valid employee_wallet) ''Invalid employee wallet address format''"

definition validate_employee_wallet_format :: "string \<Rightarrow> bool" where
  "validate_employee_wallet_format employee_wallet = employee_wallet_format_is_valid employee_wallet"

section \<open>Guards\<close>

definition reg_require_not_paused :: "'x penv_scheme \<Rightarrow> registry \<Rightarrow> unit outcome" where
  "reg_require_not_paused e s = pause_guard ''Payroll is paused'' e (reg_pause_manager s)"

definition validate_employer_metadata_value :: "string \<Rightarrow> string \<Rightarrow> unit outcome" where
  "validate_employer_metadata_value val field_name =
     and_then (panic_if (length val = 0) (field_name @ '' must not be empty'')) (\<lambda>_.
     panic_if (length val > 256) (field_name @ '' exceeds maximum length''))"

definition reg_set_pause_manager :: "'x env_scheme \<Rightarrow> address \<Rightarrow> address \<Rightarrow> registry \<Rightarrow> registry outcome" where
  "reg_set_pause_manager e adm pm s =
     and_then (require_auth e adm) (\<lambda>_.
     Inr (emit_registry_pause_manager_set pm (s\<lparr>reg_pause_manager := Some pm\<rparr>)))"

text \<open>Loading a company whose admin must have signed, and whose admin must be the caller.\<close>

definition company_guard :: "'x env_scheme \<Rightarrow> u64 \<Rightarrow> registry \<Rightarrow> CompanyInfo outcome" where
  "company_guard e company_id s =
     and_then (expect ''Company not found'' (companies s company_id)) (\<lambda>info.
     and_then (require_auth e (ci_admin info)) (\<lambda>_.
     Inr info))"

definition company_admin_guard ::
  "'x env_scheme \<Rightarrow> string \<Rightarrow> u64 \<Rightarrow> address \<Rightarrow> registry \<Rightarrow> CompanyInfo outcome" where
  "company_admin_guard e msg company_id current_admin s =
     and_then (expect ''Company not found'' (companies s company_id)) (\<lambda>info.
     and_then (panic_if (current_admin \<noteq> ci_admin info) msg) (\<lambda>_.
     and_then (require_auth e current_admin) (\<lambda>_.
     Inr info)))"

lemma company_guard_ok [simp]:
  "company_guard e c s = Inr i \<longleftrightarrow> companies s c = Some i \<and> auth e (ci_admin i)"
  by (auto simp: company_guard_def)

lemma company_admin_guard_ok [simp]:
  "company_admin_guard e m c a s = Inr i \<longleftrightarrow> companies s c = Some i \<and> a = ci_admin i \<and> auth e a"
  by (auto simp: company_admin_guard_def)

section \<open>Companies and employees\<close>

definition register_company ::
  "'x penv_scheme \<Rightarrow> address \<Rightarrow> address \<Rightarrow> registry \<Rightarrow> (u64 \<times> registry) outcome" where
  "register_company e adm treas s =
     and_then (reg_require_not_paused e s) (\<lambda>_.
     and_then (require_auth e adm) (\<lambda>_.
     and_then (panic_if (company_of_admin s adm \<noteq> None) ''Company already registered'') (\<lambda>_.
     let id = unwrap_or 0 (company_sequence s) in
     and_then (add_u id 1) (\<lambda>nxt.
     Inr (id, emit_company_registered id adm treas
       (s\<lparr>company_sequence := Some nxt,
          companies := (companies s)(id \<mapsto> \<lparr>ci_admin = adm, ci_treasury = treas\<rparr>),
          company_of_admin := (company_of_admin s)(adm \<mapsto> id)\<rparr>))))))"

definition add_employee_record ::
  "'x penv_scheme \<Rightarrow> u64 \<Rightarrow> address \<Rightarrow> bytes \<Rightarrow> registry \<Rightarrow> registry outcome" where
  "add_employee_record e company_id employee c s =
     and_then (reg_require_not_paused e s) (\<lambda>_.
     and_then (company_guard e company_id s) (\<lambda>info.
     Inr (emit_employee_added company_id employee c
       (s\<lparr>employees_of := (employees_of s)((company_id, employee) \<mapsto> c),
          emp_status := (emp_status s)((company_id, employee) \<mapsto> EmpActive)\<rparr>))))"

definition add_employee ::
  "'x penv_scheme \<Rightarrow> u64 \<Rightarrow> address \<Rightarrow> bytes \<Rightarrow> registry \<Rightarrow> registry outcome" where
  "add_employee e company_id employee c s = add_employee_record e company_id employee c s"

text \<open>\<open>Address::from_string\<close> reads an address from its strkey text, by which the model names it.\<close>

definition add_employee_by_wallet ::
  "'x penv_scheme \<Rightarrow> u64 \<Rightarrow> string \<Rightarrow> bytes \<Rightarrow> registry \<Rightarrow> registry outcome" where
  "add_employee_by_wallet e company_id employee_wallet c s =
     and_then (require_valid_employee_wallet_format employee_wallet) (\<lambda>_.
     add_employee_record e company_id (Address employee_wallet) c s)"

definition remove_employee :: "'x penv_scheme \<Rightarrow> u64 \<Rightarrow> address \<Rightarrow> registry \<Rightarrow> registry outcome" where
  "remove_employee e company_id employee s =
     and_then (reg_require_not_paused e s) (\<lambda>_.
     and_then (company_guard e company_id s) (\<lambda>info.
     Inr (emit_employee_removed company_id employee
       (s\<lparr>employees_of := (employees_of s)((company_id, employee) := None)\<rparr>))))"

definition reg_update_commitment ::
  "'x penv_scheme \<Rightarrow> u64 \<Rightarrow> address \<Rightarrow> bytes \<Rightarrow> registry \<Rightarrow> registry outcome" where
  "reg_update_commitment e company_id employee new_commitment s =
     and_then (reg_require_not_paused e s) (\<lambda>_.
     and_then (company_guard e company_id s) (\<lambda>info.
     and_then (panic_if (employees_of s (company_id, employee) = None) ''Employee not found'') (\<lambda>_.
     Inr (emit_registry_commitment_updated company_id employee new_commitment
       (s\<lparr>employees_of := (employees_of s)((company_id, employee) \<mapsto> new_commitment)\<rparr>)))))"

definition get_company :: "u64 \<Rightarrow> registry \<Rightarrow> ('e, CompanyInfo) result" where
  "get_company company_id s = expect ''Company not found'' (companies s company_id)"

definition reg_get_commitment :: "u64 \<Rightarrow> address \<Rightarrow> registry \<Rightarrow> bytes outcome" where
  "reg_get_commitment company_id employee s = expect ''Employee not found'' (employees_of s (company_id, employee))"

definition get_employee_status :: "u64 \<Rightarrow> address \<Rightarrow> registry \<Rightarrow> EmployeeStatus" where
  "get_employee_status company_id employee s = unwrap_or EmpIncomplete (emp_status s (company_id, employee))"

definition set_employee_status ::
  "'x penv_scheme \<Rightarrow> u64 \<Rightarrow> address \<Rightarrow> EmployeeStatus \<Rightarrow> registry \<Rightarrow> registry outcome" where
  "set_employee_status e company_id employee status s =
     and_then (reg_require_not_paused e s) (\<lambda>_.
     and_then (company_guard e company_id s) (\<lambda>info.
     and_then (panic_if (employees_of s (company_id, employee) = None) ''Employee not found'') (\<lambda>_.
     let previous_status = unwrap_or EmpIncomplete (emp_status s (company_id, employee)) in
     if previous_status = status then Inr s
     else
       let event_name = (case status of EmpActive \<Rightarrow> ''EmployeeReactivated'' | EmpInactive \<Rightarrow> ''EmployeeDeactivated''
             | EmpIncomplete \<Rightarrow> ''EmployeeStatusUpdated'') in
       Inr (publish [VSym event_name, VU64 company_id, VAddr employee]
         (VVec [EmployeeStatus_val previous_status, EmployeeStatus_val status, VU32 (sequence e), VU64 (timestamp e)])
         (s\<lparr>emp_status := (emp_status s)((company_id, employee) \<mapsto> status)\<rparr>)))))"

definition is_employee_active :: "u64 \<Rightarrow> address \<Rightarrow> registry \<Rightarrow> bool" where
  "is_employee_active company_id employee s =
     (if employees_of s (company_id, employee) = None then False
      else unwrap_or EmpIncomplete (emp_status s (company_id, employee)) = EmpActive)"

definition is_eligible :: "u64 \<Rightarrow> address \<Rightarrow> registry \<Rightarrow> bool" where
  "is_eligible company_id employee s = is_employee_active company_id employee s"

section \<open>Rotation of the company admin and treasury\<close>

definition reg_propose_admin_rotation ::
  "'x penv_scheme \<Rightarrow> u64 \<Rightarrow> address \<Rightarrow> address \<Rightarrow> registry \<Rightarrow> registry outcome" where
  "reg_propose_admin_rotation e company_id current_admin new_admin s =
     and_then (reg_require_not_paused e s) (\<lambda>_.
     and_then (company_admin_guard e ''Unauthorized: caller is not the company admin'' company_id current_admin s) (\<lambda>info.
     and_then (panic_if (reg_pending_admin s company_id \<noteq> None)
       ''A pending admin rotation already exists for this company'') (\<lambda>_.
     Inr (emit_company_admin_proposed company_id current_admin new_admin
       (s\<lparr>reg_pending_admin := (reg_pending_admin s)(company_id \<mapsto> \<lparr>cr_new_holder = new_admin,
          cr_proposed_by = current_admin, cr_proposed_at = timestamp e\<rparr>)\<rparr>)))))"

definition reg_accept_admin_rotation ::
  "'x penv_scheme \<Rightarrow> u64 \<Rightarrow> address \<Rightarrow> registry \<Rightarrow> registry outcome" where
  "reg_accept_admin_rotation e company_id new_admin s =
     and_then (reg_require_not_paused e s) (\<lambda>_.
     and_then (expect ''No pending admin rotation for this company'' (reg_pending_admin s company_id)) (\<lambda>p.
     and_then (panic_if (new_admin \<noteq> cr_new_holder p) ''Unauthorized: caller is not the proposed admin'') (\<lambda>_.
     and_then (require_auth e new_admin) (\<lambda>_.
     and_then (expect ''Company not found'' (companies s company_id)) (\<lambda>info.
     let old_admin = ci_admin info in
     Inr (emit_company_admin_rotated company_id old_admin new_admin
       (s\<lparr>companies := (companies s)(company_id \<mapsto> info\<lparr>ci_admin := new_admin\<rparr>),
          reg_pending_admin := (reg_pending_admin s)(company_id := None),
          company_of_admin := ((company_of_admin s)(old_admin := None))(new_admin \<mapsto> company_id)\<rparr>)))))))"

definition reg_cancel_admin_rotation ::
  "'x penv_scheme \<Rightarrow> u64 \<Rightarrow> address \<Rightarrow> registry \<Rightarrow> registry outcome" where
  "reg_cancel_admin_rotation e company_id current_admin s =
     and_then (reg_require_not_paused e s) (\<lambda>_.
     and_then (company_admin_guard e ''Unauthorized'' company_id current_admin s) (\<lambda>info.
     and_then (panic_if (reg_pending_admin s company_id = None) ''No pending admin rotation to cancel'') (\<lambda>_.
     Inr (emit_company_admin_rotation_cancelled company_id current_admin
       (s\<lparr>reg_pending_admin := (reg_pending_admin s)(company_id := None)\<rparr>)))))"

definition reg_propose_treasury_rotation ::
  "'x penv_scheme \<Rightarrow> u64 \<Rightarrow> address \<Rightarrow> address \<Rightarrow> registry \<Rightarrow> registry outcome" where
  "reg_propose_treasury_rotation e company_id current_admin new_treasury s =
     and_then (reg_require_not_paused e s) (\<lambda>_.
     and_then (company_admin_guard e ''Unauthorized: caller is not the company admin'' company_id current_admin s) (\<lambda>info.
     and_then (panic_if (reg_pending_treasury s company_id \<noteq> None)
       ''A pending treasury rotation already exists for this company'') (\<lambda>_.
     Inr (publish [VSym ''TreasuryRotationProposed'', VU64 company_id]
       (VVec [VAddr current_admin, VAddr new_treasury, VU64 (timestamp e)])
       (s\<lparr>reg_pending_treasury := (reg_pending_treasury s)(company_id \<mapsto> \<lparr>cr_new_holder = new_treasury,
          cr_proposed_by = current_admin, cr_proposed_at = timestamp e\<rparr>)\<rparr>)))))"

definition reg_accept_treasury_rotation ::
  "'x penv_scheme \<Rightarrow> u64 \<Rightarrow> address \<Rightarrow> registry \<Rightarrow> registry outcome" where
  "reg_accept_treasury_rotation e company_id new_treasury s =
     and_then (reg_require_not_paused e s) (\<lambda>_.
     and_then (expect ''No pending treasury rotation for this company'' (reg_pending_treasury s company_id)) (\<lambda>p.
     and_then (panic_if (new_treasury \<noteq> cr_new_holder p) ''Unauthorized: caller is not the proposed treasury'') (\<lambda>_.
     and_then (require_auth e new_treasury) (\<lambda>_.
     and_then (expect ''Company not found'' (companies s company_id)) (\<lambda>info.
     Inr (publish [VSym ''TreasuryRotated'', VU64 company_id] (VVec [VAddr (ci_treasury info), VAddr new_treasury])
       (s\<lparr>companies := (companies s)(company_id \<mapsto> info\<lparr>ci_treasury := new_treasury\<rparr>),
          reg_pending_treasury := (reg_pending_treasury s)(company_id := None)\<rparr>)))))))"

definition reg_cancel_treasury_rotation ::
  "'x penv_scheme \<Rightarrow> u64 \<Rightarrow> address \<Rightarrow> registry \<Rightarrow> registry outcome" where
  "reg_cancel_treasury_rotation e company_id current_admin s =
     and_then (reg_require_not_paused e s) (\<lambda>_.
     and_then (company_admin_guard e ''Unauthorized'' company_id current_admin s) (\<lambda>info.
     and_then (panic_if (reg_pending_treasury s company_id = None) ''No pending treasury rotation to cancel'') (\<lambda>_.
     Inr (publish [VSym ''TreasuryRotationCancelled'', VU64 company_id] (VVec [VAddr current_admin])
       (s\<lparr>reg_pending_treasury := (reg_pending_treasury s)(company_id := None)\<rparr>)))))"

definition get_company_sequence :: "registry \<Rightarrow> u64" where
  "get_company_sequence s = unwrap_or 0 (company_sequence s)"

definition reg_get_pending_admin_rotation :: "u64 \<Rightarrow> registry \<Rightarrow> PendingCompanyRotation option" where
  "reg_get_pending_admin_rotation company_id s = reg_pending_admin s company_id"

definition reg_get_pending_treasury_rotation :: "u64 \<Rightarrow> registry \<Rightarrow> PendingCompanyRotation option" where
  "reg_get_pending_treasury_rotation company_id s = reg_pending_treasury s company_id"

section \<open>Approval thresholds\<close>

definition threshold_guard :: "'x penv_scheme \<Rightarrow> string \<Rightarrow> u64 \<Rightarrow> address \<Rightarrow> registry \<Rightarrow> unit outcome" where
  "threshold_guard e msg company_id adm s =
     and_then (reg_require_not_paused e s) (\<lambda>_.
     and_then (require_auth e adm) (\<lambda>_.
     and_then (expect ''Company not found'' (companies s company_id)) (\<lambda>company.
     panic_if (ci_admin company \<noteq> adm) msg)))"

definition propose_threshold_rotation ::
  "'x penv_scheme \<Rightarrow> u64 \<Rightarrow> address \<Rightarrow> u32 \<Rightarrow> u64 \<Rightarrow> registry \<Rightarrow> registry outcome" where
  "propose_threshold_rotation e company_id adm new_threshold grace_period_seconds s =
     and_then (threshold_guard e ''Only company admin can propose threshold rotation'' company_id adm s) (\<lambda>_.
     and_then (panic_if (new_threshold = 0) ''Threshold must be at least 1'') (\<lambda>_.
     and_then (add_u (timestamp e) grace_period_seconds) (\<lambda>effective_after.
     Inr (publish [VSym ''ThresholdRotationProposed'', VU64 company_id]
       (VVec [VU32 new_threshold, VU64 effective_after])
       (s\<lparr>pending_thresholds := (pending_thresholds s)(company_id \<mapsto> \<lparr>pt_company_id = company_id,
          pt_new_threshold = new_threshold, pt_proposed_at = timestamp e, pt_proposed_by = adm,
          pt_effective_after = effective_after\<rparr>)\<rparr>)))))"

definition activate_threshold_rotation ::
  "'x penv_scheme \<Rightarrow> u64 \<Rightarrow> address \<Rightarrow> registry \<Rightarrow> registry outcome" where
  "activate_threshold_rotation e company_id adm s =
     and_then (threshold_guard e ''Only company admin can activate threshold rotation'' company_id adm s) (\<lambda>_.
     and_then (expect ''No pending threshold rotation'' (pending_thresholds s company_id)) (\<lambda>p.
     and_then (panic_if (timestamp e < pt_effective_after p) ''Threshold rotation is still in grace period'') (\<lambda>_.
     Inr (publish [VSym ''ThresholdRotationActivated'', VU64 company_id]
       (VVec [VU32 (pt_new_threshold p), VU64 (timestamp e)])
       (s\<lparr>approval_thresholds := (approval_thresholds s)(company_id \<mapsto> \<lparr>at_company_id = company_id,
            at_required_approvals = pt_new_threshold p, at_configured_at = timestamp e,
            at_configured_by = adm, at_is_active = True\<rparr>),
          pending_thresholds := (pending_thresholds s)(company_id := None)\<rparr>)))))"

definition cancel_threshold_rotation ::
  "'x penv_scheme \<Rightarrow> u64 \<Rightarrow> address \<Rightarrow> registry \<Rightarrow> registry outcome" where
  "cancel_threshold_rotation e company_id adm s =
     and_then (threshold_guard e ''Only company admin can cancel threshold rotation'' company_id adm s) (\<lambda>_.
     and_then (expect ''No pending threshold rotation'' (pending_thresholds s company_id)) (\<lambda>p.
     Inr (publish [VSym ''ThresholdRotationCancelled'', VU64 company_id]
       (VVec [VU32 (pt_new_threshold p), VU64 (timestamp e)])
       (s\<lparr>pending_thresholds := (pending_thresholds s)(company_id := None)\<rparr>))))"

definition get_approval_threshold :: "u64 \<Rightarrow> registry \<Rightarrow> ApprovalThreshold option" where
  "get_approval_threshold company_id s = approval_thresholds s company_id"

definition get_pending_threshold_rotation :: "u64 \<Rightarrow> registry \<Rightarrow> PendingThresholdRotation option" where
  "get_pending_threshold_rotation company_id s = pending_thresholds s company_id"

definition set_initial_approval_threshold ::
  "'x penv_scheme \<Rightarrow> u64 \<Rightarrow> address \<Rightarrow> u32 \<Rightarrow> registry \<Rightarrow> registry outcome" where
  "set_initial_approval_threshold e company_id adm required_approvals s =
     and_then (reg_require_not_paused e s) (\<lambda>_.
     and_then (require_auth e adm) (\<lambda>_.
     and_then (panic_if (required_approvals = 0) ''Threshold must be at least 1'') (\<lambda>_.
     and_then (panic_if (approval_thresholds s company_id \<noteq> None)
       ''Approval threshold already configured for this company'') (\<lambda>_.
     Inr (publish [VSym ''InitialThresholdConfigured'', VU64 company_id]
       (VVec [VU32 required_approvals, VU64 (timestamp e)])
       (s\<lparr>approval_thresholds := (approval_thresholds s)(company_id \<mapsto> \<lparr>at_company_id = company_id,
          at_required_approvals = required_approvals, at_configured_at = timestamp e,
          at_configured_by = adm, at_is_active = True\<rparr>)\<rparr>))))))"

end
