(* ===== verification/Payment_Executor.thy ===== *)
theory Payment_Executor
  imports Payroll_State Payroll_Registry
begin

text \<open>
  \<open>contracts/payment_executor/src/lib.rs\<close>: payroll periods of a company and payments of single
  employees and batches within a period, each against a proof, with the company's data from
  the registry and the employee's commitment from the commitment contract.
\<close>

section \<open>Data and storage\<close>

definition MAX_PROOF_AGE_SECONDS :: u64 where "MAX_PROOF_AGE_SECONDS = 7 * 24 * 60 * 60"

record PaymentRecord =
  py_company_id :: u64
  py_employee :: address
  py_proof_hash :: bytes
  py_timestamp :: u64
  py_period :: u32

record PayrollPeriod =
  pd_period_id :: u32
  pd_company_id :: u64
  pd_start_ledger :: u32
  pd_end_ledger :: u32
  pd_created_at :: u64
  pd_closed :: bool
  pd_payment_count :: u32

datatype PaymentError = ProofAlreadyUsed | ArrayLengthMismatch | AlreadyPaid | PeriodNotFound | PeriodClosed
  | PeriodAlreadyExists | ProofExpired | EmptyBatch | AssetDecimalsMissing | AssetDecimalsMismatch

record pe_ContractAddresses =
  xa_registry :: address
  xa_commitment :: address
  xa_verifier :: address
  xa_token :: address

record executor = host +
  pe_addresses :: "pe_ContractAddresses option"
  payments :: "address \<times> u32 \<rightharpoonup> PaymentRecord"
  pe_nullifiers :: "bytes \<rightharpoonup> bool"
  total_paid :: "u64 \<rightharpoonup> i128"
  executor_admin :: "address option"
  pe_pause_manager :: "address option"
  periods :: "u64 \<times> u32 \<rightharpoonup> PayrollPeriod"
  period_sequence :: "u64 \<rightharpoonup> u32"
  pe_allowed_assets :: "address \<rightharpoonup> bool"
  pe_storage_version :: "u32 option"
  asset_decimals :: "address \<rightharpoonup> u32"

text \<open>
  The executor only reads the registry, the commitment contract and the verifier, which are
  therefore part of the environment; it changes token balances.
\<close>

record xenv = venv +
  registries :: "address \<rightharpoonup> registry"
  salary_contracts :: "address \<rightharpoonup> salary_commitment"

record executor_world =
  exe :: executor
  pe_tokens :: "address \<rightharpoonup> token"

type_synonym 'a payment_result = "(PaymentError, 'a) result"

section \<open>Configuration\<close>

definition amount_to_public_input :: "i128 \<Rightarrow> ('e, bytes) result" where
  "amount_to_public_input amount =
     and_then (panic_if (amount < 0) ''Amount must be non-negative'') (\<lambda>_.
     Inr (replicate 16 0 @ be_bytes 16 amount))"

definition pe_require_not_paused :: "'x penv_scheme \<Rightarrow> executor \<Rightarrow> ('e, unit) result" where
  "pe_require_not_paused e s = pause_guard ''Payroll is paused'' e (pe_pause_manager s)"

definition pe_initialize :: "'x env_scheme \<Rightarrow> pe_ContractAddresses \<Rightarrow> executor \<Rightarrow> executor payment_result" where
  "pe_initialize e addrs s =
     and_then (panic_if (pe_addresses s \<noteq> None) ''Already initialized'') (\<lambda>_.
     Inr (publish [VSym ''TreasuryAssetAllowedUpdated'', VAddr (xa_token addrs)] (VVec [VBool True, VU64 (timestamp e)])
       (s\<lparr>pe_addresses := Some addrs, pe_allowed_assets := (pe_allowed_assets s)(xa_token addrs \<mapsto> True),
          pe_storage_version := Some 1\<rparr>)))"

definition set_executor_admin :: "'x env_scheme \<Rightarrow> address \<Rightarrow> executor \<Rightarrow> executor payment_result" where
  "set_executor_admin e adm s =
     and_then (panic_if (executor_admin s \<noteq> None) ''Executor admin already set'') (\<lambda>_.
     and_then (require_auth e adm) (\<lambda>_.
     Inr (emit_executor_admin_set adm (s\<lparr>executor_admin := Some adm\<rparr>))))"

definition executor_admin_guard :: "'x env_scheme \<Rightarrow> executor \<Rightarrow> ('e, unit) result" where
  "executor_admin_guard e s =
     and_then (expect ''Executor admin not set'' (executor_admin s)) (\<lambda>adm. require_auth e adm)"

definition pe_set_pause_manager :: "'x env_scheme \<Rightarrow> address \<Rightarrow> executor \<Rightarrow> executor payment_result" where
  "pe_set_pause_manager e pm s =
     and_then (executor_admin_guard e s) (\<lambda>_.
     Inr (emit_executor_pause_manager_set pm (s\<lparr>pe_pause_manager := Some pm\<rparr>)))"

definition pe_set_asset_allowed :: "'x env_scheme \<Rightarrow> address \<Rightarrow> bool \<Rightarrow> executor \<Rightarrow> executor payment_result" where
  "pe_set_asset_allowed e asset allowed s =
     and_then (executor_admin_guard e s) (\<lambda>_.
     Inr (publish [VSym ''TreasuryAssetAllowedUpdated'', VAddr asset] (VVec [VBool allowed, VU64 (timestamp e)])
       (s\<lparr>pe_allowed_assets := (pe_allowed_assets s)(asset \<mapsto> allowed)\<rparr>)))"

definition pe_is_asset_allowed :: "address \<Rightarrow> executor \<Rightarrow> bool" where
  "pe_is_asset_allowed asset s = unwrap_or False (pe_allowed_assets s asset)"

definition pe_get_storage_version :: "executor \<Rightarrow> u32" where
  "pe_get_storage_version s = unwrap_or 1 (pe_storage_version s)"

definition set_asset_decimals :: "'x env_scheme \<Rightarrow> address \<Rightarrow> u32 \<Rightarrow> executor \<Rightarrow> executor payment_result" where
  "set_asset_decimals e asset decimals s =
     and_then (executor_admin_guard e s) (\<lambda>_.
     and_then (panic_if (decimals > 18) ''Asset decimals must not exceed 18'') (\<lambda>_.
     Inr (publish [VSym ''AssetDecimalsConfigured'', VAddr asset] (VVec [VU32 decimals, VU64 (timestamp e)])
       (s\<lparr>asset_decimals := (asset_decimals s)(asset \<mapsto> decimals)\<rparr>))))"

definition get_asset_decimals :: "address \<Rightarrow> executor \<Rightarrow> u32" where
  "get_asset_decimals asset s = unwrap_or 0 (asset_decimals s asset)"

section \<open>Periods\<close>

definition executor_company :: "'x xenv_scheme \<Rightarrow> u64 \<Rightarrow> pe_ContractAddresses \<Rightarrow> ('e, CompanyInfo) result" where
  "executor_company e company_id addrs =
     and_then (ok_or (NoContract (xa_registry addrs)) (registries e (xa_registry addrs))) (\<lambda>r.
     get_company company_id r)"

definition create_period :: "'x xenv_scheme \<Rightarrow> u64 \<Rightarrow> executor \<Rightarrow> (PayrollPeriod \<times> executor) payment_result" where
  "create_period e company_id s =
     and_then (pe_require_not_paused e s) (\<lambda>_.
     and_then (expect ''Not initialized'' (pe_addresses s)) (\<lambda>addrs.
     and_then (executor_company e company_id addrs) (\<lambda>company.
     and_then (require_auth e (ci_admin company)) (\<lambda>_.
     let next_id = unwrap_or 1 (period_sequence s company_id) in
     and_then (fail_if (periods s (company_id, next_id) \<noteq> None) (Err PeriodAlreadyExists)) (\<lambda>_.
     and_then (fail_if (next_id > 1 \<and> (case periods s (company_id, next_id - 1) of
         None \<Rightarrow> False | Some prev_period \<Rightarrow> \<not> pd_closed prev_period)) (Err PeriodAlreadyExists)) (\<lambda>_.
     let period = \<lparr>pd_period_id = next_id, pd_company_id = company_id, pd_start_ledger = sequence e,
           pd_end_ledger = 0, pd_created_at = timestamp e, pd_closed = False, pd_payment_count = 0\<rparr> in
     and_then (add_u next_id 1) (\<lambda>nxt.
     Inr (period, emit_period_created company_id next_id
       (s\<lparr>periods := (periods s)((company_id, next_id) \<mapsto> period),
          period_sequence := (period_sequence s)(company_id \<mapsto> nxt)\<rparr>)))))))))"

definition close_period ::
  "'x xenv_scheme \<Rightarrow> u64 \<Rightarrow> u32 \<Rightarrow> executor \<Rightarrow> (PayrollPeriod \<times> executor) payment_result" where
  "close_period e company_id period_id s =
     and_then (pe_require_not_paused e s) (\<lambda>_.
     and_then (expect ''Not initialized'' (pe_addresses s)) (\<lambda>addrs.
     and_then (executor_company e company_id addrs) (\<lambda>company.
     and_then (require_auth e (ci_admin company)) (\<lambda>_.
     and_then (ok_or (Err PeriodNotFound) (periods s (company_id, period_id))) (\<lambda>period.
     and_then (fail_if (pd_closed period) (Err PeriodClosed)) (\<lambda>_.
     let period = period\<lparr>pd_closed := True, pd_end_ledger := sequence e\<rparr> in
     Inr (period, emit_period_closed company_id period_id
       (s\<lparr>periods := (periods s)((company_id, period_id) \<mapsto> period)\<rparr>))))))))"

definition get_period :: "u64 \<Rightarrow> u32 \<Rightarrow> executor \<Rightarrow> PayrollPeriod option" where
  "get_period company_id period_id s = periods s (company_id, period_id)"

section \<open>Payments\<close>

text \<open>\<open>10i128.pow(d)\<close> under \<open>overflow-checks\<close>, and the text that \<open>{:?}\<close> gives an address on chain.\<close>

definition pow10_i128 :: "u32 \<Rightarrow> ('e, i128) result" where
  "pow10_i128 d = (if in_i128 (10 ^ unat d) then Inr (10 ^ unat d) else Inl Overflow)"

definition address_debug :: "address \<Rightarrow> string" where
  "address_debug a = ''Address(..)''"

definition executor_transfer ::
  "address \<Rightarrow> address \<Rightarrow> address \<Rightarrow> i128 \<Rightarrow> executor_world \<Rightarrow> ('e, executor_world) result" where
  "executor_transfer asset from to amount w =
     and_then (ok_or (NoContract asset) (pe_tokens w asset)) (\<lambda>t.
     and_then (transfer from to amount t) (\<lambda>t'.
     Inr (w\<lparr>pe_tokens := (pe_tokens w)(asset \<mapsto> t')\<rparr>)))"

definition decimals_guard :: "address \<Rightarrow> i128 \<Rightarrow> executor \<Rightarrow> unit payment_result" where
  "decimals_guard asset amount s =
     (let decimals = get_asset_decimals asset s in
     and_then (fail_if (decimals = 0) (Err AssetDecimalsMissing)) (\<lambda>_.
     and_then (fail_if (amount < 0) (Err AssetDecimalsMismatch)) (\<lambda>_.
     and_then (pow10_i128 decimals) (\<lambda>max_amount_for_decimals.
     fail_if (amount > 0 \<and> amount < max_amount_for_decimals div 1000000000) (Err AssetDecimalsMismatch)))))"

definition execute_payment ::
  "'x xenv_scheme \<Rightarrow> u64 \<Rightarrow> address \<Rightarrow> i128 \<Rightarrow> Groth16Proof \<Rightarrow> bytes \<Rightarrow> u32 \<Rightarrow> executor_world \<Rightarrow>
   (PaymentRecord \<times> executor_world) payment_result" where
  "execute_payment e company_id employee amount prf nul period w =
     (let s = exe w in
     and_then (expect ''Not initialized'' (pe_addresses s)) (\<lambda>addrs.
     and_then (pe_require_not_paused e s) (\<lambda>_.
     and_then (ok_or (Err PeriodNotFound) (periods s (company_id, period))) (\<lambda>period_record.
     and_then (fail_if (pd_closed period_record) (Err PeriodClosed)) (\<lambda>_.
     and_then (fail_if (saturating_sub (timestamp e) (pd_created_at period_record) > MAX_PROOF_AGE_SECONDS)
       (Err ProofExpired)) (\<lambda>_.
     and_then (fail_if (pe_nullifiers s nul \<noteq> None) (Err ProofAlreadyUsed)) (\<lambda>_.
     and_then (fail_if (payments s (employee, period) \<noteq> None) (Err AlreadyPaid)) (\<lambda>_.
     and_then (ok_or (NoContract (xa_commitment addrs)) (salary_contracts e (xa_commitment addrs))) (\<lambda>sc.
     and_then (get_commitment employee sc) (\<lambda>c.
     and_then (executor_company e company_id addrs) (\<lambda>company.
     and_then (require_auth e (ci_admin company)) (\<lambda>_.
     and_then (require_auth e (ci_treasury company)) (\<lambda>_.
     and_then (amount_to_public_input amount) (\<lambda>input.
     and_then (ok_or (NoContract (xa_verifier addrs)) (verifiers e (xa_verifier addrs))) (\<lambda>v.
     and_then (verify prf [commitment c, input] v) (\<lambda>valid.
     and_then (panic_if (\<not> valid) ''Invalid payment proof'') (\<lambda>_.
     and_then (panic_if (\<not> pe_is_asset_allowed (xa_token addrs) s) ''Asset not allowed'') (\<lambda>_.
     and_then (panic_if (address_debug (xa_token addrs) = []) ''Invalid treasury asset mapping: empty token address'') (\<lambda>_.
     and_then (panic_if (address_debug (ci_treasury company) = []) ''Invalid treasury mapping: empty treasury address'') (\<lambda>_.
     and_then (decimals_guard (xa_token addrs) amount s) (\<lambda>_.
     and_then (executor_transfer (xa_token addrs) (ci_treasury company) employee amount w) (\<lambda>w.
     let record = \<lparr>py_company_id = company_id, py_employee = employee, py_proof_hash = nul,
           py_timestamp = timestamp e, py_period = period\<rparr> in
     and_then (add_u (pd_payment_count period_record) 1) (\<lambda>count.
     and_then (add_i128 (unwrap_or 0 (total_paid s company_id)) amount) (\<lambda>total.
     Inr (record, w\<lparr>exe := emit_executor_payment_processed company_id employee amount period
       (s\<lparr>payments := (payments s)((employee, period) \<mapsto> record),
          pe_nullifiers := (pe_nullifiers s)(nul \<mapsto> True),
          periods := (periods s)((company_id, period) \<mapsto> period_record\<lparr>pd_payment_count := count\<rparr>),
          total_paid := (total_paid s)(company_id \<mapsto> total)\<rparr>)\<rparr>)))))))))))))))))))))))))"

primrec batch_loop ::
  "'x xenv_scheme \<Rightarrow> u64 \<Rightarrow> address list \<Rightarrow> i128 list \<Rightarrow> bytes list \<Rightarrow> bytes list \<Rightarrow> bytes list \<Rightarrow> bytes list \<Rightarrow>
   u32 \<Rightarrow> nat list \<Rightarrow> PaymentRecord list \<Rightarrow> executor_world \<Rightarrow> (PaymentRecord list \<times> executor_world) payment_result" where
  "batch_loop e company_id employees amounts proofs_a proofs_b proofs_c nuls period [] records w = Inr (records, w)"
| "batch_loop e company_id employees amounts proofs_a proofs_b proofs_c nuls period (i # is) records w =
     and_then (execute_payment e company_id (employees ! i) (amounts ! i)
       \<lparr>proof_a = proofs_a ! i, proof_b = proofs_b ! i, proof_c = proofs_c ! i\<rparr> (nuls ! i) period w) (\<lambda>rw.
     batch_loop e company_id employees amounts proofs_a proofs_b proofs_c nuls period is (records @ [fst rw]) (snd rw))"

definition execute_batch_payroll ::
  "'x xenv_scheme \<Rightarrow> u64 \<Rightarrow> address list \<Rightarrow> i128 list \<Rightarrow> bytes list \<Rightarrow> bytes list \<Rightarrow> bytes list \<Rightarrow> bytes list \<Rightarrow>
   u32 \<Rightarrow> executor_world \<Rightarrow> (PaymentRecord list \<times> executor_world) payment_result" where
  "execute_batch_payroll e company_id employees amounts proofs_a proofs_b proofs_c nuls period w =
     (let count = length employees in
     and_then (fail_if (length amounts \<noteq> count \<or> length proofs_a \<noteq> count \<or> length proofs_b \<noteq> count \<or>
       length proofs_c \<noteq> count \<or> length nuls \<noteq> count) (Err ArrayLengthMismatch)) (\<lambda>_.
     and_then (fail_if (count = 0) (Err EmptyBatch)) (\<lambda>_.
     batch_loop e company_id employees amounts proofs_a proofs_b proofs_c nuls period [0..<count] [] w)))"

section \<open>Queries\<close>

definition get_payment :: "address \<Rightarrow> u32 \<Rightarrow> executor \<Rightarrow> PaymentRecord payment_result" where
  "get_payment employee period s = expect ''Payment not found'' (payments s (employee, period))"

definition is_paid :: "address \<Rightarrow> u32 \<Rightarrow> executor \<Rightarrow> bool" where
  "is_paid employee period s \<longleftrightarrow> payments s (employee, period) \<noteq> None"

definition get_total_paid :: "u64 \<Rightarrow> executor \<Rightarrow> i128" where
  "get_total_paid company_id s = unwrap_or 0 (total_paid s company_id)"

definition get_max_proof_age :: u64 where "get_max_proof_age = MAX_PROOF_AGE_SECONDS"

definition pe_get_addresses :: "executor \<Rightarrow> pe_ContractAddresses payment_result" where
  "pe_get_addresses s = expect ''Not initialized'' (pe_addresses s)"

definition get_executor_admin :: "executor \<Rightarrow> address payment_result" where
  "get_executor_admin s = expect ''Executor admin not set'' (executor_admin s)"

definition get_period_sequence :: "u64 \<Rightarrow> executor \<Rightarrow> u32" where
  "get_period_sequence company_id s = unwrap_or 0 (period_sequence s company_id)"

end
