(* ===== verification/Registry_Wallet.thy ===== *)
theory Registry_Wallet
  imports Payroll_Registry
begin

text \<open>
  The check of Stellar account addresses in \<open>payroll_registry\<close> against the strkey format: an
  address is the base-32 text of a version byte, a 32-byte key and a checksum.
\<close>

section \<open>Numbers in positional notation\<close>

definition be_num :: "nat \<Rightarrow> nat list \<Rightarrow> nat" where
  "be_num b ds = foldl (\<lambda>v d. v * b + d) 0 ds"

primrec be_digits :: "nat \<Rightarrow> nat \<Rightarrow> nat \<Rightarrow> nat list" where
  "be_digits b 0 v = []"
| "be_digits b (Suc n) v = be_digits b n (v div b) @ [v mod b]"

lemma be_num_Nil [simp]: "be_num b [] = 0"
  by (simp add: be_num_def)

lemma be_num_snoc [simp]: "be_num b (ds @ [d]) = be_num b ds * b + d"
  by (simp add: be_num_def)

lemma be_num_append: "be_num b (xs @ ys) = be_num b xs * b ^ length ys + be_num b ys"
proof (induction ys rule: rev_induct)
  case Nil
  then show ?case by simp
next
  case (snoc y ys)
  have "be_num b (xs @ ys @ [y]) = be_num b (xs @ ys) * b + y"
    using be_num_snoc [of b "xs @ ys" y] by simp
  then show ?case using snoc.IH by (simp add: algebra_simps)
qed

lemma be_num_Cons: "be_num b (d # ds) = d * b ^ length ds + be_num b ds"
  using be_num_append [of b "[d]" ds] by (simp add: be_num_def)

lemma be_num_bound: "\<forall>d \<in> set ds. d < b \<Longrightarrow> be_num b ds < b ^ length ds"
proof (induction ds rule: rev_induct)
  case Nil
  then show ?case by simp
next
  case (snoc d ds)
  then have "be_num b ds + 1 \<le> b ^ length ds" "d < b" by simp_all
  then have "(be_num b ds + 1) * b \<le> b ^ length ds * b" by (intro mult_right_mono) auto
  with \<open>d < b\<close> show ?case by (simp add: algebra_simps)
qed

lemma length_be_digits [simp]: "length (be_digits b n v) = n"
  by (induction n arbitrary: v) simp_all

lemma be_digits_less: "0 < b \<Longrightarrow> d \<in> set (be_digits b n v) \<Longrightarrow> d < b"
  by (induction n arbitrary: v) auto

lemma be_num_digits: "v < b ^ n \<Longrightarrow> be_num b (be_digits b n v) = v"
proof (induction n arbitrary: v)
  case 0
  then show ?case by simp
next
  case (Suc n)
  then have "v div b < b ^ n" by (metis less_mult_imp_div_less power_Suc2)
  from Suc.IH [OF this] show ?case by simp
qed

lemma be_digits_num: "\<forall>d \<in> set ds. d < b \<Longrightarrow> be_digits b (length ds) (be_num b ds) = ds"
proof (induction ds rule: rev_induct)
  case Nil
  then show ?case by simp
next
  case (snoc d ds)
  then have "(be_num b ds * b + d) div b = be_num b ds" by simp
  with snoc show ?case by simp
qed

section \<open>The checksum as a polynomial remainder\<close>

text \<open>Long division of a bit string by the generator \<open>x^16 + x^12 + x^5 + 1\<close>: the next bit is brought
  down, and the generator is subtracted when the leading bit is set. The message is followed by
  sixteen zero bits.\<close>

definition division_step :: "nat \<Rightarrow> bool \<Rightarrow> nat" where
  "division_step r b = (let v = push_bit 1 r OR of_bool b in if bit v 16 then v XOR 0x11021 else v)"

definition msb_bits :: "u8 \<Rightarrow> bool list" where
  "msb_bits b = map (bit b) [7, 6, 5, 4, 3, 2, 1, 0]"

definition crc_remainder :: "bytes \<Rightarrow> nat" where
  "crc_remainder bs = foldl division_step 0 (concat (map msb_bits bs) @ replicate 16 False)"

definition shift_in :: "u16 \<Rightarrow> bool \<Rightarrow> u16" where
  "shift_in r b = crc_shift r XOR of_bool b"

lemma crc_shift_bit: "crc_shift c = push_bit 1 c XOR (if bit c 15 then 0x1021 else 0)"
proof -
  have "bit c 15 \<longleftrightarrow> c AND push_bit 15 1 \<noteq> 0" by (rule bit_iff_and_push_bit_not_eq_0)
  then have "bit c 15 \<longleftrightarrow> c AND 0x8000 \<noteq> 0" by simp
  then show ?thesis by (simp add: crc_shift_def)
qed

lemma crc_shift_xor: "crc_shift (a XOR b) = crc_shift a XOR crc_shift b"
  by (auto simp: crc_shift_bit bit_simps ac_simps intro!: bit_word_eqI)

lemma crc_shift_0: "crc_shift 0 = 0"
  by (simp add: crc_shift_bit)

lemma crc_shift_pow_xor: "(crc_shift ^^ n) (a XOR b) = (crc_shift ^^ n) a XOR (crc_shift ^^ n) b"
  by (induction n) (simp_all add: crc_shift_xor)

lemma shift_in_zeros: "foldl shift_in r (replicate n False) = (crc_shift ^^ n) r"
  by (induction n arbitrary: r) (simp_all add: shift_in_def funpow_swap1)

lemma shift_in_linear: "foldl shift_in r bs = (crc_shift ^^ length bs) r XOR foldl shift_in 0 bs"
proof (induction bs rule: rev_induct)
  case Nil
  then show ?case by simp
next
  case (snoc b bs)
  have step: "shift_in x b = crc_shift x XOR of_bool b" for x by (simp add: shift_in_def)
  have "foldl shift_in r (bs @ [b]) = shift_in (foldl shift_in r bs) b" by simp
  also have "\<dots> = crc_shift ((crc_shift ^^ length bs) r) XOR (crc_shift (foldl shift_in 0 bs) XOR of_bool b)"
    unfolding snoc.IH step by (simp add: crc_shift_xor ac_simps)
  finally show ?case by (simp add: step)
qed

text \<open>A register with room to spare only shifts.\<close>

lemma crc_shift_small: "n \<le> 8 \<Longrightarrow> (crc_shift ^^ n) (ucast (b :: u8)) = push_bit n (ucast b)"
proof (induction n)
  case 0
  then show ?case by simp
next
  case (Suc n)
  have "\<not> bit (push_bit n (ucast b :: u16)) 15"
    using Suc.prems bit_imp_le_length [of b "15 - n"] by (auto simp: bit_simps)
  moreover have "push_bit 1 (push_bit n (ucast b :: u16)) = push_bit (Suc n) (ucast b)" by (simp only: push_bit_push_bit) simp
  ultimately show ?case using Suc by (simp add: crc_shift_bit del: One_nat_def push_bit_Suc)
qed

text \<open>Bringing down the bits of a byte, the highest first, rebuilds the byte.\<close>

lemma shift_in_next: "shift_in (drop_bit (Suc k) (ucast b)) (bit b k) = drop_bit k (ucast (b :: u8))"
proof -
  have u: "bit (ucast b :: u16) n \<longleftrightarrow> bit b n" for n using bit_imp_le_length [of b n] by (auto simp: bit_simps)
  have "\<not> bit (drop_bit (Suc k) (ucast b :: u16)) 15"
    using bit_imp_le_length [of b "Suc k + 15"] by (auto simp: bit_drop_bit_eq u simp del: drop_bit_Suc)
  then have "shift_in (drop_bit (Suc k) (ucast b)) (bit b k) = push_bit 1 (drop_bit (Suc k) (ucast b)) XOR of_bool (bit b k)"
    by (simp add: shift_in_def crc_shift_bit del: drop_bit_Suc)
  also have "\<dots> = drop_bit k (ucast b)"
  proof (rule bit_word_eqI)
    fix n
    assume n: "n < LENGTH(16)"
    show "bit (push_bit 1 (drop_bit (Suc k) (ucast b :: u16)) XOR of_bool (bit b k)) n = bit (drop_bit k (ucast b :: u16)) n"
      using n by (cases n) (simp_all only: bit_xor_iff bit_push_bit_iff bit_drop_bit_eq, simp_all add: u bit_of_bool_iff)
  qed
  finally show ?thesis .
qed

lemma msb_bits_word: "foldl shift_in 0 (msb_bits b) = ucast b"
proof -
  have "drop_bit 8 (ucast b :: u16) = 0"
    using bit_imp_le_length [of b] by (intro bit_word_eqI) (auto simp: bit_simps)
  moreover have n: "m = Suc k \<Longrightarrow> shift_in (drop_bit m (ucast b)) (bit b k) = drop_bit k (ucast b)" for m k
    by (simp only: shift_in_next)
  ultimately show ?thesis
    using n [of 8 7] n [of 7 6] n [of 6 5] n [of 5 4] n [of 4 3] n [of 3 2] n [of 2 1] n [of 1 0] by (simp add: msb_bits_def)
qed

lemma length_msb_bits: "length (msb_bits b) = 8"
  by (simp add: msb_bits_def)

lemma crc_byte_division: "foldl shift_in r (msb_bits b @ replicate 16 False) = (crc_shift ^^ 8) ((crc_shift ^^ 16) r XOR push_bit 8 (ucast b))"
proof -
  have "foldl shift_in r (msb_bits b) = (crc_shift ^^ 8) r XOR ucast b"
    using shift_in_linear [of r "msb_bits b"] unfolding msb_bits_word length_msb_bits .
  then have "foldl shift_in r (msb_bits b @ replicate 16 False) = (crc_shift ^^ 16) ((crc_shift ^^ 8) r XOR ucast b)"
    by (simp only: foldl_append shift_in_zeros)
  also have "\<dots> = (crc_shift ^^ 8) ((crc_shift ^^ 8) ((crc_shift ^^ 8) r XOR ucast b))"
    using funpow_add [of 8 8 crc_shift] by (simp only: comp_def) simp
  also have "(crc_shift ^^ 8) ((crc_shift ^^ 8) r XOR ucast b) = (crc_shift ^^ 16) r XOR push_bit 8 (ucast b)"
    using funpow_add [of 8 8 crc_shift] crc_shift_small [of 8 b] by (simp only: crc_shift_pow_xor comp_def) simp
  finally show ?thesis .
qed

lemma crc16_shift_in: "crc16_xmodem bs = foldl shift_in 0 (concat (map msb_bits bs) @ replicate 16 False)"
proof (induction bs rule: rev_induct)
  case Nil
  have "(crc_shift ^^ n) 0 = 0" for n by (induction n) (simp_all add: crc_shift_0)
  then show ?case by (simp add: crc16_xmodem_def shift_in_zeros)
next
  case (snoc b bs)
  let ?r = "foldl shift_in 0 (concat (map msb_bits bs))"
  have "crc16_xmodem (bs @ [b]) = crc_byte (crc16_xmodem bs) b" by (simp add: crc16_xmodem_def)
  also have "\<dots> = (crc_shift ^^ 8) ((crc_shift ^^ 16) ?r XOR push_bit 8 (ucast b))"
    unfolding snoc.IH foldl_append shift_in_zeros crc_byte_def ..
  also have "\<dots> = foldl shift_in ?r (msb_bits b @ replicate 16 False)" by (rule crc_byte_division [symmetric])
  finally show ?case by simp
qed

lemma division_step_unat: "unat (shift_in r b) = division_step (unat r) b"
proof -
  have b16: "bit (push_bit 1 (unat r) OR of_bool b) 16 \<longleftrightarrow> bit r 15"
    by (simp add: bit_simps del: One_nat_def)
  have shift: "unat (push_bit 1 r) = (if bit r 15 then push_bit 1 (unat r) XOR 0x10000 else push_bit 1 (unat r))"
  proof (rule bit_eqI)
    fix n
    have "bit (0x10000 :: nat) n \<longleftrightarrow> n = 16" using bit_exp_iff [of 16 n, where 'a = nat] by auto
    moreover have "bit r (n - 1) \<longrightarrow> n - 1 < 16" using bit_imp_le_length [of r "n - 1"] by simp
    ultimately show "bit (unat (push_bit 1 r)) n = bit (if bit r 15 then push_bit 1 (unat r) XOR 0x10000 else push_bit 1 (unat r)) n"
      by (cases "n = 16") (auto simp: bit_simps simp del: One_nat_def)
  qed
  have low: "push_bit 1 m OR of_bool b = push_bit 1 m XOR of_bool b" for m :: nat
    by (auto simp: bit_simps simp del: One_nat_def intro!: bit_eqI)
  have "division_step (unat r) b = (if bit r 15 then (push_bit 1 (unat r) XOR of_bool b) XOR 0x11021
      else push_bit 1 (unat r) XOR of_bool b)"
    using b16 unfolding division_step_def Let_def low by (simp only:)
  moreover have "unat (shift_in r b) = (unat (push_bit 1 r) XOR (if bit r 15 then 0x1021 else 0)) XOR of_bool b"
    by (simp add: shift_in_def crc_shift_bit unsigned_xor_eq del: One_nat_def push_bit_Suc)
  moreover have "(0x11021 :: nat) = 0x10000 XOR 0x1021" by simp
  ultimately show ?thesis unfolding shift by (simp only: ac_simps) (simp add: ac_simps)
qed

text \<open>The optimised checksum of the source is the remainder of the division.\<close>

lemma crc16_is_remainder: "unat (crc16_xmodem bs) = crc_remainder bs"
proof -
  have "unat (foldl shift_in r cs) = foldl division_step (unat r) cs" for r cs
    by (induction cs arbitrary: r) (simp_all add: division_step_unat)
  from this [of 0] show ?thesis unfolding crc16_shift_in crc_remainder_def by (simp del: foldl_append)
qed

section \<open>The text form\<close>

definition base32_symbol :: "nat \<Rightarrow> char" where
  "base32_symbol d = ''ABCDEFGHIJKLMNOPQRSTUVWXYZ234567'' ! d"

definition base32_text :: "bytes \<Rightarrow> string" where
  "base32_text bs = map base32_symbol (be_digits 32 56 (be_num 256 (map unat bs)))"

definition strkey_bytes :: "bytes \<Rightarrow> bytes" where
  "strkey_bytes key = (let payload = 0x30 # key; crc = crc_remainder payload in
     payload @ [of_nat (crc mod 256), of_nat (crc div 256)])"

definition strkey :: "bytes \<Rightarrow> string" where
  "strkey key = base32_text (strkey_bytes key)"

lemma nth_two_ranges: "d < n + m \<Longrightarrow> ([a..<a + n] @ [b..<b + m]) ! d = (if d < n then a + d else b + (d - n))"
  by (auto simp: nth_append)

lemma symbol_codes: "map (of_char :: char \<Rightarrow> nat) ''ABCDEFGHIJKLMNOPQRSTUVWXYZ234567'' = [65..<65 + 26] @ [50..<50 + 6]"
  by (simp add: upt_rec_numeral)

lemma symbol_code:
  assumes "d < 32"
  shows "(of_char (base32_symbol d) :: nat) = (if d < 26 then 65 + d else 24 + d)"
proof -
  have "(of_char (base32_symbol d) :: nat) = map of_char ''ABCDEFGHIJKLMNOPQRSTUVWXYZ234567'' ! d"
    using assms unfolding base32_symbol_def by (subst nth_map) simp_all
  also have "\<dots> = (if d < 26 then 65 + d else 50 + (d - 26))"
    unfolding symbol_codes using assms by (intro nth_two_ranges) simp
  finally show ?thesis by simp
qed

text \<open>The symbols and the values they stand for correspond one to one.\<close>

lemma unat_of_char: "unat (of_char c :: u8) = of_char c"
proof -
  have "(of_char c :: nat) < 256" using of_char_mod_256 [of c, where 'a = nat] by (metis mod_less_divisor zero_less_numeral)
  moreover have "(of_char c :: u8) = of_nat (of_char c)" by (simp add: of_nat_of_char)
  ultimately show ?thesis by (simp add: unsigned_of_nat take_bit_eq_mod)
qed

lemma decode_char_Some:
  assumes "decode_base32_char (of_char c) = Some v"
  shows "unat v < 32 \<and> c = base32_symbol (unat v)"
proof -
  let ?n = "of_char c :: nat"
  from assms consider "65 \<le> ?n" "?n \<le> 90" "unat v = ?n - 65" | "50 \<le> ?n" "?n \<le> 55" "unat v = ?n - 24"
    by (auto simp: decode_base32_char_def word_le_nat_alt unat_of_char unat_sub_if_size unat_word_ariths split: if_splits)
  then have v: "unat v < 32" "of_char (base32_symbol (unat v)) = ?n"
    by (cases; simp add: symbol_code)+
  then show ?thesis using inj_of_char [where 'a = nat] by (simp add: inj_eq)
qed

lemma decode_symbol:
  assumes "d < 32"
  shows "decode_base32_char (of_char (base32_symbol d)) = Some (of_nat d)"
proof -
  have "decode_base32_char (of_char (base32_symbol d)) \<noteq> None"
    using assms by (simp add: decode_base32_char_def word_le_nat_alt unat_of_char symbol_code)
  then obtain v where v: "decode_base32_char (of_char (base32_symbol d)) = Some v" by auto
  from decode_char_Some [OF v] have "unat v < 32" "(of_char (base32_symbol d) :: nat) = of_char (base32_symbol (unat v))"
    by simp_all
  then have "unat v = d" using assms by (simp add: symbol_code split: if_splits)
  with v show ?thesis by auto
qed

section \<open>The decoding loop\<close>

lemma unat_mod_256 [simp]: "unat (w :: u8) mod 256 = unat w"
  using unsigned_less [of w, where 'a = nat] by simp

lemma buffer_push:
  assumes "unat (buf :: u16) < 128" "d < 32"
  shows "unat (push_bit 5 buf OR ucast (of_nat d :: u8)) = unat buf * 32 + d"
proof -
  have "push_bit 5 (unat buf) AND d = 0"
  proof (rule bit_eqI)
    fix n
    have "\<not> bit d n" if "5 \<le> n"
    proof -
      have "(2::nat) ^ 5 \<le> 2 ^ n" using that by (intro power_increasing) auto
      then show ?thesis using assms(2) by (simp add: bit_iff_odd)
    qed
    then show "bit (push_bit 5 (unat buf) AND d) n = bit 0 n" by (auto simp: bit_simps)
  qed
  then have "push_bit 5 (unat buf) OR d = push_bit 5 (unat buf) + d"
    by (simp add: disjunctive_add_eq_or)
  moreover have "unat (push_bit 5 buf) = push_bit 5 (unat buf)"
    using assms(1) unfolding unsigned_push_bit_eq by (simp add: take_bit_eq_mod push_bit_eq_mult)
  moreover have "unat (ucast (of_nat d :: u8) :: u16) = d"
    using assms(2) by (simp add: unsigned_ucast_eq unsigned_of_nat take_bit_eq_mod)
  ultimately show ?thesis unfolding unsigned_or_eq by (simp add: push_bit_eq_mult)
qed

lemma buffer_rest:
  assumes "n < 8"
  shows "unat (if n > 0 then (b :: u16) AND (push_bit n 1 - 1) else 0) = unat b mod 2 ^ n"
proof -
  have "push_bit n 1 - 1 = (mask n :: u16)" by (simp add: mask_eq_exp_minus_1 push_bit_eq_mult)
  then have "b AND (push_bit n 1 - 1) = take_bit n b" by (simp only: take_bit_eq_mask)
  moreover have "unat (take_bit n b) = unat b mod 2 ^ n"
    unfolding unsigned_take_bit_eq by (rule take_bit_eq_mod)
  ultimately show ?thesis by simp
qed

lemma buffer_byte:
  assumes "unat (b :: u16) < 2 ^ (n + 8)"
  shows "unat (ucast (drop_bit n b) :: u8) = unat b div 2 ^ n"
proof -
  have "unat b div 2 ^ n < 256" using assms by (simp add: less_mult_imp_div_less power_add mult.commute)
  moreover have "unat (drop_bit n b) = unat b div 2 ^ n"
    using unsigned_less [of b, where 'a = nat] unfolding unsigned_drop_bit_eq
    by (simp add: drop_bit_eq_div take_bit_nat_eq_self)
  ultimately show ?thesis unfolding unsigned_ucast_eq by (simp add: take_bit_eq_mod)
qed

text \<open>While it runs, the loop holds the number it has read: the bytes written, followed by the
  bits of the buffer. The lengths make the last buffer empty.\<close>

lemma decode_loop_step:
  assumes "decode_base32_char ch = Some v" "8 \<le> bits + 5" "length out < 35"
    and "b = push_bit 5 buf OR ucast v" "n = bits + 5 - 8"
  shows "decode_loop buf bits out (ch # rest) =
    decode_loop (if n > 0 then b AND (push_bit n 1 - 1) else 0) n (out @ [ucast (drop_bit n b)]) rest"
  unfolding assms(4,5) using assms(1,2,3) by (simp add: Let_def)

lemma decode_loop_num:
  assumes "\<forall>d \<in> set ds. d < 32" "unat buf < 2 ^ bits" "bits < 8"
    and "8 * length out + bits + 5 * length ds = 280"
  shows "\<exists>res. decode_loop buf bits out (map (\<lambda>d. of_char (base32_symbol d)) ds) = Some res \<and> length res = 35 \<and>
    be_num 256 (map unat res) = (be_num 256 (map unat out) * 2 ^ bits + unat buf) * 32 ^ length ds + be_num 32 ds"
  using assms
proof (induction ds arbitrary: buf bits out)
  case Nil
  from Nil.prems(3,4) have "bits = 0" by simp presburger
  with Nil.prems(4) have "length out = 35" by simp
  note this \<open>bits = 0\<close>
  with Nil show ?case by simp
next
  case (Cons d ds)
  let ?b = "push_bit 5 buf OR ucast (of_nat d :: u8)" and ?n = "bits + 5"
  have d: "d < 32" "decode_base32_char (of_char (base32_symbol d)) = Some (of_nat d)"
    using Cons.prems(1) by (simp_all add: decode_symbol)
  have "(2::nat) ^ bits \<le> 2 ^ 7" using Cons.prems(3) by (intro power_increasing) auto
  then have b: "unat ?b = unat buf * 32 + d" using Cons.prems(2) d(1) by (intro buffer_push) auto
  have "(unat buf + 1) * 32 \<le> 2 ^ bits * 32" using Cons.prems(2) by (intro mult_right_mono) auto
  then have lt: "unat ?b < 2 ^ ?n" using b d(1) by (simp add: power_add)
  show ?case
  proof (cases "8 \<le> ?n")
    case False
    from Cons.IH [of ?b ?n out] Cons.prems lt False obtain res where
      "decode_loop ?b ?n out (map (\<lambda>d. of_char (base32_symbol d)) ds) = Some res" "length res = 35"
      "be_num 256 (map unat res) = (be_num 256 (map unat out) * 2 ^ ?n + unat ?b) * 32 ^ length ds + be_num 32 ds"
      by auto
    then show ?thesis using d False b by (simp add: be_num_Cons power_add algebra_simps)
  next
    case True
    let ?m = "?n - 8"
    let ?r = "if ?m > 0 then ?b AND (push_bit ?m 1 - 1) else 0" and ?o = "out @ [ucast (drop_bit ?m ?b)]"
    have r: "unat ?r = unat ?b mod 2 ^ ?m" using Cons.prems(3) by (intro buffer_rest) auto
    have o: "be_num 256 (map unat ?o) = be_num 256 (map unat out) * 256 + unat ?b div 2 ^ ?m"
    proof -
      have "?m + 8 = ?n" using True by simp
      then have "unat (ucast (drop_bit ?m ?b) :: u8) = unat ?b div 2 ^ ?m" by (intro buffer_byte) (simp only: lt)
      then show ?thesis by (simp only: map_append list.map be_num_snoc)
    qed
    have "8 * length ?o + ?m + 5 * length ds = 280" "?m < 8" "unat ?r < 2 ^ ?m" and out: "length out < 35"
      using Cons.prems(3,4) True r by simp_all
    with Cons.IH [of ?r ?m ?o] Cons.prems(1) obtain res where
      res: "decode_loop ?r ?m ?o (map (\<lambda>d. of_char (base32_symbol d)) ds) = Some res" "length res = 35"
      and num: "be_num 256 (map unat res) = (be_num 256 (map unat ?o) * 2 ^ ?m + unat ?r) * 32 ^ length ds + be_num 32 ds"
      by (metis list.set_intros(2))
    have "(256::nat) * 2 ^ ?m = 2 ^ ?n" using True power_add [of "2::nat" 8 ?m] by (simp add: add.commute)
    then have "be_num 256 (map unat out) * 256 * 2 ^ ?m = be_num 256 (map unat out) * 2 ^ ?n" by simp
    then have "be_num 256 (map unat ?o) * 2 ^ ?m + unat ?r = be_num 256 (map unat out) * 2 ^ ?n + unat ?b"
      unfolding o r by (simp add: algebra_simps)
    then have "be_num 256 (map unat res) =
        (be_num 256 (map unat out) * 2 ^ bits + unat buf) * 32 ^ length (d # ds) + be_num 32 (d # ds)"
      unfolding num b by (simp add: be_num_Cons power_add algebra_simps)
    moreover have "decode_loop buf bits out (map (\<lambda>d. of_char (base32_symbol d)) (d # ds)) = Some res"
      using decode_loop_step [OF d(2) True out refl refl] res(1) by simp
    ultimately show ?thesis using res(2) by blast
  qed
qed

lemma decode_loop_symbols:
  "decode_loop buf bits out cs = Some res \<Longrightarrow> c \<in> set cs \<Longrightarrow> decode_base32_char c \<noteq> None"
  by (induction buf bits out cs rule: decode_loop.induct) (auto simp: Let_def split: option.splits if_splits)

section \<open>Valid wallets are exactly the strkeys\<close>

lemma string_bytes_symbols: "string_bytes (map base32_symbol ds) = map (\<lambda>d. of_char (base32_symbol d)) ds"
  by (simp add: string_bytes_def)

lemma decode_symbols_text:
  assumes "length ds = 56" "\<forall>d \<in> set ds. d < 32"
  obtains res where "decode_stellar_base32 (string_bytes (map base32_symbol ds)) = Some res" "length res = 35"
    "be_num 256 (map unat res) = be_num 32 ds"
  using decode_loop_num [of ds 0 0 "[]"] assms that
  by (auto simp: decode_stellar_base32_def string_bytes_symbols)

lemma bytes_of_num:
  assumes "length xs = length ys" "be_num 256 (map unat xs) = be_num 256 (map unat ys)"
  shows "xs = (ys :: bytes)"
proof -
  have *: "\<forall>d \<in> set (map unat zs). d < 256" for zs :: bytes
    using unsigned_less [where 'a = nat and 'b = 8] by auto
  from be_digits_num [OF *, of xs] be_digits_num [OF *, of ys] assms have "map unat xs = map unat ys" by simp
  then show ?thesis by (rule map_injective) (simp add: inj_def unsigned_word_eqI)
qed

lemma decode_base32_text:
  assumes "length bs = 35"
  shows "decode_stellar_base32 (string_bytes (base32_text bs)) = Some bs"
proof -
  let ?ds = "be_digits 32 56 (be_num 256 (map unat bs))"
  have "\<forall>d \<in> set ?ds. d < 32" by (auto intro: be_digits_less)
  then obtain res where r: "decode_stellar_base32 (string_bytes (map base32_symbol ?ds)) = Some res" "length res = 35"
    "be_num 256 (map unat res) = be_num 32 ?ds" by (rule decode_symbols_text [rotated]) simp_all
  have "be_num 256 (map unat bs) < 256 ^ length (map unat bs)"
    using unsigned_less [where 'a = nat and 'b = 8] by (intro be_num_bound) auto
  then have "be_num 256 (map unat res) = be_num 256 (map unat bs)"
    using r(3) assms by (simp add: be_num_digits)
  then have "res = bs" using r(2) assms by (intro bytes_of_num) simp_all
  with r(1) show ?thesis by (simp add: base32_text_def)
qed

lemma base32_text_decode:
  assumes "decode_stellar_base32 (string_bytes w) = Some res" "length w = 56"
  shows "length res = 35 \<and> w = base32_text res"
proof -
  define f where "f c = unat (the (decode_base32_char (of_char c)))" for c
  define ds where "ds = map f w"
  have s: "f c < 32 \<and> base32_symbol (f c) = c" if "c \<in> set w" for c
  proof -
    have "decode_base32_char (of_char c) \<noteq> None"
      using decode_loop_symbols assms(1) that by (auto simp: decode_stellar_base32_def string_bytes_def)
    then show ?thesis using decode_char_Some [of c] by (auto simp: f_def)
  qed
  then have w: "map base32_symbol ds = w" and ds: "\<forall>d \<in> set ds. d < 32"
    by (auto simp: ds_def intro!: map_idI)
  have l: "length ds = 56" using assms(2) by (simp add: ds_def)
  obtain r where "decode_stellar_base32 (string_bytes w) = Some r" "length r = 35"
    "be_num 256 (map unat r) = be_num 32 ds" using decode_symbols_text [OF l ds] unfolding w .
  with assms(1) have r: "length res = 35" "be_num 256 (map unat res) = be_num 32 ds" by simp_all
  have "be_digits 32 56 (be_num 32 ds) = ds" using be_digits_num [OF ds] l by simp
  with r w show ?thesis by (simp add: base32_text_def)
qed

lemma from_le_bytes16_iff:
  "from_le_bytes16 lo hi = c \<longleftrightarrow> lo = of_nat (unat c mod 256) \<and> hi = of_nat (unat c div 256)"
proof -
  have lo: "(of_nat (unat c mod 256) :: u8) = ucast c"
    by (rule unsigned_word_eqI [where 'a = nat]) (simp add: unsigned_ucast_eq unsigned_of_nat take_bit_eq_mod)
  have "unat c div 256 < 256" using unsigned_less [of c, where 'a = nat] by simp
  moreover have "unat (drop_bit 8 c) = unat c div 256"
    using unsigned_less [of c, where 'a = nat] unfolding unsigned_drop_bit_eq by (simp add: drop_bit_eq_div take_bit_nat_eq_self)
  ultimately have hi: "(of_nat (unat c div 256) :: u8) = ucast (drop_bit 8 c)"
    by (intro unsigned_word_eqI [where 'a = nat]) (simp add: unsigned_ucast_eq unsigned_of_nat take_bit_eq_mod)
  show ?thesis unfolding lo hi
  proof
    assume c: "from_le_bytes16 lo hi = c"
    show "lo = ucast c \<and> hi = ucast (drop_bit 8 c)"
      unfolding c [symmetric] from_le_bytes16_def using bit_imp_le_length [of lo]
      by (force intro!: bit_word_eqI simp: bit_simps)
  next
    assume "lo = ucast c \<and> hi = ucast (drop_bit 8 c)"
    then show "from_le_bytes16 lo hi = c"
      by (auto simp: from_le_bytes16_def bit_simps intro!: bit_word_eqI dest: bit_imp_le_length)
  qed
qed

lemma strkey_bytes_crc: "strkey_bytes key = (let payload = STELLAR_ACCOUNT_VERSION_BYTE # key; crc = crc16_xmodem payload in
    payload @ [of_nat (unat crc mod 256), of_nat (unat crc div 256)])"
proof -
  have "STELLAR_ACCOUNT_VERSION_BYTE = 0x30" by (simp add: STELLAR_ACCOUNT_VERSION_BYTE_def)
  then show ?thesis by (simp only: strkey_bytes_def crc16_is_remainder Let_def)
qed

lemma valid_wallet_strkey:
  assumes "employee_wallet_format_is_valid w"
  shows "\<exists>key. length key = 32 \<and> w = strkey key"
proof -
  from assms obtain res where r: "decode_stellar_base32 (string_bytes w) = Some res" and l: "length w = 56"
    and h: "res ! 0 = STELLAR_ACCOUNT_VERSION_BYTE" and c: "from_le_bytes16 (res ! 33) (res ! 34) = crc16_xmodem (take 33 res)"
    by (auto simp: employee_wallet_format_is_valid_def STELLAR_ACCOUNT_STRKEY_LEN_def split: if_splits option.splits)
  from base32_text_decode [OF r l] have res: "length res = 35" "w = base32_text res" by simp_all
  let ?key = "take 32 (drop 1 res)"
  have t: "take 33 res = STELLAR_ACCOUNT_VERSION_BYTE # ?key"
    using res(1) h by (intro nth_equalityI) (auto simp: nth_Cons')
  have "res = take 33 res @ [res ! 33, res ! 34]"
  proof -
    have "drop 33 res = [res ! 33, res ! 34]" using res(1) by (simp add: list_eq_iff_nth_eq nth_Cons' less_2_cases_iff)
    then show ?thesis by (metis append_take_drop_id)
  qed
  then have "res = strkey_bytes ?key"
    using c t by (simp add: strkey_bytes_crc Let_def from_le_bytes16_iff)
  then show ?thesis
    using res by (intro exI [of _ ?key]) (simp add: strkey_def)
qed

lemma strkey_valid_wallet:
  assumes "length key = 32"
  shows "employee_wallet_format_is_valid (strkey key)"
proof -
  let ?bs = "strkey_bytes key"
  have "length ?bs = 35" "?bs ! 0 = STELLAR_ACCOUNT_VERSION_BYTE" "take 33 ?bs = STELLAR_ACCOUNT_VERSION_BYTE # key"
    "from_le_bytes16 (?bs ! 33) (?bs ! 34) = crc16_xmodem (take 33 ?bs)"
    using assms by (simp_all add: strkey_bytes_crc Let_def nth_append from_le_bytes16_iff)
  moreover from this have "decode_stellar_base32 (string_bytes (strkey key)) = Some ?bs"
    by (simp add: strkey_def decode_base32_text)
  ultimately show ?thesis
    by (simp add: employee_wallet_format_is_valid_def STELLAR_ACCOUNT_STRKEY_LEN_def strkey_def base32_text_def)
qed

text \<open>C14. The registry's address check accepts exactly the strkey texts of account keys: the
  base-32 text of the version byte, the 32 bytes of the key and the little-endian CRC-16/XMODEM
  checksum of these 33 bytes, where the checksum is the remainder of the polynomial division.\<close>

theorem wallet_valid_iff_strkey:
  "employee_wallet_format_is_valid w \<longleftrightarrow> (\<exists>key. length key = 32 \<and> w = strkey key)"
  using valid_wallet_strkey strkey_valid_wallet by blast

end
