(* ===== verification/Registry_Histories.thy ===== *)
theory Registry_Histories
  imports Registry_Wallet
begin

text \<open>
  Histories of calls to the payroll registry: the invariant of its storage, the handover of a
  company's admin, employees that were removed, approval thresholds, and the limits of the
  guards on companies and on the pause manager.
\<close>

section \<open>Calls\<close>

datatype reg_call =
    RcSetPauseManager address address
  | RcRegister address address
  | RcAddEmployee u64 address bytes
  | RcAddEmployeeByWallet u64 string bytes
  | RcRemoveEmployee u64 address
  | RcUpdateCommitment u64 address bytes
  | RcSetStatus u64 address EmployeeStatus
  | RcProposeAdmin u64 address address
  | RcAcceptAdmin u64 address
  | RcCancelAdmin u64 address
  | RcProposeTreasury u64 address address
  | RcAcceptTreasury u64 address
  | RcCancelTreasury u64 address
  | RcProposeThreshold u64 address u32 u64
  | RcActivateThreshold u64 address
  | RcCancelThreshold u64 address
  | RcInitialThreshold u64 address u32

definition reg_invoke :: "penv \<times> reg_call \<Rightarrow> registry \<Rightarrow> registry outcome" where
  "reg_invoke c s = (let e = fst c in case snd c of
     RcSetPauseManager a pm \<Rightarrow> reg_set_pause_manager e a pm s
   | RcRegister a t \<Rightarrow> and_then (register_company e a t s) (\<lambda>r. Inr (snd r))
   | RcAddEmployee i m c \<Rightarrow> add_employee e i m c s
   | RcAddEmployeeByWallet i w c \<Rightarrow> add_employee_by_wallet e i w c s
   | RcRemoveEmployee i m \<Rightarrow> remove_employee e i m s
   | RcUpdateCommitment i m c \<Rightarrow> reg_update_commitment e i m c s
   | RcSetStatus i m st \<Rightarrow> set_employee_status e i m st s
   | RcProposeAdmin i a n \<Rightarrow> reg_propose_admin_rotation e i a n s
   | RcAcceptAdmin i n \<Rightarrow> reg_accept_admin_rotation e i n s
   | RcCancelAdmin i a \<Rightarrow> reg_cancel_admin_rotation e i a s
   | RcProposeTreasury i a n \<Rightarrow> reg_propose_treasury_rotation e i a n s
   | RcAcceptTreasury i n \<Rightarrow> reg_accept_treasury_rotation e i n s
   | RcCancelTreasury i a \<Rightarrow> reg_cancel_treasury_rotation e i a s
   | RcProposeThreshold i a n g \<Rightarrow> propose_threshold_rotation e i a n g s
   | RcActivateThreshold i a \<Rightarrow> activate_threshold_rotation e i a s
   | RcCancelThreshold i a \<Rightarrow> cancel_threshold_rotation e i a s
   | RcInitialThreshold i a n \<Rightarrow> set_initial_approval_threshold e i a n s)"

lemmas reg_defs = reg_set_pause_manager_def register_company_def add_employee_def add_employee_record_def
  add_employee_by_wallet_def remove_employee_def reg_update_commitment_def set_employee_status_def
  reg_propose_admin_rotation_def reg_accept_admin_rotation_def reg_cancel_admin_rotation_def
  reg_propose_treasury_rotation_def reg_accept_treasury_rotation_def reg_cancel_treasury_rotation_def
  propose_threshold_rotation_def activate_threshold_rotation_def cancel_threshold_rotation_def
  set_initial_approval_threshold_def threshold_guard_def

lemmas reg_call_simps = reg_invoke_def reg_defs publish_def emits Let_def

section \<open>Invariant of the storage\<close>

text \<open>Company ids come from the sequence, the index of admins names the company that the address
  administers, whatever is stored per company belongs to a registered one, and a
  pending admin rotation was proposed by the present admin.\<close>

definition ids_issued :: "registry \<Rightarrow> bool" where
  "ids_issued s \<longleftrightarrow> (\<forall>c i. companies s c = Some i \<longrightarrow> c < get_company_sequence s)"

definition admin_index_sound :: "registry \<Rightarrow> bool" where
  "admin_index_sound s \<longleftrightarrow>
     (\<forall>a c. company_of_admin s a = Some c \<longrightarrow> (\<exists>i. companies s c = Some i \<and> ci_admin i = a))"

definition records_owned :: "registry \<Rightarrow> bool" where
  "records_owned s \<longleftrightarrow>
     (\<forall>c m. employees_of s (c, m) \<noteq> None \<longrightarrow> companies s c \<noteq> None \<and> emp_status s (c, m) \<noteq> None) \<and>
     (\<forall>c m. emp_status s (c, m) \<noteq> None \<longrightarrow> companies s c \<noteq> None) \<and>
     (\<forall>c. reg_pending_admin s c \<noteq> None \<or> reg_pending_treasury s c \<noteq> None \<or> pending_thresholds s c \<noteq> None
        \<longrightarrow> companies s c \<noteq> None)"

definition thresholds_positive :: "registry \<Rightarrow> bool" where
  "thresholds_positive s \<longleftrightarrow> (\<forall>c t. approval_thresholds s c = Some t \<longrightarrow> at_required_approvals t \<noteq> 0) \<and>
     (\<forall>c p. pending_thresholds s c = Some p \<longrightarrow> pt_new_threshold p \<noteq> 0)"

text \<open>The three ways in which a call changes the companies, their ids or the index of admins.\<close>

lemma reg_company_cases [consumes 1, case_names same register admin treasury]:
  assumes "reg_invoke c s = Inr s'"
  obtains "companies s' = companies s" "company_sequence s' = company_sequence s" "company_of_admin s' = company_of_admin s"
  | a t id where "snd c = RcRegister a t" "auth (fst c) a" "company_of_admin s a = None"
      "id = get_company_sequence s" "id < id + 1" "company_sequence s' = Some (id + 1)"
      "companies s' = (companies s)(id \<mapsto> \<lparr>ci_admin = a, ci_treasury = t\<rparr>)"
      "company_of_admin s' = (company_of_admin s)(a \<mapsto> id)"
  | id n p i where "snd c = RcAcceptAdmin id n" "auth (fst c) n" "reg_pending_admin s id = Some p" "cr_new_holder p = n"
      "companies s id = Some i" "company_sequence s' = company_sequence s"
      "companies s' = (companies s)(id \<mapsto> i\<lparr>ci_admin := n\<rparr>)" "reg_pending_admin s' = (reg_pending_admin s)(id := None)"
      "company_of_admin s' = ((company_of_admin s)(ci_admin i := None))(n \<mapsto> id)"
  | id n p i where "snd c = RcAcceptTreasury id n" "auth (fst c) n" "reg_pending_treasury s id = Some p" "cr_new_holder p = n"
      "companies s id = Some i" "company_sequence s' = company_sequence s"
      "companies s' = (companies s)(id \<mapsto> i\<lparr>ci_treasury := n\<rparr>)" "company_of_admin s' = company_of_admin s"
proof -
  have next_id: "unat (x :: u64) + unat (1 :: u64) < 2 ^ LENGTH(64) \<Longrightarrow> x < x + 1" for x
    using add_u_less [of x 1 "x + 1"] by simp
  show ?thesis
  proof (cases "snd c")
    case (RcRegister a t)
    then show ?thesis using assms that(2) [of a t "get_company_sequence s"] next_id [of "get_company_sequence s"]
      by (auto simp: reg_call_simps get_company_sequence_def)
  next
    case (RcAcceptAdmin id n)
    then show ?thesis using assms that(3) [of id n] by (auto simp: reg_call_simps)
  next
    case (RcAcceptTreasury id n)
    then show ?thesis using assms that(4) [of id n] by (auto simp: reg_call_simps)
  qed (use assms that(1) in \<open>auto simp: reg_call_simps split: if_splits\<close>)
qed

lemma ids_issued_step:
  assumes "reg_invoke c s = Inr s'" "ids_issued s"
  shows "ids_issued s'"
  using assms
proof (cases rule: reg_company_cases)
  case (register a t id)
  then show ?thesis using assms(2) by (force simp: ids_issued_def get_company_sequence_def)
qed (auto simp: ids_issued_def get_company_sequence_def)

lemma ids_issued_fresh: "ids_issued s \<Longrightarrow> companies s (get_company_sequence s) = None"
  by (cases "companies s (get_company_sequence s)") (auto simp: ids_issued_def)

lemma admin_index_step:
  assumes "reg_invoke c s = Inr s'" "ids_issued s" "admin_index_sound s"
  shows "admin_index_sound s'"
  using assms(1)
proof (cases rule: reg_company_cases)
  case (register a t id)
  then show ?thesis using assms(3) ids_issued_fresh [OF assms(2)] by (fastforce simp: admin_index_sound_def)
next
  case (admin id n p i)
  then show ?thesis using assms(3) by (fastforce simp: admin_index_sound_def)
next
  case (treasury id n p i)
  then show ?thesis using assms(3) by (fastforce simp: admin_index_sound_def)
qed (use assms(3) in \<open>auto simp: admin_index_sound_def\<close>)

lemma companies_kept: "reg_invoke c s = Inr s' \<Longrightarrow> companies s i \<noteq> None \<Longrightarrow> companies s' i \<noteq> None"
  by (erule reg_company_cases) auto

text \<open>A record of a company that is new after a call belongs to a company registered before it.\<close>

lemma new_record_owned:
  assumes "reg_invoke c s = Inr s'"
  shows "employees_of s k = None \<Longrightarrow> employees_of s' k \<noteq> None \<Longrightarrow> companies s (fst k) \<noteq> None"
    and "emp_status s k = None \<Longrightarrow> emp_status s' k \<noteq> None \<Longrightarrow> companies s (fst k) \<noteq> None"
    and "reg_pending_admin s i = None \<Longrightarrow> reg_pending_admin s' i \<noteq> None \<Longrightarrow> companies s i \<noteq> None"
    and "reg_pending_treasury s i = None \<Longrightarrow> reg_pending_treasury s' i \<noteq> None \<Longrightarrow> companies s i \<noteq> None"
    and "pending_thresholds s i = None \<Longrightarrow> pending_thresholds s' i \<noteq> None \<Longrightarrow> companies s i \<noteq> None"
  using assms by (cases c; cases "snd c"; auto simp: reg_call_simps split: if_splits)+

lemma status_kept:
  assumes "reg_invoke c s = Inr s'" "employees_of s' k \<noteq> None"
  shows "emp_status s k \<noteq> None \<or> employees_of s k = None \<Longrightarrow> emp_status s' k \<noteq> None"
  using assms by (cases c; cases "snd c"; auto simp: reg_call_simps split: if_splits)

lemma records_owned_step:
  assumes "reg_invoke c s = Inr s'" "records_owned s"
  shows "records_owned s'"
  unfolding records_owned_def
  using assms(2) new_record_owned [OF assms(1)] status_kept [OF assms(1)] companies_kept [OF assms(1)]
  unfolding records_owned_def by (metis fst_conv)

lemma thresholds_step: "thresholds_positive s \<Longrightarrow> reg_invoke c s = Inr s' \<Longrightarrow> thresholds_positive s'"
  by (cases c; cases "snd c") (auto simp: reg_call_simps thresholds_positive_def split: if_splits)

section \<open>Handover of a company\<close>

definition reg_admin_of :: "u64 \<Rightarrow> registry \<Rightarrow> address option" where
  "reg_admin_of i s = map_option ci_admin (companies s i)"

definition reg_admin_pending :: "u64 \<Rightarrow> registry \<Rightarrow> (address \<times> address) option" where
  "reg_admin_pending i s = map_option (\<lambda>p. (cr_new_holder p, cr_proposed_by p)) (reg_pending_admin s i)"

definition reg_admin_proposal :: "u64 \<Rightarrow> penv \<times> reg_call \<Rightarrow> (address \<times> address) option" where
  "reg_admin_proposal i c = (case snd c of RcProposeAdmin k a n \<Rightarrow> if k = i then Some (a, n) else None | _ \<Rightarrow> None)"

definition reg_admin_acceptance :: "u64 \<Rightarrow> penv \<times> reg_call \<Rightarrow> address option" where
  "reg_admin_acceptance i c = (case snd c of RcAcceptAdmin k n \<Rightarrow> if k = i then Some n else None | _ \<Rightarrow> None)"

interpretation reg_admin: two_step_role reg_invoke "reg_admin_of i" "reg_admin_pending i" "reg_admin_proposal i"
  "reg_admin_acceptance i" "\<lambda>c. auth (fst c)" ids_issued for i
proof unfold_locales
  fix s c s' h
  assume l: "ids_issued s" and c: "reg_invoke c s = Inr s'" and h: "reg_admin_of i s = Some h" "reg_admin_of i s' \<noteq> Some h"
  from c show "\<exists>n by. reg_admin_acceptance i c = Some n \<and> auth (fst c) n \<and> reg_admin_pending i s = Some (n, by) \<and>
      reg_admin_of i s' = Some n \<and> reg_admin_pending i s' = None"
  proof (cases rule: reg_company_cases)
    case (register a t id)
    then show ?thesis using h ids_issued_fresh [OF l] by (auto simp: reg_admin_of_def split: if_splits)
  next
    case (admin id n p x)
    then show ?thesis using h
      by (auto simp: reg_admin_of_def reg_admin_pending_def reg_admin_acceptance_def split: if_splits)
  next
    case (treasury id n p x)
    then show ?thesis using h by (auto simp: reg_admin_of_def split: if_splits)
  qed (use h in \<open>simp add: reg_admin_of_def\<close>)
next
  fix s c s' n b
  assume "reg_invoke c s = Inr s'" "reg_admin_pending i s' = Some (n, b)" "reg_admin_pending i s \<noteq> Some (n, b)"
  then show "reg_admin_proposal i c = Some (b, n) \<and> auth (fst c) b \<and> reg_admin_of i s = Some b \<and>
      reg_admin_of i s' = reg_admin_of i s"
    by (cases c; cases "snd c")
      (auto simp: reg_call_simps reg_admin_of_def reg_admin_pending_def reg_admin_proposal_def split: if_splits)
qed (rule ids_issued_step)

text \<open>The storage of a registry right after deployment.\<close>

definition blank_registry :: "registry \<Rightarrow> bool" where
  "blank_registry s \<longleftrightarrow> companies s = Map.empty \<and> employees_of s = Map.empty \<and> company_sequence s = None \<and>
     emp_status s = Map.empty \<and> reg_pending_admin s = Map.empty \<and> reg_pending_treasury s = Map.empty \<and>
     company_of_admin s = Map.empty \<and> approval_thresholds s = Map.empty \<and> pending_thresholds s = Map.empty"

definition registry_ok :: "registry \<Rightarrow> bool" where
  "registry_ok s \<longleftrightarrow> ids_issued s \<and> admin_index_sound s \<and> records_owned s \<and> thresholds_positive s"

lemma registry_ok_step: "reg_invoke c s = Inr s' \<Longrightarrow> registry_ok s \<Longrightarrow> registry_ok s'"
  unfolding registry_ok_def using ids_issued_step admin_index_step records_owned_step thresholds_step by blast

lemma blank_registry_ok: "blank_registry s \<Longrightarrow> registry_ok s"
  by (simp add: blank_registry_def registry_ok_def ids_issued_def admin_index_sound_def records_owned_def
      thresholds_positive_def)

lemma registry_ok_run: "registry_ok s \<Longrightarrow> registry_ok (run_calls reg_invoke cs s)"
  by (rule run_calls_invariant [where I = registry_ok]) (auto intro: registry_ok_step)

text \<open>C16. After any history of calls on a new registry: every company id is below the sequence, so
  the next registration takes a fresh id and overwrites no company; the index of admins leads
  to a company that the address administers; employees, employee statuses, pending rotations of the
  admin or the treasury and pending thresholds belong to registered companies, and every employee has a status; a pending admin rotation was proposed by the company's present
  admin; and no approval threshold, in force or pending, is zero.\<close>

theorem registry_storage_invariant:
  assumes "blank_registry s0" "s = run_calls reg_invoke cs s0"
  shows "companies s (get_company_sequence s) = None \<and>
    (\<forall>a c. company_of_admin s a = Some c \<longrightarrow> (\<exists>i. companies s c = Some i \<and> ci_admin i = a)) \<and>
    (\<forall>c m. employees_of s (c, m) \<noteq> None \<longrightarrow> companies s c \<noteq> None \<and> emp_status s (c, m) \<noteq> None) \<and>
    (\<forall>c m. emp_status s (c, m) \<noteq> None \<longrightarrow> companies s c \<noteq> None) \<and>
    (\<forall>c. reg_pending_treasury s c \<noteq> None \<longrightarrow> companies s c \<noteq> None) \<and>
    (\<forall>c p. reg_pending_admin s c = Some p \<longrightarrow> (\<exists>i. companies s c = Some i \<and> ci_admin i = cr_proposed_by p)) \<and>
    (\<forall>c t. approval_thresholds s c = Some t \<longrightarrow> at_required_approvals t \<noteq> 0) \<and>
    (\<forall>c p. pending_thresholds s c = Some p \<longrightarrow> pt_new_threshold p \<noteq> 0 \<and> companies s c \<noteq> None)"
proof -
  have ok: "registry_ok s" using registry_ok_run [OF blank_registry_ok [OF assms(1)]] assms(2) by simp
  have "reg_admin.consented c s" for c
    using assms reg_admin.consented_run [of s0 c cs] blank_registry_ok [OF assms(1)]
    by (simp add: registry_ok_def reg_admin.consented_def reg_admin_pending_def blank_registry_def)
  then have "\<exists>i. companies s c = Some i \<and> ci_admin i = cr_proposed_by p" if "reg_pending_admin s c = Some p" for c p
    using that by (fastforce simp: reg_admin.consented_def reg_admin_pending_def reg_admin_of_def)
  then show ?thesis using ok ids_issued_fresh [of s]
    by (simp add: registry_ok_def admin_index_sound_def records_owned_def thresholds_positive_def)
qed

text \<open>Over any history of calls to the registry, the admin of a registered company changes only
  when the company's admin authorized a proposal that names the successor and the successor
  authorized its acceptance, for this very company.\<close>

lemma company_admin_change_needs_both:
  assumes "registry_ok s" "companies s i = Some x" "reg_pending_admin s i = None"
    and "companies (run_calls reg_invoke cs s) i = Some y" "ci_admin y \<noteq> ci_admin x"
  shows "(\<exists>e. (e, RcAcceptAdmin i (ci_admin y)) \<in> set cs \<and> auth e (ci_admin y)) \<and>
    (\<exists>e by. (e, RcProposeAdmin i by (ci_admin y)) \<in> set cs \<and> auth e by)"
proof -
  have "set_option (reg_admin_pending i s) = {}" using assms(3) by (simp add: reg_admin_pending_def)
  moreover have "reg_admin_of i s = Some (ci_admin x)" "reg_admin_of i (run_calls reg_invoke cs s) = Some (ci_admin y)"
    using assms(2,4) by (simp_all add: reg_admin_of_def)
  ultimately have "(\<exists>c \<in> set cs. reg_admin_acceptance i c = Some (ci_admin y) \<and> auth (fst c) (ci_admin y)) \<and>
      (\<exists>c \<in> set cs. \<exists>by. reg_admin_proposal i c = Some (by, ci_admin y) \<and> auth (fst c) by)"
    using reg_admin.handover_consent assms(1,5) by (simp add: registry_ok_def)
  then show ?thesis
    by (fastforce simp: reg_admin_acceptance_def reg_admin_proposal_def split: reg_call.splits if_splits)
qed

text \<open>A successor that already administers another company takes over this one too, and its entry
  in the index of admins, by which a second registration is refused, is redirected: the other
  company keeps the address as its admin without being indexed.\<close>

lemma rotation_bypasses_single_company_rule:
  assumes "registry_ok s" "reg_accept_admin_rotation e i n s = Inr s'" "company_of_admin s n = Some j" "j \<noteq> i"
  shows "reg_admin_of i s' = Some n \<and> reg_admin_of j s' = Some n \<and> company_of_admin s' n = Some i \<and>
    j \<notin> ran (company_of_admin s')"
proof -
  obtain x where x: "companies s j = Some x" "ci_admin x = n"
    using assms(1,3) by (auto simp: registry_ok_def admin_index_sound_def)
  have "a = n" if "company_of_admin s a = Some j" for a
    using assms(1) that x by (fastforce simp: registry_ok_def admin_index_sound_def)
  then show ?thesis using assms(2,4) x
    by (auto simp: reg_accept_admin_rotation_def emits publish_def Let_def reg_admin_of_def ran_def split: if_splits)
qed

section \<open>Employees\<close>

definition adds_employee :: "u64 \<Rightarrow> address \<Rightarrow> reg_call \<Rightarrow> bool" where
  "adds_employee i m c = (case c of RcAddEmployee k a _ \<Rightarrow> k = i \<and> a = m
     | RcAddEmployeeByWallet k w _ \<Rightarrow> k = i \<and> Address w = m | _ \<Rightarrow> False)"

lemma employee_new:
  assumes "reg_invoke c s = Inr s'" "employees_of s (i, m) = None" "employees_of s' (i, m) \<noteq> None"
  shows "adds_employee i m (snd c)"
  using assms by (cases c; cases "snd c") (auto simp: reg_call_simps adds_employee_def split: if_splits)

text \<open>An employee that was removed from a company stays ineligible through any further history
  that does not add the employee to this company again, whatever status is written: setting a
  status or updating the commitment is refused meanwhile.\<close>

lemma removed_employee_stays_ineligible:
  assumes "remove_employee e i m s = Inr s1" "\<forall>c \<in> set cs. \<not> adds_employee i m (snd c)"
    and "t = run_calls reg_invoke cs s1"
  shows "\<not> is_eligible i m t \<and>
    (\<forall>e' st t'. set_employee_status e' i m st t \<noteq> Inr t') \<and> (\<forall>e' k t'. reg_update_commitment e' i m k t \<noteq> Inr t')"
proof -
  have "employees_of s1 (i, m) = None" using assms(1) by (auto simp: remove_employee_def emits publish_def)
  then have "employees_of t (i, m) = None" unfolding assms(3)
    by (rule run_calls_invariant_on) (use employee_new assms(2) in blast)
  then show ?thesis
    by (auto simp: is_eligible_def is_employee_active_def set_employee_status_def reg_update_commitment_def)
qed

section \<open>Approval thresholds\<close>

definition threshold_value :: "u64 \<Rightarrow> registry \<Rightarrow> u32 option" where
  "threshold_value i s = map_option at_required_approvals (approval_thresholds s i)"

lemma threshold_change:
  assumes "reg_invoke c s = Inr s'" "approval_thresholds s i = Some t" "approval_thresholds s' i \<noteq> Some t"
  shows "\<exists>a p x. snd c = RcActivateThreshold i a \<and> auth (fst c) a \<and> companies s i = Some x \<and> ci_admin x = a \<and>
    pending_thresholds s i = Some p \<and> pt_effective_after p \<le> timestamp (fst c) \<and>
    threshold_value i s' = Some (pt_new_threshold p)"
  using assms by (cases c; cases "snd c")
    (auto simp: reg_call_simps threshold_value_def split: if_splits)

text \<open>A pending threshold stems from a proposal of the history, and its time of effect is the time
  of the proposal plus the grace period, computed without wrap-around.\<close>

definition proposes_threshold :: "u64 \<Rightarrow> PendingThresholdRotation \<Rightarrow> penv \<times> reg_call \<Rightarrow> bool" where
  "proposes_threshold i p c \<longleftrightarrow> (\<exists>a g. snd c = RcProposeThreshold i a (pt_new_threshold p) g \<and> auth (fst c) a \<and>
     unat (pt_effective_after p) = unat (timestamp (fst c)) + unat g)"

lemma threshold_proposed:
  assumes "reg_invoke c s = Inr s'" "pending_thresholds s' i = Some p" "pending_thresholds s i \<noteq> Some p"
  shows "proposes_threshold i p c"
  using assms by (cases c; cases "snd c")
    (auto simp: reg_call_simps proposes_threshold_def unat_word_ariths split: if_splits)

lemma threshold_proposal_origin:
  assumes "pending_thresholds (run_calls reg_invoke cs s) i = Some p" "pending_thresholds s i = None"
  shows "\<exists>c \<in> set cs. proposes_threshold i p c"
  using assms(1)
proof (induction cs rule: rev_induct)
  case Nil
  then show ?case using assms(2) by simp
next
  case (snoc c cs)
  let ?t = "run_calls reg_invoke cs s"
  show ?case
  proof (cases "pending_thresholds ?t i = Some p")
    case True
    then show ?thesis using snoc.IH by auto
  next
    case False
    with snoc.prems show ?thesis
      by (cases rule: transact_cases [of reg_invoke c ?t]) (auto dest: threshold_proposed)
  qed
qed

text \<open>Once configured, the approval threshold of a company changes only when the company's admin
  activates a proposed one, which takes the proposed value, and not before the grace period of
  that proposal, counted from its own time, has passed.\<close>

lemma threshold_changes_after_grace:
  assumes "pending_thresholds s0 i = None" "s = run_calls reg_invoke cs s0"
    and "reg_invoke (e, c) s = Inr s'" "approval_thresholds s i = Some t" "approval_thresholds s' i \<noteq> Some t"
  shows "\<exists>a n g e1 b. c = RcActivateThreshold i a \<and> auth e a \<and> reg_admin_of i s = Some a \<and>
    threshold_value i s' = Some n \<and>
    (e1, RcProposeThreshold i b n g) \<in> set cs \<and> auth e1 b \<and> unat (timestamp e1) + unat g \<le> unat (timestamp e)"
proof -
  from threshold_change [OF assms(3-5)] obtain a p where c: "c = RcActivateThreshold i a" "auth e a"
    "reg_admin_of i s = Some a" "pending_thresholds s i = Some p" "pt_effective_after p \<le> timestamp e"
    "threshold_value i s' = Some (pt_new_threshold p)" by (auto simp: reg_admin_of_def)
  from threshold_proposal_origin [of cs s0 i p] assms(1,2) c(4) obtain e1 b g where
    "(e1, RcProposeThreshold i b (pt_new_threshold p) g) \<in> set cs" "auth e1 b"
    "unat (pt_effective_after p) = unat (timestamp e1) + unat g"
    by (force simp: proposes_threshold_def)
  moreover from c(5) have "unat (pt_effective_after p) \<le> unat (timestamp e)" by (simp add: word_le_nat_alt)
  ultimately show ?thesis using c by metis
qed

section \<open>Guards that do not name the holder\<close>

text \<open>The registry's setters that take an \<open>admin\<close> argument only ask that this argument signed:
  whoever it is, the address replaces the pause manager, which releases a paused registry, and
  configures the first approval threshold of any company, registered or not.\<close>

lemma any_signer_reconfigures_registry:
  assumes "auth e a" "pause_managers e pm = Some m" "\<not> is_paused m" "approval_thresholds s i = None" "k \<noteq> 0"
  shows "\<exists>s1 s2. reg_set_pause_manager e a pm s = Inr s1 \<and> reg_require_not_paused e s1 = Inr () \<and>
    set_initial_approval_threshold e i a k s1 = Inr s2 \<and> threshold_value i s2 = Some k"
  using assms
  by (simp add: reg_set_pause_manager_def reg_require_not_paused_def set_initial_approval_threshold_def
      emits publish_def threshold_value_def require_auth_simps pause_guard_def)

section \<open>A sample history\<close>

definition reg_env :: "u64 \<Rightarrow> address list \<Rightarrow> penv" where
  "reg_env t as = env.extend ((pm_env as)\<lparr>timestamp := t\<rparr>) \<lparr>pause_managers = [Address ''PM'' \<mapsto> pm_demo, Address ''PM2'' \<mapsto> pm_demo\<lparr>paused := Map.empty\<rparr>]\<rparr>"

definition reg_blank :: registry where
  "reg_blank = \<lparr>events = [], companies = Map.empty, employees_of = Map.empty, company_sequence = None,
     emp_status = Map.empty, reg_pending_admin = Map.empty, reg_pending_treasury = Map.empty,
     company_of_admin = Map.empty, reg_pause_manager = None, approval_thresholds = Map.empty,
     pending_thresholds = Map.empty\<rparr>"

abbreviation "adr_A \<equiv> Address ''A''"
abbreviation "adr_B \<equiv> Address ''B''"
abbreviation "adr_E \<equiv> Address ''E''"

definition reg_setup :: "(penv \<times> reg_call) list" where
  "reg_setup = [(reg_env 10 [adr_A], RcRegister adr_A adr_A), (reg_env 11 [adr_B], RcRegister adr_B adr_B),
     (reg_env 12 [adr_A], RcAddEmployee 0 adr_E zero32), (reg_env 13 [adr_A], RcInitialThreshold 0 adr_A 2),
     (reg_env 14 [adr_A], RcProposeThreshold 0 adr_A 3 86400)]"

definition reg_rotation :: "(penv \<times> reg_call) list" where
  "reg_rotation = [(reg_env 20 [adr_A], RcProposeAdmin 0 adr_A adr_B), (reg_env 21 [adr_B], RcAcceptAdmin 0 adr_B)]"

lemmas reg_demo_simps = reg_setup_def reg_rotation_def reg_blank_def reg_env_def pm_env_def env.defs transact_def
  reg_call_simps reg_require_not_paused_def company_guard_def company_admin_guard_def require_auth_def
  get_company_sequence_def add_u_def

lemma reg_blank_ok: "registry_ok reg_blank" "blank_registry reg_blank"
  by (simp_all add: blank_registry_ok blank_registry_def reg_blank_def)

lemma reg_setup_facts:
  "companies (run_calls reg_invoke reg_setup reg_blank) 0 = Some \<lparr>ci_admin = adr_A, ci_treasury = adr_A\<rparr>"
  "companies (run_calls reg_invoke reg_setup reg_blank) 1 = Some \<lparr>ci_admin = adr_B, ci_treasury = adr_B\<rparr>"
  "company_of_admin (run_calls reg_invoke reg_setup reg_blank) adr_B = Some 1"
  "reg_pending_admin (run_calls reg_invoke reg_setup reg_blank) 0 = None"
  "employees_of (run_calls reg_invoke reg_setup reg_blank) (0, adr_E) = Some zero32"
  "map_option at_required_approvals (approval_thresholds (run_calls reg_invoke reg_setup reg_blank) 0) = Some 2"
  by (simp_all add: reg_demo_simps)

theorem registry_storage_invariant_witness:
  "employees_of (run_calls reg_invoke reg_setup reg_blank) (0, adr_E) \<noteq> None \<and>
   companies (run_calls reg_invoke reg_setup reg_blank) (get_company_sequence (run_calls reg_invoke reg_setup reg_blank)) = None"
  using registry_storage_invariant [OF reg_blank_ok(2) refl, of reg_setup] reg_setup_facts(5) by simp

lemma company_admin_change_needs_both_witness:
  "(\<exists>e. (e, RcAcceptAdmin 0 adr_B) \<in> set reg_rotation \<and> auth e adr_B) \<and>
   (\<exists>e by. (e, RcProposeAdmin 0 by adr_B) \<in> set reg_rotation \<and> auth e by)"
proof -
  let ?s = "run_calls reg_invoke reg_setup reg_blank"
  have "companies (run_calls reg_invoke reg_rotation ?s) 0 = Some \<lparr>ci_admin = adr_B, ci_treasury = adr_A\<rparr>"
    by (simp add: reg_demo_simps)
  from company_admin_change_needs_both [OF registry_ok_run [OF reg_blank_ok(1)] reg_setup_facts(1,4) this]
  show ?thesis by simp
qed

lemma rotation_bypasses_single_company_rule_witness:
  "\<exists>s s'. reg_accept_admin_rotation (reg_env 21 [adr_B]) 0 adr_B s = Inr s' \<and>
     reg_admin_of 0 s' = Some adr_B \<and> reg_admin_of 1 s' = Some adr_B \<and> 1 \<notin> ran (company_of_admin s')"
proof -
  let ?s = "run_calls reg_invoke (reg_setup @ [reg_rotation ! 0]) reg_blank"
  obtain s' where s': "reg_accept_admin_rotation (reg_env 21 [adr_B]) 0 adr_B ?s = Inr s'"
    by (simp add: reg_demo_simps)
  have c: "company_of_admin ?s adr_B = Some 1" by (simp add: reg_demo_simps)
  from rotation_bypasses_single_company_rule [OF registry_ok_run [OF reg_blank_ok(1)] s' c] s' show ?thesis by auto
qed

lemma removed_employee_stays_ineligible_witness:
  "\<exists>s s1. remove_employee (reg_env 30 [adr_A]) 0 adr_E s = Inr s1 \<and> is_eligible 0 adr_E s \<and>
     \<not> is_eligible 0 adr_E (run_calls reg_invoke reg_rotation s1)"
proof -
  let ?s = "run_calls reg_invoke reg_setup reg_blank"
  obtain s1 where s1: "remove_employee (reg_env 30 [adr_A]) 0 adr_E ?s = Inr s1"
    by (simp add: reg_demo_simps)
  have "\<forall>c \<in> set reg_rotation. \<not> adds_employee 0 adr_E (snd c)" by (simp add: reg_rotation_def adds_employee_def)
  from removed_employee_stays_ineligible [OF s1 this refl] have "\<not> is_eligible 0 adr_E (run_calls reg_invoke reg_rotation s1)"
    by blast
  moreover have "is_eligible 0 adr_E ?s"
    by (simp add: reg_demo_simps is_eligible_def is_employee_active_def)
  ultimately show ?thesis using s1 by blast
qed

lemma threshold_changes_after_grace_witness:
  "\<exists>s'. reg_invoke (reg_env 90000 [adr_A], RcActivateThreshold 0 adr_A) (run_calls reg_invoke reg_setup reg_blank) = Inr s' \<and>
     (\<exists>n e1 b g. threshold_value 0 s' = Some n \<and> (e1, RcProposeThreshold 0 b n g) \<in> set reg_setup \<and>
        unat (timestamp e1) + unat g \<le> 90000)"
proof -
  let ?s = "run_calls reg_invoke reg_setup reg_blank" and ?c = "RcActivateThreshold 0 adr_A"
  obtain s' where s': "reg_invoke (reg_env 90000 [adr_A], ?c) ?s = Inr s'" "threshold_value 0 s' = Some 3"
    by (simp add: reg_demo_simps threshold_value_def)
  obtain t where t: "approval_thresholds ?s 0 = Some t" "at_required_approvals t = 2"
    using reg_setup_facts(6) by auto
  then have "approval_thresholds s' 0 \<noteq> Some t" using s'(2) by (auto simp: threshold_value_def)
  from threshold_changes_after_grace [OF _ refl s'(1) t(1) this] s'(1) show ?thesis
    by (auto simp: reg_blank_def reg_env_def env.defs)
qed

lemma any_signer_reconfigures_registry_witness:
  "\<exists>s1 s2. reg_set_pause_manager (reg_env 5 [adr_E]) adr_E (Address ''PM2'') reg_blank = Inr s1 \<and>
     set_initial_approval_threshold (reg_env 5 [adr_E]) 7 adr_E 1 s1 = Inr s2 \<and> threshold_value 7 s2 = Some 1"
proof -
  let ?e = "reg_env 5 [adr_E]" and ?m = "pm_demo\<lparr>paused := Map.empty\<rparr>"
  have "auth ?e adr_E" "pause_managers ?e (Address ''PM2'') = Some ?m" "approval_thresholds reg_blank 7 = None"
    by (simp_all add: reg_env_def env.defs pm_env_def reg_blank_def)
  moreover have "\<not> is_paused ?m" by (simp add: is_paused_iff is_category_paused_def)
  ultimately show ?thesis
    using any_signer_reconfigures_registry [of ?e adr_E "Address ''PM2''" ?m reg_blank 7 1] by auto
qed

end
