(* ===== verification/Executor_Payments.thy ===== *)
theory Executor_Payments
  imports Payment_Executor Registry_Histories
begin

text \<open>
  What a payment of the payment executor does and needs, batches of payments, and histories of
  calls: no employee is paid twice in a period, no nullifier is used twice, the totals and
  counts agree with the payments, and a company has one open period at most.
\<close>

section \<open>A single payment\<close>

definition paid_state :: "'x xenv_scheme \<Rightarrow> u64 \<Rightarrow> address \<Rightarrow> i128 \<Rightarrow> bytes \<Rightarrow> u32 \<Rightarrow> PayrollPeriod \<Rightarrow> executor \<Rightarrow> executor" where
  "paid_state e i m a n k pr s = emit_executor_payment_processed i m a k
     (s\<lparr>payments := (payments s)((m, k) \<mapsto> \<lparr>py_company_id = i, py_employee = m, py_proof_hash = n,
          py_timestamp = timestamp e, py_period = k\<rparr>),
        pe_nullifiers := (pe_nullifiers s)(n \<mapsto> True),
        periods := (periods s)((i, k) \<mapsto> pr\<lparr>pd_payment_count := pd_payment_count pr + 1\<rparr>),
        total_paid := (total_paid s)(i \<mapsto> get_total_paid i s + a)\<rparr>)"

lemma execute_payment_okE:
  assumes "execute_payment e i m a p n k w = Inr (r, w')"
  obtains addrs pr co sc c reg v t t' where
    "pe_addresses (exe w) = Some addrs" "pe_require_not_paused e (exe w) = (Inr () :: unit payment_result)"
    "periods (exe w) (i, k) = Some pr" "\<not> pd_closed pr"
    "saturating_sub (timestamp e) (pd_created_at pr) \<le> MAX_PROOF_AGE_SECONDS"
    "pe_nullifiers (exe w) n = None" "payments (exe w) (m, k) = None"
    "salary_contracts e (xa_commitment addrs) = Some sc" "commitments sc m = Some c"
    "registries e (xa_registry addrs) = Some reg" "companies reg i = Some co"
    "auth e (ci_admin co)" "auth e (ci_treasury co)" "0 \<le> a"
    "verifiers e (xa_verifier addrs) = Some v"
    "verify p [commitment c, replicate 16 0 @ be_bytes 16 a] v = (Inr True :: bool payment_result)"
    "pe_is_asset_allowed (xa_token addrs) (exe w)" "decimals_guard (xa_token addrs) a (exe w) = Inr ()"
    "pe_tokens w (xa_token addrs) = Some t"
    "transfer (ci_treasury co) m a t = (Inr t' :: token payment_result)"
    "unat (pd_payment_count pr) + 1 < 2 ^ 32"
    "r = \<lparr>py_company_id = i, py_employee = m, py_proof_hash = n, py_timestamp = timestamp e, py_period = k\<rparr>"
    "w' = w\<lparr>exe := paid_state e i m a n k pr (exe w), pe_tokens := (pe_tokens w)(xa_token addrs \<mapsto> t')\<rparr>"
  using assms
  by (auto simp: execute_payment_def executor_company_def get_company_def get_commitment_def amount_to_public_input_def
      executor_transfer_def paid_state_def get_total_paid_def Let_def not_less add_u_def split: if_splits)

text \<open>C18. A successful payment was made in an open period of this company, at most seven days after
  the period began, with the signatures of the company's admin and of its treasury, against a
  proof that the verifier accepted for the employee's stored commitment and this very amount, with
  a nullifier never used and for an employee not yet paid in a period of this number. It moves
  exactly the amount from the treasury to the employee, records the payment and the nullifier, and
  adds the amount to the company's total and one to the period's count.\<close>

theorem executor_payment_exact:
  assumes "execute_payment e i m a p n k w = Inr (r, w')"
  shows "\<exists>addrs pr co reg sc c v t t'. pe_addresses (exe w) = Some addrs \<and>
    periods (exe w) (i, k) = Some pr \<and> \<not> pd_closed pr \<and> unat (timestamp e) \<le> unat (pd_created_at pr) + 604800 \<and>
    registries e (xa_registry addrs) = Some reg \<and> companies reg i = Some co \<and> auth e (ci_admin co) \<and> auth e (ci_treasury co) \<and>
    salary_contracts e (xa_commitment addrs) = Some sc \<and> commitments sc m = Some c \<and> verifiers e (xa_verifier addrs) = Some v \<and>
    verify p [commitment c, replicate 16 0 @ be_bytes 16 a] v = (Inr True :: bool payment_result) \<and>
    pe_nullifiers (exe w) n = None \<and> \<not> is_paid m k (exe w) \<and>
    pe_tokens w (xa_token addrs) = Some t \<and> pe_tokens w' = (pe_tokens w)(xa_token addrs \<mapsto> t') \<and> 0 \<le> a \<and>
    balance t' = (balance t)(ci_treasury co := balance t (ci_treasury co) - a,
      m := (if ci_treasury co = m then balance t m else balance t m + a)) \<and>
    get_payment m k (exe w') = Inr r \<and> py_company_id r = i \<and> py_proof_hash r = n \<and> pe_nullifiers (exe w') n = Some True \<and>
    get_total_paid i (exe w') = get_total_paid i (exe w) + a \<and>
    map_option (\<lambda>q. unat (pd_payment_count q)) (periods (exe w') (i, k)) = Some (unat (pd_payment_count pr) + 1)"
  using assms
proof (rule execute_payment_okE)
  fix addrs pr co sc c reg v t t'
  assume *: "pe_addresses (exe w) = Some addrs" "periods (exe w) (i, k) = Some pr" "\<not> pd_closed pr"
    "saturating_sub (timestamp e) (pd_created_at pr) \<le> MAX_PROOF_AGE_SECONDS"
    "pe_nullifiers (exe w) n = None" "payments (exe w) (m, k) = None"
    "salary_contracts e (xa_commitment addrs) = Some sc" "commitments sc m = Some c"
    "registries e (xa_registry addrs) = Some reg" "companies reg i = Some co"
    "auth e (ci_admin co)" "auth e (ci_treasury co)" "0 \<le> a" "verifiers e (xa_verifier addrs) = Some v"
    "verify p [commitment c, replicate 16 0 @ be_bytes 16 a] v = (Inr True :: bool payment_result)"
    "pe_tokens w (xa_token addrs) = Some t" "transfer (ci_treasury co) m a t = (Inr t' :: token payment_result)"
    "unat (pd_payment_count pr) + 1 < 2 ^ 32"
    "r = \<lparr>py_company_id = i, py_employee = m, py_proof_hash = n, py_timestamp = timestamp e, py_period = k\<rparr>"
    "w' = w\<lparr>exe := paid_state e i m a n k pr (exe w), pe_tokens := (pe_tokens w)(xa_token addrs \<mapsto> t')\<rparr>"
  have "unat (saturating_sub (timestamp e) (pd_created_at pr)) \<le> 604800"
    using *(4) by (simp add: word_le_nat_alt MAX_PROOF_AGE_SECONDS_def)
  then have "unat (timestamp e) \<le> unat (pd_created_at pr) + 604800" by (simp add: saturating_sub_unat)
  moreover have "unat (pd_payment_count pr + 1) = unat (pd_payment_count pr) + 1"
    using *(18) by (simp add: unat_word_ariths)
  moreover have "get_payment m k (exe w') = Inr r" "py_company_id r = i" "py_proof_hash r = n" "pe_nullifiers (exe w') n = Some True"
    "get_total_paid i (exe w') = get_total_paid i (exe w) + a" "pe_tokens w' = (pe_tokens w)(xa_token addrs \<mapsto> t')"
    "periods (exe w') (i, k) = Some (pr\<lparr>pd_payment_count := pd_payment_count pr + 1\<rparr>)"
    using *(19,20) by (simp_all add: paid_state_def get_payment_def get_total_paid_def emits publish_def)
  ultimately show ?thesis using * tok.transfer_ok [OF *(17)]
    by (intro exI [of _ addrs] exI [of _ pr] exI [of _ co] exI [of _ reg] exI [of _ sc] exI [of _ c] exI [of _ v]
        exI [of _ t] exI [of _ t']) (simp add: is_paid_def)
qed

text \<open>The public input that stands for the amount has 32 bytes and determines the amount: a
  proof is accepted for one amount only.\<close>

lemma amount_input_determines_amount:
  assumes "amount_to_public_input a = (Inr x :: (unit, bytes) result)" "amount_to_public_input b = (Inr y :: (unit, bytes) result)"
    and "in_i128 a" "in_i128 b"
  shows "length x = 32 \<and> (x = y \<longleftrightarrow> a = b)"
proof
  show "length x = 32" using assms(1) by (auto simp: amount_to_public_input_def)
  have r: "0 \<le> a" "0 \<le> b" "x = replicate 16 0 @ be_bytes 16 a" "y = replicate 16 0 @ be_bytes 16 b"
    using assms(1,2) by (auto simp: amount_to_public_input_def)
  show "x = y \<longleftrightarrow> a = b"
  proof
    assume "x = y"
    then have "a mod 256 ^ 16 = b mod 256 ^ 16" using r by (intro be_bytes_inj) simp
    with assms(3,4) r show "a = b" by (simp add: in_i128_def)
  qed (use r in simp)
qed

section \<open>Batches\<close>

text \<open>The part of the effect of a payment that the loop over a batch accumulates.\<close>

lemma execute_payment_books:
  assumes "execute_payment e i m a p n k w = Inr (r, w')"
    and "pe_addresses (exe w) = Some addrs" "registries e (xa_registry addrs) = Some reg" "companies reg i = Some co"
    and "pe_tokens w (xa_token addrs) = Some t"
  obtains t' where "transfer (ci_treasury co) m a t = (Inr t' :: token payment_result)"
    "pe_tokens w' = (pe_tokens w)(xa_token addrs \<mapsto> t')" "pe_addresses (exe w') = Some addrs"
    "get_total_paid i (exe w') = get_total_paid i (exe w) + a"
    "payments (exe w) (m, k) = None" "payments (exe w') = (payments (exe w))((m, k) \<mapsto> r)"
    "pe_nullifiers (exe w) n = None" "pe_nullifiers (exe w') = (pe_nullifiers (exe w))(n \<mapsto> True)"
    "r = \<lparr>py_company_id = i, py_employee = m, py_proof_hash = n, py_timestamp = timestamp e, py_period = k\<rparr>"
  using assms(1) by (rule execute_payment_okE)
    (use assms(2-) that in \<open>auto simp: paid_state_def emits publish_def get_total_paid_def\<close>)

text \<open>The places of the batch are paid in order, as a sequence of transfers of the token ledger.\<close>

lemma batch_loop_pays:
  assumes "batch_loop e i ms as pas pbs pcs ns k is rs w = Inr (rs', w')"
    and "pe_addresses (exe w) = Some addrs" "registries e (xa_registry addrs) = Some reg" "companies reg i = Some co"
    and "pe_tokens w (xa_token addrs) = Some t"
  shows "\<exists>t'. tok.pay_all (ci_treasury co) (map (\<lambda>j. (ms ! j, as ! j)) is) t = (Inr t' :: token payment_result) \<and>
    pe_tokens w' = (pe_tokens w)(xa_token addrs \<mapsto> t') \<and>
    get_total_paid i (exe w') = get_total_paid i (exe w) + (\<Sum>j \<leftarrow> is. as ! j) \<and>
    distinct (map (\<lambda>j. ms ! j) is) \<and> (\<forall>j \<in> set is. payments (exe w) (ms ! j, k) = None) \<and>
    distinct (map (\<lambda>j. ns ! j) is) \<and> (\<forall>j \<in> set is. pe_nullifiers (exe w) (ns ! j) = None) \<and>
    rs' = rs @ map (\<lambda>j. \<lparr>py_company_id = i, py_employee = ms ! j, py_proof_hash = ns ! j,
      py_timestamp = timestamp e, py_period = k\<rparr>) is"
  using assms
proof (induction "is" arbitrary: rs w t)
  case Nil
  then show ?case by (auto simp: fun_upd_idem)
next
  case (Cons j js)
  from Cons.prems(1) obtain r w1 where
    pay: "execute_payment e i (ms ! j) (as ! j) \<lparr>proof_a = pas ! j, proof_b = pbs ! j, proof_c = pcs ! j\<rparr> (ns ! j) k w = Inr (r, w1)"
    and rest: "batch_loop e i ms as pas pbs pcs ns k js (rs @ [r]) w1 = Inr (rs', w')" by auto
  from execute_payment_books [OF pay Cons.prems(2-5)] obtain t1 where
    t1: "transfer (ci_treasury co) (ms ! j) (as ! j) t = (Inr t1 :: token payment_result)"
    "pe_tokens w1 = (pe_tokens w)(xa_token addrs \<mapsto> t1)" "pe_addresses (exe w1) = Some addrs"
    "get_total_paid i (exe w1) = get_total_paid i (exe w) + as ! j"
    "payments (exe w) (ms ! j, k) = None" "payments (exe w1) = (payments (exe w))((ms ! j, k) \<mapsto> r)"
    "pe_nullifiers (exe w) (ns ! j) = None" "pe_nullifiers (exe w1) = (pe_nullifiers (exe w))(ns ! j \<mapsto> True)"
    "r = \<lparr>py_company_id = i, py_employee = ms ! j, py_proof_hash = ns ! j, py_timestamp = timestamp e, py_period = k\<rparr>" by blast
  have "pe_tokens w1 (xa_token addrs) = Some t1" using t1(2) by simp
  from Cons.IH [OF rest t1(3) Cons.prems(3,4) this] obtain t' where
    t': "tok.pay_all (ci_treasury co) (map (\<lambda>j. (ms ! j, as ! j)) js) t1 = (Inr t' :: token payment_result)"
    "pe_tokens w' = (pe_tokens w1)(xa_token addrs \<mapsto> t')"
    "get_total_paid i (exe w') = get_total_paid i (exe w1) + (\<Sum>j \<leftarrow> js. as ! j)"
    "distinct (map (\<lambda>j. ms ! j) js)" "\<forall>j \<in> set js. payments (exe w1) (ms ! j, k) = None"
    "distinct (map (\<lambda>j. ns ! j) js)" "\<forall>j \<in> set js. pe_nullifiers (exe w1) (ns ! j) = None"
    "rs' = (rs @ [r]) @ map (\<lambda>j. \<lparr>py_company_id = i, py_employee = ms ! j, py_proof_hash = ns ! j,
      py_timestamp = timestamp e, py_period = k\<rparr>) js" by blast
  have "ms ! j \<notin> (\<lambda>j. ms ! j) ` set js" "\<forall>l \<in> set js. payments (exe w) (ms ! l, k) = None"
    using t'(5) t1(6) by (auto split: if_splits)
  moreover have "ns ! j \<notin> (\<lambda>j. ns ! j) ` set js" "\<forall>l \<in> set js. pe_nullifiers (exe w) (ns ! l) = None"
    using t'(7) t1(8) by (auto split: if_splits)
  ultimately show ?case using t1 t' by simp
qed

lemma map_nth_zip: "length xs = length ys \<Longrightarrow> map (\<lambda>j. (xs ! j, ys ! j)) [0..<length xs] = zip xs ys"
  by (intro nth_equalityI) simp_all

text \<open>C12. A batch that succeeds has one amount, proof and nullifier per employee, is not empty, and
  names neither an employee nor a nullifier twice. It pays the employees in order, as a sequence
  of transfers from the company's treasury, and adds the sum of the amounts to the company's
  total. The treasury loses exactly that sum, every employee gains exactly the listed amount, and no
  other balance changes; an amount that is listed for the treasury itself comes back to it.\<close>

theorem executor_batch_exact:
  assumes "execute_batch_payroll e i ms as pas pbs pcs ns k w = Inr (rs, w')"
    and "pe_addresses (exe w) = Some addrs" "registries e (xa_registry addrs) = Some reg" "companies reg i = Some co"
    and "pe_tokens w (xa_token addrs) = Some t"
  shows "\<exists>t'. tok.pay_all (ci_treasury co) (zip ms as) t = (Inr t' :: token payment_result) \<and>
    pe_tokens w' = (pe_tokens w)(xa_token addrs \<mapsto> t') \<and> ms \<noteq> [] \<and> distinct ms \<and> distinct ns \<and>
    length as = length ms \<and> length ns = length ms \<and> map py_employee rs = ms \<and> map py_proof_hash rs = ns \<and>
    balance t' (ci_treasury co) = balance t (ci_treasury co) - sum_list as +
      sum_list (map snd (filter (\<lambda>p. fst p = ci_treasury co) (zip ms as))) \<and>
    (\<forall>j < length ms. ms ! j \<noteq> ci_treasury co \<longrightarrow> balance t' (ms ! j) = balance t (ms ! j) + as ! j) \<and>
    (\<forall>c. c \<noteq> ci_treasury co \<and> c \<notin> set ms \<longrightarrow> balance t' c = balance t c) \<and>
    get_total_paid i (exe w') = get_total_paid i (exe w) + sum_list as"
proof -
  from assms(1) have l: "length as = length ms" "length ns = length ms" "ms \<noteq> []"
    and loop: "batch_loop e i ms as pas pbs pcs ns k [0..<length ms] [] w = Inr (rs, w')"
    by (auto simp: execute_batch_payroll_def Let_def)
  have sums: "(\<Sum>j \<leftarrow> [0..<length ms]. as ! j) = sum_list as" by (simp add: map_nth flip: l(1))
  have names: "map (\<lambda>j. ns ! j) [0..<length ms] = ns" by (simp add: map_nth flip: l(2))
  from batch_loop_pays [OF loop assms(2-5)] obtain t' where
    t': "tok.pay_all (ci_treasury co) (zip ms as) t = (Inr t' :: token payment_result)"
    "pe_tokens w' = (pe_tokens w)(xa_token addrs \<mapsto> t')" "distinct ms" "distinct ns"
    "get_total_paid i (exe w') = get_total_paid i (exe w) + sum_list as"
    "map py_employee rs = ms" "map py_proof_hash rs = ns"
    by (auto simp: map_nth_zip l sums names map_nth comp_def)
  have d: "distinct (map fst (zip ms as))" "map snd (zip ms as) = as" using t'(3) l by simp_all
  have sets: "fst ` set (zip ms as) = set ms" using l(1) by (metis list.set_map map_fst_zip)
  note bal = tok.pay_all_balance [OF t'(1)]
  have "balance t' (ms ! j) = balance t (ms ! j) + as ! j" if "j < length ms" "ms ! j \<noteq> ci_treasury co" for j
    using bal [of "ms ! j"] that paid_once [OF d(1), of "ms ! j" "as ! j"] l by (auto simp: set_zip)
  moreover have "balance t' c = balance t c" if "c \<noteq> ci_treasury co" "c \<notin> set ms" for c
    using tok.pay_all_other [OF t'(1)] that sets by auto
  ultimately show ?thesis using t' l bal [of "ci_treasury co"] d(2) by auto
qed

end
