(* ===== verification/Executor_Histories.thy ===== *)
theory Executor_Histories
  imports Executor_Payments
begin

text \<open>
  Histories of calls to the payment executor, as paths of a step relation in which a batch is a
  sequence of payments: the books of the executor, its periods, and payments made once.
\<close>

section \<open>Calls and steps\<close>

datatype exe_call =
    XcInitialize pe_ContractAddresses
  | XcSetAdmin address
  | XcSetPauseManager address
  | XcSetAssetAllowed address bool
  | XcSetDecimals address u32
  | XcCreatePeriod u64
  | XcClosePeriod u64 u32
  | XcPay u64 address i128 Groth16Proof bytes u32
  | XcBatch u64 "address list" "i128 list" "bytes list" "bytes list" "bytes list" "bytes list" u32
  | XcTokensMove "address \<rightharpoonup> token"

definition on_exe :: "(executor \<Rightarrow> executor payment_result) \<Rightarrow> executor_world \<Rightarrow> executor_world payment_result" where
  "on_exe f w = and_then (f (exe w)) (\<lambda>s. Inr (w\<lparr>exe := s\<rparr>))"

text \<open>Balances also change by calls to the token contracts that do not involve the executor.\<close>

definition exe_invoke :: "xenv \<times> exe_call \<Rightarrow> executor_world \<Rightarrow> executor_world payment_result" where
  "exe_invoke c w = (let e = fst c in case snd c of
     XcInitialize addrs \<Rightarrow> on_exe (pe_initialize e addrs) w
   | XcSetAdmin a \<Rightarrow> on_exe (set_executor_admin e a) w
   | XcSetPauseManager a \<Rightarrow> on_exe (pe_set_pause_manager e a) w
   | XcSetAssetAllowed a b \<Rightarrow> on_exe (pe_set_asset_allowed e a b) w
   | XcSetDecimals a d \<Rightarrow> on_exe (set_asset_decimals e a d) w
   | XcCreatePeriod i \<Rightarrow> on_exe (\<lambda>s. and_then (create_period e i s) (\<lambda>r. Inr (snd r))) w
   | XcClosePeriod i k \<Rightarrow> on_exe (\<lambda>s. and_then (close_period e i k s) (\<lambda>r. Inr (snd r))) w
   | XcPay i m a p n k \<Rightarrow> and_then (execute_payment e i m a p n k w) (\<lambda>r. Inr (snd r))
   | XcBatch i ms as pas pbs pcs ns k \<Rightarrow>
       and_then (execute_batch_payroll e i ms as pas pbs pcs ns k w) (\<lambda>r. Inr (snd r))
   | XcTokensMove ts \<Rightarrow> Inr (w\<lparr>pe_tokens := ts\<rparr>))"

text \<open>The payments that the executor announced, in order, read from its events.\<close>

definition announced :: "event \<Rightarrow> (u64 \<times> address \<times> i128 \<times> u32) option" where
  "announced ev = (case (topics ev, data ev) of
     ([VSym t, VU64 i], VVec [VAddr m, VI128 a, VU32 k]) \<Rightarrow> if t = ''PayrollProcessed'' then Some (i, m, a, k) else None
   | _ \<Rightarrow> None)"

definition logged :: "event list \<Rightarrow> (u64 \<times> address \<times> i128 \<times> u32) list" where
  "logged evs = List.map_filter announced evs"

definition payment_log :: "executor \<Rightarrow> (u64 \<times> address \<times> i128 \<times> u32) list" where
  "payment_log s = logged (events s)"

definition same_books :: "executor \<Rightarrow> executor \<Rightarrow> bool" where
  "same_books s s' \<longleftrightarrow> payments s' = payments s \<and> pe_nullifiers s' = pe_nullifiers s \<and> total_paid s' = total_paid s \<and>
     periods s' = periods s \<and> period_sequence s' = period_sequence s \<and> payment_log s' = payment_log s"

inductive executor_step :: "executor \<Rightarrow> executor \<Rightarrow> bool" where
  configured: "same_books s s' \<Longrightarrow> executor_step s s'"
| created: "create_period (e :: xenv) i s = Inr (p, s') \<Longrightarrow> executor_step s s'"
| closed: "close_period (e :: xenv) i k s = Inr (p, s') \<Longrightarrow> executor_step s s'"
| paid: "execute_payment (e :: xenv) i m a p n k w = Inr (r, w') \<Longrightarrow> executor_step (exe w) (exe w')"

lemma logged_snoc [simp]: "logged (evs @ [ev]) = logged evs @ (case announced ev of None \<Rightarrow> [] | Some x \<Rightarrow> [x])"
  by (simp add: logged_def List.map_filter_def split: option.split)

lemma batch_steps:
  "batch_loop (e :: xenv) i ms as pas pbs pcs ns k is rs w = Inr (rs', w') \<Longrightarrow> executor_step\<^sup>*\<^sup>* (exe w) (exe w')"
proof (induction "is" arbitrary: rs w)
  case Nil
  then show ?case by simp
next
  case (Cons j js)
  then obtain r w1 where w1: "execute_payment e i (ms ! j) (as ! j)
      \<lparr>proof_a = pas ! j, proof_b = pbs ! j, proof_c = pcs ! j\<rparr> (ns ! j) k w = Inr (r, w1)"
    "batch_loop e i ms as pas pbs pcs ns k js (rs @ [r]) w1 = Inr (rs', w')" by auto
  from executor_step.paid [OF w1(1)] Cons.IH [OF w1(2)] show ?case by (rule converse_rtranclp_into_rtranclp)
qed

lemma announced_simps [simp]:
  "announced \<lparr>topics = [VSym t, VU64 i], data = VVec [VAddr m, VI128 a, VU32 k]\<rparr> =
     (if t = ''PayrollProcessed'' then Some (i, m, a, k) else None)"
  "announced \<lparr>topics = [VSym t], data = d\<rparr> = None"
  "announced \<lparr>topics = [VSym t, VAddr x], data = d\<rparr> = None"
  "announced \<lparr>topics = [VSym t, VU64 i], data = VVec [v]\<rparr> = None"
  by (simp_all add: announced_def split: scval.split)

lemma exe_invoke_steps:
  assumes "exe_invoke c w = Inr w'"
  shows "executor_step\<^sup>*\<^sup>* (exe w) (exe w')"
proof (cases "snd c")
  case (XcCreatePeriod i)
  then show ?thesis using assms by (auto simp: exe_invoke_def on_exe_def dest: executor_step.created)
next
  case (XcClosePeriod i k)
  then show ?thesis using assms by (auto simp: exe_invoke_def on_exe_def dest: executor_step.closed)
next
  case (XcPay i m a p n k)
  then show ?thesis using assms by (auto simp: exe_invoke_def dest: executor_step.paid)
next
  case (XcBatch i ms as pas pbs pcs ns k)
  then show ?thesis using assms by (auto simp: exe_invoke_def execute_batch_payroll_def Let_def dest: batch_steps)
next
  case (XcTokensMove ts)
  then show ?thesis using assms by (auto simp: exe_invoke_def)
qed (use assms in \<open>auto simp: exe_invoke_def on_exe_def pe_initialize_def set_executor_admin_def pe_set_pause_manager_def
    pe_set_asset_allowed_def set_asset_decimals_def same_books_def emits payment_log_def publish_def executor_admin_guard_def Let_def
    intro!: r_into_rtranclp executor_step.configured\<close>)

lemma run_steps: "executor_step\<^sup>*\<^sup>* (exe w) (exe (run_calls exe_invoke cs w))"
  by (rule run_calls_relation [where R = "\<lambda>w w'. executor_step\<^sup>*\<^sup>* (exe w) (exe w')"])
    (auto intro: rtranclp_trans exe_invoke_steps)

section \<open>The books\<close>

text \<open>Everything the executor stores about payments, in terms of the log of announced payments: the
  abstract state is the log, of which totals, counts and the marks on employees are views.\<close>

definition log_key :: "u64 \<times> address \<times> i128 \<times> u32 \<Rightarrow> address \<times> u32" where
  "log_key x = (case x of (i, m, a, k) \<Rightarrow> (m, k))"

definition books_agree :: "executor \<Rightarrow> bool" where
  "books_agree s \<longleftrightarrow>
     (\<forall>i. get_total_paid i s = (\<Sum>(j, m, a, k) \<leftarrow> payment_log s. if j = i then a else 0)) \<and>
     (\<forall>i k pr. periods s (i, k) = Some pr \<longrightarrow>
        unat (pd_payment_count pr) = length (filter (\<lambda>(j, m, a, l). j = i \<and> l = k) (payment_log s))) \<and>
     distinct (map log_key (payment_log s)) \<and>
     (\<forall>m k. is_paid m k s \<longleftrightarrow> (m, k) \<in> log_key ` set (payment_log s)) \<and>
     (\<forall>i m a k. (i, m, a, k) \<in> set (payment_log s) \<longrightarrow> 0 \<le> a \<and> periods s (i, k) \<noteq> None)"

lemma create_period_okE:
  assumes "create_period (e :: xenv) i s = Inr (p, s')"
  obtains q where "q = unwrap_or 1 (period_sequence s i)" "periods s (i, q) = None" "unat q + 1 < 2 ^ 32"
    "q > 1 \<longrightarrow> (\<forall>pr. periods s (i, q - 1) = Some pr \<longrightarrow> pd_closed pr)"
    "p = \<lparr>pd_period_id = q, pd_company_id = i, pd_start_ledger = sequence e, pd_end_ledger = 0,
       pd_created_at = timestamp e, pd_closed = False, pd_payment_count = 0\<rparr>"
    "periods s' = (periods s)((i, q) \<mapsto> p)" "period_sequence s' = (period_sequence s)(i \<mapsto> q + 1)"
    "payments s' = payments s" "pe_nullifiers s' = pe_nullifiers s" "total_paid s' = total_paid s" "payment_log s' = payment_log s"
  using assms that [of "unwrap_or 1 (period_sequence s i)"]
  by (auto simp: create_period_def Let_def emits publish_def payment_log_def add_u_def split: if_splits option.splits)

lemma close_period_okE:
  assumes "close_period (e :: xenv) i k s = Inr (p, s')"
  obtains pr where "periods s (i, k) = Some pr" "\<not> pd_closed pr" "p = pr\<lparr>pd_closed := True, pd_end_ledger := sequence e\<rparr>"
    "periods s' = (periods s)((i, k) \<mapsto> p)" "period_sequence s' = period_sequence s"
    "payments s' = payments s" "pe_nullifiers s' = pe_nullifiers s" "total_paid s' = total_paid s" "payment_log s' = payment_log s"
  using assms by (auto simp: close_period_def Let_def emits publish_def payment_log_def)

lemma payment_step_okE:
  assumes "execute_payment (e :: xenv) i m a p n k w = Inr (r, w')"
  obtains pr where "periods (exe w) (i, k) = Some pr" "\<not> pd_closed pr" "unat (pd_payment_count pr + 1) = unat (pd_payment_count pr) + 1"
    "0 \<le> a" "payments (exe w) (m, k) = None" "pe_nullifiers (exe w) n = None"
    "periods (exe w') = (periods (exe w))((i, k) \<mapsto> pr\<lparr>pd_payment_count := pd_payment_count pr + 1\<rparr>)"
    "period_sequence (exe w') = period_sequence (exe w)" "payments (exe w') = (payments (exe w))((m, k) \<mapsto> r)"
    "pe_nullifiers (exe w') = (pe_nullifiers (exe w))(n \<mapsto> True)"
    "total_paid (exe w') = (total_paid (exe w))(i \<mapsto> get_total_paid i (exe w) + a)"
    "payment_log (exe w') = payment_log (exe w) @ [(i, m, a, k)]" "py_company_id r = i"
  using assms by (rule execute_payment_okE)
    (use that in \<open>auto simp: paid_state_def emits publish_def payment_log_def unat_word_ariths\<close>)

lemma books_created:
  assumes "books_agree s" "create_period (e :: xenv) i s = Inr (p, s')"
  shows "books_agree s'"
  using assms(2)
proof (rule create_period_okE)
  fix q
  assume q: "periods s (i, q) = None" "p = \<lparr>pd_period_id = q, pd_company_id = i, pd_start_ledger = sequence e, pd_end_ledger = 0,
       pd_created_at = timestamp e, pd_closed = False, pd_payment_count = 0\<rparr>"
    "periods s' = (periods s)((i, q) \<mapsto> p)" "payments s' = payments s" "total_paid s' = total_paid s" "payment_log s' = payment_log s"
  have "\<forall>(j, m, a, l) \<in> set (payment_log s). \<not> (j = i \<and> l = q)" using assms(1) q(1) by (fastforce simp: books_agree_def)
  then have "filter (\<lambda>(j, m, a, l). j = i \<and> l = q) (payment_log s) = []" by (auto simp: filter_empty_conv)
  then show ?thesis using assms(1) q
    by (simp add: books_agree_def get_total_paid_def is_paid_def)
qed

lemma books_closed:
  assumes "books_agree s" "close_period (e :: xenv) i k s = Inr (p, s')"
  shows "books_agree s'"
  using assms(2) by (rule close_period_okE) (use assms(1) in \<open>auto simp: books_agree_def get_total_paid_def is_paid_def\<close>)

lemma books_paid:
  assumes "books_agree (exe w)" "execute_payment (e :: xenv) i m a p n k w = Inr (r, w')"
  shows "books_agree (exe w')"
  using assms(2)
proof (rule payment_step_okE)
  fix pr
  assume p: "periods (exe w) (i, k) = Some pr" "unat (pd_payment_count pr + 1) = unat (pd_payment_count pr) + 1"
    "0 \<le> a" "payments (exe w) (m, k) = None"
    "periods (exe w') = (periods (exe w))((i, k) \<mapsto> pr\<lparr>pd_payment_count := pd_payment_count pr + 1\<rparr>)"
    "payments (exe w') = (payments (exe w))((m, k) \<mapsto> r)"
    "total_paid (exe w') = (total_paid (exe w))(i \<mapsto> get_total_paid i (exe w) + a)"
    "payment_log (exe w') = payment_log (exe w) @ [(i, m, a, k)]"
  let ?s = "exe w" and ?t = "exe w'" and ?x = "(i, m, a, k)"
  note b = assms(1) [unfolded books_agree_def]
  have "get_total_paid j ?t = (\<Sum>(l, m, a, k) \<leftarrow> payment_log ?t. if l = j then a else 0)" for j
    using b p(7,8) by (simp add: get_total_paid_def)
  moreover have "unat (pd_payment_count q) = length (filter (\<lambda>(j', m, a, l'). j' = j \<and> l' = l) (payment_log ?t))"
    if "periods ?t (j, l) = Some q" for j l q
    using b p(1,2,5,8) that by (auto split: if_splits)
  moreover have "\<not> is_paid m k ?s" "log_key ?x = (m, k)" using p(4) by (simp_all add: is_paid_def log_key_def)
  then have "log_key ?x \<notin> log_key ` set (payment_log ?s)" using b by simp
  then have "distinct (map log_key (payment_log ?t))" using b p(8) by simp
  moreover have "is_paid m' l ?t \<longleftrightarrow> (m', l) \<in> log_key ` set (payment_log ?t)" for m' l
  proof -
    have "is_paid m' l ?t \<longleftrightarrow> (m', l) = (m, k) \<or> is_paid m' l ?s" using p(6) by (auto simp: is_paid_def)
    also have "is_paid m' l ?s \<longleftrightarrow> (m', l) \<in> log_key ` set (payment_log ?s)" using b by blast
    finally show ?thesis using p(8) by (simp add: log_key_def)
  qed
  moreover have "0 \<le> a' \<and> periods ?t (j, l) \<noteq> None" if "(j, m', a', l) \<in> set (payment_log ?t)" for j m' a' l
    using b p(3,5,8) that by auto
  ultimately show ?thesis by (simp add: books_agree_def)
qed

lemma books_agree_step: "executor_step s s' \<Longrightarrow> books_agree s \<Longrightarrow> books_agree s'"
proof (induction rule: executor_step.induct)
  case (configured s s')
  then show ?case by (simp add: same_books_def books_agree_def get_total_paid_def is_paid_def)
qed (auto intro: books_created books_closed books_paid)

lemma books_agree_run: "books_agree (exe w) \<Longrightarrow> books_agree (exe (run_calls exe_invoke cs w))"
  using run_steps [of w cs] by (induction rule: rtranclp_induct) (auto intro: books_agree_step)

section \<open>Periods\<close>

text \<open>A company's periods are numbered from 1 up to its sequence, and only the last may be open.\<close>

definition next_period :: "u64 \<Rightarrow> executor \<Rightarrow> u32" where
  "next_period i s = unwrap_or 1 (period_sequence s i)"

definition periods_in_sequence :: "executor \<Rightarrow> bool" where
  "periods_in_sequence s \<longleftrightarrow> (\<forall>i. 1 \<le> unat (next_period i s)) \<and>
     (\<forall>i k. periods s (i, k) \<noteq> None \<longleftrightarrow> 1 \<le> unat k \<and> unat k < unat (next_period i s)) \<and>
     (\<forall>i k pr. periods s (i, k) = Some pr \<longrightarrow> pd_period_id pr = k \<and> pd_company_id pr = i \<and>
        (\<not> pd_closed pr \<longrightarrow> unat k + 1 = unat (next_period i s)))"

lemma periods_created:
  assumes "periods_in_sequence s" "create_period (e :: xenv) i s = Inr (p, s')"
  shows "periods_in_sequence s'"
  using assms(2)
proof (rule create_period_okE)
  fix q
  assume q: "q = unwrap_or 1 (period_sequence s i)" "periods s (i, q) = None" "unat q + 1 < 2 ^ 32"
    "q > 1 \<longrightarrow> (\<forall>pr. periods s (i, q - 1) = Some pr \<longrightarrow> pd_closed pr)"
    "p = \<lparr>pd_period_id = q, pd_company_id = i, pd_start_ledger = sequence e, pd_end_ledger = 0,
       pd_created_at = timestamp e, pd_closed = False, pd_payment_count = 0\<rparr>"
    "periods s' = (periods s)((i, q) \<mapsto> p)" "period_sequence s' = (period_sequence s)(i \<mapsto> q + 1)"
  note inv = assms(1) [unfolded periods_in_sequence_def]
  have nx: "next_period j s' = (if j = i then q + 1 else next_period j s)" for j
    using q(7) by (simp add: next_period_def)
  have q1: "unat (q + 1) = unat q + 1" using q(3) by (simp add: unat_word_ariths)
  have qi: "next_period i s = q" using q(1) by (simp add: next_period_def)
  have pos: "1 \<le> unat q" using inv qi by metis
  have new: "unat k = unat q \<longleftrightarrow> k = q" for k by (simp add: word_unat_eq_iff)
  have "periods s' (j, k) \<noteq> None \<longleftrightarrow> 1 \<le> unat k \<and> unat k < unat (next_period j s')" for j k
  proof (cases "j = i")
    case True
    have "periods s' (i, k) \<noteq> None \<longleftrightarrow> k = q \<or> periods s (i, k) \<noteq> None" using q(6) by auto
    also have "\<dots> \<longleftrightarrow> unat k = unat q \<or> 1 \<le> unat k \<and> unat k < unat q" using inv qi new by metis
    also have "\<dots> \<longleftrightarrow> 1 \<le> unat k \<and> unat k < unat q + 1" using pos by auto
    finally show ?thesis using True nx q1 by simp
  next
    case False
    then show ?thesis using inv nx q(6) by simp
  qed
  moreover have "pd_period_id pr = k \<and> pd_company_id pr = j \<and> (\<not> pd_closed pr \<longrightarrow> unat k + 1 = unat (next_period j s'))"
    if "periods s' (j, k) = Some pr" for j k pr
  proof (cases "(j, k) = (i, q)")
    case True
    then show ?thesis using that q(5,6) nx q1 by auto
  next
    case False
    then have pr: "periods s (j, k) = Some pr" using that q(6) by auto
    show ?thesis
    proof (cases "j = i \<and> \<not> pd_closed pr")
      case True
      then have "unat k + 1 = unat q" using inv pr qi by metis
      moreover have "1 \<le> unat k" using inv pr by (metis option.distinct(1))
      ultimately have k: "unat k = unat (q - 1)" "1 < unat q" using pos by (auto simp: unat_sub_if_size)
      then have "k = q - 1" "q > 1" by (simp_all add: word_unat_eq_iff word_less_nat_alt)
      then have "pd_closed pr" using q(4) pr True by simp
      with True show ?thesis by simp
    next
      case False
      then show ?thesis using inv pr nx by auto
    qed
  qed
  moreover have "1 \<le> unat (next_period j s')" for j using inv nx q1 by simp
  ultimately show ?thesis unfolding periods_in_sequence_def by blast
qed

text \<open>Changing a stored period without opening it or renaming it keeps the numbering.\<close>

lemma periods_updated:
  assumes "periods_in_sequence s" "periods s (i, k) = Some pr" "periods s' = (periods s)((i, k) \<mapsto> pr')"
    and "period_sequence s' = period_sequence s"
    and "pd_period_id pr' = pd_period_id pr" "pd_company_id pr' = pd_company_id pr" "pd_closed pr \<longrightarrow> pd_closed pr'"
  shows "periods_in_sequence s'"
proof -
  have nx: "next_period j s' = next_period j s" for j using assms(4) by (simp add: next_period_def)
  note inv = assms(1) [unfolded periods_in_sequence_def]
  have "periods s' (j, l) \<noteq> None \<longleftrightarrow> periods s (j, l) \<noteq> None" for j l using assms(2,3) by auto
  moreover have "pd_period_id q = l \<and> pd_company_id q = j \<and> (\<not> pd_closed q \<longrightarrow> unat l + 1 = unat (next_period j s))"
    if "periods s' (j, l) = Some q" for j l q
  proof (cases "(j, l) = (i, k)")
    case True
    then show ?thesis using that assms(2,3,5-7) inv by auto
  next
    case False
    then have "periods s (j, l) = Some q" using that assms(3) by auto
    then show ?thesis using inv by blast
  qed
  ultimately show ?thesis unfolding periods_in_sequence_def nx using inv by blast
qed

lemma periods_in_sequence_step: "executor_step s s' \<Longrightarrow> periods_in_sequence s \<Longrightarrow> periods_in_sequence s'"
proof (induction rule: executor_step.induct)
  case (configured s s')
  then show ?case by (simp add: same_books_def periods_in_sequence_def next_period_def)
next
  case (created e i s p s')
  then show ?case by (auto intro: periods_created)
next
  case (closed e i k s p s')
  from closed(1) show ?case by (rule close_period_okE) (erule periods_updated [OF closed(2), where pr' = p], simp_all)
next
  case (paid e i m a p n k w r w')
  from paid(1) show ?case
  proof (rule payment_step_okE)
    fix pr
    assume "periods (exe w) (i, k) = Some pr"
      "periods (exe w') = (periods (exe w))((i, k) \<mapsto> pr\<lparr>pd_payment_count := pd_payment_count pr + 1\<rparr>)"
      "period_sequence (exe w') = period_sequence (exe w)"
    then show ?thesis by (rule periods_updated [OF paid(2)]) simp_all
  qed
qed

lemma periods_in_sequence_run: "periods_in_sequence (exe w) \<Longrightarrow> periods_in_sequence (exe (run_calls exe_invoke cs w))"
  using run_steps [of w cs] by (induction rule: rtranclp_induct) (auto intro: periods_in_sequence_step)

section \<open>What never changes again\<close>

lemma payment_kept: "executor_step s s' \<Longrightarrow> payments s key = Some r \<Longrightarrow> payments s' key = Some r"
proof (induction rule: executor_step.induct)
  case (configured s s')
  then show ?case by (simp add: same_books_def)
next
  case (created e i s p s')
  from created(1) show ?case by (rule create_period_okE) (use created(2) in simp)
next
  case (closed e i k s p s')
  from closed(1) show ?case by (rule close_period_okE) (use closed(2) in simp)
next
  case (paid e i m a p n k w r w')
  from paid(1) show ?case by (rule payment_step_okE) (use paid(2) in auto)
qed

lemma nullifier_kept: "executor_step s s' \<Longrightarrow> pe_nullifiers s n \<noteq> None \<Longrightarrow> pe_nullifiers s' n \<noteq> None"
proof (induction rule: executor_step.induct)
  case (configured s s')
  then show ?case by (simp add: same_books_def)
next
  case (created e i s p s')
  from created(1) show ?case by (rule create_period_okE) (use created(2) in simp)
next
  case (closed e i k s p s')
  from closed(1) show ?case by (rule close_period_okE) (use closed(2) in simp)
next
  case (paid e i m a p n k w r w')
  from paid(1) show ?case by (rule payment_step_okE) (use paid(2) in auto)
qed

text \<open>The payments announced for one period of a company.\<close>

definition period_log :: "u64 \<Rightarrow> u32 \<Rightarrow> executor \<Rightarrow> (u64 \<times> address \<times> i128 \<times> u32) list" where
  "period_log i k s = filter (\<lambda>(j, m, a, l). j = i \<and> l = k) (payment_log s)"

lemma closed_kept:
  "executor_step s s' \<Longrightarrow> periods s (i, k) = Some pr \<Longrightarrow> pd_closed pr \<Longrightarrow>
    periods s' (i, k) = Some pr \<and> period_log i k s' = period_log i k s"
proof (induction rule: executor_step.induct)
  case (configured s s')
  then show ?case by (simp add: same_books_def period_log_def)
next
  case (created e j s p s')
  from created(1) show ?case by (rule create_period_okE) (use created(2) in \<open>auto simp: period_log_def\<close>)
next
  case (closed e j l s p s')
  from closed(1) show ?case by (rule close_period_okE) (use closed(2,3) in \<open>auto simp: period_log_def\<close>)
next
  case (paid e j m a p n l w r w')
  from paid(1) show ?case by (rule payment_step_okE) (use paid(2,3) in \<open>auto simp: period_log_def\<close>)
qed

definition blank_executor :: "executor \<Rightarrow> bool" where
  "blank_executor s \<longleftrightarrow> events s = [] \<and> payments s = Map.empty \<and> pe_nullifiers s = Map.empty \<and> total_paid s = Map.empty \<and>
     periods s = Map.empty \<and> period_sequence s = Map.empty"

lemma blank_books: "blank_executor s \<Longrightarrow> books_agree s \<and> periods_in_sequence s"
  by (simp add: blank_executor_def books_agree_def periods_in_sequence_def next_period_def payment_log_def logged_def
      List.map_filter_def get_total_paid_def is_paid_def)

text \<open>C5. After any history of calls on a new executor, whatever the environments of the calls, what
  it stores agrees with the payments it announced: the total of a company is the sum of the amounts
  announced for it, the count of a period is the number of payments announced in it, an employee
  counts as paid in a period number exactly when a payment was announced, at most one, and no
  amount is negative.\<close>

theorem executor_books_agree:
  assumes "blank_executor (exe w0)" "s = exe (run_calls exe_invoke cs w0)"
  shows "get_total_paid i s = (\<Sum>(j, m, a, k) \<leftarrow> payment_log s. if j = i then a else 0) \<and>
    (\<forall>pr. get_period i k s = Some pr \<longrightarrow> unat (pd_payment_count pr) = length (period_log i k s)) \<and>
    (is_paid m k s \<longleftrightarrow> (\<exists>j a. (j, m, a, k) \<in> set (payment_log s))) \<and>
    distinct (map log_key (payment_log s)) \<and> 0 \<le> get_total_paid i s"
proof -
  have b: "books_agree s" using assms blank_books books_agree_run by blast
  have "is_paid m k s \<longleftrightarrow> (m, k) \<in> log_key ` set (payment_log s)" using b by (simp add: books_agree_def)
  also have "\<dots> \<longleftrightarrow> (\<exists>j a. (j, m, a, k) \<in> set (payment_log s))" by (force simp: log_key_def image_iff)
  finally have p: "is_paid m k s \<longleftrightarrow> (\<exists>j a. (j, m, a, k) \<in> set (payment_log s))" .
  have "0 \<le> (\<Sum>(j, m, a, k) \<leftarrow> payment_log s. if j = i then a else 0)"
    using b by (intro sum_list_nonneg) (auto simp: books_agree_def)
  with b p show ?thesis by (simp add: books_agree_def period_log_def get_period_def)
qed

text \<open>C19. After any history of calls on a new executor, the periods of a company carry the numbers
  from 1 to one less than its sequence without a gap, and at most one of them, the last, is open.\<close>

theorem one_open_period:
  assumes "blank_executor (exe w0)" "s = exe (run_calls exe_invoke cs w0)"
  shows "(get_period i k s \<noteq> None \<longleftrightarrow> 1 \<le> unat k \<and> unat k < unat (next_period i s)) \<and>
    (\<forall>pr. get_period i k s = Some pr \<and> \<not> pd_closed pr \<longrightarrow> unat k + 1 = unat (next_period i s)) \<and>
    (\<forall>l p q. get_period i k s = Some p \<and> get_period i l s = Some q \<and> \<not> pd_closed p \<and> \<not> pd_closed q \<longrightarrow> k = l)"
proof -
  have "periods_in_sequence s" using assms blank_books periods_in_sequence_run by blast
  then have *: "periods s (i, k) \<noteq> None \<longleftrightarrow> 1 \<le> unat k \<and> unat k < unat (next_period i s)"
    "periods s (i, k) = Some pr \<Longrightarrow> \<not> pd_closed pr \<Longrightarrow> unat k + 1 = unat (next_period i s)" for k pr
    by (auto simp: periods_in_sequence_def)
  have "k = l" if "periods s (i, k) = Some p" "periods s (i, l) = Some q" "\<not> pd_closed p" "\<not> pd_closed q" for l p q
    using *(2) [OF that(1,3)] *(2) [OF that(2,4)] by (simp add: word_unat_eq_iff)
  with * show ?thesis unfolding get_period_def by blast
qed

text \<open>C28. Once a period is closed nothing about it changes, through any history of calls: its record
  stays and no payment is announced in it any more.\<close>

theorem closed_period_final:
  assumes "get_period i k (exe w) = Some pr" "pd_closed pr" "w' = run_calls exe_invoke cs w"
  shows "get_period i k (exe w') = Some pr \<and> period_log i k (exe w') = period_log i k (exe w) \<and>
    (\<forall>e m a p n. execute_payment (e :: xenv) i m a p n k w' \<noteq> Inr x)"
proof -
  have *: "periods (exe w') (i, k) = Some pr \<and> period_log i k (exe w') = period_log i k (exe w)"
    unfolding assms(3) using run_steps [of w cs]
    by (induction rule: rtranclp_induct) (use assms(1,2) closed_kept in \<open>auto simp: get_period_def\<close>)
  have "execute_payment e i m a p n k w' \<noteq> Inr x" for m a p n and e :: xenv
  proof
    assume "execute_payment e i m a p n k w' = Inr x"
    then have "execute_payment e i m a p n k w' = Inr (fst x, snd x)" by simp
    then show False by (rule payment_step_okE) (use * assms(2) in simp)
  qed
  with * show ?thesis by (simp add: get_period_def)
qed

text \<open>C6. After a payment, no history of calls leads to a state where the same employee is paid
  again in a period of that number, or where the same nullifier is accepted again, by whichever
  company, for whatever amount and proof; and the record of the payment stays as it was.\<close>

theorem payment_executed_once:
  assumes "execute_payment (e :: xenv) i m a p n k w = Inr (r, w1)" "w2 = run_calls exe_invoke cs w1"
  shows "get_payment m k (exe w2) = Inr r \<and>
    (\<forall>e' j a' p' n'. execute_payment (e' :: xenv) j m a' p' n' k w2 \<noteq> Inr x) \<and>
    (\<forall>e' j m' a' p' k'. execute_payment (e' :: xenv) j m' a' p' n k' w2 \<noteq> Inr x)"
proof -
  have s: "executor_step\<^sup>*\<^sup>* (exe w1) (exe w2)" using run_steps assms(2) by simp
  have w1: "payments (exe w1) (m, k) = Some r" "pe_nullifiers (exe w1) n \<noteq> None"
    using assms(1) by (auto elim!: payment_step_okE)
  have m: "payments (exe w2) (m, k) = Some r" using s w1(1) by (induction rule: rtranclp_induct) (auto intro: payment_kept)
  have n: "pe_nullifiers (exe w2) n \<noteq> None"
    using s w1(2) by (induction rule: rtranclp_induct) (use nullifier_kept in blast)+
  have "execute_payment e' j m' a' p' n' k' w2 \<noteq> Inr x" if "(m', k') = (m, k) \<or> n' = n" for j m' a' p' n' k' and e' :: xenv
  proof
    assume "execute_payment e' j m' a' p' n' k' w2 = Inr x"
    then have "execute_payment e' j m' a' p' n' k' w2 = Inr (fst x, snd x)" by simp
    then show False by (rule payment_step_okE) (use m n that in auto)
  qed
  with m show ?thesis by (simp add: get_payment_def)
qed

section \<open>Where companies and employees are confused\<close>

text \<open>The mark that an employee was paid carries the period number but no company: once a company
  has paid an employee in its period \<open>k\<close>, a second company that employs the same address is refused
  in its own open period \<open>k\<close>, with the error for a double payment.\<close>

lemma period_number_shared_by_companies:
  assumes "execute_payment (e :: xenv) i m a p n k w = Inr (r, w1)"
    and "pe_require_not_paused e' (exe w1) = (Inr () :: unit payment_result)" "j \<noteq> i"
    and "get_period j k (exe w1) = Some pr" "\<not> pd_closed pr" "timestamp e' = pd_created_at pr" "pe_nullifiers (exe w1) n' = None"
  shows "execute_payment e' j m a' p' n' k w1 = Inl (Err AlreadyPaid)"
proof -
  have "\<not> MAX_PROOF_AGE_SECONDS < saturating_sub (timestamp e') (pd_created_at pr)"
    using assms(6) by (simp add: saturating_sub_def)
  moreover have "payments (exe w1) (m, k) = Some r" using assms(1) by (rule payment_step_okE) simp
  moreover have "pe_addresses (exe w1) \<noteq> None" using assms(1)
    by (rule execute_payment_okE) (simp add: paid_state_def emits publish_def)
  ultimately show ?thesis using assms(2,4,5,7)
    by (auto simp: execute_payment_def Let_def get_period_def)
qed

lemma executor_company_cong:
  assumes "registries e R = Some reg" "companies reg' = companies reg"
  shows "executor_company (e\<lparr>registries := (registries e)(R \<mapsto> reg')\<rparr>) i addrs = executor_company e i addrs"
  using assms by (simp add: executor_company_def get_company_def)

text \<open>A payment does not depend on the employee's record in the registry: after the company's
  admin has deactivated or removed the employee, who is then not eligible, every payment has the
  same outcome as before.\<close>

lemma payment_ignores_eligibility:
  assumes "registries e R = Some reg"
    and "set_employee_status e1 i m EmpInactive reg = Inr reg' \<or> remove_employee e1 i m reg = Inr reg'"
  shows "\<not> is_eligible i m reg' \<and>
    execute_payment (e\<lparr>registries := (registries e)(R \<mapsto> reg')\<rparr>) i m a p n k w = execute_payment e i m a p n k w"
proof
  show "\<not> is_eligible i m reg'" using assms(2)
    by (auto simp: is_eligible_def is_employee_active_def set_employee_status_def remove_employee_def Let_def emits publish_def
        split: if_splits)
  have "companies reg' = companies reg" using assms(2)
    by (auto simp: set_employee_status_def remove_employee_def Let_def emits publish_def split: if_splits)
  with assms(1) have "executor_company (e\<lparr>registries := (registries e)(R \<mapsto> reg')\<rparr>) i x =
      (executor_company e i x :: CompanyInfo payment_result)" for x by (rule executor_company_cong)
  moreover have "pe_require_not_paused (e\<lparr>registries := (registries e)(R \<mapsto> reg')\<rparr>) s =
      (pe_require_not_paused e s :: unit payment_result)" for s
    by (simp add: pe_require_not_paused_def pause_guard_def split: option.split)
  ultimately show "execute_payment (e\<lparr>registries := (registries e)(R \<mapsto> reg')\<rparr>) i m a p n k w = execute_payment e i m a p n k w"
    by (simp add: execute_payment_def require_auth_def)
qed

section \<open>A sample history\<close>

definition exe_registry :: registry where "exe_registry = run_calls reg_invoke reg_setup reg_blank"

definition exe_salary :: salary_commitment where
  "exe_salary = \<lparr>events = [], commitments = (\<lambda>a. Some \<lparr>commitment = zero32, created_at = 0, updated_at = 0, version = 1,
       commitment_revoked = False\<rparr>), nullifiers = Map.empty, commitment_history = Map.empty, commitment_admin = None,
     payroll_operator = None, employee_reference_id = Map.empty, reference_id_index = Map.empty, commitment_lock = Map.empty,
     commitment_index = Map.empty, sc_pause_manager = None, sc_pending_admin = None\<rparr>"

definition exe_verifier :: proof_verifier where
  "exe_verifier = \<lparr>events = [], verification_key = Some \<lparr>vk_alpha = [], vk_beta = [], vk_gamma = [], vk_delta = [],
     vk_ic = [[], [], []]\<rparr>, verifier_admin = None, references = Map.empty\<rparr>"

definition exe_env :: "u64 \<Rightarrow> address list \<Rightarrow> xenv" where
  "exe_env t as = venv.extend (penv.extend (reg_env t as) \<lparr>verifiers = [Address ''V'' \<mapsto> exe_verifier]\<rparr>)
     \<lparr>registries = [Address ''R'' \<mapsto> exe_registry], salary_contracts = [Address ''S'' \<mapsto> exe_salary]\<rparr>"

definition exe_addrs :: pe_ContractAddresses where
  "exe_addrs = \<lparr>xa_registry = Address ''R'', xa_commitment = Address ''S'', xa_verifier = Address ''V'', xa_token = Address ''T''\<rparr>"

definition exe_blank :: executor_world where
  "exe_blank = \<lparr>exe = \<lparr>events = [], pe_addresses = None, payments = Map.empty, pe_nullifiers = Map.empty, total_paid = Map.empty,
       executor_admin = None, pe_pause_manager = None, periods = Map.empty, period_sequence = Map.empty,
       pe_allowed_assets = Map.empty, pe_storage_version = None, asset_decimals = Map.empty\<rparr>,
     pe_tokens = [Address ''T'' \<mapsto> \<lparr>balances = [adr_A \<mapsto> 1000, adr_B \<mapsto> 1000]\<rparr>]\<rparr>"

abbreviation "proof_demo \<equiv> \<lparr>proof_a = replicate 64 1, proof_b = replicate 128 2, proof_c = replicate 64 3\<rparr>"

definition exe_setup :: "(xenv \<times> exe_call) list" where
  "exe_setup = [(exe_env 1 [], XcInitialize exe_addrs), (exe_env 2 [adr_A], XcSetAdmin adr_A),
     (exe_env 3 [adr_A], XcSetDecimals (Address ''T'') 7), (exe_env 50 [adr_A], XcCreatePeriod 0),
     (exe_env 60 [adr_B], XcCreatePeriod 1)]"

abbreviation "exe_ready \<equiv> run_calls exe_invoke exe_setup exe_blank"

lemmas exe_demo_simps = exe_invoke_def on_exe_def pe_initialize_def set_executor_admin_def set_asset_decimals_def
  executor_admin_guard_def create_period_def close_period_def execute_payment_def pe_require_not_paused_def executor_company_def
  get_company_def amount_to_public_input_def decimals_guard_def executor_transfer_def transact_def require_auth_def
  pe_is_asset_allowed_def get_asset_decimals_def pow10_i128_def address_debug_def saturating_sub_def
  MAX_PROOF_AGE_SECONDS_def add_u_def add_i128_def sub_i128_def in_i128_def transfer_def verify_def verify_payment_proof_def
  simulated_verify_groth16_def emits publish_def Let_def

lemmas exe_env_simps = exe_env_def reg_env_def pm_env_def env.defs penv.defs venv.defs exe_addrs_def exe_salary_def exe_verifier_def
  get_commitment_def

lemma exe_registry_facts:
  "companies exe_registry 0 = Some \<lparr>ci_admin = adr_A, ci_treasury = adr_A\<rparr>"
  "companies exe_registry 1 = Some \<lparr>ci_admin = adr_B, ci_treasury = adr_B\<rparr>"
  unfolding exe_registry_def by (rule reg_setup_facts)+

lemma exe_blank_ok: "blank_executor (exe exe_blank)"
  by (simp add: blank_executor_def exe_blank_def)

lemma exe_ready_facts:
  "pe_addresses (exe exe_ready) = Some exe_addrs" "pe_pause_manager (exe exe_ready) = None"
  "periods (exe exe_ready) (0, 1) = Some \<lparr>pd_period_id = 1, pd_company_id = 0, pd_start_ledger = 10, pd_end_ledger = 0,
     pd_created_at = 50, pd_closed = False, pd_payment_count = 0\<rparr>"
  "periods (exe exe_ready) (1, 1) = Some \<lparr>pd_period_id = 1, pd_company_id = 1, pd_start_ledger = 10, pd_end_ledger = 0,
     pd_created_at = 60, pd_closed = False, pd_payment_count = 0\<rparr>"
  "payments (exe exe_ready) = Map.empty" "pe_nullifiers (exe exe_ready) = Map.empty" "total_paid (exe exe_ready) = Map.empty"
  "pe_allowed_assets (exe exe_ready) (Address ''T'') = Some True" "asset_decimals (exe exe_ready) (Address ''T'') = Some 7"
  "pe_tokens exe_ready = [Address ''T'' \<mapsto> \<lparr>balances = [adr_A \<mapsto> 1000, adr_B \<mapsto> 1000]\<rparr>]"
  by (simp_all add: exe_setup_def exe_blank_def exe_demo_simps exe_env_simps exe_registry_facts)

abbreviation "pay_E \<equiv> execute_payment (exe_env 70 [adr_A]) 0 adr_E 100 proof_demo zero32 1 exe_ready"

lemmas pay_simps = execute_payment_def exe_ready_facts pe_require_not_paused_def executor_company_def get_company_def
  amount_to_public_input_def decimals_guard_def executor_transfer_def require_auth_def pow10_i128_def address_debug_def
  saturating_sub_def MAX_PROOF_AGE_SECONDS_def add_u_def add_i128_def sub_i128_def in_i128_def transfer_def verify_def
  verify_payment_proof_def simulated_verify_groth16_def pe_is_asset_allowed_def get_asset_decimals_def Let_def exe_env_simps
  exe_registry_facts

lemma exe_pay_ok:
  obtains r w1 where "pay_E = Inr (r, w1)"
  by (simp add: pay_simps)

theorem executor_payment_exact_witness:
  "\<exists>r w1. pay_E = Inr (r, w1) \<and> get_total_paid 0 (exe w1) = 100 \<and> pe_nullifiers (exe w1) zero32 = Some True"
proof -
  obtain r w1 where w1: "pay_E = Inr (r, w1)" by (rule exe_pay_ok)
  from executor_payment_exact [OF w1] w1 show ?thesis by (auto simp: get_total_paid_def exe_ready_facts)
qed

lemma amount_input_determines_amount_witness:
  "\<exists>x y. amount_to_public_input 100 = (Inr x :: (unit, bytes) result) \<and> amount_to_public_input 101 = (Inr y :: (unit, bytes) result) \<and>
     length x = 32 \<and> x \<noteq> y"
proof -
  obtain x y where x: "amount_to_public_input 100 = (Inr x :: (unit, bytes) result)" "amount_to_public_input 101 = (Inr y :: (unit, bytes) result)"
    by (simp add: amount_to_public_input_def)
  from amount_input_determines_amount [OF x] x show ?thesis by (simp add: in_i128_def)
qed

theorem executor_batch_exact_witness:
  "\<exists>rs w'. execute_batch_payroll (exe_env 70 [adr_A]) 0 [adr_E, adr_B] [100, 50] [replicate 64 1, replicate 64 2] [replicate 128 1, replicate 128 2] [replicate 64 1, replicate 64 2] [zero32, replicate 32 1] 1 exe_ready = Inr (rs, w') \<and>
     get_total_paid 0 (exe w') = 150 \<and> distinct [adr_E, adr_B]"
proof -
  let ?e = "exe_env 70 [adr_A]"
  obtain rs w' where b: "execute_batch_payroll ?e 0 [adr_E, adr_B] [100, 50] [replicate 64 1, replicate 64 2] [replicate 128 1, replicate 128 2] [replicate 64 1, replicate 64 2] [zero32, replicate 32 1] 1 exe_ready = Inr (rs, w')"
    by (simp add: execute_batch_payroll_def upt_rec_numeral pay_simps emits publish_def zero32_def)
  have "registries ?e (xa_registry exe_addrs) = Some exe_registry" "pe_tokens exe_ready (xa_token exe_addrs) \<noteq> None"
    by (simp_all add: exe_env_simps exe_ready_facts)
  with executor_batch_exact [OF b exe_ready_facts(1) _ exe_registry_facts(1)] b show ?thesis
    by (fastforce simp: get_total_paid_def exe_ready_facts)
qed

theorem executor_books_agree_witness:
  "\<exists>w1. exe_invoke (exe_env 70 [adr_A], XcPay 0 adr_E 100 proof_demo zero32 1) exe_ready = Inr w1 \<and>
     is_paid adr_E 1 (exe w1) \<and> (\<exists>j a. (j, adr_E, a, 1) \<in> set (payment_log (exe w1)))"
proof -
  obtain r w1 where w1: "pay_E = Inr (r, w1)" by (rule exe_pay_ok)
  let ?c = "(exe_env 70 [adr_A], XcPay 0 adr_E 100 proof_demo zero32 1)"
  have c: "exe_invoke ?c exe_ready = Inr w1" using w1 by (simp add: exe_invoke_def)
  then have run: "w1 = run_calls exe_invoke (exe_setup @ [?c]) exe_blank" by (simp add: transact_def)
  have "is_paid adr_E 1 (exe w1)" using w1 by (rule payment_step_okE) (simp add: is_paid_def)
  with executor_books_agree [OF exe_blank_ok arg_cong [OF run, of exe], of 0 1 adr_E] c show ?thesis by blast
qed

theorem one_open_period_witness:
  "get_period 0 1 (exe exe_ready) \<noteq> None \<and> unat (next_period 0 (exe exe_ready)) = 2"
proof -
  have p: "get_period 0 1 (exe exe_ready) \<noteq> None" by (simp add: get_period_def exe_ready_facts)
  obtain q where q: "get_period 0 1 (exe exe_ready) = Some q" "\<not> pd_closed q" by (simp add: get_period_def exe_ready_facts)
  from one_open_period [OF exe_blank_ok refl, of 0 1 exe_setup] p q show ?thesis by auto
qed

theorem closed_period_final_witness:
  "\<exists>pr w. close_period (exe_env 80 [adr_A]) 0 1 (exe exe_ready) = Inr (pr, exe w) \<and>
     get_period 0 1 (exe (run_calls exe_invoke exe_setup w)) = Some pr"
proof -
  obtain pr s where c: "close_period (exe_env 80 [adr_A]) 0 1 (exe exe_ready) = Inr (pr, s)"
    by (simp add: close_period_def exe_ready_facts pe_require_not_paused_def executor_company_def get_company_def
      require_auth_def exe_env_simps exe_registry_facts Let_def)
  let ?w = "exe_ready\<lparr>exe := s\<rparr>"
  have "get_period 0 1 (exe ?w) = Some pr" "pd_closed pr" using c by (auto elim!: close_period_okE simp: get_period_def)
  from closed_period_final [OF this refl] c show ?thesis by (intro exI [of _ pr] exI [of _ ?w]) auto
qed

theorem payment_executed_once_witness:
  "\<exists>r w1. pay_E = Inr (r, w1) \<and> (\<forall>x. execute_payment (exe_env 71 [adr_A]) 0 adr_E 5 proof_demo (replicate 32 9) 1 w1 \<noteq> Inr x)"
proof -
  obtain r w1 where w1: "pay_E = Inr (r, w1)" by (rule exe_pay_ok)
  have "w1 = run_calls exe_invoke [] w1" by simp
  from payment_executed_once [OF w1 this] w1 show ?thesis by blast
qed

lemma period_number_shared_by_companies_witness:
  "\<exists>r w1. pay_E = Inr (r, w1) \<and>
     execute_payment (exe_env 60 [adr_B]) 1 adr_E 40 proof_demo (replicate 32 9) 1 w1 = Inl (Err AlreadyPaid)"
proof -
  obtain r w1 where w1: "pay_E = Inr (r, w1)" by (rule exe_pay_ok)
  let ?p = "\<lparr>pd_period_id = 1, pd_company_id = 1, pd_start_ledger = 10, pd_end_ledger = 0,
     pd_created_at = 60, pd_closed = False, pd_payment_count = 0\<rparr>"
  have "get_period 1 1 (exe w1) = Some ?p" "pe_nullifiers (exe w1) (replicate 32 9) = None"
    using w1 by (auto elim!: payment_step_okE simp: get_period_def exe_ready_facts zero32_def)
  moreover have "pe_pause_manager (exe w1) = None"
    using w1 by (rule execute_payment_okE) (simp add: paid_state_def emits publish_def exe_ready_facts)
  then have "pe_require_not_paused (exe_env 60 [adr_B]) (exe w1) = (Inr () :: unit payment_result)" by (simp add: pe_require_not_paused_def)
  moreover have "timestamp (exe_env 60 [adr_B]) = pd_created_at ?p" by (simp add: exe_env_simps)
  ultimately have "execute_payment (exe_env 60 [adr_B]) 1 adr_E 40 proof_demo (replicate 32 9) 1 w1 = Inl (Err AlreadyPaid)"
    using period_number_shared_by_companies [OF w1, of "exe_env 60 [adr_B]" 1 ?p "replicate 32 9" 40 proof_demo] by simp
  with w1 show ?thesis by blast
qed

lemma payment_ignores_eligibility_witness:
  "\<exists>reg' r w1. set_employee_status (reg_env 65 [adr_A]) 0 adr_E EmpInactive exe_registry = Inr reg' \<and> \<not> is_eligible 0 adr_E reg' \<and>
     execute_payment ((exe_env 70 [adr_A])\<lparr>registries := (registries (exe_env 70 [adr_A]))(Address ''R'' \<mapsto> reg')\<rparr>)
       0 adr_E 100 proof_demo zero32 1 exe_ready = Inr (r, w1)"
proof -
  let ?e = "exe_env 70 [adr_A]"
  have "employees_of exe_registry (0, adr_E) = Some zero32" "reg_pause_manager exe_registry = None" "emp_status exe_registry (0, adr_E) = Some EmpActive"
    by (simp_all add: exe_registry_def reg_demo_simps)
  then obtain reg' where s: "set_employee_status (reg_env 65 [adr_A]) 0 adr_E EmpInactive exe_registry = Inr reg'"
    by (simp add: set_employee_status_def reg_require_not_paused_def company_guard_def exe_registry_facts require_auth_def
      reg_env_def pm_env_def env.defs Let_def)
  obtain r w1 where w1: "pay_E = Inr (r, w1)" by (rule exe_pay_ok)
  have "registries ?e (Address ''R'') = Some exe_registry" by (simp add: exe_env_simps)
  from payment_ignores_eligibility [OF this, of "reg_env 65 [adr_A]" 0 adr_E reg' 100 proof_demo zero32 1 exe_ready] s w1
  show ?thesis by simp
qed

end
