(* ===== verification/Audit_Module.thy ===== *)
theory Audit_Module
  imports Pause_Manager
begin

text \<open>
  \<open>contracts/audit_module/src/lib.rs\<close>: view keys of auditors, their delegation and revocation,
  verification of commitments and metadata by auditors, and the audit log with its queries.
\<close>

section \<open>Data and storage\<close>

datatype AuditError = KeyNotFound | WrongAuditor | KeyExpired | NotKeyGranter | InsufficientScope | CommitmentMismatch
  | InvalidViewKey | ExpirationNotExtended | DelegationNotAllowed | DelegationExceedsParentScope
  | DelegationExceedsParentExpiry | DelegationRevoked

datatype AuditScope = FullCompany | TimeRange | EmployeeList | AggregateOnly

record ViewKeyRecord =
  vk_key_bytes :: bytes
  vk_expiration_ledger :: u32
  vk_granted_by :: address
  vk_scope :: AuditScope
  vk_allow_delegation :: bool
  vk_max_scope :: AuditScope
  vk_max_expiration_ledger :: u32
  vk_parent_auditor :: "address option"

record AuditLogEntry =
  le_auditor :: address
  le_company_id :: symbol
  le_scope :: AuditScope
  le_timestamp :: u64
  le_matched :: bool

record AuditReport =
  ar_company_id :: symbol
  ar_total_employees :: u32
  ar_total_paid :: i128
  ar_period_start :: u64
  ar_period_end :: u64
  ar_verified :: bool

record AuditMetadataSummary =
  ms_company_id :: symbol
  ms_period_start :: u64
  ms_period_end :: u64
  ms_total_audit_entries :: u32
  ms_verification_pass_count :: u32
  ms_verification_fail_count :: u32
  ms_exported_at :: u64
  ms_exported_by :: address

record audit = host +
  auditor_keys :: "address \<rightharpoonup> ViewKeyRecord"
  delegated_auditors :: "address \<rightharpoonup> address list"
  audit_log_counter :: "symbol \<rightharpoonup> u32"
  audit_log :: "symbol \<times> u32 \<rightharpoonup> AuditLogEntry"
  au_pause_manager :: "address option"

type_synonym 'a audit_result = "(AuditError, 'a) result"

section \<open>Scopes\<close>

definition scope_rank :: "AuditScope \<Rightarrow> nat" where
  "scope_rank sc = (case sc of FullCompany \<Rightarrow> 4 | TimeRange \<Rightarrow> 3 | EmployeeList \<Rightarrow> 2 | AggregateOnly \<Rightarrow> 1)"

definition scope_is_within :: "AuditScope \<Rightarrow> AuditScope \<Rightarrow> bool" where
  "scope_is_within parent_scope child_scope \<longleftrightarrow> scope_rank child_scope \<le> scope_rank parent_scope"

instantiation AuditScope :: linorder
begin

definition less_eq_AuditScope :: "AuditScope \<Rightarrow> AuditScope \<Rightarrow> bool" where
  "less_eq_AuditScope a b \<longleftrightarrow> scope_rank a \<le> scope_rank b"

definition less_AuditScope :: "AuditScope \<Rightarrow> AuditScope \<Rightarrow> bool" where
  "less_AuditScope a b \<longleftrightarrow> scope_rank a < scope_rank b"

instance
proof
  fix a b :: AuditScope
  assume "a \<le> b" "b \<le> a"
  then show "a = b" by (cases a; cases b; simp add: less_eq_AuditScope_def scope_rank_def)
qed (auto simp: less_eq_AuditScope_def less_AuditScope_def)

end

lemma scope_is_within_iff [simp]: "scope_is_within p c \<longleftrightarrow> c \<le> p"
  by (simp add: scope_is_within_def less_eq_AuditScope_def)

definition AuditScope_val :: "AuditScope \<Rightarrow> scval" where
  "AuditScope_val sc = VU32 (case sc of FullCompany \<Rightarrow> 0 | TimeRange \<Rightarrow> 1 | EmployeeList \<Rightarrow> 2 | AggregateOnly \<Rightarrow> 3)"

definition scope_symbol :: "AuditScope \<Rightarrow> symbol" where
  "scope_symbol sc = (case sc of FullCompany \<Rightarrow> ''FullCompany'' | TimeRange \<Rightarrow> ''TimeRange''
     | EmployeeList \<Rightarrow> ''EmployeeList'' | AggregateOnly \<Rightarrow> ''AggregateOnly'')"

section \<open>View keys\<close>

definition au_require_not_paused :: "'x penv_scheme \<Rightarrow> audit \<Rightarrow> ('e, unit) result" where
  "au_require_not_paused e s = pause_guard ''Payroll is paused'' e (au_pause_manager s)"

definition au_set_pause_manager :: "'x env_scheme \<Rightarrow> address \<Rightarrow> address \<Rightarrow> audit \<Rightarrow> audit audit_result" where
  "au_set_pause_manager e adm pm s =
     and_then (require_auth e adm) (\<lambda>_.
     Inr (emit_audit_pause_manager_set pm (s\<lparr>au_pause_manager := Some pm\<rparr>)))"

definition au_get_pause_manager :: "audit \<Rightarrow> address option" where
  "au_get_pause_manager s = au_pause_manager s"

definition derive_key_bytes :: "'x env_scheme \<Rightarrow> address \<Rightarrow> u32 \<Rightarrow> bytes" where
  "derive_key_bytes e auditor expiration_ledger =
     sha256 e (address_xdr e auditor @ le_bytes 4 (uint expiration_ledger) @ le_bytes 4 (uint (sequence e)))"

definition generate_view_key :: "'x penv_scheme \<Rightarrow> address \<Rightarrow> u32 \<Rightarrow> audit \<Rightarrow> (bytes \<times> audit) audit_result" where
  "generate_view_key e auditor expiration_ledger s =
     and_then (au_require_not_paused e s) (\<lambda>_.
     let key_bytes = derive_key_bytes e auditor expiration_ledger;
         record = \<lparr>vk_key_bytes = key_bytes, vk_expiration_ledger = expiration_ledger,
           vk_granted_by = current_contract e, vk_scope = FullCompany, vk_allow_delegation = False,
           vk_max_scope = FullCompany, vk_max_expiration_ledger = expiration_ledger, vk_parent_auditor = None\<rparr> in
     Inr (key_bytes, emit_view_key_generated auditor expiration_ledger
       (s\<lparr>auditor_keys := (auditor_keys s)(auditor \<mapsto> record)\<rparr>)))"

definition verify_access :: "'x env_scheme \<Rightarrow> address \<Rightarrow> audit \<Rightarrow> bool" where
  "verify_access e auditor s = (case auditor_keys s auditor of
     None \<Rightarrow> False
   | Some record \<Rightarrow>
       if sequence e > vk_expiration_ledger record then False
       else (case vk_parent_auditor record of
         None \<Rightarrow> True
       | Some parent \<Rightarrow> (case auditor_keys s parent of
           None \<Rightarrow> False
         | Some parent_record \<Rightarrow>
             if sequence e > vk_expiration_ledger parent_record then False
             else if \<not> scope_is_within (vk_max_scope parent_record) (vk_scope record) then False
             else if vk_expiration_ledger record > vk_max_expiration_ledger parent_record \<or>
                     vk_expiration_ledger record > vk_expiration_ledger parent_record then False
             else True)))"

text \<open>
  The loop of \<open>revoke_descendants\<close> over the delegates of an auditor, with the recursive call
  inlined: each delegate's key is removed, its own delegates are treated the same way, and its
  list is dropped. Nothing bounds the recursion, so it may fail to return, which is \<open>None\<close>.
\<close>

definition remove_key :: "address \<Rightarrow> audit \<Rightarrow> audit" where
  "remove_key d s = s\<lparr>auditor_keys := (auditor_keys s)(d := None)\<rparr>"

definition drop_delegates :: "address \<Rightarrow> audit \<Rightarrow> audit" where
  "drop_delegates a s = s\<lparr>delegated_auditors := (delegated_auditors s)(a := None)\<rparr>"

definition delegates_of :: "audit \<Rightarrow> address \<Rightarrow> address list" where
  "delegates_of s a = unwrap_or [] (delegated_auditors s a)"

partial_function (option) revoke_each :: "address list \<Rightarrow> audit \<Rightarrow> audit option" where
  "revoke_each delegates s = (case delegates of
     [] \<Rightarrow> Some s
   | delegate # rest \<Rightarrow>
       Option.bind (revoke_each (delegates_of (remove_key delegate s) delegate) (remove_key delegate s)) (\<lambda>s1.
       revoke_each rest (drop_delegates delegate s1)))"

definition revoke_descendants :: "address \<Rightarrow> audit \<Rightarrow> audit option" where
  "revoke_descendants auditor s =
     Option.bind (revoke_each (delegates_of s auditor) s) (\<lambda>s1. Some (drop_delegates auditor s1))"

text \<open>A revocation either returns, with a result, or never does.\<close>

definition revoke_view_key :: "'x penv_scheme \<Rightarrow> address \<Rightarrow> address \<Rightarrow> audit \<Rightarrow> audit audit_result option" where
  "revoke_view_key e adm auditor s =
     (case and_then (au_require_not_paused e s) (\<lambda>_.
           and_then (require_auth e adm) (\<lambda>_.
           and_then (ok_or (Err KeyNotFound) (auditor_keys s auditor)) (\<lambda>record.
           fail_if (vk_granted_by record \<noteq> adm) (Err NotKeyGranter)))) of
        Inl x \<Rightarrow> Some (Inl x)
      | Inr _ \<Rightarrow> Option.bind (revoke_descendants auditor s) (\<lambda>s1.
          Some (Inr (emit_audit_access_revoked adm auditor (remove_key auditor s1)))))"

definition get_view_key :: "address \<Rightarrow> audit \<Rightarrow> ViewKeyRecord audit_result" where
  "get_view_key auditor s = ok_or (Err KeyNotFound) (auditor_keys s auditor)"

definition get_expiration :: "address \<Rightarrow> audit \<Rightarrow> u32 audit_result" where
  "get_expiration auditor s =
     and_then (ok_or (Err KeyNotFound) (auditor_keys s auditor)) (\<lambda>record. Inr (vk_expiration_ledger record))"

definition refresh_view_key ::
  "'x penv_scheme \<Rightarrow> address \<Rightarrow> address \<Rightarrow> u32 \<Rightarrow> audit \<Rightarrow> (bytes \<times> audit) audit_result" where
  "refresh_view_key e adm auditor new_expiration_ledger s =
     and_then (au_require_not_paused e s) (\<lambda>_.
     and_then (require_auth e adm) (\<lambda>_.
     and_then (ok_or (Err KeyNotFound) (auditor_keys s auditor)) (\<lambda>record.
     and_then (fail_if (vk_granted_by record \<noteq> adm) (Err NotKeyGranter)) (\<lambda>_.
     and_then (fail_if (new_expiration_ledger \<le> vk_expiration_ledger record) (Err ExpirationNotExtended)) (\<lambda>_.
     let new_key_bytes = derive_key_bytes e auditor new_expiration_ledger;
         updated = record\<lparr>vk_key_bytes := new_key_bytes, vk_expiration_ledger := new_expiration_ledger, vk_granted_by := adm\<rparr> in
     Inr (new_key_bytes, publish [VSym ''ViewKeyRefreshed'', VAddr adm, VAddr auditor] (VVec [VU32 new_expiration_ledger])
       (s\<lparr>auditor_keys := (auditor_keys s)(auditor \<mapsto> updated)\<rparr>)))))))"

section \<open>Delegation\<close>

definition set_delegation_policy ::
  "'x penv_scheme \<Rightarrow> address \<Rightarrow> address \<Rightarrow> bool \<Rightarrow> AuditScope \<Rightarrow> u32 \<Rightarrow> audit \<Rightarrow> audit audit_result" where
  "set_delegation_policy e adm auditor allow_delegation max_scope max_expiration_ledger s =
     and_then (au_require_not_paused e s) (\<lambda>_.
     and_then (require_auth e adm) (\<lambda>_.
     and_then (ok_or (Err KeyNotFound) (auditor_keys s auditor)) (\<lambda>record.
     and_then (fail_if (vk_granted_by record \<noteq> adm) (Err NotKeyGranter)) (\<lambda>_.
     Inr (s\<lparr>auditor_keys := (auditor_keys s)(auditor \<mapsto> record\<lparr>vk_allow_delegation := allow_delegation,
       vk_max_scope := max_scope, vk_max_expiration_ledger := max_expiration_ledger\<rparr>)\<rparr>)))))"

definition approve_delegation ::
  "'x penv_scheme \<Rightarrow> address \<Rightarrow> address \<Rightarrow> bool \<Rightarrow> AuditScope \<Rightarrow> u32 \<Rightarrow> audit \<Rightarrow> audit audit_result" where
  "approve_delegation e adm auditor allow_delegation max_scope max_expiration_ledger s =
     set_delegation_policy e adm auditor allow_delegation max_scope max_expiration_ledger s"

text \<open>The \<open>AuditAccessExpired\<close> event of an expired key is rolled back with the error.\<close>

definition authorize_auditor :: "'x env_scheme \<Rightarrow> address \<Rightarrow> audit \<Rightarrow> ViewKeyRecord audit_result" where
  "authorize_auditor e auditor s =
     and_then (require_auth e auditor) (\<lambda>_.
     and_then (ok_or (Err KeyNotFound) (auditor_keys s auditor)) (\<lambda>record.
     and_then (fail_if (sequence e > vk_expiration_ledger record) (Err KeyExpired)) (\<lambda>_.
     and_then (case vk_parent_auditor record of
         None \<Rightarrow> Inr ()
       | Some parent \<Rightarrow>
           and_then (ok_or (Err DelegationRevoked) (auditor_keys s parent)) (\<lambda>parent_record.
           and_then (fail_if (sequence e > vk_expiration_ledger parent_record) (Err DelegationRevoked)) (\<lambda>_.
           and_then (fail_if (\<not> scope_is_within (vk_max_scope parent_record) (vk_scope record))
             (Err DelegationExceedsParentScope)) (\<lambda>_.
           fail_if (vk_expiration_ledger record > vk_max_expiration_ledger parent_record \<or>
             vk_expiration_ledger record > vk_expiration_ledger parent_record) (Err DelegationExceedsParentExpiry))))) (\<lambda>_.
     Inr record))))"

definition delegate_view_key ::
  "'x env_scheme \<Rightarrow> address \<Rightarrow> address \<Rightarrow> AuditScope \<Rightarrow> u32 \<Rightarrow> audit \<Rightarrow> (bytes \<times> audit) audit_result" where
  "delegate_view_key e auditor delegate scope expiration_ledger s =
     and_then (authorize_auditor e auditor s) (\<lambda>parent.
     and_then (fail_if (\<not> vk_allow_delegation parent) (Err DelegationNotAllowed)) (\<lambda>_.
     and_then (fail_if (\<not> scope_is_within (vk_max_scope parent) scope) (Err DelegationExceedsParentScope)) (\<lambda>_.
     and_then (fail_if (expiration_ledger > vk_max_expiration_ledger parent \<or>
       expiration_ledger > vk_expiration_ledger parent) (Err DelegationExceedsParentExpiry)) (\<lambda>_.
     let key_bytes = derive_key_bytes e delegate expiration_ledger;
         delegated_record = \<lparr>vk_key_bytes = key_bytes, vk_expiration_ledger = expiration_ledger,
           vk_granted_by = auditor, vk_scope = scope, vk_allow_delegation = vk_allow_delegation parent,
           vk_max_scope = scope, vk_max_expiration_ledger = expiration_ledger, vk_parent_auditor = Some auditor\<rparr> in
     Inr (key_bytes, s\<lparr>auditor_keys := (auditor_keys s)(delegate \<mapsto> delegated_record),
       delegated_auditors := (delegated_auditors s)(auditor \<mapsto> delegates_of s auditor @ [delegate])\<rparr>)))))"

definition grant_delegated_access ::
  "'x env_scheme \<Rightarrow> address \<Rightarrow> address \<Rightarrow> AuditScope \<Rightarrow> u32 \<Rightarrow> audit \<Rightarrow> (bytes \<times> audit) audit_result" where
  "grant_delegated_access e auditor delegate scope expiration_ledger s =
     delegate_view_key e auditor delegate scope expiration_ledger s"

definition extend_delegated_access ::
  "'x env_scheme \<Rightarrow> address \<Rightarrow> address \<Rightarrow> u32 \<Rightarrow> audit \<Rightarrow> (bytes \<times> audit) audit_result" where
  "extend_delegated_access e auditor delegate new_expiration_ledger s =
     and_then (ok_or (Err KeyNotFound) (auditor_keys s delegate)) (\<lambda>record.
     and_then (fail_if (vk_parent_auditor record \<noteq> Some auditor) (Err NotKeyGranter)) (\<lambda>_.
     and_then (fail_if (sequence e > vk_expiration_ledger record) (Err KeyExpired)) (\<lambda>_.
     and_then (ok_or (Err DelegationRevoked) (auditor_keys s auditor)) (\<lambda>parent.
     and_then (fail_if (\<not> vk_allow_delegation parent) (Err DelegationNotAllowed)) (\<lambda>_.
     and_then (fail_if (new_expiration_ledger \<le> vk_expiration_ledger record) (Err ExpirationNotExtended)) (\<lambda>_.
     and_then (fail_if (new_expiration_ledger > vk_max_expiration_ledger parent \<or>
       new_expiration_ledger > vk_expiration_ledger parent) (Err DelegationExceedsParentExpiry)) (\<lambda>_.
     and_then (fail_if (\<not> scope_is_within (vk_max_scope parent) (vk_scope record)) (Err DelegationExceedsParentScope)) (\<lambda>_.
     let new_key = derive_key_bytes e delegate new_expiration_ledger in
     Inr (new_key, s\<lparr>auditor_keys := (auditor_keys s)(delegate \<mapsto>
       record\<lparr>vk_key_bytes := new_key, vk_expiration_ledger := new_expiration_ledger\<rparr>)\<rparr>)))))))))"

section \<open>Audit operations\<close>

definition verify_scope_for_commitment :: "AuditScope \<Rightarrow> unit audit_result" where
  "verify_scope_for_commitment scope = fail_if (scope = AggregateOnly) (Err InsufficientScope)"

definition au_compute_commitment :: "'x env_scheme \<Rightarrow> i128 \<Rightarrow> bytes \<Rightarrow> bytes" where
  "au_compute_commitment e amount blinding = sha256 e (le_bytes 16 amount @ blinding)"

definition compute_keyed_commitment :: "'x env_scheme \<Rightarrow> bytes \<Rightarrow> bytes \<Rightarrow> bytes" where
  "compute_keyed_commitment e view_key c = sha256 e (view_key @ c)"

definition record_audit_log :: "'x env_scheme \<Rightarrow> address \<Rightarrow> AuditScope \<Rightarrow> bool \<Rightarrow> audit \<Rightarrow> audit audit_result" where
  "record_audit_log e auditor scope matched s =
     (let company_id = ''default''; counter = unwrap_or 0 (audit_log_counter s company_id);
          entry = \<lparr>le_auditor = auditor, le_company_id = company_id, le_scope = scope, le_timestamp = timestamp e,
            le_matched = matched\<rparr> in
     and_then (add_u counter 1) (\<lambda>nxt.
     Inr (s\<lparr>audit_log := (audit_log s)((company_id, counter) \<mapsto> entry),
       audit_log_counter := (audit_log_counter s)(company_id \<mapsto> nxt)\<rparr>)))"

definition verify_commitment_inner ::
  "'x env_scheme \<Rightarrow> address \<Rightarrow> bytes \<Rightarrow> bytes \<Rightarrow> i128 \<Rightarrow> bytes \<Rightarrow> AuditScope \<Rightarrow> audit \<Rightarrow> bool \<times> audit" where
  "verify_commitment_inner e auditor view_key stored_commitment claimed_amount blinding_factor scope s =
     (let computed = au_compute_commitment e claimed_amount blinding_factor;
          keyed_stored = compute_keyed_commitment e view_key stored_commitment;
          keyed_computed = compute_keyed_commitment e view_key computed;
          matched = (keyed_computed = keyed_stored) in
     (matched, if matched then emit_audit_successful auditor (scope_symbol scope) s else s))"

definition verify_commitment_with_key ::
  "'x env_scheme \<Rightarrow> address \<Rightarrow> bytes \<Rightarrow> i128 \<Rightarrow> bytes \<Rightarrow> AuditScope \<Rightarrow> audit \<Rightarrow> (bool \<times> audit) audit_result" where
  "verify_commitment_with_key e auditor stored_commitment claimed_amount blinding_factor scope s =
     and_then (authorize_auditor e auditor s) (\<lambda>record.
     and_then (verify_scope_for_commitment scope) (\<lambda>_.
     let (matched, s) = verify_commitment_inner e auditor (vk_key_bytes record) stored_commitment claimed_amount
           blinding_factor scope s in
     and_then (record_audit_log e auditor scope matched s) (\<lambda>s.
     and_then (fail_if (\<not> matched) (Err CommitmentMismatch)) (\<lambda>_.
     Inr (matched, s)))))"

definition verify_commitment_with_view_key ::
  "'x env_scheme \<Rightarrow> address \<Rightarrow> bytes \<Rightarrow> bytes \<Rightarrow> i128 \<Rightarrow> bytes \<Rightarrow> AuditScope \<Rightarrow> audit \<Rightarrow> (bool \<times> audit) audit_result" where
  "verify_commitment_with_view_key e auditor supplied_key stored_commitment claimed_amount blinding_factor scope s =
     and_then (authorize_auditor e auditor s) (\<lambda>record.
     and_then (verify_scope_for_commitment scope) (\<lambda>_.
     and_then (fail_if (supplied_key \<noteq> vk_key_bytes record) (Err InvalidViewKey)) (\<lambda>_.
     let (matched, s) = verify_commitment_inner e auditor supplied_key stored_commitment claimed_amount
           blinding_factor scope s in
     and_then (record_audit_log e auditor scope matched s) (\<lambda>s.
     and_then (fail_if (\<not> matched) (Err CommitmentMismatch)) (\<lambda>_.
     Inr (matched, s))))))"

definition generate_aggregate_report ::
  "'x env_scheme \<Rightarrow> address \<Rightarrow> symbol \<Rightarrow> u64 \<Rightarrow> u64 \<Rightarrow> audit \<Rightarrow> (AuditReport \<times> audit) audit_result" where
  "generate_aggregate_report e auditor company_id period_start period_end s =
     and_then (authorize_auditor e auditor s) (\<lambda>_.
     let report = \<lparr>ar_company_id = company_id, ar_total_employees = 0, ar_total_paid = 0,
           ar_period_start = period_start, ar_period_end = period_end, ar_verified = True\<rparr>;
         s = emit_aggregate_audit_generated auditor company_id period_start period_end s in
     and_then (record_audit_log e auditor AggregateOnly True s) (\<lambda>s.
     Inr (report, s)))"

section \<open>Queries\<close>

text \<open>The entries under the indices \<open>0..counter\<close> that are present.\<close>

definition query_by_company :: "symbol \<Rightarrow> audit \<Rightarrow> AuditLogEntry list" where
  "query_by_company company_id s =
     List.map_filter (\<lambda>i. audit_log s (company_id, of_nat i)) [0..<unat (unwrap_or 0 (audit_log_counter s company_id))]"

definition query_by_employee :: "symbol \<Rightarrow> address \<Rightarrow> audit \<Rightarrow> AuditLogEntry list" where
  "query_by_employee company_id employee s = filter (\<lambda>entry. le_auditor entry = employee) (query_by_company company_id s)"

definition query_by_period :: "symbol \<Rightarrow> u64 \<Rightarrow> u64 \<Rightarrow> audit \<Rightarrow> AuditLogEntry list" where
  "query_by_period company_id period_start period_end s =
     filter (\<lambda>entry. le_timestamp entry \<ge> period_start \<and> le_timestamp entry \<le> period_end) (query_by_company company_id s)"

definition get_audit_log_count :: "symbol \<Rightarrow> audit \<Rightarrow> u32" where
  "get_audit_log_count company_id s = unwrap_or 0 (audit_log_counter s company_id)"

primrec count_matches :: "AuditLogEntry list \<Rightarrow> u32 \<Rightarrow> u32 \<Rightarrow> (u32 \<times> u32) audit_result" where
  "count_matches [] pass_count fail_count = Inr (pass_count, fail_count)"
| "count_matches (entry # rest) pass_count fail_count =
     (if le_matched entry then and_then (add_u pass_count 1) (\<lambda>pass_count. count_matches rest pass_count fail_count)
      else and_then (add_u fail_count 1) (\<lambda>fail_count. count_matches rest pass_count fail_count))"

definition export_audit_summary ::
  "'x env_scheme \<Rightarrow> address \<Rightarrow> symbol \<Rightarrow> u64 \<Rightarrow> u64 \<Rightarrow> audit \<Rightarrow> (AuditMetadataSummary \<times> audit) audit_result" where
  "export_audit_summary e auditor company_id period_start period_end s =
     and_then (authorize_auditor e auditor s) (\<lambda>_.
     let entries = query_by_period company_id period_start period_end s; total = of_nat (length entries) in
     and_then (count_matches entries 0 0) (\<lambda>counts.
     Inr (\<lparr>ms_company_id = company_id, ms_period_start = period_start, ms_period_end = period_end,
            ms_total_audit_entries = total, ms_verification_pass_count = fst counts,
            ms_verification_fail_count = snd counts, ms_exported_at = timestamp e, ms_exported_by = auditor\<rparr>,
          emit_audit_summary_exported auditor company_id period_start period_end total s)))"

definition verify_payroll_metadata ::
  "'x env_scheme \<Rightarrow> address \<Rightarrow> bytes \<Rightarrow> bytes \<Rightarrow> AuditScope \<Rightarrow> audit \<Rightarrow> (bool \<times> audit) audit_result" where
  "verify_payroll_metadata e auditor stored_hash expected_hash scope s =
     and_then (panic_if (stored_hash = zero32 \<or> expected_hash = zero32) ''Metadata hash cannot be all-zero digest'') (\<lambda>_.
     and_then (authorize_auditor e auditor s) (\<lambda>_.
     and_then (verify_scope_for_commitment scope) (\<lambda>_.
     let matched = (stored_hash = expected_hash) in
     and_then (record_audit_log e auditor scope matched s) (\<lambda>s.
     Inr (matched,
       if matched then publish [VSym ''MetadataVerified'', VAddr auditor] (VVec [VBytes stored_hash, AuditScope_val scope]) s
       else publish [VSym ''MetadataMismatch'', VAddr auditor] (VVec [VBytes stored_hash, VBytes expected_hash]) s)))))"

end
