(* ===== verification/Audit_Delegation.thy ===== *)
theory Audit_Delegation
  imports Audit_Module Interfaces
begin

text \<open>
  Access of auditors and its revocation: the two checks of access agree, a revocation returns
  exactly when no chain of delegations runs forever, and it then removes the keys of all
  descendants and no other.
\<close>

section \<open>The two access checks\<close>

text \<open>\<open>authorize_auditor\<close>, which guards every audit operation, and the public query
  \<open>verify_access\<close>, which is written out separately, decide alike: an auditor that signed is
  authorized exactly when the query answers yes, and gets the stored key record.\<close>

lemma authorized_iff:
  "authorize_auditor e a s = Inr r \<longleftrightarrow> auth e a \<and> verify_access e a s \<and> auditor_keys s a = Some r"
  by (auto simp: authorize_auditor_def verify_access_def not_less split: option.splits)

section \<open>Delegation as a relation\<close>

definition delegation :: "audit \<Rightarrow> address \<Rightarrow> address \<Rightarrow> bool" where
  "delegation s b a \<longleftrightarrow> b \<in> set (delegates_of s a)"

definition reach :: "audit \<Rightarrow> address list \<Rightarrow> address set" where
  "reach s ds = {x. \<exists>d \<in> set ds. (delegation s)\<^sup>*\<^sup>* x d}"

definition cut_off :: "address set \<Rightarrow> audit \<Rightarrow> audit" where
  "cut_off X s = s\<lparr>auditor_keys := auditor_keys s |` (- X), delegated_auditors := delegated_auditors s |` (- X)\<rparr>"

lemma delegates_cut: "delegates_of (cut_off X s) y = (if y \<in> X then [] else delegates_of s y)"
  by (simp add: delegates_of_def cut_off_def restrict_map_def)

lemma delegation_cut: "delegation (cut_off X s) b a \<longleftrightarrow> a \<notin> X \<and> delegation s b a"
  by (simp add: delegation_def delegates_cut)

lemma delegates_remove_key [simp]: "delegates_of (remove_key d s) = delegates_of s"
  by (simp add: delegates_of_def remove_key_def fun_eq_iff)

lemma delegation_remove_key [simp]: "delegation (remove_key d s) = delegation s"
  by (simp add: delegation_def fun_eq_iff)

lemma reach_remove_key [simp]: "reach (remove_key d s) = reach s"
  by (simp add: reach_def fun_eq_iff)

lemma reach_Nil [simp]: "reach s [] = {}"
  by (simp add: reach_def)

lemma reach_Cons: "reach s (d # ds) = reach s [d] \<union> reach s ds"
  by (auto simp: reach_def)

lemma reach_single: "reach s [d] = insert d (reach s (delegates_of s d))"
proof -
  have "(delegation s)\<^sup>*\<^sup>* x d \<longleftrightarrow> x = d \<or> (\<exists>c \<in> set (delegates_of s d). (delegation s)\<^sup>*\<^sup>* x c)" for x
    by (auto simp: delegation_def elim: rtranclp.cases intro: rtranclp.rtrancl_into_rtrancl)
  then show ?thesis by (auto simp: reach_def)
qed

lemma cut_empty: "cut_off {} s = s"
  by (simp add: cut_off_def restrict_map_def)

lemma cut_cut: "cut_off Y (cut_off X s) = cut_off (X \<union> Y) s"
  by (simp add: cut_off_def Compl_Un)

lemma drop_cut_remove: "drop_delegates d (cut_off X (remove_key d s)) = cut_off (insert d X) s"
  by (cases "d \<in> X") (simp_all add: drop_delegates_def cut_off_def remove_key_def insert_absorb Compl_insert restrict_fun_upd)

text \<open>Cutting a set that is closed downwards does not change what else is reached.\<close>

lemma reach_cut: "reach s [d] \<union> reach (cut_off (reach s [d]) s) ds = reach s [d] \<union> reach s ds"
proof -
  let ?X = "reach s [d]"
  have closed: "b \<in> ?X" if "delegation s b a" "a \<in> ?X" for a b
    using that by (auto simp: reach_def intro: converse_rtranclp_into_rtranclp)
  have "x \<in> ?X \<or> (delegation (cut_off ?X s))\<^sup>*\<^sup>* x c" if "(delegation s)\<^sup>*\<^sup>* x c" for x c
    using that
  proof (induction rule: converse_rtranclp_induct)
    case base
    then show ?case by simp
  next
    case (step y z)
    then show ?case using closed [of y z]
      by (cases "z \<in> ?X") (auto simp: delegation_cut intro: converse_rtranclp_into_rtranclp)
  qed
  moreover have "(delegation s)\<^sup>*\<^sup>* x c" if "(delegation (cut_off ?X s))\<^sup>*\<^sup>* x c" for x c
    using that by (rule rtranclp_mono [THEN predicate2D, rotated]) (auto simp: delegation_cut)
  ultimately show ?thesis unfolding reach_def by blast
qed

lemma accp_cut:
  assumes "Wellfounded.accp (delegation (cut_off X s)) x" "\<forall>y \<in> X. Wellfounded.accp (delegation s) y"
  shows "Wellfounded.accp (delegation s) x"
  using assms(1)
proof (induction rule: accp.induct)
  case (accI x)
  then show ?case using assms(2) by (cases "x \<in> X") (auto simp: delegation_cut intro: accp.accI)
qed

lemma accp_reach:
  assumes "Wellfounded.accp (delegation s) d" "x \<in> reach s [d]"
  shows "Wellfounded.accp (delegation s) x"
  using assms accp_downwards [of "delegation s" d x] by (auto simp: reach_def)

section \<open>The revocation loop\<close>

lemma revoke_each_Nil [simp]: "revoke_each [] s = Some s"
  by (subst revoke_each.simps) simp

lemma revoke_each_Cons:
  "revoke_each (d # ds) s = Option.bind (revoke_descendants d (remove_key d s)) (revoke_each ds)"
  by (subst revoke_each.simps) (simp add: revoke_descendants_def Option.bind_assoc)

text \<open>When the loop returns, no chain of delegations below the list is infinite, and the loop has
  removed exactly what is reachable from the list.\<close>

lemma revoke_each_effect:
  "revoke_each ds s = Some s' \<Longrightarrow> (\<forall>d \<in> set ds. Wellfounded.accp (delegation s) d) \<and> s' = cut_off (reach s ds) s"
proof (rule revoke_each.raw_induct
    [where P = "\<lambda>ds s s'. (\<forall>d \<in> set ds. Wellfounded.accp (delegation s) d) \<and> s' = cut_off (reach s ds) s"])
  fix f ds s s'
  assume IH: "\<And>ds s s'. f ds s = Some s' \<Longrightarrow> (\<forall>d \<in> set ds. Wellfounded.accp (delegation s) d) \<and> s' = cut_off (reach s ds) s"
    and step: "(case ds of [] \<Rightarrow> Some s | d # rest \<Rightarrow>
      Option.bind (f (delegates_of (remove_key d s) d) (remove_key d s)) (\<lambda>s1. f rest (drop_delegates d s1))) = Some s'"
  show "(\<forall>d \<in> set ds. Wellfounded.accp (delegation s) d) \<and> s' = cut_off (reach s ds) s"
  proof (cases ds)
    case Nil
    then show ?thesis using step by (simp add: cut_empty)
  next
    case (Cons d rest)
    from step Cons obtain s1 where s1: "f (delegates_of s d) (remove_key d s) = Some s1"
      and rest: "f rest (drop_delegates d s1) = Some s'" by (auto simp: bind_eq_Some_conv)
    from IH [OF s1] have a: "\<forall>x \<in> set (delegates_of s d). Wellfounded.accp (delegation s) x"
      and c: "s1 = cut_off (reach s (delegates_of s d)) (remove_key d s)" by simp_all
    have d: "Wellfounded.accp (delegation s) d" using a by (auto intro: accp.accI simp: delegation_def)
    have t: "drop_delegates d s1 = cut_off (reach s [d]) s" unfolding c drop_cut_remove by (simp add: reach_single)
    from IH [OF rest] t have "\<forall>x \<in> set rest. Wellfounded.accp (delegation (cut_off (reach s [d]) s)) x"
      and s': "s' = cut_off (reach (cut_off (reach s [d]) s) rest) (cut_off (reach s [d]) s)" by simp_all
    then have "\<forall>x \<in> set rest. Wellfounded.accp (delegation s) x" using accp_cut accp_reach [OF d] by blast
    moreover have "s' = cut_off (reach s ds) s" unfolding s' cut_cut reach_cut Cons using reach_Cons by metis
    ultimately show ?thesis using d Cons by simp
  qed
qed

lemma revoke_descendants_effect:
  assumes "revoke_descendants a s = Some s'"
  shows "Wellfounded.accp (delegation s) a \<and> s' = drop_delegates a (cut_off (reach s (delegates_of s a)) s)"
  using assms revoke_each_effect [of "delegates_of s a" s]
  by (auto simp: revoke_descendants_def bind_eq_Some_conv delegation_def intro: accp.accI)

lemma revoke_each_returns:
  assumes "\<And>d t. d \<in> set ds \<Longrightarrow> \<forall>x. set (delegates_of t x) \<subseteq> set (delegates_of s x) \<Longrightarrow> revoke_descendants d t \<noteq> None"
    and "\<forall>x. set (delegates_of t x) \<subseteq> set (delegates_of s x)"
  shows "revoke_each ds t \<noteq> None"
  using assms
proof (induction ds arbitrary: t)
  case Nil
  then show ?case by simp
next
  case (Cons d ds)
  from Cons.prems obtain t1 where t1: "revoke_descendants d (remove_key d t) = Some t1" by fastforce
  from revoke_descendants_effect [OF this] have "set (delegates_of t1 x) \<subseteq> set (delegates_of t x)" for x
    by (auto simp: drop_delegates_def delegates_of_def cut_off_def remove_key_def restrict_map_def)
  then have "\<forall>x. set (delegates_of t1 x) \<subseteq> set (delegates_of s x)" using Cons.prems(2) by blast
  with Cons have "revoke_each ds t1 \<noteq> None" by simp
  then show ?case by (simp add: revoke_each_Cons t1)
qed

lemma revoke_descendants_returns:
  assumes "Wellfounded.accp (delegation s) a" "\<forall>x. set (delegates_of t x) \<subseteq> set (delegates_of s x)"
  shows "revoke_descendants a t \<noteq> None"
  using assms
proof (induction arbitrary: t rule: accp.induct)
  case (accI a)
  have "revoke_each (delegates_of t a) t \<noteq> None"
  proof (rule revoke_each_returns [OF _ accI.prems])
    fix d t'
    assume "d \<in> set (delegates_of t a)" "\<forall>x. set (delegates_of t' x) \<subseteq> set (delegates_of s x)"
    moreover from this accI.prems have "delegation s d a" by (auto simp: delegation_def)
    ultimately show "revoke_descendants d t' \<noteq> None" using accI.IH by blast
  qed
  then show ?case by (auto simp: revoke_descendants_def)
qed

lemma not_accp_chain:
  assumes "\<not> Wellfounded.accp R a"
  shows "\<exists>f. f 0 = a \<and> (\<forall>n :: nat. R (f (Suc n)) (f n))"
proof -
  have "\<exists>f. f 0 = a \<and> (\<forall>n :: nat. \<not> Wellfounded.accp R (f n) \<and> R (f (Suc n)) (f n))"
  proof -
    have "\<exists>f. \<forall>n :: nat. (\<not> Wellfounded.accp R (f n) \<and> (n = 0 \<longrightarrow> f n = a)) \<and> R (f (Suc n)) (f n)"
      by (rule dependent_nat_choice) (use assms in \<open>auto elim: not_accp_down\<close>)
    then show ?thesis by auto
  qed
  then show ?thesis by blast
qed

lemma chain_not_accp:
  assumes "Wellfounded.accp R a" "f 0 = a" "\<forall>n :: nat. R (f (Suc n)) (f n)"
  shows False
  using assms
proof (induction arbitrary: f rule: accp.induct)
  case (accI a)
  have "R (f 1) a" "\<forall>n. R (f (Suc (Suc n))) (f (Suc n))" using accI.prems by auto
  from accI.IH [OF this(1), of "\<lambda>n. f (Suc n)"] this(2) show ?case by simp
qed

text \<open>C13. The recursion that removes the delegates of an auditor, their delegates and so on fails
  to return exactly when some chain of delegations starting at the auditor goes on for ever, as it
  does around a cycle; otherwise it returns.\<close>

theorem revocation_terminates_iff:
  "revoke_descendants a s = None \<longleftrightarrow>
     (\<exists>f. f 0 = a \<and> (\<forall>n :: nat. f (Suc n) \<in> set (delegates_of s (f n))))"
proof
  assume "revoke_descendants a s = None"
  then have "\<not> Wellfounded.accp (delegation s) a" using revoke_descendants_returns [of s a s] by auto
  from not_accp_chain [OF this] show "\<exists>f. f 0 = a \<and> (\<forall>n :: nat. f (Suc n) \<in> set (delegates_of s (f n)))"
    by (simp add: delegation_def)
next
  assume "\<exists>f. f 0 = a \<and> (\<forall>n :: nat. f (Suc n) \<in> set (delegates_of s (f n)))"
  then have "\<not> Wellfounded.accp (delegation s) a" using chain_not_accp [of "delegation s" a] by (auto simp: delegation_def)
  then show "revoke_descendants a s = None" using revoke_descendants_effect [of a s] by (cases "revoke_descendants a s") auto
qed

end
