(* ===== verification/Audit_Histories.thy ===== *)
theory Audit_Histories
  imports Audit_Delegation Salary_Commitment
begin

text \<open>
  What a revocation does, who may revoke, the audit log over histories of calls, and the
  commitments that an audit accepts.
\<close>

section \<open>Effect of a revocation\<close>

lemma revoke_view_key_okE:
  assumes "revoke_view_key e adm a s = Some (Inr s')"
  obtains r s1 where "auth e adm" "auditor_keys s a = Some r" "vk_granted_by r = adm"
    "revoke_descendants a s = Some s1" "s' = emit_audit_access_revoked adm a (remove_key a s1)"
  using assms by (auto simp: revoke_view_key_def bind_eq_Some_conv split: sum.splits)

text \<open>C20. A revocation that succeeds was signed by the granter of the key. It removes the key of the
  auditor and the keys and delegation lists of everyone below the auditor in the tree of
  delegations, and no other key; none of them has access any more.\<close>

theorem revocation_removes_descendants:
  assumes "revoke_view_key e adm a s = Some (Inr s')"
  shows "auth e adm \<and> map_option vk_granted_by (auditor_keys s a) = Some adm \<and>
    (\<forall>x. auditor_keys s' x = (if (delegation s)\<^sup>*\<^sup>* x a then None else auditor_keys s x)) \<and>
    (\<forall>x. delegates_of s' x = (if (delegation s)\<^sup>*\<^sup>* x a then [] else delegates_of s x)) \<and>
    (\<forall>x e'. (delegation s)\<^sup>*\<^sup>* x a \<longrightarrow> \<not> verify_access (e' :: env) x s')"
proof -
  from assms obtain r s1 where r: "auth e adm" "auditor_keys s a = Some r" "vk_granted_by r = adm"
    "revoke_descendants a s = Some s1" "s' = emit_audit_access_revoked adm a (remove_key a s1)"
    by (rule revoke_view_key_okE)
  from revoke_descendants_effect [OF r(4)]
  have s1: "s1 = drop_delegates a (cut_off (reach s (delegates_of s a)) s)" by simp
  have x: "(delegation s)\<^sup>*\<^sup>* x a \<longleftrightarrow> x = a \<or> x \<in> reach s (delegates_of s a)" for x
    using reach_single [of s a] by (auto simp: reach_def)
  have keys: "auditor_keys s' x = (if (delegation s)\<^sup>*\<^sup>* x a then None else auditor_keys s x)" for x
    unfolding x using r(5) s1 by (simp add: emits publish_def remove_key_def drop_delegates_def cut_off_def restrict_map_def)
  moreover have "delegates_of s' x = (if (delegation s)\<^sup>*\<^sup>* x a then [] else delegates_of s x)" for x
    unfolding x using r(5) s1
    by (simp add: emits publish_def remove_key_def drop_delegates_def cut_off_def restrict_map_def delegates_of_def)
  ultimately show ?thesis using r by (simp add: verify_access_def)
qed

text \<open>An auditor that may delegate can delegate to itself. The key is then in its own name, so its
  former granter is refused, and the auditor's own revocation never returns: the key stays until
  it expires, whoever tries to revoke it.\<close>

lemma self_delegation_blocks_revocation:
  assumes "delegate_view_key e a a sc x s = Inr (k, s1)"
  shows "vk_granted_by (the (auditor_keys s1 a)) = a \<and> (\<forall>e'. revoke_view_key (e' :: penv) adm a s1 \<noteq> Some (Inr s2)) \<and>
    (\<forall>e' :: penv. au_require_not_paused e' s1 = (Inr () :: unit audit_result) \<and> auth e' adm \<and> adm \<noteq> a \<longrightarrow>
       revoke_view_key e' adm a s1 = Some (Inl (Err NotKeyGranter)))"
proof -
  from assms have k: "auditor_keys s1 a \<noteq> None" "vk_granted_by (the (auditor_keys s1 a)) = a" "a \<in> set (delegates_of s1 a)"
    by (auto simp: delegate_view_key_def Let_def delegates_of_def)
  have "revoke_descendants a s1 = None"
    using revoke_descendants_effect [of a s1] chain_not_accp [of "delegation s1" a "\<lambda>_. a"] k(3)
    by (cases "revoke_descendants a s1") (auto simp: delegation_def)
  then have "revoke_view_key e' adm a s1 \<noteq> Some (Inr s2)" for e' :: penv
    by (simp add: revoke_view_key_def split: sum.splits)
  moreover have "revoke_view_key e' adm a s1 = Some (Inl (Err NotKeyGranter))"
    if "au_require_not_paused e' s1 = (Inr () :: unit audit_result)" "auth e' adm" "adm \<noteq> a" for e' :: penv
    using that k by (auto simp: revoke_view_key_def require_auth_simps)
  ultimately show ?thesis using k(2) by blast
qed

section \<open>Calls\<close>

datatype au_call =
    AuSetPauseManager address address
  | AuGenerate address u32
  | AuRevoke address address
  | AuRefresh address address u32
  | AuPolicy address address bool AuditScope u32
  | AuDelegate address address AuditScope u32
  | AuExtend address address u32
  | AuVerify address bytes i128 bytes AuditScope
  | AuVerifyKey address bytes bytes i128 bytes AuditScope
  | AuReport address symbol u64 u64
  | AuExport address symbol u64 u64
  | AuMetadata address bytes bytes AuditScope

abbreviation "new_state r \<equiv> and_then r (\<lambda>x. Inr (snd x))"

text \<open>The host aborts an invocation that does not return.\<close>

definition au_invoke :: "penv \<times> au_call \<Rightarrow> audit \<Rightarrow> audit audit_result" where
  "au_invoke c s = (let e = fst c in case snd c of
     AuSetPauseManager a pm \<Rightarrow> au_set_pause_manager e a pm s
   | AuGenerate a x \<Rightarrow> new_state (generate_view_key e a x s)
   | AuRevoke g a \<Rightarrow> (case revoke_view_key e g a s of None \<Rightarrow> Inl (Panic ''Budget exceeded'') | Some r \<Rightarrow> r)
   | AuRefresh g a x \<Rightarrow> new_state (refresh_view_key e g a x s)
   | AuPolicy g a b m x \<Rightarrow> set_delegation_policy e g a b m x s
   | AuDelegate a d m x \<Rightarrow> new_state (delegate_view_key e a d m x s)
   | AuExtend a d x \<Rightarrow> new_state (extend_delegated_access e a d x s)
   | AuVerify a k v b m \<Rightarrow> new_state (verify_commitment_with_key e a k v b m s)
   | AuVerifyKey a q k v b m \<Rightarrow> new_state (verify_commitment_with_view_key e a q k v b m s)
   | AuReport a co p q \<Rightarrow> new_state (generate_aggregate_report e a co p q s)
   | AuExport a co p q \<Rightarrow> new_state (export_audit_summary e a co p q s)
   | AuMetadata a h k m \<Rightarrow> new_state (verify_payroll_metadata e a h k m s))"

text \<open>The operations that write the log, and what the others leave alone.\<close>

lemma revoke_descendants_log:
  assumes "revoke_descendants a s = Some s1"
  shows "audit_log s1 = audit_log s" "audit_log_counter s1 = audit_log_counter s"
  using revoke_descendants_effect [OF assms] by (simp_all add: drop_delegates_def cut_off_def)

lemma revoke_log_frame:
  assumes "revoke_view_key e g a s = Some (Inr s')"
  shows "audit_log s' = audit_log s" "audit_log_counter s' = audit_log_counter s"
  using assms by (auto elim!: revoke_view_key_okE simp: emits publish_def remove_key_def revoke_descendants_log)

lemma au_invoke_log [consumes 1, case_names same logged]:
  assumes "au_invoke c s = Inr s'"
  obtains "audit_log s' = audit_log s" "audit_log_counter s' = audit_log_counter s"
  | a m b t t' where "auth (fst c) a" "verify_access (fst c) a s" "audit_log t = audit_log s"
      "audit_log_counter t = audit_log_counter s" "record_audit_log (fst c) a m b t = Inr t'"
      "audit_log s' = audit_log t'" "audit_log_counter s' = audit_log_counter t'"
proof (cases "snd c")
  case (AuRevoke g a)
  then have "revoke_view_key (fst c) g a s = Some (Inr s')"
    using assms by (auto simp: au_invoke_def Let_def split: option.splits)
  from revoke_log_frame [OF this] show ?thesis by (rule that(1))
next
  case (AuVerify a k v b m)
  then show ?thesis using assms that(2) [of a "emit_audit_successful a (scope_symbol m) s" m True s']
    by (auto simp: au_invoke_def Let_def verify_commitment_with_key_def verify_commitment_inner_def
        authorized_iff emits publish_def split: if_splits)
next
  case (AuVerifyKey a q k v b m)
  then show ?thesis using assms that(2) [of a "emit_audit_successful a (scope_symbol m) s" m True s']
    by (auto simp: au_invoke_def Let_def verify_commitment_with_view_key_def verify_commitment_inner_def
        authorized_iff emits publish_def split: if_splits)
next
  case (AuReport a co p q)
  then show ?thesis using assms that(2) [of a "emit_aggregate_audit_generated a co p q s" AggregateOnly True s']
    by (auto simp: au_invoke_def Let_def generate_aggregate_report_def authorized_iff emits publish_def)
next
  case (AuMetadata a h k m)
  then show ?thesis using assms that(2)
    by (fastforce simp: au_invoke_def Let_def verify_payroll_metadata_def authorized_iff publish_def split: if_splits)
qed (use assms that(1) in \<open>auto simp: au_invoke_def Let_def au_set_pause_manager_def generate_view_key_def refresh_view_key_def
    set_delegation_policy_def delegate_view_key_def extend_delegated_access_def export_audit_summary_def emits publish_def\<close>)

section \<open>The audit log\<close>

definition log_dense :: "audit \<Rightarrow> bool" where
  "log_dense s \<longleftrightarrow> (\<forall>c i. audit_log s (c, i) \<noteq> None \<longleftrightarrow> i < get_audit_log_count c s)"

lemma query_dense:
  assumes "log_dense s"
  shows "query_by_company c s = map (\<lambda>i. the (audit_log s (c, of_nat i))) [0..<unat (get_audit_log_count c s)]"
proof -
  have "audit_log s (c, of_nat i) \<noteq> None" if "i < unat (get_audit_log_count c s)" for i
  proof -
    have "unat (of_nat i :: u32) = i"
      using that unsigned_less [of "get_audit_log_count c s", where 'a = nat] by (simp add: unsigned_of_nat take_bit_nat_eq_self)
    then have "of_nat i < get_audit_log_count c s" using that by (simp add: word_less_nat_alt)
    then show ?thesis using assms by (simp add: log_dense_def)
  qed
  then show ?thesis
    by (auto simp: query_by_company_def List.map_filter_def get_audit_log_count_def comp_def intro!: map_cong filter_True)
qed

lemma record_audit_log_effect:
  assumes "log_dense s" "record_audit_log e a m b s = Inr s'"
  shows "log_dense s'"
    and "query_by_company ''default'' s' = query_by_company ''default'' s @
      [\<lparr>le_auditor = a, le_company_id = ''default'', le_scope = m, le_timestamp = timestamp e, le_matched = b\<rparr>]"
    and "c \<noteq> ''default'' \<Longrightarrow> query_by_company c s' = query_by_company c s"
proof -
  let ?n = "get_audit_log_count ''default'' s"
  let ?x = "\<lparr>le_auditor = a, le_company_id = ''default'', le_scope = m, le_timestamp = timestamp e, le_matched = b\<rparr>"
  from assms(2) have s': "audit_log s' = (audit_log s)((''default'', ?n) \<mapsto> ?x)"
    "audit_log_counter s' = (audit_log_counter s)(''default'' \<mapsto> ?n + 1)" and ov: "unat ?n + 1 < 2 ^ 32"
    by (auto simp: record_audit_log_def Let_def get_audit_log_count_def add_u_def split: if_splits)
  have n: "unat (?n + 1) = unat ?n + 1" using ov by (simp add: unat_word_ariths)
  have cnt: "get_audit_log_count c s' = (if c = ''default'' then ?n + 1 else get_audit_log_count c s)" for c
    using s'(2) by (simp add: get_audit_log_count_def)
  have lt: "i < ?n + 1 \<longleftrightarrow> i = ?n \<or> i < ?n" for i
    unfolding word_less_nat_alt n by (auto simp: word_unat_eq_iff)
  show d: "log_dense s'" using assms(1) s'(1) cnt lt by (auto simp: log_dense_def)
  have o: "audit_log s' (''default'', of_nat i) = audit_log s (''default'', of_nat i)" if "i < unat ?n" for i
  proof -
    have "unat (of_nat i :: u32) = i" using that ov by (simp add: unsigned_of_nat take_bit_nat_eq_self)
    then have "of_nat i \<noteq> ?n" using that by auto
    then show ?thesis using s'(1) by simp
  qed
  show "query_by_company ''default'' s' = query_by_company ''default'' s @ [?x]"
    unfolding query_dense [OF d] query_dense [OF assms(1)] cnt using o s'(1) n by simp
  show "c \<noteq> ''default'' \<Longrightarrow> query_by_company c s' = query_by_company c s"
    unfolding query_dense [OF d] query_dense [OF assms(1)] cnt using s'(1) by simp
qed

lemma query_same:
  assumes "audit_log s' = audit_log s" "audit_log_counter s' = audit_log_counter s"
  shows "query_by_company c s' = query_by_company c s" "log_dense s' \<longleftrightarrow> log_dense s"
  using assms by (simp_all add: query_by_company_def log_dense_def get_audit_log_count_def)

text \<open>One call extends the log by nothing or by one entry of an auditor that had access.\<close>

lemma log_step:
  assumes "au_invoke c s = Inr s'" "log_dense s"
  shows "log_dense s' \<and> (query_by_company k s' = query_by_company k s \<or>
    (\<exists>x. query_by_company k s' = query_by_company k s @ [x] \<and> k = ''default'' \<and> auth (fst c) (le_auditor x) \<and>
      verify_access (fst c) (le_auditor x) s))"
  using assms(1)
proof (cases rule: au_invoke_log)
  case same
  from query_same [OF this] assms(2) show ?thesis by simp
next
  case (logged a m b t t')
  have t: "log_dense t" "query_by_company k t = query_by_company k s" using query_same [OF logged(3,4)] assms(2) by simp_all
  note eff = record_audit_log_effect [OF t(1) logged(5)]
  have "query_by_company k s' = query_by_company k t'" "log_dense s'" using query_same [OF logged(6,7)] eff(1) by simp_all
  then show ?thesis using eff t(2) logged(1,2) by (cases "k = ''default''") auto
qed

definition log_prefix :: "audit \<Rightarrow> audit \<Rightarrow> bool" where
  "log_prefix s t \<longleftrightarrow> (\<forall>k. \<exists>more. query_by_company k t = query_by_company k s @ more)"

lemma log_run:
  assumes "log_dense s"
  shows "log_dense (run_calls au_invoke cs s) \<and> log_prefix s (run_calls au_invoke cs s)"
proof (rule run_calls_invariant [where I = "\<lambda>t. log_dense t \<and> log_prefix s t"])
  show "log_dense s \<and> log_prefix s s" using assms by (simp add: log_prefix_def)
next
  fix c t t'
  assume *: "log_dense t \<and> log_prefix s t" "au_invoke c t = Inr t'"
  have "\<exists>more. query_by_company k t' = query_by_company k s @ more" for k
  proof -
    obtain more where "query_by_company k t = query_by_company k s @ more" using *(1) by (auto simp: log_prefix_def)
    then show ?thesis using log_step [OF *(2), of k] *(1) by auto
  qed
  then show "log_dense t' \<and> log_prefix s t'" using log_step [OF *(2)] * by (auto simp: log_prefix_def)
qed

definition blank_audit :: "audit \<Rightarrow> bool" where
  "blank_audit s \<longleftrightarrow> auditor_keys s = Map.empty \<and> delegated_auditors s = Map.empty \<and> audit_log_counter s = Map.empty \<and> audit_log s = Map.empty"

text \<open>C32. The audit log only grows: after any history on a new contract, the query by company returns
  as many entries as the counter says, any further history leaves these entries in place and
  adds new ones behind them, and all entries are filed under the company \<open>default\<close>.\<close>

theorem audit_log_append_only:
  assumes "blank_audit s0" "s = run_calls au_invoke cs s0" "t = run_calls au_invoke cs' s"
  shows "length (query_by_company k s) = unat (get_audit_log_count k s) \<and>
    (\<exists>more. query_by_company k t = query_by_company k s @ more) \<and> (k \<noteq> ''default'' \<longrightarrow> query_by_company k s = [])"
proof -
  have b: "log_dense s0" "query_by_company k s0 = []"
    using assms(1) by (simp_all add: blank_audit_def log_dense_def get_audit_log_count_def query_by_company_def List.map_filter_def)
  have s: "log_dense s" using log_run [OF b(1)] assms(2) by simp
  have t: "log_prefix s t" using log_run [OF s] assms(3) by simp
  have "log_dense s \<and> (k \<noteq> ''default'' \<longrightarrow> query_by_company k s = [])" unfolding assms(2)
    by (rule run_calls_invariant [where I = "\<lambda>s. log_dense s \<and> (k \<noteq> ''default'' \<longrightarrow> query_by_company k s = [])"])
      (use log_step [where k = k] b in auto)
  then show ?thesis using t s by (simp add: log_prefix_def query_dense)
qed

section \<open>Export\<close>

lemma count_matches_ok:
  assumes "count_matches xs p f = Inr (p', f')"
  shows "unat p' = unat p + length (filter le_matched xs) \<and> unat f' = unat f + length (filter (\<lambda>x. \<not> le_matched x) xs)"
  using assms
proof (induction xs arbitrary: p f)
  case Nil
  then show ?case by simp
next
  case (Cons x xs)
  then show ?case by (cases "le_matched x") (fastforce simp: unat_word_ariths)+
qed

text \<open>An exported summary was requested by an auditor that signed and has access; its counts are
  those of the log entries of the period, and the passed and failed ones add up to the total.\<close>

lemma export_summary_exact:
  assumes "export_audit_summary e a co p q s = Inr (m, s')" "length (query_by_company co s) < 2 ^ 32"
  shows "auth e a \<and> verify_access e a s \<and>
    unat (ms_verification_pass_count m) = length (filter le_matched (query_by_period co p q s)) \<and>
    unat (ms_total_audit_entries m) = length (query_by_period co p q s) \<and>
    unat (ms_verification_pass_count m) + unat (ms_verification_fail_count m) = unat (ms_total_audit_entries m)"
proof -
  let ?xs = "query_by_period co p q s"
  from assms(1) obtain x y where c: "count_matches ?xs 0 0 = Inr (x, y)" "auth e a" "verify_access e a s"
    "ms_verification_pass_count m = x" "ms_verification_fail_count m = y" "ms_total_audit_entries m = of_nat (length ?xs)"
    by (auto simp: export_audit_summary_def Let_def authorized_iff)
  have "length ?xs \<le> length (query_by_company co s)" by (simp add: query_by_period_def)
  then have "unat (of_nat (length ?xs) :: u32) = length ?xs"
    using assms(2) by (simp add: unsigned_of_nat take_bit_nat_eq_self)
  with c count_matches_ok [OF c(1)] sum_length_filter_compl [of le_matched ?xs] show ?thesis by simp
qed

section \<open>Who grants a key\<close>

text \<open>Every key was granted by the contract itself, may not be delegated, and has no parent.\<close>

definition root_keys_only :: "address \<Rightarrow> audit \<Rightarrow> bool" where
  "root_keys_only C s \<longleftrightarrow> (\<forall>a r. auditor_keys s a = Some r \<longrightarrow>
     vk_granted_by r = C \<and> \<not> vk_allow_delegation r \<and> vk_parent_auditor r = None)"

lemma root_keys_refuse:
  assumes "root_keys_only C s" "\<not> auth e C"
  shows "revoke_view_key e g a s \<noteq> Some (Inr t)" "refresh_view_key e g a x s \<noteq> Inr kt"
    "set_delegation_policy e g a b m x s \<noteq> Inr t" "delegate_view_key e a d m x s \<noteq> Inr kt"
    "extend_delegated_access e a d x s \<noteq> Inr kt"
  using assms
  by (auto simp: root_keys_only_def refresh_view_key_def set_delegation_policy_def delegate_view_key_def
      extend_delegated_access_def authorized_iff Let_def elim!: revoke_view_key_okE)

lemma root_keys_step:
  assumes "au_invoke (e, c) s = Inr s'" "root_keys_only C s" "\<not> auth e C" "current_contract e = C"
  shows "root_keys_only C s' \<and> (\<forall>a. auditor_keys s a \<noteq> None \<longrightarrow> auditor_keys s' a \<noteq> None)"
proof (cases c)
  case (AuRevoke g a)
  then show ?thesis using assms(1) root_keys_refuse [OF assms(2,3)] by (auto simp: au_invoke_def Let_def split: option.splits)
qed (use assms root_keys_refuse [OF assms(2,3)] in \<open>auto simp: au_invoke_def Let_def root_keys_only_def au_set_pause_manager_def
    generate_view_key_def verify_commitment_with_key_def verify_commitment_with_view_key_def verify_commitment_inner_def
    record_audit_log_def generate_aggregate_report_def export_audit_summary_def verify_payroll_metadata_def emits publish_def
    split: if_splits\<close>)

text \<open>C38. A key names the audit contract itself as its granter, and a contract's own address signs no
  call that comes from outside. So as long as it does not sign, no key is ever revoked, refreshed,
  opened to delegation or delegated, after any history, by anybody; keys only accumulate.\<close>

theorem view_keys_never_revoked:
  assumes "blank_audit s0" "\<forall>(e, c) \<in> set cs. current_contract e = C \<and> \<not> auth e C"
    and "s = run_calls au_invoke cs s0" "\<not> auth (e :: penv) C"
  shows "revoke_view_key e g a s \<noteq> Some (Inr t) \<and> refresh_view_key e g a x s \<noteq> Inr kt \<and>
    set_delegation_policy e g a b m x s \<noteq> Inr t \<and> delegate_view_key e a d m x s \<noteq> Inr kt \<and>
    extend_delegated_access e a d x s \<noteq> Inr kt"
proof -
  have "root_keys_only C s" unfolding assms(3)
  proof (rule run_calls_invariant_on)
    show "root_keys_only C s0" using assms(1) by (simp add: root_keys_only_def blank_audit_def)
  next
    fix c s s'
    assume "c \<in> set cs" "root_keys_only C s" "au_invoke c s = Inr s'"
    then show "root_keys_only C s'" using assms(2) root_keys_step [of "fst c" "snd c" s s' C] by auto
  qed
  from root_keys_refuse [OF this assms(4)] show ?thesis by simp
qed

section \<open>Commitments under audit\<close>

lemma opening_preimage_inj:
  assumes "le_bytes 16 v @ b = le_bytes 16 w @ d" "in_i128 v" "in_i128 w"
  shows "v = w \<and> b = d"
proof -
  from assms(1) have "le_bytes 16 v = le_bytes 16 w" and b: "b = d" by simp_all
  from le_bytes_inj [OF this(1)] have "v mod 2 ^ 128 = w mod 2 ^ 128" by simp
  then have "(2 :: int) ^ 128 dvd v - w" by (simp add: mod_eq_dvd_iff)
  moreover have "\<bar>v - w\<bar> < 2 ^ 128" using assms(2,3) by (auto simp: in_i128_def)
  ultimately have "v - w = 0" using dvd_imp_le_int [of "v - w" "2 ^ 128"] by fastforce
  with b show ?thesis by simp
qed

text \<open>C33. For a commitment that hashes the sixteen bytes of an amount and a blinding factor, an auditor with
  access is answered, for every scope but \<open>AggregateOnly\<close> and while the log is not full: the right
  opening is accepted and the success is logged; any other amount or blinding factor is accepted only
  if it shows two different byte strings with one SHA-256 digest, the two openings or the two keyed
  strings.\<close>

theorem audit_accepts_opening:
  assumes "c = sha256 e (le_bytes 16 v @ b)" "in_i128 v"
    and "auth e a" "verify_access e a s" "m \<noteq> AggregateOnly" "unat (get_audit_log_count ''default'' s) < 2 ^ 32 - 1"
  shows "(\<exists>s'. verify_commitment_with_key e a c v b m s = Inr (True, s') \<and>
      get_audit_log_count ''default'' s' = get_audit_log_count ''default'' s + 1 \<and>
      audit_log s' = (audit_log s)((''default'', get_audit_log_count ''default'' s) \<mapsto>
        \<lparr>le_auditor = a, le_company_id = ''default'', le_scope = m, le_timestamp = timestamp e, le_matched = True\<rparr>)) \<and>
    (\<forall>v' b' r. in_i128 v' \<and> verify_commitment_with_key e a c v' b' m s = Inr r \<longrightarrow> v' = v \<and> b' = b \<or>
      le_bytes 16 v' @ b' \<noteq> le_bytes 16 v @ b \<and> sha256 e (le_bytes 16 v' @ b') = sha256 e (le_bytes 16 v @ b) \<or>
      (\<exists>k. auditor_keys s a = Some k \<and> sha256 e (le_bytes 16 v' @ b') \<noteq> c \<and>
        sha256 e (vk_key_bytes k @ sha256 e (le_bytes 16 v' @ b')) = sha256 e (vk_key_bytes k @ c)))"
proof -
  let ?n = "get_audit_log_count ''default'' s"
  obtain r where "authorize_auditor e a s = Inr r"
    using assms(3,4) by (auto simp: authorized_iff verify_access_def split: option.splits)
  moreover have "unat ?n + 1 < 2 ^ 32" using assms(6) by simp
  ultimately have "\<exists>s'. verify_commitment_with_key e a c v b m s = Inr (True, s') \<and>
      get_audit_log_count ''default'' s' = ?n + 1 \<and> audit_log s' = (audit_log s)((''default'', ?n) \<mapsto>
        \<lparr>le_auditor = a, le_company_id = ''default'', le_scope = m, le_timestamp = timestamp e, le_matched = True\<rparr>)"
    using assms(1,5)
    by (simp add: verify_commitment_with_key_def verify_scope_for_commitment_def verify_commitment_inner_def record_audit_log_def
        au_compute_commitment_def add_u_def emits publish_def Let_def get_audit_log_count_def)
  moreover have "v' = v \<and> b' = b \<or>
      le_bytes 16 v' @ b' \<noteq> le_bytes 16 v @ b \<and> sha256 e (le_bytes 16 v' @ b') = sha256 e (le_bytes 16 v @ b) \<or>
      (\<exists>k. auditor_keys s a = Some k \<and> sha256 e (le_bytes 16 v' @ b') \<noteq> c \<and>
        sha256 e (vk_key_bytes k @ sha256 e (le_bytes 16 v' @ b')) = sha256 e (vk_key_bytes k @ c))"
    if i: "in_i128 v'" and x: "verify_commitment_with_key e a c v' b' m s = Inr x" for v' b' x
  proof -
    from x obtain k where "auditor_keys s a = Some k"
      "sha256 e (vk_key_bytes k @ sha256 e (le_bytes 16 v' @ b')) = sha256 e (vk_key_bytes k @ c)"
      by (auto simp: verify_commitment_with_key_def verify_commitment_inner_def compute_keyed_commitment_def
          au_compute_commitment_def authorized_iff Let_def split: if_splits)
    then show ?thesis using opening_preimage_inj [of v' b' v b] i assms(1,2) by blast
  qed
  ultimately show ?thesis by blast
qed

text \<open>C39. The audit module hashes the amount in 16 bytes, the commitment contract in 8. An audit that
  accepts a commitment made by the commitment contract's own formula therefore exhibits two
  different byte strings with one SHA-256 digest: the two openings, or the two keyed strings.
  No genuine salary commitment passes an audit by its right opening.\<close>

theorem audit_acceptance_is_collision:
  assumes "verify_commitment_with_key e a (compute_commitment e w d) v b m s = Inr (ok, s')" "length d = 32" "length b = 32"
  shows "(\<exists>r. auditor_keys s a = Some r \<and>
      vk_key_bytes r @ au_compute_commitment e v b \<noteq> vk_key_bytes r @ compute_commitment e w d \<and>
      sha256 e (vk_key_bytes r @ au_compute_commitment e v b) = sha256 e (vk_key_bytes r @ compute_commitment e w d)) \<or>
    le_bytes 16 v @ b \<noteq> commitment_preimage w d \<and> sha256 e (le_bytes 16 v @ b) = sha256 e (commitment_preimage w d)"
proof -
  from assms(1) obtain r where r: "auditor_keys s a = Some r"
    "sha256 e (vk_key_bytes r @ au_compute_commitment e v b) = sha256 e (vk_key_bytes r @ compute_commitment e w d)"
    by (auto simp: verify_commitment_with_key_def verify_commitment_inner_def compute_keyed_commitment_def
        authorized_iff Let_def split: if_splits)
  have "length (le_bytes 16 v @ b) \<noteq> length (commitment_preimage w d)"
    using assms(2,3) by (simp add: commitment_preimage_def)
  then have "le_bytes 16 v @ b \<noteq> commitment_preimage w d" by (rule contrapos_nn) simp
  with r show ?thesis by (cases "au_compute_commitment e v b = compute_commitment e w d")
    (auto simp: au_compute_commitment_def compute_commitment_def)
qed

section \<open>A sample history\<close>

definition au_env :: "u32 \<Rightarrow> address list \<Rightarrow> penv" where
  "au_env n as = env.extend ((pm_env as)\<lparr>sequence := n, current_contract := Address ''AM''\<rparr>) \<lparr>pause_managers = Map.empty\<rparr>"

definition au_blank :: audit where
  "au_blank = \<lparr>events = [], auditor_keys = Map.empty, delegated_auditors = Map.empty, audit_log_counter = Map.empty,
     audit_log = Map.empty, au_pause_manager = None\<rparr>"

abbreviation "adr_M \<equiv> Address ''AM''"
abbreviation "adr_P \<equiv> Address ''P''"
abbreviation "adr_Q \<equiv> Address ''Q''"

definition au_setup :: "(penv \<times> au_call) list" where
  "au_setup = [(au_env 10 [], AuGenerate adr_P 500), (au_env 11 [adr_M], AuPolicy adr_M adr_P True TimeRange 400)]"

definition au_delegations :: "(penv \<times> au_call) list" where
  "au_delegations = [(au_env 12 [adr_P], AuDelegate adr_P adr_Q EmployeeList 300),
     (au_env 13 [adr_P], AuMetadata adr_P (replicate 32 1) (replicate 32 2) TimeRange)]"

lemmas au_demo_simps = au_setup_def au_delegations_def au_blank_def au_env_def pm_env_def env.defs transact_def au_invoke_def
  generate_view_key_def set_delegation_policy_def delegate_view_key_def authorize_auditor_def au_require_not_paused_def
  verify_payroll_metadata_def verify_scope_for_commitment_def record_audit_log_def require_auth_def add_u_def delegates_of_def
  less_eq_AuditScope_def scope_rank_def zero32_def emits publish_def Let_def

abbreviation "au_ready \<equiv> run_calls au_invoke au_setup au_blank"
abbreviation "au_two \<equiv> run_calls au_invoke au_delegations au_ready"

lemma au_blank_ok: "blank_audit au_blank"
  by (simp add: blank_audit_def au_blank_def)

lemma au_ready_facts:
  "map_option vk_granted_by (auditor_keys au_ready adr_P) = Some adr_M"
  "au_pause_manager au_ready = None" "delegated_auditors au_ready = Map.empty"
  by (simp_all add: au_demo_simps)

lemma au_two_facts:
  "map_option vk_granted_by (auditor_keys au_two adr_P) = Some adr_M" "auditor_keys au_two adr_Q \<noteq> None"
  "au_pause_manager au_two = None" "delegated_auditors au_two = [adr_P \<mapsto> [adr_Q]]"
  "audit_log_counter au_two = [''default'' \<mapsto> 1]" "authorize_auditor (au_env 14 [adr_P]) adr_P au_two \<noteq> Inl x"
  by (simp_all add: au_demo_simps)

lemma au_two_log: "length (query_by_company ''default'' au_two) = 1"
proof -
  have "log_dense au_blank" by (simp add: log_dense_def au_blank_def get_audit_log_count_def)
  then have "log_dense au_two" using log_run by blast
  then show ?thesis by (simp add: query_dense get_audit_log_count_def au_two_facts)
qed

theorem revocation_removes_descendants_witness:
  "\<exists>s'. revoke_view_key (au_env 20 [adr_M]) adr_M adr_P au_two = Some (Inr s') \<and>
     auditor_keys s' adr_P = None \<and> auditor_keys s' adr_Q = None"
proof -
  have r: "revoke_descendants adr_P au_two \<noteq> None"
    by (simp add: revoke_descendants_def revoke_each_Cons delegates_of_def au_two_facts remove_key_def)
  have "revoke_view_key (au_env 20 [adr_M]) adr_M adr_P au_two \<noteq> None \<and>
      (\<forall>x. revoke_view_key (au_env 20 [adr_M]) adr_M adr_P au_two \<noteq> Some (Inl x))"
    using r au_two_facts(1,3)
    by (auto simp: revoke_view_key_def au_require_not_paused_def require_auth_def au_env_def pm_env_def env.defs split: sum.splits)
  then obtain s' where s': "revoke_view_key (au_env 20 [adr_M]) adr_M adr_P au_two = Some (Inr s')"
    by (metis not_None_eq obj_sumE)
  have "(delegation au_two)\<^sup>*\<^sup>* adr_Q adr_P" by (rule r_into_rtranclp) (simp add: delegation_def delegates_of_def au_two_facts)
  with revocation_removes_descendants [OF s'] s' show ?thesis by auto
qed

lemma self_delegation_blocks_revocation_witness:
  "\<exists>k s1. delegate_view_key (au_env 12 [adr_P]) adr_P adr_P EmployeeList 300 au_ready = Inr (k, s1) \<and>
     revoke_view_key (au_env 20 [adr_M]) adr_M adr_P s1 = Some (Inl (Err NotKeyGranter)) \<and>
     (\<forall>s2. revoke_view_key (au_env 20 [adr_P]) adr_P adr_P s1 \<noteq> Some (Inr s2))"
proof -
  obtain k s1 where d: "delegate_view_key (au_env 12 [adr_P]) adr_P adr_P EmployeeList 300 au_ready = Inr (k, s1)"
    by (simp add: au_demo_simps)
  have "au_pause_manager s1 = None" using d au_ready_facts(2) by (auto simp: delegate_view_key_def Let_def)
  then have "au_require_not_paused (au_env 20 [adr_M]) s1 = (Inr () :: unit audit_result)" "auth (au_env 20 [adr_M]) adr_M"
    by (simp_all add: au_require_not_paused_def au_env_def pm_env_def env.defs)
  with self_delegation_blocks_revocation [OF d] d show ?thesis by blast
qed

theorem audit_log_append_only_witness:
  "length (query_by_company ''default'' au_two) = 1 \<and> (\<exists>more. query_by_company ''default'' au_two = query_by_company ''default'' au_ready @ more)"
  using audit_log_append_only [OF au_blank_ok refl refl, of "''default''" au_setup au_delegations] au_two_log by simp

lemma export_summary_exact_witness:
  "\<exists>m s'. export_audit_summary (au_env 14 [adr_P]) adr_P ''default'' 0 5000 au_two = Inr (m, s') \<and>
     unat (ms_verification_pass_count m) + unat (ms_verification_fail_count m) = unat (ms_total_audit_entries m)"
proof -
  obtain x where x: "query_by_company ''default'' au_two = [x]" using au_two_log by (cases "query_by_company ''default'' au_two") auto
  then have "\<exists>c. count_matches (query_by_period ''default'' 0 5000 au_two) 0 0 = Inr c" by (simp add: query_by_period_def add_u_def)
  moreover obtain r where "authorize_auditor (au_env 14 [adr_P]) adr_P au_two = Inr r"
    using au_two_facts(6) by (cases "authorize_auditor (au_env 14 [adr_P]) adr_P au_two") auto
  ultimately obtain m s' where m: "export_audit_summary (au_env 14 [adr_P]) adr_P ''default'' 0 5000 au_two = Inr (m, s')"
    by (auto simp: export_audit_summary_def Let_def)
  have "length (query_by_company ''default'' au_two) < 2 ^ 32" using au_two_log by simp
  from export_summary_exact [OF m this] m show ?thesis by blast
qed

theorem view_keys_never_revoked_witness:
  "auditor_keys (run_calls au_invoke [(au_env 10 [], AuGenerate adr_P 500)] au_blank) adr_P \<noteq> None \<and>
   (\<forall>t. revoke_view_key (au_env 20 [adr_P]) adr_P adr_P (run_calls au_invoke [(au_env 10 [], AuGenerate adr_P 500)] au_blank) \<noteq> Some (Inr t))"
proof -
  let ?cs = "[(au_env 10 [], AuGenerate adr_P 500)]"
  have "\<forall>(e, c) \<in> set ?cs. current_contract e = adr_M \<and> \<not> auth e adr_M" "\<not> auth (au_env 20 [adr_P]) adr_M"
    by (simp_all add: au_env_def pm_env_def env.defs)
  from view_keys_never_revoked [OF au_blank_ok this(1) refl this(2)] show ?thesis by (simp add: au_demo_simps)
qed

theorem audit_accepts_opening_witness:
  "\<exists>s'. verify_commitment_with_key (au_env 20 [adr_P]) adr_P (sha256 (au_env 20 [adr_P]) (le_bytes 16 700 @ zero32)) 700 zero32
     TimeRange au_ready = Inr (True, s')"
proof -
  let ?e = "au_env 20 [adr_P]"
  have "auth ?e adr_P" "verify_access ?e adr_P au_ready" "unat (get_audit_log_count ''default'' au_ready) < 2 ^ 32 - 1"
    by (simp_all add: au_demo_simps verify_access_def get_audit_log_count_def)
  moreover have "in_i128 700" by (simp add: in_i128_def)
  ultimately show ?thesis using audit_accepts_opening [OF refl, of 700 ?e adr_P au_ready TimeRange zero32] by auto
qed

theorem audit_acceptance_is_collision_witness:
  "\<exists>ok s'. verify_commitment_with_key ((au_env 20 [adr_P])\<lparr>sha256 := \<lambda>_. zero32\<rparr>) adr_P
     (compute_commitment ((au_env 20 [adr_P])\<lparr>sha256 := \<lambda>_. zero32\<rparr>) 700 zero32) 700 zero32 TimeRange au_ready = Inr (ok, s') \<and>
     le_bytes 16 700 @ zero32 \<noteq> commitment_preimage 700 zero32"
proof -
  let ?e = "(au_env 20 [adr_P])\<lparr>sha256 := \<lambda>_. zero32\<rparr>"
  obtain ok s' where v: "verify_commitment_with_key ?e adr_P (compute_commitment ?e 700 zero32) 700 zero32 TimeRange au_ready = Inr (ok, s')"
    by (simp add: au_demo_simps verify_commitment_with_key_def verify_commitment_inner_def compute_keyed_commitment_def)
  have "length zero32 = 32" by (simp add: zero32_def)
  from audit_acceptance_is_collision [OF v this this] v show ?thesis
    by (auto simp: compute_commitment_def au_compute_commitment_def)
qed

end
