(* ===== verification/Shared_Errors.thy ===== *)
theory Shared_Errors
  imports Prelude
begin

text \<open>
  \<open>contracts/shared_errors/src/lib.rs\<close>: the shared error enums with their numeric codes, and that
  the codes identify the error across all of them.
\<close>

section \<open>The enums\<close>

datatype shared_AuthError = UnauthorizedAdmin | UnauthorizedTreasuryOwner | UnauthorizedAuditor
     | UnauthorizedRotationTarget | UnauthorizedReviewer | AuthorizationFailed | UnauthorizedHandoverTarget

datatype shared_ProofError = InvalidProofFormat | ProofVerificationFailed | CommitmentMismatch | ProofExpired
     | InvalidPublicInputs | VerifyingKeyMismatch | InvalidNullifier

datatype shared_AuditError = ViewKeyNotFound | InvalidViewKey | ViewKeyExpired | InsufficientAuditScope
     | UnauthorizedChallengeParticipant | ChallengeNotFound | ChallengeExpired | ChallengeAlreadyResolved
     | InvalidChallenge | InvalidResponseTimestamp

datatype shared_PaymentError = PeriodNotFound | PeriodClosed | PeriodAlreadyExists | EmployeeAlreadyPaid
     | InvalidPaymentAmount | EmployeeNotFound | CompanyNotFound | CommitmentLocked | EmptyBatch
     | ArrayLengthMismatch

datatype shared_TreasuryError = InsufficientTreasuryBalance | AssetNotAllowed | WithdrawalRequestPending
     | WithdrawalRequestNotFound | TreasuryLocked | InsufficientUnreservedBalance | InvalidAssetConfiguration
     | ReservationNotFound | InvalidAssetSymbol | AssetSymbolMismatch

datatype shared_StateError = PayrollRunNotFound | PendingRunNotFound | DraftNotFound | InvalidPayrollState
     | DraftLocked | InvalidCompanyState | InvalidEmployeeStatus | EmployeeIneligible | ComplianceHoldActive

datatype shared_ReplayError = NonceAlreadyUsed | PayrollAlreadyExecuted | NullifierAlreadyUsed | ConflictingPayloadData
     | ExecutionIdentityMismatch | AuthorizationExpired | InvalidPayloadContext

datatype shared_StorageError = NotInitialized | AlreadyInitialized | StorageVersionMismatch | StorageCorruption
     | MigrationFailed

definition shared_AuthError_code :: "shared_AuthError \<Rightarrow> u32" where
  "shared_AuthError_code x = (case x of UnauthorizedAdmin \<Rightarrow> 1 | UnauthorizedTreasuryOwner \<Rightarrow> 2
     | UnauthorizedAuditor \<Rightarrow> 3 | UnauthorizedRotationTarget \<Rightarrow> 4
     | UnauthorizedReviewer \<Rightarrow> 5 | AuthorizationFailed \<Rightarrow> 6
     | UnauthorizedHandoverTarget \<Rightarrow> 7)"

definition shared_ProofError_code :: "shared_ProofError \<Rightarrow> u32" where
  "shared_ProofError_code x = (case x of InvalidProofFormat \<Rightarrow> 100
     | ProofVerificationFailed \<Rightarrow> 101 | CommitmentMismatch \<Rightarrow> 102
     | ProofExpired \<Rightarrow> 103 | InvalidPublicInputs \<Rightarrow> 104
     | VerifyingKeyMismatch \<Rightarrow> 105 | InvalidNullifier \<Rightarrow> 106)"

definition shared_AuditError_code :: "shared_AuditError \<Rightarrow> u32" where
  "shared_AuditError_code x = (case x of ViewKeyNotFound \<Rightarrow> 200 | InvalidViewKey \<Rightarrow> 201
     | ViewKeyExpired \<Rightarrow> 202 | InsufficientAuditScope \<Rightarrow> 203
     | UnauthorizedChallengeParticipant \<Rightarrow> 204 | ChallengeNotFound \<Rightarrow> 205
     | ChallengeExpired \<Rightarrow> 206 | ChallengeAlreadyResolved \<Rightarrow> 207
     | InvalidChallenge \<Rightarrow> 208 | InvalidResponseTimestamp \<Rightarrow> 209)"

definition shared_PaymentError_code :: "shared_PaymentError \<Rightarrow> u32" where
  "shared_PaymentError_code x = (case x of PeriodNotFound \<Rightarrow> 300 | PeriodClosed \<Rightarrow> 301
     | PeriodAlreadyExists \<Rightarrow> 302 | EmployeeAlreadyPaid \<Rightarrow> 303
     | InvalidPaymentAmount \<Rightarrow> 304 | EmployeeNotFound \<Rightarrow> 305
     | CompanyNotFound \<Rightarrow> 306 | CommitmentLocked \<Rightarrow> 307 | EmptyBatch \<Rightarrow> 308
     | ArrayLengthMismatch \<Rightarrow> 309)"

definition shared_TreasuryError_code :: "shared_TreasuryError \<Rightarrow> u32" where
  "shared_TreasuryError_code x = (case x of InsufficientTreasuryBalance \<Rightarrow> 400
     | AssetNotAllowed \<Rightarrow> 401 | WithdrawalRequestPending \<Rightarrow> 402
     | WithdrawalRequestNotFound \<Rightarrow> 403 | TreasuryLocked \<Rightarrow> 404
     | InsufficientUnreservedBalance \<Rightarrow> 405 | InvalidAssetConfiguration \<Rightarrow> 406
     | ReservationNotFound \<Rightarrow> 407 | InvalidAssetSymbol \<Rightarrow> 408
     | AssetSymbolMismatch \<Rightarrow> 409)"

definition shared_StateError_code :: "shared_StateError \<Rightarrow> u32" where
  "shared_StateError_code x = (case x of PayrollRunNotFound \<Rightarrow> 500 | PendingRunNotFound \<Rightarrow> 501
     | DraftNotFound \<Rightarrow> 502 | InvalidPayrollState \<Rightarrow> 503 | DraftLocked \<Rightarrow> 504
     | InvalidCompanyState \<Rightarrow> 505 | InvalidEmployeeStatus \<Rightarrow> 506
     | EmployeeIneligible \<Rightarrow> 507 | ComplianceHoldActive \<Rightarrow> 508)"

definition shared_ReplayError_code :: "shared_ReplayError \<Rightarrow> u32" where
  "shared_ReplayError_code x = (case x of NonceAlreadyUsed \<Rightarrow> 600 | PayrollAlreadyExecuted \<Rightarrow> 601
     | NullifierAlreadyUsed \<Rightarrow> 602 | ConflictingPayloadData \<Rightarrow> 603
     | ExecutionIdentityMismatch \<Rightarrow> 604 | AuthorizationExpired \<Rightarrow> 605
     | InvalidPayloadContext \<Rightarrow> 606)"

definition shared_StorageError_code :: "shared_StorageError \<Rightarrow> u32" where
  "shared_StorageError_code x = (case x of NotInitialized \<Rightarrow> 700 | AlreadyInitialized \<Rightarrow> 701
     | StorageVersionMismatch \<Rightarrow> 702 | StorageCorruption \<Rightarrow> 703
     | MigrationFailed \<Rightarrow> 704)"

section \<open>One number per error\<close>

datatype shared_error = InAuth shared_AuthError | InProof shared_ProofError | InAudit shared_AuditError | InPayment shared_PaymentError
  | InTreasury shared_TreasuryError | InState shared_StateError | InReplay shared_ReplayError | InStorage shared_StorageError

definition error_code :: "shared_error \<Rightarrow> u32" where
  "error_code x = (case x of InAuth a \<Rightarrow> shared_AuthError_code a | InProof a \<Rightarrow> shared_ProofError_code a | InAudit a \<Rightarrow> shared_AuditError_code a
     | InPayment a \<Rightarrow> shared_PaymentError_code a | InTreasury a \<Rightarrow> shared_TreasuryError_code a | InState a \<Rightarrow> shared_StateError_code a
     | InReplay a \<Rightarrow> shared_ReplayError_code a | InStorage a \<Rightarrow> shared_StorageError_code a)"

text \<open>The block of a hundred numbers that is reserved for each enum.\<close>

definition category :: "shared_error \<Rightarrow> nat" where
  "category x = (case x of InAuth _ \<Rightarrow> 0 | InProof _ \<Rightarrow> 1 | InAudit _ \<Rightarrow> 2 | InPayment _ \<Rightarrow> 3
     | InTreasury _ \<Rightarrow> 4 | InState _ \<Rightarrow> 5 | InReplay _ \<Rightarrow> 6 | InStorage _ \<Rightarrow> 7)"

lemma code_category: "unat (error_code x) div 100 = category x"
proof (cases x)
  case (InAuth a)
  then show ?thesis by (cases a) (simp_all add: error_code_def category_def shared_AuthError_code_def)
next
  case (InProof a)
  then show ?thesis by (cases a) (simp_all add: error_code_def category_def shared_ProofError_code_def)
next
  case (InAudit a)
  then show ?thesis by (cases a) (simp_all add: error_code_def category_def shared_AuditError_code_def)
next
  case (InPayment a)
  then show ?thesis by (cases a) (simp_all add: error_code_def category_def shared_PaymentError_code_def)
next
  case (InTreasury a)
  then show ?thesis by (cases a) (simp_all add: error_code_def category_def shared_TreasuryError_code_def)
next
  case (InState a)
  then show ?thesis by (cases a) (simp_all add: error_code_def category_def shared_StateError_code_def)
next
  case (InReplay a)
  then show ?thesis by (cases a) (simp_all add: error_code_def category_def shared_ReplayError_code_def)
next
  case (InStorage a)
  then show ?thesis by (cases a) (simp_all add: error_code_def category_def shared_StorageError_code_def)
qed

lemma code_inj_each:
  "shared_AuthError_code a1 = shared_AuthError_code a2 \<Longrightarrow> a1 = a2"
  "shared_ProofError_code b1 = shared_ProofError_code b2 \<Longrightarrow> b1 = b2"
  "shared_AuditError_code c1 = shared_AuditError_code c2 \<Longrightarrow> c1 = c2"
  "shared_PaymentError_code d1 = shared_PaymentError_code d2 \<Longrightarrow> d1 = d2"
  "shared_TreasuryError_code e1 = shared_TreasuryError_code e2 \<Longrightarrow> e1 = e2"
  "shared_StateError_code f1 = shared_StateError_code f2 \<Longrightarrow> f1 = f2"
  "shared_ReplayError_code g1 = shared_ReplayError_code g2 \<Longrightarrow> g1 = g2"
  "shared_StorageError_code h1 = shared_StorageError_code h2 \<Longrightarrow> h1 = h2"
  subgoal by (cases a1; cases a2; simp add: shared_AuthError_code_def)
  subgoal by (cases b1; cases b2; simp add: shared_ProofError_code_def)
  subgoal by (cases c1; cases c2; simp add: shared_AuditError_code_def)
  subgoal by (cases d1; cases d2; simp add: shared_PaymentError_code_def)
  subgoal by (cases e1; cases e2; simp add: shared_TreasuryError_code_def)
  subgoal by (cases f1; cases f2; simp add: shared_StateError_code_def)
  subgoal by (cases g1; cases g2; simp add: shared_ReplayError_code_def)
  subgoal by (cases h1; cases h2; simp add: shared_StorageError_code_def)
  done

text \<open>The number of a shared error determines the error: each enum stays within its own block of a
  hundred numbers, and no two errors, of the same or of different enums, have the same number.\<close>

lemma shared_error_codes_unique: "(error_code x = error_code y \<longleftrightarrow> x = y) \<and> unat (error_code x) div 100 = category x"
proof -
  have "x = y" if e: "error_code x = error_code y"
  proof -
    have "category x = category y" using code_category [of x] code_category [of y] e by simp
    then show ?thesis using e code_inj_each by (cases x; cases y) (auto simp: category_def error_code_def)
  qed
  then show ?thesis by (auto simp: code_category)
qed

end
