(* ===== verification/Audit_Challenge.thy ===== *)
theory Audit_Challenge
  imports Shared_Errors Interfaces
begin

text \<open>
  \<open>contracts/audit_module/src/challenge.rs\<close>: challenges of auditors against payroll periods and the
  responses of employers.
\<close>

section \<open>Data and operations\<close>

datatype ChallengeStatus = ChOpen | ChResponded | ChRejected | ChExpired

datatype ChallengeReasonCode = Reconciliation | Compliance | Verification | Documentation | Other

record AuditChallenge =
  cl_challenge_id :: u64
  cl_company_id :: symbol
  cl_auditor :: address
  cl_payroll_period :: symbol
  cl_batch_commitment_hash :: bytes
  cl_reason_code :: ChallengeReasonCode
  cl_description :: string
  cl_created_at :: u64
  cl_deadline_ledger :: u32
  cl_status :: ChallengeStatus

record ChallengeResponse =
  rp_challenge_id :: u64
  rp_company_id :: symbol
  rp_responded_by :: address
  rp_proof_reference_hash :: bytes
  rp_rejection_reason :: "string option"
  rp_responded_at :: u64

record challenge_store = host +
  challenge_counter :: "symbol \<rightharpoonup> u64"
  challenges :: "symbol \<times> u64 \<rightharpoonup> AuditChallenge"
  challenge_responses :: "symbol \<times> u64 \<rightharpoonup> ChallengeResponse"

type_synonym 'a challenge_result = "(shared_AuditError, 'a) result"

definition create_challenge ::
  "'x env_scheme \<Rightarrow> symbol \<Rightarrow> address \<Rightarrow> symbol \<Rightarrow> bytes \<Rightarrow> ChallengeReasonCode \<Rightarrow> string \<Rightarrow> u32 \<Rightarrow> challenge_store \<Rightarrow>
   (u64 \<times> challenge_store) challenge_result" where
  "create_challenge e company_id auditor payroll_period batch_commitment_hash reason_code description deadline_ledger s =
     and_then (fail_if (deadline_ledger \<le> sequence e) (Err InvalidChallenge)) (\<lambda>_.
     and_then (add_u (unwrap_or 0 (challenge_counter s company_id)) 1) (\<lambda>new_challenge_id.
     let challenge = \<lparr>cl_challenge_id = new_challenge_id, cl_company_id = company_id, cl_auditor = auditor,
           cl_payroll_period = payroll_period, cl_batch_commitment_hash = batch_commitment_hash,
           cl_reason_code = reason_code, cl_description = description, cl_created_at = timestamp e,
           cl_deadline_ledger = deadline_ledger, cl_status = ChOpen\<rparr> in
     Inr (new_challenge_id, publish [VSym ''challenge_created'', VSym company_id]
       (VVec [VU64 new_challenge_id, VAddr auditor, VU32 deadline_ledger])
       (s\<lparr>challenges := (challenges s)((company_id, new_challenge_id) \<mapsto> challenge),
          challenge_counter := (challenge_counter s)(company_id \<mapsto> new_challenge_id)\<rparr>))))"

text \<open>An expired challenge is marked so before the error is returned, which discards the mark.\<close>

definition respond_to_challenge ::
  "'x env_scheme \<Rightarrow> symbol \<Rightarrow> u64 \<Rightarrow> address \<Rightarrow> bytes \<Rightarrow> string option \<Rightarrow> challenge_store \<Rightarrow>
   challenge_store challenge_result" where
  "respond_to_challenge e company_id challenge_id responder proof_reference_hash rejection_reason s =
     and_then (ok_or (Err ChallengeNotFound) (challenges s (company_id, challenge_id))) (\<lambda>challenge.
     and_then (fail_if (sequence e > cl_deadline_ledger challenge) (Err ChallengeExpired)) (\<lambda>_.
     and_then (fail_if (challenge_responses s (company_id, challenge_id) \<noteq> None) (Err ChallengeAlreadyResolved)) (\<lambda>_.
     let challenge = challenge\<lparr>cl_status := (if rejection_reason \<noteq> None then ChRejected else ChResponded)\<rparr>;
         response = \<lparr>rp_challenge_id = challenge_id, rp_company_id = company_id, rp_responded_by = responder,
           rp_proof_reference_hash = proof_reference_hash, rp_rejection_reason = rejection_reason,
           rp_responded_at = timestamp e\<rparr> in
     Inr (publish [VSym ''challenge_responded'', VSym company_id]
       (VVec [VU64 challenge_id, VAddr responder, VBool (rejection_reason \<noteq> None)])
       (s\<lparr>challenge_responses := (challenge_responses s)((company_id, challenge_id) \<mapsto> response),
          challenges := (challenges s)((company_id, challenge_id) \<mapsto> challenge)\<rparr>)))))"

definition get_challenge :: "symbol \<Rightarrow> u64 \<Rightarrow> challenge_store \<Rightarrow> AuditChallenge challenge_result" where
  "get_challenge company_id challenge_id s = ok_or (Err ChallengeNotFound) (challenges s (company_id, challenge_id))"

definition get_challenge_response :: "symbol \<Rightarrow> u64 \<Rightarrow> challenge_store \<Rightarrow> ChallengeResponse option" where
  "get_challenge_response company_id challenge_id s = challenge_responses s (company_id, challenge_id)"

section \<open>Histories\<close>

datatype ch_call =
    ChCreate symbol address symbol bytes ChallengeReasonCode string u32
  | ChRespond symbol u64 address bytes "string option"

definition ch_invoke :: "env \<times> ch_call \<Rightarrow> challenge_store \<Rightarrow> challenge_store challenge_result" where
  "ch_invoke c s = (case snd c of
     ChCreate co a p h rc d l \<Rightarrow> and_then (create_challenge (fst c) co a p h rc d l s) (\<lambda>r. Inr (snd r))
   | ChRespond co i a h r \<Rightarrow> respond_to_challenge (fst c) co i a h r s)"

text \<open>Ids are issued in order, and the status of a challenge tells whether it has a response.\<close>

definition challenges_ok :: "challenge_store \<Rightarrow> bool" where
  "challenges_ok s \<longleftrightarrow> (\<forall>co i. challenges s (co, i) \<noteq> None \<longrightarrow> i \<le> unwrap_or 0 (challenge_counter s co)) \<and>
     (\<forall>k c. challenges s k = Some c \<longrightarrow> (cl_status c = ChOpen \<longleftrightarrow> challenge_responses s k = None) \<and> cl_status c \<noteq> ChExpired) \<and>
     (\<forall>k. challenge_responses s k \<noteq> None \<longrightarrow> challenges s k \<noteq> None)"

lemma no_response: "challenges_ok s \<Longrightarrow> challenges s k = None \<Longrightarrow> challenge_responses s k = None"
  unfolding challenges_ok_def by metis

lemma status_tells:
  assumes "challenges_ok s" "challenges s k = Some y"
  shows "(cl_status y = ChOpen \<longleftrightarrow> challenge_responses s k = None) \<and> cl_status y \<noteq> ChExpired"
  using assms unfolding challenges_ok_def by blast

lemma next_challenge_id: "unat (x :: u64) < 18446744073709551615 \<Longrightarrow> x < x + 1"
  using add_u_less [of x 1 "x + 1"] by simp

lemma created_challenge:
  assumes "challenges_ok s" "create_challenge e co a p h rc d l s = Inr (i, s')"
  shows "challenges s (co, i) = None" "challenge_responses s' = challenge_responses s"
    "\<exists>c. challenges s' = (challenges s)((co, i) \<mapsto> c) \<and> cl_status c = ChOpen"
    "challenge_counter s' = (challenge_counter s)(co \<mapsto> i)" "unwrap_or 0 (challenge_counter s co) < i"
proof -
  from assms(2) have i: "i = unwrap_or 0 (challenge_counter s co) + 1" "unwrap_or 0 (challenge_counter s co) < i"
    by (auto simp: create_challenge_def Let_def intro: next_challenge_id)
  then show "challenges s (co, i) = None" "unwrap_or 0 (challenge_counter s co) < i"
    using assms(1) by (force simp: challenges_ok_def)+
  show "challenge_responses s' = challenge_responses s" "challenge_counter s' = (challenge_counter s)(co \<mapsto> i)"
    "\<exists>c. challenges s' = (challenges s)((co, i) \<mapsto> c) \<and> cl_status c = ChOpen"
    using assms(2) by (auto simp: create_challenge_def Let_def publish_def)
qed

lemma responded_challenge:
  assumes "respond_to_challenge e co i a h r s = Inr s'"
  obtains c x where "challenges s (co, i) = Some c" "sequence e \<le> cl_deadline_ledger c" "challenge_responses s (co, i) = None"
    "challenges s' = (challenges s)((co, i) \<mapsto> c\<lparr>cl_status := if r \<noteq> None then ChRejected else ChResponded\<rparr>)"
    "challenge_responses s' = (challenge_responses s)((co, i) \<mapsto> x)" "rp_responded_by x = a"
    "challenge_counter s' = challenge_counter s"
  using assms by (auto simp: respond_to_challenge_def Let_def publish_def not_less)

lemma challenges_ok_step:
  assumes "ch_invoke c s = Inr s'" "challenges_ok s"
  shows "challenges_ok s'"
proof (cases "snd c")
  case (ChCreate co a p h rc d l)
  then obtain i where i: "create_challenge (fst c) co a p h rc d l s = Inr (i, s')"
    using assms(1) by (auto simp: ch_invoke_def)
  note new = created_challenge [OF assms(2) i]
  obtain x where x: "challenges s' = (challenges s)((co, i) \<mapsto> x)" "cl_status x = ChOpen" using new(3) by blast
  have nr: "challenge_responses s (co, i) = None" by (rule no_response [OF assms(2) new(1)])
  have "j \<le> unwrap_or 0 (challenge_counter s' k)" if "challenges s' (k, j) \<noteq> None" for k j
  proof (cases "(k, j) = (co, i)")
    case True
    then show ?thesis using new(4) by simp
  next
    case False
    then have "challenges s (k, j) \<noteq> None" using that x(1) by auto
    then have "j \<le> unwrap_or 0 (challenge_counter s k)" using assms(2) unfolding challenges_ok_def by blast
    then show ?thesis using new(4,5) by (cases "k = co") auto
  qed
  moreover have "(cl_status y = ChOpen \<longleftrightarrow> challenge_responses s' k = None) \<and> cl_status y \<noteq> ChExpired"
    if "challenges s' k = Some y" for k y
  proof (cases "k = (co, i)")
    case True
    then show ?thesis using that x nr new(2) by simp
  next
    case False
    then have "challenges s k = Some y" using that x(1) by simp
    then show ?thesis using status_tells [OF assms(2)] new(2) by simp
  qed
  moreover have "challenges s' k \<noteq> None" if "challenge_responses s' k \<noteq> None" for k
    using that x(1) new(2) assms(2) by (cases k; cases "k = (co, i)") (simp_all add: challenges_ok_def)
  ultimately show ?thesis unfolding challenges_ok_def by blast
next
  case (ChRespond co i a h r)
  then have "respond_to_challenge (fst c) co i a h r s = Inr s'" using assms(1) by (simp add: ch_invoke_def)
  then show ?thesis by (rule responded_challenge) (use assms(2) in \<open>auto simp: challenges_ok_def split: if_splits\<close>)
qed

lemma response_kept:
  assumes "ch_invoke c s = Inr s'" "challenges_ok s" "challenge_responses s k = Some x"
  shows "challenge_responses s' k = Some x \<and> challenges s' k = challenges s k"
proof (cases "snd c")
  case (ChCreate co a p h rc d l)
  then obtain i where i: "create_challenge (fst c) co a p h rc d l s = Inr (i, s')"
    using assms(1) by (auto simp: ch_invoke_def)
  note new = created_challenge [OF assms(2) i]
  have "k \<noteq> (co, i)" using no_response [OF assms(2) new(1)] assms(3) by auto
  then show ?thesis using new assms(3) by auto
next
  case (ChRespond co i a h r)
  then have "respond_to_challenge (fst c) co i a h r s = Inr s'" using assms(1) by (simp add: ch_invoke_def)
  then show ?thesis by (rule responded_challenge) (use assms(3) in auto)
qed

text \<open>From a new store, through any history of calls: a challenge that has a response keeps that
  response and its own record for ever, a second response is refused, and no challenge is ever
  stored as expired, because the call that notices the expiry fails.\<close>

lemma challenge_response_final:
  assumes "challenges s0 = Map.empty" "challenge_responses s0 = Map.empty" "s = run_calls ch_invoke cs s0"
    and "get_challenge_response co i s = Some x" "t = run_calls ch_invoke cs' s"
  shows "get_challenge_response co i t = Some x \<and> get_challenge co i t = get_challenge co i s \<and>
    respond_to_challenge e co i a h r t \<noteq> Inr u \<and> (\<forall>k c. challenges t k = Some c \<longrightarrow> cl_status c \<noteq> ChExpired)"
proof -
  have ok: "challenges_ok s" unfolding assms(3)
    by (rule run_calls_invariant, rule challenges_ok_step) (use assms(1,2) in \<open>simp_all add: challenges_ok_def\<close>)
  let ?I = "\<lambda>t. challenges_ok t \<and> challenge_responses t (co, i) = Some x \<and> challenges t (co, i) = challenges s (co, i)"
  have "?I t" unfolding assms(5)
    by (rule run_calls_invariant [where I = ?I])
      (use ok assms(4) challenges_ok_step response_kept in \<open>auto simp: get_challenge_response_def\<close>)
  then show ?thesis
    by (auto simp: get_challenge_response_def get_challenge_def challenges_ok_def elim!: responded_challenge)
qed

text \<open>No authorization is asked: whoever makes the call, any address is recorded as the auditor of
  a new challenge against any company and as the one who answers it.\<close>

lemma anyone_challenges_and_responds:
  assumes "sequence e < l" "unat (unwrap_or 0 (challenge_counter s co)) + 1 < 2 ^ 64" "challenges_ok s"
  shows "\<exists>i s1 s2 x. create_challenge e co a p h rc d l s = Inr (i, s1) \<and>
    respond_to_challenge e co i b h' r s1 = Inr s2 \<and> get_challenge_response co i s2 = Some x \<and> rp_responded_by x = b"
proof -
  obtain i s1 where c: "create_challenge e co a p h rc d l s = Inr (i, s1)"
    using assms(1,2) by (auto simp: create_challenge_def add_u_def Let_def not_le)
  note new = created_challenge [OF assms(3) c]
  have "challenge_responses s (co, i) = None" by (rule no_response [OF assms(3) new(1)])
  moreover have "map_option cl_deadline_ledger (challenges s1 (co, i)) = Some l"
    using c by (auto simp: create_challenge_def Let_def publish_def)
  ultimately obtain s2 where r: "respond_to_challenge e co i b h' r s1 = Inr s2"
    using new(2) assms(1) by (auto simp: respond_to_challenge_def Let_def)
  then obtain x where "get_challenge_response co i s2 = Some x" "rp_responded_by x = b"
    by (rule responded_challenge) (auto simp: get_challenge_response_def)
  with c r show ?thesis by blast
qed

definition ch_env :: "u32 \<Rightarrow> env" where
  "ch_env n = \<lparr>timestamp = 1000, sequence = n, auth = (\<lambda>a. False), current_contract = Address ''AM'',
     sha256 = (\<lambda>b. take 32 (b @ zero32)), address_xdr = (\<lambda>_. []), symbol_xdr = (\<lambda>_. []), bytes_xdr = id\<rparr>"

definition ch_blank :: challenge_store where
  "ch_blank = \<lparr>events = [], challenge_counter = Map.empty, challenges = Map.empty, challenge_responses = Map.empty\<rparr>"

definition ch_demo :: "(env \<times> ch_call) list" where
  "ch_demo = [(ch_env 5, ChCreate ''ACME'' (Address ''X'') ''Jan'' zero32 Compliance ''missing'' 50),
     (ch_env 6, ChRespond ''ACME'' 1 (Address ''Y'') zero32 None)]"

lemma challenge_response_final_witness:
  "\<exists>x. get_challenge_response ''ACME'' 1 (run_calls ch_invoke ch_demo ch_blank) = Some x \<and>
     get_challenge_response ''ACME'' 1 (run_calls ch_invoke ch_demo (run_calls ch_invoke ch_demo ch_blank)) = Some x"
proof -
  have b: "challenges ch_blank = Map.empty" "challenge_responses ch_blank = Map.empty" by (simp_all add: ch_blank_def)
  obtain x where x: "get_challenge_response ''ACME'' 1 (run_calls ch_invoke ch_demo ch_blank) = Some x"
    by (simp add: ch_demo_def ch_blank_def ch_env_def ch_invoke_def create_challenge_def respond_to_challenge_def
        get_challenge_response_def transact_def add_u_def Let_def publish_def)
  from challenge_response_final [OF b refl x refl] x show ?thesis by blast
qed

lemma anyone_challenges_and_responds_witness:
  "\<exists>i s1 s2. create_challenge (ch_env 5) ''ACME'' (Address ''X'') ''Jan'' zero32 Other [] 50 ch_blank = Inr (i, s1) \<and>
     respond_to_challenge (ch_env 5) ''ACME'' i (Address ''Y'') zero32 (Some ''no'') s1 = Inr s2"
proof -
  have "sequence (ch_env 5) < 50" "unat (unwrap_or 0 (challenge_counter ch_blank ''ACME'')) + 1 < 2 ^ 64" "challenges_ok ch_blank"
    by (simp_all add: ch_env_def ch_blank_def challenges_ok_def)
  from anyone_challenges_and_responds [OF this] show ?thesis by blast
qed

end
