(* ===== verification/Idempotency.thy ===== *)
theory Idempotency
  imports Shared_Errors
begin

text \<open>
  \<open>contracts/payroll/src/idempotency.rs\<close>: registration of payroll executions under an identity
  hash, with a retry returning the stored record.
\<close>

section \<open>Data and operations\<close>

record PayrollExecutionIdentity =
  xi_company_id :: u64
  xi_payroll_period :: symbol
  xi_batch_commitment_hash :: bytes
  xi_asset :: address
  xi_treasury_account :: address
  xi_nonce :: bytes

record ExecutionRecord =
  xr_identity :: PayrollExecutionIdentity
  xr_payload_hash :: bytes
  xr_executed_at :: u64
  xr_total_amount :: i128
  xr_employee_count :: u32
  xr_executed_ledger :: u32

record idempotency = host +
  execution_records :: "bytes \<rightharpoonup> ExecutionRecord"
  nonce_index :: "bytes \<rightharpoonup> bytes"

type_synonym 'a replay_result = "(shared_ReplayError, 'a) result"

definition compute_execution_identity_hash :: "'x env_scheme \<Rightarrow> PayrollExecutionIdentity \<Rightarrow> bytes" where
  "compute_execution_identity_hash e identity = sha256 e (be_bytes 8 (uint (xi_company_id identity)))"

definition register_execution ::
  "'x env_scheme \<Rightarrow> PayrollExecutionIdentity \<Rightarrow> bytes \<Rightarrow> i128 \<Rightarrow> u32 \<Rightarrow> idempotency \<Rightarrow>
   (ExecutionRecord \<times> idempotency) replay_result" where
  "register_execution e identity payload_hash total_amount employee_count s =
     (let identity_hash = compute_execution_identity_hash e identity in
     case execution_records s identity_hash of
       Some stored_record \<Rightarrow>
         and_then (fail_if (xr_payload_hash stored_record \<noteq> payload_hash) (Err ConflictingPayloadData)) (\<lambda>_.
         Inr (stored_record, s))
     | None \<Rightarrow>
         and_then (fail_if (nonce_index s (xi_nonce identity) \<noteq> None) (Err NonceAlreadyUsed)) (\<lambda>_.
         let record = \<lparr>xr_identity = identity, xr_payload_hash = payload_hash, xr_executed_at = timestamp e,
               xr_total_amount = total_amount, xr_employee_count = employee_count, xr_executed_ledger = sequence e\<rparr> in
         Inr (record, publish [VSym ''execution_registered''] (VVec [VU64 (xi_company_id identity), VU32 employee_count])
           (s\<lparr>execution_records := (execution_records s)(identity_hash \<mapsto> record),
              nonce_index := (nonce_index s)(xi_nonce identity \<mapsto> identity_hash)\<rparr>))))"

definition verify_execution_safety ::
  "'x env_scheme \<Rightarrow> PayrollExecutionIdentity \<Rightarrow> bytes \<Rightarrow> idempotency \<Rightarrow> ExecutionRecord option replay_result" where
  "verify_execution_safety e identity payload_hash s =
     (case execution_records s (compute_execution_identity_hash e identity) of
       Some record \<Rightarrow>
         and_then (fail_if (xr_payload_hash record \<noteq> payload_hash) (Err ConflictingPayloadData)) (\<lambda>_. Inr (Some record))
     | None \<Rightarrow> Inr None)"

section \<open>Retries\<close>

text \<open>Once an execution is registered, a retry with the same payload returns the stored record and
  changes nothing, and the query \<open>verify_execution_safety\<close> announces that record; both answer any
  other payload with the conflict error.\<close>

lemma retry_returns_stored_record:
  assumes "register_execution e x h a n s = Inr (r, s1)" "sha256 e' = sha256 e"
  shows "register_execution e' x h a' n' s1 = Inr (r, s1) \<and> verify_execution_safety e' x h s1 = Inr (Some r) \<and>
    (h' \<noteq> h \<longrightarrow> register_execution e' x h' a' n' s1 = Inl (Err ConflictingPayloadData) \<and>
      verify_execution_safety e' x h' s1 = Inl (Err ConflictingPayloadData))"
proof -
  have "compute_execution_identity_hash e' x = compute_execution_identity_hash e x"
    using assms(2) by (simp add: compute_execution_identity_hash_def)
  moreover have "execution_records s1 (compute_execution_identity_hash e x) = Some r \<and> xr_payload_hash r = h"
    using assms(1) by (auto simp: register_execution_def Let_def publish_def split: option.splits)
  ultimately show ?thesis by (auto simp: register_execution_def verify_execution_safety_def Let_def)
qed

text \<open>The identity hash covers the company alone. After one execution of a company, another run of
  the same company, in another period, with another nonce, asset and treasury, is rejected as a
  conflicting replay, or, when its payload hash is the same, answered with the record of the first
  run as if it had been executed.\<close>

lemma second_run_of_company_refused:
  assumes "register_execution e x h a n s = Inr (r, s1)" "xi_company_id y = xi_company_id x" "sha256 e' = sha256 e"
  shows "register_execution e' y h' a' n' s1 = (if h' = h then Inr (r, s1) else Inl (Err ConflictingPayloadData))"
proof -
  have "compute_execution_identity_hash e' y = compute_execution_identity_hash e x"
    using assms(2,3) by (simp add: compute_execution_identity_hash_def)
  moreover have "execution_records s1 (compute_execution_identity_hash e x) = Some r \<and> xr_payload_hash r = h"
    using assms(1) by (auto simp: register_execution_def Let_def publish_def split: option.splits)
  ultimately show ?thesis by (auto simp: register_execution_def Let_def)
qed

definition idem_env :: env where
  "idem_env = \<lparr>timestamp = 1000, sequence = 10, auth = (\<lambda>a. False), current_contract = Address ''PAY'',
     sha256 = (\<lambda>b. take 32 (b @ zero32)), address_xdr = (\<lambda>_. []), symbol_xdr = (\<lambda>_. []), bytes_xdr = id\<rparr>"

definition identity_demo :: PayrollExecutionIdentity where
  "identity_demo = \<lparr>xi_company_id = 1, xi_payroll_period = ''Jan'', xi_batch_commitment_hash = zero32,
     xi_asset = Address ''T'', xi_treasury_account = Address ''TR'', xi_nonce = zero32\<rparr>"

definition idem_blank :: idempotency where
  "idem_blank = \<lparr>events = [], execution_records = Map.empty, nonce_index = Map.empty\<rparr>"

lemma idem_demo: obtains r s1 where "register_execution idem_env identity_demo zero32 100 2 idem_blank = Inr (r, s1)"
  by (simp add: register_execution_def idem_blank_def Let_def)

lemma retry_returns_stored_record_witness:
  "\<exists>r s1. register_execution idem_env identity_demo zero32 100 2 idem_blank = Inr (r, s1) \<and>
     register_execution idem_env identity_demo zero32 100 2 s1 = Inr (r, s1)"
  by (rule idem_demo) (use retry_returns_stored_record [OF _ refl] in blast)

lemma second_run_of_company_refused_witness:
  "\<exists>r s1. register_execution idem_env identity_demo zero32 100 2 idem_blank = Inr (r, s1) \<and>
     register_execution idem_env (identity_demo\<lparr>xi_payroll_period := ''Feb'', xi_nonce := replicate 32 1\<rparr>) (replicate 32 7) 100 2 s1 =
       Inl (Err ConflictingPayloadData)"
proof -
  obtain r s1 where r: "register_execution idem_env identity_demo zero32 100 2 idem_blank = Inr (r, s1)" by (rule idem_demo)
  have "replicate 32 (7 :: u8) \<noteq> zero32" by (simp add: zero32_def)
  with second_run_of_company_refused [OF r _ refl, of "identity_demo\<lparr>xi_payroll_period := ''Feb'', xi_nonce := replicate 32 1\<rparr>"
      "replicate 32 7" 100 2] r show ?thesis by auto
qed

end
