(* ===== verification/Module_Template.thy ===== *)
theory Module_Template
  imports Interfaces
begin

text \<open>
  \<open>module_template/src/lib.rs\<close>: the skeleton that new contracts are copied from. It has one storage
  slot, the admin, which is set once. The struct of its event is written as the list of its fields.
\<close>

datatype ModuleError = MtNotInitialized | MtAlreadyInitialized | MtUnauthorized

record module_template = host +
  mt_admin :: "address option"

definition mt_initialize :: "'x env_scheme \<Rightarrow> address \<Rightarrow> module_template \<Rightarrow> (ModuleError, module_template) result" where
  "mt_initialize e adm s =
     and_then (fail_if (mt_admin s \<noteq> None) (Err MtAlreadyInitialized)) (\<lambda>_.
     and_then (require_auth e adm) (\<lambda>_.
     Inr (publish [VSym ''module'', VSym ''initialized''] (VVec [VAddr adm, VU32 (sequence e)]) (s\<lparr>mt_admin := Some adm\<rparr>))))"

definition mt_get_admin :: "module_template \<Rightarrow> (ModuleError, address) result" where
  "mt_get_admin s = ok_or (Err MtNotInitialized) (mt_admin s)"

text \<open>The first successful call decides: it was signed by the admin it sets, and no later call changes
  the admin or publishes a second event.\<close>

lemma template_initialized_once:
  assumes "mt_initialize e a s = Inr s1" "s2 = run_calls (\<lambda>(e, b). mt_initialize e b) cs s1"
  shows "auth e a \<and> mt_get_admin s2 = Inr a \<and> s2 = s1 \<and> mt_initialize e' b s2 = Inl (Err MtAlreadyInitialized)"
proof -
  have s1: "auth e a" "mt_admin s1 = Some a" using assms(1) by (auto simp: mt_initialize_def publish_def)
  have "s2 = s1" unfolding assms(2)
    by (rule run_calls_invariant [where I = "\<lambda>s. s = s1"]) (use s1(2) in \<open>auto simp: mt_initialize_def\<close>)
  then show ?thesis using s1 by (simp add: mt_get_admin_def mt_initialize_def)
qed

end
