(* ===== verification/Cli_Client.thy ===== *)
theory Cli_Client
  imports Prelude
begin

text \<open>
  The command line client \<open>cli/src\<close>: \<open>main.rs\<close> (commands and the check of public keys), \<open>db.rs\<close>
  (the local table of blinding factors), \<open>crypto.rs\<close> (the commitment), \<open>rpc.rs\<close> (decoding of
  events) and \<open>reconcile.rs\<close> (comparison of payments with the table).

  A \<open>str\<close> is the list of its UTF-8 bytes, written as characters. The crates that the client calls
  (base64, XDR, strkey, hex, the field and Poseidon) are the functions of the record \<open>libs\<close>. The
  disk is the record \<open>machine\<close>; each operation on it may fail, as the predicate \<open>io_fails\<close> says. A
  failed command keeps what it did before, so a command returns its result beside the machine.
\<close>

section \<open>Values of the RPC\<close>

record Int128Parts =
  hi :: u64
  lo :: u64

datatype ScAddress = ScAccount bytes | ScContract bytes

datatype ScVal =
    ScSymbol bytes
  | ScU32 u32
  | ScU64 u64
  | ScI128 Int128Parts
  | ScAddr ScAddress
  | ScVec "ScVal list option"
  | ScOther bytes

record RawEvent =
  re_ledger_closed_at :: string
  re_topic :: "string list"
  re_value :: string
  re_in_successful_contract_call :: bool

record PayrollEvent =
  ev_employee :: string
  ev_amount :: i128
  ev_period :: u32
  ev_ledger_closed_at :: string

record RpcResponse =
  rpc_result :: "RawEvent list option"
  rpc_error :: "string option"

record 'fr libs =
  b64_decode :: "string \<Rightarrow> bytes option"
  from_xdr :: "bytes \<Rightarrow> ScVal option"
  strkey_to_string :: "bytes \<Rightarrow> string"
  hex_encode :: "bytes \<Rightarrow> string"
  fr_from_u64 :: "u64 \<Rightarrow> 'fr"
  fr_from_le_bytes_mod_order :: "bytes \<Rightarrow> 'fr"
  fr_serialize :: "'fr \<Rightarrow> bytes"
  poseidon_new_circom :: "nat \<Rightarrow> ('fr list \<Rightarrow> 'fr option) option"

section \<open>The machine of the user\<close>

datatype io_op = CreateDir | SetDirMode | OpenDb | Pragmas | CreateTable | SetDbMode | Query | Insert

text \<open>A row of the table: public key, blinding factor in hexadecimal, and the salary as SQLite stores
  it, a signed 64-bit integer.\<close>

record machine =
  home_dir :: "string option"
  zk_dir_mode :: "nat option"
  db_mode :: nat
  db_file :: "(string \<rightharpoonup> string \<times> int) option option"

record cli_env =
  io_fails :: "io_op \<Rightarrow> bool"
  default_dir_mode :: nat
  default_file_mode :: nat
  os_rng :: bytes
  rpc_reply :: "RpcResponse option"

datatype cli_error =
    NoHomeDir
  | IoError io_op
  | NoSuchTable
  | DatabaseNotFound
  | EmployeeExists string
  | InvalidPubkey string
  | InvalidPubkeyChars string
  | PoseidonInit
  | PoseidonHash
  | SliceLengthPanic
  | SlicePanic
  | RpcUnreachable
  | RpcErrorReply string
  | Base64Error
  | XdrError
  | NotUtf8
  | ExpectedVec
  | ExpectedAt nat
  | MissingAt nat

type_synonym 'a cli = "machine \<Rightarrow> (cli_error + 'a) \<times> machine"

definition cli_return :: "'a \<Rightarrow> 'a cli" where
  "cli_return x m = (Inr x, m)"

definition cli_lift :: "cli_error + 'a \<Rightarrow> 'a cli" where
  "cli_lift r m = (r, m)"

definition cli_bind :: "'a cli \<Rightarrow> ('a \<Rightarrow> 'b cli) \<Rightarrow> 'b cli" where
  "cli_bind c f m = (case c m of (Inl x, m') \<Rightarrow> (Inl x, m') | (Inr v, m') \<Rightarrow> f v m')"

definition cli_io :: "cli_env \<Rightarrow> io_op \<Rightarrow> (machine \<Rightarrow> machine) \<Rightarrow> unit cli" where
  "cli_io e op f m = (if io_fails e op then (Inl (IoError op), m) else (Inr (), f m))"

section \<open>\<open>main.rs\<close>: the check of a public key\<close>

definition is_base32_char :: "char \<Rightarrow> bool" where
  "is_base32_char c \<longleftrightarrow> (let n = of_char c :: nat in
     (of_char CHR ''A'' \<le> n \<and> n \<le> of_char CHR ''Z'') \<or> (of_char CHR ''2'' \<le> n \<and> n \<le> of_char CHR ''7''))"

definition validate_stellar_pubkey :: "string \<Rightarrow> cli_error + unit" where
  "validate_stellar_pubkey pubkey =
     and_then (fail_if (length pubkey \<noteq> 56 \<or> take 1 pubkey \<noteq> ''G'') (InvalidPubkey pubkey)) (\<lambda>_.
     fail_if (\<not> list_all is_base32_char pubkey) (InvalidPubkeyChars pubkey))"

section \<open>\<open>db.rs\<close>: the table of blinding factors\<close>

definition db_path :: "string cli" where
  "db_path m = (case home_dir m of
     None \<Rightarrow> (Inl NoHomeDir, m)
   | Some home \<Rightarrow> (Inr (home @ ''/.zk-payroll/company_db.sqlite''), m))"

text \<open>Opening creates an empty database when the file does not exist.\<close>

definition open_db :: "cli_env \<Rightarrow> unit cli" where
  "open_db e =
     cli_bind (cli_io e OpenDb (\<lambda>m. case db_file m of
         None \<Rightarrow> m\<lparr>db_file := Some None, db_mode := default_file_mode e\<rparr>
       | Some _ \<Rightarrow> m)) (\<lambda>_.
     cli_io e Pragmas (\<lambda>m. m))"

definition initialise :: "cli_env \<Rightarrow> unit cli" where
  "initialise e = cli_io e CreateTable (\<lambda>m. case db_file m of
     Some None \<Rightarrow> m\<lparr>db_file := Some (Some Map.empty)\<rparr>
   | _ \<Rightarrow> m)"

text \<open>\<open>salary as i64\<close> keeps the 64 bits and reads them as a signed number; \<open>as u64\<close> goes back.\<close>

definition u64_as_i64 :: "u64 \<Rightarrow> int" where
  "u64_as_i64 w = sint w"

definition i64_as_u64 :: "int \<Rightarrow> u64" where
  "i64_as_u64 i = word_of_int i"

definition insert_employee :: "cli_env \<Rightarrow> string \<Rightarrow> string \<Rightarrow> u64 \<Rightarrow> unit cli" where
  "insert_employee e pubkey blinding_hex salary m =
     (if io_fails e Insert then (Inl (IoError Insert), m)
      else case db_file m of
        Some (Some t) \<Rightarrow>
          if t pubkey \<noteq> None then (Inl (IoError Insert), m)
          else (Inr (), m\<lparr>db_file := Some (Some (t(pubkey \<mapsto> (blinding_hex, u64_as_i64 salary))))\<rparr>)
      | _ \<Rightarrow> (Inl NoSuchTable, m))"

definition get_employee :: "cli_env \<Rightarrow> string \<Rightarrow> (string \<times> u64) option cli" where
  "get_employee e pubkey m =
     (if io_fails e Query then (Inl (IoError Query), m)
      else case db_file m of
        Some (Some t) \<Rightarrow> (Inr (map_option (\<lambda>r. (fst r, i64_as_u64 (snd r))) (t pubkey)), m)
      | _ \<Rightarrow> (Inl NoSuchTable, m))"

definition employee_exists :: "cli_env \<Rightarrow> string \<Rightarrow> bool cli" where
  "employee_exists e pubkey = cli_bind (get_employee e pubkey) (\<lambda>r. cli_return (r \<noteq> None))"

section \<open>\<open>crypto.rs\<close>: blinding factor and commitment\<close>

definition fr_to_le_bytes :: "('fr, 'x) libs_scheme \<Rightarrow> 'fr \<Rightarrow> cli_error + bytes" where
  "fr_to_le_bytes l fr = (let buf = fr_serialize l fr in
     and_then (fail_if (length buf \<noteq> 32) SliceLengthPanic) (\<lambda>_. Inr buf))"

definition gen_blinding_factor :: "('fr, 'x) libs_scheme \<Rightarrow> cli_env \<Rightarrow> cli_error + bytes" where
  "gen_blinding_factor l e = fr_to_le_bytes l (fr_from_le_bytes_mod_order l (os_rng e))"

definition poseidon_commitment :: "('fr, 'x) libs_scheme \<Rightarrow> u64 \<Rightarrow> bytes \<Rightarrow> cli_error + bytes" where
  "poseidon_commitment l salary blinding_le =
     (let salary_fr = fr_from_u64 l salary; blinding_fr = fr_from_le_bytes_mod_order l blinding_le in
     and_then (ok_or PoseidonInit (poseidon_new_circom l 2)) (\<lambda>hasher.
     and_then (ok_or PoseidonHash (hasher [salary_fr, blinding_fr])) (\<lambda>hash_fr.
     fr_to_le_bytes l hash_fr)))"

section \<open>\<open>main.rs\<close>: the commands\<close>

definition cmd_init_company :: "cli_env \<Rightarrow> unit cli" where
  "cmd_init_company e =
     cli_bind db_path (\<lambda>path.
     cli_bind (cli_io e CreateDir (\<lambda>m. case zk_dir_mode m of
         None \<Rightarrow> m\<lparr>zk_dir_mode := Some (default_dir_mode e)\<rparr> | Some _ \<Rightarrow> m)) (\<lambda>_.
     cli_bind (cli_io e SetDirMode (\<lambda>m. m\<lparr>zk_dir_mode := Some 448\<rparr>)) (\<lambda>_.
     cli_bind (open_db e) (\<lambda>_.
     cli_bind (initialise e) (\<lambda>_.
     cli_io e SetDbMode (\<lambda>m. m\<lparr>db_mode := 384\<rparr>))))))"

text \<open>The value of the command is the commitment that it prints.\<close>

definition cmd_add_employee :: "('fr, 'x) libs_scheme \<Rightarrow> cli_env \<Rightarrow> string \<Rightarrow> u64 \<Rightarrow> string cli" where
  "cmd_add_employee l e pubkey amount =
     cli_bind (cli_lift (validate_stellar_pubkey pubkey)) (\<lambda>_.
     cli_bind db_path (\<lambda>path.
     cli_bind (\<lambda>m. (fail_if (db_file m = None) DatabaseNotFound, m)) (\<lambda>_.
     cli_bind (open_db e) (\<lambda>_.
     cli_bind (employee_exists e pubkey) (\<lambda>exists.
     cli_bind (cli_lift (fail_if exists (EmployeeExists pubkey))) (\<lambda>_.
     cli_bind (cli_lift (gen_blinding_factor l e)) (\<lambda>blinding_bytes.
     cli_bind (cli_lift (poseidon_commitment l amount blinding_bytes)) (\<lambda>commitment_bytes.
     cli_bind (insert_employee e pubkey (hex_encode l blinding_bytes) amount) (\<lambda>_.
     cli_return (hex_encode l commitment_bytes))))))))))"

section \<open>\<open>rpc.rs\<close>: decoding of events\<close>

text \<open>\<open>str::from_utf8\<close> accepts the well-formed byte sequences of the Unicode standard.\<close>

definition utf8_tail :: "u8 \<Rightarrow> bool" where
  "utf8_tail b \<longleftrightarrow> 0x80 \<le> b \<and> b \<le> 0xBF"

fun from_utf8_ok :: "bytes \<Rightarrow> bool" where
  "from_utf8_ok [] = True"
| "from_utf8_ok (a # bs) =
     (if a < 0x80 then from_utf8_ok bs
      else (case bs of
        [] \<Rightarrow> False
      | b # cs \<Rightarrow>
          if 0xC2 \<le> a \<and> a \<le> 0xDF then utf8_tail b \<and> from_utf8_ok cs
          else (case cs of
            [] \<Rightarrow> False
          | c # ds \<Rightarrow>
              if a = 0xE0 then 0xA0 \<le> b \<and> b \<le> 0xBF \<and> utf8_tail c \<and> from_utf8_ok ds
              else if a = 0xED then 0x80 \<le> b \<and> b \<le> 0x9F \<and> utf8_tail c \<and> from_utf8_ok ds
              else if 0xE1 \<le> a \<and> a \<le> 0xEF then utf8_tail b \<and> utf8_tail c \<and> from_utf8_ok ds
              else (case ds of
                [] \<Rightarrow> False
              | d # rest \<Rightarrow>
                  if a = 0xF0 then 0x90 \<le> b \<and> b \<le> 0xBF \<and> utf8_tail c \<and> utf8_tail d \<and> from_utf8_ok rest
                  else if a = 0xF4 then 0x80 \<le> b \<and> b \<le> 0x8F \<and> utf8_tail c \<and> utf8_tail d \<and> from_utf8_ok rest
                  else if 0xF1 \<le> a \<and> a \<le> 0xF3 then utf8_tail b \<and> utf8_tail c \<and> utf8_tail d \<and> from_utf8_ok rest
                  else False))))"

definition from_utf8 :: "bytes \<Rightarrow> cli_error + string" where
  "from_utf8 bs = and_then (fail_if (\<not> from_utf8_ok bs) NotUtf8) (\<lambda>_. Inr (map (\<lambda>b. char_of (unat b)) bs))"

definition decode_scval :: "('fr, 'x) libs_scheme \<Rightarrow> string \<Rightarrow> cli_error + ScVal" where
  "decode_scval l b64 =
     and_then (ok_or Base64Error (b64_decode l b64)) (\<lambda>bs.
     ok_or XdrError (from_xdr l bs))"

definition scaddress_to_strkey :: "('fr, 'x) libs_scheme \<Rightarrow> ScAddress \<Rightarrow> string" where
  "scaddress_to_strkey l addr = (case addr of
     ScAccount bs \<Rightarrow> strkey_to_string l bs
   | ScContract hash \<Rightarrow> ''C:'' @ hex_encode l hash)"

definition extract_address :: "('fr, 'x) libs_scheme \<Rightarrow> ScVal list \<Rightarrow> nat \<Rightarrow> cli_error + string" where
  "extract_address l vec idx =
     (if idx < length vec then
        (case vec ! idx of ScAddr addr \<Rightarrow> Inr (scaddress_to_strkey l addr) | _ \<Rightarrow> Inl (ExpectedAt idx))
      else Inl (MissingAt idx))"

definition extract_i128 :: "ScVal list \<Rightarrow> nat \<Rightarrow> cli_error + i128" where
  "extract_i128 vec idx =
     (if idx < length vec then
        (case vec ! idx of ScI128 p \<Rightarrow> Inr (push_bit 64 (sint (hi p)) OR uint (lo p)) | _ \<Rightarrow> Inl (ExpectedAt idx))
      else Inl (MissingAt idx))"

definition extract_u32 :: "ScVal list \<Rightarrow> nat \<Rightarrow> cli_error + u32" where
  "extract_u32 vec idx =
     (if idx < length vec then (case vec ! idx of ScU32 v \<Rightarrow> Inr v | _ \<Rightarrow> Inl (ExpectedAt idx))
      else Inl (MissingAt idx))"

definition scval_symbol :: "ScVal \<Rightarrow> cli_error + string option" where
  "scval_symbol v = (case v of
     ScSymbol s \<Rightarrow> and_then (from_utf8 s) (\<lambda>t. Inr (Some t))
   | _ \<Rightarrow> Inr None)"

definition try_decode_payroll_event ::
  "('fr, 'x) libs_scheme \<Rightarrow> RawEvent \<Rightarrow> string \<Rightarrow> cli_error + PayrollEvent option" where
  "try_decode_payroll_event l ev company_id =
     (if length (re_topic ev) < 2 then Inr None else
     and_then (decode_scval l (re_topic ev ! 0)) (\<lambda>topic0.
     and_then (scval_symbol topic0) (\<lambda>event_name.
     if event_name \<noteq> Some ''PayrollProcessed'' then Inr None else
     and_then (decode_scval l (re_topic ev ! 1)) (\<lambda>topic1.
     and_then (scval_symbol topic1) (\<lambda>event_company.
     if event_company \<noteq> Some company_id then Inr None else
     and_then (decode_scval l (re_value ev)) (\<lambda>data.
     and_then (case data of ScVec (Some v) \<Rightarrow> Inr v | _ \<Rightarrow> Inl ExpectedVec) (\<lambda>vec.
     and_then (extract_address l vec 0) (\<lambda>employee.
     and_then (extract_i128 vec 1) (\<lambda>amount.
     and_then (extract_u32 vec 2) (\<lambda>period.
     Inr (Some \<lparr>ev_employee = employee, ev_amount = amount, ev_period = period,
       ev_ledger_closed_at = re_ledger_closed_at ev\<rparr>)))))))))))"

primrec collect_payroll_events ::
  "('fr, 'x) libs_scheme \<Rightarrow> string \<Rightarrow> RawEvent list \<Rightarrow> PayrollEvent list \<Rightarrow> cli_error + PayrollEvent list" where
  "collect_payroll_events l company_id [] out = Inr out"
| "collect_payroll_events l company_id (ev # evs) out =
     (if \<not> re_in_successful_contract_call ev then collect_payroll_events l company_id evs out
      else and_then (try_decode_payroll_event l ev company_id) (\<lambda>r.
        collect_payroll_events l company_id evs (case r of None \<Rightarrow> out | Some event \<Rightarrow> out @ [event])))"

definition fetch_payroll_events ::
  "('fr, 'x) libs_scheme \<Rightarrow> cli_env \<Rightarrow> string \<Rightarrow> cli_error + PayrollEvent list" where
  "fetch_payroll_events l e company_id =
     and_then (ok_or RpcUnreachable (rpc_reply e)) (\<lambda>resp.
     and_then (case rpc_error resp of None \<Rightarrow> Inr () | Some err \<Rightarrow> Inl (RpcErrorReply err)) (\<lambda>_.
     collect_payroll_events l company_id (unwrap_or [] (rpc_result resp)) []))"

section \<open>\<open>reconcile.rs\<close>: payments against the table\<close>

text \<open>One row of the report. The rendering of an amount, which goes through \<open>f64\<close>, and the layout of the
  table are left out: the row and its narrative hold the values that are rendered. \<open>str[..n]\<close>
  panics when the byte \<open>n\<close> continues a character.\<close>

record narrative =
  na_date :: string
  na_name :: string
  na_amount :: i128
  na_period :: u32

record report_row =
  rr_employee :: string
  rr_amount :: i128
  rr_period :: u32
  rr_closed_at :: string
  rr_in_db :: bool
  rr_narrative :: narrative

definition str_prefix :: "string \<Rightarrow> nat \<Rightarrow> cli_error + string" where
  "str_prefix s n =
     and_then (fail_if (length s < n \<or> n < length s \<and> utf8_tail (of_char (s ! n))) SlicePanic) (\<lambda>_.
     Inr (take n s))"

definition build_narrative :: "string \<Rightarrow> i128 \<Rightarrow> u32 \<Rightarrow> string \<Rightarrow> cli_error + narrative" where
  "build_narrative employee amount period closed_at =
     (let date = takeWhile (\<lambda>c. c \<noteq> CHR ''T'') closed_at in
     and_then (str_prefix employee (min 8 (length employee))) (\<lambda>name.
     Inr \<lparr>na_date = date, na_name = name, na_amount = amount, na_period = period\<rparr>))"

definition truncate :: "string \<Rightarrow> nat \<Rightarrow> cli_error + string" where
  "truncate s n =
     (if length s \<le> n then Inr s
      else and_then (str_prefix s n) (\<lambda>t. Inr (t @ map char_of [0xE2, 0x80, 0xA6 :: nat])))"

primrec report_rows :: "cli_env \<Rightarrow> bool \<Rightarrow> PayrollEvent list \<Rightarrow> report_row list cli" where
  "report_rows e has_conn [] = cli_return []"
| "report_rows e has_conn (ev # evs) =
     cli_bind (if has_conn then employee_exists e (ev_employee ev) else cli_return False) (\<lambda>in_db.
     cli_bind (cli_lift (build_narrative (ev_employee ev) (ev_amount ev) (ev_period ev) (ev_ledger_closed_at ev))) (\<lambda>narrative.
     cli_bind (cli_lift (truncate (ev_employee ev) 20)) (\<lambda>name.
     cli_bind (report_rows e has_conn evs) (\<lambda>rows.
     cli_return (\<lparr>rr_employee = name, rr_amount = ev_amount ev, rr_period = ev_period ev,
       rr_closed_at = ev_ledger_closed_at ev, rr_in_db = in_db, rr_narrative = narrative\<rparr> # rows)))))"

primrec check_salary_mismatches :: "cli_env \<Rightarrow> PayrollEvent list \<Rightarrow> nat \<Rightarrow> nat cli" where
  "check_salary_mismatches e [] count = cli_return count"
| "check_salary_mismatches e (ev # evs) count =
     cli_bind (get_employee e (ev_employee ev)) (\<lambda>r.
     check_salary_mismatches e evs (case r of
         Some (_, salary) \<Rightarrow> if uint salary \<noteq> ev_amount ev then count + 1 else count
       | None \<Rightarrow> count))"

definition reconcile_run ::
  "('fr, 'x) libs_scheme \<Rightarrow> cli_env \<Rightarrow> string \<Rightarrow> (report_row list \<times> nat) cli" where
  "reconcile_run l e company_id =
     cli_bind (cli_lift (fetch_payroll_events l e company_id)) (\<lambda>evs.
     if evs = [] then cli_return ([], 0)
     else cli_bind db_path (\<lambda>path.
     cli_bind (\<lambda>m. (Inr (db_file m \<noteq> None), m)) (\<lambda>has_conn.
     cli_bind (if has_conn then open_db e else cli_return ()) (\<lambda>_.
     cli_bind (report_rows e has_conn evs) (\<lambda>rows.
     cli_bind (if has_conn then check_salary_mismatches e evs 0 else cli_return 0) (\<lambda>mismatches.
     cli_return (rows, mismatches)))))))"

end
