(* ===== verification/Cli_Theorems.thy ===== *)
theory Cli_Theorems
  imports Cli_Client Registry_Wallet Executor_Histories
begin

text \<open>
  The command line client beside the contracts: its check of public keys against the registry's,
  the permanence of the local table, the decoding of payment events and what it finds among the
  events of the executor.
\<close>

section \<open>Commands step by step\<close>

lemma cli_bind_ok [simp]:
  "cli_bind c f m = (Inr v, m') \<longleftrightarrow> (\<exists>x m1. c m = (Inr x, m1) \<and> f x m1 = (Inr v, m'))"
  by (auto simp: cli_bind_def split: prod.splits sum.splits)

lemma cli_return_ok [simp]: "cli_return x m = (Inr v, m') \<longleftrightarrow> v = x \<and> m' = m"
  by (auto simp: cli_return_def)

lemma cli_lift_ok [simp]: "cli_lift r m = (Inr v, m') \<longleftrightarrow> r = Inr v \<and> m' = m"
  by (auto simp: cli_lift_def)

lemma cli_io_ok [simp]: "cli_io e op f m = (Inr v, m') \<longleftrightarrow> \<not> io_fails e op \<and> m' = f m"
  by (auto simp: cli_io_def)

text \<open>A command keeps a property of the machine, also when it fails.\<close>

definition cli_keeps :: "(machine \<Rightarrow> bool) \<Rightarrow> 'a cli \<Rightarrow> bool" where
  "cli_keeps I c \<longleftrightarrow> (\<forall>m. I m \<longrightarrow> I (snd (c m)))"

lemma cli_keeps_bind: "cli_keeps I c \<Longrightarrow> (\<And>x. cli_keeps I (f x)) \<Longrightarrow> cli_keeps I (cli_bind c f)"
  by (fastforce simp: cli_keeps_def cli_bind_def split: prod.splits sum.splits)

lemma cli_keeps_basic:
  "cli_keeps I (cli_return x)" "cli_keeps I (cli_lift r)" "(\<And>m. I m \<Longrightarrow> I (f m)) \<Longrightarrow> cli_keeps I (cli_io e op f)"
  "cli_keeps I db_path" "cli_keeps I (get_employee e k)" "cli_keeps I (\<lambda>m. (g m, m))"
  by (auto simp: cli_keeps_def cli_return_def cli_lift_def cli_io_def db_path_def get_employee_def split: option.splits)

lemma cli_keeps_if: "cli_keeps I c \<Longrightarrow> cli_keeps I d \<Longrightarrow> cli_keeps I (if b then c else d)"
  by simp

lemmas cli_keeps_intros = cli_keeps_bind cli_keeps_basic cli_keeps_if

section \<open>Public keys\<close>

lemma base32_symbol_ok: "d < 32 \<Longrightarrow> is_base32_char (base32_symbol d)"
  using symbol_code [of d] by (auto simp: is_base32_char_def Let_def split: if_splits)

lemma base32_chars_ok: "list_all is_base32_char (map base32_symbol (be_digits 32 n v))"
proof -
  have "is_base32_char (base32_symbol d)" if "d \<in> set (be_digits 32 n v)" for d
    using be_digits_less [OF _ that] by (intro base32_symbol_ok) simp
  then show ?thesis by (simp add: list_all_iff)
qed

lemma be_digits_first: "take 1 (be_digits b (Suc n) v) = [(v div b ^ n) mod b]"
proof (induction n arbitrary: v)
  case 0
  then show ?case by simp
next
  case (Suc n)
  have "take 1 (be_digits b (Suc (Suc n)) v) = take 1 (be_digits b (Suc n) (v div b))"
    by (subst be_digits.simps(2)) (simp del: be_digits.simps)
  also have "\<dots> = [(v div b ^ Suc n) mod b]" by (simp only: Suc.IH div_mult2_eq [symmetric] power_Suc)
  finally show ?case .
qed

lemma base32_text_first:
  assumes "length bs = 35" "bs ! 0 = 0x30"
  shows "take 1 (base32_text bs) = ''G''"
proof -
  obtain r where r: "bs = 0x30 # r" "length r = 34" using assms by (cases bs) auto
  let ?n = "be_num 256 (map unat bs)"
  have "be_num 256 (map unat r) < 256 ^ length (map unat r)"
    by (rule be_num_bound) (use unsigned_less [where 'a = nat and 'b = 8] in auto)
  then have "?n div 32 ^ 55 mod 32 = 6" unfolding r(1) using r(2) by (simp add: be_num_Cons)
  moreover have "take 1 (be_digits 32 (Suc 55) ?n) = [?n div 32 ^ 55 mod 32]" by (rule be_digits_first)
  ultimately have "take 1 (be_digits 32 56 ?n) = [6]" by simp
  then show ?thesis by (simp add: base32_text_def take_map base32_symbol_def)
qed

text \<open>The client's check of a public key, which looks at length, first letter and alphabet only, lets
  every wallet pass that the registry accepts.\<close>

lemma client_accepts_registry_wallets:
  assumes "employee_wallet_format_is_valid w"
  shows "validate_stellar_pubkey w = Inr ()"
proof -
  from assms obtain res where r: "decode_stellar_base32 (string_bytes w) = Some res" "length w = 56" "res ! 0 = 0x30"
    by (auto simp: employee_wallet_format_is_valid_def STELLAR_ACCOUNT_STRKEY_LEN_def STELLAR_ACCOUNT_VERSION_BYTE_def
        split: if_splits option.splits)
  from base32_text_decode [OF r(1,2)] have w: "length res = 35" "w = base32_text res" by simp_all
  have "list_all is_base32_char w" unfolding w(2) base32_text_def by (rule base32_chars_ok)
  then show ?thesis using base32_text_first [OF w(1) r(3)] r(2) w(2) by (simp add: validate_stellar_pubkey_def)
qed

lemma client_accepts_registry_wallets_witness:
  "\<exists>w. w = strkey (replicate 32 0) \<and> employee_wallet_format_is_valid w \<and> validate_stellar_pubkey w = Inr ()"
  using client_accepts_registry_wallets [OF strkey_valid_wallet [of "replicate 32 0"]] strkey_valid_wallet [of "replicate 32 0"]
  by simp

section \<open>The local table\<close>

lemma i64_u64_roundtrip [simp]: "i64_as_u64 (u64_as_i64 w) = w"
  by (simp add: i64_as_u64_def u64_as_i64_def)

text \<open>The rows of the table, none when there is no database or no table.\<close>

definition db_rows :: "machine \<Rightarrow> string \<rightharpoonup> string \<times> int" where
  "db_rows m = (case db_file m of Some (Some t) \<Rightarrow> t | _ \<Rightarrow> Map.empty)"

datatype command = InitCompany | AddEmployee string u64 | Reconcile string

definition run_command :: "('fr, 'x) libs_scheme \<Rightarrow> cli_env \<times> command \<Rightarrow> machine \<Rightarrow> machine" where
  "run_command l c m = (case snd c of
     InitCompany \<Rightarrow> snd (cmd_init_company (fst c) m)
   | AddEmployee k a \<Rightarrow> snd (cmd_add_employee l (fst c) k a m)
   | Reconcile co \<Rightarrow> snd (reconcile_run l (fst c) co m))"

lemma keeps_row_insert: "cli_keeps (\<lambda>m. db_rows m k = Some r) (insert_employee e k' h a)"
  by (cases r) (auto simp: cli_keeps_def insert_employee_def db_rows_def split: option.splits)

lemma keeps_row_open:
  "cli_keeps (\<lambda>m. db_rows m k = Some r) (open_db e)" "cli_keeps (\<lambda>m. db_rows m k = Some r) (initialise e)"
  unfolding open_db_def initialise_def
  by (intro cli_keeps_intros; simp add: db_rows_def split: option.splits)+

lemma keeps_employee_exists: "cli_keeps I (employee_exists e k)"
  unfolding employee_exists_def by (intro cli_keeps_intros)

lemmas keeps_row_db = keeps_row_insert keeps_row_open keeps_employee_exists

lemma keeps_row_rows:
  "cli_keeps (\<lambda>m. db_rows m k = Some r) (report_rows e b evs)"
  "cli_keeps (\<lambda>m. db_rows m k = Some r) (check_salary_mismatches e evs n)"
  by (induction evs arbitrary: n) (auto intro!: cli_keeps_intros keeps_row_db)

lemma run_command_keeps_row:
  assumes "db_rows m k = Some r"
  shows "db_rows (run_command l c m) k = Some r"
proof -
  let ?I = "\<lambda>m. db_rows m k = Some r"
  have "cli_keeps ?I (cmd_init_company (fst c))" unfolding cmd_init_company_def
    by (intro cli_keeps_intros keeps_row_db; simp add: db_rows_def split: option.splits)
  moreover have "cli_keeps ?I (cmd_add_employee l (fst c) k' a)" for k' a unfolding cmd_add_employee_def
    by (intro cli_keeps_intros keeps_row_db)
  moreover have "cli_keeps ?I (reconcile_run l (fst c) co)" for co unfolding reconcile_run_def
    by (intro cli_keeps_intros keeps_row_db keeps_row_rows)
  ultimately show ?thesis using assms by (simp add: run_command_def cli_keeps_def split: command.split)
qed

lemma add_employee_ok:
  assumes "cmd_add_employee l e k a m = (Inr c, m')"
  obtains b h where "validate_stellar_pubkey k = Inr ()" "gen_blinding_factor l e = Inr b" "poseidon_commitment l a b = Inr h"
    "c = hex_encode l h" "db_rows m k = None" "db_rows m' = (db_rows m)(k \<mapsto> (hex_encode l b, u64_as_i64 a))"
    "\<exists>t. db_file m' = Some (Some t)"
  using assms
  by (auto simp: cmd_add_employee_def employee_exists_def get_employee_def insert_employee_def open_db_def db_rows_def db_path_def
      simp del: split_paired_All split_paired_Ex split: if_splits option.splits)

text \<open>C34. When \<open>add-employee\<close> succeeds, the key passed the check, was not in the table, and the printed
  commitment is the Poseidon hash of the salary and the blinding factor that is stored: through
  any further commands, failed ones included, the table returns that blinding factor and that very
  salary for the key, and \<open>add-employee\<close> for it never succeeds again.\<close>

theorem stored_opening_permanent:
  assumes "cmd_add_employee l e k a m = (Inr c, m1)" "m2 = fold (run_command l) cs m1" "\<not> io_fails e' Query"
  shows "\<exists>b h. length b = 32 \<and> poseidon_commitment l a b = Inr h \<and> c = hex_encode l h \<and> db_rows m k = None \<and>
    fst (get_employee e' k m2) = Inr (Some (hex_encode l b, a)) \<and> (\<forall>e'' a' c'. fst (cmd_add_employee l e'' k a' m2) \<noteq> Inr c')"
proof -
  from assms(1) obtain b h where b: "gen_blinding_factor l e = Inr b" "poseidon_commitment l a b = Inr h"
    "c = hex_encode l h" "db_rows m k = None" and r: "db_rows m1 k = Some (hex_encode l b, u64_as_i64 a)"
    by (rule add_employee_ok) simp
  have r2: "db_rows m2 k = Some (hex_encode l b, u64_as_i64 a)" unfolding assms(2) using r
    by (induction cs arbitrary: m1) (simp_all add: run_command_keeps_row)
  have "length b = 32" using b(1) by (auto simp: gen_blinding_factor_def fr_to_le_bytes_def Let_def)
  moreover have "fst (get_employee e' k m2) = Inr (Some (hex_encode l b, a))"
    using r2 assms(3) by (auto simp: get_employee_def db_rows_def split: option.splits)
  moreover have "fst (cmd_add_employee l e'' k a' m2) \<noteq> Inr c'" for e'' a' c'
    using r2 add_employee_ok [of l e'' k a' m2 c' "snd (cmd_add_employee l e'' k a' m2)"] by (metis option.distinct(1) prod.collapse)
  ultimately show ?thesis using b by blast
qed

text \<open>The libraries of a sample run: a field of bytes, with a sum for a hash.\<close>

definition demo_libs :: "u8 libs" where
  "demo_libs = \<lparr>b64_decode = (\<lambda>s. Some (map of_char s)),
     from_xdr = (\<lambda>bs. if bs = [80] then Some (ScSymbol (map of_char ''PayrollProcessed''))
       else if bs = [67] then Some (ScU64 0) else if bs = [65] then Some (ScSymbol (map of_char ''ACME''))
       else if bs = [68] then Some (ScVec (Some [ScAddr (ScAccount []), ScI128 \<lparr>hi = 0, lo = 100\<rparr>, ScU32 1])) else None),
     strkey_to_string = (\<lambda>bs. ''E''), hex_encode = map (\<lambda>b. char_of (unat b)), fr_from_u64 = ucast,
     fr_from_le_bytes_mod_order = (\<lambda>bs. sum_list bs), fr_serialize = (\<lambda>x. replicate 32 x),
     poseidon_new_circom = (\<lambda>n. Some (\<lambda>xs. Some (sum_list xs)))\<rparr>"

definition demo_cli :: cli_env where
  "demo_cli = \<lparr>io_fails = (\<lambda>_. False), default_dir_mode = 493, default_file_mode = 420, os_rng = replicate 64 7, rpc_reply = None\<rparr>"

definition demo_machine :: machine where
  "demo_machine = \<lparr>home_dir = Some ''/root'', zk_dir_mode = None, db_mode = 0, db_file = Some (Some Map.empty)\<rparr>"

definition demo_key :: string where
  "demo_key = CHR ''G'' # replicate 55 CHR ''A''"

lemma demo_key_ok: "validate_stellar_pubkey demo_key = Inr ()"
  by (simp add: validate_stellar_pubkey_def demo_key_def is_base32_char_def list_all_iff)

lemma demo_add_ok: "\<exists>c m1. cmd_add_employee demo_libs demo_cli demo_key 500 demo_machine = (Inr c, m1)"
  by (simp add: cmd_add_employee_def cli_bind_def cli_lift_def cli_return_def cli_io_def demo_key_ok db_path_def open_db_def
      employee_exists_def get_employee_def insert_employee_def gen_blinding_factor_def poseidon_commitment_def
      fr_to_le_bytes_def demo_libs_def demo_cli_def demo_machine_def Let_def)

theorem stored_opening_permanent_witness:
  "\<exists>c m1 b. cmd_add_employee demo_libs demo_cli demo_key 500 demo_machine = (Inr c, m1) \<and>
     fst (get_employee demo_cli demo_key (fold (run_command demo_libs) [(demo_cli, InitCompany), (demo_cli, AddEmployee demo_key 7)] m1)) =
       Inr (Some (hex_encode demo_libs b, 500))"
proof -
  obtain c m1 where a: "cmd_add_employee demo_libs demo_cli demo_key 500 demo_machine = (Inr c, m1)" using demo_add_ok by blast
  have "\<not> io_fails demo_cli Query" by (simp add: demo_cli_def)
  from stored_opening_permanent [OF a refl this] a show ?thesis by blast
qed

text \<open>\<open>init-company\<close> restricts the directory and the file to their owner, makes sure that the table
  exists, and keeps every row; running it again changes nothing.\<close>

lemma init_company_ok:
  assumes "cmd_init_company e m = (Inr (), m')"
  shows "zk_dir_mode m' = Some 448" "db_mode m' = 384" "\<exists>t. db_file m' = Some (Some t)" "db_rows m' = db_rows m"
    "cmd_init_company e m' = (Inr (), m')"
  using assms
  by (auto simp: cmd_init_company_def open_db_def initialise_def db_path_def db_rows_def split: option.splits if_splits)

definition salary_differs :: "(string \<rightharpoonup> string \<times> int) \<Rightarrow> PayrollEvent \<Rightarrow> bool" where
  "salary_differs t ev \<longleftrightarrow> (case t (ev_employee ev) of None \<Rightarrow> False | Some (_, i) \<Rightarrow> uint (i64_as_u64 i) \<noteq> ev_amount ev)"

text \<open>The reconciliation counts exactly the payments to known employees that differ from the salary
  stored for them.\<close>

lemma salary_mismatches_exact:
  assumes "db_file m = Some (Some t)" "\<not> io_fails e Query"
  shows "check_salary_mismatches e evs n m = (Inr (n + length (filter (salary_differs t) evs)), m)"
  using assms
  by (induction evs arbitrary: n) (auto simp: get_employee_def salary_differs_def cli_bind_def cli_return_def split: option.splits)

section \<open>Decoding of amounts and events\<close>

text \<open>The host writes an \<open>i128\<close> as its upper half, signed, and its lower half.\<close>

definition i128_parts :: "i128 \<Rightarrow> Int128Parts" where
  "i128_parts a = \<lparr>hi = word_of_int (a div 2 ^ 64), lo = word_of_int (a mod 2 ^ 64)\<rparr>"

lemma halves_join: "push_bit n (a div 2 ^ n) OR (a mod 2 ^ n) = (a :: int)"
  unfolding drop_bit_eq_div [symmetric] take_bit_eq_mod [symmetric]
  by (rule bit_eqI) (auto simp: bit_push_bit_iff bit_drop_bit_eq bit_take_bit_iff bit_or_iff not_less)

lemma extract_i128_parts:
  assumes "in_i128 a" "i < length vec" "vec ! i = ScI128 (i128_parts a)"
  shows "extract_i128 vec i = Inr a"
proof -
  have "- (2 ^ 63) \<le> a div 2 ^ 64 \<and> a div 2 ^ 64 < 2 ^ 63" using assms(1) unfolding in_i128_def by simp linarith
  then have "sint (hi (i128_parts a)) = a div 2 ^ 64"
    by (simp add: i128_parts_def signed_of_int signed_take_bit_int_eq_self_iff)
  moreover have "uint (lo (i128_parts a)) = a mod 2 ^ 64" by (simp add: i128_parts_def uint_word_of_int)
  moreover have "push_bit 64 (a div 2 ^ 64) OR (a mod 2 ^ 64) = a" by (rule halves_join)
  ultimately show ?thesis using assms(2,3) by (simp add: extract_i128_def)
qed

text \<open>How the values that the contracts publish appear to the client; the client looks at no other kind
  of value. Addresses are given in their binary form by \<open>xa\<close>.\<close>

fun ScVal_of :: "(address \<Rightarrow> ScAddress) \<Rightarrow> scval \<Rightarrow> ScVal" where
  "ScVal_of xa (VSym s) = ScSymbol (map of_char s)"
| "ScVal_of xa (VU32 n) = ScU32 n"
| "ScVal_of xa (VU64 n) = ScU64 n"
| "ScVal_of xa (VI128 a) = ScI128 (i128_parts a)"
| "ScVal_of xa (VAddr a) = ScAddr (xa a)"
| "ScVal_of xa (VVec vs) = ScVec (Some (map (ScVal_of xa) vs))"
| "ScVal_of xa (VBytes bs) = ScOther bs"
| "ScVal_of xa (VStr s) = ScOther (map of_char s)"
| "ScVal_of xa (VBool b) = ScOther [if b then 1 else 0]"
| "ScVal_of xa VVoid = ScOther []"

text \<open>A raw event of the RPC that stands for a published event.\<close>

definition represents :: "('fr, 'x) libs_scheme \<Rightarrow> (address \<Rightarrow> ScAddress) \<Rightarrow> event \<Rightarrow> RawEvent \<Rightarrow> bool" where
  "represents l xa ev r \<longleftrightarrow> re_in_successful_contract_call r \<and>
     list_all2 (\<lambda>t v. decode_scval l t = Inr (ScVal_of xa v)) (re_topic r) (topics ev) \<and>
     decode_scval l (re_value r) = Inr (ScVal_of xa (data ev))"

definition ascii :: "string \<Rightarrow> bool" where
  "ascii s \<longleftrightarrow> list_all (\<lambda>c. (of_char c :: nat) < 128) s"

lemma from_utf8_ascii: "ascii s \<Longrightarrow> from_utf8 (map of_char s) = Inr s"
proof -
  assume a: "ascii s"
  then have "from_utf8_ok (map of_char s)"
    by (induction s) (simp_all add: ascii_def word_less_nat_alt unat_of_char)
  then show ?thesis by (simp add: from_utf8_def comp_def unat_of_char)
qed

lemma represented_topics:
  assumes "represents l xa ev r"
  shows "length (re_topic r) = length (topics ev)"
    "i < length (topics ev) \<Longrightarrow> decode_scval l (re_topic r ! i) = Inr (ScVal_of xa (topics ev ! i))"
  using assms by (auto simp: represents_def list_all2_conv_all_nth)

text \<open>An event whose second topic is the requested company as a symbol is decoded exactly: the
  client reports the employee, the signed 128-bit amount, the period and the closing time of the
  ledger that the event carries.\<close>

lemma symbol_event_decoded:
  assumes "represents l xa ev r" "topics ev = [VSym ''PayrollProcessed'', VSym co]" "ascii co"
    and "data ev = VVec [VAddr m, VI128 a, VU32 k]" "in_i128 a"
  shows "try_decode_payroll_event l r co = Inr (Some \<lparr>ev_employee = scaddress_to_strkey l (xa m), ev_amount = a,
    ev_period = k, ev_ledger_closed_at = re_ledger_closed_at r\<rparr>)"
proof -
  have "decode_scval l (re_topic r ! 0) = Inr (ScSymbol (map of_char ''PayrollProcessed''))"
    "decode_scval l (re_topic r ! 1) = Inr (ScSymbol (map of_char co))" "length (re_topic r) = 2"
    using represented_topics [OF assms(1)] assms(2) by (force, force, simp)
  moreover have "ascii ''PayrollProcessed''" by (simp add: ascii_def)
  moreover have "decode_scval l (re_value r) = Inr (ScVec (Some [ScAddr (xa m), ScI128 (i128_parts a), ScU32 k]))"
    using assms(1,4) by (simp add: represents_def)
  moreover have "extract_i128 [ScAddr (xa m), ScI128 (i128_parts a), ScU32 k] 1 = Inr a"
    by (rule extract_i128_parts [OF assms(5)]) simp_all
  ultimately show ?thesis using assms(3)
    by (simp add: try_decode_payroll_event_def scval_symbol_def from_utf8_ascii extract_address_def extract_u32_def del: list.map)
qed

section \<open>The client and the events of the executor\<close>

definition no_symbol_company :: "event \<Rightarrow> bool" where
  "no_symbol_company ev \<longleftrightarrow> (\<exists>n ts. topics ev = VSym n # ts \<and> ascii n \<and>
     (n = ''PayrollProcessed'' \<longrightarrow> (\<forall>c ts'. ts \<noteq> VSym c # ts')))"

lemma unseen_event:
  assumes "represents l xa ev r" "no_symbol_company ev"
  shows "try_decode_payroll_event l r co = Inr None"
proof -
  obtain n ts where t: "topics ev = VSym n # ts" "ascii n" "n = ''PayrollProcessed'' \<longrightarrow> (\<forall>c ts'. ts \<noteq> VSym c # ts')"
    using assms(2) by (auto simp: no_symbol_company_def)
  note d = represented_topics [OF assms(1)]
  show ?thesis
  proof (cases ts)
    case Nil
    then show ?thesis using d(1) t(1) by (simp add: try_decode_payroll_event_def)
  next
    case (Cons v vs)
    then have "decode_scval l (re_topic r ! 0) = Inr (ScSymbol (map of_char n))"
      "decode_scval l (re_topic r ! 1) = Inr (ScVal_of xa v)" "length (re_topic r) \<ge> 2"
      using d(1) d(2) [of 0] d(2) [of 1] t(1) by simp_all
    moreover have "n = ''PayrollProcessed'' \<Longrightarrow> scval_symbol (ScVal_of xa v) = Inr None"
      using t(3) Cons by (cases v) (auto simp: scval_symbol_def)
    ultimately show ?thesis using t(2) by (auto simp: try_decode_payroll_event_def scval_symbol_def from_utf8_ascii)
  qed
qed

lemma collect_unseen:
  assumes "list_all2 (represents l xa) evs rs" "list_all no_symbol_company evs"
  shows "collect_payroll_events l co rs out = Inr out"
  using assms by (induction evs rs rule: list_all2_induct) (auto simp: unseen_event represents_def)

abbreviation "exe_events w \<equiv> events (exe w)"

lemma payment_event_unseen:
  "execute_payment e i m a p n k w = Inr (r, w') \<Longrightarrow> list_all no_symbol_company (exe_events w) \<Longrightarrow> list_all no_symbol_company (exe_events w')"
  by (erule execute_payment_okE) (simp add: paid_state_def emits publish_def no_symbol_company_def ascii_def)

lemma batch_events_unseen:
  "batch_loop e i ms as pas pbs pcs ns k is rs w = Inr (rs', w') \<Longrightarrow> list_all no_symbol_company (exe_events w) \<Longrightarrow>
   list_all no_symbol_company (exe_events w')"
proof (induction "is" arbitrary: rs w)
  case Nil
  then show ?case by simp
next
  case (Cons j js)
  then show ?case using payment_event_unseen by fastforce
qed

lemma executor_events_unseen:
  assumes "list_all no_symbol_company (exe_events w)" "exe_invoke c w = Inr w'"
  shows "list_all no_symbol_company (exe_events w')"
proof (cases "snd c")
  case (XcPay i m a p n k)
  then show ?thesis using assms payment_event_unseen by (fastforce simp: exe_invoke_def)
next
  case (XcBatch i ms as pas pbs pcs ns k)
  then show ?thesis using assms batch_events_unseen by (fastforce simp: exe_invoke_def execute_batch_payroll_def Let_def)
qed (use assms in \<open>auto simp: exe_invoke_def on_exe_def pe_initialize_def set_executor_admin_def pe_set_pause_manager_def
    pe_set_asset_allowed_def set_asset_decimals_def create_period_def close_period_def executor_admin_guard_def Let_def
    emits publish_def no_symbol_company_def ascii_def split: if_splits option.splits\<close>)

text \<open>C40. The executor publishes the company of a payment as a number and the client expects a symbol:
  after any history of calls on a new executor, the reconciliation over all the events that the
  executor published finds no payment, whichever company is asked for.\<close>

theorem reconcile_misses_executor_payments:
  assumes "blank_executor (exe w0)" "w = run_calls exe_invoke cs w0"
    and "rpc_reply e = Some \<lparr>rpc_result = Some rs, rpc_error = None\<rparr>" "list_all2 (represents l xa) (exe_events w) rs"
  shows "fetch_payroll_events l e co = Inr [] \<and> reconcile_run l e co m = (Inr ([], 0), m)"
proof -
  have "list_all no_symbol_company (exe_events w)" unfolding assms(2)
    by (rule run_calls_invariant [OF executor_events_unseen]) (use assms(1) in \<open>simp_all add: blank_executor_def\<close>)
  then have "fetch_payroll_events l e co = Inr []"
    using assms(3,4) by (simp add: fetch_payroll_events_def unwrap_or_def collect_unseen)
  then show ?thesis by (simp add: reconcile_run_def cli_bind_def cli_lift_def cli_return_def)
qed

text \<open>The witnesses read the events of the executor's sample history after one payment.\<close>

definition demo_raw :: "string \<Rightarrow> RawEvent" where
  "demo_raw c = \<lparr>re_ledger_closed_at = ''2024-12-01T00'', re_topic = [''P'', c], re_value = ''D'', re_in_successful_contract_call = True\<rparr>"

lemma i128_parts_100: "i128_parts 100 = \<lparr>hi = 0, lo = 100\<rparr>"
  by (simp add: i128_parts_def)

lemma symbol_event_decoded_witness:
  "try_decode_payroll_event demo_libs (demo_raw ''A'') ''ACME'' = Inr (Some \<lparr>ev_employee = ''E'', ev_amount = 100, ev_period = 1,
     ev_ledger_closed_at = ''2024-12-01T00''\<rparr>)"
proof -
  let ?ev = "\<lparr>topics = [VSym ''PayrollProcessed'', VSym ''ACME''], data = VVec [VAddr adr_E, VI128 100, VU32 1]\<rparr>"
  have "represents demo_libs (\<lambda>_. ScAccount []) ?ev (demo_raw ''A'')"
    by (simp add: represents_def demo_raw_def demo_libs_def decode_scval_def i128_parts_100)
  from symbol_event_decoded [OF this] show ?thesis
    by (simp add: ascii_def in_i128_def demo_raw_def demo_libs_def scaddress_to_strkey_def)
qed

text \<open>A wire for the events of a list: every value is written as a text as long as its position.\<close>

fun wire_from :: "nat \<Rightarrow> event list \<Rightarrow> RawEvent list" where
  "wire_from n [] = []"
| "wire_from n (ev # evs) = \<lparr>re_ledger_closed_at = [], re_topic = map (\<lambda>i. replicate i CHR ''x'') [n..<n + length (topics ev)],
     re_value = replicate (n + length (topics ev)) CHR ''x'', re_in_successful_contract_call = True\<rparr> #
     wire_from (n + length (topics ev) + 1) evs"

definition wire_libs :: "event list \<Rightarrow> u8 libs" where
  "wire_libs evs = demo_libs\<lparr>from_xdr := (\<lambda>bs. let vs = concat (map (\<lambda>ev. topics ev @ [data ev]) evs); i = length bs in
     if i < length vs then Some (ScVal_of (\<lambda>_. ScAccount []) (vs ! i)) else None)\<rparr>"

lemma exe_ready_events:
  "exe_events exe_ready = [\<lparr>topics = [VSym ''TreasuryAssetAllowedUpdated'', VAddr (Address ''T'')], data = VVec [VBool True, VU64 1]\<rparr>,
      \<lparr>topics = [VSym ''ExecutorAdminSet''], data = VVec [VAddr adr_A]\<rparr>,
      \<lparr>topics = [VSym ''AssetDecimalsConfigured'', VAddr (Address ''T'')], data = VVec [VU32 7, VU64 3]\<rparr>,
      \<lparr>topics = [VSym ''PeriodCreated'', VU64 0], data = VVec [VU32 1]\<rparr>, \<lparr>topics = [VSym ''PeriodCreated'', VU64 1], data = VVec [VU32 1]\<rparr>]"
  by (simp add: exe_setup_def exe_blank_def exe_demo_simps exe_env_simps exe_registry_facts)

lemma exe_paid_events:
  "pay_E = Inr (r, w1) \<Longrightarrow> exe_events w1 = exe_events exe_ready @
     [\<lparr>topics = [VSym ''PayrollProcessed'', VU64 0], data = VVec [VAddr adr_E, VI128 100, VU32 1]\<rparr>]"
  by (erule execute_payment_okE) (simp add: paid_state_def emits publish_def)

theorem reconcile_misses_executor_payments_witness:
  "\<exists>r w1. pay_E = Inr (r, w1) \<and> payment_log (exe w1) \<noteq> [] \<and>
     fetch_payroll_events (wire_libs (exe_events w1))
       (demo_cli\<lparr>rpc_reply := Some \<lparr>rpc_result = Some (wire_from 0 (exe_events w1)), rpc_error = None\<rparr>\<rparr>) ''0'' = Inr []"
proof -
  obtain r w1 where w1: "pay_E = Inr (r, w1)" by (rule exe_pay_ok)
  let ?c = "(exe_env 70 [adr_A], XcPay 0 adr_E 100 proof_demo zero32 1)"
  have "exe_invoke ?c exe_ready = Inr w1" using w1 by (simp add: exe_invoke_def)
  then have run: "w1 = run_calls exe_invoke (exe_setup @ [?c]) exe_blank" by (simp add: transact_def)
  note ev = exe_paid_events [OF w1, unfolded exe_ready_events]
  have reps: "list_all2 (represents (wire_libs (exe_events w1)) (\<lambda>_. ScAccount [])) (exe_events w1) (wire_from 0 (exe_events w1))"
    unfolding ev by (simp add: represents_def wire_libs_def decode_scval_def demo_libs_def upt_rec_numeral Let_def)
  let ?e = "demo_cli\<lparr>rpc_reply := Some \<lparr>rpc_result = Some (wire_from 0 (exe_events w1)), rpc_error = None\<rparr>\<rparr>"
  have "rpc_reply ?e = Some \<lparr>rpc_result = Some (wire_from 0 (exe_events w1)), rpc_error = None\<rparr>" by simp
  from reconcile_misses_executor_payments [OF exe_blank_ok run this reps, of "''0''" demo_machine]
  have "fetch_payroll_events (wire_libs (exe_events w1)) ?e ''0'' = Inr []" by blast
  moreover have "payment_log (exe w1) \<noteq> []"
    by (simp add: payment_log_def ev logged_def List.map_filter_def announced_def)
  ultimately show ?thesis using w1 by blast
qed

end
