(* ===== verification/Cli_Amounts.thy ===== *)
theory Cli_Amounts
  imports Cli_Client Payroll_Config "HOL-Library.Log_Nat"
begin

text \<open>
  \<open>stroops_to_xlm_display\<close> of \<open>cli/src/reconcile.rs\<close>: an amount is converted to a double, divided by ten
  million in double precision and printed with three decimals. The doubles that occur are finite and
  normal, so a double is its exact value; conversion and division round to 53 significant bits, to the
  nearest, and to even in a tie, and so does the printing to thousandths.
\<close>

section \<open>Rounding\<close>

definition round_half_even :: "nat \<Rightarrow> nat \<Rightarrow> nat" where
  "round_half_even p q = (let d = p div q; r = p mod q in if 2 * r < q \<or> 2 * r = q \<and> even d then d else d + 1)"

text \<open>\<open>stroops as f64\<close> for a natural number, as the integer that the double represents.\<close>

definition nat_as_f64 :: "nat \<Rightarrow> nat" where
  "nat_as_f64 n = (if n < 2 ^ 53 then n
     else let e = floorlog 2 n - 53 in round_half_even n (2 ^ e) * 2 ^ e)"

text \<open>How often a quotient is doubled until it has 53 bits.\<close>

function quotient_shift :: "nat \<Rightarrow> nat \<Rightarrow> nat" where
  "quotient_shift p q = (if 0 < p \<and> p < 2 ^ 52 * q then Suc (quotient_shift (2 * p) q) else 0)"
  by auto
termination by (relation "measure (\<lambda>(p, q). 2 ^ 52 * q - p)") auto

declare quotient_shift.simps [simp del]

text \<open>The division of two integers in double precision, as a fraction.\<close>

definition f64_div :: "nat \<Rightarrow> nat \<Rightarrow> nat \<times> nat" where
  "f64_div p q =
     (if p div q < 2 ^ 53
      then let k = quotient_shift p q in (round_half_even (p * 2 ^ k) q, 2 ^ k)
      else let e = floorlog 2 (p div q) - 53 in (round_half_even p (q * 2 ^ e) * 2 ^ e, 1))"

section \<open>The display\<close>

definition STROOPS_PER_XLM :: nat where
  "STROOPS_PER_XLM = 10000000"

definition thousandths :: "i128 \<Rightarrow> nat" where
  "thousandths stroops =
     (case f64_div (nat_as_f64 (nat \<bar>stroops\<bar>)) STROOPS_PER_XLM of (a, b) \<Rightarrow> round_half_even (1000 * a) b)"

definition digits3 :: "nat \<Rightarrow> string" where
  "digits3 n = [char_of (48 + n div 100 mod 10), char_of (48 + n div 10 mod 10), char_of (48 + n mod 10)]"

definition stroops_to_xlm_display :: "i128 \<Rightarrow> string" where
  "stroops_to_xlm_display stroops =
     (let t = thousandths stroops in
      (if stroops < 0 then ''-'' else []) @ show_nat (t div 1000) @ ''.'' @ digits3 (t mod 1000) @ '' XLM'')"

text \<open>The text of a payment narrative; the dots after the name are the one character U+2026.\<close>

definition narrative_text :: "narrative \<Rightarrow> string" where
  "narrative_text n = ''On '' @ na_date n @ '', paid '' @ na_name n @ map char_of [0xE2, 0x80, 0xA6 :: nat] @ '' '' @
     stroops_to_xlm_display (na_amount n) @ '' (period '' @ show_nat (unat (na_period n)) @ '')''"

section \<open>The displayed amount is the nearest number of thousandths\<close>

lemma round_half_even_near:
  assumes "0 < q"
  shows "2 * (round_half_even p q * q) \<le> 2 * p + q \<and> 2 * p \<le> 2 * (round_half_even p q * q) + q"
proof -
  define d r where "d = p div q" and "r = p mod q"
  have p: "p = d * q + r" "r < q" using assms by (simp_all add: d_def r_def)
  have "round_half_even p q = (if 2 * r < q \<or> 2 * r = q \<and> even d then d else d + 1)"
    by (simp add: round_half_even_def Let_def d_def r_def)
  then show ?thesis using p by (auto simp: algebra_simps)
qed

lemma quotient_shift_bits: "0 < p \<Longrightarrow> 2 ^ 52 * q \<le> p * 2 ^ quotient_shift p q"
proof (induction p q rule: quotient_shift.induct)
  case (1 p q)
  then show ?case by (subst quotient_shift.simps) (auto simp: algebra_simps)
qed

text \<open>C35. For amounts below \<open>2^53\<close> stroops, some nine hundred million XLM, the two roundings of the
  floating-point conversion never show: the number of thousandths that the report prints is a nearest
  one to the exact amount, at most half a thousandth of an XLM (5000 stroops) away.\<close>

theorem displayed_amount_nearest:
  assumes "\<bar>stroops\<bar> < 2 ^ 53"
  shows "\<bar>10000 * int (thousandths stroops) - \<bar>stroops\<bar>\<bar> \<le> 5000"
proof -
  define n where "n = nat \<bar>stroops\<bar>"
  have n: "int n = \<bar>stroops\<bar>" "n < 2 ^ 53" using assms by (simp_all add: n_def)
  let ?q = "STROOPS_PER_XLM" and ?k = "quotient_shift n STROOPS_PER_XLM"
  let ?m = "round_half_even (n * 2 ^ ?k) ?q"
  have d: "n div ?q < 2 ^ 53" using n(2) by (meson div_le_dividend le_less_trans)
  have t: "thousandths stroops = round_half_even (1000 * ?m) (2 ^ ?k)"
    using n(2) d by (simp add: thousandths_def f64_div_def nat_as_f64_def Let_def flip: n_def)
  have m: "2 * (?m * ?q) \<le> 2 * (n * 2 ^ ?k) + ?q" "2 * (n * 2 ^ ?k) \<le> 2 * (?m * ?q) + ?q"
    using round_half_even_near [of ?q "n * 2 ^ ?k"] by (simp_all add: STROOPS_PER_XLM_def)
  have r: "2 * (thousandths stroops * 2 ^ ?k) \<le> 2 * (1000 * ?m) + 2 ^ ?k" "2 * (1000 * ?m) \<le> 2 * (thousandths stroops * 2 ^ ?k) + 2 ^ ?k"
    using round_half_even_near [of "2 ^ ?k" "1000 * ?m"] t by simp_all
  show ?thesis
  proof (cases "n = 0")
    case True
    then have "thousandths stroops = 0" unfolding t by (simp add: round_half_even_def quotient_shift.simps STROOPS_PER_XLM_def)
    with True n(1) show ?thesis by simp
  next
    case False
    have "2 ^ 52 * ?q \<le> n * 2 ^ ?k" using False by (intro quotient_shift_bits) simp
    also have "\<dots> < 2 ^ 53 * 2 ^ ?k" using n(2) by simp
    finally have k: "(10000000 :: nat) < 2 * 2 ^ ?k" by (simp add: STROOPS_PER_XLM_def)
    let ?T = "thousandths stroops"
    have "10000 * (?T * 2 ^ ?k) < n * 2 ^ ?k + 5001 * 2 ^ ?k" "n * 2 ^ ?k < 10000 * (?T * 2 ^ ?k) + 5001 * 2 ^ ?k"
      using m r k by (simp_all add: STROOPS_PER_XLM_def)
    then have "(10000 * ?T) * 2 ^ ?k < (n + 5001) * 2 ^ ?k" "n * 2 ^ ?k < (10000 * ?T + 5001) * 2 ^ ?k" by (simp_all add: algebra_simps)
    then have "10000 * ?T < n + 5001" "n < 10000 * ?T + 5001" by (simp_all only: mult_less_cancel2)
    with n(1) show ?thesis by linarith
  qed
qed

theorem displayed_amount_nearest_witness:
  "\<bar>10000 * int (thousandths 123456789) - 123456789\<bar> \<le> 5000"
  using displayed_amount_nearest [of 123456789] by simp

text \<open>The examples of the source.\<close>

lemma stroops_to_xlm_display_formats_correctly:
  "stroops_to_xlm_display 10000000 = ''1.000 XLM''" "stroops_to_xlm_display 50000000 = ''5.000 XLM''"
  "stroops_to_xlm_display 123456789 = ''12.346 XLM''" "stroops_to_xlm_display (-1) = ''-0.000 XLM''"
  by (simp_all add: stroops_to_xlm_display_def thousandths_def f64_div_def nat_as_f64_def STROOPS_PER_XLM_def quotient_shift.simps
      round_half_even_def show_nat.simps digits3_def char_of_def bit_0 Let_def)

end
