(* ===== verification/Payroll_Ledger.thy ===== *)
theory Payroll_Ledger
  imports Payroll_Calls Executor_Histories Audit_Histories
begin

text \<open>
  The contracts together, as the host runs them. The state is a table of deployed contracts of each
  kind; a call names the contract it goes to, runs with the tables of the same ledger as its
  environment, and either changes the ledger or fails and leaves it as it was. What a single contract
  does on its own is shown in the theories of the contracts; here is shown that inside the ledger
  every contract does nothing else, so that those theorems hold of the composed system.
\<close>

section \<open>The ledger\<close>

record ledger =
  managers :: "address \<rightharpoonup> pause_manager"
  token_contracts :: "address \<rightharpoonup> token"
  verifier_contracts :: "address \<rightharpoonup> proof_verifier"
  salary_ledgers :: "address \<rightharpoonup> salary_commitment"
  registry_contracts :: "address \<rightharpoonup> registry"
  executors :: "address \<rightharpoonup> executor"
  payrolls :: "address \<rightharpoonup> payroll"
  audits :: "address \<rightharpoonup> audit"

datatype token_call = TkMint address i128 | TkTransfer address address i128

definition token_invoke :: "token_call \<Rightarrow> token \<Rightarrow> token outcome" where
  "token_invoke c t = (case c of TkMint a m \<Rightarrow> mint a m t | TkTransfer a b m \<Rightarrow> transfer a b m t)"

datatype ledger_call =
    ToManager address pm_call
  | ToToken address token_call
  | ToVerifier address pv_call
  | ToSalary address sc_call
  | ToRegistry address reg_call
  | ToExecutor address exe_call
  | ToPayroll address payroll_call
  | ToAudit address au_call

text \<open>The environments of an invocation of the contract at \<open>a\<close>: time and authorizations are those of the
  transaction, the contracts it can read are those of the ledger.\<close>

definition env_at :: "env \<Rightarrow> address \<Rightarrow> env" where
  "env_at e a = e\<lparr>current_contract := a\<rparr>"

definition penv_at :: "env \<Rightarrow> address \<Rightarrow> ledger \<Rightarrow> penv" where
  "penv_at e a L = env.extend (env_at e a) \<lparr>pause_managers = managers L\<rparr>"

definition venv_at :: "env \<Rightarrow> address \<Rightarrow> ledger \<Rightarrow> venv" where
  "venv_at e a L = penv.extend (penv_at e a L) \<lparr>verifiers = verifier_contracts L\<rparr>"

definition xenv_at :: "env \<Rightarrow> address \<Rightarrow> ledger \<Rightarrow> xenv" where
  "xenv_at e a L = venv.extend (venv_at e a L) \<lparr>registries = registry_contracts L, salary_contracts = salary_ledgers L\<rparr>"

text \<open>A call to an entry of a table; the kind of the fault is of no interest here.\<close>

definition invoke_entry :: "(address \<rightharpoonup> 's) \<Rightarrow> address \<Rightarrow> ('s \<Rightarrow> 'r + 't) \<Rightarrow> unit + 't" where
  "invoke_entry tbl a f = (case tbl a of
     None \<Rightarrow> Inl ()
   | Some s \<Rightarrow> (case f s of Inl _ \<Rightarrow> Inl () | Inr s' \<Rightarrow> Inr s'))"

text \<open>\<open>XcTokensMove\<close> and \<open>PcOutside\<close> are no entry points; they stand for activity outside the contract,
  which the ledger makes explicit.\<close>

definition exe_entry_point :: "exe_call \<Rightarrow> bool" where
  "exe_entry_point c = (case c of XcTokensMove _ \<Rightarrow> False | _ \<Rightarrow> True)"

definition payroll_entry_point :: "payroll_call \<Rightarrow> bool" where
  "payroll_entry_point c = (case c of PcOutside _ _ \<Rightarrow> False | _ \<Rightarrow> True)"

definition exe_view :: "address \<Rightarrow> ledger \<Rightarrow> executor_world option" where
  "exe_view a L = map_option (\<lambda>s. \<lparr>exe = s, pe_tokens = token_contracts L\<rparr>) (executors L a)"

definition payroll_view :: "address \<Rightarrow> ledger \<Rightarrow> world option" where
  "payroll_view a L =
     map_option (\<lambda>s. \<lparr>pay = s, tokens = token_contracts L, commitment_contracts = salary_ledgers L\<rparr>) (payrolls L a)"

definition ledger_invoke :: "env \<times> ledger_call \<Rightarrow> ledger \<Rightarrow> unit + ledger" where
  "ledger_invoke c L = (case c of (e, call) \<Rightarrow> (case call of
     ToManager a k \<Rightarrow> and_then (invoke_entry (managers L) a (pm_invoke (env_at e a, k))) (\<lambda>s.
       Inr (L\<lparr>managers := (managers L)(a \<mapsto> s)\<rparr>))
   | ToToken a k \<Rightarrow> and_then (invoke_entry (token_contracts L) a (token_invoke k)) (\<lambda>s.
       Inr (L\<lparr>token_contracts := (token_contracts L)(a \<mapsto> s)\<rparr>))
   | ToVerifier a k \<Rightarrow> and_then (invoke_entry (verifier_contracts L) a (pv_invoke (env_at e a, k))) (\<lambda>s.
       Inr (L\<lparr>verifier_contracts := (verifier_contracts L)(a \<mapsto> s)\<rparr>))
   | ToSalary a k \<Rightarrow> and_then (invoke_entry (salary_ledgers L) a (sc_invoke (penv_at e a L, k))) (\<lambda>s.
       Inr (L\<lparr>salary_ledgers := (salary_ledgers L)(a \<mapsto> s)\<rparr>))
   | ToRegistry a k \<Rightarrow> and_then (invoke_entry (registry_contracts L) a (reg_invoke (penv_at e a L, k))) (\<lambda>s.
       Inr (L\<lparr>registry_contracts := (registry_contracts L)(a \<mapsto> s)\<rparr>))
   | ToExecutor a k \<Rightarrow>
       and_then (fail_if (\<not> exe_entry_point k) ()) (\<lambda>_.
       and_then (invoke_entry (\<lambda>a. exe_view a L) a (exe_invoke (xenv_at e a L, k))) (\<lambda>w.
       Inr (L\<lparr>executors := (executors L)(a \<mapsto> exe w), token_contracts := pe_tokens w\<rparr>)))
   | ToPayroll a k \<Rightarrow>
       and_then (fail_if (\<not> payroll_entry_point k) ()) (\<lambda>_.
       and_then (invoke_entry (\<lambda>a. payroll_view a L) a (payroll_invoke (venv_at e a L, k))) (\<lambda>w.
       Inr (L\<lparr>payrolls := (payrolls L)(a \<mapsto> pay w), token_contracts := tokens w,
         salary_ledgers := commitment_contracts w\<rparr>)))
   | ToAudit a k \<Rightarrow> and_then (invoke_entry (audits L) a (au_invoke (penv_at e a L, k))) (\<lambda>s.
       Inr (L\<lparr>audits := (audits L)(a \<mapsto> s)\<rparr>))))"

lemma invoke_entry_ok [simp]:
  "invoke_entry tbl a f = Inr t \<longleftrightarrow> (\<exists>s. tbl a = Some s \<and> f s = Inr t)"
  by (auto simp: invoke_entry_def split: option.splits sum.splits)

lemma view_SomeE:
  assumes "exe_view a L = Some w"
  shows "executors L a = Some (exe w) \<and> pe_tokens w = token_contracts L"
  using assms by (auto simp: exe_view_def)

lemma payroll_view_SomeE:
  assumes "payroll_view a L = Some w"
  shows "payrolls L a = Some (pay w) \<and> tokens w = token_contracts L \<and> commitment_contracts w = salary_ledgers L"
  using assms by (auto simp: payroll_view_def)

text \<open>What a successful call is, contract by contract.\<close>

lemma ledger_invoke_cases [consumes 1, case_names manager token verifier salary registry executor payroll audit]:
  assumes "ledger_invoke (e, c) L = Inr L'"
  obtains a k s s' where "c = ToManager a k" "managers L a = Some s" "pm_invoke (env_at e a, k) s = Inr s'"
      "L' = L\<lparr>managers := (managers L)(a \<mapsto> s')\<rparr>"
  | a k s s' where "c = ToToken a k" "token_contracts L a = Some s" "token_invoke k s = Inr s'"
      "L' = L\<lparr>token_contracts := (token_contracts L)(a \<mapsto> s')\<rparr>"
  | a k s s' where "c = ToVerifier a k" "verifier_contracts L a = Some s" "pv_invoke (env_at e a, k) s = Inr s'"
      "L' = L\<lparr>verifier_contracts := (verifier_contracts L)(a \<mapsto> s')\<rparr>"
  | a k s s' where "c = ToSalary a k" "salary_ledgers L a = Some s" "sc_invoke (penv_at e a L, k) s = Inr s'"
      "L' = L\<lparr>salary_ledgers := (salary_ledgers L)(a \<mapsto> s')\<rparr>"
  | a k s s' where "c = ToRegistry a k" "registry_contracts L a = Some s" "reg_invoke (penv_at e a L, k) s = Inr s'"
      "L' = L\<lparr>registry_contracts := (registry_contracts L)(a \<mapsto> s')\<rparr>"
  | a k w w' where "c = ToExecutor a k" "exe_entry_point k" "exe_view a L = Some w" "exe_invoke (xenv_at e a L, k) w = Inr w'"
      "L' = L\<lparr>executors := (executors L)(a \<mapsto> exe w'), token_contracts := pe_tokens w'\<rparr>"
  | a k w w' where "c = ToPayroll a k" "payroll_entry_point k" "payroll_view a L = Some w"
      "payroll_invoke (venv_at e a L, k) w = Inr w'"
      "L' = L\<lparr>payrolls := (payrolls L)(a \<mapsto> pay w'), token_contracts := tokens w', salary_ledgers := commitment_contracts w'\<rparr>"
  | a k s s' where "c = ToAudit a k" "audits L a = Some s" "au_invoke (penv_at e a L, k) s = Inr s'"
      "L' = L\<lparr>audits := (audits L)(a \<mapsto> s')\<rparr>"
  using assms by (cases c) (fastforce simp: ledger_invoke_def)+

section \<open>Contracts inside the ledger\<close>

text \<open>A part of the ledger that changes only by histories of calls of its own.\<close>

locale ledger_component =
  fixes invoke :: "'c \<Rightarrow> 's \<Rightarrow> 'r + 's" and view :: "ledger \<Rightarrow> 's option"
  assumes step: "ledger_invoke c L = Inr L' \<Longrightarrow> view L = Some s \<Longrightarrow> \<exists>cs. view L' = Some (run_calls invoke cs s)"
begin

lemma history:
  assumes "view L = Some s"
  shows "\<exists>cs'. view (run_calls ledger_invoke cs L) = Some (run_calls invoke cs' s)"
proof (rule run_calls_invariant [where I = "\<lambda>L'. \<exists>cs'. view L' = Some (run_calls invoke cs' s)"])
  show "\<exists>cs'. view L = Some (run_calls invoke cs' s)" using assms by (intro exI [of _ "[]"]) simp
next
  fix c L1 L2
  assume "\<exists>cs'. view L1 = Some (run_calls invoke cs' s)" "ledger_invoke c L1 = Inr L2"
  then obtain cs1 cs2 where "view L2 = Some (run_calls invoke cs2 (run_calls invoke cs1 s))" using step by blast
  then show "\<exists>cs'. view L2 = Some (run_calls invoke cs' s)" by (metis run_calls_append)
qed

text \<open>An invariant of the contract alone is an invariant in the ledger.\<close>

lemma invariant:
  assumes "\<And>c s s'. I s \<Longrightarrow> invoke c s = Inr s' \<Longrightarrow> I s'" "view L = Some s" "I s"
  shows "\<exists>s'. view (run_calls ledger_invoke cs L) = Some s' \<and> I s'"
proof -
  obtain cs' where "view (run_calls ledger_invoke cs L) = Some (run_calls invoke cs' s)" using history [OF assms(2)] by blast
  moreover have "I (run_calls invoke cs' s)" by (rule run_calls_invariant [where I = I and f = invoke]) (use assms(1,3) in blast)+
  ultimately show ?thesis by blast
qed

end

lemma one_call: "invoke c s = Inr s' \<Longrightarrow> run_calls invoke [c] s = s'"
  by (simp add: transact_def)

text \<open>The proof obligation of the contracts that only their own calls change.\<close>

lemma own_calls_only:
  assumes "view L' = view L \<or> (\<exists>c s s'. view L = Some s \<and> invoke c s = Inr s' \<and> view L' = Some s')" "view L = Some s"
  shows "\<exists>cs. view L' = Some (run_calls invoke cs s)"
  using assms one_call [of invoke] by (metis option.inject run_calls.simps(1))

interpretation in_ledger_manager: ledger_component pm_invoke "\<lambda>L. managers L a" for a
proof (unfold_locales, rule own_calls_only)
  fix c L L'
  assume "ledger_invoke c L = Inr L'"
  then show "managers L' a = managers L a \<or> (\<exists>c s s'. managers L a = Some s \<and> pm_invoke c s = Inr s' \<and> managers L' a = Some s')"
    by (cases c) (fastforce elim!: ledger_invoke_cases)
qed

interpretation in_ledger_verifier: ledger_component pv_invoke "\<lambda>L. verifier_contracts L a" for a
proof (unfold_locales, rule own_calls_only)
  fix c L L'
  assume "ledger_invoke c L = Inr L'"
  then show "verifier_contracts L' a = verifier_contracts L a \<or>
      (\<exists>c s s'. verifier_contracts L a = Some s \<and> pv_invoke c s = Inr s' \<and> verifier_contracts L' a = Some s')"
    by (cases c) (fastforce elim!: ledger_invoke_cases)
qed

interpretation in_ledger_registry: ledger_component reg_invoke "\<lambda>L. registry_contracts L a" for a
proof (unfold_locales, rule own_calls_only)
  fix c L L'
  assume "ledger_invoke c L = Inr L'"
  then show "registry_contracts L' a = registry_contracts L a \<or>
      (\<exists>c s s'. registry_contracts L a = Some s \<and> reg_invoke c s = Inr s' \<and> registry_contracts L' a = Some s')"
    by (cases c) (fastforce elim!: ledger_invoke_cases)
qed

interpretation in_ledger_audit: ledger_component au_invoke "\<lambda>L. audits L a" for a
proof (unfold_locales, rule own_calls_only)
  fix c L L'
  assume "ledger_invoke c L = Inr L'"
  then show "audits L' a = audits L a \<or> (\<exists>c s s'. audits L a = Some s \<and> au_invoke c s = Inr s' \<and> audits L' a = Some s')"
    by (cases c) (fastforce elim!: ledger_invoke_cases)
qed

text \<open>For the executor and the payroll contract, what the others do to the tokens and to the commitment
  contracts is the outside activity of their histories.\<close>

lemma exe_view_outside:
  assumes "executors L' a = executors L a" "exe_view a L = Some w"
  shows "exe_view a L' = Some (run_calls exe_invoke [(x, XcTokensMove (token_contracts L'))] w)"
  using assms by (auto simp: exe_view_def transact_def exe_invoke_def)

lemma payroll_view_outside:
  assumes "payrolls L' a = payrolls L a" "payroll_view a L = Some w"
  shows "payroll_view a L' = Some (run_calls payroll_invoke [(v, PcOutside (token_contracts L') (salary_ledgers L'))] w)"
  using assms by (auto simp: payroll_view_def transact_def payroll_invoke_def)

interpretation in_ledger_executor: ledger_component exe_invoke "exe_view a" for a
proof
  fix c L L' w
  assume inv: "ledger_invoke c L = Inr L'" and w: "exe_view a L = Some w"
  obtain e k where c: "c = (e, k)" by (cases c)
  show "\<exists>cs. exe_view a L' = Some (run_calls exe_invoke cs w)"
  proof (cases "executors L' a = executors L a")
    case True
    with exe_view_outside w show ?thesis by blast
  next
    case False
    with inv [unfolded c] obtain j w1 w' where "exe_view a L = Some w1" "exe_invoke (xenv_at e a L, j) w1 = Inr w'" "exe_view a L' = Some w'"
      by (cases rule: ledger_invoke_cases) (auto simp: exe_view_def split: if_splits)
    then have "exe_invoke (xenv_at e a L, j) w = Inr w'" "exe_view a L' = Some w'" using w by simp_all
    then show ?thesis using one_call [of exe_invoke] by metis
  qed
qed

interpretation in_ledger_payroll: ledger_component payroll_invoke "payroll_view a" for a
proof
  fix c L L' w
  assume inv: "ledger_invoke c L = Inr L'" and w: "payroll_view a L = Some w"
  obtain e k where c: "c = (e, k)" by (cases c)
  show "\<exists>cs. payroll_view a L' = Some (run_calls payroll_invoke cs w)"
  proof (cases "payrolls L' a = payrolls L a")
    case True
    with payroll_view_outside w show ?thesis by blast
  next
    case False
    with inv [unfolded c] obtain j w1 w' where "payroll_view a L = Some w1" "payroll_invoke (venv_at e a L, j) w1 = Inr w'"
      "payroll_view a L' = Some w'"
      by (cases rule: ledger_invoke_cases) (auto simp: payroll_view_def split: if_splits)
    then have "payroll_invoke (venv_at e a L, j) w = Inr w'" "payroll_view a L' = Some w'" using w by simp_all
    then show ?thesis using one_call [of payroll_invoke] by metis
  qed
qed

text \<open>The payroll contract calls into a commitment contract: every round of a batch records a nullifier and
  locks a commitment there. These are calls of the commitment contract like any other.\<close>

definition salary_history :: "(address \<rightharpoonup> salary_commitment) \<Rightarrow> (address \<rightharpoonup> salary_commitment) \<Rightarrow> bool" where
  "salary_history cc cc' \<longleftrightarrow> (\<forall>a s. cc a = Some s \<longrightarrow> (\<exists>cs. cc' a = Some (run_calls sc_invoke cs s)))"

lemma salary_history_refl: "salary_history cc cc"
  unfolding salary_history_def by (metis run_calls.simps(1))

lemma salary_history_trans: "salary_history x y \<Longrightarrow> salary_history y z \<Longrightarrow> salary_history x z"
  unfolding salary_history_def by (metis run_calls_append)

lemma salary_history_call:
  assumes "cc a = Some s" "sc_invoke c s = Inr s'"
  shows "salary_history cc (cc(a \<mapsto> s'))"
  using assms one_call [of sc_invoke] unfolding salary_history_def
  by (metis fun_upd_apply option.inject run_calls.simps(1))

lemma truncated_auth: "require_auth (penv.truncate e) = require_auth e" for e :: venv
  by (simp add: fun_eq_iff require_auth_def penv.defs)

lemma truncated_guards:
  "sc_require_not_paused (penv.truncate e) s = sc_require_not_paused e s"
  "require_admin_or_operator (penv.truncate e) s = require_admin_or_operator e s" "timestamp (penv.truncate e) = timestamp e" for e :: venv
  by (simp add: sc_require_not_paused_def penv.defs pause_guard_def split: option.split,
      simp only: require_admin_or_operator_def truncated_auth, simp add: penv.defs)

lemma lock_commitment_call: "lock_commitment_updates e a s = (Inr s' :: salary_commitment outcome) \<Longrightarrow> sc_invoke (penv.truncate e, ScLock a) s = Inr s'" for e :: venv
  by (simp add: sc_invoke_def lock_commitment_updates_def truncated_guards)

lemma nullifier_call: "record_nullifier e n s = (Inr s' :: salary_commitment outcome) \<Longrightarrow> sc_invoke (penv.truncate e, ScNullifier n) s = Inr s'" for e :: venv
  by (simp add: sc_invoke_def record_nullifier_def truncated_guards)

lemma pay_employee_salary:
  assumes "pay_employee e addrs i prf m emp w = Inr w'"
  shows "salary_history (commitment_contracts w) (commitment_contracts w')"
proof -
  let ?a = "ca_commitment addrs"
  from assms obtain cc cc1 cc2 where c: "commitment_contracts w ?a = Some cc"
    "record_nullifier (invoked_by_self e) (batch_nullifier i) cc = (Inr cc1 :: salary_commitment outcome)"
    "lock_commitment_updates (invoked_by_self e) emp cc1 = (Inr cc2 :: salary_commitment outcome)"
    and w': "commitment_contracts w' = (commitment_contracts w)(?a \<mapsto> cc2)"
    by (auto simp: pay_employee_def Let_def token_transfer_def)
  have "salary_history (commitment_contracts w) ((commitment_contracts w)(?a \<mapsto> cc1))"
    using c(1) nullifier_call [OF c(2)] by (rule salary_history_call)
  moreover have "salary_history ((commitment_contracts w)(?a \<mapsto> cc1)) ((commitment_contracts w)(?a \<mapsto> cc1, ?a \<mapsto> cc2))"
    by (rule salary_history_call [OF _ lock_commitment_call [OF c(3)]]) simp
  ultimately show ?thesis using salary_history_trans w' by fastforce
qed

lemma pay_employees_salary:
  "pay_employees e addrs i prfs ms es w = Inr w' \<Longrightarrow> salary_history (commitment_contracts w) (commitment_contracts w')"
  by (induction e addrs i prfs ms es w rule: pay_employees.induct)
    (fastforce intro: salary_history_refl salary_history_trans dest: pay_employee_salary)+

lemma payroll_salary_history:
  assumes "payroll_invoke (e, k) w = Inr w'" "payroll_entry_point k"
  shows "salary_history (commitment_contracts w) (commitment_contracts w')"
proof (cases k)
  case (PcBatch ps ms es x n d)
  then show ?thesis using assms(1)
    by (auto simp: payroll_invoke_def batch_process_payroll_def Let_def dest!: pay_employees_salary)
qed (use assms in \<open>auto simp: payroll_invoke_def payroll_entry_point_def deposit_def request_emergency_withdrawal_def
    approve_emergency_withdrawal_def token_transfer_def Let_def salary_history_refl\<close>)

interpretation in_ledger_salary: ledger_component sc_invoke "\<lambda>L. salary_ledgers L a" for a
proof
  fix c L L' s
  assume inv: "ledger_invoke c L = Inr L'" and s: "salary_ledgers L a = Some s"
  obtain e k where c: "c = (e, k)" by (cases c)
  from inv [unfolded c] have "salary_history (salary_ledgers L) (salary_ledgers L')"
    by (cases rule: ledger_invoke_cases)
      (auto simp: salary_history_refl salary_history_call dest!: payroll_salary_history payroll_view_SomeE)
  with s show "\<exists>cs. salary_ledgers L' a = Some (run_calls sc_invoke cs s)" by (simp add: salary_history_def)
qed

section \<open>Tokens\<close>

text \<open>Outside of \<open>mint\<close>, tokens only move.\<close>

inductive moves :: "(address \<rightharpoonup> token) \<Rightarrow> (address \<rightharpoonup> token) \<Rightarrow> bool" where
  stay: "moves ts ts"
| move: "moves ts us \<Longrightarrow> us x = Some t \<Longrightarrow> transfer a b m t = (Inr t' :: token outcome) \<Longrightarrow> moves ts (us(x \<mapsto> t'))"

lemma moves_trans: "moves us vs \<Longrightarrow> moves ts us \<Longrightarrow> moves ts vs"
  by (induction rule: moves.induct) (auto intro: moves.intros)

lemma moves_once: "ts x = Some t \<Longrightarrow> transfer a b m t = (Inr t' :: token outcome) \<Longrightarrow> moves ts (ts(x \<mapsto> t'))"
  by (rule moves.move [OF moves.stay])

lemma pay_employee_moves: "pay_employee e addrs i prf m emp w = Inr w' \<Longrightarrow> moves (tokens w) (tokens w')"
  by (auto simp: pay_employee_def Let_def token_transfer_def intro: moves_once)

lemma pay_employees_moves: "pay_employees e addrs i prfs ms es w = Inr w' \<Longrightarrow> moves (tokens w) (tokens w')"
  by (induction e addrs i prfs ms es w rule: pay_employees.induct)
    (fastforce intro: moves.stay moves_trans dest: pay_employee_moves)+

lemma payroll_moves:
  assumes "payroll_invoke (e, k) w = Inr w'" "payroll_entry_point k"
  shows "moves (tokens w) (tokens w')"
proof (cases k)
  case (PcBatch ps ms es x n d)
  then show ?thesis using assms(1)
    by (auto simp: payroll_invoke_def batch_process_payroll_def Let_def dest!: pay_employees_moves)
qed (use assms in \<open>auto simp: payroll_invoke_def payroll_entry_point_def deposit_def request_emergency_withdrawal_def
    approve_emergency_withdrawal_def token_transfer_def Let_def intro: moves_once moves.stay\<close>)

lemma transfer_outcome: "transfer a b m t = Inr t' \<Longrightarrow> transfer a b m t = (Inr t' :: token outcome)"
  by (auto simp: transfer_def Let_def add_i128_def sub_i128_def split: if_splits)

lemma execute_payment_moves: "execute_payment e i m a p n k w = Inr (r, w') \<Longrightarrow> moves (pe_tokens w) (pe_tokens w')"
  by (erule execute_payment_okE) (auto intro: moves_once transfer_outcome)

lemma batch_loop_moves: "batch_loop e i ms as pas pbs pcs ns k is rs w = Inr (rs', w') \<Longrightarrow> moves (pe_tokens w) (pe_tokens w')"
  by (induction "is" arbitrary: rs w) (fastforce intro: moves.stay moves_trans dest!: execute_payment_moves)+

lemma executor_moves:
  assumes "exe_invoke (e, k) w = Inr w'" "exe_entry_point k"
  shows "moves (pe_tokens w) (pe_tokens w')"
proof (cases k)
  case (XcPay i m a p n l)
  then show ?thesis using assms(1) execute_payment_moves by (fastforce simp: exe_invoke_def)
next
  case (XcBatch i ms as pas pbs pcs ns l)
  then show ?thesis using assms(1) batch_loop_moves by (fastforce simp: exe_invoke_def execute_batch_payroll_def Let_def)
qed (use assms in \<open>auto simp: exe_invoke_def exe_entry_point_def on_exe_def intro: moves.stay\<close>)

end
