(* ===== verification/Ledger_Theorems.thy ===== *)
theory Ledger_Theorems
  imports Payroll_Ledger Payroll_Frames
begin

text \<open>
  Properties of the contracts together: the component theorems carry over to the ledger, a paused
  manager stops every payment of the contracts it guards, payments refer to registered companies and
  stored commitments, and tokens are created by \<open>mint\<close> only.
\<close>

section \<open>The ledger refines its contracts\<close>

text \<open>Whatever history of calls the ledger runs, across all contracts and with the contracts reading
  and calling each other, the state of every contract with storage of its own beside the tokens is one that a history of its own calls
  reaches from its former state. Every property of a contract that holds over its own histories
  therefore holds in the composed system.\<close>

lemma ledger_refines_contracts:
  assumes "L' = run_calls ledger_invoke cs L"
  shows "(\<forall>s. managers L a = Some s \<longrightarrow> (\<exists>ks. managers L' a = Some (run_calls pm_invoke ks s))) \<and>
    (\<forall>s. verifier_contracts L a = Some s \<longrightarrow> (\<exists>ks. verifier_contracts L' a = Some (run_calls pv_invoke ks s))) \<and>
    (\<forall>s. salary_ledgers L a = Some s \<longrightarrow> (\<exists>ks. salary_ledgers L' a = Some (run_calls sc_invoke ks s))) \<and>
    (\<forall>s. registry_contracts L a = Some s \<longrightarrow> (\<exists>ks. registry_contracts L' a = Some (run_calls reg_invoke ks s))) \<and>
    (\<forall>s. audits L a = Some s \<longrightarrow> (\<exists>ks. audits L' a = Some (run_calls au_invoke ks s))) \<and>
    (\<forall>w. exe_view a L = Some w \<longrightarrow> (\<exists>ks. exe_view a L' = Some (run_calls exe_invoke ks w))) \<and>
    (\<forall>w. payroll_view a L = Some w \<longrightarrow> (\<exists>ks. payroll_view a L' = Some (run_calls payroll_invoke ks w)))"
  unfolding assms
  by (intro conjI allI impI; erule in_ledger_manager.history in_ledger_verifier.history in_ledger_salary.history
      in_ledger_registry.history in_ledger_audit.history in_ledger_executor.history in_ledger_payroll.history)

section \<open>Supply\<close>

definition total_supply :: "token \<Rightarrow> i128" where
  "total_supply t = (\<Sum>a \<in> dom (balances t). balance t a)"

lemma supply_superset: "finite A \<Longrightarrow> dom (balances t) \<subseteq> A \<Longrightarrow> total_supply t = sum (balance t) A"
  unfolding total_supply_def by (rule sum.mono_neutral_left) (auto simp: balance_def unwrap_or_def dom_def split: option.splits)

lemma transfer_supply:
  assumes "transfer a b m t = (Inr t' :: token outcome)" "finite (dom (balances t))"
  shows "total_supply t' = total_supply t \<and> finite (dom (balances t'))"
proof -
  let ?A = "insert a (insert b (dom (balances t)))"
  have d: "dom (balances t') \<subseteq> ?A" using assms(1) by (auto simp: transfer_def Let_def split: if_splits)
  have "sum (balance t') ?A = sum (balance t) ?A"
    by (rule tok.transfer_conserves [OF assms(1)]) (use assms(2) in auto)
  then have "total_supply t' = total_supply t" using d assms(2) by (simp add: supply_superset [of ?A] subset_insertI2)
  then show ?thesis using d assms(2) finite_subset by blast
qed

lemma mint_supply:
  assumes "mint a m t = (Inr t' :: token outcome)" "finite (dom (balances t))"
  shows "total_supply t' = total_supply t + m \<and> finite (dom (balances t')) \<and> 0 \<le> m"
proof -
  let ?A = "insert a (dom (balances t))"
  have t': "t' = t\<lparr>balances := (balances t)(a \<mapsto> balance t a + m)\<rparr>" "0 \<le> m"
    using assms(1) by (auto simp: mint_def balance_def)
  have "balance t' = (balance t)(a := balance t a + m)" by (auto simp: t' balance_def unwrap_or_def)
  then have "sum (balance t') ?A = sum (balance t) ?A - balance t a + (balance t a + m)"
    using assms(2) by (simp only: sum_fun_upd finite_insert insertI1)
  then show ?thesis using t' assms(2) by (simp add: supply_superset [of ?A] subset_insertI)
qed

lemma moves_supply:
  assumes "moves ts us" "ts x = Some t" "finite (dom (balances t))"
  shows "\<exists>t'. us x = Some t' \<and> total_supply t' = total_supply t \<and> finite (dom (balances t'))"
  using assms by (induction rule: moves.induct) (auto simp: transfer_supply)

text \<open>The amounts of the successful \<open>mint\<close> calls of a history.\<close>

definition mint_amount :: "address \<Rightarrow> env \<times> ledger_call \<Rightarrow> ledger \<Rightarrow> i128" where
  "mint_amount x c L = (case (snd c, ledger_invoke c L) of
     (ToToken a (TkMint b m), Inr _) \<Rightarrow> if a = x then m else 0
   | _ \<Rightarrow> 0)"

primrec minted :: "address \<Rightarrow> (env \<times> ledger_call) list \<Rightarrow> ledger \<Rightarrow> i128" where
  "minted x [] L = 0"
| "minted x (c # cs) L = mint_amount x c L + minted x cs (transact ledger_invoke c L)"

lemma step_supply:
  assumes "ledger_invoke (e, c) L = Inr L'" "token_contracts L x = Some t" "finite (dom (balances t))"
  shows "\<exists>t'. token_contracts L' x = Some t' \<and> total_supply t' = total_supply t + mint_amount x (e, c) L \<and> finite (dom (balances t')) \<and>
    0 \<le> mint_amount x (e, c) L"
  using assms(1)
proof (cases rule: ledger_invoke_cases)
  case (token a k s s')
  show ?thesis
  proof (cases k)
    case (TkMint b m)
    then have "mint b m s = (Inr s' :: token outcome)" using token(3) by (simp add: token_invoke_def)
    moreover have "mint_amount x (e, c) L = (if a = x then m else 0)" using token(1) TkMint assms(1) by (simp add: mint_amount_def)
    ultimately show ?thesis using token(2,4) assms(2,3) mint_supply [of b m s s'] by auto
  next
    case (TkTransfer b d m)
    then have "transfer b d m s = (Inr s' :: token outcome)" using token(3) by (simp add: token_invoke_def)
    moreover have "mint_amount x (e, c) L = 0" using token(1) TkTransfer by (simp add: mint_amount_def)
    ultimately show ?thesis using token(2,4) assms(2,3) transfer_supply [of b d m s s'] by auto
  qed
next
  case (executor a k w w')
  with executor_moves view_SomeE have "moves (token_contracts L) (token_contracts L')" by fastforce
  with moves_supply [OF this assms(2,3)] executor(1) show ?thesis by (simp add: mint_amount_def)
next
  case (payroll a k w w')
  with payroll_moves payroll_view_SomeE have "moves (token_contracts L) (token_contracts L')" by fastforce
  with moves_supply [OF this assms(2,3)] payroll(1) show ?thesis by (simp add: mint_amount_def)
qed (use assms in \<open>auto simp: mint_amount_def\<close>)

text \<open>C8. No payment, deposit, withdrawal or batch of any contract creates or destroys tokens: after any
  history of the ledger the sum of all balances of a token has grown by exactly the amounts minted.\<close>

theorem tokens_created_by_mint_only:
  assumes "token_contracts L x = Some t" "finite (dom (balances t))"
  shows "\<exists>t'. token_contracts (run_calls ledger_invoke cs L) x = Some t' \<and> total_supply t' = total_supply t + minted x cs L \<and> 0 \<le> minted x cs L"
proof -
  have "\<exists>t'. token_contracts (run_calls ledger_invoke cs L) x = Some t' \<and> total_supply t' = total_supply t + minted x cs L \<and>
      0 \<le> minted x cs L \<and> finite (dom (balances t'))"
    using assms
  proof (induction cs arbitrary: L t)
    case Nil
    then show ?case by simp
  next
    case (Cons c cs)
    obtain e k where c: "c = (e, k)" by (cases c)
    have "\<exists>u. token_contracts (transact ledger_invoke c L) x = Some u \<and> total_supply u = total_supply t + mint_amount x c L \<and>
        finite (dom (balances u)) \<and> 0 \<le> mint_amount x c L"
    proof (cases "ledger_invoke c L")
      case (Inl y)
      then show ?thesis using Cons.prems by (auto simp: transact_def mint_amount_def split: ledger_call.split token_call.split)
    next
      case (Inr L')
      then show ?thesis using step_supply [of e k L L' x t] Cons.prems by (simp add: transact_def c)
    qed
    then obtain u where u: "token_contracts (transact ledger_invoke c L) x = Some u" "total_supply u = total_supply t + mint_amount x c L"
      "finite (dom (balances u))" "0 \<le> mint_amount x c L" by blast
    from Cons.IH [OF u(1,3)] u(2,4) show ?case by auto
  qed
  then show ?thesis by blast
qed

section \<open>Payments are backed by the registry and the commitments\<close>

text \<open>A payment of an executor whose company is registered and whose employee has a commitment, in the
  contracts that the executor was initialized with.\<close>

definition backed ::
  "(address \<rightharpoonup> registry) \<Rightarrow> (address \<rightharpoonup> salary_commitment) \<Rightarrow> executor \<Rightarrow> u64 \<times> address \<times> i128 \<times> u32 \<Rightarrow> bool" where
  "backed rs ss s p \<longleftrightarrow> (\<exists>addrs reg sc. pe_addresses s = Some addrs \<and>
     rs (xa_registry addrs) = Some reg \<and> companies reg (fst p) \<noteq> None \<and>
     ss (xa_commitment addrs) = Some sc \<and> commitments sc (fst (snd p)) \<noteq> None)"

abbreviation "all_backed rs ss s \<equiv> \<forall>p \<in> set (payment_log s). backed rs ss s p"

lemma backed_cong: "pe_addresses s' = pe_addresses s \<Longrightarrow> backed rs ss s' p = backed rs ss s p"
  by (simp add: backed_def)

lemma payment_backed:
  assumes "execute_payment (e :: xenv) i m a q n k w = Inr (r, w')" "all_backed (registries e) (salary_contracts e) (exe w)"
  shows "all_backed (registries e) (salary_contracts e) (exe w')"
proof -
  obtain addrs :: pe_ContractAddresses and pr :: PayrollPeriod and t' where "w' = w\<lparr>exe := paid_state e i m a n k pr (exe w), pe_tokens := (pe_tokens w)(xa_token addrs \<mapsto> t')\<rparr>"
    by (rule execute_payment_okE [OF assms(1)]) (rule that)
  then have "pe_addresses (exe w') = pe_addresses (exe w)" by (simp add: paid_state_def emits publish_def)
  moreover have "payment_log (exe w') = payment_log (exe w) @ [(i, m, a, k)]"
    by (rule payment_step_okE [OF assms(1)])
  moreover have "backed (registries e) (salary_contracts e) (exe w) (i, m, a, k)"
  proof -
    obtain addrs sc c reg co where "pe_addresses (exe w) = Some addrs" "salary_contracts e (xa_commitment addrs) = Some sc"
      "commitments sc m = Some c" "registries e (xa_registry addrs) = Some reg" "companies reg i = Some co"
      by (rule execute_payment_okE [OF assms(1)]) (rule that)
    then show ?thesis by (simp add: backed_def)
  qed
  ultimately show ?thesis using assms(2) backed_cong [of "exe w'" "exe w"] by auto
qed

lemma batch_backed:
  "batch_loop (e :: xenv) i ms as pas pbs pcs ns k is rs w = Inr (rs', w') \<Longrightarrow>
   all_backed (registries e) (salary_contracts e) (exe w) \<Longrightarrow> all_backed (registries e) (salary_contracts e) (exe w')"
proof (induction "is" arbitrary: rs w)
  case Nil
  then show ?case by simp
next
  case (Cons j js)
  from Cons.prems(1) obtain r w1 where p: "execute_payment e i (ms ! j) (as ! j) \<lparr>proof_a = pas ! j, proof_b = pbs ! j, proof_c = pcs ! j\<rparr> (ns ! j) k w = Inr (r, w1)"
    "batch_loop e i ms as pas pbs pcs ns k js (rs @ [r]) w1 = Inr (rs', w')" by auto
  from Cons.IH [OF p(2) payment_backed [OF p(1) Cons.prems(2)]] show ?case .
qed

definition pays :: "exe_call \<Rightarrow> bool" where
  "pays k = (case k of XcPay _ _ _ _ _ _ \<Rightarrow> True | XcBatch _ _ _ _ _ _ _ _ \<Rightarrow> True | _ \<Rightarrow> False)"

lemma other_call_log:
  assumes "exe_invoke (e, k) w = Inr w'" "\<not> pays k"
  shows "payment_log (exe w') = payment_log (exe w) \<and> (pe_addresses (exe w) = None \<or> pe_addresses (exe w') = pe_addresses (exe w))"
  using assms
  by (cases k) (auto simp: exe_invoke_def on_exe_def pays_def pe_initialize_def set_executor_admin_def pe_set_pause_manager_def
    pe_set_asset_allowed_def set_asset_decimals_def create_period_def close_period_def executor_admin_guard_def Let_def emits publish_def
    payment_log_def split: if_splits option.splits)

lemma executor_call_backed:
  assumes "exe_invoke (e, k) w = Inr w'" "all_backed (registries e) (salary_contracts e) (exe w)"
  shows "all_backed (registries e) (salary_contracts e) (exe w')"
proof (cases k)
  case (XcPay i m a p n l)
  then show ?thesis using assms payment_backed by (fastforce simp: exe_invoke_def)
next
  case (XcBatch i ms as pas pbs pcs ns l)
  then obtain rs where "batch_loop e i ms as pas pbs pcs ns l [0..<length ms] [] w = Inr (rs, w')"
    using assms(1) by (auto simp: exe_invoke_def execute_batch_payroll_def Let_def)
  from batch_backed [OF this assms(2)] show ?thesis .
qed (use assms other_call_log [OF assms(1)] in \<open>auto simp: pays_def backed_def\<close>)

lemma commitments_kept:
  assumes "sc_invoke c s = Inr s'" "commitments s m \<noteq> None"
  shows "commitments s' m \<noteq> None"
proof -
  obtain e k where c: "c = (e, k)" by (cases c)
  show ?thesis
  proof (cases "sc_binds k")
    case None
    with sc_invoke_frame assms show ?thesis unfolding c by metis
  next
    case (Some ab)
    obtain a b where ab: "ab = (a, b)" by (cases ab)
    from assms(1) Some show ?thesis unfolding c ab
      by (cases rule: sc_invoke_bind_cases) (use assms(2) in \<open>auto simp: replaced_by_def dest!: store_commitment_effect(2)\<close>)
  qed
qed

text \<open>Registrations and commitments are never withdrawn, so a backed payment stays backed.\<close>

lemma backed_later:
  assumes "backed (registry_contracts L) (salary_ledgers L) s p" "ledger_invoke c L = Inr L'"
  shows "backed (registry_contracts L') (salary_ledgers L') s p"
proof -
  have L': "L' = run_calls ledger_invoke [c] L" using assms(2) by (simp add: transact_def)
  from assms(1) obtain addrs reg sc where b: "pe_addresses s = Some addrs" "registry_contracts L (xa_registry addrs) = Some reg"
    "companies reg (fst p) \<noteq> None" "salary_ledgers L (xa_commitment addrs) = Some sc" "commitments sc (fst (snd p)) \<noteq> None"
    by (auto simp: backed_def)
  have "\<exists>r. registry_contracts L' (xa_registry addrs) = Some r \<and> companies r (fst p) \<noteq> None" unfolding L'
    by (rule in_ledger_registry.invariant [OF _ b(2)]) (use companies_kept b(3) in auto)
  moreover have "\<exists>sc. salary_ledgers L' (xa_commitment addrs) = Some sc \<and> commitments sc (fst (snd p)) \<noteq> None" unfolding L'
    by (rule in_ledger_salary.invariant [OF _ b(4)]) (use commitments_kept b(5) in auto)
  ultimately show ?thesis unfolding backed_def using b(1) by blast
qed

lemma ledger_backed_step:
  assumes "\<forall>s. executors L x = Some s \<longrightarrow> all_backed (registry_contracts L) (salary_ledgers L) s" "ledger_invoke c L = Inr L'"
    and "executors L' x = Some s'"
  shows "all_backed (registry_contracts L') (salary_ledgers L') s'"
proof -
  obtain e k where c: "c = (e, k)" by (cases c)
  have "all_backed (registry_contracts L) (salary_ledgers L) s'"
    using assms(2) [unfolded c]
  proof (cases rule: ledger_invoke_cases)
    case (executor a j w w')
    have "registries (xenv_at e a L) = registry_contracts L" "salary_contracts (xenv_at e a L) = salary_ledgers L"
      by (simp_all add: xenv_at_def venv.defs)
    with executor_call_backed [OF executor(4)] executor(3,5) assms(1,3) show ?thesis
      by (auto dest!: view_SomeE split: if_splits)
  qed (use assms(1,3) in auto)
  with backed_later [OF _ assms(2)] show ?thesis by blast
qed

text \<open>C9. In the composed system, after any history of calls to all contracts, every payment that an
  executor announced since its log was empty is for a company that stands in the registry and for an
  employee with a commitment in the commitment contract, both in the contracts that the executor was
  initialized with.\<close>

theorem payments_backed_by_registry:
  assumes "executors L x = Some s0" "payment_log s0 = []" "L' = run_calls ledger_invoke cs L"
    and "executors L' x = Some s" "(i, m, a, k) \<in> set (payment_log s)"
  shows "\<exists>addrs reg sc. pe_addresses s = Some addrs \<and>
    registry_contracts L' (xa_registry addrs) = Some reg \<and> companies reg i \<noteq> None \<and>
    salary_ledgers L' (xa_commitment addrs) = Some sc \<and> commitments sc m \<noteq> None"
proof -
  have "\<forall>s. executors L' x = Some s \<longrightarrow> all_backed (registry_contracts L') (salary_ledgers L') s"
    unfolding assms(3)
    by (rule run_calls_invariant [where I = "\<lambda>L. \<forall>s. executors L x = Some s \<longrightarrow> all_backed (registry_contracts L) (salary_ledgers L) s"])
      (use ledger_backed_step assms(1,2) in auto)
  with assms(4,5) show ?thesis by (force simp: backed_def)
qed

section \<open>A paused manager\<close>

definition unpauses :: "address \<Rightarrow> ledger_call \<Rightarrow> bool" where
  "unpauses pm c = (case c of ToManager a PmUnpause \<Rightarrow> a = pm | ToManager a (PmUnpauseCategory _) \<Rightarrow> a = pm | _ \<Rightarrow> False)"

lemma paused_kept:
  assumes "ledger_invoke (e, c) L = Inr L'" "\<not> unpauses pm c"
    and "\<exists>m. managers L pm = Some m \<and> is_paused m \<and> operator m \<noteq> None"
  shows "\<exists>m. managers L' pm = Some m \<and> is_paused m \<and> operator m \<noteq> None"
  using assms(1)
proof (cases rule: ledger_invoke_cases)
  case (manager a k s s')
  show ?thesis
  proof (cases "a = pm")
    case True
    then have "is_paused s' \<and> operator s' \<noteq> None" using manager(1-3) assms(2,3)
      by (cases k) (auto simp: pm_invoke_def pm_defs emits publish_def unpauses_def is_paused_iff is_category_paused_def
          paused_set_paused_each split: if_splits)
    with manager(4) True show ?thesis by simp
  qed (use manager assms(3) in auto)
qed (use assms(3) in auto)

lemma paused_executor_still:
  assumes "exe_invoke (e, k) w = Inr w'" "exe_entry_point k" "pe_require_not_paused e (exe w) \<noteq> (Inr () :: unit payment_result)"
  shows "pe_tokens w' = pe_tokens w \<and> payment_log (exe w') = payment_log (exe w)"
proof (cases k)
  case (XcPay i m a p n l)
  then show ?thesis using assms(1,3) by (auto simp: exe_invoke_def elim!: execute_payment_okE)
next
  case (XcBatch i ms as pas pbs pcs ns l)
  then have "ms \<noteq> []" and b: "\<exists>rs. batch_loop e i ms as pas pbs pcs ns l [0..<length ms] [] w = Inr (rs, w')"
    using assms(1) by (auto simp: exe_invoke_def execute_batch_payroll_def Let_def)
  then have "[0..<length ms] = 0 # [1..<length ms]" by (simp add: upt_conv_Cons)
  with b show ?thesis using assms(3) by (auto elim!: execute_payment_okE)
qed (use assms(1,2) other_call_log [OF assms(1)] in \<open>auto simp: exe_invoke_def exe_entry_point_def on_exe_def pays_def\<close>)

text \<open>The payments and the executed runs that a payroll contract announced.\<close>

definition announces_payment :: "event \<Rightarrow> bool" where
  "announces_payment ev \<longleftrightarrow> topics ev = [VSym ''payroll'', VSym ''payment_executed''] \<or>
     topics ev = [VSym ''payroll'', VSym ''run_executed'']"

definition payroll_payment_log :: "payroll \<Rightarrow> event list" where
  "payroll_payment_log s = filter announces_payment (events s)"

lemmas payroll_log_defs = payroll_payment_log_def announces_payment_def

lemma config_log:
  assumes "config_invoke e c s = Inr s'"
  shows "payroll_payment_log s' = payroll_payment_log s"
proof (cases c)
  case (CfReconcile a r st)
  with assms have "update_reconciliation_status e a r st s = Inr s'" by (simp add: config_invoke_def)
  then show ?thesis by (rule reconcile_effect) (simp add: payroll_log_defs record_payroll_run_state_def publish_def)
qed (use assms in \<open>auto simp: config_defs payroll_log_defs record_payroll_run_state_def emits Let_def\<close>)

text \<open>Only a batch announces payments.\<close>

lemma payroll_log_frame:
  assumes "payroll_invoke (e, c) w = Inr w'" "\<And>ps ms es x n d. c \<noteq> PcBatch ps ms es x n d"
  shows "payroll_payment_log (pay w') = payroll_payment_log (pay w)"
proof (cases c)
  case (PcInitialize a t v cc tr ow)
  with assms show ?thesis
    by (auto simp: payroll_invoke_def initialize_def initialize_storage_version_def payroll_log_defs emits)
next
  case (PcPrepare ps ms es x n d)
  with assms show ?thesis
    by (auto simp: payroll_invoke_def prepare_payroll_run_def derive_run_id_def add_locked_funds_def payroll_log_defs
      record_payroll_run_state_def emits Let_def elim!: update_nonce_effect split: option.splits)
next
  case (PcFinalize a r)
  with assms show ?thesis
    by (auto simp: payroll_invoke_def finalize_payroll_run_def subtract_locked_funds_def payroll_log_defs
      record_payroll_run_state_def emits Let_def)
next
  case (PcCancel a r y)
  with assms show ?thesis
    by (auto simp: payroll_invoke_def cancel_payroll_run_def cancel_payroll_run_with_reason_def subtract_locked_funds_def
      payroll_log_defs record_payroll_run_state_def emits Let_def)
next
  case (PcConfig k)
  with assms show ?thesis by (auto simp: payroll_invoke_def dest: config_log)
next
  case (PcDraft k)
  with assms show ?thesis by (cases k) (auto simp: payroll_invoke_def draft_defs payroll_log_defs emits Let_def)
next
  case (PcRole k)
  with assms show ?thesis by (cases k) (auto simp: payroll_invoke_def role_defs payroll_log_defs emits Let_def)
next
  case (PcReview k)
  with assms show ?thesis by (cases k) (auto simp: payroll_invoke_def review_defs payroll_log_defs emits Let_def)
next
  case (PcHold k)
  with assms show ?thesis by (cases k) (auto simp: payroll_invoke_def hold_defs payroll_log_defs emits Let_def)
next
  case (PcAddLocked asset m)
  with assms show ?thesis by (auto simp: payroll_invoke_def add_locked_funds_def payroll_log_defs emits)
next
  case (PcSubtractLocked asset m)
  with assms show ?thesis by (auto simp: payroll_invoke_def subtract_locked_funds_def payroll_log_defs emits)
qed (use assms in \<open>auto simp: payroll_invoke_def deposit_def request_emergency_withdrawal_def
    approve_emergency_withdrawal_def payroll_log_defs publish_def emits Let_def dest!: token_transfer_pay\<close>)

lemma paused_payroll_still:
  assumes "payroll_invoke (e, k) w = Inr w'" "payroll_entry_point k" "require_not_paused e (pay w) \<noteq> Inr ()"
  shows "tokens w' = tokens w \<and> payroll_payment_log (pay w') = payroll_payment_log (pay w)"
proof (cases "\<exists>ps ms es x n d. k = PcBatch ps ms es x n d")
  case True
  with assms(1) obtain ps ms es x n d r where "batch_process_payroll e ps ms es x n d w = Inr (r, w')"
    by (auto simp: payroll_invoke_def)
  from batch_effect [OF this] obtain addrs run where "executed e x n addrs run (pay w) (pay w')" by metis
  with assms(3) show ?thesis by (simp add: executed_def)
next
  case False
  then have "payroll_payment_log (pay w') = payroll_payment_log (pay w)" using payroll_log_frame [OF assms(1)] by blast
  moreover have "tokens w' = tokens w" using assms False
    by (cases k) (auto simp: payroll_invoke_def payroll_entry_point_def deposit_def request_emergency_withdrawal_def
        approve_emergency_withdrawal_def)
  ultimately show ?thesis by simp
qed

text \<open>C10. Once a manager is paused, and until its operator unpauses it or one of its categories, no call to an
  executor or to a payroll contract that is under this manager moves a token, no such executor
  announces a payment, and no such payroll contract announces a payment or an executed run, whatever
  else happens in the ledger.\<close>

theorem paused_manager_stops_payments:
  assumes "managers L0 pm = Some m" "is_paused m" "operator m \<noteq> None" "\<forall>c \<in> set cs. \<not> unpauses pm (snd c)"
    and "L = run_calls ledger_invoke cs L0" "ledger_invoke (e, c) L = Inr L'"
  shows "(c = ToExecutor x k \<and> executors L x = Some s \<and> pe_pause_manager s = Some pm \<longrightarrow>
      token_contracts L' = token_contracts L \<and> (\<exists>s'. executors L' x = Some s' \<and> payment_log s' = payment_log s)) \<and>
    (c = ToPayroll x j \<and> payrolls L x = Some p \<and> payroll_pause_manager p = Some pm \<longrightarrow>
      token_contracts L' = token_contracts L \<and>
      (\<exists>p'. payrolls L' x = Some p' \<and> payroll_payment_log p' = payroll_payment_log p))"
proof -
  have "\<exists>m. managers L pm = Some m \<and> is_paused m \<and> operator m \<noteq> None" unfolding assms(5)
    by (rule run_calls_invariant_on [where I = "\<lambda>L. \<exists>m. managers L pm = Some m \<and> is_paused m \<and> operator m \<noteq> None"])
      (use assms(1-4) paused_kept in \<open>auto simp: split_paired_all\<close>)
  then obtain m' where m': "managers L pm = Some m'" "is_paused m'" by blast
  from assms(6) show ?thesis
  proof (cases rule: ledger_invoke_cases)
    case (executor a k' w w')
    have "pe_require_not_paused (xenv_at e a L) (exe w) \<noteq> (Inr () :: unit payment_result)" if "pe_pause_manager (exe w) = Some pm"
      using that m' by (simp add: pe_require_not_paused_def pause_guard_def xenv_at_def venv_at_def penv_at_def venv.defs penv.defs env.defs)
    with paused_executor_still [OF executor(4,2)] executor(1,3,5) show ?thesis by (auto dest!: view_SomeE)
  next
    case (payroll a k' w w')
    have "require_not_paused (venv_at e a L) (pay w) \<noteq> Inr ()" if "payroll_pause_manager (pay w) = Some pm"
      using that m' by (simp add: require_not_paused_def pause_guard_def venv_at_def penv_at_def penv.defs env.defs)
    with paused_payroll_still [OF payroll(4,2)] payroll(1,3,5) show ?thesis by (auto dest!: payroll_view_SomeE)
  qed auto
qed

section \<open>A sample ledger\<close>

definition ledger_demo :: ledger where
  "ledger_demo = \<lparr>managers = [Address ''PM'' \<mapsto> pm_demo], token_contracts = pe_tokens exe_ready,
     verifier_contracts = [Address ''V'' \<mapsto> exe_verifier], salary_ledgers = [Address ''S'' \<mapsto> exe_salary],
     registry_contracts = [Address ''R'' \<mapsto> exe_registry],
     executors = [Address ''X'' \<mapsto> exe exe_ready, Address ''Y'' \<mapsto> (exe exe_ready)\<lparr>pe_pause_manager := Some (Address ''PM'')\<rparr>],
     payrolls = Map.empty, audits = Map.empty\<rparr>"

definition demo_env :: env where "demo_env = (pm_env [adr_A])\<lparr>timestamp := 70\<rparr>"

abbreviation "demo_mint \<equiv> (demo_env, ToToken (Address ''T'') (TkMint adr_A 50))"
abbreviation "demo_pay \<equiv> (demo_env, ToExecutor (Address ''X'') (XcPay 0 adr_E 100 proof_demo zero32 1))"
abbreviation "demo_set \<equiv> (demo_env, ToExecutor (Address ''Y'') (XcSetDecimals (Address ''T'') 6))"

lemmas ledger_demo_simps = ledger_demo_def demo_env_def ledger_invoke_def transact_def invoke_entry_def exe_entry_point_def exe_view_def
  token_invoke_def mint_def xenv_at_def venv_at_def penv_at_def env_at_def

lemma demo_mint_ok:
  "transact ledger_invoke demo_mint ledger_demo =
     ledger_demo\<lparr>token_contracts := [Address ''T'' \<mapsto> \<lparr>balances = [adr_A \<mapsto> 1050, adr_B \<mapsto> 1000]\<rparr>]\<rparr>"
  by (simp add: ledger_demo_simps exe_ready_facts fun_upd_twist add_i128_def in_i128_def)

lemma demo_pay_ok:
  obtains L' where "ledger_invoke demo_pay (transact ledger_invoke demo_mint ledger_demo) = Inr L'"
  unfolding demo_mint_ok by (simp add: ledger_demo_simps exe_invoke_def pay_simps)

abbreviation "demo_history \<equiv> [demo_mint, demo_pay]"

lemma demo_run:
  obtains L' w' r where "run_calls ledger_invoke demo_history ledger_demo = L'" "executors L' (Address ''X'') = Some (exe w')"
    "token_contracts L' = pe_tokens w'" "salary_ledgers L' = salary_ledgers ledger_demo"
    "execute_payment (xenv_at demo_env (Address ''X'') (transact ledger_invoke demo_mint ledger_demo)) 0 adr_E 100 proof_demo zero32 1
       \<lparr>exe = exe exe_ready, pe_tokens = [Address ''T'' \<mapsto> \<lparr>balances = [adr_A \<mapsto> 1050, adr_B \<mapsto> 1000]\<rparr>]\<rparr> = Inr (r, w')"
proof -
  obtain L' where L': "ledger_invoke demo_pay (transact ledger_invoke demo_mint ledger_demo) = Inr L'" by (rule demo_pay_ok)
  then obtain w w' where w: "exe_view (Address ''X'') (transact ledger_invoke demo_mint ledger_demo) = Some w"
    "exe_invoke (xenv_at demo_env (Address ''X'') (transact ledger_invoke demo_mint ledger_demo), XcPay 0 adr_E 100 proof_demo zero32 1) w = Inr w'"
    "L' = (transact ledger_invoke demo_mint ledger_demo)\<lparr>executors := (executors (transact ledger_invoke demo_mint ledger_demo))(Address ''X'' \<mapsto> exe w'), token_contracts := pe_tokens w'\<rparr>"
    by (cases rule: ledger_invoke_cases) simp_all
  from w(1) have "w = \<lparr>exe = exe exe_ready, pe_tokens = [Address ''T'' \<mapsto> \<lparr>balances = [adr_A \<mapsto> 1050, adr_B \<mapsto> 1000]\<rparr>]\<rparr>"
    by (simp add: exe_view_def demo_mint_ok, simp add: ledger_demo_def)
  with w(2) obtain r where "execute_payment (xenv_at demo_env (Address ''X'') (transact ledger_invoke demo_mint ledger_demo)) 0 adr_E 100 proof_demo zero32 1
       \<lparr>exe = exe exe_ready, pe_tokens = [Address ''T'' \<mapsto> \<lparr>balances = [adr_A \<mapsto> 1050, adr_B \<mapsto> 1000]\<rparr>]\<rparr> = Inr (r, w')"
    by (auto simp: exe_invoke_def)
  moreover have "run_calls ledger_invoke demo_history ledger_demo = L'" using L' by (simp add: transact_def)
  ultimately show thesis using that w(3) by (simp add: demo_mint_ok)
qed

lemma ledger_refines_contracts_witness:
  "exe_view (Address ''X'') ledger_demo \<noteq> None \<and>
   (\<exists>ks s'. executors (run_calls ledger_invoke demo_history ledger_demo) (Address ''X'') = Some s' \<and> is_paid adr_E 1 s' \<and>
     exe_view (Address ''X'') (run_calls ledger_invoke demo_history ledger_demo) =
       Some (run_calls exe_invoke ks \<lparr>exe = exe exe_ready, pe_tokens = token_contracts ledger_demo\<rparr>))"
proof -
  obtain L' w' r where L': "run_calls ledger_invoke demo_history ledger_demo = L'" "executors L' (Address ''X'') = Some (exe w')"
    and p: "execute_payment (xenv_at demo_env (Address ''X'') (transact ledger_invoke demo_mint ledger_demo)) 0 adr_E 100 proof_demo zero32 1
       \<lparr>exe = exe exe_ready, pe_tokens = [Address ''T'' \<mapsto> \<lparr>balances = [adr_A \<mapsto> 1050, adr_B \<mapsto> 1000]\<rparr>]\<rparr> = Inr (r, w')"
    by (rule demo_run)
  have "is_paid adr_E 1 (exe w')" by (rule payment_step_okE [OF p]) (simp add: is_paid_def)
  moreover have x: "exe_view (Address ''X'') ledger_demo = Some \<lparr>exe = exe exe_ready, pe_tokens = token_contracts ledger_demo\<rparr>"
    by (simp add: exe_view_def ledger_demo_def)
  ultimately show ?thesis using ledger_refines_contracts [OF L'(1) [symmetric], of "Address ''X''"] L' by auto
qed

theorem tokens_created_by_mint_only_witness:
  "\<exists>t'. token_contracts (run_calls ledger_invoke demo_history ledger_demo) (Address ''T'') = Some t' \<and> total_supply t' = 2050"
proof -
  let ?t = "\<lparr>balances = [adr_A \<mapsto> 1000, adr_B \<mapsto> 1000]\<rparr>"
  have t: "token_contracts ledger_demo (Address ''T'') = Some ?t" "finite (dom (balances ?t))" by (simp_all add: ledger_demo_def exe_ready_facts)
  have "minted (Address ''T'') demo_history ledger_demo = 50"
    by (simp add: mint_amount_def split: sum.split, simp add: ledger_demo_simps exe_ready_facts add_i128_def in_i128_def)
  moreover have "total_supply ?t = 2000" by (simp add: total_supply_def balance_def unwrap_or_def)
  ultimately show ?thesis using tokens_created_by_mint_only [OF t, of demo_history] by auto
qed

theorem payments_backed_by_registry_witness:
  "\<exists>s. executors (run_calls ledger_invoke demo_history ledger_demo) (Address ''X'') = Some s \<and> payment_log s = [(0, adr_E, 100, 1)] \<and>
     (\<exists>reg. registry_contracts (run_calls ledger_invoke demo_history ledger_demo) (Address ''R'') = Some reg \<and> companies reg 0 \<noteq> None)"
proof -
  obtain L' w' r where L': "run_calls ledger_invoke demo_history ledger_demo = L'" "executors L' (Address ''X'') = Some (exe w')"
    and p: "execute_payment (xenv_at demo_env (Address ''X'') (transact ledger_invoke demo_mint ledger_demo)) 0 adr_E 100 proof_demo zero32 1
       \<lparr>exe = exe exe_ready, pe_tokens = [Address ''T'' \<mapsto> \<lparr>balances = [adr_A \<mapsto> 1050, adr_B \<mapsto> 1000]\<rparr>]\<rparr> = Inr (r, w')"
    by (rule demo_run)
  have e: "payment_log (exe exe_ready) = []"
    by (simp add: exe_setup_def exe_blank_def exe_demo_simps exe_env_simps exe_registry_facts payment_log_def logged_def)
  have "payment_log (exe w') = payment_log (exe exe_ready) @ [(0, adr_E, 100, 1)]" by (rule payment_step_okE [OF p]) simp
  with e have l: "payment_log (exe w') = [(0, adr_E, 100, 1)]" by simp
  have x: "executors ledger_demo (Address ''X'') = Some (exe exe_ready)" by (simp add: ledger_demo_def)
  obtain addrs :: pe_ContractAddresses and pr :: PayrollPeriod and t'
    where "w' = \<lparr>exe = paid_state (xenv_at demo_env (Address ''X'') (transact ledger_invoke demo_mint ledger_demo)) 0 adr_E 100 zero32 1 pr (exe exe_ready), pe_tokens = t'\<rparr>"
    by (rule execute_payment_okE [OF p]) (simp add: that)
  then have "pe_addresses (exe w') = Some exe_addrs" by (simp add: paid_state_def emits publish_def exe_ready_facts)
  with payments_backed_by_registry [OF x e L'(1) [symmetric] L'(2), of 0 adr_E 100 1] l L' show ?thesis by (auto simp: exe_addrs_def)
qed

theorem paused_manager_stops_payments_witness:
  "\<exists>L'. ledger_invoke demo_set (run_calls ledger_invoke [demo_mint] ledger_demo) = Inr L' \<and>
     token_contracts L' = token_contracts (run_calls ledger_invoke [demo_mint] ledger_demo)"
proof -
  let ?L = "run_calls ledger_invoke [demo_mint] ledger_demo" and ?s = "(exe exe_ready)\<lparr>pe_pause_manager := Some (Address ''PM'')\<rparr>"
  have m: "managers ledger_demo (Address ''PM'') = Some pm_demo" "is_paused pm_demo" "operator pm_demo \<noteq> None"
    by (simp_all add: ledger_demo_def is_paused_iff is_category_paused_def pm_demo_def unwrap_or_def exI [of _ Audit])
  have c: "\<forall>c \<in> set [demo_mint]. \<not> unpauses (Address ''PM'') (snd c)" by (simp add: unpauses_def)
  have s: "executors ?L (Address ''Y'') = Some ?s" by (simp add: demo_mint_ok, simp add: ledger_demo_def)
  have "executor_admin (exe exe_ready) = Some adr_A"
    by (simp add: exe_setup_def exe_blank_def exe_demo_simps exe_env_simps exe_registry_facts)
  then obtain L' where L': "ledger_invoke demo_set ?L = Inr L'"
    by (simp add: demo_mint_ok, simp add: ledger_demo_simps exe_invoke_def on_exe_def set_asset_decimals_def executor_admin_guard_def
        require_auth_def exe_env_simps)
  with paused_manager_stops_payments [OF m c refl L', of "Address ''Y''" "XcSetDecimals (Address ''T'') 6" ?s] s show ?thesis by auto
qed

end
