(* ===== verification/Ledger_Debits.thy ===== *)
theory Ledger_Debits
  imports Ledger_Theorems
begin

text \<open>
  Who may take tokens from an account, over all contracts of the ledger together. The token contract
  itself asks for no authorization of a transfer, so the rule for a direct call is only that it names
  the account; for every other call the signatures that the paying contract demands are stated.
\<close>

section \<open>The rule\<close>

text \<open>The account is the treasury of the company, in the registry of the executor at \<open>p\<close>, and it and the company's
  admin signed.\<close>

definition company_debit :: "env \<Rightarrow> address \<Rightarrow> u64 \<Rightarrow> address \<Rightarrow> address \<Rightarrow> ledger \<Rightarrow> bool" where
  "company_debit e p i x a L \<longleftrightarrow> (\<exists>s addrs reg co. executors L p = Some s \<and> pe_addresses s = Some addrs \<and> xa_token addrs = x \<and>
     registry_contracts L (xa_registry addrs) = Some reg \<and> companies reg i = Some co \<and> ci_treasury co = a \<and>
     auth e a \<and> auth e (ci_admin co))"

text \<open>The account is the treasury of the payroll contract at \<open>p\<close>, whose admin signed.\<close>

definition treasury_debit :: "env \<Rightarrow> address \<Rightarrow> address \<Rightarrow> address \<Rightarrow> ledger \<Rightarrow> bool" where
  "treasury_debit e p x a L \<longleftrightarrow> (\<exists>s addrs. payrolls L p = Some s \<and> addresses s = Some addrs \<and> ca_token addrs = x \<and>
     ca_treasury addrs = a \<and> auth e (ca_admin addrs))"

text \<open>The payroll contract at \<open>p\<close> has a pending emergency request.\<close>

definition emergency_pending :: "address \<Rightarrow> ledger \<Rightarrow> bool" where
  "emergency_pending p L \<longleftrightarrow> (\<exists>s. payrolls L p = Some s \<and> emergency_request s \<noteq> None)"

text \<open>A deposit is signed by the depositor and by the treasury owner of the payroll contract.\<close>

definition deposit_debit :: "env \<Rightarrow> address \<Rightarrow> address \<Rightarrow> address \<Rightarrow> ledger \<Rightarrow> bool" where
  "deposit_debit e p x a L \<longleftrightarrow> (\<exists>s addrs ow. payrolls L p = Some s \<and> addresses s = Some addrs \<and> ca_token addrs = x \<and>
     treasury_owner_key s = Some ow \<and> auth e a \<and> auth e ow)"

definition debit_allowed :: "env \<Rightarrow> ledger_call \<Rightarrow> address \<Rightarrow> address \<Rightarrow> ledger \<Rightarrow> bool" where
  "debit_allowed e c x a L = (case c of
     ToToken y (TkTransfer b _ _) \<Rightarrow> y = x \<and> b = a
   | ToExecutor p (XcPay i _ _ _ _ _) \<Rightarrow> company_debit e p i x a L
   | ToExecutor p (XcBatch i _ _ _ _ _ _ _) \<Rightarrow> company_debit e p i x a L
   | ToPayroll p (PcBatch _ _ _ _ _ _) \<Rightarrow> treasury_debit e p x a L
   | ToPayroll p (PcApproveEmergency _) \<Rightarrow> treasury_debit e p x a L \<and> emergency_pending p L
   | ToPayroll p (PcDeposit b _ _) \<Rightarrow> b = a \<and> deposit_debit e p x a L
   | _ \<Rightarrow> False)"

section \<open>Debits of the contracts\<close>

lemma venv_at_auth [simp]: "auth (venv_at e p L) = auth e" "auth (xenv_at e p L) = auth e"
  by (simp_all add: xenv_at_def venv_at_def penv_at_def env_at_def env.defs penv.defs venv.defs)

lemma transfer_debit: "transfer b d m t = Inr t' \<Longrightarrow> balance t' a < balance t a \<Longrightarrow> a = b"
  by (auto simp: transfer_balance dest: transfer_bound split: if_splits)

lemma pay_all_debit: "tok.pay_all b ps t = (Inr t' :: ('e, token) result) \<Longrightarrow> balance t' a < balance t a \<Longrightarrow> a = b"
proof (induction ps arbitrary: t)
  case (Cons p ps)
  then obtain t1 where "transfer b (fst p) (snd p) t = (Inr t1 :: ('e, token) result)" "tok.pay_all b ps t1 = (Inr t' :: ('e, token) result)" by auto
  then show ?case using Cons transfer_debit [of b "fst p" "snd p" t t1 a] by (cases "balance t1 a < balance t a") auto
qed simp

text \<open>What an executor takes from an account: the account is the company's treasury, and it and the admin of the
  company signed.\<close>

definition executor_debit :: "xenv \<Rightarrow> u64 \<Rightarrow> address \<Rightarrow> address \<Rightarrow> executor \<Rightarrow> bool" where
  "executor_debit e i x a s \<longleftrightarrow> (\<exists>addrs reg co. pe_addresses s = Some addrs \<and> xa_token addrs = x \<and>
     registries e (xa_registry addrs) = Some reg \<and> companies reg i = Some co \<and> ci_treasury co = a \<and>
     auth e a \<and> auth e (ci_admin co))"

lemma payment_debit:
  assumes "execute_payment (e :: xenv) i m v p n k w = Inr (r, w')" "pe_tokens w x = Some t" "pe_tokens w' x = Some t'"
    and "balance t' a < balance t a"
  shows "executor_debit e i x a (exe w)"
  using assms
  by (elim execute_payment_okE) (auto simp: executor_debit_def dest: transfer_debit split: if_splits)

lemma payment_addresses:
  assumes "execute_payment (e :: xenv) i m v p n k w = Inr (r, w')"
  shows "pe_addresses (exe w') = pe_addresses (exe w)" "pe_tokens w x \<noteq> None \<Longrightarrow> pe_tokens w' x \<noteq> None"
  using assms by (auto simp: paid_state_def emits publish_def elim!: execute_payment_okE)

lemma batch_debit:
  "batch_loop (e :: xenv) i ms as pas pbs pcs ns k is rs w = Inr (rs', w') \<Longrightarrow> pe_tokens w x = Some t \<Longrightarrow>
    pe_tokens w' x = Some t' \<Longrightarrow> balance t' a < balance t a \<Longrightarrow> executor_debit e i x a (exe w)"
proof (induction "is" arbitrary: rs w t)
  case (Cons j js)
  from Cons.prems(1) obtain r w1 where p: "execute_payment e i (ms ! j) (as ! j) \<lparr>proof_a = pas ! j, proof_b = pbs ! j, proof_c = pcs ! j\<rparr> (ns ! j) k w = Inr (r, w1)"
    "batch_loop e i ms as pas pbs pcs ns k js (rs @ [r]) w1 = Inr (rs', w')" by auto
  obtain t1 where t1: "pe_tokens w1 x = Some t1" using payment_addresses(2) [OF p(1)] Cons.prems(2) by fastforce
  show ?case
  proof (cases "balance t1 a < balance t a")
    case True
    then show ?thesis by (rule payment_debit [OF p(1) Cons.prems(2) t1])
  next
    case False
    then have "executor_debit e i x a (exe w1)" using Cons.IH [OF p(2) t1 Cons.prems(3)] Cons.prems(4) by simp
    then show ?thesis by (simp add: executor_debit_def payment_addresses(1) [OF p(1)])
  qed
qed simp

lemma payroll_batch_debit:
  assumes "batch_process_payroll e ps ms es v n d w = Inr (r, w')" "tokens w x = Some t" "tokens w' x = Some t'"
    and "balance t' a < balance t a"
  shows "\<exists>addrs. addresses (pay w) = Some addrs \<and> ca_token addrs = x \<and> ca_treasury addrs = a \<and> auth e (ca_admin addrs)"
  using assms(1)
proof (rule batch_effect)
  fix addrs run s1 bal w1
  assume X: "executed e v n addrs run (pay w) (pay w')" and len: "length ms = length ps" "length es = length ps"
    and b: "token_balance (ca_token addrs) (ca_treasury addrs) w = Inr bal"
    and l: "pay_employees e addrs 0 ps ms es (w\<lparr>pay := s1\<rparr>) = Inr w1" and w': "tokens w' = tokens w1"
  from b obtain u where "tokens w (ca_token addrs) = Some u" by (auto simp: token_balance_def)
  then obtain u' where u': "tok.pay_all (ca_treasury addrs) (zip es ms) u = (Inr u' :: token outcome)"
    "tokens w' = (tokens w)(ca_token addrs \<mapsto> u')" "tokens w (ca_token addrs) = Some u"
    using pay_employees_tokens [OF l len, of u] w' by auto
  then have "ca_token addrs = x" using assms(2-4) by (auto split: if_splits)
  with u' assms(2-4) have "ca_treasury addrs = a" using pay_all_debit [OF u'(1), of a] by auto
  with \<open>ca_token addrs = x\<close> X show ?thesis by (auto simp: executed_def)
qed

lemma payroll_call_debit:
  assumes "payroll_invoke (venv_at e p L, k) w = Inr w'" "payroll_entry_point k" "payroll_view p L = Some w"
    and "tokens w x = Some t" "tokens w' x = Some t'" "balance t' a < balance t a"
  shows "debit_allowed e (ToPayroll p k) x a L"
proof (cases k)
  case (PcBatch ps ms es v n d)
  then obtain r where "batch_process_payroll (venv_at e p L) ps ms es v n d w = Inr (r, w')"
    using assms(1) by (auto simp: payroll_invoke_def)
  from payroll_batch_debit [OF this assms(4-6)] show ?thesis using payroll_view_SomeE [OF assms(3)] PcBatch
    by (auto simp: debit_allowed_def treasury_debit_def venv_at_auth)
next
  case (PcApproveEmergency adm)
  then show ?thesis using assms payroll_view_SomeE [OF assms(3)]
    by (auto simp: payroll_invoke_def approve_emergency_withdrawal_def token_transfer_def debit_allowed_def treasury_debit_def
        emergency_pending_def admin_guard_def venv_at_auth Let_def dest!: transfer_debit split: if_splits)
next
  case (PcDeposit b m i)
  then show ?thesis using assms payroll_view_SomeE [OF assms(3)]
    by (auto simp: payroll_invoke_def deposit_def token_transfer_def debit_allowed_def deposit_debit_def
        venv_at_auth Let_def dest!: transfer_debit split: if_splits)
qed (use assms in \<open>auto simp: payroll_invoke_def payroll_entry_point_def request_emergency_withdrawal_def\<close>)

lemma executor_call_debit:
  assumes "exe_invoke (xenv_at e p L, k) w = Inr w'" "exe_entry_point k" "exe_view p L = Some w"
    and "pe_tokens w x = Some t" "pe_tokens w' x = Some t'" "balance t' a < balance t a"
  shows "debit_allowed e (ToExecutor p k) x a L"
proof -
  have c: "company_debit e p i x a L" if "executor_debit (xenv_at e p L) i x a (exe w)" for i
    using that view_SomeE [OF assms(3)] unfolding executor_debit_def company_debit_def venv_at_auth
    by (auto simp: xenv_at_def venv.defs)
  show ?thesis
  proof (cases k)
    case (XcPay i m v q n l)
    then obtain r where "execute_payment (xenv_at e p L) i m v q n l w = Inr (r, w')" using assms(1) by (auto simp: exe_invoke_def)
    from c [OF payment_debit [OF this assms(4-6)]] show ?thesis using XcPay by (simp add: debit_allowed_def)
  next
    case (XcBatch i ms as pas pbs pcs ns l)
    then obtain rs where "batch_loop (xenv_at e p L) i ms as pas pbs pcs ns l [0..<length ms] [] w = Inr (rs, w')"
      using assms(1) by (auto simp: exe_invoke_def execute_batch_payroll_def Let_def)
    from c [OF batch_debit [OF this assms(4-6)]] show ?thesis using XcBatch by (simp add: debit_allowed_def)
  qed (use assms in \<open>auto simp: exe_invoke_def exe_entry_point_def on_exe_def\<close>)
qed

lemma token_call_debit:
  assumes "token_invoke k s = Inr s'" "balance s' a < balance s a"
  shows "debit_allowed e (ToToken x k) x a L"
  using assms
proof (cases k)
  case (TkMint b m)
  then show ?thesis using assms by (auto simp: token_invoke_def mint_def balance_def unwrap_or_def split: if_splits)
qed (auto simp: token_invoke_def debit_allowed_def dest: transfer_debit)

section \<open>Debits over histories\<close>

lemma step_debit:
  assumes "ledger_invoke (e, c) L = Inr L'" "token_contracts L x = Some t" "token_contracts L' x = Some t'"
    and "balance t' a < balance t a"
  shows "debit_allowed e c x a L"
  using assms(1)
proof (cases rule: ledger_invoke_cases)
  case (token b k s s')
  then show ?thesis using assms(2-4) token_call_debit [OF token(3)] by (auto split: if_splits)
next
  case (executor p k w w')
  then show ?thesis using executor_call_debit [OF executor(4,2,3)] assms(2-4) view_SomeE [OF executor(3)] by simp
next
  case (payroll p k w w')
  then show ?thesis using payroll_call_debit [OF payroll(4,2,3)] assms(2-4) payroll_view_SomeE [OF payroll(3)] by simp
qed (use assms in auto)

lemma moves_kept: "moves ts us \<Longrightarrow> ts x \<noteq> None \<Longrightarrow> us x \<noteq> None"
  by (induction rule: moves.induct) auto

lemma step_token_kept:
  assumes "ledger_invoke (e, c) L = Inr L'" "token_contracts L x \<noteq> None"
  shows "token_contracts L' x \<noteq> None"
  using assms(1)
proof (cases rule: ledger_invoke_cases)
  case (executor a k w w')
  then show ?thesis using moves_kept [OF executor_moves [OF executor(4,2)]] view_SomeE assms(2) by fastforce
next
  case (payroll a k w w')
  then show ?thesis using moves_kept [OF payroll_moves [OF payroll(4,2)]] payroll_view_SomeE assms(2) by fastforce
qed (use assms(2) in auto)

text \<open>C7. Nobody loses tokens but by a call that may take them. When an account holds less of a token after a
  history of the ledger, across all contracts and their calls to each other, then some call of the
  history succeeded and, in the state in which it ran, was one of these: a direct transfer from the
  account in the token contract, which asks for no signature; a payment or batch of an executor for a
  company whose treasury is the account, signed by the account and by the company's admin; a batch of
  a payroll contract whose treasury is the account, or the approval of its pending emergency request,
  signed by the contract's admin; or a deposit of the account, signed by it and by the treasury owner.\<close>

theorem debits_authorized:
  assumes "token_contracts L x = Some t" "token_contracts (run_calls ledger_invoke cs L) x = Some t'"
    and "balance t' a < balance t a"
  shows "\<exists>xs e c ys L'. cs = xs @ (e, c) # ys \<and> ledger_invoke (e, c) (run_calls ledger_invoke xs L) = Inr L' \<and>
    debit_allowed e c x a (run_calls ledger_invoke xs L)"
  using assms
proof (induction cs arbitrary: L t)
  case (Cons d cs)
  obtain e c where d: "d = (e, c)" by force
  show ?case
  proof (cases "ledger_invoke (e, c) L")
    case (Inl y)
    then have "transact ledger_invoke d L = L" by (simp add: transact_def d)
    with Cons.IH [OF Cons.prems(1)] Cons.prems(2,3) obtain xs e' c' ys L' where "cs = xs @ (e', c') # ys"
      "ledger_invoke (e', c') (run_calls ledger_invoke xs L) = Inr L'" "debit_allowed e' c' x a (run_calls ledger_invoke xs L)"
      by auto
    then show ?thesis using \<open>transact ledger_invoke d L = L\<close>
      by (intro exI [of _ "d # xs"] exI [of _ e'] exI [of _ c'] exI [of _ ys] exI [of _ L']) simp
  next
    case (Inr L1)
    then have s: "transact ledger_invoke d L = L1" by (simp add: transact_def d)
    obtain t1 where t1: "token_contracts L1 x = Some t1" using step_token_kept [OF Inr] Cons.prems(1) by auto
    show ?thesis
    proof (cases "balance t1 a < balance t a")
      case True
      with step_debit [OF Inr Cons.prems(1) t1] Inr show ?thesis
        by (intro exI [of _ "[]"] exI [of _ e] exI [of _ c] exI [of _ cs] exI [of _ L1]) (simp add: d)
    next
      case False
      with Cons.IH [OF t1] Cons.prems(2,3) s obtain xs e' c' ys L' where "cs = xs @ (e', c') # ys"
        "ledger_invoke (e', c') (run_calls ledger_invoke xs L1) = Inr L'" "debit_allowed e' c' x a (run_calls ledger_invoke xs L1)"
        by auto
      then show ?thesis using s
        by (intro exI [of _ "d # xs"] exI [of _ e'] exI [of _ c'] exI [of _ ys] exI [of _ L']) simp
    qed
  qed
qed simp

theorem debits_authorized_witness:
  "\<exists>t'. token_contracts (run_calls ledger_invoke demo_history ledger_demo) (Address ''T'') = Some t' \<and> balance t' adr_A = 950 \<and>
     (\<exists>xs e c ys. demo_history = xs @ (e, c) # ys \<and> debit_allowed e c (Address ''T'') adr_A (run_calls ledger_invoke xs ledger_demo))"
proof -
  obtain L' w' r where L': "run_calls ledger_invoke demo_history ledger_demo = L'" "token_contracts L' = pe_tokens w'"
    and p: "execute_payment (xenv_at demo_env (Address ''X'') (transact ledger_invoke demo_mint ledger_demo)) 0 adr_E 100 proof_demo zero32 1
       \<lparr>exe = exe exe_ready, pe_tokens = [Address ''T'' \<mapsto> \<lparr>balances = [adr_A \<mapsto> 1050, adr_B \<mapsto> 1000]\<rparr>]\<rparr> = Inr (r, w')"
    by (rule demo_run)
  have "\<exists>t'. pe_tokens w' (Address ''T'') = Some t' \<and> balance t' adr_A = 950"
    using p by (auto simp: demo_mint_ok ledger_demo_simps pay_simps balance_def unwrap_or_def)
  then obtain t' where t': "token_contracts (run_calls ledger_invoke demo_history ledger_demo) (Address ''T'') = Some t'" "balance t' adr_A = 950"
    using L' by auto
  let ?t = "\<lparr>balances = [adr_A \<mapsto> 1000, adr_B \<mapsto> 1000]\<rparr>"
  have t: "token_contracts ledger_demo (Address ''T'') = Some ?t" "balance ?t adr_A = 1000"
    by (simp_all add: ledger_demo_def exe_ready_facts balance_def unwrap_or_def)
  from debits_authorized [OF t(1) t'(1), of adr_A] t(2) t' show ?thesis by fastforce
qed

end
