(* ===== verification/Test_Programs.thy ===== *)
theory Test_Programs
  imports Prelude
begin

text \<open>
  What the test programs of the repository share. A test is a program over the states of the contracts
  that ends with \<open>Inr ()\<close> or with the fault of the call or assertion that stopped it. \<open>Address::generate\<close>
  gives a new address at every call: the tests take the addresses from a function \<open>gen\<close> on numbers that
  the theorems assume to be injective. \<open>mock_all_auths\<close> is an environment in which everybody signed
  (\<open>mocked\<close>), \<open>mock_auths\<close> one in which exactly one address did (\<open>signed_by\<close>), for the next call.
\<close>

section \<open>Assertions\<close>

definition assert_that :: "bool \<Rightarrow> string \<Rightarrow> ('e, unit) result" where
  "assert_that c msg = panic_if (\<not> c) msg"

lemma assert_that_ok [simp]: "assert_that c m = Inr u \<longleftrightarrow> c"
  by (simp add: assert_that_def)

lemma assert_that_True [simp]: "assert_that True m = Inr ()"
  by (simp add: assert_that_def)

definition check :: "bool \<Rightarrow> unit outcome" where
  "check c = assert_that c ''assertion failed''"

lemma check_ok [simp]: "check c = Inr u \<longleftrightarrow> c"
  by (simp add: check_def)

lemma check_simps [simp]: "check True = Inr ()" "check False = Inl (Panic ''assertion failed'')"
  by (simp_all add: check_def assert_that_def)

text \<open>\<open>assert!(client.try_f(..).is_err())\<close>; the host rolls the failed call back.\<close>

definition check_err :: "'a outcome \<Rightarrow> unit outcome" where
  "check_err r = check (case r of Inl _ \<Rightarrow> True | Inr _ \<Rightarrow> False)"

lemma check_err_Inl [simp]: "check_err (Inl f) = Inr ()"
  by (simp add: check_err_def)

text \<open>A call whose result the test does not use.\<close>

definition call :: "'a outcome \<Rightarrow> unit outcome" where
  "call r = and_then r (\<lambda>_. Inr ())"

lemma call_simps [simp]: "call (Inr x) = Inr ()" "call (Inl f) = Inl f"
  by (simp_all add: call_def)

text \<open>\<open>BytesN::from_array(&env, &[b; 32])\<close>.\<close>

definition b32 :: "u8 \<Rightarrow> bytes" where
  "b32 b = replicate 32 b"

lemma b32_eq [simp]: "b32 a = b32 b \<longleftrightarrow> a = b"
  by (auto simp: b32_def)

lemma ex_true [simp]: "\<exists>y :: bool. y" "\<exists>y :: bool. \<not> y"
  by blast+

section \<open>\<open>should_panic\<close>\<close>

text \<open>The attribute asks that the text of the panic contains the expected text. A failed authorization is
  reported by the host as a call that was not authorized.\<close>

primrec contains :: "string \<Rightarrow> string \<Rightarrow> bool" where
  "contains pat [] = (pat = [])"
| "contains pat (c # cs) = (take (length pat) (c # cs) = pat \<or> contains pat cs)"

definition fault_message :: "'e fault \<Rightarrow> string" where
  "fault_message f = (case f of
     Panic m \<Rightarrow> m
   | AuthError a \<Rightarrow> ''Unauthorized function call for address''
   | Overflow \<Rightarrow> ''attempt to add with overflow''
   | NoContract a \<Rightarrow> ''trying to get non-existing value for contract instance''
   | Err x \<Rightarrow> ''escalating error to panic'')"

definition should_panic :: "string \<Rightarrow> 'a outcome \<Rightarrow> bool" where
  "should_panic expected r = (case r of Inl f \<Rightarrow> contains expected (fault_message f) | Inr _ \<Rightarrow> False)"

lemma contains_start [simp]: "take (length p) m = p \<Longrightarrow> contains p m"
  by (cases m) simp_all

lemma should_panic_Inl [simp]: "should_panic p (Inl f) = contains p (fault_message f)"
  by (simp add: should_panic_def)

lemma fault_message_simps [simp]:
  "fault_message (Panic m) = m"
  "fault_message (AuthError a) = ''Unauthorized function call for address''"
  by (simp_all add: fault_message_def)

section \<open>Authorization\<close>

text \<open>\<open>mock_all_auths\<close>: every authorization is given.\<close>

definition mocked :: "'x env_scheme \<Rightarrow> bool" where
  "mocked e \<longleftrightarrow> auth e = (\<lambda>_. True)"

lemma mocked_auth [simp]: "mocked e \<Longrightarrow> require_auth e a = Inr ()"
  by (simp add: mocked_def require_auth_def)

definition signed_by :: "address \<Rightarrow> 'x env_scheme \<Rightarrow> 'x env_scheme" where
  "signed_by a e = e\<lparr>auth := (\<lambda>b. b = a)\<rparr>"

definition unsigned :: "'x env_scheme \<Rightarrow> 'x env_scheme" where
  "unsigned e = e\<lparr>auth := (\<lambda>b. False)\<rparr>"

lemma signed_by_auth [simp]:
  "require_auth (signed_by a e) b = (if b = a then Inr () else Inl (AuthError b))"
  "require_auth (unsigned e) b = Inl (AuthError b)"
  by (simp_all add: signed_by_def unsigned_def require_auth_def)

lemma signed_by_simps [simp]:
  "timestamp (signed_by a e) = timestamp e" "timestamp (unsigned e) = timestamp e"
  "env.more (signed_by a e) = env.more e" "env.more (unsigned e) = env.more e"
  by (simp_all add: signed_by_def unsigned_def)

end
