(* ===== verification/Upgrade_Scenarios.thy ===== *)
theory Upgrade_Scenarios
  imports Executor_Histories Test_Programs
begin

text \<open>
  \<open>contracts/integration_tests/src/upgrade_simulation.rs\<close>: the scenarios that guard stored data across
  upgrades. Each test is a program over the contracts: it deploys a fresh contract, calls it with all
  authorizations mocked, and asserts on what it reads. \<open>Address::generate\<close> gives a new address at every
  call, so the addresses are parameters. A failed assertion is a panic with its message.
\<close>

text \<open>Newly registered contracts have empty storage.\<close>

definition fresh_salary :: salary_commitment where
  "fresh_salary = \<lparr>events = [], commitments = Map.empty, nullifiers = Map.empty, commitment_history = Map.empty,
     commitment_admin = None, payroll_operator = None, employee_reference_id = Map.empty, reference_id_index = Map.empty,
     commitment_lock = Map.empty, commitment_index = Map.empty, sc_pause_manager = None, sc_pending_admin = None\<rparr>"

definition fresh_verifier :: proof_verifier where
  "fresh_verifier = \<lparr>events = [], verification_key = None, verifier_admin = None, references = Map.empty\<rparr>"

abbreviation "fresh_registry \<equiv> reg_blank"
abbreviation "fresh_executor \<equiv> exe exe_blank"

section \<open>Fixtures\<close>

definition zero_commitment :: bytes where
  "zero_commitment = replicate 32 0"

definition zero_blinding :: bytes where
  "zero_blinding = replicate 32 0"

definition upgrade_mock_vk :: VerificationKey where
  "upgrade_mock_vk = \<lparr>vk_alpha = replicate 64 0, vk_beta = replicate 128 0, vk_gamma = replicate 128 0,
     vk_delta = replicate 128 0, vk_ic = [replicate 64 0, replicate 64 0, replicate 64 0]\<rparr>"

section \<open>The scenarios\<close>

definition up01_commitment_record_survives_field_addition_simulation :: "penv \<Rightarrow> address \<Rightarrow> address \<Rightarrow> unit outcome" where
  "up01_commitment_record_survives_field_addition_simulation e adm employee =
     and_then (init_commitment_admin adm fresh_salary) (\<lambda>s.
     let commitment_v1 = zero_commitment in
     and_then (store_commitment e employee commitment_v1 s) (\<lambda>(_, s).
     and_then (assert_that (has_commitment employee s) ''UP-01: pre-upgrade commitment must be readable'') (\<lambda>_.
     and_then (get_commitment employee s) (\<lambda>stored.
     and_then (assert_that (commitment stored = commitment_v1) ''UP-01: stored commitment bytes must be unchanged'') (\<lambda>_.
     and_then (assert_that (\<not> commitment_revoked stored) ''UP-01: pre-upgrade commitment must not be revoked'') (\<lambda>_.
     and_then (assert_that (version stored = 1) ''UP-01: initial version must be 1'') (\<lambda>_.
     and_then (get_commitment employee s) (\<lambda>re_read.
     assert_that (commitment re_read = commitment_v1) ''UP-01: post-upgrade re-read must return unchanged bytes''))))))))"

definition up02_company_info_storage_compatibility :: "penv \<Rightarrow> address \<Rightarrow> address \<Rightarrow> unit outcome" where
  "up02_company_info_storage_compatibility e adm treasury =
     and_then (register_company e adm treasury fresh_registry) (\<lambda>(company_id, s).
     and_then (get_company company_id s) (\<lambda>info.
     and_then (assert_that (ci_admin info = adm) ''UP-02: admin address must survive upgrade read'') (\<lambda>_.
     assert_that (ci_treasury info = treasury) ''UP-02: treasury address must survive upgrade read'')))"

definition up03_datakey_extension_does_not_corrupt_existing_keys ::
  "penv \<Rightarrow> address \<Rightarrow> address \<Rightarrow> address \<Rightarrow> address \<Rightarrow> unit outcome" where
  "up03_datakey_extension_does_not_corrupt_existing_keys e adm treasury employee admin2 =
     and_then (register_company e adm treasury fresh_registry) (\<lambda>(company_id, s).
     let c = zero_commitment in
     and_then (add_employee e company_id employee c s) (\<lambda>s.
     and_then (get_company company_id s) (\<lambda>info.
     and_then (assert_that (ci_admin info = adm) ''UP-03: Company key must be intact'') (\<lambda>_.
     and_then (reg_get_commitment company_id employee s) (\<lambda>stored_commitment.
     and_then (assert_that (stored_commitment = c) ''UP-03: Employee key must be intact'') (\<lambda>_.
     and_then (register_company e admin2 treasury s) (\<lambda>(company_id_2, s).
     and_then (assert_that (company_id \<noteq> company_id_2) ''UP-03: Sequential IDs must be unique'') (\<lambda>_.
     and_then (get_company company_id_2 s) (\<lambda>info_2.
     assert_that (ci_admin info_2 = admin2) ''UP-03: Second company key must be intact'')))))))))"

definition up04_nullifier_survives_simulated_upgrade :: "penv \<Rightarrow> address \<Rightarrow> address \<Rightarrow> address \<Rightarrow> unit outcome" where
  "up04_nullifier_survives_simulated_upgrade e adm employee new_oper =
     and_then (init_commitment_admin adm fresh_salary) (\<lambda>s.
     let c = compute_commitment e 5000 zero_blinding in
     and_then (store_commitment e employee c s) (\<lambda>(_, s).
     let n = replicate 32 0xAB in
     and_then (record_nullifier e n s) (\<lambda>s.
     and_then (assert_that (is_nullifier_used n s) ''UP-04: nullifier must be used before upgrade'') (\<lambda>_.
     and_then (set_payroll_operator e new_oper s) (\<lambda>s.
     and_then (assert_that (is_nullifier_used n s) ''UP-04: nullifier must remain used after simulated upgrade'') (\<lambda>_.
     let fresh_nullifier = replicate 32 0xCD in
     assert_that (\<not> is_nullifier_used fresh_nullifier s) ''UP-04: fresh nullifier must be unused after upgrade''))))))"

definition up05_commitment_version_monotonic_across_upgrade :: "penv \<Rightarrow> address \<Rightarrow> address \<Rightarrow> address \<Rightarrow> unit outcome" where
  "up05_commitment_version_monotonic_across_upgrade e adm employee new_op =
     and_then (init_commitment_admin adm fresh_salary) (\<lambda>s.
     let c1 = zero_commitment in
     and_then (store_commitment e employee c1 s) (\<lambda>(_, s).
     and_then (get_commitment employee s) (\<lambda>r1.
     let v1 = version r1 in
     and_then (assert_that (v1 = 1) ''UP-05: initial version must be 1'') (\<lambda>_.
     let c2 = (replicate 32 0)[0 := 1] in
     and_then (update_commitment e employee c2 s) (\<lambda>(_, s).
     and_then (get_commitment employee s) (\<lambda>r2.
     let v2 = version r2 in
     and_then (assert_that (v2 > v1) ''UP-05: version must increment after update'') (\<lambda>_.
     and_then (set_payroll_operator e new_op s) (\<lambda>s.
     let c3 = (replicate 32 0)[0 := 2] in
     and_then (update_commitment e employee c3 s) (\<lambda>(_, s).
     and_then (get_commitment employee s) (\<lambda>r3.
     let v3 = version r3 in
     and_then (assert_that (v3 > v2) ''UP-05: version must continue incrementing after simulated upgrade'') (\<lambda>_.
     and_then (get_commitment employee s) (\<lambda>stored.
     assert_that (commitment stored = c3) ''UP-05: stored commitment must reflect the latest write''))))))))))))"

definition up06_verification_key_survives_admin_rotation_simulation :: "penv \<Rightarrow> address \<Rightarrow> unit outcome" where
  "up06_verification_key_survives_admin_rotation_simulation e adm =
     and_then (init_verifier_admin adm fresh_verifier) (\<lambda>s.
     let vk = upgrade_mock_vk in
     and_then (initialize_verifier e vk s) (\<lambda>s.
     and_then (get_verification_key s) (\<lambda>pre_vk.
     and_then (assert_that (vk_alpha pre_vk = vk_alpha vk) ''UP-06: VK alpha must be readable pre-upgrade'') (\<lambda>_.
     and_then (get_verifier_admin s) (\<lambda>stored_admin.
     and_then (assert_that (stored_admin = adm) ''UP-06: admin must be unchanged after simulation'') (\<lambda>_.
     and_then (get_verification_key s) (\<lambda>post_vk.
     and_then (assert_that (vk_alpha post_vk = vk_alpha pre_vk) ''UP-06: VK alpha must be unchanged post-upgrade'') (\<lambda>_.
     assert_that (vk_ic post_vk = vk_ic pre_vk) ''UP-06: VK IC vector must be unchanged post-upgrade''))))))))"

definition up07_employee_removal_does_not_corrupt_siblings ::
  "penv \<Rightarrow> address \<Rightarrow> address \<Rightarrow> address \<Rightarrow> address \<Rightarrow> unit outcome" where
  "up07_employee_removal_does_not_corrupt_siblings e adm treasury alice bob =
     and_then (register_company e adm treasury fresh_registry) (\<lambda>(company_id, s).
     let alice_commitment = zero_commitment;
         bob_commitment = (replicate 32 0)[31 := 0xFF] in
     and_then (add_employee e company_id alice alice_commitment s) (\<lambda>s.
     and_then (add_employee e company_id bob bob_commitment s) (\<lambda>s.
     and_then (remove_employee e company_id alice s) (\<lambda>s.
     and_then (reg_get_commitment company_id bob s) (\<lambda>stored_bob.
     assert_that (stored_bob = bob_commitment) ''UP-07: Bob's commitment must survive Alice's removal'')))))"

definition up08_storage_key_versioning_and_migration ::
  "penv \<Rightarrow> address \<Rightarrow> address \<Rightarrow> address \<Rightarrow> address \<Rightarrow> unit payment_result" where
  "up08_storage_key_versioning_and_migration e registry_id commitment_id verifier_id token_id =
     (let addrs = \<lparr>xa_registry = registry_id, xa_commitment = commitment_id, xa_verifier = verifier_id, xa_token = token_id\<rparr> in
     and_then (pe_initialize e addrs fresh_executor) (\<lambda>s.
     assert_that (pe_get_storage_version s = 1) ''UP-08: Storage version must equal 1 upon initialization''))"

section \<open>The scenarios pass\<close>

lemmas salary_steps = init_commitment_admin_def store_commitment_def update_commitment_def record_nullifier_def
  set_payroll_operator_def get_commitment_def has_commitment_def is_nullifier_used_def is_commitment_locked_def
  register_commitment_uniqueness_def require_commitment_admin_def require_admin_or_operator_def sc_require_not_paused_def
  pause_guard_def archive_commitment_def archive_loop.simps put_snapshot_def add_u_def fresh_salary_def emits publish_def Let_def

lemmas registry_steps = register_company_def add_employee_def add_employee_record_def remove_employee_def get_company_def
  reg_get_commitment_def reg_require_not_paused_def company_guard_def pause_guard_def reg_blank_def add_u_def emits publish_def Let_def

lemma first_byte: "(replicate 32 (0 :: u8))[0 := a] = (replicate 32 0)[0 := b] \<longleftrightarrow> a = b"
  "(replicate 32 (0 :: u8))[0 := a] = replicate 32 0 \<longleftrightarrow> a = 0"
  by (auto dest!: arg_cong [where f = "\<lambda>xs. xs ! 0"] simp: list_update_same_conv)

text \<open>The upgrade scenarios pass, whatever the ledger time and the hash function of the host: stored
  commitments, companies, employees, nullifiers, version counters and the verification key read back
  unchanged, provided the generated addresses are different.\<close>

theorem upgrade_scenarios_pass:
  assumes "mocked e" "admin2 \<noteq> adm" "alice \<noteq> bob"
  shows "up01_commitment_record_survives_field_addition_simulation e adm alice = Inr () \<and>
    up02_company_info_storage_compatibility e adm treasury = Inr () \<and>
    up03_datakey_extension_does_not_corrupt_existing_keys e adm treasury alice admin2 = Inr () \<and>
    up04_nullifier_survives_simulated_upgrade e adm alice admin2 = Inr () \<and>
    up05_commitment_version_monotonic_across_upgrade e adm alice admin2 = Inr () \<and>
    up06_verification_key_survives_admin_rotation_simulation e adm = Inr () \<and>
    up07_employee_removal_does_not_corrupt_siblings e adm treasury alice bob = Inr () \<and>
    up08_storage_key_versioning_and_migration e r c v t = Inr ()"
proof (intro conjI)
  show "up01_commitment_record_survives_field_addition_simulation e adm alice = Inr ()"
    using assms by (simp add: up01_commitment_record_survives_field_addition_simulation_def salary_steps)
  show "up02_company_info_storage_compatibility e adm treasury = Inr ()"
    using assms by (simp add: up02_company_info_storage_compatibility_def registry_steps)
  show "up03_datakey_extension_does_not_corrupt_existing_keys e adm treasury alice admin2 = Inr ()"
    using assms by (simp add: up03_datakey_extension_does_not_corrupt_existing_keys_def registry_steps)
  show "up04_nullifier_survives_simulated_upgrade e adm alice admin2 = Inr ()"
    using assms by (simp add: up04_nullifier_survives_simulated_upgrade_def salary_steps)
  show "up05_commitment_version_monotonic_across_upgrade e adm alice admin2 = Inr ()"
    using assms by (simp add: up05_commitment_version_monotonic_across_upgrade_def salary_steps zero_commitment_def first_byte)
  show "up06_verification_key_survives_admin_rotation_simulation e adm = Inr ()"
    using assms by (simp add: up06_verification_key_survives_admin_rotation_simulation_def init_verifier_admin_def
      fresh_verifier_def initialize_verifier_def require_verifier_admin_def get_verification_key_def get_verifier_admin_def)
  show "up07_employee_removal_does_not_corrupt_siblings e adm treasury alice bob = Inr ()"
    using assms by (simp add: up07_employee_removal_does_not_corrupt_siblings_def registry_steps)
  show "up08_storage_key_versioning_and_migration e r c v t = Inr ()"
    by (simp add: up08_storage_key_versioning_and_migration_def pe_initialize_def exe_blank_def pe_get_storage_version_def
      emits publish_def)
qed

definition test_env :: penv where
  "test_env = (reg_env 0 [])\<lparr>auth := (\<lambda>_. True)\<rparr>"

theorem upgrade_scenarios_pass_witness:
  "mocked test_env \<and> up05_commitment_version_monotonic_across_upgrade test_env adr_A adr_E adr_B = Inr () \<and>
   up07_employee_removal_does_not_corrupt_siblings test_env adr_A adr_A adr_E adr_B = Inr ()"
proof -
  have m: "mocked test_env" by (simp add: mocked_def test_env_def)
  with upgrade_scenarios_pass [of test_env adr_B adr_A adr_E adr_B adr_A] show ?thesis by simp
qed

end
