(* ===== verification/Proof_Helper.thy ===== *)
theory Proof_Helper
  imports Prelude
begin

text \<open>
  \<open>contracts/integration_tests/src/proof_helper.rs\<close>: the bridge from the proof generator to the
  contracts. It prints two integers as decimal arguments of \<open>node\<close>, and reads the JSON file that the
  script leaves back into the fixed-size arrays of a Groth16 proof. A Rust \<open>str\<close> is the list of its
  UTF-8 bytes, one \<open>char\<close> per byte; a slice that does not start and end at a character boundary panics.
  The process, the environment variables and the file system are the record \<open>proof_machine\<close>.
\<close>

section \<open>Text\<close>

text \<open>The early return \<open>?\<close> on \<open>None\<close> is \<open>Err ()\<close>.\<close>

type_synonym 'a parsed = "(unit, 'a) result"

abbreviation byte_at :: "string \<Rightarrow> nat \<Rightarrow> nat" where
  "byte_at s i \<equiv> of_char (s ! i)"

definition is_char_boundary :: "string \<Rightarrow> nat \<Rightarrow> bool" where
  "is_char_boundary s i \<longleftrightarrow> i = 0 \<or> i = length s \<or> (i < length s \<and> \<not> (128 \<le> byte_at s i \<and> byte_at s i < 192))"

definition str_slice :: "nat \<Rightarrow> nat \<Rightarrow> string \<Rightarrow> string parsed" where
  "str_slice i j s = (if i \<le> j \<and> is_char_boundary s i \<and> is_char_boundary s j then Inr (take (j - i) (drop i s))
     else Inl (Panic ''byte index is not a char boundary''))"

definition str_from :: "nat \<Rightarrow> string \<Rightarrow> string parsed" where
  "str_from i s = str_slice i (length s) s"

definition strip_prefix_char :: "char \<Rightarrow> string \<Rightarrow> string option" where
  "strip_prefix_char c s = (case s of [] \<Rightarrow> None | d # ds \<Rightarrow> if d = c then Some ds else None)"

fun find_char :: "char \<Rightarrow> string \<Rightarrow> nat option" where
  "find_char c [] = None"
| "find_char c (d # ds) = (if d = c then Some 0 else map_option Suc (find_char c ds))"

definition is_ascii_whitespace :: "char \<Rightarrow> bool" where
  "is_ascii_whitespace c \<longleftrightarrow> of_char c \<in> {32, 9, 10, 12, 13 :: nat}"

text \<open>\<open>bytes.get(i..j)\<close> and \<open>bytes.get(i)\<close>: nothing when out of range.\<close>

definition get_range :: "string \<Rightarrow> nat \<Rightarrow> nat \<Rightarrow> string option" where
  "get_range s i j = (if i \<le> j \<and> j \<le> length s then Some (take (j - i) (drop i s)) else None)"

definition get_at :: "string \<Rightarrow> nat \<Rightarrow> char option" where
  "get_at s i = (if i < length s then Some (s ! i) else None)"

abbreviation "quote \<equiv> CHR 0x22"

section \<open>Decimal arguments\<close>

text \<open>The digits as the loop pushes them, least significant first.\<close>

function decimal_digits :: "u64 \<Rightarrow> u8 list" where
  "decimal_digits n = (if 0 < n then (48 + ucast (n mod 10)) # decimal_digits (n div 10) else [])"
  by auto
termination
proof (relation "measure unat")
  fix n :: u64
  assume "0 < n"
  then have "0 < unat n" by (simp add: unat_gt_0 word_gt_0)
  then show "(n div 10, n) \<in> measure unat" by (simp add: unat_div)
qed simp

declare decimal_digits.simps [simp del]

definition u64_to_decimal :: "u64 \<Rightarrow> string" where
  "u64_to_decimal n = (if n = 0 then ''0'' else map (\<lambda>b. char_of (unat b)) (rev (decimal_digits n)))"

section \<open>Hexadecimal fields\<close>

text \<open>\<open>char::to_digit(16)\<close>\<close>

definition to_digit16 :: "char \<Rightarrow> nat option" where
  "to_digit16 c = (let n = of_char c :: nat in
     if 48 \<le> n \<and> n \<le> 57 then Some (n - 48)
     else if 97 \<le> n \<and> n \<le> 102 then Some (n - 87)
     else if 65 \<le> n \<and> n \<le> 70 then Some (n - 55)
     else None)"

fun radix16_digits :: "nat \<Rightarrow> string \<Rightarrow> u8 option" where
  "radix16_digits acc [] = Some (of_nat acc)"
| "radix16_digits acc (c # cs) = (case to_digit16 c of
     None \<Rightarrow> None
   | Some d \<Rightarrow> if acc * 16 + d < 256 then radix16_digits (acc * 16 + d) cs else None)"

text \<open>\<open>u8::from_str_radix(s, 16)\<close> of the standard library: a leading plus sign is allowed when digits
  follow it, a minus sign is not, as the type is unsigned.\<close>

definition u8_from_str_radix16 :: "string \<Rightarrow> u8 option" where
  "u8_from_str_radix16 s = (case s of
     [] \<Rightarrow> None
   | c # cs \<Rightarrow> if (c = CHR ''+'' \<or> c = CHR ''-'') \<and> cs = [] then None
       else if c = CHR ''+'' then radix16_digits 0 cs
       else radix16_digits 0 s)"

fun hex_decode_loop :: "string \<Rightarrow> nat list \<Rightarrow> bytes parsed" where
  "hex_decode_loop hex [] = Inr []"
| "hex_decode_loop hex (i # is) =
     and_then (str_slice (i * 2) (i * 2 + 2) hex) (\<lambda>pair.
     and_then (ok_or (Err ()) (u8_from_str_radix16 pair)) (\<lambda>b.
     and_then (hex_decode_loop hex is) (\<lambda>bs. Inr (b # bs))))"

definition hex_decode :: "nat \<Rightarrow> string \<Rightarrow> bytes parsed" where
  "hex_decode N hex =
     and_then (fail_if (length hex \<noteq> N * 2) (Err ())) (\<lambda>_.
     hex_decode_loop hex [0..<N])"

section \<open>Fields of the JSON object\<close>

text \<open>What follows the name of a field: a colon, and a string up to the next quote.\<close>

definition field_value :: "string \<Rightarrow> string parsed" where
  "field_value after_key =
     and_then (ok_or (Err ()) (strip_prefix_char CHR '':'' (dropWhile is_ascii_whitespace after_key))) (\<lambda>after_col.
     and_then (ok_or (Err ()) (strip_prefix_char quote (dropWhile is_ascii_whitespace after_col))) (\<lambda>value.
     and_then (ok_or (Err ()) (find_char quote value)) (\<lambda>end.
     str_slice 0 end value)))"

function extract_from :: "string \<Rightarrow> string \<Rightarrow> nat \<Rightarrow> string parsed" where
  "extract_from json field i =
     (if i + length field + 2 \<le> length json then
        (if json ! i = quote \<and> get_range json (i + 1) (i + 1 + length field) = Some field \<and>
            get_at json (i + 1 + length field) = Some quote
         then and_then (str_from (i + 1 + length field + 1) json) field_value
         else extract_from json field (i + 1))
      else Inl (Err ()))"
  by auto
termination by (relation "measure (\<lambda>(json, field, i). length json - i)") auto

declare extract_from.simps [simp del]

definition extract_str_field :: "string \<Rightarrow> string \<Rightarrow> string parsed" where
  "extract_str_field json field = extract_from json field 0"

record GeneratedProof =
  pi_a :: bytes
  pi_b :: bytes
  pi_c :: bytes
  gp_salary_commitment :: bytes
  gp_payment_nullifier :: bytes
  gp_recipient_hash :: bytes

definition parse_proof_bytes :: "string \<Rightarrow> GeneratedProof parsed" where
  "parse_proof_bytes json =
     and_then (extract_str_field json ''pi_a'') (\<lambda>pi_a_hex.
     and_then (extract_str_field json ''pi_b'') (\<lambda>pi_b_hex.
     and_then (extract_str_field json ''pi_c'') (\<lambda>pi_c_hex.
     and_then (extract_str_field json ''salary_commitment'') (\<lambda>commit_hex.
     and_then (extract_str_field json ''payment_nullifier'') (\<lambda>nullifier_hex.
     and_then (extract_str_field json ''recipient_hash'') (\<lambda>recipient_hex.
     and_then (hex_decode 64 pi_a_hex) (\<lambda>a.
     and_then (hex_decode 128 pi_b_hex) (\<lambda>b.
     and_then (hex_decode 64 pi_c_hex) (\<lambda>c.
     and_then (hex_decode 32 commit_hex) (\<lambda>commit.
     and_then (hex_decode 32 nullifier_hex) (\<lambda>nullifier.
     and_then (hex_decode 32 recipient_hex) (\<lambda>recipient.
     Inr \<lparr>pi_a = a, pi_b = b, pi_c = c, gp_salary_commitment = commit, gp_payment_nullifier = nullifier,
       gp_recipient_hash = recipient\<rparr>))))))))))))"

section \<open>Running the generator\<close>

text \<open>What the helper asks of the machine: whether \<open>node --version\<close> succeeds, the manifest directory as
  the names on its path, which files exist, whether the output directory can be made, and what running
  \<open>node\<close> on a script with its arguments gives: nothing when it cannot be spawned, else its status and
  the \<open>proof_bytes.json\<close> that can be read afterwards, if any.\<close>

record proof_machine =
  node_version_ok :: bool
  cargo_manifest_dir :: "string list option"
  file_exists :: "string list \<Rightarrow> bool"
  out_dir_made :: bool
  run_node :: "string list \<Rightarrow> string list \<Rightarrow> (bool \<times> string option) option"

definition path_parent :: "string list \<Rightarrow> string list option" where
  "path_parent p = (if p = [] then None else Some (butlast p))"

definition find_script :: "proof_machine \<Rightarrow> string list option" where
  "find_script h = (case cargo_manifest_dir h of
     None \<Rightarrow> None
   | Some manifest_dir \<Rightarrow> (case path_parent manifest_dir of
       None \<Rightarrow> None
     | Some p \<Rightarrow> (case path_parent p of
         None \<Rightarrow> None
       | Some workspace_root \<Rightarrow>
           (let script = workspace_root @ [''circuits'', ''generate_proof.js''] in
            if file_exists h script then Some script else None))))"

text \<open>The value returned, and the warnings written to standard error.\<close>

definition try_generate_proof :: "proof_machine \<Rightarrow> u64 \<Rightarrow> u64 \<Rightarrow> string list \<times> GeneratedProof option parsed" where
  "try_generate_proof h salary blinding =
     (if \<not> node_version_ok h
      then ([''Node.js is not installed; install Node.js to enable dynamic proof generation tests.''], Inr None)
      else case find_script h of
        None \<Rightarrow> ([''circuits/generate_proof.js not found; skipping dynamic proof generation.''], Inr None)
      | Some script_path \<Rightarrow>
          if \<not> out_dir_made h
          then ([''Cannot create temp directory; skipping dynamic proof generation.''], Inr None)
          else case run_node h script_path [u64_to_decimal salary, u64_to_decimal blinding] of
            None \<Rightarrow> ([''Failed to spawn `node`; skipping dynamic proof generation.''], Inr None)
          | Some (success, bytes_json) \<Rightarrow>
              if \<not> success then ([''generate_proof.js exited with non-zero status; skipping.''], Inr None)
              else case bytes_json of
                None \<Rightarrow> ([''Cannot read proof_bytes.json; skipping.''], Inr None)
              | Some json \<Rightarrow> (case parse_proof_bytes json of
                  Inr p \<Rightarrow> ([], Inr (Some p))
                | Inl (Err _) \<Rightarrow> ([''Failed to parse proof_bytes.json; skipping.''], Inr None)
                | Inl f \<Rightarrow> ([], Inl f)))"

section \<open>Decimal arguments are exact\<close>

definition decimal_value :: "string \<Rightarrow> nat" where
  "decimal_value s = foldl (\<lambda>n c. 10 * n + (of_char c - 48)) 0 s"

definition is_digit :: "char \<Rightarrow> bool" where
  "is_digit c \<longleftrightarrow> 48 \<le> (of_char c :: nat) \<and> (of_char c :: nat) \<le> 57"

lemma digit_byte: "unat (48 + ucast (n mod 10) :: u8) = 48 + unat n mod 10" for n :: u64
proof -
  have "unat (ucast (n mod 10) :: u8) = unat n mod 10" 
    by (simp add: unsigned_ucast_eq unat_mod take_bit_eq_mod)
  then show ?thesis by (simp add: unat_word_ariths)
qed

lemma digits_value: "foldl (\<lambda>n c. 10 * n + (of_char c - 48)) 0 (map (\<lambda>b. char_of (unat b)) (rev (decimal_digits n))) = unat n"
proof (induction n rule: decimal_digits.induct)
  case (1 n)
  show ?case
  proof (cases "0 < n")
    case True
    with 1 show ?thesis by (subst decimal_digits.simps) (simp add: digit_byte unat_div)
  next
    case False
    then show ?thesis by (subst decimal_digits.simps) (simp add: word_gt_0)
  qed
qed

lemma digits_digit: "list_all is_digit (map (\<lambda>b. char_of (unat b)) (rev (decimal_digits n)))"
proof (induction n rule: decimal_digits.induct)
  case (1 n)
  have "is_digit (char_of (48 + unat n mod 10))" by (simp add: is_digit_def)
  with 1 show ?case by (subst decimal_digits.simps) (simp add: digit_byte)
qed

lemma first_digit: "0 < n \<Longrightarrow> decimal_digits n \<noteq> [] \<and> last (decimal_digits n) \<noteq> 48"
proof (induction n rule: decimal_digits.induct)
  case (1 n)
  have "unat (48 + ucast (n mod 10) :: u8) \<noteq> unat (48 :: u8)" if "\<not> 0 < n div 10"
  proof -
    have "unat n div 10 = 0" using that by (simp add: word_gt_0 flip: unat_eq_0) (simp add: unat_div)
    moreover have "0 < unat n" using 1(2) by (simp add: unat_gt_0 word_gt_0)
    ultimately show ?thesis by (simp add: digit_byte)
  qed
  then show ?case using 1 by (subst (1 2) decimal_digits.simps) (auto simp: decimal_digits.simps [of "n div 10"])
qed

text \<open>The argument handed to the generator is the decimal representation of the integer: it is made of
  digits only, its value is the integer, and it has no leading zero unless it is 0 itself.\<close>

lemma decimal_argument_exact:
  "decimal_value (u64_to_decimal n) = unat n \<and> list_all is_digit (u64_to_decimal n) \<and>
   u64_to_decimal n \<noteq> [] \<and> (hd (u64_to_decimal n) = CHR ''0'' \<longleftrightarrow> n = 0)"
proof (cases "n = 0")
  case True
  then show ?thesis by (simp add: u64_to_decimal_def decimal_value_def is_digit_def)
next
  case False
  then have f: "decimal_digits n \<noteq> []" "last (decimal_digits n) \<noteq> 48" using first_digit by (simp_all add: word_gt_0)
  let ?d = "last (decimal_digits n)"
  have "char_of (unat ?d) \<noteq> CHR ''0''"
  proof
    assume "char_of (unat ?d) = CHR ''0''"
    then have "of_char (char_of (unat ?d) :: char) = (48 :: nat)" by simp
    then have "unat ?d = unat (48 :: u8)" using unsigned_less [of ?d, where 'a = nat] by (simp add: of_char_of)
    then show False using f(2) unsigned_word_eqI by blast
  qed
  with False f show ?thesis
    by (simp add: u64_to_decimal_def decimal_value_def digits_value digits_digit hd_map hd_rev)
qed

section \<open>The generator's side\<close>

text \<open>\<open>fieldElemToHex32\<close> and \<open>writeProofBytesFile\<close> of \<open>circuits/generate_proof.js\<close>; the text is that of
  \<open>JSON.stringify\<close> with an indentation of two.\<close>

definition hex_char :: "nat \<Rightarrow> char" where
  "hex_char d = ''0123456789abcdef'' ! d"

fun to_string16 :: "nat \<Rightarrow> string" where
  "to_string16 n = (if n < 16 then [hex_char n] else to_string16 (n div 16) @ [hex_char (n mod 16)])"

declare to_string16.simps [simp del]

definition fieldElemToHex32 :: "int \<Rightarrow> string option" where
  "fieldElemToHex32 n =
     (if n < 0 then None
      else let hex = to_string16 (nat n) in
        if length hex > 64 then None else Some (replicate (64 - length hex) CHR ''0'' @ hex))"

record js_proof =
  js_a :: "int \<times> int"
  js_b :: "(int \<times> int) \<times> (int \<times> int)"
  js_c :: "int \<times> int"
  js_signals :: "int \<times> int \<times> int"

definition json_object :: "(string \<times> string) list \<Rightarrow> string" where
  "json_object kvs = ''{'' @
     concat (map (\<lambda>(i, k, v). (if i = 0 then [] else '','') @ [CHR 0x0A] @ ''  '' @ [quote] @ k @ [quote] @ '': '' @ [quote] @ v @ [quote])
       (enumerate 0 kvs)) @ [CHR 0x0A] @ ''}''"

definition hex_all :: "int list \<Rightarrow> string option" where
  "hex_all ns = (if list_all (\<lambda>n. fieldElemToHex32 n \<noteq> None) ns
     then Some (concat (map (\<lambda>n. the (fieldElemToHex32 n)) ns)) else None)"

definition writeProofBytesFile :: "js_proof \<Rightarrow> string option" where
  "writeProofBytesFile p = (case (js_a p, js_b p, js_c p, js_signals p) of
     ((a0, a1), ((b00, b01), (b10, b11)), (c0, c1), (s0, s1, s2)) \<Rightarrow>
       (case (hex_all [a0, a1], hex_all [b00, b01, b10, b11], hex_all [c0, c1], hex_all [s0], hex_all [s1], hex_all [s2]) of
          (Some a, Some b, Some c, Some x, Some y, Some z) \<Rightarrow>
            Some (json_object [(''pi_a'', a), (''pi_b'', b), (''pi_c'', c), (''salary_commitment'', x),
              (''payment_nullifier'', y), (''recipient_hash'', z)])
        | _ \<Rightarrow> None))"

section \<open>Hexadecimal text\<close>

definition hex_text :: "bytes \<Rightarrow> string" where
  "hex_text bs = concat (map (\<lambda>b. [hex_char (unat b div 16), hex_char (unat b mod 16)]) bs)"

lemma hex_char_cases: "d < 16 \<Longrightarrow> d \<in> {0, 1, 2, 3, 4, 5, 6, 7, 8, 9, 10, 11, 12, 13, 14, 15}" for d :: nat
  by simp presburger

lemma hex_char_digit: "d < 16 \<Longrightarrow> to_digit16 (hex_char d) = Some d"
  by (drule hex_char_cases) (auto simp: hex_char_def to_digit16_def)

lemma hex_char_ascii: "d < 16 \<Longrightarrow> of_char (hex_char d) < (128 :: nat) \<and> hex_char d \<notin> {quote, CHR ''+'', CHR ''-'', CHR ''p'', CHR ''s'', CHR ''r''}"
  by (drule hex_char_cases) (auto simp: hex_char_def)

lemma byte_digits: "unat b div 16 < 16" "unat b mod 16 < 16" for b :: u8
  using unsigned_less [of b, where 'a = nat] by simp_all

lemma hex_pair: "u8_from_str_radix16 [hex_char (unat b div 16), hex_char (unat b mod 16)] = Some b" for b :: u8
proof -
  have "hex_char (unat b div 16) \<noteq> CHR ''+''" "hex_char (unat b div 16) \<noteq> CHR ''-''" using hex_char_ascii byte_digits by blast+
  moreover have "unat b < 256" using unsigned_less [of b, where 'a = nat] by simp
  moreover have "unat b div 16 * 16 + unat b mod 16 = unat b" by (rule div_mult_mod_eq)
  moreover have "unat b div 16 < 256" using byte_digits(1) [of b] by simp
  ultimately show ?thesis
    by (simp add: u8_from_str_radix16_def hex_char_digit byte_digits del: div_mult_mod_eq)
qed

lemma length_hex_text [simp]: "length (hex_text bs) = 2 * length bs"
  by (induction bs) (simp_all add: hex_text_def)

lemma hex_text_chars: "c \<in> set (hex_text bs) \<Longrightarrow> of_char c < (128 :: nat) \<and> c \<notin> {quote, CHR ''+'', CHR ''-'', CHR ''p'', CHR ''s'', CHR ''r''}"
  using hex_char_ascii byte_digits by (auto simp: hex_text_def)

lemma ascii_boundary:
  assumes "i \<le> length s" "\<And>c. c \<in> set s \<Longrightarrow> of_char c < (128 :: nat)"
  shows "is_char_boundary s i"
proof (cases "i = length s")
  case False
  then have "byte_at s i < 128" using assms by simp
  with assms(1) False show ?thesis by (simp add: is_char_boundary_def)
qed (simp add: is_char_boundary_def)

lemma hex_text_pair: "i < length bs \<Longrightarrow> take 2 (drop (i * 2) (hex_text bs)) = [hex_char (unat (bs ! i) div 16), hex_char (unat (bs ! i) mod 16)]"
proof (induction bs arbitrary: i)
  case (Cons b bs)
  then show ?case by (cases i) (auto simp: hex_text_def)
qed simp

lemma hex_loop_text:
  "\<forall>i \<in> set is. i < length bs \<Longrightarrow> hex_decode_loop (hex_text bs) is = Inr (map ((!) bs) is)"
proof (induction "is")
  case (Cons i js)
  then have i: "i < length bs" by simp
  have "is_char_boundary (hex_text bs) (i * 2)" "is_char_boundary (hex_text bs) (i * 2 + 2)"
    by (rule ascii_boundary; use i hex_text_chars in force)+
  then have "str_slice (i * 2) (i * 2 + 2) (hex_text bs) = Inr [hex_char (unat (bs ! i) div 16), hex_char (unat (bs ! i) mod 16)]"
    using i by (simp add: str_slice_def hex_text_pair)
  then show ?case using Cons by (simp add: hex_pair)
qed simp

lemma hex_decode_text: "hex_decode (length bs) (hex_text bs) = Inr bs"
  by (simp add: hex_decode_def hex_loop_text map_nth mult.commute)

lemma be_bytes_Suc: "be_bytes (Suc n) x = be_bytes n (x div 256) @ [word_of_int x]"
  by (simp add: be_bytes_def)

text \<open>The hexadecimal digits of a number, padded to a given length.\<close>

primrec hex_digits :: "nat \<Rightarrow> nat \<Rightarrow> string" where
  "hex_digits 0 n = []"
| "hex_digits (Suc k) n = hex_digits k (n div 16) @ [hex_char (n mod 16)]"

lemma hex_digits_bytes: "hex_digits (2 * k) n = hex_text (be_bytes k (int n))"
proof (induction k arbitrary: n)
  case 0
  then show ?case by (simp add: hex_text_def be_bytes_def)
next
  case (Suc k)
  have u: "unat (word_of_nat n :: u8) = n mod 256"
    by (simp add: unsigned_of_nat take_bit_eq_mod)
  have "n mod 256 div 16 = n div 16 mod 16" "n mod 256 mod 16 = n mod 16"
    using mod_mult2_eq [of n 16 16] by (simp_all add: mod_mod_cancel)
  moreover have "int (n div 16 div 16) = int n div 256" by simp
  ultimately show ?case using Suc [of "n div 16 div 16"] by (simp add: be_bytes_Suc hex_text_def u)
qed

lemma to_string16_padded:
  "n < 16 ^ Suc k \<Longrightarrow> length (to_string16 n) \<le> Suc k \<and> replicate (Suc k - length (to_string16 n)) CHR ''0'' @ to_string16 n = hex_digits (Suc k) n"
proof (induction k arbitrary: n)
  case 0
  then show ?case by (simp add: to_string16.simps [of n])
next
  case (Suc k)
  show ?case
  proof (cases "n < 16")
    case True
    have z: "hex_digits m 0 = replicate m CHR ''0''" for m by (induction m) (simp_all add: hex_char_def replicate_append_same)
    from True show ?thesis by (simp add: to_string16.simps [of n] z replicate_append_same)
  next
    case False
    have "n div 16 < 16 ^ Suc k" using Suc.prems by (simp add: less_mult_imp_div_less mult.commute)
    from Suc.IH [OF this] False show ?thesis by (subst (1 2 3) to_string16.simps) simp
  qed
qed

lemma field_element_hex:
  assumes "0 \<le> n" "n < 2 ^ 256"
  shows "fieldElemToHex32 n = Some (hex_text (be_bytes 32 n))"
proof -
  have "nat n < 16 ^ Suc 63" using assms by simp
  from to_string16_padded [OF this] hex_digits_bytes [of 32 "nat n"] assms(1) show ?thesis
    by (simp add: fieldElemToHex32_def Let_def)
qed

section \<open>Text between quotes\<close>

text \<open>A text as the pieces between its quotation marks.\<close>

fun join_quotes :: "string list \<Rightarrow> string" where
  "join_quotes [] = []"
| "join_quotes [s] = s"
| "join_quotes (s # ss) = s @ quote # join_quotes ss"

text \<open>The scan as a recursion on the rest of the text.\<close>

definition rest_value :: "string \<Rightarrow> string parsed" where
  "rest_value s = (if s \<noteq> [] \<and> 128 \<le> byte_at s 0 \<and> byte_at s 0 < 192
     then Inl (Panic ''byte index is not a char boundary'') else field_value s)"

fun scan :: "string \<Rightarrow> string \<Rightarrow> string parsed" where
  "scan field [] = Inl (Err ())"
| "scan field (c # cs) =
     (if take (length field + 2) (c # cs) = quote # field @ [quote] then rest_value (drop (length field + 1) cs)
      else scan field cs)"

lemma short_scan: "length s < length field + 2 \<Longrightarrow> scan field s = Inl (Err ())"
proof (induction s)
  case (Cons c cs)
  have "take (length field + 2) (c # cs) \<noteq> quote # field @ [quote]"
    using Cons.prems by (metis length_Cons length_append_singleton length_take add_2_eq_Suc' min.strict_order_iff not_less_iff_gr_or_eq)
  with Cons show ?case by auto
qed simp

lemma match_at:
  assumes "i + length field + 2 \<le> length json"
  shows "json ! i = quote \<and> get_range json (i + 1) (i + 1 + length field) = Some field \<and> get_at json (i + 1 + length field) = Some quote \<longleftrightarrow>
    take (length field + 2) (drop i json) = quote # field @ [quote]"
proof -
  have "drop i json = json ! i # drop (i + 1) json" using assms by (simp add: Cons_nth_drop_Suc)
  moreover have "take (length field + 1) (drop (i + 1) json) = take (length field) (drop (i + 1) json) @ [json ! (i + 1 + length field)]"
    using assms by (simp add: take_Suc_conv_app_nth)
  ultimately show ?thesis using assms by (auto simp: get_range_def get_at_def)
qed

lemma extract_scan: "i \<le> length json \<Longrightarrow> extract_from json field i = scan field (drop i json)"
proof (induction json field i rule: extract_from.induct)
  case (1 json field i)
  show ?case
  proof (cases "i + length field + 2 \<le> length json")
    case False
    then show ?thesis by (subst extract_from.simps) (simp add: short_scan)
  next
    case True
    then have d: "drop i json = json ! i # drop (i + 1) json" by (simp add: Cons_nth_drop_Suc)
    have "and_then (str_from (i + 1 + length field + 1) json) field_value = rest_value (drop (i + 1 + length field + 1) json)"
      using True by (auto simp: str_from_def str_slice_def rest_value_def is_char_boundary_def)
    then have "scan field (drop i json) = (if take (length field + 2) (drop i json) = quote # field @ [quote]
        then and_then (str_from (i + 1 + length field + 1) json) field_value else scan field (drop (i + 1) json))"
      unfolding d by (simp add: add.commute add.left_commute)
    then show ?thesis using True 1 match_at [OF True] by (subst extract_from.simps) auto
  qed
qed

lemma scan_skip: "quote \<notin> set s \<Longrightarrow> scan field (s @ r) = scan field r"
  by (induction s) auto

lemma scan_piece:
  assumes "quote \<notin> set s" "quote \<notin> set field"
  shows "scan field (quote # s @ quote # r) = (if s = field then rest_value r else scan field (quote # r))"
proof (cases "s = field")
  case False
  have "take (length field + 1) (s @ quote # r) \<noteq> field @ [quote]"
  proof
    assume "take (length field + 1) (s @ quote # r) = field @ [quote]"
    then have "s @ quote # r = field @ quote # drop (length field + 1) (s @ quote # r)"
      by (metis append_Cons append_assoc append_take_drop_id self_append_conv2)
    then have "takeWhile (\<lambda>c. c \<noteq> quote) (s @ quote # r) = takeWhile (\<lambda>c. c \<noteq> quote) (field @ quote # drop (length field + 1) (s @ quote # r))"
      by (rule arg_cong)
    moreover have "takeWhile (\<lambda>c. c \<noteq> quote) (x @ quote # y) = x" if "quote \<notin> set x" for x y
      using that by (induction x) auto
    ultimately show False using assms False by simp
  qed
  with False assms(1) scan_skip [of s field "quote # r"] show ?thesis by simp
qed simp

declare scan.simps [simp del]

lemma find_quote: "quote \<notin> set v \<Longrightarrow> find_char quote (v @ quote # r) = Some (length v)"
  by (induction v) auto

lemma rest_value_string: "quote \<notin> set v \<Longrightarrow> rest_value ('': '' @ quote # v @ quote # r) = Inr v"
  by (simp add: rest_value_def field_value_def strip_prefix_char_def is_ascii_whitespace_def find_quote str_slice_def
      is_char_boundary_def nth_append)

definition json_entries :: "nat \<Rightarrow> (string \<times> string) list \<Rightarrow> string" where
  "json_entries n kvs = concat (map (\<lambda>(i, k, v). (if i = 0 then [] else '','') @ [CHR 0x0A] @ ''  '' @ [quote] @ k @ [quote] @ '': '' @ [quote] @ v @ [quote])
     (enumerate n kvs)) @ [CHR 0x0A] @ ''}''"

definition plain_entries :: "string \<Rightarrow> (string \<times> string) list \<Rightarrow> bool" where
  "plain_entries k kvs \<longleftrightarrow> list_all (\<lambda>(k', v). quote \<notin> set k' \<and> quote \<notin> set v \<and> v \<noteq> k) kvs"

abbreviation separator :: "nat \<Rightarrow> string" where
  "separator n \<equiv> (if n = 0 then [] else '','') @ [CHR 0x0A] @ ''  ''"

definition name_ok :: "string \<Rightarrow> bool" where
  "name_ok k \<longleftrightarrow> quote \<notin> set k \<and> k \<noteq> '': '' \<and> k \<noteq> separator 0 \<and> k \<noteq> separator 1"

lemma scan_entry:
  assumes "name_ok k" "quote \<notin> set k'" "quote \<notin> set v" "v \<noteq> k"
  shows "scan k (quote # k' @ quote # '': '' @ quote # v @ quote # r) = (if k' = k then Inr v else scan k (quote # r))"
proof -
  have "scan k (quote # '': '' @ quote # v @ quote # r) = scan k (quote # v @ quote # r)"
    using assms by (subst scan_piece) (auto simp: name_ok_def)
  also have "\<dots> = scan k (quote # r)" using assms by (subst scan_piece) (auto simp: name_ok_def)
  finally show ?thesis using assms rest_value_string [OF assms(3), of r]
    by (subst scan_piece) (auto simp: name_ok_def)
qed

lemma json_entries_Cons:
  "json_entries n ((k, v) # kvs) = separator n @ quote # k @ quote # '': '' @ quote # v @ quote # json_entries (Suc n) kvs"
  by (simp add: json_entries_def)

lemma scan_entries:
  assumes "name_ok k" "plain_entries k kvs" "map_of kvs k = Some v"
  shows "scan k (json_entries n kvs) = Inr v \<and> scan k (quote # json_entries n kvs) = Inr v"
  using assms(2,3)
proof (induction kvs arbitrary: n)
  case (Cons kv kvs)
  obtain k' v' where kv: "kv = (k', v')" by (cases kv)
  have s: "quote \<notin> set (separator n)" "separator n \<noteq> k" using assms(1) by (auto simp: name_ok_def)
  have p: "quote \<notin> set k'" "quote \<notin> set v'" "v' \<noteq> k" using Cons.prems(1) by (auto simp: plain_entries_def kv)
  let ?r = "quote # k' @ quote # '': '' @ quote # v' @ quote # json_entries (Suc n) kvs"
  have "scan k ?r = Inr v" using scan_entry [OF assms(1) p] Cons by (auto simp: kv plain_entries_def)
  moreover have "scan k (separator n @ ?r) = scan k ?r" by (rule scan_skip [OF s(1)])
  moreover have "scan k (quote # separator n @ ?r) = scan k ?r"
    using scan_piece [OF s(1), of k "k' @ quote # '': '' @ quote # v' @ quote # json_entries (Suc n) kvs"] s(2) assms(1)
    by (simp only: name_ok_def if_False) blast
  ultimately show ?case unfolding kv json_entries_Cons by simp
qed simp

lemma extract_json_object:
  assumes "name_ok k" "plain_entries k kvs" "map_of kvs k = Some v"
  shows "extract_str_field (json_object kvs) k = Inr v"
proof -
  have "json_object kvs = ''{'' @ json_entries 0 kvs" by (simp add: json_object_def json_entries_def)
  then show ?thesis using scan_skip [of "''{''" k "json_entries 0 kvs"] scan_entries [OF assms]
    by (simp add: extract_str_field_def extract_scan)
qed

section \<open>Round trip\<close>

definition field_element :: "int \<Rightarrow> bool" where
  "field_element n \<longleftrightarrow> 0 \<le> n \<and> n < 2 ^ 256"

abbreviation "be32s ns \<equiv> concat (map (be_bytes 32) ns)"

lemma hex_text_append: "hex_text (xs @ ys) = hex_text xs @ hex_text ys"
  by (simp add: hex_text_def)

lemma hex_all_text: "list_all field_element ns \<Longrightarrow> hex_all ns = Some (hex_text (be32s ns))"
proof (induction ns)
  case Nil
  then show ?case by (simp add: hex_all_def hex_text_def)
next
  case (Cons n ns)
  then show ?case by (auto simp: hex_all_def field_element_hex field_element_def hex_text_append split: if_splits)
qed

lemma hex_text_not_name: "hd k \<in> {CHR ''p'', CHR ''s'', CHR ''r''} \<Longrightarrow> k \<noteq> [] \<Longrightarrow> hex_text bs \<noteq> k"
  using hex_text_chars list.set_sel(1) by blast

text \<open>C27. What \<open>generate_proof.js\<close> writes, the helper reads back: from the JSON text of the field elements of
  a proof and of its three public signals, each below \<open>2^256\<close>, the parser returns exactly their
  32-byte big-endian encodings, joined point by point.\<close>

theorem proof_file_round_trip:
  assumes "list_all field_element [a0, a1, b00, b01, b10, b11, c0, c1, s0, s1, s2]"
  shows "\<exists>json. writeProofBytesFile \<lparr>js_a = (a0, a1), js_b = ((b00, b01), (b10, b11)), js_c = (c0, c1), js_signals = (s0, s1, s2)\<rparr> = Some json \<and>
    parse_proof_bytes json = Inr \<lparr>pi_a = be32s [a0, a1], pi_b = be32s [b00, b01, b10, b11], pi_c = be32s [c0, c1],
      gp_salary_commitment = be_bytes 32 s0, gp_payment_nullifier = be_bytes 32 s1, gp_recipient_hash = be_bytes 32 s2\<rparr>"
proof -
  let ?kvs = "[(''pi_a'', hex_text (be32s [a0, a1])), (''pi_b'', hex_text (be32s [b00, b01, b10, b11])),
    (''pi_c'', hex_text (be32s [c0, c1])), (''salary_commitment'', hex_text (be32s [s0])),
    (''payment_nullifier'', hex_text (be32s [s1])), (''recipient_hash'', hex_text (be32s [s2]))]"
  have q: "quote \<notin> set (hex_text bs)" for bs using hex_text_chars by blast
  define json where "json = json_object ?kvs"
  have x: "extract_str_field json k = Inr v" if "map_of ?kvs k = Some v" for k v
    unfolding json_def
  proof (rule extract_json_object [OF _ _ that])
    have k: "k \<in> {''pi_a'', ''pi_b'', ''pi_c'', ''salary_commitment'', ''payment_nullifier'', ''recipient_hash''}"
      using that by (auto split: if_splits)
    then show "name_ok k" by (auto simp: name_ok_def)
    from k have "hex_text bs \<noteq> k" for bs by (intro hex_text_not_name) auto
    then show "plain_entries k ?kvs" by (simp add: plain_entries_def q)
  qed
  have d: "hex_decode n (hex_text bs) = Inr bs" if "length bs = n" for n bs using hex_decode_text [of bs] that by simp
  have e: "extract_str_field json ''pi_a'' = Inr (hex_text (be32s [a0, a1]))"
    "extract_str_field json ''pi_b'' = Inr (hex_text (be32s [b00, b01, b10, b11]))"
    "extract_str_field json ''pi_c'' = Inr (hex_text (be32s [c0, c1]))"
    "extract_str_field json ''salary_commitment'' = Inr (hex_text (be32s [s0]))"
    "extract_str_field json ''payment_nullifier'' = Inr (hex_text (be32s [s1]))"
    "extract_str_field json ''recipient_hash'' = Inr (hex_text (be32s [s2]))"
    by (rule x, simp)+
  have "parse_proof_bytes json = Inr \<lparr>pi_a = be32s [a0, a1], pi_b = be32s [b00, b01, b10, b11], pi_c = be32s [c0, c1],
      gp_salary_commitment = be32s [s0], gp_payment_nullifier = be32s [s1], gp_recipient_hash = be32s [s2]\<rparr>"
    unfolding parse_proof_bytes_def e by (simp add: d)
  moreover have "writeProofBytesFile \<lparr>js_a = (a0, a1), js_b = ((b00, b01), (b10, b11)), js_c = (c0, c1), js_signals = (s0, s1, s2)\<rparr> = Some json"
    using assms by (simp add: writeProofBytesFile_def hex_all_text json_def)
  ultimately show ?thesis by simp
qed

theorem proof_file_round_trip_witness:
  "\<exists>json. writeProofBytesFile \<lparr>js_a = (1, 2), js_b = ((3, 4), (5, 6)), js_c = (7, 8), js_signals = (9, 10, 2 ^ 256 - 1)\<rparr> = Some json \<and>
     (\<exists>p. parse_proof_bytes json = Inr p \<and> gp_recipient_hash p = be_bytes 32 (2 ^ 256 - 1))"
proof -
  have "list_all field_element [1, 2, 3, 4, 5, 6, 7, 8, 9, 10, 2 ^ 256 - 1]" by (simp add: field_element_def)
  from proof_file_round_trip [OF this] show ?thesis by fastforce
qed

text \<open>The helper returns a proof exactly when \<open>node\<close> is there, the script is found, the directory can be
  made, and the script, run on the decimal salary and blinding factor, succeeds and leaves a file that
  parses to that proof; and it warns on standard error exactly when it returns nothing.\<close>

lemma proof_generation_outcome:
  "(snd (try_generate_proof h salary blinding) = Inr (Some p) \<longleftrightarrow>
      node_version_ok h \<and> out_dir_made h \<and>
      (\<exists>script json. find_script h = Some script \<and>
        run_node h script [u64_to_decimal salary, u64_to_decimal blinding] = Some (True, Some json) \<and>
        parse_proof_bytes json = Inr p)) \<and>
   (fst (try_generate_proof h salary blinding) \<noteq> [] \<longleftrightarrow> snd (try_generate_proof h salary blinding) = Inr None)"
  by (auto simp: try_generate_proof_def split: option.splits sum.splits fault.splits prod.splits)

text \<open>The digits are not checked to be lower case: an upper-case pair is read, and a pair of a plus sign
  and one digit is read as that digit. A byte sequence of the right length that is not ASCII makes the
  slice panic.\<close>

lemma hex_decode_lenient:
  "hex_decode 1 ''FF'' = Inr [255]" "hex_decode 1 ''+f'' = Inr [15]" "hex_decode 1 ''-f'' = Inl (Err ())"
  "hex_decode 2 (map char_of [226 :: nat, 130, 172, 120]) = Inl (Panic ''byte index is not a char boundary'')"
  by (simp_all add: hex_decode_def str_slice_def is_char_boundary_def u8_from_str_radix16_def to_digit16_def Let_def numeral_2_eq_2 upt_rec)

text \<open>The unit tests of the helper.\<close>

lemma u64_to_decimal_values:
  "u64_to_decimal 0 = ''0''" "u64_to_decimal 1 = ''1''" "u64_to_decimal 5000 = ''5000''"
  "u64_to_decimal 18446744073709551615 = ''18446744073709551615''"
  by (simp_all add: u64_to_decimal_def decimal_digits.simps char_of_def bit_0)

lemma extract_str_field_values:
  "extract_str_field ([CHR ''{'', quote] @ ''pi_a'' @ [quote] @ '': '' @ [quote] @ ''deadbeef'' @ [quote] @ '', '' @ [quote] @ ''pi_b'' @
     [quote] @ '': '' @ [quote] @ ''cafebabe'' @ [quote, CHR ''}'']) ''pi_b'' = Inr ''cafebabe''"
  "extract_str_field ([CHR ''{'', quote] @ ''pi_ax'' @ [quote] @ '': '' @ [quote] @ ''wrongval'' @ [quote] @ '', '' @ [quote] @ ''pi_a'' @
     [quote] @ '': '' @ [quote] @ ''rightval'' @ [quote, CHR ''}'']) ''pi_a'' = Inr ''rightval''"
  by (simp_all add: extract_str_field_def extract_scan scan.simps rest_value_def field_value_def strip_prefix_char_def
      is_ascii_whitespace_def str_slice_def is_char_boundary_def)

end
