(* ===== verification/Integration_Scenarios.thy ===== *)
theory Integration_Scenarios
  imports Payroll_Ledger Payroll_Payments Upgrade_Scenarios Proof_Helper
begin

text \<open>
  \<open>contracts/integration_tests/src/lib.rs\<close>: the end-to-end tests, as programs over the ledger. The set-up
  deploys and connects five contracts; each test onboards an employee, runs a payroll batch and asserts
  on balances, nullifiers, locks, metadata and events across the contracts. The clients of the SDK are
  the functions below: they look the contract up, run it in the environment of the ledger, and keep its
  new state when it returns.
\<close>

section \<open>Clients\<close>

definition client :: "(address \<rightharpoonup> 's) \<Rightarrow> address \<Rightarrow> ('s \<Rightarrow> 'r outcome) \<Rightarrow> 'r outcome" where
  "client tbl a f = and_then (ok_or (NoContract a) (tbl a)) f"

definition no_value :: "'s outcome \<Rightarrow> (unit \<times> 's) outcome" where
  "no_value r = and_then r (\<lambda>s. Inr ((), s))"

definition verifier_client :: "env \<Rightarrow> address \<Rightarrow> (env \<Rightarrow> proof_verifier \<Rightarrow> ('r \<times> proof_verifier) outcome) \<Rightarrow> ledger \<Rightarrow> ('r \<times> ledger) outcome" where
  "verifier_client e a f L = and_then (client (verifier_contracts L) a (f (env_at e a))) (\<lambda>(r, s).
     Inr (r, L\<lparr>verifier_contracts := (verifier_contracts L)(a \<mapsto> s)\<rparr>))"

definition commitment_client :: "env \<Rightarrow> address \<Rightarrow> (penv \<Rightarrow> salary_commitment \<Rightarrow> ('r \<times> salary_commitment) outcome) \<Rightarrow> ledger \<Rightarrow> ('r \<times> ledger) outcome" where
  "commitment_client e a f L = and_then (client (salary_ledgers L) a (f (penv_at e a L))) (\<lambda>(r, s).
     Inr (r, L\<lparr>salary_ledgers := (salary_ledgers L)(a \<mapsto> s)\<rparr>))"

definition registry_client :: "env \<Rightarrow> address \<Rightarrow> (penv \<Rightarrow> registry \<Rightarrow> ('r \<times> registry) outcome) \<Rightarrow> ledger \<Rightarrow> ('r \<times> ledger) outcome" where
  "registry_client e a f L = and_then (client (registry_contracts L) a (f (penv_at e a L))) (\<lambda>(r, s).
     Inr (r, L\<lparr>registry_contracts := (registry_contracts L)(a \<mapsto> s)\<rparr>))"

definition token_client :: "address \<Rightarrow> (token \<Rightarrow> ('r \<times> token) outcome) \<Rightarrow> ledger \<Rightarrow> ('r \<times> ledger) outcome" where
  "token_client a f L = and_then (client (token_contracts L) a f) (\<lambda>(r, s).
     Inr (r, L\<lparr>token_contracts := (token_contracts L)(a \<mapsto> s)\<rparr>))"

definition payroll_client :: "env \<Rightarrow> address \<Rightarrow> (venv \<Rightarrow> world \<Rightarrow> ('r \<times> world) outcome) \<Rightarrow> ledger \<Rightarrow> ('r \<times> ledger) outcome" where
  "payroll_client e a f L = and_then (client (\<lambda>a. payroll_view a L) a (f (venv_at e a L))) (\<lambda>(r, w).
     Inr (r, L\<lparr>payrolls := (payrolls L)(a \<mapsto> pay w), token_contracts := tokens w, salary_ledgers := commitment_contracts w\<rparr>))"

section \<open>Set-up\<close>

definition mock_vk :: VerificationKey where
  "mock_vk = \<lparr>vk_alpha = replicate 64 0, vk_beta = replicate 128 0, vk_gamma = replicate 128 0,
     vk_delta = replicate 128 0, vk_ic = [replicate 64 0, replicate 64 0, replicate 64 0, replicate 64 0]\<rparr>"

definition mock_proof :: bytes where
  "mock_proof = replicate 256 0"

definition test_nonce :: "u8 \<Rightarrow> bytes" where
  "test_nonce seed = (replicate 32 0)[0 := seed]"

definition alice_salary_commitment :: "'x env_scheme \<Rightarrow> bytes" where
  "alice_salary_commitment e = compute_commitment e 5000 ((replicate 32 0)[31 := 123])"

text \<open>The addresses that the set-up generates.\<close>

record TestContext =
  tc_admin :: address
  tc_treasury :: address
  tc_treasury_owner :: address
  tc_alice :: address
  verifier_id :: address
  commitment_id :: address
  token_id :: address
  registry_id :: address
  payroll_id :: address

definition registered :: "TestContext \<Rightarrow> ledger" where
  "registered c = \<lparr>managers = Map.empty, token_contracts = [token_id c \<mapsto> \<lparr>balances = Map.empty\<rparr>],
     verifier_contracts = [verifier_id c \<mapsto> fresh_verifier], salary_ledgers = [commitment_id c \<mapsto> fresh_salary],
     registry_contracts = [registry_id c \<mapsto> fresh_registry], executors = Map.empty, payrolls = [payroll_id c \<mapsto> pay_blank],
     audits = Map.empty\<rparr>"

definition e2e_setup :: "env \<Rightarrow> TestContext \<Rightarrow> (u64 \<times> ledger) outcome" where
  "e2e_setup e c =
     and_then (verifier_client e (verifier_id c) (\<lambda>e s. no_value (init_verifier_admin (tc_admin c) s)) (registered c)) (\<lambda>(_, L).
     and_then (verifier_client e (verifier_id c) (\<lambda>e s. no_value (initialize_verifier e mock_vk s)) L) (\<lambda>(_, L).
     and_then (commitment_client e (commitment_id c) (\<lambda>e s. no_value (init_commitment_admin (tc_admin c) s)) L) (\<lambda>(_, L).
     and_then (payroll_client e (payroll_id c) (\<lambda>e w. no_value (on_pay (initialize e (tc_admin c) (token_id c) (verifier_id c)
       (commitment_id c) (tc_treasury c) (tc_treasury_owner c)) w)) L) (\<lambda>(_, L).
     and_then (commitment_client e (commitment_id c) (\<lambda>e s. no_value (set_payroll_operator e (payroll_id c) s)) L) (\<lambda>(_, L).
     registry_client e (registry_id c) (\<lambda>e s. register_company e (tc_admin c) (tc_treasury c) s) L)))))"

section \<open>Steps the tests share\<close>

definition onboard :: "env \<Rightarrow> TestContext \<Rightarrow> u64 \<Rightarrow> address \<Rightarrow> bytes \<Rightarrow> ledger \<Rightarrow> ledger outcome" where
  "onboard e c company_id employee commitment_bytes L =
     and_then (commitment_client e (commitment_id c) (\<lambda>e s. store_commitment e employee commitment_bytes s) L) (\<lambda>(_, L).
     and_then (registry_client e (registry_id c) (\<lambda>e s. no_value (add_employee e company_id employee commitment_bytes s)) L) (\<lambda>(_, L).
     Inr L))"

definition fund :: "TestContext \<Rightarrow> i128 \<Rightarrow> ledger \<Rightarrow> ledger outcome" where
  "fund c amount L = and_then (token_client (token_id c) (\<lambda>t. no_value (mint (tc_treasury c) amount t)) L) (\<lambda>(_, L). Inr L)"

definition run_batch ::
  "env \<Rightarrow> TestContext \<Rightarrow> bytes list \<Rightarrow> i128 list \<Rightarrow> address list \<Rightarrow> i128 \<Rightarrow> u8 \<Rightarrow> ledger \<Rightarrow> (u64 \<times> ledger) outcome" where
  "run_batch e c proofs amounts employees tot seed L =
     payroll_client e (payroll_id c) (\<lambda>e w. batch_process_payroll e proofs amounts employees tot (test_nonce seed) None w) L"

definition token_read :: "TestContext \<Rightarrow> address \<Rightarrow> ledger \<Rightarrow> i128 outcome" where
  "token_read c a L = client (token_contracts L) (token_id c) (\<lambda>t. Inr (balance t a))"

definition commitment_read :: "TestContext \<Rightarrow> (salary_commitment \<Rightarrow> bool) \<Rightarrow> ledger \<Rightarrow> bool outcome" where
  "commitment_read c f L = client (salary_ledgers L) (commitment_id c) (\<lambda>s. Inr (f s))"

definition assert_balance :: "TestContext \<Rightarrow> address \<Rightarrow> i128 \<Rightarrow> string \<Rightarrow> ledger \<Rightarrow> unit outcome" where
  "assert_balance c a n msg L = and_then (token_read c a L) (\<lambda>b. assert_that (b = n) msg)"

definition assert_commitment :: "TestContext \<Rightarrow> (salary_commitment \<Rightarrow> bool) \<Rightarrow> string \<Rightarrow> ledger \<Rightarrow> unit outcome" where
  "assert_commitment c f msg L = and_then (commitment_read c f L) (\<lambda>b. assert_that b msg)"

text \<open>The events of all contracts; the tests only ask which are among them and how many there are.\<close>

definition all_events :: "TestContext \<Rightarrow> ledger \<Rightarrow> event list" where
  "all_events c L =
     (case verifier_contracts L (verifier_id c) of None \<Rightarrow> [] | Some s \<Rightarrow> events s) @
     (case salary_ledgers L (commitment_id c) of None \<Rightarrow> [] | Some s \<Rightarrow> events s) @
     (case registry_contracts L (registry_id c) of None \<Rightarrow> [] | Some s \<Rightarrow> events s) @
     (case payrolls L (payroll_id c) of None \<Rightarrow> [] | Some s \<Rightarrow> events s)"

definition has_event :: "event list \<Rightarrow> symbol \<Rightarrow> bool" where
  "has_event evs sy \<longleftrightarrow> list_ex (\<lambda>ev. list_ex (\<lambda>v. v = VSym sy) (topics ev)) evs"

definition has_first_topic :: "event list \<Rightarrow> symbol \<Rightarrow> bool" where
  "has_first_topic evs sy \<longleftrightarrow> list_ex (\<lambda>ev. topics ev \<noteq> [] \<and> hd (topics ev) = VSym sy) evs"

definition has_payroll_topic :: "event list \<Rightarrow> symbol \<Rightarrow> bool" where
  "has_payroll_topic evs sy \<longleftrightarrow>
     list_ex (\<lambda>ev. length (topics ev) > 1 \<and> topics ev ! 0 = VSym ''payroll'' \<and> topics ev ! 1 = VSym sy) evs"

section \<open>The tests\<close>

definition test_e2e_full_payroll_flow :: "env \<Rightarrow> TestContext \<Rightarrow> unit outcome" where
  "test_e2e_full_payroll_flow e c =
     and_then (e2e_setup e c) (\<lambda>(company_id, L).
     let commitment_bytes = alice_salary_commitment e in
     and_then (commitment_client e (commitment_id c) (\<lambda>e s. store_commitment e (tc_alice c) commitment_bytes s) L) (\<lambda>(_, L).
     and_then (assert_commitment c (has_commitment (tc_alice c)) ''has_commitment'' L) (\<lambda>_.
     and_then (registry_client e (registry_id c) (\<lambda>e s. no_value (add_employee e company_id (tc_alice c) commitment_bytes s)) L) (\<lambda>(_, L).
     and_then (fund c 10000 L) (\<lambda>L.
     and_then (assert_balance c (tc_treasury c) 10000 ''initial treasury'' L) (\<lambda>_.
     and_then (assert_balance c (tc_alice c) 0 ''initial balance'' L) (\<lambda>_.
     and_then (run_batch e c [mock_proof] [5000] [tc_alice c] 5000 1 L) (\<lambda>(_, L).
     and_then (assert_balance c (tc_treasury c) (10000 - 5000) ''Treasury must decrease by payment amount'' L) (\<lambda>_.
     and_then (assert_balance c (tc_alice c) 5000 ''Alice's balance must increase by payment amount'' L) (\<lambda>_.
     and_then (assert_commitment c (is_nullifier_used (replicate 32 0)) ''Payment nullifier must be recorded after execution'' L) (\<lambda>_.
     let evs = all_events c L in
     and_then (assert_that (has_first_topic evs ''CompanyRegistered'') ''CompanyRegistered event missing'') (\<lambda>_.
     and_then (assert_that (has_first_topic evs ''CommitmentUpdated'') ''CommitmentUpdated event missing'') (\<lambda>_.
     and_then (assert_that (has_first_topic evs ''EmployeeAdded'') ''EmployeeAdded event missing'') (\<lambda>_.
     and_then (assert_that (has_payroll_topic evs ''payment_executed'') ''payment_executed event missing'') (\<lambda>_.
     and_then (assert_that (length evs \<ge> 6) ''Expected at least 6 events emitted'') (\<lambda>_.
     and_then (assert_that (has_event evs ''CompanyRegistered'') ''CompanyRegistered event must be emitted'') (\<lambda>_.
     and_then (assert_that (has_event evs ''CommitmentUpdated'') ''CommitmentUpdated event must be emitted'') (\<lambda>_.
     and_then (assert_that (has_event evs ''EmployeeAdded'') ''EmployeeAdded event must be emitted'') (\<lambda>_.
     and_then (assert_that (has_event evs ''CommitmentLocked'') ''CommitmentLocked event must be emitted'') (\<lambda>_.
     and_then (assert_that (has_event evs ''payment_executed'') ''payment_executed event must be emitted'') (\<lambda>_.
     assert_that (has_event evs ''run_executed'') ''run_executed event must be emitted'')))))))))))))))))))))"

definition test_unregistered_employee_cannot_be_paid :: "env \<Rightarrow> TestContext \<Rightarrow> unit outcome" where
  "test_unregistered_employee_cannot_be_paid e c =
     and_then (e2e_setup e c) (\<lambda>(company_id, L).
     and_then (fund c 10000 L) (\<lambda>L.
     and_then (run_batch e c [mock_proof] [5000] [tc_alice c] 5000 2 L) (\<lambda>_. Inr ())))"

definition test_double_payment_rejected :: "env \<Rightarrow> TestContext \<Rightarrow> unit outcome" where
  "test_double_payment_rejected e c =
     and_then (e2e_setup e c) (\<lambda>(company_id, L).
     and_then (onboard e c company_id (tc_alice c) (alice_salary_commitment e) L) (\<lambda>L.
     and_then (fund c 20000 L) (\<lambda>L.
     and_then (run_batch e c [mock_proof] [5000] [tc_alice c] 5000 3 L) (\<lambda>(_, L).
     and_then (run_batch e c [mock_proof] [5000] [tc_alice c] 5000 4 L) (\<lambda>_. Inr ())))))"

definition test_mismatched_arrays_rejected :: "env \<Rightarrow> TestContext \<Rightarrow> unit outcome" where
  "test_mismatched_arrays_rejected e c =
     and_then (e2e_setup e c) (\<lambda>(company_id, L).
     and_then (run_batch e c [mock_proof, mock_proof] [5000] [tc_alice c, tc_alice c] 5000 5 L) (\<lambda>_. Inr ()))"

definition test_dynamic_proof_integration :: "proof_machine \<Rightarrow> env \<Rightarrow> TestContext \<Rightarrow> unit outcome" where
  "test_dynamic_proof_integration h e c =
     and_then (snd (try_generate_proof h 5000 123)) (\<lambda>proof_data. case proof_data of
       None \<Rightarrow> Inr ()
     | Some p \<Rightarrow>
         and_then (e2e_setup e c) (\<lambda>(company_id, L).
         let prf = pi_a p @ pi_b p @ pi_c p in
         and_then (onboard e c company_id (tc_alice c) (gp_salary_commitment p) L) (\<lambda>L.
         and_then (fund c 10000 L) (\<lambda>L.
         and_then (run_batch e c [prf] [5000] [tc_alice c] 5000 6 L) (\<lambda>(_, L).
         and_then (assert_balance c (tc_treasury c) (10000 - 5000) ''treasury'' L) (\<lambda>_.
         and_then (assert_balance c (tc_alice c) 5000 ''alice'' L) (\<lambda>_.
         assert_commitment c (is_nullifier_used (replicate 32 0)) ''nullifier'' L)))))))"

definition test_e2e_metadata_hash_verification :: "env \<Rightarrow> TestContext \<Rightarrow> unit outcome" where
  "test_e2e_metadata_hash_verification e c =
     and_then (e2e_setup e c) (\<lambda>(company_id, L).
     and_then (onboard e c company_id (tc_alice c) (alice_salary_commitment e) L) (\<lambda>L.
     and_then (fund c 10000 L) (\<lambda>L.
     and_then (run_batch e c [mock_proof] [5000] [tc_alice c] 5000 7 L) (\<lambda>(run_id, L).
     and_then (assert_that (run_id > 0) ''run_id'') (\<lambda>_.
     let zero_hash = replicate 32 0; meta_hash = replicate 32 0xAB; wrong_hash = replicate 32 0xCD in
     and_then (client (payrolls L) (payroll_id c) (\<lambda>s.
       and_then (get_metadata_hash run_id s) (\<lambda>stored_hash.
       and_then (assert_that (stored_hash = zero_hash) ''default'') (\<lambda>_.
       and_then (verify_metadata_hash run_id zero_hash s) (\<lambda>ok. assert_that ok ''default'')))) ) (\<lambda>_.
     and_then (payroll_client e (payroll_id c) (\<lambda>e w. no_value (on_pay (commit_metadata_hash e (tc_admin c) meta_hash) w)) L) (\<lambda>(_, L).
     and_then (payroll_client e (payroll_id c) (\<lambda>e w. no_value (on_pay (set_run_metadata e (tc_admin c) run_id meta_hash) w)) L) (\<lambda>(_, L).
     client (payrolls L) (payroll_id c) (\<lambda>s.
       and_then (get_metadata_hash run_id s) (\<lambda>retrieved.
       and_then (assert_that (retrieved = meta_hash) ''retrieved'') (\<lambda>_.
       and_then (verify_metadata_hash run_id meta_hash s) (\<lambda>ok.
       and_then (assert_that ok ''verified'') (\<lambda>_.
       and_then (verify_metadata_hash run_id wrong_hash s) (\<lambda>bad. assert_that (\<not> bad) ''mismatch''))))))))))))))"

definition test_e2e_failed_payroll_execution_rollback :: "env \<Rightarrow> TestContext \<Rightarrow> address \<Rightarrow> unit outcome" where
  "test_e2e_failed_payroll_execution_rollback e c bob =
     and_then (e2e_setup e c) (\<lambda>(company_id, L).
     and_then (onboard e c company_id (tc_alice c) (alice_salary_commitment e) L) (\<lambda>L.
     and_then (fund c 10000 L) (\<lambda>L.
     case run_batch e c [mock_proof, mock_proof] [5000, 5000] [tc_alice c, bob] 10000 201 L of
       Inr _ \<Rightarrow> Inl (Panic ''Batch processing must fail when Bob is missing commitment'')
     | Inl _ \<Rightarrow>
         and_then (assert_balance c (tc_treasury c) 10000 ''Treasury balance must be unchanged after failed run'' L) (\<lambda>_.
         and_then (assert_balance c (tc_alice c) 0 ''Alice balance must be 0 after failed run'' L) (\<lambda>_.
         and_then (assert_commitment c (\<lambda>s. \<not> is_nullifier_used (replicate 32 0) s) ''Alice's nullifier must not be used after failed run'' L) (\<lambda>_.
         and_then (assert_commitment c (\<lambda>s. \<not> is_commitment_locked (tc_alice c) s) ''Alice's commitment updates must not be locked after failed run'' L) (\<lambda>_.
         and_then (run_batch e c [mock_proof] [5000] [tc_alice c] 5000 201 L) (\<lambda>(run_id, L).
         and_then (assert_that (run_id > 0) ''Valid payroll run must succeed after previous failure rollback'') (\<lambda>_.
         and_then (assert_balance c (tc_alice c) 5000 ''alice'' L) (\<lambda>_.
         and_then (assert_balance c (tc_treasury c) (10000 - 5000) ''treasury'' L) (\<lambda>_.
         and_then (assert_commitment c (is_nullifier_used (replicate 32 0)) ''nullifier'' L) (\<lambda>_.
         assert_commitment c (is_commitment_locked (tc_alice c)) ''locked'' L))))))))))))"

section \<open>The state after the set-up\<close>

lemmas ledger_envs = env_at_def penv_at_def venv_at_def env.defs penv.defs venv.defs

lemma mocked_at [simp]: "mocked e \<Longrightarrow> auth (env_at e a) = (\<lambda>_. True)" "mocked e \<Longrightarrow> auth (penv_at e a L) = (\<lambda>_. True)"
  "mocked e \<Longrightarrow> auth (venv_at e a L) = (\<lambda>_. True)" for e :: env
  by (simp_all add: mocked_def ledger_envs)

lemma at_fields [simp]: "timestamp (penv_at e a L) = timestamp e" "timestamp (venv_at e a L) = timestamp e" "timestamp (env_at e a) = timestamp e"
  "pause_managers (penv_at e a L) = managers L" "pause_managers (venv_at e a L) = managers L" "verifiers (venv_at e a L) = verifier_contracts L"
  by (simp_all add: ledger_envs)

lemmas client_defs = client_def no_value_def verifier_client_def commitment_client_def registry_client_def token_client_def payroll_client_def
  payroll_view_def on_pay_def

text \<open>What the tests use of the contracts' states when the set-up is done.\<close>

definition deployed :: "env \<Rightarrow> TestContext \<Rightarrow> ledger" where
  "deployed e c = (registered c)\<lparr>
     verifier_contracts := [verifier_id c \<mapsto> fresh_verifier\<lparr>verifier_admin := Some (tc_admin c), verification_key := Some mock_vk\<rparr>],
     salary_ledgers := [commitment_id c \<mapsto> emit_payroll_operator_set (payroll_id c)
       (fresh_salary\<lparr>commitment_admin := Some (tc_admin c), payroll_operator := Some (payroll_id c)\<rparr>)],
     payrolls := [payroll_id c \<mapsto> initialize_storage_version e (emit_payroll_initialized (tc_admin c) (token_id c) (verifier_id c)
       (commitment_id c) (tc_treasury c) (tc_treasury_owner c)
       (pay_blank\<lparr>addresses := Some \<lparr>ca_admin = tc_admin c, ca_token = token_id c, ca_verifier = verifier_id c,
            ca_commitment = commitment_id c, ca_treasury = tc_treasury c, ca_treasury_owner = tc_treasury_owner c\<rparr>,
          allowed_assets := [token_id c \<mapsto> True], treasury_owner_key := Some (tc_treasury_owner c), run_counter := Some 0\<rparr>))],
     registry_contracts := [registry_id c \<mapsto> emit_company_registered 0 (tc_admin c) (tc_treasury c)
       (fresh_registry\<lparr>company_sequence := Some 1, companies := [0 \<mapsto> \<lparr>ci_admin = tc_admin c, ci_treasury = tc_treasury c\<rparr>],
          company_of_admin := [tc_admin c \<mapsto> 0]\<rparr>)]\<rparr>"

lemma initialize_storage_version_at [simp]: "initialize_storage_version (venv_at e a L) s = initialize_storage_version e s"
  by (simp add: initialize_storage_version_def readiness_def)

lemma setup_deployed: "mocked e \<Longrightarrow> e2e_setup e c = Inr (0, deployed e c)"
  by (simp add: e2e_setup_def registered_def client_defs init_verifier_admin_def fresh_verifier_def initialize_verifier_def
      require_verifier_admin_def require_auth_def init_commitment_admin_def fresh_salary_def initialize_def pay_blank_def
      set_payroll_operator_def sc_require_not_paused_def require_commitment_admin_def register_company_def
      reg_require_not_paused_def reg_blank_def add_u_def deployed_def pause_guard_def)

text \<open>After onboarding and funding.\<close>

definition onboarded :: "env \<Rightarrow> TestContext \<Rightarrow> address \<Rightarrow> bytes \<Rightarrow> i128 \<Rightarrow> ledger" where
  "onboarded e c a b n = (let L = deployed e c in L\<lparr>
     salary_ledgers := [commitment_id c \<mapsto> emit_commitment_stored a b (emit_payroll_operator_set (payroll_id c)
       (fresh_salary\<lparr>commitment_admin := Some (tc_admin c), payroll_operator := Some (payroll_id c), commitment_index := [b \<mapsto> True],
          commitments := [a \<mapsto> \<lparr>commitment = b, created_at = timestamp e, updated_at = timestamp e, version = 1, commitment_revoked = False\<rparr>]\<rparr>))],
     registry_contracts := map_option (\<lambda>s. emit_employee_added 0 a b (s\<lparr>employees_of := [(0, a) \<mapsto> b], emp_status := [(0, a) \<mapsto> EmpActive]\<rparr>)) \<circ> registry_contracts L,
     token_contracts := [token_id c \<mapsto> \<lparr>balances = [tc_treasury c \<mapsto> n]\<rparr>]\<rparr>)"

lemma onboard_fund:
  assumes "mocked e" "0 \<le> n" "in_i128 n"
  shows "and_then (onboard e c 0 a b (deployed e c)) (\<lambda>L. and_then (fund c n L) g) = g (onboarded e c a b n)"
proof -
  have "and_then (onboard e c 0 a b (deployed e c)) (fund c n) = Inr (onboarded e c a b n)"
    using assms
    by (simp add: onboard_def fund_def onboarded_def deployed_def registered_def client_defs store_commitment_def sc_require_not_paused_def
      require_commitment_admin_def require_auth_def register_commitment_uniqueness_def fresh_salary_def add_employee_def
      add_employee_record_def reg_require_not_paused_def company_guard_def reg_blank_def mint_def add_i128_def
      emits publish_def Let_def fun_eq_iff)
  then show ?thesis by (metis and_then_Inr and_then_assoc)
qed

lemma zero_nullifier: "batch_nullifier 0 = replicate 32 0"
  by (simp add: batch_nullifier_def flip: replicate_Suc)

text \<open>A batch of one payment, run in a state where nothing stands against it.\<close>

definition payable :: "TestContext \<Rightarrow> address \<Rightarrow> payroll \<Rightarrow> token \<Rightarrow> salary_commitment \<Rightarrow> bool" where
  "payable c a p t s \<longleftrightarrow>
     company_state p = None \<and> validate_storage_version_for_operation ''batch_process_payroll'' p = Inr () \<and> run_nonces p = Map.empty \<and>
     addresses p = Some \<lparr>ca_admin = tc_admin c, ca_token = token_id c, ca_verifier = verifier_id c,
       ca_commitment = commitment_id c, ca_treasury = tc_treasury c, ca_treasury_owner = tc_treasury_owner c\<rparr> \<and>
     employer_nonce_sequences p = Map.empty \<and> allowed_assets p (token_id c) = Some True \<and> payroll_pause_manager p = None \<and>
     run_counter p = Some 0 \<and> payroll_runs p = Map.empty \<and> draft_commitments p = Map.empty \<and>
     5000 \<le> balance t (tc_treasury c) \<and> in_i128 (balance t (tc_treasury c)) \<and> balance t a = 0 \<and> a \<noteq> tc_treasury c \<and>
     sc_pause_manager s = None \<and> commitment_admin s = Some (tc_admin c) \<and> payroll_operator s = Some (payroll_id c) \<and>
     commitments s a \<noteq> None \<and> nullifiers s (replicate 32 0) = None \<and> commitment_lock s a = None"

definition paid_payroll :: "env \<Rightarrow> TestContext \<Rightarrow> address \<Rightarrow> u8 \<Rightarrow> payroll \<Rightarrow> payroll" where
  "paid_payroll e c a seed p = emit_run_executed 1 5000 (record_payroll_run_state 1 ReconciliationRequired
     ((emit_payment_executed a 5000 (p\<lparr>run_counter := Some 1, run_nonces := [test_nonce seed \<mapsto> 1],
        employer_nonce_sequences := [tc_admin c \<mapsto> \<lparr>ns_current_sequence = 1, ns_last_accepted_at = timestamp e, ns_last_nonce = test_nonce seed\<rparr>]\<rparr>))
      \<lparr>payroll_runs := [1 \<mapsto> \<lparr>pr_run_id = 1, pr_executed_at = timestamp e, pr_admin = tc_admin c, pr_total_amount = 5000,
         pr_employee_count = 1, pr_draft_hash = zero32, pr_nonce = test_nonce seed, pr_reconciliation_status = Unreconciled,
         pr_metadata_hash = zero32\<rparr>]\<rparr>))"

definition paid_token :: "TestContext \<Rightarrow> address \<Rightarrow> token \<Rightarrow> token" where
  "paid_token c a t = t\<lparr>balances := (balances t)(tc_treasury c \<mapsto> balance t (tc_treasury c) - 5000, a \<mapsto> 5000)\<rparr>"

definition paid_salary :: "env \<Rightarrow> address \<Rightarrow> salary_commitment \<Rightarrow> salary_commitment" where
  "paid_salary e a s = emit_commitment_locked a ((emit_nullifier_recorded (replicate 32 0)
     (s\<lparr>nullifiers := (nullifiers s)(replicate 32 0 \<mapsto> \<lparr>nullifier = replicate 32 0, used_at = timestamp e\<rparr>)\<rparr>))
     \<lparr>commitment_lock := (commitment_lock s)(a \<mapsto> True)\<rparr>)"

lemma single_batch:
  assumes "mocked e" "seed \<noteq> 0" "payrolls L (payroll_id c) = Some p" "token_contracts L (token_id c) = Some t"
    "salary_ledgers L (commitment_id c) = Some s" "verifier_contracts L (verifier_id c) = Some v" "verification_key v = Some mock_vk"
    and "payable c a p t s"
  shows "run_batch e c [prf] [5000] [a] 5000 seed L = Inr (1, L\<lparr>payrolls := (payrolls L)(payroll_id c \<mapsto> paid_payroll e c a seed p),
      token_contracts := (token_contracts L)(token_id c \<mapsto> paid_token c a t),
      salary_ledgers := (salary_ledgers L)(commitment_id c \<mapsto> paid_salary e a s)\<rparr>)"
proof -
  have n: "test_nonce seed \<noteq> zero32" using assms(2) by (simp add: test_nonce_def zero32_def first_byte)
  obtain r where r: "commitments s a = Some r" using assms(8) by (auto simp: payable_def)
  have u: "unwrap_or 0 (balances t (tc_treasury c)) = balance t (tc_treasury c)" "unwrap_or 0 (balances t a) = balance t a"
    by (simp_all add: balance_def)
  from assms n r u show ?thesis
    by (simp add: payable_def run_batch_def client_defs batch_process_payroll_def require_company_active_def validate_non_zero_digest_def
        MAX_BATCH_def consume_draft_commitment_def add_i128_def in_i128_def validate_nonce_monotonicity_def is_asset_allowed_def
        require_not_paused_def require_auth_def derive_run_id_def get_run_counter_def add_u_def update_nonce_sequence_def token_balance_def
        pay_employee_def get_commitment_def zero_nullifier mock_vk_def verify_payment_proof_def simulated_verify_groth16_def
        record_nullifier_def lock_commitment_updates_def sc_require_not_paused_def require_admin_or_operator_def
        token_transfer_def transfer_def sub_i128_def Let_def paid_payroll_def paid_token_def paid_salary_def
        record_payroll_run_state_def emits publish_def invoked_by_self_def)
qed

lemma onboarded_payable:
  assumes "5000 \<le> n" "in_i128 n" "a \<noteq> tc_treasury c"
  obtains p t s v where "payrolls (onboarded e c a b n) (payroll_id c) = Some p" "token_contracts (onboarded e c a b n) (token_id c) = Some t"
    "salary_ledgers (onboarded e c a b n) (commitment_id c) = Some s" "verifier_contracts (onboarded e c a b n) (verifier_id c) = Some v"
    "verification_key v = Some mock_vk" "payable c a p t s" "balance t (tc_treasury c) = n"
proof -
  let ?L = "onboarded e c a b n"
  have "\<exists>p t s v. payrolls ?L (payroll_id c) = Some p \<and> token_contracts ?L (token_id c) = Some t \<and> salary_ledgers ?L (commitment_id c) = Some s \<and>
    verifier_contracts ?L (verifier_id c) = Some v \<and> verification_key v = Some mock_vk \<and> payable c a p t s \<and> balance t (tc_treasury c) = n"
    using assms
    by (simp add: onboarded_def deployed_def registered_def Let_def payable_def fresh_salary_def pay_blank_def emits publish_def balance_def
        initialize_storage_version_def validate_storage_version_for_operation_def CURRENT_STORAGE_VERSION_def
        MIN_SUPPORTED_STORAGE_VERSION_def MAX_SUPPORTED_STORAGE_VERSION_def)
  then show thesis using that by blast
qed

lemma paid_balances [simp]:
  "a \<noteq> tc_treasury c \<Longrightarrow> balance (paid_token c a t) (tc_treasury c) = balance t (tc_treasury c) - 5000"
  "balance (paid_token c a t) a = 5000"
  by (simp_all add: paid_token_def balance_def)

lemma paid_salary_reads [simp]: "is_nullifier_used (replicate 32 0) (paid_salary e a s)" "is_commitment_locked a (paid_salary e a s)"
  by (simp_all add: paid_salary_def is_nullifier_used_def is_commitment_locked_def emits publish_def)

lemmas reads = token_read_def commitment_read_def assert_balance_def assert_commitment_def client_def

text \<open>The tests' common course: set up, onboard, fund, and a first batch.\<close>

lemma first_batch:
  assumes "mocked e" "a \<noteq> tc_treasury c" "5000 \<le> n" "in_i128 n" "seed \<noteq> 0"
  obtains L p t s where "run_batch e c [q] [5000] [a] 5000 seed (onboarded e c a b n) = Inr (1, L)"
    "payrolls L (payroll_id c) = Some (paid_payroll e c a seed p)" "token_contracts L (token_id c) = Some (paid_token c a t)"
    "salary_ledgers L (commitment_id c) = Some (paid_salary e a s)" "payable c a p t s" "balance t (tc_treasury c) = n"
    "registry_contracts L = registry_contracts (onboarded e c a b n)" "verifier_contracts L = verifier_contracts (onboarded e c a b n)"
    "payrolls (onboarded e c a b n) (payroll_id c) = Some p" "salary_ledgers (onboarded e c a b n) (commitment_id c) = Some s"
    "token_contracts (onboarded e c a b n) (token_id c) = Some t"
proof -
  obtain p t s v where L: "payrolls (onboarded e c a b n) (payroll_id c) = Some p" "token_contracts (onboarded e c a b n) (token_id c) = Some t"
    "salary_ledgers (onboarded e c a b n) (commitment_id c) = Some s" "verifier_contracts (onboarded e c a b n) (verifier_id c) = Some v"
    "verification_key v = Some mock_vk" "payable c a p t s" "balance t (tc_treasury c) = n"
    by (rule onboarded_payable [OF assms(3,4,2)])
  from that [OF single_batch [OF assms(1,5) L(1-6), of q]] L show thesis by simp
qed

section \<open>The tests pass\<close>

lemma in_range: "in_i128 10000" "in_i128 20000"
  by (simp_all add: in_i128_def)

lemma dynamic_proof_passes:
  assumes "mocked e" "tc_alice c \<noteq> tc_treasury c" "snd (try_generate_proof h 5000 123) = Inr r"
  shows "test_dynamic_proof_integration h e c = Inr ()"
proof (cases r)
  case None
  with assms(3) show ?thesis by (simp add: test_dynamic_proof_integration_def)
next
  case (Some gp)
  obtain L p t s where L: "run_batch e c [pi_a gp @ pi_b gp @ pi_c gp] [5000] [tc_alice c] 5000 6 (onboarded e c (tc_alice c) (gp_salary_commitment gp) 10000) = Inr (1, L)"
    "token_contracts L (token_id c) = Some (paid_token c (tc_alice c) t)" "salary_ledgers L (commitment_id c) = Some (paid_salary e (tc_alice c) s)"
    "balance t (tc_treasury c) = 10000"
    by (rule first_batch [OF assms(1,2), of 10000 6 "pi_a gp @ pi_b gp @ pi_c gp" "gp_salary_commitment gp"]) (simp_all add: in_range)
  then show ?thesis unfolding test_dynamic_proof_integration_def assms(3) Some
    using assms(1,2) by (simp add: setup_deployed onboard_fund in_range Let_def reads)
qed

lemma metadata_passes:
  assumes "mocked e" "tc_alice c \<noteq> tc_treasury c"
  shows "test_e2e_metadata_hash_verification e c = Inr ()"
proof -
  obtain L p t s where L: "run_batch e c [mock_proof] [5000] [tc_alice c] 5000 7 (onboarded e c (tc_alice c) (alice_salary_commitment e) 10000) = Inr (1, L)"
    "payrolls L (payroll_id c) = Some (paid_payroll e c (tc_alice c) 7 p)" "payable c (tc_alice c) p t s"
    by (rule first_batch [OF assms, of 10000 7 mock_proof "alice_salary_commitment e"]) (simp_all add: in_range)
  have h: "replicate 32 (0xAB :: u8) \<noteq> zero32" "replicate 32 (0xCD :: u8) \<noteq> replicate 32 0xAB" by (simp_all add: zero32_def)
  have "client (payrolls L) (payroll_id c) (\<lambda>s. Inr s) = Inr (paid_payroll e c (tc_alice c) 7 p)" using L by (simp add: client_def)
  from L(1,3) assms h show ?thesis
    by (simp add: test_e2e_metadata_hash_verification_def setup_deployed onboard_fund in_range Let_def client_defs L(2) get_metadata_hash_def
        verify_metadata_hash_def paid_payroll_def payable_def emits publish_def record_payroll_run_state_def zero32_def
        commit_metadata_hash_def set_run_metadata_def require_not_paused_def validate_non_zero_digest_def admin_guard_def require_auth_def
        validate_run_id_def)
qed

lemma nonce_shift: "fold (\<lambda>b v. (push_bit 8 v) OR ucast b) (replicate n (0 :: u8)) (w :: u128) = push_bit (8 * n) w"
  by (induction n arbitrary: w) (simp_all add: push_bit_push_bit add.commute)

lemma later_nonce: "\<not> nonce_to_u256 (test_nonce 4) \<le> nonce_to_u256 (test_nonce 3)" "test_nonce 4 \<noteq> test_nonce 3" "test_nonce 4 \<noteq> zero32"
proof -
  have "take 16 (test_nonce x) = x # replicate 15 0" for x
    by (simp add: test_nonce_def take_update_swap min_def flip: replicate_Suc) (simp add: numeral_eq_Suc)
  then have "nonce_to_u256 (test_nonce x) = push_bit 120 (ucast x)" for x
    unfolding nonce_to_u256_def by (simp only: list.simps fold_simps nonce_shift) simp
  then show "\<not> nonce_to_u256 (test_nonce 4) \<le> nonce_to_u256 (test_nonce 3)" by simp
qed (simp_all add: test_nonce_def zero32_def first_byte)

lemma double_payment_fails:
  assumes "mocked e" "tc_alice c \<noteq> tc_treasury c"
  shows "test_double_payment_rejected e c = Inl (Panic ''Nullifier already used'')"
proof -
  obtain L p t s where L: "run_batch e c [mock_proof] [5000] [tc_alice c] 5000 3 (onboarded e c (tc_alice c) (alice_salary_commitment e) 20000) = Inr (1, L)"
    "payrolls L (payroll_id c) = Some (paid_payroll e c (tc_alice c) 3 p)" "token_contracts L (token_id c) = Some (paid_token c (tc_alice c) t)"
    "salary_ledgers L (commitment_id c) = Some (paid_salary e (tc_alice c) s)" "payable c (tc_alice c) p t s" "balance t (tc_treasury c) = 20000"
    "verifier_contracts L = verifier_contracts (onboarded e c (tc_alice c) (alice_salary_commitment e) 20000)"
    by (rule first_batch [OF assms, of 20000 3 mock_proof "alice_salary_commitment e"]) (simp_all add: in_range)
  obtain r where r: "commitments s (tc_alice c) = Some r" using L(5) by (auto simp: payable_def)
  have v: "verifier_contracts L (verifier_id c) = Some (fresh_verifier\<lparr>verifier_admin := Some (tc_admin c), verification_key := Some mock_vk\<rparr>)"
    by (simp add: L(7) onboarded_def deployed_def Let_def)
  have "run_batch e c [mock_proof] [5000] [tc_alice c] 5000 4 L = Inl (Panic ''Nullifier already used'')"
    using assms L(5,6) r v
    by (simp add: later_nonce run_batch_def client_defs L(2-4) payable_def batch_process_payroll_def paid_payroll_def paid_salary_def require_company_active_def
        validate_non_zero_digest_def MAX_BATCH_def consume_draft_commitment_def add_i128_def in_i128_def validate_nonce_monotonicity_def
        is_asset_allowed_def require_not_paused_def require_auth_def derive_run_id_def get_run_counter_def add_u_def update_nonce_sequence_def
        token_balance_def pay_employee_def get_commitment_def zero_nullifier mock_vk_def verify_payment_proof_def
        simulated_verify_groth16_def record_nullifier_def sc_require_not_paused_def require_admin_or_operator_def Let_def
        record_payroll_run_state_def emits publish_def invoked_by_self_def validate_storage_version_for_operation_def)
  with L(1) assms show ?thesis by (simp add: test_double_payment_rejected_def setup_deployed onboard_fund in_range Let_def)
qed

lemmas deployed_defs = deployed_def registered_def client_defs fund_def mint_def add_i128_def in_i128_def fresh_salary_def fresh_verifier_def
  pay_blank_def initialize_storage_version_def emits publish_def

lemmas batch_steps = run_batch_def batch_process_payroll_def require_company_active_def validate_storage_version_for_operation_def
  CURRENT_STORAGE_VERSION_def MIN_SUPPORTED_STORAGE_VERSION_def MAX_SUPPORTED_STORAGE_VERSION_def validate_non_zero_digest_def
  MAX_BATCH_def consume_draft_commitment_def validate_nonce_monotonicity_def is_asset_allowed_def require_not_paused_def require_auth_def
  derive_run_id_def get_run_counter_def add_u_def update_nonce_sequence_def token_balance_def pay_employee_def get_commitment_def balance_def

lemma nonce_not_zero: "seed \<noteq> 0 \<Longrightarrow> test_nonce seed \<noteq> zero32"
  by (simp add: test_nonce_def zero32_def first_byte)

lemma unregistered_fails: "mocked e \<Longrightarrow> test_unregistered_employee_cannot_be_paid e c = Inl (Panic ''Commitment not found'')"
  using nonce_not_zero [of 2]
  by (simp add: test_unregistered_employee_cannot_be_paid_def setup_deployed deployed_defs batch_steps Let_def)

lemma mismatched_fails: "mocked e \<Longrightarrow> test_mismatched_arrays_rejected e c = Inl (Panic ''Array length mismatch'')"
  using nonce_not_zero [of 5]
  by (simp add: test_mismatched_arrays_rejected_def setup_deployed deployed_defs batch_steps Let_def)

lemma full_flow_passes:
  assumes "mocked e" "tc_alice c \<noteq> tc_treasury c"
  shows "test_e2e_full_payroll_flow e c = Inr ()"
proof -
  let ?b = "alice_salary_commitment e" and ?a = "tc_alice c"
  obtain L p t s where L: "run_batch e c [mock_proof] [5000] [?a] 5000 1 (onboarded e c ?a ?b 10000) = Inr (1, L)"
    "payrolls L (payroll_id c) = Some (paid_payroll e c ?a 1 p)" "token_contracts L (token_id c) = Some (paid_token c ?a t)"
    "salary_ledgers L (commitment_id c) = Some (paid_salary e ?a s)" "balance t (tc_treasury c) = 10000"
    "registry_contracts L = registry_contracts (onboarded e c ?a ?b 10000)" "verifier_contracts L = verifier_contracts (onboarded e c ?a ?b 10000)"
    and o: "payrolls (onboarded e c ?a ?b 10000) (payroll_id c) = Some p" "salary_ledgers (onboarded e c ?a ?b 10000) (commitment_id c) = Some s"
    by (rule first_batch [OF assms, of 10000 1 mock_proof ?b]) (simp_all add: in_range)
  define L1 where "L1 = (deployed e c)\<lparr>salary_ledgers := salary_ledgers (onboarded e c ?a ?b 10000)\<rparr>"
  have s1: "commitment_client e (commitment_id c) (\<lambda>e s. store_commitment e ?a ?b s) (deployed e c) =
      Inr (\<lparr>commitment = ?b, created_at = timestamp e, updated_at = timestamp e, version = 1, commitment_revoked = False\<rparr>, L1)"
    using assms(1)
    by (simp add: L1_def onboarded_def deployed_def registered_def client_defs store_commitment_def sc_require_not_paused_def
      require_commitment_admin_def require_auth_def register_commitment_uniqueness_def fresh_salary_def emits publish_def Let_def)
  have s2: "and_then (registry_client e (registry_id c) (\<lambda>e s. no_value (add_employee e 0 ?a ?b s)) L1) (\<lambda>(_, L). and_then (fund c 10000 L) g) =
      g (onboarded e c ?a ?b 10000)" for g :: "ledger \<Rightarrow> unit outcome"
  proof -
    have "and_then (registry_client e (registry_id c) (\<lambda>e s. no_value (add_employee e 0 ?a ?b s)) L1) (\<lambda>(_, L). fund c 10000 L) =
        Inr (onboarded e c ?a ?b 10000)"
      using assms(1)
      by (simp add: L1_def fund_def onboarded_def deployed_def registered_def client_defs add_employee_def require_auth_def
        add_employee_record_def reg_require_not_paused_def company_guard_def reg_blank_def mint_def add_i128_def in_i128_def
        emits publish_def Let_def fun_eq_iff)
    then show ?thesis by (auto simp: split_def)
  qed
  have c: "assert_commitment c (has_commitment ?a) m L1 = Inr ()" for m
    by (simp add: L1_def onboarded_def reads has_commitment_def fresh_salary_def emits publish_def Let_def)
  have b: "assert_balance c (tc_treasury c) 10000 m (onboarded e c ?a ?b 10000) = Inr ()" "assert_balance c ?a 0 m (onboarded e c ?a ?b 10000) = Inr ()" for m
    using assms(2) by (simp_all add: onboarded_def reads balance_def Let_def)
  have p: "assert_balance c (tc_treasury c) 5000 m L = Inr ()" "assert_balance c ?a 5000 m L = Inr ()"
    "assert_commitment c (is_nullifier_used (replicate 32 0)) m L = Inr ()" for m
    using L(3-5) assms(2) by (simp_all add: reads)
  obtain xs where xs: "events s = xs @ [\<lparr>topics = [VSym ''CommitmentUpdated'', VAddr ?a], data = VVec [VBytes ?b]\<rparr>]"
    using o(2) by (auto simp: onboarded_def Let_def emits publish_def)
  have r: "\<exists>reg. registry_contracts L (registry_id c) = Some reg \<and> events reg =
      [\<lparr>topics = [VSym ''CompanyRegistered'', VU64 0], data = VVec [VAddr (tc_admin c), VAddr (tc_treasury c)]\<rparr>,
        \<lparr>topics = [VSym ''EmployeeAdded'', VU64 0, VAddr ?a], data = VVec [VBytes ?b]\<rparr>]"
    by (simp add: L(6) onboarded_def deployed_def Let_def reg_blank_def emits publish_def)
  obtain ys ev where ev: "all_events c L = (case verifier_contracts L (verifier_id c) of None \<Rightarrow> [] | Some s \<Rightarrow> events s) @
      xs @ [\<lparr>topics = [VSym ''CommitmentUpdated'', VAddr ?a], data = VVec [VBytes ?b]\<rparr>, ev,
        \<lparr>topics = [VSym ''CommitmentLocked'', VAddr ?a], data = VVoid\<rparr>,
        \<lparr>topics = [VSym ''CompanyRegistered'', VU64 0], data = VVec [VAddr (tc_admin c), VAddr (tc_treasury c)]\<rparr>,
        \<lparr>topics = [VSym ''EmployeeAdded'', VU64 0, VAddr ?a], data = VVec [VBytes ?b]\<rparr>] @
      ys @ [\<lparr>topics = [VSym ''payroll'', VSym ''payment_executed''], data = VVec [VAddr ?a, VI128 5000]\<rparr>,
        \<lparr>topics = [VSym ''payroll'', VSym ''run_state''], data = VVec [VU64 1, VU32 (PayrollRunState_code ReconciliationRequired)]\<rparr>,
        \<lparr>topics = [VSym ''payroll'', VSym ''run_executed''], data = VVec [VU64 1, VI128 5000]\<rparr>]"
    using r by (auto simp: all_events_def L(2,4) xs paid_payroll_def paid_salary_def record_payroll_run_state_def emits publish_def)
  have t1: "has_first_topic (all_events c L) ''CompanyRegistered''" "has_first_topic (all_events c L) ''CommitmentUpdated''"
    "has_first_topic (all_events c L) ''EmployeeAdded''" by (simp_all add: has_first_topic_def ev)
  have t2: "has_event (all_events c L) ''CompanyRegistered''" "has_event (all_events c L) ''CommitmentUpdated''" "has_event (all_events c L) ''EmployeeAdded''"
    "has_event (all_events c L) ''CommitmentLocked''" "has_event (all_events c L) ''run_executed''" by (simp_all add: has_event_def ev)
  have t3: "has_payroll_topic (all_events c L) ''payment_executed''" "has_event (all_events c L) ''payment_executed''" "length (all_events c L) \<ge> 6"
    by (simp_all add: has_payroll_topic_def has_event_def ev)
  show ?thesis using assms(1)
    by (simp add: test_e2e_full_payroll_flow_def setup_deployed Let_def s1 c s2 b L(1) p t1 t2 t3)
qed

lemma rollback_passes:
  assumes "mocked e" "tc_alice c \<noteq> tc_treasury c" "bob \<noteq> tc_alice c"
  shows "test_e2e_failed_payroll_execution_rollback e c bob = Inr ()"
proof -
  let ?b = "alice_salary_commitment e" and ?a = "tc_alice c"
  obtain L p t s where L: "run_batch e c [mock_proof] [5000] [?a] 5000 201 (onboarded e c ?a ?b 10000) = Inr (1, L)"
    "token_contracts L (token_id c) = Some (paid_token c ?a t)" "salary_ledgers L (commitment_id c) = Some (paid_salary e ?a s)"
    "balance t (tc_treasury c) = 10000" and o: "payrolls (onboarded e c ?a ?b 10000) (payroll_id c) = Some p" "payable c ?a p t s"
    by (rule first_batch [OF assms(1,2), of 10000 201 mock_proof ?b]) (simp_all add: in_range)
  have f: "\<exists>x. run_batch e c [mock_proof, mock_proof] [5000, 5000] [?a, bob] 10000 201 (onboarded e c ?a ?b 10000) = Inl x"
  proof (cases "run_batch e c [mock_proof, mock_proof] [5000, 5000] [?a, bob] 10000 201 (onboarded e c ?a ?b 10000)")
    case (Inr y)
    then obtain w r w' where w: "payroll_view (payroll_id c) (onboarded e c ?a ?b 10000) = Some w"
      "batch_process_payroll (venv_at e (payroll_id c) (onboarded e c ?a ?b 10000)) [mock_proof, mock_proof] [5000, 5000] [?a, bob] 10000 (test_nonce 201) None w = Inr (r, w')"
      by (auto simp: run_batch_def payroll_client_def client_def)
    have k: "commitment_contracts w = salary_ledgers (onboarded e c ?a ?b 10000)" "addresses (pay w) = Some \<lparr>ca_admin = tc_admin c, ca_token = token_id c, ca_verifier = verifier_id c,
        ca_commitment = commitment_id c, ca_treasury = tc_treasury c, ca_treasury_owner = tc_treasury_owner c\<rparr>"
      using payroll_view_SomeE [OF w(1)] o by (simp_all add: payable_def)
    from w(2) show ?thesis
    proof (rule batch_effect)
      fix addrs run s1 bal w1
      assume "executed (venv_at e (payroll_id c) (onboarded e c ?a ?b 10000)) 10000 (test_nonce 201) addrs run (pay w) (pay w')"
        and q: "pay_employees (venv_at e (payroll_id c) (onboarded e c ?a ?b 10000)) addrs 0 [mock_proof, mock_proof] [5000, 5000] [?a, bob] (w\<lparr>pay := s1\<rparr>) = Inr w1"
      then have "ca_commitment addrs = commitment_id c" using k(2) by (auto simp: executed_def)
      with q k(1) assms(3) show ?thesis
        by (auto simp: pay_employee_def record_nullifier_def lock_commitment_updates_def get_commitment_def token_transfer_def Let_def
            onboarded_def fresh_salary_def emits publish_def split: if_splits)
    qed
  qed simp
  then obtain x where x: "run_batch e c [mock_proof, mock_proof] [5000, 5000] [?a, bob] 10000 201 (onboarded e c ?a ?b 10000) = Inl x" ..
  have b: "assert_balance c (tc_treasury c) 10000 m (onboarded e c ?a ?b 10000) = Inr ()" "assert_balance c ?a 0 m (onboarded e c ?a ?b 10000) = Inr ()"
    "assert_commitment c (\<lambda>s. \<not> is_nullifier_used (replicate 32 0) s) m (onboarded e c ?a ?b 10000) = Inr ()"
    "assert_commitment c (\<lambda>s. \<not> is_commitment_locked ?a s) m (onboarded e c ?a ?b 10000) = Inr ()" for m
    using assms(2) by (simp_all add: onboarded_def reads balance_def Let_def is_nullifier_used_def is_commitment_locked_def fresh_salary_def emits publish_def)
  show ?thesis using L(2-4) assms(1,2)
    by (simp add: test_e2e_failed_payroll_execution_rollback_def setup_deployed onboard_fund in_range x b L(1)) (simp add: reads)
qed

text \<open>C26. The end-to-end tests hold of the contracts together, whatever the ledger time and the hash function,
  with all authorizations mocked, the treasury at another address than Alice and Alice at another
  address than Bob: the payroll
  flow moves exactly 5000 from the treasury to Alice, records the nullifier, locks the commitment and
  emits the events; a batch that fails at its second payment leaves balances, nullifiers and locks as
  they were, and its nonce can be used again; an employee without a commitment, a repeated batch position and
  arrays of different length are rejected with the messages that the tests expect; metadata is
  bound and checked; and the test with a generated proof panics where the helper panics and passes
  otherwise.\<close>

theorem integration_tests_hold:
  assumes "mocked e" "tc_alice c \<noteq> tc_treasury c" "bob \<noteq> tc_alice c"
  shows "test_e2e_full_payroll_flow e c = Inr () \<and>
    test_unregistered_employee_cannot_be_paid e c = Inl (Panic ''Commitment not found'') \<and>
    test_double_payment_rejected e c = Inl (Panic ''Nullifier already used'') \<and>
    test_mismatched_arrays_rejected e c = Inl (Panic ''Array length mismatch'') \<and>
    test_dynamic_proof_integration h e c = and_then (snd (try_generate_proof h 5000 123)) (\<lambda>_. Inr ()) \<and>
    test_e2e_metadata_hash_verification e c = Inr () \<and>
    test_e2e_failed_payroll_execution_rollback e c bob = Inr ()"
proof -
  have "test_dynamic_proof_integration h e c = and_then (snd (try_generate_proof h 5000 123)) (\<lambda>_. Inr ())"
  proof (cases "snd (try_generate_proof h 5000 123)")
    case (Inl f)
    then show ?thesis by (simp add: test_dynamic_proof_integration_def)
  next
    case (Inr r)
    then show ?thesis using dynamic_proof_passes [OF assms(1,2) Inr] by simp
  qed
  then show ?thesis
    using assms full_flow_passes unregistered_fails double_payment_fails mismatched_fails metadata_passes rollback_passes by blast
qed

definition demo_context :: TestContext where
  "demo_context = \<lparr>tc_admin = adr_A, tc_treasury = adr_B, tc_treasury_owner = Address ''O'', tc_alice = adr_E, verifier_id = Address ''V'',
     commitment_id = Address ''S'', token_id = Address ''T'', registry_id = Address ''R'', payroll_id = Address ''P''\<rparr>"

definition demo_machine :: proof_machine where
  "demo_machine = \<lparr>node_version_ok = False, cargo_manifest_dir = None, file_exists = (\<lambda>_. False), out_dir_made = False,
     run_node = (\<lambda>_ _. None)\<rparr>"

theorem integration_tests_hold_witness:
  "test_e2e_full_payroll_flow (env.truncate test_env) demo_context = Inr () \<and>
   test_dynamic_proof_integration demo_machine (env.truncate test_env) demo_context = Inr () \<and>
   test_e2e_failed_payroll_execution_rollback (env.truncate test_env) demo_context (Address ''Bob'') = Inr ()"
proof -
  have "mocked (env.truncate test_env)" by (simp add: mocked_def test_env_def env.defs)
  moreover have "tc_alice demo_context \<noteq> tc_treasury demo_context" "Address ''Bob'' \<noteq> tc_alice demo_context" by (simp_all add: demo_context_def)
  moreover have "snd (try_generate_proof demo_machine 5000 123) = Inr None" by (simp add: try_generate_proof_def demo_machine_def)
  ultimately show ?thesis using integration_tests_hold [of _ demo_context "Address ''Bob''" demo_machine] by simp
qed

end
