(* ===== verification/Fuzz_Harness.thy ===== *)
theory Fuzz_Harness
  imports Integration_Scenarios Ledger_Theorems
begin

text \<open>
  \<open>fuzz/fuzz_targets/fuzz_proof_validation.rs\<close>: the fuzz target. It deploys a verifier, or an executor with
  registry, verifier and token, feeds it arbitrary bytes, amounts and arrays, and asserts that a payment
  or a batch that succeeds moved exactly the amounts and cannot be replayed, and that one that fails
  moved nothing. The addresses that it generates are a function from numbers to addresses.
\<close>

datatype FuzzAction =
    VerifyDirect bytes bytes bytes "bytes list" bytes bytes bytes bytes "bytes list"
  | VerifyPaymentProofDirect bytes "bytes list" bytes bytes bytes bytes "bytes list"
  | ExecutePayment i128 bytes bytes bytes bytes u32 bytes bool
  | ExecuteBatchPayroll "i128 list" "bytes list" "bytes list" "bytes list" "bytes list" "bytes list" u32 bool bool bool

definition fuzz_mock_vk :: VerificationKey where
  "fuzz_mock_vk = \<lparr>vk_alpha = replicate 64 0, vk_beta = replicate 128 0, vk_gamma = replicate 128 0,
     vk_delta = replicate 128 0, vk_ic = [replicate 64 0, replicate 64 0, replicate 64 0]\<rparr>"

record TestSystem =
  ts_executor :: address
  ts_registry :: address
  ts_verifier :: address
  ts_token :: address
  ts_commitment :: address
  ts_verifier_admin :: address
  ts_admin :: address
  ts_treasury :: address

text \<open>A client call to the executor; the plain client, unlike its \<open>try_\<close> form, panics on an error value.\<close>

definition try_executor ::
  "env \<Rightarrow> address \<Rightarrow> (xenv \<Rightarrow> executor_world \<Rightarrow> ('r \<times> executor_world) payment_result) \<Rightarrow> ledger \<Rightarrow> ('r \<times> ledger) payment_result" where
  "try_executor e a f L =
     and_then (ok_or (NoContract a) (exe_view a L)) (\<lambda>w.
     and_then (f (xenv_at e a L) w) (\<lambda>(r, w').
     Inr (r, L\<lparr>executors := (executors L)(a \<mapsto> exe w'), token_contracts := pe_tokens w'\<rparr>)))"

definition executor_client ::
  "env \<Rightarrow> address \<Rightarrow> (xenv \<Rightarrow> executor_world \<Rightarrow> ('r \<times> executor_world) payment_result) \<Rightarrow> ledger \<Rightarrow> ('r \<times> ledger) outcome" where
  "executor_client e a f L = (case try_executor e a f L of
     Inr x \<Rightarrow> Inr x
   | Inl (Panic m) \<Rightarrow> Inl (Panic m)
   | Inl (AuthError b) \<Rightarrow> Inl (AuthError b)
   | Inl Overflow \<Rightarrow> Inl Overflow
   | Inl (NoContract b) \<Rightarrow> Inl (NoContract b)
   | Inl (Err _) \<Rightarrow> Inl (Panic ''contract error''))"

definition exe_part :: "(executor \<Rightarrow> ('r \<times> executor) payment_result) \<Rightarrow> executor_world \<Rightarrow> ('r \<times> executor_world) payment_result" where
  "exe_part f w = and_then (f (exe w)) (\<lambda>(r, s). Inr (r, w\<lparr>exe := s\<rparr>))"

section \<open>Set-up\<close>

definition fuzz_registered :: "TestSystem \<Rightarrow> ledger" where
  "fuzz_registered sys = \<lparr>managers = Map.empty, token_contracts = [ts_token sys \<mapsto> \<lparr>balances = Map.empty\<rparr>],
     verifier_contracts = [ts_verifier sys \<mapsto> fresh_verifier], salary_ledgers = Map.empty,
     registry_contracts = [ts_registry sys \<mapsto> fresh_registry], executors = [ts_executor sys \<mapsto> fresh_executor],
     payrolls = Map.empty, audits = Map.empty\<rparr>"

definition setup_system :: "env \<Rightarrow> TestSystem \<Rightarrow> (u64 \<times> ledger) outcome" where
  "setup_system e sys =
     (let addrs = \<lparr>xa_registry = ts_registry sys, xa_commitment = ts_commitment sys, xa_verifier = ts_verifier sys, xa_token = ts_token sys\<rparr> in
     and_then (executor_client e (ts_executor sys) (\<lambda>e. exe_part (\<lambda>s. and_then (pe_initialize e addrs s) (\<lambda>s. Inr ((), s)))) (fuzz_registered sys)) (\<lambda>(_, L).
     and_then (verifier_client e (ts_verifier sys) (\<lambda>e s. no_value (init_verifier_admin (ts_verifier_admin sys) s)) L) (\<lambda>(_, L).
     and_then (verifier_client e (ts_verifier sys) (\<lambda>e s. no_value (initialize_verifier e fuzz_mock_vk s)) L) (\<lambda>(_, L).
     and_then (registry_client e (ts_registry sys) (\<lambda>e s. register_company e (ts_admin sys) (ts_treasury sys) s) L) (\<lambda>(company_id, L).
     and_then (executor_client e (ts_executor sys) (\<lambda>e. exe_part (create_period e company_id)) L) (\<lambda>(_, L).
     and_then (token_client (ts_token sys) (\<lambda>t. no_value (mint (ts_treasury sys) 1000000 t)) L) (\<lambda>(_, L).
     Inr (company_id, L))))))))"

section \<open>Assertions on payments\<close>

definition fuzz_balance :: "TestSystem \<Rightarrow> address \<Rightarrow> ledger \<Rightarrow> i128 outcome" where
  "fuzz_balance sys a L = client (token_contracts L) (ts_token sys) (\<lambda>t. Inr (balance t a))"

definition fuzz_executor_read :: "TestSystem \<Rightarrow> (executor \<Rightarrow> 'r) \<Rightarrow> ledger \<Rightarrow> 'r outcome" where
  "fuzz_executor_read sys f L = client (executors L) (ts_executor sys) (\<lambda>s. Inr (f s))"

text \<open>\<open>replay_res.unwrap_err().unwrap()\<close> compared with an error of the contract: it panics when the
  call succeeds, and when it fails with anything but an error of the contract.\<close>

definition assert_contract_error :: "PaymentError \<Rightarrow> ('r \<times> ledger) payment_result \<Rightarrow> unit outcome" where
  "assert_contract_error err r = (case r of
     Inr _ \<Rightarrow> Inl (Panic ''called unwrap_err on an Ok value'')
   | Inl (Err x) \<Rightarrow> assert_that (x = err) ''replay''
   | Inl _ \<Rightarrow> Inl (Panic ''called unwrap on an Err value''))"

definition try_execute_payment ::
  "env \<Rightarrow> TestSystem \<Rightarrow> u64 \<Rightarrow> address \<Rightarrow> i128 \<Rightarrow> bytes \<Rightarrow> bytes \<Rightarrow> bytes \<Rightarrow> bytes \<Rightarrow> u32 \<Rightarrow> ledger \<Rightarrow> (PaymentRecord \<times> ledger) payment_result" where
  "try_execute_payment e sys company_id employee amount pa pb pc nul period L =
     try_executor e (ts_executor sys) (\<lambda>e w. execute_payment e company_id employee amount \<lparr>proof_a = pa, proof_b = pb, proof_c = pc\<rparr> nul period w) L"

definition check_payment ::
  "env \<Rightarrow> TestSystem \<Rightarrow> u64 \<Rightarrow> address \<Rightarrow> i128 \<Rightarrow> bytes \<Rightarrow> bytes \<Rightarrow> bytes \<Rightarrow> bytes \<Rightarrow> u32 \<Rightarrow> ledger \<Rightarrow> unit outcome" where
  "check_payment e sys company_id employee test_amount pa pb pc nul test_period L =
     and_then (fuzz_balance sys (ts_treasury sys) L) (\<lambda>initial_treasury.
     and_then (fuzz_balance sys employee L) (\<lambda>initial_employee.
     case try_execute_payment e sys company_id employee test_amount pa pb pc nul test_period L of
       Inr (_, L') \<Rightarrow>
         and_then (assert_that (test_amount \<ge> 0) ''test_amount'') (\<lambda>_.
         and_then (fuzz_balance sys employee L') (\<lambda>b.
         and_then (assert_that (b = initial_employee + test_amount) ''employee'') (\<lambda>_.
         and_then (fuzz_balance sys (ts_treasury sys) L') (\<lambda>b.
         and_then (assert_that (b = initial_treasury - test_amount) ''treasury'') (\<lambda>_.
         and_then (fuzz_executor_read sys (is_paid employee test_period) L') (\<lambda>p.
         and_then (assert_that p ''is_paid'') (\<lambda>_.
         and_then (fuzz_executor_read sys (get_total_paid company_id) L') (\<lambda>tot.
         and_then (assert_that (tot \<ge> test_amount) ''total paid'') (\<lambda>_.
         assert_contract_error ProofAlreadyUsed
           (try_execute_payment e sys company_id employee test_amount pa pb pc nul test_period L'))))))))))
     | Inl _ \<Rightarrow>
         and_then (fuzz_balance sys employee L) (\<lambda>b.
         and_then (assert_that (b = initial_employee) ''employee'') (\<lambda>_.
         and_then (fuzz_balance sys (ts_treasury sys) L) (\<lambda>b.
         assert_that (b = initial_treasury) ''treasury'')))))"

section \<open>Assertions on batches\<close>

primrec fuzz_balances :: "TestSystem \<Rightarrow> address list \<Rightarrow> ledger \<Rightarrow> i128 list outcome" where
  "fuzz_balances sys [] L = Inr []"
| "fuzz_balances sys (a # as) L = and_then (fuzz_balance sys a L) (\<lambda>b. and_then (fuzz_balances sys as L) (\<lambda>bs. Inr (b # bs)))"

text \<open>The loops over the employees; they compare with the listed amounts, up to the number of employees.\<close>

primrec check_credited :: "TestSystem \<Rightarrow> (address \<times> i128 \<times> i128) list \<Rightarrow> i128 \<Rightarrow> ledger \<Rightarrow> i128 outcome" where
  "check_credited sys [] total_expected L = Inr total_expected"
| "check_credited sys (x # xs) total_expected L = (case x of (emp, initial, amt) \<Rightarrow>
     and_then (fuzz_balance sys emp L) (\<lambda>b.
     and_then (assert_that (b = initial + amt) ''employee'') (\<lambda>_.
     and_then (add_i128 total_expected amt) (\<lambda>tot.
     check_credited sys xs tot L))))"

primrec check_replays ::
  "env \<Rightarrow> TestSystem \<Rightarrow> u64 \<Rightarrow> u32 \<Rightarrow> (address \<times> i128 \<times> bytes \<times> bytes \<times> bytes \<times> bytes) list \<Rightarrow> ledger \<Rightarrow> unit outcome" where
  "check_replays e sys company_id period [] L = Inr ()"
| "check_replays e sys company_id period (x # xs) L = (case x of (emp, amt, pa, pb, pc, n) \<Rightarrow>
     and_then (assert_contract_error ProofAlreadyUsed (try_execute_payment e sys company_id emp amt pa pb pc n period L)) (\<lambda>_.
     check_replays e sys company_id period xs L))"

primrec check_unchanged :: "TestSystem \<Rightarrow> (address \<times> i128) list \<Rightarrow> ledger \<Rightarrow> unit outcome" where
  "check_unchanged sys [] L = Inr ()"
| "check_unchanged sys (x # xs) L =
     and_then (fuzz_balance sys (fst x) L) (\<lambda>b.
     and_then (assert_that (b = snd x) ''employee'') (\<lambda>_.
     check_unchanged sys xs L))"

definition check_batch ::
  "env \<Rightarrow> TestSystem \<Rightarrow> u64 \<Rightarrow> address list \<Rightarrow> i128 list \<Rightarrow> bytes list \<Rightarrow> bytes list \<Rightarrow> bytes list \<Rightarrow> bytes list \<Rightarrow> u32 \<Rightarrow> ledger \<Rightarrow> unit outcome" where
  "check_batch e sys company_id employees amounts pas pbs pcs nuls period L =
     and_then (fuzz_balance sys (ts_treasury sys) L) (\<lambda>initial_treasury.
     and_then (fuzz_balances sys employees L) (\<lambda>initial_balances.
     case try_executor e (ts_executor sys) (\<lambda>e w. execute_batch_payroll e company_id employees amounts pas pbs pcs nuls period w) L of
       Inr (records, L') \<Rightarrow>
         and_then (assert_that (length records = length employees) ''records'') (\<lambda>_.
         and_then (check_credited sys (zip employees (zip initial_balances amounts)) 0 L') (\<lambda>total_expected_deduction.
         and_then (fuzz_balance sys (ts_treasury sys) L') (\<lambda>b.
         and_then (assert_that (b = initial_treasury - total_expected_deduction) ''treasury'') (\<lambda>_.
         check_replays e sys company_id period (zip employees (zip amounts (zip pas (zip pbs (zip pcs nuls))))) L'))))
     | Inl _ \<Rightarrow>
         and_then (fuzz_balance sys (ts_treasury sys) L) (\<lambda>b.
         and_then (assert_that (b = initial_treasury) ''treasury'') (\<lambda>_.
         check_unchanged sys (zip employees initial_balances) L))))"

section \<open>The target\<close>

definition valid_amount :: "i128 \<Rightarrow> i128" where
  "valid_amount a = (if a = - (2 ^ 127) then 1 else max (abs a) 1)"

primrec add_employees :: "env \<Rightarrow> TestSystem \<Rightarrow> u64 \<Rightarrow> (address \<times> bytes) list \<Rightarrow> ledger \<Rightarrow> ledger outcome" where
  "add_employees e sys company_id [] L = Inr L"
| "add_employees e sys company_id (x # xs) L =
     and_then (registry_client e (ts_registry sys) (\<lambda>e s. no_value (add_employee e company_id (fst x) (snd x) s)) L) (\<lambda>(_, L).
     add_employees e sys company_id xs L)"

definition fuzz_verify_direct ::
  "env \<Rightarrow> (nat \<Rightarrow> address) \<Rightarrow> bytes \<Rightarrow> bytes \<Rightarrow> bytes \<Rightarrow> bytes list \<Rightarrow> bytes \<Rightarrow> bytes \<Rightarrow> bytes \<Rightarrow> bytes \<Rightarrow> bytes list \<Rightarrow> unit outcome" where
  "fuzz_verify_direct e generate pa pb pc public_inputs alpha beta gamma delta ic =
     and_then (init_verifier_admin (generate 0) fresh_verifier) (\<lambda>s.
     and_then (initialize_verifier e \<lparr>vk_alpha = alpha, vk_beta = beta, vk_gamma = gamma, vk_delta = delta, vk_ic = take 10 ic\<rparr> s) (\<lambda>s.
     case (verify \<lparr>proof_a = pa, proof_b = pb, proof_c = pc\<rparr> (take 10 public_inputs) s :: bool outcome) of _ \<Rightarrow> Inr ()))"

definition fuzz_verify_payment_proof_direct ::
  "env \<Rightarrow> (nat \<Rightarrow> address) \<Rightarrow> bytes \<Rightarrow> bytes list \<Rightarrow> bytes \<Rightarrow> bytes \<Rightarrow> bytes \<Rightarrow> bytes \<Rightarrow> bytes list \<Rightarrow> unit outcome" where
  "fuzz_verify_payment_proof_direct e generate proof_bytes public_inputs alpha beta gamma delta ic =
     and_then (init_verifier_admin (generate 0) fresh_verifier) (\<lambda>s.
     and_then (initialize_verifier e \<lparr>vk_alpha = alpha, vk_beta = beta, vk_gamma = gamma, vk_delta = delta, vk_ic = take 10 ic\<rparr> s) (\<lambda>s.
     case (verify_payment_proof proof_bytes (take 10 public_inputs) s :: bool outcome) of _ \<Rightarrow> Inr ()))"

definition fuzz_execute_payment ::
  "env \<Rightarrow> TestSystem \<Rightarrow> (nat \<Rightarrow> address) \<Rightarrow> i128 \<Rightarrow> bytes \<Rightarrow> bytes \<Rightarrow> bytes \<Rightarrow> bytes \<Rightarrow> u32 \<Rightarrow> bytes \<Rightarrow> bool \<Rightarrow> unit outcome" where
  "fuzz_execute_payment e sys generate amount pa pb pc nul period commitment_bytes use_valid_inputs =
     and_then (setup_system e sys) (\<lambda>(company_id, L).
     let employee = generate 0;
         test_amount = (if use_valid_inputs then valid_amount amount else amount);
         test_period = (if use_valid_inputs then 1 else period) in
     and_then (add_employees e sys company_id [(employee, commitment_bytes)] L) (\<lambda>L.
     check_payment e sys company_id employee test_amount pa pb pc nul test_period L))"

definition fuzz_execute_batch_payroll ::
  "env \<Rightarrow> TestSystem \<Rightarrow> (nat \<Rightarrow> address) \<Rightarrow> i128 list \<Rightarrow> bytes list \<Rightarrow> bytes list \<Rightarrow> bytes list \<Rightarrow> bytes list \<Rightarrow> bytes list \<Rightarrow>
   u32 \<Rightarrow> bool \<Rightarrow> bool \<Rightarrow> bool \<Rightarrow> unit outcome" where
  "fuzz_execute_batch_payroll e sys generate amounts pas pbs pcs nuls commitment_list period force_duplicate force_empty force_mismatched =
     and_then (setup_system e sys) (\<lambda>(company_id, L).
     let batch_size = (if force_empty then 0
           else min 15 (min (length amounts) (min (length pas) (min (length pbs) (min (length pcs) (min (length nuls) (length commitment_list)))))));
         employees = map generate [0..<batch_size];
         test_amounts = map valid_amount (take batch_size amounts) @ (if force_mismatched then [100] else []);
         test_nuls = (if force_duplicate \<and> batch_size \<ge> 2 then (take batch_size nuls)[1 := nuls ! 0] else take batch_size nuls) in
     and_then (add_employees e sys company_id (zip employees (take batch_size commitment_list)) L) (\<lambda>L.
     check_batch e sys company_id employees test_amounts (take batch_size pas) (take batch_size pbs) (take batch_size pcs) test_nuls period L))"

definition fuzz_target :: "env \<Rightarrow> TestSystem \<Rightarrow> (nat \<Rightarrow> address) \<Rightarrow> FuzzAction \<Rightarrow> unit outcome" where
  "fuzz_target e sys generate action = (case action of
     VerifyDirect pa pb pc public_inputs alpha beta gamma delta ic \<Rightarrow>
       fuzz_verify_direct e generate pa pb pc public_inputs alpha beta gamma delta ic
   | VerifyPaymentProofDirect proof_bytes public_inputs alpha beta gamma delta ic \<Rightarrow>
       fuzz_verify_payment_proof_direct e generate proof_bytes public_inputs alpha beta gamma delta ic
   | ExecutePayment amount pa pb pc nul period commitment_bytes use_valid_inputs \<Rightarrow>
       fuzz_execute_payment e sys generate amount pa pb pc nul period commitment_bytes use_valid_inputs
   | ExecuteBatchPayroll amounts pas pbs pcs nuls commitment_list period force_duplicate force_empty force_mismatched \<Rightarrow>
       fuzz_execute_batch_payroll e sys generate amounts pas pbs pcs nuls commitment_list period force_duplicate force_empty force_mismatched)"

section \<open>Replays\<close>

definition open_period :: "xenv \<Rightarrow> u64 \<Rightarrow> u32 \<Rightarrow> executor \<Rightarrow> bool" where
  "open_period e i k s \<longleftrightarrow> pe_addresses s \<noteq> None \<and> pe_require_not_paused e s = (Inr () :: unit payment_result) \<and>
     (\<exists>pr. periods s (i, k) = Some pr \<and> \<not> pd_closed pr \<and> saturating_sub (timestamp e) (pd_created_at pr) \<le> MAX_PROOF_AGE_SECONDS)"

lemma replay_rejected:
  "open_period e i k (exe w) \<Longrightarrow> pe_nullifiers (exe w) n \<noteq> None \<Longrightarrow> execute_payment e i m a p n k w = Inl (Err ProofAlreadyUsed)"
  by (auto simp: open_period_def execute_payment_def not_less[symmetric])

lemma payment_leaves_open:
  assumes "execute_payment (e :: xenv) i m a p n k w = Inr (r, w')"
  shows "open_period e i k (exe w') \<and> pe_nullifiers (exe w') = (pe_nullifiers (exe w))(n \<mapsto> True)"
proof -
  obtain addrs :: pe_ContractAddresses and pr :: PayrollPeriod and t' where
    p: "pe_addresses (exe w) = Some addrs" "pe_require_not_paused e (exe w) = (Inr () :: unit payment_result)"
      "periods (exe w) (i, k) = Some pr" "\<not> pd_closed pr" "saturating_sub (timestamp e) (pd_created_at pr) \<le> MAX_PROOF_AGE_SECONDS"
    and w': "w' = w\<lparr>exe := paid_state e i m a n k pr (exe w), pe_tokens := (pe_tokens w)(xa_token addrs \<mapsto> t')\<rparr>"
    by (rule execute_payment_okE [OF assms]) (rule that)
  then show ?thesis by (simp add: open_period_def paid_state_def emits publish_def pe_require_not_paused_def)
qed

lemma batch_leaves_open:
  "batch_loop (e :: xenv) i ms as pas pbs pcs ns k is rs w = Inr (rs', w') \<Longrightarrow> is \<noteq> [] \<Longrightarrow>
   open_period e i k (exe w') \<and> dom (pe_nullifiers (exe w)) \<subseteq> dom (pe_nullifiers (exe w')) \<and>
   (\<lambda>j. ns ! j) ` set is \<subseteq> dom (pe_nullifiers (exe w'))"
proof (induction "is" arbitrary: rs w)
  case (Cons j js)
  from Cons.prems(1) obtain r w1 where p: "execute_payment e i (ms ! j) (as ! j) \<lparr>proof_a = pas ! j, proof_b = pbs ! j, proof_c = pcs ! j\<rparr> (ns ! j) k w = Inr (r, w1)"
    "batch_loop e i ms as pas pbs pcs ns k js (rs @ [r]) w1 = Inr (rs', w')" by auto
  note q = payment_leaves_open [OF p(1)]
  show ?case
  proof (cases "js = []")
    case True
    with p(2) q show ?thesis by auto
  next
    case False
    have "dom (pe_nullifiers (exe w1)) = insert (ns ! j) (dom (pe_nullifiers (exe w)))" using q by simp
    with Cons.IH [OF p(2) False] show ?thesis by auto
  qed
qed simp

section \<open>The assertions hold\<close>

text \<open>The executor is connected to the contracts that the target looks at. Nothing is said about
  the commitment contract, the verifier, the period or the decimals of the token.\<close>

definition system_ok :: "TestSystem \<Rightarrow> u64 \<Rightarrow> ledger \<Rightarrow> bool" where
  "system_ok sys i L \<longleftrightarrow> (\<exists>s r t adm. executors L (ts_executor sys) = Some s \<and>
     pe_addresses s = Some \<lparr>xa_registry = ts_registry sys, xa_commitment = ts_commitment sys, xa_verifier = ts_verifier sys, xa_token = ts_token sys\<rparr> \<and>
     registry_contracts L (ts_registry sys) = Some r \<and> companies r i = Some \<lparr>ci_admin = adm, ci_treasury = ts_treasury sys\<rparr> \<and>
     token_contracts L (ts_token sys) = Some t \<and> in_i128 (balance t (ts_treasury sys)) \<and> 0 \<le> get_total_paid i s)"

lemma xenv_same: "managers L' = managers L \<Longrightarrow> verifier_contracts L' = verifier_contracts L \<Longrightarrow> registry_contracts L' = registry_contracts L \<Longrightarrow>
   salary_ledgers L' = salary_ledgers L \<Longrightarrow> xenv_at e a L' = xenv_at e a L"
  by (simp add: xenv_at_def venv_at_def penv_at_def)

lemma xenv_fields [simp]: "registries (xenv_at e a L) = registry_contracts L" "salary_contracts (xenv_at e a L) = salary_ledgers L"
  by (simp_all add: xenv_at_def venv.defs)

lemma try_executor_okE:
  assumes "try_executor e a f L = Inr (r, L')"
  obtains w w' where "exe_view a L = Some w" "f (xenv_at e a L) w = Inr (r, w')"
    "L' = L\<lparr>executors := (executors L)(a \<mapsto> exe w'), token_contracts := pe_tokens w'\<rparr>" "exe_view a L' = Some w'" "xenv_at e a L' = xenv_at e a L"
  using assms by (fastforce simp: try_executor_def exe_view_def intro: xenv_same)

lemma check_payment_holds:
  assumes "system_ok sys i L" "emp \<noteq> ts_treasury sys"
  shows "check_payment e sys i emp a pa pb pc n k L = Inr ()"
proof -
  from assms(1) obtain s r t adm where s: "executors L (ts_executor sys) = Some s"
    "pe_addresses s = Some \<lparr>xa_registry = ts_registry sys, xa_commitment = ts_commitment sys, xa_verifier = ts_verifier sys, xa_token = ts_token sys\<rparr>"
    "registry_contracts L (ts_registry sys) = Some r" "companies r i = Some \<lparr>ci_admin = adm, ci_treasury = ts_treasury sys\<rparr>"
    "token_contracts L (ts_token sys) = Some t" "0 \<le> get_total_paid i s" by (auto simp: system_ok_def)
  show ?thesis
  proof (cases "try_execute_payment e sys i emp a pa pb pc n k L")
    case (Inl x)
    then show ?thesis using s(5) by (simp add: check_payment_def fuzz_balance_def client_def)
  next
    case (Inr y)
    obtain rec L' where y: "y = (rec, L')" by (cases y)
    let ?p = "\<lparr>proof_a = pa, proof_b = pb, proof_c = pc\<rparr>"
    from Inr [unfolded y try_execute_payment_def] show ?thesis
    proof (rule try_executor_okE)
      fix w w'
      assume w: "exe_view (ts_executor sys) L = Some w" "execute_payment (xenv_at e (ts_executor sys) L) i emp a ?p n k w = Inr (rec, w')"
        "L' = L\<lparr>executors := (executors L)(ts_executor sys \<mapsto> exe w'), token_contracts := pe_tokens w'\<rparr>"
        "exe_view (ts_executor sys) L' = Some w'" "xenv_at e (ts_executor sys) L' = xenv_at e (ts_executor sys) L"
      let ?addrs = "\<lparr>xa_registry = ts_registry sys, xa_commitment = ts_commitment sys, xa_verifier = ts_verifier sys, xa_token = ts_token sys\<rparr>"
      have x: "exe w = s" "pe_tokens w = token_contracts L" using view_SomeE [OF w(1)] s(1) by auto
      have "pe_addresses (exe w) = Some ?addrs" "registries (xenv_at e (ts_executor sys) L) (xa_registry ?addrs) = Some r"
        "pe_tokens w (xa_token ?addrs) = Some t" using s x by simp_all
      then obtain t' where t': "transfer (ts_treasury sys) emp a t = (Inr t' :: token payment_result)"
        "pe_tokens w' = (pe_tokens w)(ts_token sys \<mapsto> t')" "get_total_paid i (exe w') = get_total_paid i s + a"
        "payments (exe w') = (payments s)((emp, k) \<mapsto> rec)"
        using execute_payment_books [OF w(2) _ _ s(4)] x(1) by (metis pe_ContractAddresses.select_convs(4) CompanyInfo.select_convs(2))
      have "0 \<le> a" using transfer_bound [OF t'(1)] by simp
      moreover have "balance t' emp = balance t emp + a" "balance t' (ts_treasury sys) = balance t (ts_treasury sys) - a"
        using transfer_balance [OF t'(1)] assms(2) by auto
      moreover have "execute_payment (xenv_at e (ts_executor sys) L) i emp a ?p n k w' = Inl (Err ProofAlreadyUsed)"
        using payment_leaves_open [OF w(2)] by (intro replay_rejected) auto
      then have "try_execute_payment e sys i emp a pa pb pc n k L' = Inl (Err ProofAlreadyUsed)"
        by (simp add: try_execute_payment_def try_executor_def w(4,5))
      ultimately show ?thesis using Inr y s t' w(3)
        by (simp add: check_payment_def fuzz_balance_def fuzz_executor_read_def client_def is_paid_def assert_contract_error_def)
    qed
  qed
qed

lemma pay_all_bounds:
  "tok.pay_all a ps t = (Inr t' :: token payment_result) \<Longrightarrow> a \<notin> fst ` set ps \<Longrightarrow>
   list_all (\<lambda>p. 0 \<le> snd p) ps \<and> (ps \<noteq> [] \<longrightarrow> sum_list (map snd ps) \<le> balance t a)"
proof (induction ps arbitrary: t)
  case (Cons p ps)
  then obtain t1 where t1: "transfer a (fst p) (snd p) t = (Inr t1 :: token payment_result)" "tok.pay_all a ps t1 = (Inr t' :: token payment_result)"
    by auto
  have "balance t1 a = balance t a - snd p" using transfer_balance [OF t1(1)] Cons.prems(2) by auto
  with transfer_bound [OF t1(1)] Cons.IH [OF t1(2)] Cons.prems(2) show ?case by (cases "ps = []") auto
qed simp

lemma check_credited_sum:
  assumes "token_contracts L (ts_token sys) = Some t" "\<forall>(m, b, a) \<in> set xs. balance t m = b + a \<and> 0 \<le> a"
    and "0 \<le> n" "in_i128 (n + sum_list (map (\<lambda>(m, b, a). a) xs))"
  shows "check_credited sys xs n L = Inr (n + sum_list (map (\<lambda>(m, b, a). a) xs))"
  using assms(2-)
proof (induction xs arbitrary: n)
  case (Cons x xs)
  obtain m b a where x: "x = (m, b, a)" by (cases x)
  have "0 \<le> sum_list (map (\<lambda>(m, b, a). a) xs)" using Cons.prems(1) by (intro sum_list_nonneg) auto
  then have "in_i128 (n + a)" using Cons.prems by (auto simp: x in_i128_def)
  then show ?case using Cons assms(1) by (auto simp: x fuzz_balance_def client_def add_i128_def add.assoc)
qed simp

lemma fuzz_balances_read: "token_contracts L (ts_token sys) = Some t \<Longrightarrow> fuzz_balances sys ms L = Inr (map (balance t) ms)"
  by (induction ms) (simp_all add: fuzz_balance_def client_def)

lemma check_unchanged_read: "token_contracts L (ts_token sys) = Some t \<Longrightarrow> check_unchanged sys (zip ms (map (balance t) ms)) L = Inr ()"
  by (induction ms) (simp_all add: fuzz_balance_def client_def)

lemma check_replays_rejected:
  assumes "exe_view (ts_executor sys) L = Some w" "open_period (xenv_at e (ts_executor sys) L) i k (exe w)"
    "\<forall>(m, a, pa, pb, pc, n) \<in> set xs. pe_nullifiers (exe w) n \<noteq> None"
  shows "check_replays e sys i k xs L = Inr ()"
  using assms(3)
proof (induction xs)
  case (Cons x xs)
  obtain m a pa pb pc n where x: "x = (m, a, pa, pb, pc, n)" by (metis prod.exhaust)
  have "try_execute_payment e sys i m a pa pb pc n k L = Inl (Err ProofAlreadyUsed)"
    using Cons.prems replay_rejected [OF assms(2)] by (simp add: x try_execute_payment_def try_executor_def assms(1))
  then show ?case using Cons by (simp add: x assert_contract_error_def)
qed simp

text \<open>What a successful batch does, in the terms of the assertions.\<close>

lemma batch_succeeded:
  assumes "execute_batch_payroll (e :: xenv) i ms as pas pbs pcs ns k w = Inr (rec, w')" "pe_addresses (exe w) = Some addrs"
    "registries e (xa_registry addrs) = Some r" "companies r i = Some co" "pe_tokens w (xa_token addrs) = Some t" "ci_treasury co \<notin> set ms"
    "in_i128 (balance t (ci_treasury co))"
  obtains t' where "pe_tokens w' = (pe_tokens w)(xa_token addrs \<mapsto> t')" "length rec = length ms" "length as = length ms"
    "\<forall>(m, b, a) \<in> set (zip ms (zip (map (balance t) ms) as)). balance t' m = b + a \<and> 0 \<le> a" "in_i128 (sum_list as)"
    "balance t' (ci_treasury co) = balance t (ci_treasury co) - sum_list as" "open_period e i k (exe w')" "set ns \<subseteq> dom (pe_nullifiers (exe w'))"
proof -
  from assms(1) have l: "length as = length ms" "length ns = length ms" "ms \<noteq> []"
    and loop: "batch_loop e i ms as pas pbs pcs ns k [0..<length ms] [] w = Inr (rec, w')"
    by (auto simp: execute_batch_payroll_def Let_def)
  from batch_loop_pays [OF loop assms(2-5)] obtain t' where
    t': "tok.pay_all (ci_treasury co) (zip ms as) t = (Inr t' :: token payment_result)" "pe_tokens w' = (pe_tokens w)(xa_token addrs \<mapsto> t')"
    "distinct ms" "length rec = length ms"
    by (auto simp: map_nth_zip l map_nth)
  have d: "distinct (map fst (zip ms as))" "ci_treasury co \<notin> fst ` set (zip ms as)" "map snd (zip ms as) = as" "zip ms as \<noteq> []"
    using t'(3) l assms(6) by (auto simp: set_zip)
  have b: "list_all (\<lambda>p. 0 \<le> snd p) (zip ms as)" "sum_list as \<le> balance t (ci_treasury co)"
    using pay_all_bounds [OF t'(1) d(2)] d(3,4) by simp_all
  have n: "0 \<le> as ! j" if "j < length ms" for j using b(1) that l(1) by (auto simp: list_all_length)
  then have "0 \<le> sum_list as" using l(1) by (intro sum_list_nonneg) (metis in_set_conv_nth)
  then have "in_i128 (sum_list as)" using b(2) assms(7) by (simp add: in_i128_def)
  moreover have "\<forall>(m, b, a) \<in> set (zip ms (zip (map (balance t) ms) as)). balance t' m = b + a \<and> 0 \<le> a"
    using tok.pay_all_payee [OF t'(1) d(2,1)] n l(1) by (fastforce simp: set_zip)
  moreover have "balance t' (ci_treasury co) = balance t (ci_treasury co) - sum_list as"
    using tok.pay_all_payer [OF t'(1) d(2)] d(3) by simp
  moreover have "(\<lambda>j. ns ! j) ` set [0..<length ms] = set ns" using map_nth [of ns] l(2) by (metis set_map)
  then have "open_period e i k (exe w')" "set ns \<subseteq> dom (pe_nullifiers (exe w'))" using batch_leaves_open [OF loop] l(3) by simp_all
  ultimately show thesis using that t'(2,4) l(1) by blast
qed

lemma check_batch_holds:
  assumes "system_ok sys i L" "ts_treasury sys \<notin> set ms"
  shows "check_batch e sys i ms as pas pbs pcs ns k L = Inr ()"
proof -
  from assms(1) obtain s r t adm where s: "executors L (ts_executor sys) = Some s"
    "pe_addresses s = Some \<lparr>xa_registry = ts_registry sys, xa_commitment = ts_commitment sys, xa_verifier = ts_verifier sys, xa_token = ts_token sys\<rparr>"
    "registry_contracts L (ts_registry sys) = Some r" "companies r i = Some \<lparr>ci_admin = adm, ci_treasury = ts_treasury sys\<rparr>"
    "token_contracts L (ts_token sys) = Some t" "in_i128 (balance t (ts_treasury sys))" by (auto simp: system_ok_def)
  let ?f = "\<lambda>e w. execute_batch_payroll (e :: xenv) i ms as pas pbs pcs ns k w"
  show ?thesis
  proof (cases "try_executor e (ts_executor sys) ?f L")
    case (Inl x)
    then show ?thesis using s(5) by (simp add: check_batch_def fuzz_balances_read check_unchanged_read fuzz_balance_def client_def)
  next
    case (Inr y)
    obtain rec L' where y: "y = (rec, L')" by (cases y)
    from Inr [unfolded y] show ?thesis
    proof (rule try_executor_okE)
      fix w w'
      assume w: "exe_view (ts_executor sys) L = Some w" "execute_batch_payroll (xenv_at e (ts_executor sys) L) i ms as pas pbs pcs ns k w = Inr (rec, w')"
        "L' = L\<lparr>executors := (executors L)(ts_executor sys \<mapsto> exe w'), token_contracts := pe_tokens w'\<rparr>"
        "exe_view (ts_executor sys) L' = Some w'" "xenv_at e (ts_executor sys) L' = xenv_at e (ts_executor sys) L"
      let ?xs = "zip ms (zip (map (balance t) ms) as)"
      have x: "exe w = s" "pe_tokens w = token_contracts L" using view_SomeE [OF w(1)] s(1) by auto
      obtain t' where t': "pe_tokens w' = (pe_tokens w)(ts_token sys \<mapsto> t')" "length rec = length ms" "length as = length ms"
        "\<forall>(m, b, a) \<in> set ?xs. balance t' m = b + a \<and> 0 \<le> a" "in_i128 (sum_list as)"
        "balance t' (ts_treasury sys) = balance t (ts_treasury sys) - sum_list as"
        and o: "open_period (xenv_at e (ts_executor sys) L) i k (exe w')" "set ns \<subseteq> dom (pe_nullifiers (exe w'))"
        by (rule batch_succeeded [OF w(2) _ _ s(4), of "the (pe_addresses s)" t]) (use s x assms(2) in simp_all)
      have c: "token_contracts L' (ts_token sys) = Some t'" using t'(1) w(3) by simp
      have "map (\<lambda>(m, b, a). a) ?xs = as" using t'(3) by (intro nth_equalityI) simp_all
      then have "check_credited sys ?xs 0 L' = Inr (sum_list as)" using check_credited_sum [OF c t'(4), of 0] t'(5) by simp
      moreover have "\<forall>(m, a, pa, pb, pc, n) \<in> set (zip ms (zip as (zip pas (zip pbs (zip pcs ns))))). pe_nullifiers (exe w') n \<noteq> None"
        using o(2) by (auto dest!: set_zip_rightD)
      then have "check_replays e sys i k (zip ms (zip as (zip pas (zip pbs (zip pcs ns))))) L' = Inr ()"
        using o(1) w(5) by (intro check_replays_rejected [OF w(4)]) simp_all
      ultimately show ?thesis using Inr y s(5) c t'(2,6)
        by (simp add: check_batch_def fuzz_balances_read fuzz_balance_def client_def)
    qed
  qed
qed




section \<open>The target passes\<close>

lemma setup_system_ok:
  assumes "mocked e"
  obtains L where "setup_system e sys = Inr (0, L)" "system_ok sys 0 L" "salary_ledgers L = Map.empty"
    "\<exists>r. registry_contracts L (ts_registry sys) = Some r \<and> reg_pause_manager r = None"
proof -
  have "\<exists>L. setup_system e sys = Inr (0, L) \<and> system_ok sys 0 L \<and> salary_ledgers L = Map.empty \<and>
      (\<exists>r. registry_contracts L (ts_registry sys) = Some r \<and> reg_pause_manager r = None)"
    using assms
    by (simp add: setup_system_def fuzz_registered_def executor_client_def try_executor_def exe_view_def exe_part_def pe_initialize_def
        exe_blank_def client_defs init_verifier_admin_def fresh_verifier_def initialize_verifier_def require_verifier_admin_def require_auth_def
        register_company_def reg_require_not_paused_def reg_blank_def add_u_def create_period_def pe_require_not_paused_def
        executor_company_def get_company_def mint_def add_i128_def in_i128_def system_ok_def get_total_paid_def balance_def Let_def
        emits publish_def mocked_def xenv_at_def venv_at_def penv_at_def env_at_def env.defs penv.defs venv.defs)
  then show thesis using that by blast
qed

lemma add_employees_ok:
  assumes "mocked e" "system_ok sys i L" "registry_contracts L (ts_registry sys) = Some r" "reg_pause_manager r = None"
  shows "\<exists>L'. add_employees e sys i xs L = Inr L' \<and> system_ok sys i L' \<and> salary_ledgers L' = salary_ledgers L"
  using assms(2-)
proof (induction xs arbitrary: L r)
  case (Cons x xs)
  from Cons.prems(1,2) obtain co where co: "companies r i = Some co" by (auto simp: system_ok_def)
  let ?r = "emit_employee_added i (fst x) (snd x) (r\<lparr>employees_of := (employees_of r)((i, fst x) \<mapsto> snd x), emp_status := (emp_status r)((i, fst x) \<mapsto> EmpActive)\<rparr>)"
  let ?L = "L\<lparr>registry_contracts := (registry_contracts L)(ts_registry sys \<mapsto> ?r)\<rparr>"
  have "registry_client e (ts_registry sys) (\<lambda>e s. no_value (add_employee e i (fst x) (snd x) s)) L = Inr ((), ?L)"
    using assms(1) Cons.prems co
    by (simp add: registry_client_def client_def no_value_def add_employee_def add_employee_record_def reg_require_not_paused_def
        company_guard_def require_auth_def)
  moreover have "system_ok sys i ?L" using Cons.prems(1,2) by (auto simp: system_ok_def emits publish_def)
  ultimately show ?case using Cons.IH [of ?L ?r] Cons.prems(3) by (simp add: emits publish_def)
qed simp

text \<open>No input makes the fuzz target fail, when the generated addresses differ from the treasury: set-up
  and onboarding succeed, the verifier answers, a failing payment or batch leaves every balance as it
  was, and one that succeeds credits each employee with the listed amount, debits the treasury with
  their sum, is recorded, and is rejected as \<open>ProofAlreadyUsed\<close> when submitted again.\<close>

lemma fuzz_target_passes:
  assumes "mocked e" "ts_treasury sys \<notin> range generate"
  shows "fuzz_target e sys generate action = Inr ()"
proof -
  obtain L r where L: "setup_system e sys = Inr (0, L)" "system_ok sys 0 L"
    and r: "registry_contracts L (ts_registry sys) = Some r" "reg_pause_manager r = None" by (rule setup_system_ok [OF assms(1)]) blast
  have add: "\<exists>L'. add_employees e sys 0 xs L = Inr L' \<and> system_ok sys 0 L'" for xs
    using add_employees_ok [OF assms(1) L(2) r] by blast
  show ?thesis
  proof (cases action)
    case (ExecutePayment a pa pb pc n k cb v)
    have "generate 0 \<noteq> ts_treasury sys" using assms(2) by (metis rangeI)
    with add [of "[(generate 0, cb)]"] show ?thesis
      by (auto simp: fuzz_target_def fuzz_execute_payment_def ExecutePayment L(1) Let_def check_payment_holds simp del: add_employees.simps)
  next
    case (ExecuteBatchPayroll as pas pbs pcs ns cs k x y z)
    have "ts_treasury sys \<notin> set (map generate ks)" for ks using assms(2) by auto
    then have "and_then (add_employees e sys 0 xs L) (\<lambda>L. check_batch e sys 0 (map generate ks) bs p q u v k L) = Inr ()" for xs ks bs p q u v
    proof -
      obtain L' where L': "add_employees e sys 0 xs L = Inr L'" "system_ok sys 0 L'" using add [of xs] by blast
      show ?thesis unfolding L'(1) and_then_Inr by (rule check_batch_holds [OF L'(2) \<open>ts_treasury sys \<notin> set (map generate ks)\<close>])
    qed
    then show ?thesis unfolding fuzz_target_def fuzz_execute_batch_payroll_def ExecuteBatchPayroll FuzzAction.case L(1) and_then_Inr prod.case Let_def .
  qed (use assms(1) in \<open>simp_all add: fuzz_target_def fuzz_verify_direct_def fuzz_verify_payment_proof_direct_def init_verifier_admin_def fresh_verifier_def initialize_verifier_def require_verifier_admin_def\<close>)
qed

definition demo_system :: TestSystem where
  "demo_system = \<lparr>ts_executor = Address ''X'', ts_registry = Address ''R'', ts_verifier = Address ''V'', ts_token = Address ''T'',
     ts_commitment = Address ''S'', ts_verifier_admin = Address ''W'', ts_admin = adr_A, ts_treasury = adr_B\<rparr>"

lemma fuzz_target_passes_witness:
  "fuzz_target (env.truncate test_env) demo_system (\<lambda>n. Address (replicate n CHR ''x''))
     (ExecutePayment 5 (replicate 64 1) (replicate 128 2) (replicate 64 3) zero32 1 zero32 True) = Inr ()"
proof -
  have "mocked (env.truncate test_env)" by (simp add: mocked_def test_env_def env.defs)
  moreover have "ts_treasury demo_system \<notin> range (\<lambda>n. Address (replicate n CHR ''x''))"
    by (auto simp: demo_system_def Cons_replicate_eq)
  ultimately show ?thesis by (rule fuzz_target_passes)
qed

text \<open>In the target's own set-up the commitment address is a generated one, where no contract lives, so no
  payment succeeds and the assertions on success are never reached.\<close>

lemma fuzz_payment_never_succeeds:
  assumes "mocked e" "setup_system e sys = Inr (i, L)" "add_employees e sys i xs L = Inr L'"
  shows "try_execute_payment e sys i m a pa pb pc n k L' \<noteq> Inr y"
proof
  assume "try_execute_payment e sys i m a pa pb pc n k L' = Inr y"
  then obtain w r w' where w: "exe_view (ts_executor sys) L' = Some w"
    "execute_payment (xenv_at e (ts_executor sys) L') i m a \<lparr>proof_a = pa, proof_b = pb, proof_c = pc\<rparr> n k w = Inr (r, w')"
    by (auto simp: try_execute_payment_def try_executor_def)
  obtain L1 r where L: "setup_system e sys = Inr (0, L1)" "system_ok sys 0 L1" "salary_ledgers L1 = Map.empty"
    and r: "registry_contracts L1 (ts_registry sys) = Some r" "reg_pause_manager r = None" by (rule setup_system_ok [OF assms(1)]) blast
  with assms add_employees_ok [OF assms(1) L(2) r, of xs] have s: "salary_ledgers L' = Map.empty" by auto
  obtain addrs :: pe_ContractAddresses and sc where "salary_contracts (xenv_at e (ts_executor sys) L') (xa_commitment addrs) = Some sc"
    by (rule execute_payment_okE [OF w(2)]) (rule that)
  with s show False by simp
qed

end
