(* ===== verification/Test_Fixtures.thy ===== *)
theory Test_Fixtures
  imports Integration_Scenarios
begin

text \<open>
  \<open>contracts/integration_tests/src/fixtures.rs\<close>: the companies, employees and periods that tests and
  documentation share. \<open>address_from_seed\<close> goes through the strkey text of a contract address, which the
  library \<open>stellar_strkey\<close> produces; that function is the argument \<open>contract_strkey\<close>.
\<close>

record CompanyFixture =
  cf_id :: u64
  cf_name :: string

definition ACME_CORP :: CompanyFixture where "ACME_CORP = \<lparr>cf_id = 0, cf_name = ''Acme Corp''\<rparr>"
definition TECHSTART_INC :: CompanyFixture where "TECHSTART_INC = \<lparr>cf_id = 1, cf_name = ''TechStart Inc''\<rparr>"
definition GLOBALPAY_LTD :: CompanyFixture where "GLOBALPAY_LTD = \<lparr>cf_id = 2, cf_name = ''GlobalPay Ltd''\<rparr>"

record EmployeeFixture =
  ef_id :: u8
  ef_name :: string
  ef_salary :: u64
  ef_blinding_factor :: u8

definition ALICE :: EmployeeFixture where "ALICE = \<lparr>ef_id = 0, ef_name = ''Alice'', ef_salary = 5000, ef_blinding_factor = 123\<rparr>"
definition BOB :: EmployeeFixture where "BOB = \<lparr>ef_id = 1, ef_name = ''Bob'', ef_salary = 3500, ef_blinding_factor = 156\<rparr>"
definition CAROL :: EmployeeFixture where "CAROL = \<lparr>ef_id = 2, ef_name = ''Carol'', ef_salary = 7200, ef_blinding_factor = 189\<rparr>"
definition DAVID :: EmployeeFixture where "DAVID = \<lparr>ef_id = 3, ef_name = ''David'', ef_salary = 4500, ef_blinding_factor = 111\<rparr>"
definition EMMA :: EmployeeFixture where "EMMA = \<lparr>ef_id = 4, ef_name = ''Emma'', ef_salary = 6000, ef_blinding_factor = 222\<rparr>"
definition FRANK :: EmployeeFixture where "FRANK = \<lparr>ef_id = 5, ef_name = ''Frank'', ef_salary = 5500, ef_blinding_factor = 233\<rparr>"

definition address_from_seed :: "(bytes \<Rightarrow> string) \<Rightarrow> u8 \<Rightarrow> address" where
  "address_from_seed contract_strkey seed = Address (contract_strkey ((replicate 32 0)[31 := seed]))"

definition blinding_bytes :: "u8 \<Rightarrow> bytes" where
  "blinding_bytes factor = (replicate 32 0)[31 := factor]"

record PayrollPeriodFixture =
  pf_label :: string
  pf_company_id :: u64
  pf_start_date :: string
  pf_end_date :: string
  pf_is_active :: bool

definition Q1_2024_ACME :: PayrollPeriodFixture where
  "Q1_2024_ACME = \<lparr>pf_label = ''Q1 2024'', pf_company_id = 0, pf_start_date = ''2024-01-01'', pf_end_date = ''2024-03-31'', pf_is_active = False\<rparr>"

definition Q2_2024_ACME :: PayrollPeriodFixture where
  "Q2_2024_ACME = \<lparr>pf_label = ''Q2 2024'', pf_company_id = 0, pf_start_date = ''2024-04-01'', pf_end_date = ''2024-06-30'', pf_is_active = True\<rparr>"

definition FEB_2024_GLOBALPAY :: PayrollPeriodFixture where
  "FEB_2024_GLOBALPAY = \<lparr>pf_label = ''Feb 2024'', pf_company_id = 2, pf_start_date = ''2024-02-01'', pf_end_date = ''2024-02-29'', pf_is_active = False\<rparr>"

section \<open>The fixtures serve their purpose\<close>

lemma last_byte: "(replicate 32 (0 :: u8))[31 := a] = (replicate 32 0)[31 := b] \<longleftrightarrow> a = b"
  by (auto dest!: arg_cong [where f = "\<lambda>xs. xs ! 31"])

lemma blinding_bytes_inj: "blinding_bytes a = blinding_bytes b \<longleftrightarrow> a = b"
  by (simp add: blinding_bytes_def last_byte)

lemma blinding_bytes_layout: "length (blinding_bytes f) = 32" "blinding_bytes f ! 31 = f" "i < 31 \<Longrightarrow> blinding_bytes f ! i = 0"
  by (simp_all add: blinding_bytes_def)

text \<open>Different seeds give different addresses, as strkey texts determine the keys.\<close>

lemma address_from_seed_unique:
  assumes "inj contract_strkey"
  shows "address_from_seed contract_strkey a = address_from_seed contract_strkey b \<longleftrightarrow> a = b"
  using assms by (simp add: address_from_seed_def last_byte inj_eq)

text \<open>The commitment of the end-to-end tests is that of the fixture Alice, and no two of the employees
  commit to the same text: their commitments differ unless the hash function collides.\<close>

lemma alice_is_the_fixture: "alice_salary_commitment e = compute_commitment e (ef_salary ALICE) (blinding_bytes (ef_blinding_factor ALICE))"
  by (simp add: alice_salary_commitment_def ALICE_def blinding_bytes_def)

lemma fixture_commitments_distinct:
  "distinct (map (\<lambda>f. commitment_preimage (ef_salary f) (blinding_bytes (ef_blinding_factor f))) [ALICE, BOB, CAROL, DAVID, EMMA, FRANK])"
  by (simp add: commitment_preimage_def append_eq_append_conv blinding_bytes_inj ALICE_def BOB_def CAROL_def DAVID_def EMMA_def FRANK_def)

end
