(* ===== verification/Pause_Client.thy ===== *)
theory Pause_Client
  imports Pause_Manager
begin

text \<open>
  \<open>PauseManagerClient\<close> of \<open>contracts/pause_manager/src/lib.rs\<close>: the hand-written client through which the
  other contracts reach a pause manager. It names the entry point by a symbol and passes untyped host
  values, so nothing but their agreement with the contract makes a call arrive. Here the host looks the
  contract up, the dispatcher that \<open>contractimpl\<close> generates selects the entry point by name and number of
  arguments, and arguments and results are converted to and from host values. Shown is that every
  function of the client is the entry point it is named after, and that the guard \<open>pause_guard\<close> of the
  other contracts is the code that calls this client.
\<close>

section \<open>Host values\<close>

text \<open>An enum with numbers is its number, an address and a flag are themselves, an option is its content
  or void, and a struct is the list of its fields, sorted by name, with their names.\<close>

definition category_val :: "PauseCategory \<Rightarrow> scval" where
  "category_val c = VU32 (case c of Payroll \<Rightarrow> 0 | Treasury \<Rightarrow> 1 | Audit \<Rightarrow> 2 | Admin \<Rightarrow> 3)"

definition conversion_failed :: "'a outcome" where
  "conversion_failed = Inl (Panic ''ConversionError'')"

definition category_of :: "scval \<Rightarrow> PauseCategory outcome" where
  "category_of v = (if v = VU32 0 then Inr Payroll else if v = VU32 1 then Inr Treasury
     else if v = VU32 2 then Inr Audit else if v = VU32 3 then Inr Admin else conversion_failed)"

fun address_of :: "scval \<Rightarrow> address outcome" where
  "address_of (VAddr a) = Inr a"
| "address_of _ = conversion_failed"

fun bool_of :: "scval \<Rightarrow> bool outcome" where
  "bool_of (VBool b) = Inr b"
| "bool_of _ = conversion_failed"

fun void_of :: "scval \<Rightarrow> unit outcome" where
  "void_of VVoid = Inr ()"
| "void_of _ = conversion_failed"

definition field_val :: "string \<Rightarrow> scval \<Rightarrow> scval" where
  "field_val name v = VVec [VSym name, v]"

definition status_val :: "PauseStatus \<Rightarrow> scval" where
  "status_val st = VVec [field_val ''admin_paused'' (VBool (admin_paused st)), field_val ''audit_paused'' (VBool (audit_paused st)),
     field_val ''payroll_paused'' (VBool (payroll_paused st)), field_val ''treasury_paused'' (VBool (treasury_paused st))]"

fun is_field :: "string \<Rightarrow> scval \<Rightarrow> bool" where
  "is_field name (VVec xs) = (length xs = 2 \<and> xs ! 0 = VSym name)"
| "is_field name _ = False"

fun field_content :: "scval \<Rightarrow> scval" where
  "field_content (VVec xs) = xs ! 1"
| "field_content v = v"

text \<open>The contents of a struct with the given fields.\<close>

definition struct_of :: "string list \<Rightarrow> scval \<Rightarrow> scval list outcome" where
  "struct_of names v = (case v of
     VVec fs \<Rightarrow> if list_all2 is_field names fs then Inr (map field_content fs) else conversion_failed
   | _ \<Rightarrow> conversion_failed)"

definition status_of :: "scval \<Rightarrow> PauseStatus outcome" where
  "status_of v =
     and_then (struct_of [''admin_paused'', ''audit_paused'', ''payroll_paused'', ''treasury_paused''] v) (\<lambda>vs.
     and_then (bool_of (vs ! 2)) (\<lambda>payroll.
     and_then (bool_of (vs ! 3)) (\<lambda>treasury.
     and_then (bool_of (vs ! 1)) (\<lambda>audit.
     and_then (bool_of (vs ! 0)) (\<lambda>admin.
     Inr \<lparr>payroll_paused = payroll, treasury_paused = treasury, audit_paused = audit, admin_paused = admin\<rparr>)))))"

definition pending_val :: "PendingOperatorRotation option \<Rightarrow> scval" where
  "pending_val p = (case p of None \<Rightarrow> VVoid | Some r \<Rightarrow>
     VVec [field_val ''new_operator'' (VAddr (new_operator r)), field_val ''proposed_at'' (VU64 (op_proposed_at r)),
       field_val ''proposed_by'' (VAddr (op_proposed_by r))])"

fun u64_of :: "scval \<Rightarrow> u64 outcome" where
  "u64_of (VU64 n) = Inr n"
| "u64_of _ = conversion_failed"

definition pending_of :: "scval \<Rightarrow> PendingOperatorRotation option outcome" where
  "pending_of v = (if v = VVoid then Inr None else
     and_then (struct_of [''new_operator'', ''proposed_at'', ''proposed_by''] v) (\<lambda>vs.
     and_then (address_of (vs ! 0)) (\<lambda>new.
     and_then (address_of (vs ! 2)) (\<lambda>by.
     and_then (u64_of (vs ! 1)) (\<lambda>at.
     Inr (Some \<lparr>new_operator = new, op_proposed_by = by, op_proposed_at = at\<rparr>))))))"

lemma category_roundtrip [simp]: "category_of (category_val c) = Inr c"
  by (cases c) (simp_all add: category_of_def category_val_def)

lemma status_roundtrip [simp]: "status_of (status_val st) = Inr st"
  by (simp add: status_of_def struct_of_def status_val_def field_val_def)

lemma pending_roundtrip [simp]: "pending_of (pending_val p) = Inr p"
  by (cases p) (simp_all add: pending_of_def struct_of_def pending_val_def field_val_def)

section \<open>Dispatch and invocation\<close>

definition returns_void :: "pause_manager outcome \<Rightarrow> (scval \<times> pause_manager) outcome" where
  "returns_void r = and_then r (\<lambda>s. Inr (VVoid, s))"

definition pm_dispatch :: "'x env_scheme \<Rightarrow> symbol \<Rightarrow> scval list \<Rightarrow> pause_manager \<Rightarrow> (scval \<times> pause_manager) outcome" where
  "pm_dispatch e name args s =
     (if name = ''initialize'' \<and> length args = 1 then
        and_then (address_of (args ! 0)) (\<lambda>a. returns_void (initialize_pm e a s))
      else if name = ''pause'' \<and> args = [] then returns_void (pause e s)
      else if name = ''unpause'' \<and> args = [] then returns_void (unpause e s)
      else if name = ''is_paused'' \<and> args = [] then Inr (VBool (is_paused s), s)
      else if name = ''pause_category'' \<and> length args = 1 then
        and_then (category_of (args ! 0)) (\<lambda>c. returns_void (pause_category e c s))
      else if name = ''unpause_category'' \<and> length args = 1 then
        and_then (category_of (args ! 0)) (\<lambda>c. returns_void (unpause_category e c s))
      else if name = ''is_category_paused'' \<and> length args = 1 then
        and_then (category_of (args ! 0)) (\<lambda>c. Inr (VBool (is_category_paused s c), s))
      else if name = ''get_pause_status'' \<and> args = [] then Inr (status_val (get_pause_status s), s)
      else if name = ''propose_operator_rotation'' \<and> length args = 2 then
        and_then (address_of (args ! 0)) (\<lambda>a. and_then (address_of (args ! 1)) (\<lambda>b. returns_void (propose_operator_rotation e a b s)))
      else if name = ''accept_operator_rotation'' \<and> length args = 1 then
        and_then (address_of (args ! 0)) (\<lambda>a. returns_void (accept_operator_rotation e a s))
      else if name = ''cancel_operator_rotation'' \<and> length args = 1 then
        and_then (address_of (args ! 0)) (\<lambda>a. returns_void (cancel_operator_rotation e a s))
      else if name = ''get_pending_operator_rotation'' \<and> args = [] then Inr (pending_val (get_pending_operator_rotation s), s)
      else if name = ''get_operator'' \<and> args = [] then and_then (get_operator s) (\<lambda>a. Inr (VAddr a, s))
      else Inl (Panic ''no such function''))"

text \<open>The host runs the entry point for its caller, keeps the new state, and converts the result.\<close>

definition invoke_contract ::
  "'x env_scheme \<Rightarrow> address \<Rightarrow> symbol \<Rightarrow> scval list \<Rightarrow> (scval \<Rightarrow> 'r outcome) \<Rightarrow> (address \<rightharpoonup> pause_manager) \<Rightarrow>
   ('r \<times> (address \<rightharpoonup> pause_manager)) outcome" where
  "invoke_contract e a name args result_of tbl =
     and_then (ok_or (NoContract a) (tbl a)) (\<lambda>s.
     and_then (pm_dispatch (invoked_by_self e) name args s) (\<lambda>(v, s').
     and_then (result_of v) (\<lambda>r.
     Inr (r, tbl(a \<mapsto> s')))))"

section \<open>The client\<close>

definition empty_args :: "scval list" where
  "empty_args = []"

definition single_arg :: "scval \<Rightarrow> scval list" where
  "single_arg a = [a]"

definition two_args :: "scval \<Rightarrow> scval \<Rightarrow> scval list" where
  "two_args a b = [a, b]"

text \<open>\<open>PauseManagerClient(env, contract_id)\<close>: every function takes both fields first.\<close>

definition client_initialize where
  "client_initialize e a op = invoke_contract e a ''initialize'' (single_arg (VAddr op)) void_of"

definition client_pause where
  "client_pause e a = invoke_contract e a ''pause'' empty_args void_of"

definition client_unpause where
  "client_unpause e a = invoke_contract e a ''unpause'' empty_args void_of"

definition client_is_paused where
  "client_is_paused e a = invoke_contract e a ''is_paused'' empty_args bool_of"

definition client_pause_category where
  "client_pause_category e a c = invoke_contract e a ''pause_category'' (single_arg (category_val c)) void_of"

definition client_unpause_category where
  "client_unpause_category e a c = invoke_contract e a ''unpause_category'' (single_arg (category_val c)) void_of"

definition client_is_category_paused where
  "client_is_category_paused e a c = invoke_contract e a ''is_category_paused'' (single_arg (category_val c)) bool_of"

definition client_get_pause_status where
  "client_get_pause_status e a = invoke_contract e a ''get_pause_status'' empty_args status_of"

definition client_propose_operator_rotation where
  "client_propose_operator_rotation e a current new =
     invoke_contract e a ''propose_operator_rotation'' (two_args (VAddr current) (VAddr new)) void_of"

definition client_accept_operator_rotation where
  "client_accept_operator_rotation e a new = invoke_contract e a ''accept_operator_rotation'' (single_arg (VAddr new)) void_of"

definition client_cancel_operator_rotation where
  "client_cancel_operator_rotation e a current = invoke_contract e a ''cancel_operator_rotation'' (single_arg (VAddr current)) void_of"

definition client_get_pending_operator_rotation where
  "client_get_pending_operator_rotation e a = invoke_contract e a ''get_pending_operator_rotation'' empty_args pending_of"

definition client_get_operator where
  "client_get_operator e a = invoke_contract e a ''get_operator'' empty_args address_of"

section \<open>The client reaches the entry points\<close>

text \<open>A call that changes the manager at \<open>a\<close>, and one that reads it.\<close>

definition change_at :: "address \<Rightarrow> (pause_manager \<Rightarrow> pause_manager outcome) \<Rightarrow> (address \<rightharpoonup> pause_manager) \<Rightarrow> (unit \<times> (address \<rightharpoonup> pause_manager)) outcome" where
  "change_at a f tbl = and_then (ok_or (NoContract a) (tbl a)) (\<lambda>s. and_then (f s) (\<lambda>s'. Inr ((), tbl(a \<mapsto> s'))))"

definition read_at :: "address \<Rightarrow> (pause_manager \<Rightarrow> 'r outcome) \<Rightarrow> (address \<rightharpoonup> pause_manager) \<Rightarrow> ('r \<times> (address \<rightharpoonup> pause_manager)) outcome" where
  "read_at a f tbl = and_then (ok_or (NoContract a) (tbl a)) (\<lambda>s. and_then (f s) (\<lambda>r. Inr (r, tbl)))"

lemma invoke_change:
  assumes "\<And>s. pm_dispatch (invoked_by_self e) name args s = returns_void (f s)"
  shows "invoke_contract e a name args void_of tbl = change_at a f tbl"
proof (cases "tbl a")
  case (Some s)
  then show ?thesis by (cases "f s") (simp_all add: invoke_contract_def change_at_def assms returns_void_def)
qed (simp add: invoke_contract_def change_at_def)

lemma invoke_read:
  assumes "\<And>s. pm_dispatch (invoked_by_self e) name args s = and_then (f s) (\<lambda>r. Inr (v r, s))" "\<And>r. result_of (v r) = Inr r"
  shows "invoke_contract e a name args result_of tbl = read_at a f tbl"
proof (cases "tbl a")
  case (Some s)
  then have "tbl(a \<mapsto> s) = tbl" by auto
  with Some show ?thesis by (cases "f s") (simp_all add: invoke_contract_def read_at_def assms)
qed (simp add: invoke_contract_def read_at_def)

lemmas client_defs = client_initialize_def client_pause_def client_unpause_def client_is_paused_def client_pause_category_def
  client_unpause_category_def client_is_category_paused_def client_get_pause_status_def client_propose_operator_rotation_def
  client_accept_operator_rotation_def client_cancel_operator_rotation_def client_get_pending_operator_rotation_def
  client_get_operator_def empty_args_def single_arg_def two_args_def

lemma client_changes:
  "client_initialize e a op tbl = change_at a (initialize_pm (invoked_by_self e) op) tbl"
  "client_pause e a tbl = change_at a (pause (invoked_by_self e)) tbl"
  "client_unpause e a tbl = change_at a (unpause (invoked_by_self e)) tbl"
  "client_pause_category e a c tbl = change_at a (pause_category (invoked_by_self e) c) tbl"
  "client_unpause_category e a c tbl = change_at a (unpause_category (invoked_by_self e) c) tbl"
  "client_propose_operator_rotation e a x y tbl = change_at a (propose_operator_rotation (invoked_by_self e) x y) tbl"
  "client_accept_operator_rotation e a y tbl = change_at a (accept_operator_rotation (invoked_by_self e) y) tbl"
  "client_cancel_operator_rotation e a x tbl = change_at a (cancel_operator_rotation (invoked_by_self e) x) tbl"
  unfolding client_defs by (rule invoke_change; simp add: pm_dispatch_def)+

lemma client_reads:
  "client_is_paused e a tbl = read_at a (\<lambda>s. Inr (is_paused s)) tbl"
  "client_is_category_paused e a c tbl = read_at a (\<lambda>s. Inr (is_category_paused s c)) tbl"
  "client_get_pause_status e a tbl = read_at a (\<lambda>s. Inr (get_pause_status s)) tbl"
  "client_get_pending_operator_rotation e a tbl = read_at a (\<lambda>s. Inr (get_pending_operator_rotation s)) tbl"
  "client_get_operator e a tbl = read_at a get_operator tbl"
proof -
  show "client_is_paused e a tbl = read_at a (\<lambda>s. Inr (is_paused s)) tbl"
    "client_is_category_paused e a c tbl = read_at a (\<lambda>s. Inr (is_category_paused s c)) tbl"
    unfolding client_defs by (rule invoke_read [where v = VBool]; simp add: pm_dispatch_def)+
  show "client_get_pause_status e a tbl = read_at a (\<lambda>s. Inr (get_pause_status s)) tbl"
    unfolding client_defs by (rule invoke_read [where v = status_val]; simp add: pm_dispatch_def)
  show "client_get_pending_operator_rotation e a tbl = read_at a (\<lambda>s. Inr (get_pending_operator_rotation s)) tbl"
    unfolding client_defs by (rule invoke_read [where v = pending_val]; simp add: pm_dispatch_def)
  show "client_get_operator e a tbl = read_at a get_operator tbl"
    unfolding client_defs by (rule invoke_read [where v = VAddr]; simp add: pm_dispatch_def)
qed

text \<open>The guard of the other contracts, written with the client as their source has it: it is \<open>pause_guard\<close>,
  and no call of it changes a manager.\<close>

definition guard_by_client :: "string \<Rightarrow> 'x penv_scheme \<Rightarrow> address option \<Rightarrow> unit outcome" where
  "guard_by_client msg e pm = (case pm of
     None \<Rightarrow> Inr ()
   | Some a \<Rightarrow> and_then (client_is_paused e a (pause_managers e)) (\<lambda>(b, _). panic_if b msg))"

lemma guard_by_client: "guard_by_client msg e pm = pause_guard msg e pm"
  by (cases pm) (auto simp: guard_by_client_def pause_guard_def client_reads read_at_def ok_or_def split: option.splits)

end
