(* ===== verification/Pause_Tests.thy ===== *)
theory Pause_Tests
  imports Pause_Manager Test_Programs
begin

text \<open>
  The unit tests of \<open>contracts/pause_manager/src/lib.rs\<close> as programs over the model of the contract, each
  under the name it has in the source, and the theorem that they have the outcome they expect for all
  addresses, times and hash functions.
\<close>

section \<open>Set-up\<close>

definition fresh_manager :: pause_manager where
  "fresh_manager = \<lparr>events = [], paused = Map.empty, operator = None, pending_operator = None\<rparr>"

definition pm_setup :: "env \<Rightarrow> (nat \<Rightarrow> address) \<Rightarrow> pause_manager outcome" where
  "pm_setup e gen = initialize_pm e (gen 0) fresh_manager"

section \<open>Pausing\<close>

definition test_initialize_sets_operator_and_unpaused :: "env \<Rightarrow> (nat \<Rightarrow> address) \<Rightarrow> unit outcome" where
  "test_initialize_sets_operator_and_unpaused e gen =
     and_then (initialize_pm e (gen 0) fresh_manager) (\<lambda>s.
     check (\<not> is_paused s))"

definition test_initialize_cannot_be_called_twice :: "env \<Rightarrow> (nat \<Rightarrow> address) \<Rightarrow> pause_manager outcome" where
  "test_initialize_cannot_be_called_twice e gen =
     and_then (initialize_pm e (gen 0) fresh_manager) (\<lambda>s.
     initialize_pm e (gen 0) s)"

definition test_pause_sets_paused_state :: "env \<Rightarrow> (nat \<Rightarrow> address) \<Rightarrow> unit outcome" where
  "test_pause_sets_paused_state e gen =
     and_then (pm_setup e gen) (\<lambda>s.
     and_then (pause e s) (\<lambda>s.
     check (is_paused s)))"

definition test_unpause_resumes_state :: "env \<Rightarrow> (nat \<Rightarrow> address) \<Rightarrow> unit outcome" where
  "test_unpause_resumes_state e gen =
     and_then (pm_setup e gen) (\<lambda>s.
     and_then (pause e s) (\<lambda>s.
     and_then (check (is_paused s)) (\<lambda>_.
     and_then (unpause e s) (\<lambda>s.
     check (\<not> is_paused s)))))"

definition test_can_pause_multiple_times :: "env \<Rightarrow> (nat \<Rightarrow> address) \<Rightarrow> unit outcome" where
  "test_can_pause_multiple_times e gen =
     and_then (pm_setup e gen) (\<lambda>s.
     and_then (pause e s) (\<lambda>s.
     and_then (check (is_paused s)) (\<lambda>_.
     and_then (pause e s) (\<lambda>s.
     check (is_paused s)))))"

definition test_unauthorized_pause_rejected :: "env \<Rightarrow> (nat \<Rightarrow> address) \<Rightarrow> pause_manager outcome" where
  "test_unauthorized_pause_rejected e gen =
     (let operator = gen 0; attacker = gen 1 in
     and_then (initialize_pm (signed_by operator e) operator fresh_manager) (\<lambda>s.
     pause (signed_by attacker e) s))"

definition test_unauthorized_unpause_rejected :: "env \<Rightarrow> (nat \<Rightarrow> address) \<Rightarrow> pause_manager outcome" where
  "test_unauthorized_unpause_rejected e gen =
     (let operator = gen 0; attacker = gen 1 in
     and_then (initialize_pm (signed_by operator e) operator fresh_manager) (\<lambda>s.
     and_then (pause (signed_by operator e) s) (\<lambda>s.
     unpause (signed_by attacker e) s)))"

definition test_is_paused_returns_false_when_not_initialized :: "unit outcome" where
  "test_is_paused_returns_false_when_not_initialized = check (\<not> is_paused fresh_manager)"

definition test_pause_panics_when_not_initialized :: "env \<Rightarrow> pause_manager outcome" where
  "test_pause_panics_when_not_initialized e = pause e fresh_manager"

section \<open>Rotation of the operator\<close>

definition test_propose_operator_rotation_creates_pending :: "env \<Rightarrow> (nat \<Rightarrow> address) \<Rightarrow> unit outcome" where
  "test_propose_operator_rotation_creates_pending e gen =
     (let operator = gen 0; new_op = gen 1 in
     and_then (initialize_pm e operator fresh_manager) (\<lambda>s.
     and_then (propose_operator_rotation e operator new_op s) (\<lambda>s.
     and_then (expect ''unwrap'' (get_pending_operator_rotation s)) (\<lambda>proposal.
     and_then (check (new_operator proposal = new_op)) (\<lambda>_.
     check (op_proposed_by proposal = operator))))))"

definition test_accept_operator_rotation_completes_transfer :: "env \<Rightarrow> (nat \<Rightarrow> address) \<Rightarrow> unit outcome" where
  "test_accept_operator_rotation_completes_transfer e gen =
     (let operator = gen 0; new_op = gen 1 in
     and_then (initialize_pm e operator fresh_manager) (\<lambda>s.
     and_then (propose_operator_rotation e operator new_op s) (\<lambda>s.
     and_then (accept_operator_rotation e new_op s) (\<lambda>s.
     and_then (pause e s) (\<lambda>s.
     check (is_paused s))))))"

definition test_cancel_operator_rotation_removes_pending :: "env \<Rightarrow> (nat \<Rightarrow> address) \<Rightarrow> unit outcome" where
  "test_cancel_operator_rotation_removes_pending e gen =
     (let operator = gen 0; new_op = gen 1 in
     and_then (initialize_pm e operator fresh_manager) (\<lambda>s.
     and_then (propose_operator_rotation e operator new_op s) (\<lambda>s.
     and_then (cancel_operator_rotation e operator s) (\<lambda>s.
     and_then (pause e s) (\<lambda>s.
     check (is_paused s))))))"

definition test_duplicate_operator_rotation_proposal_rejected :: "env \<Rightarrow> (nat \<Rightarrow> address) \<Rightarrow> pause_manager outcome" where
  "test_duplicate_operator_rotation_proposal_rejected e gen =
     (let operator = gen 0; new_op1 = gen 1; new_op2 = gen 2 in
     and_then (initialize_pm e operator fresh_manager) (\<lambda>s.
     and_then (propose_operator_rotation e operator new_op1 s) (\<lambda>s.
     propose_operator_rotation e operator new_op2 s)))"

definition test_cancel_operator_rotation_rejects_non_operator :: "env \<Rightarrow> (nat \<Rightarrow> address) \<Rightarrow> pause_manager outcome" where
  "test_cancel_operator_rotation_rejects_non_operator e gen =
     (let operator = gen 0; new_op = gen 1; attacker = gen 2 in
     and_then (initialize_pm e operator fresh_manager) (\<lambda>s.
     and_then (propose_operator_rotation e operator new_op s) (\<lambda>s.
     cancel_operator_rotation e attacker s)))"

definition test_cancel_operator_rotation_without_proposal_panics :: "env \<Rightarrow> (nat \<Rightarrow> address) \<Rightarrow> pause_manager outcome" where
  "test_cancel_operator_rotation_without_proposal_panics e gen =
     (let operator = gen 0 in
     and_then (initialize_pm e operator fresh_manager) (\<lambda>s.
     cancel_operator_rotation e operator s))"

definition test_accept_operator_rotation_without_proposal_panics :: "env \<Rightarrow> (nat \<Rightarrow> address) \<Rightarrow> pause_manager outcome" where
  "test_accept_operator_rotation_without_proposal_panics e gen =
     (let operator = gen 0; new_op = gen 1 in
     and_then (initialize_pm e operator fresh_manager) (\<lambda>s.
     accept_operator_rotation e new_op s))"

definition test_old_operator_cannot_pause_after_rotation_completed :: "env \<Rightarrow> (nat \<Rightarrow> address) \<Rightarrow> pause_manager outcome" where
  "test_old_operator_cannot_pause_after_rotation_completed e gen =
     (let old_op = gen 0; new_op = gen 1 in
     and_then (initialize_pm (signed_by old_op e) old_op fresh_manager) (\<lambda>s.
     and_then (propose_operator_rotation (signed_by old_op e) old_op new_op s) (\<lambda>s.
     and_then (accept_operator_rotation (signed_by new_op e) new_op s) (\<lambda>s.
     pause (signed_by old_op e) s))))"

definition test_old_operator_cannot_unpause_after_rotation_completed :: "env \<Rightarrow> (nat \<Rightarrow> address) \<Rightarrow> pause_manager outcome" where
  "test_old_operator_cannot_unpause_after_rotation_completed e gen =
     (let old_op = gen 0; new_op = gen 1 in
     and_then (initialize_pm e old_op fresh_manager) (\<lambda>s.
     and_then (propose_operator_rotation e old_op new_op s) (\<lambda>s.
     and_then (accept_operator_rotation e new_op s) (\<lambda>s.
     and_then (pause e s) (\<lambda>s.
     unpause (signed_by old_op e) s)))))"

definition test_old_operator_cannot_propose_new_rotation_after_being_replaced :: "env \<Rightarrow> (nat \<Rightarrow> address) \<Rightarrow> pause_manager outcome" where
  "test_old_operator_cannot_propose_new_rotation_after_being_replaced e gen =
     (let old_op = gen 0; new_op = gen 1; another_op = gen 2 in
     and_then (initialize_pm e old_op fresh_manager) (\<lambda>s.
     and_then (propose_operator_rotation e old_op new_op s) (\<lambda>s.
     and_then (accept_operator_rotation e new_op s) (\<lambda>s.
     propose_operator_rotation e old_op another_op s))))"

definition test_old_operator_cannot_cancel_after_rotation_completed :: "env \<Rightarrow> (nat \<Rightarrow> address) \<Rightarrow> pause_manager outcome" where
  "test_old_operator_cannot_cancel_after_rotation_completed e gen =
     (let old_op = gen 0; new_op = gen 1 in
     and_then (initialize_pm e old_op fresh_manager) (\<lambda>s.
     and_then (propose_operator_rotation e old_op new_op s) (\<lambda>s.
     and_then (accept_operator_rotation e new_op s) (\<lambda>s.
     cancel_operator_rotation e old_op s))))"

definition test_new_operator_retains_full_control_and_can_start_next_rotation :: "env \<Rightarrow> (nat \<Rightarrow> address) \<Rightarrow> unit outcome" where
  "test_new_operator_retains_full_control_and_can_start_next_rotation e gen =
     (let op_1 = gen 0; op_2 = gen 1; op_3 = gen 2 in
     and_then (initialize_pm e op_1 fresh_manager) (\<lambda>s.
     and_then (propose_operator_rotation e op_1 op_2 s) (\<lambda>s.
     and_then (accept_operator_rotation e op_2 s) (\<lambda>s.
     and_then (pause e s) (\<lambda>s.
     and_then (check (is_paused s)) (\<lambda>_.
     and_then (unpause e s) (\<lambda>s.
     and_then (check (\<not> is_paused s)) (\<lambda>_.
     and_then (propose_operator_rotation e op_2 op_3 s) (\<lambda>s.
     and_then (expect ''unwrap'' (get_pending_operator_rotation s)) (\<lambda>proposal.
     and_then (check (new_operator proposal = op_3)) (\<lambda>_.
     check (op_proposed_by proposal = op_2))))))))))))"

section \<open>Categories\<close>

text \<open>The four assertions on a status that the tests write out.\<close>

definition check_status :: "bool \<Rightarrow> bool \<Rightarrow> bool \<Rightarrow> bool \<Rightarrow> pause_manager \<Rightarrow> unit outcome" where
  "check_status pay tre aud adm s =
     (let status = get_pause_status s in
     and_then (check (payroll_paused status = pay)) (\<lambda>_.
     and_then (check (treasury_paused status = tre)) (\<lambda>_.
     and_then (check (audit_paused status = aud)) (\<lambda>_.
     check (admin_paused status = adm)))))"

definition test_initialize_sets_all_categories_unpaused :: "env \<Rightarrow> (nat \<Rightarrow> address) \<Rightarrow> unit outcome" where
  "test_initialize_sets_all_categories_unpaused e gen =
     and_then (initialize_pm e (gen 0) fresh_manager) (\<lambda>s.
     check_status False False False False s)"

definition test_pause_category_sets_specific_category :: "env \<Rightarrow> (nat \<Rightarrow> address) \<Rightarrow> unit outcome" where
  "test_pause_category_sets_specific_category e gen =
     and_then (pm_setup e gen) (\<lambda>s.
     and_then (pause_category e Payroll s) (\<lambda>s.
     check_status True False False False s))"

definition test_unpause_category_resumes_specific_category :: "env \<Rightarrow> (nat \<Rightarrow> address) \<Rightarrow> unit outcome" where
  "test_unpause_category_resumes_specific_category e gen =
     and_then (pm_setup e gen) (\<lambda>s.
     and_then (pause_category e Treasury s) (\<lambda>s.
     and_then (check (treasury_paused (get_pause_status s))) (\<lambda>_.
     and_then (unpause_category e Treasury s) (\<lambda>s.
     check (\<not> treasury_paused (get_pause_status s))))))"

definition test_is_category_paused_returns_correct_state :: "env \<Rightarrow> (nat \<Rightarrow> address) \<Rightarrow> unit outcome" where
  "test_is_category_paused_returns_correct_state e gen =
     and_then (pm_setup e gen) (\<lambda>s.
     and_then (check (\<not> is_category_paused s Audit)) (\<lambda>_.
     and_then (pause_category e Audit s) (\<lambda>s.
     and_then (check (is_category_paused s Audit)) (\<lambda>_.
     and_then (unpause_category e Audit s) (\<lambda>s.
     check (\<not> is_category_paused s Audit))))))"

definition test_global_pause_affects_all_categories :: "env \<Rightarrow> (nat \<Rightarrow> address) \<Rightarrow> unit outcome" where
  "test_global_pause_affects_all_categories e gen =
     and_then (pm_setup e gen) (\<lambda>s.
     and_then (pause e s) (\<lambda>s.
     and_then (check_status True True True True s) (\<lambda>_.
     check (is_paused s))))"

definition test_global_unpause_resumes_all_categories :: "env \<Rightarrow> (nat \<Rightarrow> address) \<Rightarrow> unit outcome" where
  "test_global_unpause_resumes_all_categories e gen =
     and_then (pm_setup e gen) (\<lambda>s.
     and_then (pause e s) (\<lambda>s.
     and_then (check (is_paused s)) (\<lambda>_.
     and_then (unpause e s) (\<lambda>s.
     and_then (check_status False False False False s) (\<lambda>_.
     check (\<not> is_paused s))))))"

definition test_mixed_category_pause_states :: "env \<Rightarrow> (nat \<Rightarrow> address) \<Rightarrow> unit outcome" where
  "test_mixed_category_pause_states e gen =
     and_then (pm_setup e gen) (\<lambda>s.
     and_then (pause_category e Payroll s) (\<lambda>s.
     and_then (pause_category e Treasury s) (\<lambda>s.
     and_then (check_status True True False False s) (\<lambda>_.
     and_then (check (is_paused s)) (\<lambda>_.
     and_then (unpause_category e Payroll s) (\<lambda>s.
     and_then (check_status False True False False s) (\<lambda>_.
     and_then (check (is_paused s)) (\<lambda>_.
     and_then (unpause_category e Treasury s) (\<lambda>s.
     and_then (check_status False False False False s) (\<lambda>_.
     check (\<not> is_paused s)))))))))))"

definition test_unauthorized_pause_category_rejected :: "env \<Rightarrow> (nat \<Rightarrow> address) \<Rightarrow> pause_manager outcome" where
  "test_unauthorized_pause_category_rejected e gen =
     (let operator = gen 0; attacker = gen 1 in
     and_then (initialize_pm (signed_by operator e) operator fresh_manager) (\<lambda>s.
     pause_category (signed_by attacker e) Payroll s))"

definition test_unauthorized_unpause_category_rejected :: "env \<Rightarrow> (nat \<Rightarrow> address) \<Rightarrow> pause_manager outcome" where
  "test_unauthorized_unpause_category_rejected e gen =
     (let operator = gen 0; attacker = gen 1 in
     and_then (initialize_pm (signed_by operator e) operator fresh_manager) (\<lambda>s.
     and_then (pause_category (signed_by operator e) Admin s) (\<lambda>s.
     unpause_category (signed_by attacker e) Admin s)))"

definition test_pause_category_panics_when_not_initialized :: "env \<Rightarrow> pause_manager outcome" where
  "test_pause_category_panics_when_not_initialized e = pause_category e Payroll fresh_manager"

definition test_get_pause_status_without_initialization :: "unit outcome" where
  "test_get_pause_status_without_initialization = check_status False False False False fresh_manager"

section \<open>Outcomes\<close>

lemmas pm_test_steps = pm_defs pm_setup_def fresh_manager_def all_categories_def is_paused_def is_category_paused_def
  get_pause_status_def get_pending_operator_rotation_def check_status_def category_symbol_def emits publish_def Let_def

lemma pause_tests_pass:
  assumes "mocked e" "inj gen"
  shows "test_initialize_sets_operator_and_unpaused e gen = Inr ()"
    "should_panic ''Already initialized'' (test_initialize_cannot_be_called_twice e gen)"
    "test_pause_sets_paused_state e gen = Inr ()"
    "test_unpause_resumes_state e gen = Inr ()"
    "test_can_pause_multiple_times e gen = Inr ()"
    "should_panic ''authorized'' (test_unauthorized_pause_rejected e gen)"
    "should_panic ''authorized'' (test_unauthorized_unpause_rejected e gen)"
    "test_is_paused_returns_false_when_not_initialized = Inr ()"
    "should_panic ''Not initialized'' (test_pause_panics_when_not_initialized e)"
  using assms
  by (simp_all add: test_initialize_sets_operator_and_unpaused_def test_initialize_cannot_be_called_twice_def
      test_pause_sets_paused_state_def test_unpause_resumes_state_def test_can_pause_multiple_times_def
      test_unauthorized_pause_rejected_def test_unauthorized_unpause_rejected_def
      test_is_paused_returns_false_when_not_initialized_def test_pause_panics_when_not_initialized_def pm_test_steps inj_eq)

lemma operator_tests_pass:
  assumes "mocked e" "inj gen"
  shows "test_propose_operator_rotation_creates_pending e gen = Inr ()"
    "test_accept_operator_rotation_completes_transfer e gen = Inr ()"
    "test_cancel_operator_rotation_removes_pending e gen = Inr ()"
    "should_panic ''A pending operator rotation already exists'' (test_duplicate_operator_rotation_proposal_rejected e gen)"
    "should_panic ''Unauthorized'' (test_cancel_operator_rotation_rejects_non_operator e gen)"
    "should_panic ''No pending operator rotation to cancel'' (test_cancel_operator_rotation_without_proposal_panics e gen)"
    "should_panic ''No pending operator rotation'' (test_accept_operator_rotation_without_proposal_panics e gen)"
    "should_panic ''authorized'' (test_old_operator_cannot_pause_after_rotation_completed e gen)"
    "should_panic ''authorized'' (test_old_operator_cannot_unpause_after_rotation_completed e gen)"
    "should_panic ''Unauthorized: caller is not the current operator'' (test_old_operator_cannot_propose_new_rotation_after_being_replaced e gen)"
    "should_panic ''Unauthorized'' (test_old_operator_cannot_cancel_after_rotation_completed e gen)"
    "test_new_operator_retains_full_control_and_can_start_next_rotation e gen = Inr ()"
  using assms
  by (simp_all add: test_propose_operator_rotation_creates_pending_def test_accept_operator_rotation_completes_transfer_def
      test_cancel_operator_rotation_removes_pending_def test_duplicate_operator_rotation_proposal_rejected_def
      test_cancel_operator_rotation_rejects_non_operator_def test_cancel_operator_rotation_without_proposal_panics_def
      test_accept_operator_rotation_without_proposal_panics_def test_old_operator_cannot_pause_after_rotation_completed_def
      test_old_operator_cannot_unpause_after_rotation_completed_def
      test_old_operator_cannot_propose_new_rotation_after_being_replaced_def
      test_old_operator_cannot_cancel_after_rotation_completed_def
      test_new_operator_retains_full_control_and_can_start_next_rotation_def pm_test_steps inj_eq)

lemma category_tests_pass:
  assumes "mocked e" "inj gen"
  shows "test_initialize_sets_all_categories_unpaused e gen = Inr ()"
    "test_pause_category_sets_specific_category e gen = Inr ()"
    "test_unpause_category_resumes_specific_category e gen = Inr ()"
    "test_is_category_paused_returns_correct_state e gen = Inr ()"
    "test_global_pause_affects_all_categories e gen = Inr ()"
    "test_global_unpause_resumes_all_categories e gen = Inr ()"
    "test_mixed_category_pause_states e gen = Inr ()"
    "should_panic ''authorized'' (test_unauthorized_pause_category_rejected e gen)"
    "should_panic ''authorized'' (test_unauthorized_unpause_category_rejected e gen)"
    "should_panic ''Not initialized'' (test_pause_category_panics_when_not_initialized e)"
    "test_get_pause_status_without_initialization = Inr ()"
  using assms
  by (simp_all add: test_initialize_sets_all_categories_unpaused_def test_pause_category_sets_specific_category_def
      test_unpause_category_resumes_specific_category_def test_is_category_paused_returns_correct_state_def
      test_global_pause_affects_all_categories_def test_global_unpause_resumes_all_categories_def test_mixed_category_pause_states_def
      test_unauthorized_pause_category_rejected_def test_unauthorized_unpause_category_rejected_def
      test_pause_category_panics_when_not_initialized_def test_get_pause_status_without_initialization_def pm_test_steps inj_eq)

end
