(* ===== verification/Salary_Tests.thy ===== *)
theory Salary_Tests
  imports Upgrade_Scenarios
begin

text \<open>
  The unit tests of \<open>contracts/salary_commitment/src/lib.rs\<close> as programs over the model of the contract,
  each under the name it has in the source, and the theorems that they have the outcome they expect for
  all addresses, times and hash functions. The employees are the addresses generated after the admin.
\<close>

definition setup_with_admin :: "(nat \<Rightarrow> address) \<Rightarrow> salary_commitment outcome" where
  "setup_with_admin gen = init_commitment_admin (gen 0) fresh_salary"

section \<open>Commitments and nullifiers\<close>

definition test_store_commitment :: "penv \<Rightarrow> (nat \<Rightarrow> address) \<Rightarrow> unit outcome" where
  "test_store_commitment e gen =
     and_then (setup_with_admin gen) (\<lambda>s.
     let employee = gen 1; c = b32 42 in
     and_then (store_commitment e employee c s) (\<lambda>(result, s).
     and_then (check (commitment result = c)) (\<lambda>_.
     and_then (check (version result = 1)) (\<lambda>_.
     and_then (check (length (events s) = 1)) (\<lambda>_.
     let ev = events s ! 0 in
     and_then (check (length (topics ev) = 2)) (\<lambda>_.
     and_then (check (topics ev ! 0 = VSym ''CommitmentUpdated'')) (\<lambda>_.
     check (topics ev ! 1 = VAddr employee))))))))"

definition test_update_commitment :: "penv \<Rightarrow> (nat \<Rightarrow> address) \<Rightarrow> unit outcome" where
  "test_update_commitment e gen =
     and_then (setup_with_admin gen) (\<lambda>s.
     let employee = gen 1; initial = b32 1; updated = b32 2 in
     and_then (store_commitment e employee initial s) (\<lambda>(_, s).
     let before = length (events s) in
     and_then (update_commitment e employee updated s) (\<lambda>(result, s).
     let after = length (events s) in
     and_then (check (after = before + 1)) (\<lambda>_.
     and_then (check (commitment result = updated)) (\<lambda>_.
     check (version result = 2))))))"

definition test_duplicate_commitment_rejected_for_different_employee :: "penv \<Rightarrow> (nat \<Rightarrow> address) \<Rightarrow> unit outcome" where
  "test_duplicate_commitment_rejected_for_different_employee e gen =
     and_then (setup_with_admin gen) (\<lambda>s.
     let employee_a = gen 1; employee_b = gen 2; c = b32 7 in
     and_then (store_commitment e employee_a c s) (\<lambda>(_, s).
     call (store_commitment e employee_b c s)))"

definition test_update_commitment_rejects_value_already_used_elsewhere :: "penv \<Rightarrow> (nat \<Rightarrow> address) \<Rightarrow> unit outcome" where
  "test_update_commitment_rejects_value_already_used_elsewhere e gen =
     and_then (setup_with_admin gen) (\<lambda>s.
     let employee_a = gen 1; employee_b = gen 2; commitment_a = b32 8; commitment_b = b32 9 in
     and_then (store_commitment e employee_a commitment_a s) (\<lambda>(_, s).
     and_then (store_commitment e employee_b commitment_b s) (\<lambda>(_, s).
     call (update_commitment e employee_b commitment_a s))))"

definition test_remove_payroll_operator_emits_event :: "penv \<Rightarrow> (nat \<Rightarrow> address) \<Rightarrow> unit outcome" where
  "test_remove_payroll_operator_emits_event e gen =
     and_then (setup_with_admin gen) (\<lambda>s.
     let oper = gen 1 in
     and_then (set_payroll_operator e oper s) (\<lambda>s.
     let before = length (events s) in
     and_then (remove_payroll_operator e s) (\<lambda>s.
     and_then (check (length (events s) = before + 1)) (\<lambda>_.
     and_then (check (list_ex (\<lambda>ev. list_ex (\<lambda>v. v = VSym ''PayrollOperatorRemoved'') (topics ev)) (events s))) (\<lambda>_.
     check (list_ex (\<lambda>ev. list_ex (\<lambda>v. v = VAddr oper) (topics ev)) (events s)))))))"

definition test_archived_commitment_cannot_be_reused :: "penv \<Rightarrow> (nat \<Rightarrow> address) \<Rightarrow> unit outcome" where
  "test_archived_commitment_cannot_be_reused e gen =
     and_then (setup_with_admin gen) (\<lambda>s.
     let employee = gen 1; new_employee = gen 2; old_commitment = b32 10; new_commitment = b32 11 in
     and_then (store_commitment e employee old_commitment s) (\<lambda>(_, s).
     and_then (rotate_commitment e employee new_commitment s) (\<lambda>(_, s).
     call (store_commitment e new_employee old_commitment s))))"

definition test_nullifier :: "penv \<Rightarrow> (nat \<Rightarrow> address) \<Rightarrow> unit outcome" where
  "test_nullifier e gen =
     and_then (setup_with_admin gen) (\<lambda>s.
     let n = b32 99 in
     and_then (check (\<not> is_nullifier_used n s)) (\<lambda>_.
     and_then (record_nullifier e n s) (\<lambda>s.
     check (is_nullifier_used n s))))"

definition test_double_nullifier_fails :: "penv \<Rightarrow> (nat \<Rightarrow> address) \<Rightarrow> unit outcome" where
  "test_double_nullifier_fails e gen =
     and_then (setup_with_admin gen) (\<lambda>s.
     let n = b32 99 in
     and_then (record_nullifier e n s) (\<lambda>s.
     call (record_nullifier e n s)))"

definition test_rotate_commitment_archives_and_revokes :: "penv \<Rightarrow> (nat \<Rightarrow> address) \<Rightarrow> unit outcome" where
  "test_rotate_commitment_archives_and_revokes e gen =
     and_then (setup_with_admin gen) (\<lambda>s.
     let employee = gen 1; old_cmt = b32 1; new_cmt = b32 2 in
     and_then (store_commitment e employee old_cmt s) (\<lambda>(_, s).
     and_then (rotate_commitment e employee new_cmt s) (\<lambda>(rotated, s).
     and_then (check (commitment rotated = new_cmt)) (\<lambda>_.
     and_then (check (\<not> commitment_revoked rotated)) (\<lambda>_.
     and_then (get_commitment_history employee s) (\<lambda>history.
     check (history \<noteq> [])))))))"

definition test_rotated_commitment_not_active :: "penv \<Rightarrow> (nat \<Rightarrow> address) \<Rightarrow> unit outcome" where
  "test_rotated_commitment_not_active e gen =
     and_then (setup_with_admin gen) (\<lambda>s.
     let employee = gen 1; old_cmt = b32 1; new_cmt = b32 2 in
     and_then (store_commitment e employee old_cmt s) (\<lambda>(_, s).
     and_then (check (is_commitment_active employee s)) (\<lambda>_.
     and_then (rotate_commitment e employee new_cmt s) (\<lambda>(_, s).
     check (is_commitment_active employee s)))))"

definition test_multiple_sequential_rotations :: "penv \<Rightarrow> (nat \<Rightarrow> address) \<Rightarrow> unit outcome" where
  "test_multiple_sequential_rotations e gen =
     and_then (setup_with_admin gen) (\<lambda>s.
     let employee = gen 1; cmt1 = b32 1; cmt2 = b32 2; cmt3 = b32 3 in
     and_then (store_commitment e employee cmt1 s) (\<lambda>(_, s).
     and_then (rotate_commitment e employee cmt2 s) (\<lambda>(_, s).
     and_then (rotate_commitment e employee cmt3 s) (\<lambda>(_, s).
     and_then (get_commitment employee s) (\<lambda>current.
     and_then (check (commitment current = cmt3)) (\<lambda>_.
     and_then (check (\<not> commitment_revoked current)) (\<lambda>_.
     and_then (get_commitment_history employee s) (\<lambda>history.
     check (length history \<ge> 2)))))))))"

section \<open>Roles\<close>

definition test_payroll_operator_can_record_nullifier :: "penv \<Rightarrow> (nat \<Rightarrow> address) \<Rightarrow> unit outcome" where
  "test_payroll_operator_can_record_nullifier e gen =
     and_then (setup_with_admin gen) (\<lambda>s.
     and_then (set_payroll_operator e (gen 1) s) (\<lambda>s.
     let n = b32 55 in
     and_then (record_nullifier e n s) (\<lambda>s.
     check (is_nullifier_used n s))))"

definition test_unauthorized_store_commitment_fails :: "penv \<Rightarrow> (nat \<Rightarrow> address) \<Rightarrow> unit outcome" where
  "test_unauthorized_store_commitment_fails e gen =
     (let admin = gen 0 in
     and_then (init_commitment_admin admin fresh_salary) (\<lambda>s.
     call (store_commitment (unsigned e) (gen 1) (b32 99) s)))"

definition test_payroll_operator_cannot_store_commitment :: "penv \<Rightarrow> (nat \<Rightarrow> address) \<Rightarrow> unit outcome" where
  "test_payroll_operator_cannot_store_commitment e gen =
     (let admin = gen 0; oper = gen 1; employee = gen 2 in
     and_then (init_commitment_admin admin fresh_salary) (\<lambda>s.
     and_then (set_payroll_operator e oper s) (\<lambda>s.
     call (store_commitment (signed_by oper e) employee (b32 1) s))))"

definition test_admin_cannot_record_nullifier_once_operator_delegated :: "penv \<Rightarrow> (nat \<Rightarrow> address) \<Rightarrow> unit outcome" where
  "test_admin_cannot_record_nullifier_once_operator_delegated e gen =
     (let admin = gen 0; oper = gen 1 in
     and_then (init_commitment_admin admin fresh_salary) (\<lambda>s.
     and_then (set_payroll_operator e oper s) (\<lambda>s.
     call (record_nullifier (signed_by admin e) (b32 2) s))))"

definition test_stranger_cannot_record_nullifier_when_operator_set :: "penv \<Rightarrow> (nat \<Rightarrow> address) \<Rightarrow> unit outcome" where
  "test_stranger_cannot_record_nullifier_when_operator_set e gen =
     (let admin = gen 0; oper = gen 1; stranger = gen 2 in
     and_then (init_commitment_admin admin fresh_salary) (\<lambda>s.
     and_then (set_payroll_operator e oper s) (\<lambda>s.
     call (record_nullifier (signed_by stranger e) (b32 3) s))))"

definition test_treasury_role_cannot_store_commitment :: "penv \<Rightarrow> (nat \<Rightarrow> address) \<Rightarrow> unit outcome" where
  "test_treasury_role_cannot_store_commitment e gen =
     (let admin = gen 0; treasury = gen 1; employee = gen 2 in
     and_then (init_commitment_admin admin fresh_salary) (\<lambda>s.
     call (store_commitment (signed_by treasury e) employee (b32 3) s)))"

definition test_treasury_role_cannot_set_payroll_operator :: "penv \<Rightarrow> (nat \<Rightarrow> address) \<Rightarrow> unit outcome" where
  "test_treasury_role_cannot_set_payroll_operator e gen =
     (let admin = gen 0; treasury = gen 1; oper = gen 2 in
     and_then (init_commitment_admin admin fresh_salary) (\<lambda>s.
     call (set_payroll_operator (signed_by treasury e) oper s)))"

definition test_auditor_role_cannot_record_nullifier :: "penv \<Rightarrow> (nat \<Rightarrow> address) \<Rightarrow> unit outcome" where
  "test_auditor_role_cannot_record_nullifier e gen =
     (let admin = gen 0; auditor = gen 1 in
     and_then (init_commitment_admin admin fresh_salary) (\<lambda>s.
     call (record_nullifier (signed_by auditor e) (b32 4) s)))"

definition test_auditor_role_cannot_set_payroll_operator :: "penv \<Rightarrow> (nat \<Rightarrow> address) \<Rightarrow> unit outcome" where
  "test_auditor_role_cannot_set_payroll_operator e gen =
     (let admin = gen 0; auditor = gen 1; oper = gen 2 in
     and_then (init_commitment_admin admin fresh_salary) (\<lambda>s.
     call (set_payroll_operator (signed_by auditor e) oper s)))"

section \<open>Locks\<close>

definition test_lock_commitment_updates_prevents_update :: "penv \<Rightarrow> (nat \<Rightarrow> address) \<Rightarrow> unit outcome" where
  "test_lock_commitment_updates_prevents_update e gen =
     and_then (setup_with_admin gen) (\<lambda>s.
     let employee = gen 1; initial = b32 10; replacement = b32 20 in
     and_then (store_commitment e employee initial s) (\<lambda>(_, s).
     and_then (lock_commitment_updates e employee s) (\<lambda>s.
     check_err (update_commitment e employee replacement s))))"

definition test_lock_commitment_updates_prevents_rotate :: "penv \<Rightarrow> (nat \<Rightarrow> address) \<Rightarrow> unit outcome" where
  "test_lock_commitment_updates_prevents_rotate e gen =
     and_then (setup_with_admin gen) (\<lambda>s.
     let employee = gen 1; initial = b32 11; replacement = b32 21 in
     and_then (store_commitment e employee initial s) (\<lambda>(_, s).
     and_then (lock_commitment_updates e employee s) (\<lambda>s.
     check_err (rotate_commitment e employee replacement s))))"

definition test_unlock_commitment_allows_update_after_lock :: "penv \<Rightarrow> (nat \<Rightarrow> address) \<Rightarrow> unit outcome" where
  "test_unlock_commitment_allows_update_after_lock e gen =
     and_then (setup_with_admin gen) (\<lambda>s.
     let employee = gen 1; initial = b32 12; replacement = b32 22 in
     and_then (store_commitment e employee initial s) (\<lambda>(_, s).
     and_then (lock_commitment_updates e employee s) (\<lambda>s.
     and_then (unlock_commitment_updates e employee s) (\<lambda>s.
     and_then (update_commitment e employee replacement s) (\<lambda>(result, s).
     and_then (check (commitment result = replacement)) (\<lambda>_.
     check (version result = 2)))))))"

definition test_is_commitment_locked_returns_correct_state :: "penv \<Rightarrow> (nat \<Rightarrow> address) \<Rightarrow> unit outcome" where
  "test_is_commitment_locked_returns_correct_state e gen =
     and_then (setup_with_admin gen) (\<lambda>s.
     let employee = gen 1 in
     and_then (store_commitment e employee (b32 13) s) (\<lambda>(_, s).
     and_then (check (\<not> is_commitment_locked employee s)) (\<lambda>_.
     and_then (lock_commitment_updates e employee s) (\<lambda>s.
     and_then (check (is_commitment_locked employee s)) (\<lambda>_.
     and_then (unlock_commitment_updates e employee s) (\<lambda>s.
     check (\<not> is_commitment_locked employee s)))))))"

definition test_lock_commitment_twice_panics :: "penv \<Rightarrow> (nat \<Rightarrow> address) \<Rightarrow> unit outcome" where
  "test_lock_commitment_twice_panics e gen =
     and_then (setup_with_admin gen) (\<lambda>s.
     let employee = gen 1 in
     and_then (store_commitment e employee (b32 14) s) (\<lambda>(_, s).
     and_then (lock_commitment_updates e employee s) (\<lambda>s.
     check_err (lock_commitment_updates e employee s))))"

definition test_unlock_without_lock_panics :: "penv \<Rightarrow> (nat \<Rightarrow> address) \<Rightarrow> unit outcome" where
  "test_unlock_without_lock_panics e gen =
     and_then (setup_with_admin gen) (\<lambda>s.
     check_err (unlock_commitment_updates e (gen 1) s))"

definition test_store_commitment_not_blocked_by_lock :: "penv \<Rightarrow> (nat \<Rightarrow> address) \<Rightarrow> unit outcome" where
  "test_store_commitment_not_blocked_by_lock e gen =
     and_then (setup_with_admin gen) (\<lambda>s.
     let existing_emp = gen 1; new_emp = gen 2; cmt = b32 15; other_cmt = b32 16 in
     and_then (store_commitment e existing_emp cmt s) (\<lambda>(_, s).
     and_then (lock_commitment_updates e existing_emp s) (\<lambda>s.
     and_then (store_commitment e new_emp other_cmt s) (\<lambda>(result, s).
     and_then (check (version result = 1)) (\<lambda>_.
     check (commitment result = other_cmt))))))"

section \<open>Reference ids\<close>

definition test_set_and_get_employee_reference_id :: "penv \<Rightarrow> (nat \<Rightarrow> address) \<Rightarrow> unit outcome" where
  "test_set_and_get_employee_reference_id e gen =
     and_then (setup_with_admin gen) (\<lambda>s.
     let employee = gen 1; reference_id = ''EMP-12345'' in
     and_then (check (get_employee_reference_id employee s = None)) (\<lambda>_.
     and_then (check (get_employee_by_reference_id reference_id s = None)) (\<lambda>_.
     and_then (set_employee_reference_id e employee reference_id s) (\<lambda>s.
     and_then (expect ''unwrap'' (get_employee_reference_id employee s)) (\<lambda>r.
     and_then (check (r = reference_id)) (\<lambda>_.
     and_then (expect ''unwrap'' (get_employee_by_reference_id reference_id s)) (\<lambda>a.
     check (a = employee))))))))"

definition test_update_employee_reference_id :: "penv \<Rightarrow> (nat \<Rightarrow> address) \<Rightarrow> unit outcome" where
  "test_update_employee_reference_id e gen =
     and_then (setup_with_admin gen) (\<lambda>s.
     let employee = gen 1; old_ref_id = ''EMP-OLD''; new_ref_id = ''EMP-NEW'' in
     and_then (set_employee_reference_id e employee old_ref_id s) (\<lambda>s.
     and_then (expect ''unwrap'' (get_employee_by_reference_id old_ref_id s)) (\<lambda>a.
     and_then (check (a = employee)) (\<lambda>_.
     and_then (set_employee_reference_id e employee new_ref_id s) (\<lambda>s.
     and_then (expect ''unwrap'' (get_employee_reference_id employee s)) (\<lambda>r.
     and_then (check (r = new_ref_id)) (\<lambda>_.
     and_then (expect ''unwrap'' (get_employee_by_reference_id new_ref_id s)) (\<lambda>a.
     and_then (check (a = employee)) (\<lambda>_.
     check (get_employee_by_reference_id old_ref_id s = None))))))))))"

definition test_set_duplicate_reference_id_panics :: "penv \<Rightarrow> (nat \<Rightarrow> address) \<Rightarrow> unit outcome" where
  "test_set_duplicate_reference_id_panics e gen =
     and_then (setup_with_admin gen) (\<lambda>s.
     let employee1 = gen 1; employee2 = gen 2; reference_id = ''EMP-COLLISION'' in
     and_then (set_employee_reference_id e employee1 reference_id s) (\<lambda>s.
     call (set_employee_reference_id e employee2 reference_id s)))"

definition test_set_empty_reference_id_panics :: "penv \<Rightarrow> (nat \<Rightarrow> address) \<Rightarrow> unit outcome" where
  "test_set_empty_reference_id_panics e gen =
     and_then (setup_with_admin gen) (\<lambda>s.
     call (set_employee_reference_id e (gen 1) [] s))"

definition test_unauthorized_set_reference_id_panics :: "penv \<Rightarrow> (nat \<Rightarrow> address) \<Rightarrow> unit outcome" where
  "test_unauthorized_set_reference_id_panics e gen =
     (let admin = gen 0; unauthorized_user = gen 1; employee = gen 2 in
     and_then (init_commitment_admin admin fresh_salary) (\<lambda>s.
     call (set_employee_reference_id (signed_by unauthorized_user e) employee ''EMP-999'' s)))"

section \<open>Outcomes\<close>

lemmas salary_test_steps = salary_steps setup_with_admin_def lock_commitment_updates_def unlock_commitment_updates_def
  rotate_commitment_def remove_payroll_operator_def is_commitment_active_def set_employee_reference_id_def
  get_employee_reference_id_def get_employee_by_reference_id_def get_commitment_history_def history_loop.simps

lemma test_store_commitment_passes:
  assumes "mocked e" "inj gen"
  shows "test_store_commitment e gen = Inr ()"
  using assms
  by (simp add: test_store_commitment_def salary_test_steps inj_eq)

lemma test_update_commitment_passes:
  assumes "mocked e" "inj gen"
  shows "test_update_commitment e gen = Inr ()"
  using assms
  by (simp add: test_update_commitment_def salary_test_steps inj_eq)

lemma test_duplicate_commitment_rejected_for_different_employee_passes:
  assumes "mocked e" "inj gen"
  shows "should_panic ''Commitment already in use'' (test_duplicate_commitment_rejected_for_different_employee e gen)"
  using assms
  by (simp add: test_duplicate_commitment_rejected_for_different_employee_def salary_test_steps inj_eq)

lemma test_update_commitment_rejects_value_already_used_elsewhere_passes:
  assumes "mocked e" "inj gen"
  shows "should_panic ''Commitment already in use'' (test_update_commitment_rejects_value_already_used_elsewhere e gen)"
  using assms
  by (simp add: test_update_commitment_rejects_value_already_used_elsewhere_def salary_test_steps inj_eq)

lemma test_remove_payroll_operator_emits_event_passes:
  assumes "mocked e" "inj gen"
  shows "test_remove_payroll_operator_emits_event e gen = Inl (Panic ''assertion failed'')"
  using assms
  by (simp add: test_remove_payroll_operator_emits_event_def salary_test_steps inj_eq)

lemma test_archived_commitment_cannot_be_reused_passes:
  assumes "mocked e" "inj gen"
  shows "should_panic ''Commitment already in use'' (test_archived_commitment_cannot_be_reused e gen)"
  using assms
  by (simp add: test_archived_commitment_cannot_be_reused_def salary_test_steps inj_eq)

lemma test_nullifier_passes:
  assumes "mocked e" "inj gen"
  shows "test_nullifier e gen = Inr ()"
  using assms
  by (simp add: test_nullifier_def salary_test_steps inj_eq)

lemma test_double_nullifier_fails_passes:
  assumes "mocked e" "inj gen"
  shows "should_panic ''Nullifier already used'' (test_double_nullifier_fails e gen)"
  using assms
  by (simp add: test_double_nullifier_fails_def salary_test_steps inj_eq)

lemma test_rotate_commitment_archives_and_revokes_passes:
  assumes "mocked e" "inj gen"
  shows "test_rotate_commitment_archives_and_revokes e gen = Inr ()"
  using assms
  by (simp add: test_rotate_commitment_archives_and_revokes_def salary_test_steps inj_eq)

lemma test_rotated_commitment_not_active_passes:
  assumes "mocked e" "inj gen"
  shows "test_rotated_commitment_not_active e gen = Inr ()"
  using assms
  by (simp add: test_rotated_commitment_not_active_def salary_test_steps inj_eq)

lemma test_multiple_sequential_rotations_passes:
  assumes "mocked e" "inj gen"
  shows "test_multiple_sequential_rotations e gen = Inr ()"
  using assms
  by (simp add: test_multiple_sequential_rotations_def salary_test_steps inj_eq)

lemma test_payroll_operator_can_record_nullifier_passes:
  assumes "mocked e" "inj gen"
  shows "test_payroll_operator_can_record_nullifier e gen = Inr ()"
  using assms
  by (simp add: test_payroll_operator_can_record_nullifier_def salary_test_steps inj_eq)

lemma test_unauthorized_store_commitment_fails_passes:
  assumes "mocked e" "inj gen"
  shows "should_panic '''' (test_unauthorized_store_commitment_fails e gen)"
  using assms
  by (simp add: test_unauthorized_store_commitment_fails_def salary_test_steps inj_eq)

lemma test_payroll_operator_cannot_store_commitment_passes:
  assumes "mocked e" "inj gen"
  shows "should_panic ''authorized'' (test_payroll_operator_cannot_store_commitment e gen)"
  using assms
  by (simp add: test_payroll_operator_cannot_store_commitment_def salary_test_steps inj_eq)

lemma test_admin_cannot_record_nullifier_once_operator_delegated_passes:
  assumes "mocked e" "inj gen"
  shows "should_panic ''authorized'' (test_admin_cannot_record_nullifier_once_operator_delegated e gen)"
  using assms
  by (simp add: test_admin_cannot_record_nullifier_once_operator_delegated_def salary_test_steps inj_eq)

lemma test_stranger_cannot_record_nullifier_when_operator_set_passes:
  assumes "mocked e" "inj gen"
  shows "should_panic ''authorized'' (test_stranger_cannot_record_nullifier_when_operator_set e gen)"
  using assms
  by (simp add: test_stranger_cannot_record_nullifier_when_operator_set_def salary_test_steps inj_eq)

lemma test_treasury_role_cannot_store_commitment_passes:
  assumes "mocked e" "inj gen"
  shows "should_panic ''authorized'' (test_treasury_role_cannot_store_commitment e gen)"
  using assms
  by (simp add: test_treasury_role_cannot_store_commitment_def salary_test_steps inj_eq)

lemma test_treasury_role_cannot_set_payroll_operator_passes:
  assumes "mocked e" "inj gen"
  shows "should_panic ''authorized'' (test_treasury_role_cannot_set_payroll_operator e gen)"
  using assms
  by (simp add: test_treasury_role_cannot_set_payroll_operator_def salary_test_steps inj_eq)

lemma test_auditor_role_cannot_record_nullifier_passes:
  assumes "mocked e" "inj gen"
  shows "should_panic ''authorized'' (test_auditor_role_cannot_record_nullifier e gen)"
  using assms
  by (simp add: test_auditor_role_cannot_record_nullifier_def salary_test_steps inj_eq)

lemma test_auditor_role_cannot_set_payroll_operator_passes:
  assumes "mocked e" "inj gen"
  shows "should_panic ''authorized'' (test_auditor_role_cannot_set_payroll_operator e gen)"
  using assms
  by (simp add: test_auditor_role_cannot_set_payroll_operator_def salary_test_steps inj_eq)

lemma test_lock_commitment_updates_prevents_update_passes:
  assumes "mocked e" "inj gen"
  shows "test_lock_commitment_updates_prevents_update e gen = Inr ()"
  using assms
  by (simp add: test_lock_commitment_updates_prevents_update_def salary_test_steps inj_eq)

lemma test_lock_commitment_updates_prevents_rotate_passes:
  assumes "mocked e" "inj gen"
  shows "test_lock_commitment_updates_prevents_rotate e gen = Inr ()"
  using assms
  by (simp add: test_lock_commitment_updates_prevents_rotate_def salary_test_steps inj_eq)

lemma test_unlock_commitment_allows_update_after_lock_passes:
  assumes "mocked e" "inj gen"
  shows "test_unlock_commitment_allows_update_after_lock e gen = Inr ()"
  using assms
  by (simp add: test_unlock_commitment_allows_update_after_lock_def salary_test_steps inj_eq)

lemma test_is_commitment_locked_returns_correct_state_passes:
  assumes "mocked e" "inj gen"
  shows "test_is_commitment_locked_returns_correct_state e gen = Inr ()"
  using assms
  by (simp add: test_is_commitment_locked_returns_correct_state_def salary_test_steps inj_eq)

lemma test_lock_commitment_twice_panics_passes:
  assumes "mocked e" "inj gen"
  shows "test_lock_commitment_twice_panics e gen = Inr ()"
  using assms
  by (simp add: test_lock_commitment_twice_panics_def salary_test_steps inj_eq)

lemma test_unlock_without_lock_panics_passes:
  assumes "mocked e" "inj gen"
  shows "test_unlock_without_lock_panics e gen = Inr ()"
  using assms
  by (simp add: test_unlock_without_lock_panics_def salary_test_steps inj_eq)

lemma test_store_commitment_not_blocked_by_lock_passes:
  assumes "mocked e" "inj gen"
  shows "test_store_commitment_not_blocked_by_lock e gen = Inr ()"
  using assms
  by (simp add: test_store_commitment_not_blocked_by_lock_def salary_test_steps inj_eq)

lemma test_set_and_get_employee_reference_id_passes:
  assumes "mocked e" "inj gen"
  shows "test_set_and_get_employee_reference_id e gen = Inr ()"
  using assms
  by (simp add: test_set_and_get_employee_reference_id_def salary_test_steps inj_eq)

lemma test_update_employee_reference_id_passes:
  assumes "mocked e" "inj gen"
  shows "test_update_employee_reference_id e gen = Inr ()"
  using assms
  by (simp add: test_update_employee_reference_id_def salary_test_steps inj_eq)

lemma test_set_duplicate_reference_id_panics_passes:
  assumes "mocked e" "inj gen"
  shows "should_panic ''Reference ID already assigned to another employee'' (test_set_duplicate_reference_id_panics e gen)"
  using assms
  by (simp add: test_set_duplicate_reference_id_panics_def salary_test_steps inj_eq)

lemma test_set_empty_reference_id_panics_passes:
  assumes "mocked e" "inj gen"
  shows "should_panic ''Reference ID must be 1-256 characters'' (test_set_empty_reference_id_panics e gen)"
  using assms
  by (simp add: test_set_empty_reference_id_panics_def salary_test_steps inj_eq)

lemma test_unauthorized_set_reference_id_panics_passes:
  assumes "mocked e" "inj gen"
  shows "should_panic ''authorized'' (test_unauthorized_set_reference_id_panics e gen)"
  using assms
  by (simp add: test_unauthorized_set_reference_id_panics_def salary_test_steps inj_eq)

end
