(* ===== verification/Test_Ledger.thy ===== *)
theory Test_Ledger
  imports Fuzz_Harness
begin

text \<open>
  What the unit tests of the contracts that call others share: a client of the pause manager, and that
  the environments of the ledger carry the time and the authorizations of the transaction.
\<close>

definition fresh_pause_manager :: pause_manager where
  "fresh_pause_manager = \<lparr>events = [], paused = Map.empty, operator = None, pending_operator = None\<rparr>"

definition manager_client :: "env \<Rightarrow> address \<Rightarrow> (env \<Rightarrow> pause_manager \<Rightarrow> pause_manager outcome) \<Rightarrow> ledger \<Rightarrow> (unit \<times> ledger) outcome" where
  "manager_client e a f L = and_then (client (managers L) a (f (env_at e a))) (\<lambda>s.
     Inr ((), L\<lparr>managers := (managers L)(a \<mapsto> s)\<rparr>))"

lemma at_require_auth [simp]:
  "require_auth (env_at e a) b = require_auth e b" "require_auth (penv_at e a L) b = require_auth e b"
  "require_auth (venv_at e a L) b = require_auth e b" "require_auth (xenv_at e a L) b = require_auth e b"
  by (simp_all add: require_auth_def ledger_envs xenv_at_def xenv.defs)

lemma xenv_at_fields [simp]:
  "timestamp (xenv_at e a L) = timestamp e" "sequence (xenv_at e a L) = sequence e" "pause_managers (xenv_at e a L) = managers L"
  "verifiers (xenv_at e a L) = verifier_contracts L"
  by (simp_all add: ledger_envs xenv_at_def xenv.defs)

end
