(* ===== verification/Executor_Tests.thy ===== *)
theory Executor_Tests
  imports Test_Ledger Payroll_Symbols
begin

text \<open>
  The unit tests of \<open>contracts/payment_executor/src/lib.rs\<close> as programs over the ledger, each under the name
  it has in the source (\<open>pe_\<close> before the names that other contracts use too), and the theorems on their
  outcomes. Six tests that pay an employee do not pass: none of them configures the decimals of the
  asset, without which \<open>execute_payment\<close> refuses every payment. The contracts have the addresses
  \<open>gen 0\<close> to \<open>gen 4\<close> and \<open>gen 20\<close>; the other addresses are generated as the tests go.
\<close>

section \<open>Set-up\<close>

definition exec_registered :: "(nat \<Rightarrow> address) \<Rightarrow> ledger" where
  "exec_registered gen = \<lparr>managers = [gen 20 \<mapsto> fresh_pause_manager],
     token_contracts = [gen 4 \<mapsto> \<lparr>balances = Map.empty\<rparr>],
     verifier_contracts = [gen 3 \<mapsto> fresh_verifier], salary_ledgers = [gen 2 \<mapsto> fresh_salary],
     registry_contracts = [gen 1 \<mapsto> fresh_registry], executors = [gen 0 \<mapsto> fresh_executor],
     payrolls = Map.empty, audits = Map.empty\<rparr>"

definition pe_mock_vk :: VerificationKey where
  "pe_mock_vk = \<lparr>vk_alpha = replicate 64 0, vk_beta = replicate 128 0, vk_gamma = replicate 128 0,
     vk_delta = replicate 128 0, vk_ic = [replicate 64 0, replicate 64 0, replicate 64 0]\<rparr>"

definition setup_addresses :: "env \<Rightarrow> (nat \<Rightarrow> address) \<Rightarrow> (pe_ContractAddresses \<times> ledger) outcome" where
  "setup_addresses e gen =
     and_then (verifier_client e (gen 3) (\<lambda>e s. no_value (init_verifier_admin (gen 5) s)) (exec_registered gen)) (\<lambda>(_, L).
     and_then (verifier_client e (gen 3) (\<lambda>e s. no_value (initialize_verifier e pe_mock_vk s)) L) (\<lambda>(_, L).
     and_then (commitment_client e (gen 2) (\<lambda>e s. no_value (init_commitment_admin (gen 6) s)) L) (\<lambda>(_, L).
     Inr (\<lparr>xa_registry = gen 1, xa_commitment = gen 2, xa_verifier = gen 3, xa_token = gen 4\<rparr>, L))))"

text \<open>Calls that change the executor alone, and the clients the tests use; \<open>x_pay\<close> passes the proof as its parts.\<close>

definition x_call :: "env \<Rightarrow> (nat \<Rightarrow> address) \<Rightarrow> (xenv \<Rightarrow> executor \<Rightarrow> executor payment_result) \<Rightarrow> ledger \<Rightarrow> (unit \<times> ledger) outcome" where
  "x_call e gen f L = executor_client e (gen 0) (\<lambda>e. exe_part (\<lambda>s. and_then (f e s) (\<lambda>s. Inr ((), s)))) L"

definition x_get :: "(nat \<Rightarrow> address) \<Rightarrow> (executor \<Rightarrow> 'r) \<Rightarrow> ledger \<Rightarrow> 'r outcome" where
  "x_get gen f L = client (executors L) (gen 0) (\<lambda>s. Inr (f s))"

definition x_balance :: "(nat \<Rightarrow> address) \<Rightarrow> address \<Rightarrow> ledger \<Rightarrow> i128 outcome" where
  "x_balance gen a L = client (token_contracts L) (gen 4) (\<lambda>t. Inr (balance t a))"

definition x_payment :: "u64 \<Rightarrow> address \<Rightarrow> i128 \<Rightarrow> u8 \<Rightarrow> u8 \<Rightarrow> u8 \<Rightarrow> u8 \<Rightarrow> u32 \<Rightarrow> xenv \<Rightarrow> executor_world \<Rightarrow> (PaymentRecord \<times> executor_world) payment_result" where
  "x_payment company_id employee amount a b c n period e w =
     execute_payment e company_id employee amount \<lparr>proof_a = replicate 64 a, proof_b = replicate 128 b, proof_c = replicate 64 c\<rparr> (b32 n) period w"

definition x_events :: "(nat \<Rightarrow> address) \<Rightarrow> ledger \<Rightarrow> event list" where
  "x_events gen L =
     (case verifier_contracts L (gen 3) of None \<Rightarrow> [] | Some s \<Rightarrow> events s) @
     (case salary_ledgers L (gen 2) of None \<Rightarrow> [] | Some s \<Rightarrow> events s) @
     (case registry_contracts L (gen 1) of None \<Rightarrow> [] | Some s \<Rightarrow> events s) @
     (case executors L (gen 0) of None \<Rightarrow> [] | Some s \<Rightarrow> events s)"

text \<open>What most tests start with: an initialized executor, and a company with an onboarded employee and a
  funded treasury.\<close>

definition x_start :: "env \<Rightarrow> (nat \<Rightarrow> address) \<Rightarrow> (pe_ContractAddresses \<times> ledger) outcome" where
  "x_start e gen =
     and_then (setup_addresses e gen) (\<lambda>(addrs, L).
     and_then (x_call e gen (\<lambda>e. pe_initialize e addrs) L) (\<lambda>(_, L).
     Inr (addrs, L)))"

definition x_company :: "env \<Rightarrow> (nat \<Rightarrow> address) \<Rightarrow> address \<Rightarrow> address \<Rightarrow> ledger \<Rightarrow> (u64 \<times> ledger) outcome" where
  "x_company e gen admin treasury L = registry_client e (gen 1) (\<lambda>e s. register_company e admin treasury s) L"

definition x_onboard :: "env \<Rightarrow> (nat \<Rightarrow> address) \<Rightarrow> u64 \<Rightarrow> address \<Rightarrow> bytes \<Rightarrow> ledger \<Rightarrow> (unit \<times> ledger) outcome" where
  "x_onboard e gen company_id employee c L =
     and_then (commitment_client e (gen 2) (\<lambda>e s. store_commitment e employee c s) L) (\<lambda>(_, L).
     registry_client e (gen 1) (\<lambda>e s. no_value (add_employee e company_id employee c s)) L)"

definition x_mint :: "(nat \<Rightarrow> address) \<Rightarrow> address \<Rightarrow> i128 \<Rightarrow> ledger \<Rightarrow> (unit \<times> ledger) outcome" where
  "x_mint gen a n L = token_client (gen 4) (\<lambda>t. no_value (mint a n t)) L"

definition x_create_period :: "env \<Rightarrow> (nat \<Rightarrow> address) \<Rightarrow> u64 \<Rightarrow> ledger \<Rightarrow> (PayrollPeriod \<times> ledger) outcome" where
  "x_create_period e gen company_id L = executor_client e (gen 0) (\<lambda>e. exe_part (create_period e company_id)) L"

section \<open>Payments\<close>

definition test_initialize :: "env \<Rightarrow> (nat \<Rightarrow> address) \<Rightarrow> unit outcome" where
  "test_initialize e gen =
     and_then (setup_addresses e gen) (\<lambda>(addrs, L).
     call (x_call e gen (\<lambda>e. pe_initialize e addrs) L))"

definition test_is_paid :: "env \<Rightarrow> (nat \<Rightarrow> address) \<Rightarrow> unit outcome" where
  "test_is_paid e gen =
     and_then (x_start e gen) (\<lambda>(addrs, L).
     and_then (x_get gen (is_paid (gen 7) 1) L) (\<lambda>paid.
     check (\<not> paid)))"

definition test_execute_payment_transfers_after_verification :: "env \<Rightarrow> (nat \<Rightarrow> address) \<Rightarrow> unit outcome" where
  "test_execute_payment_transfers_after_verification e gen =
     and_then (x_start e gen) (\<lambda>(addrs, L).
     let admin = gen 7; treasury = gen 8; employee = gen 9 in
     and_then (x_company e gen admin treasury L) (\<lambda>(company_id, L).
     and_then (x_onboard e gen company_id employee (b32 9) L) (\<lambda>(_, L).
     and_then (x_mint gen treasury 10000 L) (\<lambda>(_, L).
     and_then (x_create_period e gen company_id L) (\<lambda>(_, L).
     and_then (executor_client e (gen 0) (x_payment company_id employee 1000 1 2 3 4 1) L) (\<lambda>(_, L).
     and_then (x_balance gen treasury L) (\<lambda>b.
     and_then (check (b = 9000)) (\<lambda>_.
     and_then (x_balance gen employee L) (\<lambda>b.
     and_then (check (b = 1000)) (\<lambda>_.
     and_then (check (length (x_events gen L) = 6)) (\<lambda>_.
     let ev = last (x_events gen L) in
     and_then (check (length (topics ev) = 2)) (\<lambda>_.
     and_then (check (topics ev ! 0 = VSym ''PayrollProcessed'')) (\<lambda>_.
     check (topics ev ! 1 = VU64 company_id))))))))))))))"

definition test_double_spend_proof_reuse_fails :: "env \<Rightarrow> (nat \<Rightarrow> address) \<Rightarrow> unit outcome" where
  "test_double_spend_proof_reuse_fails e gen =
     and_then (x_start e gen) (\<lambda>(addrs, L).
     let admin = gen 7; treasury = gen 8; employee = gen 9 in
     and_then (x_company e gen admin treasury L) (\<lambda>(company_id, L).
     and_then (x_onboard e gen company_id employee (b32 7) L) (\<lambda>(_, L).
     and_then (x_mint gen treasury 10000 L) (\<lambda>(_, L).
     and_then (x_create_period e gen company_id L) (\<lambda>(_, L).
     and_then (executor_client e (gen 0) (x_payment company_id employee 1000 1 2 3 4 1) L) (\<lambda>(_, L).
     assert_contract_error ProofAlreadyUsed (try_executor e (gen 0) (x_payment company_id employee 1000 1 2 3 4 1) L)))))))"

definition test_batch_array_length_mismatch_fails :: "env \<Rightarrow> (nat \<Rightarrow> address) \<Rightarrow> unit outcome" where
  "test_batch_array_length_mismatch_fails e gen =
     and_then (x_start e gen) (\<lambda>(addrs, L).
     let employees = [gen 7, gen 8] in
     assert_contract_error ArrayLengthMismatch (try_executor e (gen 0) (\<lambda>e w. execute_batch_payroll e 0 employees [1000] [replicate 64 0] [replicate 128 0] [replicate 64 0] [replicate 32 0] 1 w) L))"

definition test_reentrancy_cei_pattern :: "env \<Rightarrow> (nat \<Rightarrow> address) \<Rightarrow> unit outcome" where
  "test_reentrancy_cei_pattern e gen =
     and_then (x_start e gen) (\<lambda>(addrs, L).
     let admin = gen 7; treasury = gen 8; employee = gen 9 in
     and_then (x_company e gen admin treasury L) (\<lambda>(company_id, L).
     and_then (x_onboard e gen company_id employee (b32 8) L) (\<lambda>(_, L).
     and_then (x_mint gen treasury 10000 L) (\<lambda>(_, L).
     and_then (x_create_period e gen company_id L) (\<lambda>(_, L).
     and_then (executor_client e (gen 0) (x_payment company_id employee 2500 5 6 7 9 1) L) (\<lambda>(_, L).
     and_then (x_balance gen treasury L) (\<lambda>b.
     and_then (check (b = 7500)) (\<lambda>_.
     and_then (x_balance gen employee L) (\<lambda>b.
     and_then (check (b = 2500)) (\<lambda>_.
     and_then (x_get gen (is_paid employee 1) L) (\<lambda>paid.
     and_then (check (paid)) (\<lambda>_.
     and_then (x_get gen (get_total_paid company_id) L) (\<lambda>total.
     and_then (check (total = 2500)) (\<lambda>_.
     and_then (check (length (x_events gen L) = 6)) (\<lambda>_.
     let ev = last (x_events gen L) in
     and_then (check (length (topics ev) = 2)) (\<lambda>_.
     and_then (check (topics ev ! 0 = VSym ''PayrollProcessed'')) (\<lambda>_.
     and_then (assert_contract_error ProofAlreadyUsed (try_executor e (gen 0) (x_payment company_id employee 2500 5 6 7 9 1) L)) (\<lambda>_.
     and_then (x_balance gen treasury L) (\<lambda>b.
     and_then (check (b = 7500)) (\<lambda>_.
     and_then (x_balance gen employee L) (\<lambda>b.
     and_then (check (b = 2500)) (\<lambda>_.
     and_then (x_get gen (get_total_paid company_id) L) (\<lambda>total.
     check (total = 2500))))))))))))))))))))))))"

section \<open>Periods\<close>

definition test_create_period :: "env \<Rightarrow> (nat \<Rightarrow> address) \<Rightarrow> unit outcome" where
  "test_create_period e gen =
     and_then (x_start e gen) (\<lambda>(addrs, L).
     let admin = gen 7; treasury = gen 8 in
     and_then (x_company e gen admin treasury L) (\<lambda>(company_id, L).
     and_then (x_create_period e gen company_id L) (\<lambda>(result, L).
     and_then (check (pd_period_id result = 1)) (\<lambda>_.
     and_then (check (pd_company_id result = company_id)) (\<lambda>_.
     and_then (check (\<not> pd_closed result)) (\<lambda>_.
     check (pd_payment_count result = 0)))))))"

definition test_duplicate_period_creation_fails :: "env \<Rightarrow> (nat \<Rightarrow> address) \<Rightarrow> unit outcome" where
  "test_duplicate_period_creation_fails e gen =
     and_then (x_start e gen) (\<lambda>(addrs, L).
     let admin = gen 7; treasury = gen 8 in
     and_then (x_company e gen admin treasury L) (\<lambda>(company_id, L).
     and_then (x_create_period e gen company_id L) (\<lambda>(_, L).
     assert_contract_error PeriodAlreadyExists (try_executor e (gen 0) (\<lambda>e. exe_part (create_period e company_id)) L))))"

definition test_close_period :: "env \<Rightarrow> (nat \<Rightarrow> address) \<Rightarrow> unit outcome" where
  "test_close_period e gen =
     and_then (x_start e gen) (\<lambda>(addrs, L).
     let admin = gen 7; treasury = gen 8 in
     and_then (x_company e gen admin treasury L) (\<lambda>(company_id, L).
     and_then (x_create_period e gen company_id L) (\<lambda>(_, L).
     and_then (executor_client e (gen 0) (\<lambda>e. exe_part (close_period e company_id 1)) L) (\<lambda>(result, L).
     and_then (check (pd_closed result)) (\<lambda>_.
     check (pd_end_ledger result = pd_start_ledger result))))))"

definition test_payment_in_closed_period_fails :: "env \<Rightarrow> (nat \<Rightarrow> address) \<Rightarrow> unit outcome" where
  "test_payment_in_closed_period_fails e gen =
     and_then (x_start e gen) (\<lambda>(addrs, L).
     let admin = gen 7; treasury = gen 8; employee = gen 9 in
     and_then (x_company e gen admin treasury L) (\<lambda>(company_id, L).
     and_then (registry_client e (gen 1) (\<lambda>e s. no_value (add_employee e company_id employee (b32 8) s)) L) (\<lambda>(_, L).
     and_then (x_mint gen treasury 10000 L) (\<lambda>(_, L).
     and_then (x_create_period e gen company_id L) (\<lambda>(_, L).
     and_then (executor_client e (gen 0) (\<lambda>e. exe_part (close_period e company_id 1)) L) (\<lambda>(_, L).
     assert_contract_error PeriodClosed (try_executor e (gen 0) (x_payment company_id employee 1000 5 6 7 9 1) L)))))))"

definition test_payment_in_nonexistent_period_fails :: "env \<Rightarrow> (nat \<Rightarrow> address) \<Rightarrow> unit outcome" where
  "test_payment_in_nonexistent_period_fails e gen =
     and_then (x_start e gen) (\<lambda>(addrs, L).
     let admin = gen 7; treasury = gen 8; employee = gen 9 in
     and_then (x_company e gen admin treasury L) (\<lambda>(company_id, L).
     and_then (registry_client e (gen 1) (\<lambda>e s. no_value (add_employee e company_id employee (b32 8) s)) L) (\<lambda>(_, L).
     and_then (x_mint gen treasury 10000 L) (\<lambda>(_, L).
     assert_contract_error PeriodNotFound (try_executor e (gen 0) (x_payment company_id employee 1000 5 6 7 9 99) L)))))"

definition test_fresh_proof_within_expiration_window :: "env \<Rightarrow> (nat \<Rightarrow> address) \<Rightarrow> unit outcome" where
  "test_fresh_proof_within_expiration_window e gen =
     and_then (x_start e gen) (\<lambda>(addrs, L).
     let admin = gen 7; treasury = gen 8; employee = gen 9 in
     and_then (x_company e gen admin treasury L) (\<lambda>(company_id, L).
     and_then (x_onboard e gen company_id employee (b32 9) L) (\<lambda>(_, L).
     and_then (x_mint gen treasury 10000 L) (\<lambda>(_, L).
     and_then (x_create_period e gen company_id L) (\<lambda>(period, L).
     and_then (check (pd_period_id period = 1)) (\<lambda>_.
     check (\<not> isl (try_executor e (gen 0) (x_payment company_id employee 1000 1 2 3 4 1) L))))))))"

definition test_period_tracks_creation_time :: "env \<Rightarrow> (nat \<Rightarrow> address) \<Rightarrow> unit outcome" where
  "test_period_tracks_creation_time e gen =
     and_then (x_start e gen) (\<lambda>(addrs, L).
     let admin = gen 7; treasury = gen 8; employee = gen 9 in
     and_then (x_company e gen admin treasury L) (\<lambda>(company_id, L).
     and_then (x_onboard e gen company_id employee (b32 9) L) (\<lambda>(_, L).
     and_then (x_mint gen treasury 10000 L) (\<lambda>(_, L).
     and_then (x_create_period e gen company_id L) (\<lambda>(period, L).
     and_then (check (pd_period_id period = 1)) (\<lambda>_.
     and_then (check (pd_company_id period = company_id)) (\<lambda>_.
     and_then (check (\<not> pd_closed period)) (\<lambda>_.
     check (pd_payment_count period = 0)))))))))"

definition test_get_max_proof_age :: "env \<Rightarrow> (nat \<Rightarrow> address) \<Rightarrow> unit outcome" where
  "test_get_max_proof_age e gen =
     check (get_max_proof_age = 7 * 24 * 60 * 60)"

section \<open>Pause manager\<close>

definition setup_executor_with_pause_manager :: "env \<Rightarrow> (nat \<Rightarrow> address) \<Rightarrow> (u64 \<times> ledger) outcome" where
  "setup_executor_with_pause_manager e gen =
     and_then (x_start e gen) (\<lambda>(addrs, L).
     let admin = gen 7; treasury = gen 8; employee = gen 9 in
     and_then (x_company e gen admin treasury L) (\<lambda>(company_id, L).
     and_then (x_onboard e gen company_id employee (b32 9) L) (\<lambda>(_, L).
     and_then (x_mint gen treasury 10000 L) (\<lambda>(_, L).
     and_then (x_call e gen (\<lambda>e. set_executor_admin e admin) L) (\<lambda>(_, L).
     and_then (manager_client e (gen 20) (\<lambda>e. initialize_pm e (gen 10)) L) (\<lambda>(_, L).
     and_then (x_call e gen (\<lambda>e. pe_set_pause_manager e (gen 20)) L) (\<lambda>(_, L).
     Inr (company_id, L))))))))"

definition test_paused_executor_rejects_payment :: "env \<Rightarrow> (nat \<Rightarrow> address) \<Rightarrow> unit outcome" where
  "test_paused_executor_rejects_payment e gen =
     and_then (setup_executor_with_pause_manager e gen) (\<lambda>(company_id, L).
     and_then (manager_client e (gen 20) pause L) (\<lambda>(_, L).
     check (isl (try_executor e (gen 0) (x_payment company_id (gen 9) 1000 1 2 3 4 1) L))))"

definition test_unpaused_executor_resumes_payment :: "env \<Rightarrow> (nat \<Rightarrow> address) \<Rightarrow> unit outcome" where
  "test_unpaused_executor_resumes_payment e gen =
     and_then (setup_executor_with_pause_manager e gen) (\<lambda>(company_id, L).
     and_then (x_create_period e gen company_id L) (\<lambda>(_, L).
     and_then (manager_client e (gen 20) pause L) (\<lambda>(_, L).
     and_then (check (isl (try_executor e (gen 0) (x_payment company_id (gen 9) 1000 1 2 3 4 1) L))) (\<lambda>_.
     and_then (manager_client e (gen 20) unpause L) (\<lambda>(_, L).
     and_then (executor_client e (gen 0) (x_payment company_id (gen 9) 1000 1 2 3 4 1) L) (\<lambda>(_, L).
     and_then (x_get gen (is_paid (gen 9) 1) L) (\<lambda>paid.
     check (paid))))))))"

definition test_executor_works_without_pause_manager :: "env \<Rightarrow> (nat \<Rightarrow> address) \<Rightarrow> unit outcome" where
  "test_executor_works_without_pause_manager e gen =
     and_then (x_start e gen) (\<lambda>(addrs, L).
     let admin = gen 7; treasury = gen 8; employee = gen 9 in
     and_then (x_company e gen admin treasury L) (\<lambda>(company_id, L).
     and_then (x_onboard e gen company_id employee (b32 9) L) (\<lambda>(_, L).
     and_then (x_create_period e gen company_id L) (\<lambda>(_, L).
     and_then (x_mint gen treasury 10000 L) (\<lambda>(_, L).
     and_then (executor_client e (gen 0) (x_payment company_id employee 1000 1 2 3 4 1) L) (\<lambda>(_, L).
     and_then (x_balance gen treasury L) (\<lambda>b.
     and_then (check (b = 9000)) (\<lambda>_.
     and_then (x_balance gen employee L) (\<lambda>b.
     check (b = 1000))))))))))"

definition pe_test_set_pause_manager_rejects_unauthorized :: "env \<Rightarrow> (nat \<Rightarrow> address) \<Rightarrow> unit outcome" where
  "pe_test_set_pause_manager_rejects_unauthorized e gen =
     and_then (setup_addresses e gen) (\<lambda>(addrs, L).
     let admin = gen 7; attacker = gen 8 in
     and_then (x_call (signed_by admin e) gen (\<lambda>e. pe_initialize e addrs) L) (\<lambda>(_, L).
     and_then (x_call (signed_by admin e) gen (\<lambda>e. set_executor_admin e admin) L) (\<lambda>(_, L).
     call (x_call (signed_by attacker e) gen (\<lambda>e. pe_set_pause_manager e (gen 20)) L))))"

section \<open>Assets and roles\<close>

definition pe_test_asset_allowlist_management_and_execution :: "env \<Rightarrow> (nat \<Rightarrow> address) \<Rightarrow> unit outcome" where
  "pe_test_asset_allowlist_management_and_execution e gen =
     and_then (x_start e gen) (\<lambda>(addrs, L).
     and_then (x_call e gen (\<lambda>e. set_executor_admin e (gen 7)) L) (\<lambda>(_, L).
     and_then (x_get gen (pe_is_asset_allowed (xa_token addrs)) L) (\<lambda>ok.
     and_then (check (ok)) (\<lambda>_.
     and_then (x_call e gen (\<lambda>e. pe_set_asset_allowed e (xa_token addrs) False) L) (\<lambda>(_, L).
     and_then (x_get gen (pe_is_asset_allowed (xa_token addrs)) L) (\<lambda>ok.
     and_then (check (\<not> ok)) (\<lambda>_.
     and_then (x_call e gen (\<lambda>e. pe_set_asset_allowed e (xa_token addrs) True) L) (\<lambda>(_, L).
     and_then (x_get gen (pe_is_asset_allowed (xa_token addrs)) L) (\<lambda>ok.
     check (ok))))))))))"

definition test_execute_payment_fails_when_asset_disallowed :: "env \<Rightarrow> (nat \<Rightarrow> address) \<Rightarrow> unit outcome" where
  "test_execute_payment_fails_when_asset_disallowed e gen =
     and_then (x_start e gen) (\<lambda>(addrs, L).
     and_then (x_call e gen (\<lambda>e. set_executor_admin e (gen 7)) L) (\<lambda>(_, L).
     and_then (x_call e gen (\<lambda>e. pe_set_asset_allowed e (xa_token addrs) False) L) (\<lambda>(_, L).
     let admin = gen 8; treasury = gen 9; employee = gen 10 in
     and_then (x_company e gen admin treasury L) (\<lambda>(company_id, L).
     and_then (x_onboard e gen company_id employee (b32 9) L) (\<lambda>(_, L).
     and_then (x_mint gen treasury 10000 L) (\<lambda>(_, L).
     and_then (x_create_period e gen company_id L) (\<lambda>(_, L).
     call (executor_client e (gen 0) (x_payment company_id employee 1000 1 2 3 4 1) L))))))))"

definition test_storage_version_returns_version_1 :: "env \<Rightarrow> (nat \<Rightarrow> address) \<Rightarrow> unit outcome" where
  "test_storage_version_returns_version_1 e gen =
     and_then (x_start e gen) (\<lambda>(addrs, L).
     and_then (x_get gen pe_get_storage_version L) (\<lambda>v.
     check (v = 1)))"

definition test_asset_allowed_emits_events :: "env \<Rightarrow> (nat \<Rightarrow> address) \<Rightarrow> unit outcome" where
  "test_asset_allowed_emits_events e gen =
     and_then (setup_addresses e gen) (\<lambda>(addrs, L).
     let before_init = length (x_events gen L) in
     and_then (x_call e gen (\<lambda>e. pe_initialize e addrs) L) (\<lambda>(_, L).
     let after_init = length (x_events gen L) in
     and_then (check (after_init = before_init + 1)) (\<lambda>_.
     let init_event = x_events gen L ! (after_init - 1) in
     and_then (check (topics init_event ! 0 = VSym ''TreasuryAssetAllowedUpdated'')) (\<lambda>_.
     and_then (x_call e gen (\<lambda>e. set_executor_admin e (gen 7)) L) (\<lambda>(_, L).
     let before_set = length (x_events gen L) in
     and_then (x_call e gen (\<lambda>e. pe_set_asset_allowed e (gen 8) True) L) (\<lambda>(_, L).
     let after_set = length (x_events gen L) in
     and_then (check (after_set = before_set + 1)) (\<lambda>_.
     let set_event = x_events gen L ! (after_set - 1) in
     check (topics set_event ! 0 = VSym ''TreasuryAssetAllowedUpdated''))))))))"

definition test_company_admin_cannot_set_asset_allowed :: "env \<Rightarrow> (nat \<Rightarrow> address) \<Rightarrow> unit outcome" where
  "test_company_admin_cannot_set_asset_allowed e gen =
     and_then (x_start e gen) (\<lambda>(addrs, L).
     and_then (x_call e gen (\<lambda>e. set_executor_admin e (gen 7)) L) (\<lambda>(_, L).
     let company_admin = gen 8; treasury = gen 9 in
     and_then (x_company e gen company_admin treasury L) (\<lambda>(_, L).
     call (x_call (signed_by company_admin e) gen (\<lambda>e. pe_set_asset_allowed e (xa_token addrs) False) L))))"

definition test_executor_admin_cannot_execute_payment_for_foreign_company :: "env \<Rightarrow> (nat \<Rightarrow> address) \<Rightarrow> unit outcome" where
  "test_executor_admin_cannot_execute_payment_for_foreign_company e gen =
     and_then (x_start e gen) (\<lambda>(addrs, L).
     let executor_admin = gen 7 in
     and_then (x_call e gen (\<lambda>e. set_executor_admin e executor_admin) L) (\<lambda>(_, L).
     let company_admin = gen 8; treasury = gen 9 in
     and_then (x_company e gen company_admin treasury L) (\<lambda>(company_id, L).
     let employee = gen 10 in
     and_then (x_onboard e gen company_id employee (b32 5) L) (\<lambda>(_, L).
     and_then (x_mint gen treasury 100000 L) (\<lambda>(_, L).
     and_then (x_create_period e gen company_id L) (\<lambda>(_, L).
     call (executor_client (signed_by executor_admin e) (gen 0) (x_payment company_id employee 1000 1 2 3 4 1) L)))))))"

section \<open>Encoding of amounts\<close>

definition u128_from_be_bytes :: "bytes \<Rightarrow> int" where
  "u128_from_be_bytes bs = foldl (\<lambda>acc b. acc * 256 + uint b) 0 bs"

definition test_amount_to_public_input_zero_is_all_zero_bytes :: "unit outcome" where
  "test_amount_to_public_input_zero_is_all_zero_bytes =
     and_then (amount_to_public_input 0) (\<lambda>encoded.
     check (encoded = replicate 32 0))"

definition test_amount_to_public_input_one_is_zero_padded_big_endian :: "unit outcome" where
  "test_amount_to_public_input_one_is_zero_padded_big_endian =
     and_then (amount_to_public_input 1) (\<lambda>arr.
     and_then (check (take 16 arr = replicate 16 0)) (\<lambda>_.
     let expected_low16 = (replicate 16 0)[15 := 1] in
     check (drop 16 arr = expected_low16)))"

definition test_amount_to_public_input_rejects_negative_one :: "unit outcome" where
  "test_amount_to_public_input_rejects_negative_one =
     call (amount_to_public_input (- 1))"

definition test_amount_to_public_input_rejects_i128_min :: "unit outcome" where
  "test_amount_to_public_input_rejects_i128_min =
     call (amount_to_public_input (- (2 ^ 127)))"

definition test_amount_to_public_input_preserves_full_precision_for_non_round_amount :: "unit outcome" where
  "test_amount_to_public_input_preserves_full_precision_for_non_round_amount =
     (let amount = 999999999937 in
     and_then (amount_to_public_input amount) (\<lambda>arr.
     let round_tripped = u128_from_be_bytes (drop 16 arr) in
     and_then (check (take 16 arr = replicate 16 0)) (\<lambda>_.
     check (round_tripped = amount))))"

definition test_amount_to_public_input_accepts_maximum_i128_at_full_precision :: "unit outcome" where
  "test_amount_to_public_input_accepts_maximum_i128_at_full_precision =
     and_then (amount_to_public_input (2 ^ 127 - 1)) (\<lambda>arr.
     let round_tripped = u128_from_be_bytes (drop 16 arr) in
     check (round_tripped = 2 ^ 127 - 1))"

section \<open>Outcomes\<close>

lemmas executor_test_steps = x_start_def setup_addresses_def exec_registered_def x_call_def x_get_def x_balance_def x_company_def x_onboard_def
  x_mint_def x_create_period_def manager_client_def fresh_pause_manager_def x_payment_def x_events_def setup_executor_with_pause_manager_def
  client_defs executor_client_def try_executor_def exe_part_def exe_view_def
  pe_initialize_def set_executor_admin_def executor_admin_guard_def pe_set_pause_manager_def pe_set_asset_allowed_def pe_is_asset_allowed_def
  pe_get_storage_version_def create_period_def close_period_def executor_company_def execute_payment_def execute_batch_payroll_def
  decimals_guard_def get_asset_decimals_def pe_require_not_paused_def is_paid_def get_total_paid_def get_max_proof_age_def MAX_PROOF_AGE_SECONDS_def
  amount_to_public_input_def address_debug_def saturating_sub_def exe_blank_def verify_def verify_payment_proof_def simulated_verify_groth16_def
  init_verifier_admin_def fresh_verifier_def initialize_verifier_def require_verifier_admin_def pe_mock_vk_def
  pm_defs all_categories_def is_paused_def salary_steps registry_steps mint_def add_i128_def in_i128_def assert_contract_error_def inj_eq

lemma executor_tests_outcome:
  assumes "mocked e" "inj gen"
  shows "test_initialize e gen = Inr ()"
    "test_is_paid e gen = Inr ()"
    "test_execute_payment_transfers_after_verification e gen = Inl (Panic ''contract error'')"
    "test_double_spend_proof_reuse_fails e gen = Inl (Panic ''contract error'')"
    "test_batch_array_length_mismatch_fails e gen = Inr ()"
    "test_reentrancy_cei_pattern e gen = Inl (Panic ''contract error'')"
    "test_create_period e gen = Inr ()"
    "test_duplicate_period_creation_fails e gen = Inr ()"
    "test_close_period e gen = Inr ()"
    "test_payment_in_closed_period_fails e gen = Inr ()"
    "test_payment_in_nonexistent_period_fails e gen = Inr ()"
    "test_fresh_proof_within_expiration_window e gen = Inl (Panic ''assertion failed'')"
    "test_period_tracks_creation_time e gen = Inr ()"
    "test_get_max_proof_age e gen = Inr ()"
    "test_paused_executor_rejects_payment e gen = Inr ()"
    "test_unpaused_executor_resumes_payment e gen = Inl (Panic ''contract error'')"
    "test_executor_works_without_pause_manager e gen = Inl (Panic ''contract error'')"
    "should_panic ''authorized'' (pe_test_set_pause_manager_rejects_unauthorized e gen)"
    "pe_test_asset_allowlist_management_and_execution e gen = Inr ()"
    "should_panic ''Asset not allowed'' (test_execute_payment_fails_when_asset_disallowed e gen)"
    "test_storage_version_returns_version_1 e gen = Inr ()"
    "test_asset_allowed_emits_events e gen = Inr ()"
    "should_panic ''authorized'' (test_company_admin_cannot_set_asset_allowed e gen)"
    "should_panic ''authorized'' (test_executor_admin_cannot_execute_payment_for_foreign_company e gen)"
  using assms
  by (simp_all add: test_initialize_def
      test_is_paid_def
      test_execute_payment_transfers_after_verification_def
      test_double_spend_proof_reuse_fails_def
      test_batch_array_length_mismatch_fails_def
      test_reentrancy_cei_pattern_def
      test_create_period_def
      test_duplicate_period_creation_fails_def
      test_close_period_def
      test_payment_in_closed_period_fails_def
      test_payment_in_nonexistent_period_fails_def
      test_fresh_proof_within_expiration_window_def
      test_period_tracks_creation_time_def
      test_get_max_proof_age_def
      test_paused_executor_rejects_payment_def
      test_unpaused_executor_resumes_payment_def
      test_executor_works_without_pause_manager_def
      pe_test_set_pause_manager_rejects_unauthorized_def
      pe_test_asset_allowlist_management_and_execution_def
      test_execute_payment_fails_when_asset_disallowed_def
      test_storage_version_returns_version_1_def
      test_asset_allowed_emits_events_def
      test_company_admin_cannot_set_asset_allowed_def
      test_executor_admin_cannot_execute_payment_for_foreign_company_def
      executor_test_steps)

lemma amount_tests_pass:
  shows "test_amount_to_public_input_zero_is_all_zero_bytes = Inr ()"
    "test_amount_to_public_input_one_is_zero_padded_big_endian = Inr ()"
    "should_panic ''Amount must be non-negative'' (test_amount_to_public_input_rejects_negative_one)"
    "should_panic ''Amount must be non-negative'' (test_amount_to_public_input_rejects_i128_min)"
  by (simp_all add: test_amount_to_public_input_zero_is_all_zero_bytes_def
      test_amount_to_public_input_one_is_zero_padded_big_endian_def
      test_amount_to_public_input_rejects_negative_one_def
      test_amount_to_public_input_rejects_i128_min_def
      amount_to_public_input_def u128_from_be_bytes_def be_bytes_def numeral_eq_Suc)

lemma u128_from_be_bytes: "u128_from_be_bytes (be_bytes n x) = x mod 256 ^ n"
proof (induction n arbitrary: x)
  case (Suc n)
  have "u128_from_be_bytes (be_bytes (Suc n) x) = (x div 256 mod 256 ^ n) * 256 + x mod 256"
    using Suc [of "x div 256"] by (simp add: u128_from_be_bytes_def be_bytes_def unsigned_of_int take_bit_eq_mod)
  then show ?case using zmod_zmult2_eq [of "256 ^ n" x 256] by (simp add: algebra_simps)
qed (simp add: u128_from_be_bytes_def be_bytes_def)

lemma amount_precision_tests_pass:
  shows "test_amount_to_public_input_preserves_full_precision_for_non_round_amount = Inr ()"
    "test_amount_to_public_input_accepts_maximum_i128_at_full_precision = Inr ()"
  by (simp_all add: test_amount_to_public_input_preserves_full_precision_for_non_round_amount_def
      test_amount_to_public_input_accepts_maximum_i128_at_full_precision_def
      amount_to_public_input_def u128_from_be_bytes)

end
