(* ===== verification/Cli_Report.thy ===== *)
theory Cli_Report
  imports Cli_Theorems Cli_Amounts Test_Programs
begin

text \<open>
  The command line client as the user sees it: the request that \<open>reconcile\<close> sends, and every line that the
  commands print. A session acts on the machine of \<open>Cli_Client\<close> and on a terminal, which holds what was
  written to the two output streams so far, also when the command fails later. The RPC server is the
  argument \<open>server\<close>, the layout of the table (crate comfy-table) the argument \<open>render\<close>. Erasing the
  terminal leaves the commands of \<open>Cli_Client\<close>.
\<close>

section \<open>Sessions\<close>

record terminal =
  stdout :: "string list"
  stderr :: "string list"

type_synonym 'a session = "machine \<times> terminal \<Rightarrow> (cli_error + 'a) \<times> machine \<times> terminal"

definition quiet :: "'a cli \<Rightarrow> 'a session" where
  "quiet c s = (case c (fst s) of (r, m) \<Rightarrow> (r, m, snd s))"

definition session_bind :: "'a session \<Rightarrow> ('a \<Rightarrow> 'b session) \<Rightarrow> 'b session" where
  "session_bind c f s = (case c s of (Inl x, s') \<Rightarrow> (Inl x, s') | (Inr v, s') \<Rightarrow> f v s')"

definition println :: "string \<Rightarrow> unit session" where
  "println line s = (Inr (), fst s, (snd s)\<lparr>stdout := stdout (snd s) @ [line]\<rparr>)"

definition eprintln :: "string \<Rightarrow> unit session" where
  "eprintln line s = (Inr (), fst s, (snd s)\<lparr>stderr := stderr (snd s) @ [line]\<rparr>)"

definition show_u32 :: "u32 \<Rightarrow> string" where
  "show_u32 n = show_nat (unat n)"

section \<open>\<open>rpc.rs\<close>: the request\<close>

record get_events_request =
  rq_method :: string
  rq_start_ledger :: u32
  rq_filter_type :: string
  rq_contract_ids :: "string list"
  rq_limit :: nat

definition get_events_body :: "string \<Rightarrow> u32 \<Rightarrow> get_events_request" where
  "get_events_body contract_id start_ledger = \<lparr>rq_method = ''getEvents'', rq_start_ledger = start_ledger,
     rq_filter_type = ''contract'', rq_contract_ids = [contract_id], rq_limit = 200\<rparr>"

type_synonym rpc_server = "string \<Rightarrow> get_events_request \<Rightarrow> RpcResponse option"

definition ask :: "rpc_server \<Rightarrow> string \<Rightarrow> string \<Rightarrow> u32 \<Rightarrow> cli_env \<Rightarrow> cli_env" where
  "ask server rpc_url contract_id start_ledger e = e\<lparr>rpc_reply := server rpc_url (get_events_body contract_id start_ledger)\<rparr>"

section \<open>\<open>reconcile.rs\<close>: the report\<close>

definition DEFAULT_RPC_URL :: string where
  "DEFAULT_RPC_URL = ''https://soroban-testnet.stellar.org''"

record ReconcileArgs =
  ra_rpc_url :: string
  ra_contract_id :: string
  ra_company_id :: string
  ra_start_ledger :: u32

definition check_mark :: "bool \<Rightarrow> string" where
  "check_mark in_db = map char_of (if in_db then [0xE2, 0x9C, 0x93 :: nat] else [0xE2, 0x9C, 0x97])"

definition row_cells :: "report_row \<Rightarrow> string list" where
  "row_cells r = [rr_employee r, stroops_to_xlm_display (rr_amount r), show_u32 (rr_period r), rr_closed_at r,
     check_mark (rr_in_db r), narrative_text (rr_narrative r)]"

definition unknown_employee :: "PayrollEvent \<Rightarrow> string" where
  "unknown_employee ev = ''WARN: Employee '' @ ev_employee ev @ '' appears in on-chain events but is not in the local database.''"

primrec print_rows :: "cli_env \<Rightarrow> bool \<Rightarrow> PayrollEvent list \<Rightarrow> string list list \<Rightarrow> string list list session" where
  "print_rows e has_conn [] table = quiet (cli_return table)"
| "print_rows e has_conn (ev # evs) table =
     session_bind (quiet (if has_conn then employee_exists e (ev_employee ev) else cli_return False)) (\<lambda>in_db.
     session_bind (quiet (cli_lift (build_narrative (ev_employee ev) (ev_amount ev) (ev_period ev) (ev_ledger_closed_at ev)))) (\<lambda>narrative.
     session_bind (quiet (cli_lift (Cli_Client.truncate (ev_employee ev) 20))) (\<lambda>name.
     let row = row_cells \<lparr>rr_employee = name, rr_amount = ev_amount ev, rr_period = ev_period ev,
           rr_closed_at = ev_ledger_closed_at ev, rr_in_db = in_db, rr_narrative = narrative\<rparr> in
     session_bind (if in_db then quiet (cli_return ()) else eprintln (unknown_employee ev)) (\<lambda>_.
     print_rows e has_conn evs (table @ [row])))))"

definition amount_mismatch :: "PayrollEvent \<Rightarrow> u64 \<Rightarrow> string" where
  "amount_mismatch ev salary = ''WARN: Amount mismatch for '' @ ev_employee ev @ '': on-chain='' @ show_int (ev_amount ev) @
     '' stroops, local DB='' @ show_nat (unat salary) @ '' stroops''"

primrec print_mismatches :: "cli_env \<Rightarrow> PayrollEvent list \<Rightarrow> nat \<Rightarrow> nat session" where
  "print_mismatches e [] count = quiet (cli_return count)"
| "print_mismatches e (ev # evs) count =
     session_bind (quiet (get_employee e (ev_employee ev))) (\<lambda>r. case r of
       None \<Rightarrow> print_mismatches e evs count
     | Some (_, salary) \<Rightarrow>
         if uint salary \<noteq> ev_amount ev
         then session_bind (eprintln (amount_mismatch ev salary)) (\<lambda>_. print_mismatches e evs (count + 1))
         else print_mismatches e evs count)"

definition report_header :: "ReconcileArgs \<Rightarrow> string list" where
  "report_header args = [''Reconciliation report for company: '' @ ra_company_id args, ''Soroban RPC  : '' @ ra_rpc_url args,
     ''Contract     : '' @ ra_contract_id args, ''Start ledger : '' @ show_u32 (ra_start_ledger args), '''']"

primrec print_lines :: "string list \<Rightarrow> unit session" where
  "print_lines [] = quiet (cli_return ())"
| "print_lines (x # xs) = session_bind (println x) (\<lambda>_. print_lines xs)"

definition table_header :: "string list" where
  "table_header = [''Employee'', ''Amount (XLM)'', ''Period'', ''Ledger closed at'', ''In local DB?'', ''Narrative'']"

definition no_events :: "ReconcileArgs \<Rightarrow> string" where
  "no_events args = ''No PayrollProcessed events found for company '' @ [CHR 0x27] @ ra_company_id args @ [CHR 0x27] @
     '' from ledger '' @ show_u32 (ra_start_ledger args) @ ''.''"

definition print_salary_check :: "cli_env \<Rightarrow> bool \<Rightarrow> PayrollEvent list \<Rightarrow> unit session" where
  "print_salary_check e has_conn evs =
    (if has_conn then session_bind (print_mismatches e evs 0) (\<lambda>mismatches.
       if mismatches > 0
       then eprintln (''WARN: '' @ show_nat mismatches @ '' payment(s) have amounts that differ from the local salary record.'')
       else quiet (cli_return ()))
     else quiet (cli_return ()))"

definition print_payments :: "(string list \<Rightarrow> string list list \<Rightarrow> string) \<Rightarrow> cli_env \<Rightarrow> PayrollEvent list \<Rightarrow> unit session" where
  "print_payments render e evs =
     session_bind (quiet db_path) (\<lambda>path.
     session_bind (quiet (\<lambda>m. (Inr (db_file m \<noteq> None), m))) (\<lambda>has_conn.
     session_bind (quiet (if has_conn then open_db e else cli_return ())) (\<lambda>_.
     session_bind (print_rows e has_conn evs []) (\<lambda>table.
     session_bind (println (render table_header table)) (\<lambda>_.
     session_bind (println (show_nat (length evs) @ '' payment(s) found.'')) (\<lambda>_.
     print_salary_check e has_conn evs))))))"

definition run_report ::
  "('fr, 'x) libs_scheme \<Rightarrow> rpc_server \<Rightarrow> (string list \<Rightarrow> string list list \<Rightarrow> string) \<Rightarrow> cli_env \<Rightarrow> ReconcileArgs \<Rightarrow> unit session" where
  "run_report l server render e args =
     session_bind (print_lines (report_header args)) (\<lambda>_.
     session_bind (quiet (cli_lift (fetch_payroll_events l (ask server (ra_rpc_url args) (ra_contract_id args) (ra_start_ledger args) e)
       (ra_company_id args)))) (\<lambda>evs.
     if evs = [] then println (no_events args) else print_payments render e evs))"

section \<open>\<open>main.rs\<close>: the commands\<close>

text \<open>\<open>BACKUP_WARNING\<close>; the dash in it is the character U+2014.\<close>

definition BACKUP_WARNING :: "string list" where
  "BACKUP_WARNING =
    [''+------------------------------------------------------------------+'',
     ''|                *** CRITICAL BACKUP WARNING ***                   |'',
     ''|                                                                  |'',
     ''|  Your ~/.zk-payroll folder contains blinding factors that are   |'',
     ''|  REQUIRED to generate future ZK payment proofs.                 |'',
     ''|                                                                  |'',
     ''|  If these are lost, employee payments through the smart          |'',
     ''|  contract will be PERMANENTLY BLOCKED '' @ map char_of [0xE2, 0x80, 0x94 :: nat] @ '' there is NO recovery.   |'',
     ''|                                                                  |'',
     ''|  Action required: back up ~/.zk-payroll to an encrypted,        |'',
     ''|  offline location (hardware wallet, encrypted USB, etc.) NOW.   |'',
     ''+------------------------------------------------------------------+'']"

definition print_init_company :: "cli_env \<Rightarrow> unit session" where
  "print_init_company e =
     session_bind (quiet (cmd_init_company e)) (\<lambda>_.
     session_bind (quiet db_path) (\<lambda>path.
     print_lines ([''ZK Payroll database initialised at: '' @ path, ''''] @ BACKUP_WARNING)))"

definition print_add_employee :: "('fr, 'x) libs_scheme \<Rightarrow> cli_env \<Rightarrow> string \<Rightarrow> u64 \<Rightarrow> unit session" where
  "print_add_employee l e pubkey amount =
     session_bind (quiet (cmd_add_employee l e pubkey amount)) (\<lambda>commitment_hex.
     print_lines ([''Successfully generated commitment: 0x'' @ commitment_hex, '''', ''  Employee : '' @ pubkey,
       ''  Salary   : '' @ show_nat (unat amount) @ '' stroops'', ''''] @ BACKUP_WARNING))"

text \<open>The commands as the parser (crate clap) hands them over; \<open>reconcile\<close> has defaults for two options.\<close>

datatype Commands = CmdInitCompany | CmdAddEmployee string u64 | CmdReconcile "string option" string string "u32 option"

definition main_session ::
  "('fr, 'x) libs_scheme \<Rightarrow> rpc_server \<Rightarrow> (string list \<Rightarrow> string list list \<Rightarrow> string) \<Rightarrow> cli_env \<Rightarrow> Commands \<Rightarrow> unit session" where
  "main_session l server render e cmd = (case cmd of
     CmdInitCompany \<Rightarrow> print_init_company e
   | CmdAddEmployee pubkey amount \<Rightarrow> print_add_employee l e pubkey amount
   | CmdReconcile rpc_url contract_id company_id start_ledger \<Rightarrow>
       run_report l server render e \<lparr>ra_rpc_url = unwrap_or DEFAULT_RPC_URL rpc_url, ra_contract_id = contract_id,
         ra_company_id = company_id, ra_start_ledger = unwrap_or 1 start_ledger\<rparr>)"

section \<open>Erasing the terminal\<close>

text \<open>A session refines a command when it changes the machine in the same way and its result is the image of
  the command's result.\<close>

definition refines :: "('b \<Rightarrow> 'a) \<Rightarrow> 'a session \<Rightarrow> 'b cli \<Rightarrow> bool" where
  "refines f c d \<longleftrightarrow> (\<forall>m t. fst (c (m, t)) = map_sum id f (fst (d m)) \<and> fst (snd (c (m, t))) = snd (d m))"

lemma refinesD:
  assumes "refines f c d" "c (m, t) = (Inr x, m', t')"
  obtains y where "d m = (Inr y, m')" "x = f y"
proof -
  have "Inr x = map_sum id f (fst (d m))" "snd (d m) = m'"
    using assms unfolding refines_def by (metis fst_conv snd_conv)+
  then show thesis using that by (cases "d m"; cases "fst (d m)") auto
qed

lemma refines_quiet: "refines (\<lambda>x. x) (quiet c) c"
  by (auto simp: refines_def quiet_def map_sum.id [unfolded id_def] id_def split: prod.split)

lemma refines_bind:
  assumes "refines f c d" "\<And>x. refines g (k (f x)) (k' x)"
  shows "refines g (session_bind c k) (cli_bind d k')"
proof (unfold refines_def, intro allI)
  fix m t
  obtain r m' t' where c: "c (m, t) = (r, m', t')" by (metis prod_cases3)
  obtain r' where d: "d m = (r', m')" "r = map_sum id f r'"
    using assms(1) c unfolding refines_def by (metis fst_conv snd_conv prod.collapse)
  show "fst (session_bind c k (m, t)) = map_sum id g (fst (cli_bind d k' m)) \<and> fst (snd (session_bind c k (m, t))) = snd (cli_bind d k' m)"
    using assms(2) by (cases r') (simp_all add: session_bind_def cli_bind_def c d refines_def)
qed

lemma refines_print: "refines f c d \<Longrightarrow> refines f (session_bind (println x) (\<lambda>_. c)) d"
  "refines f c d \<Longrightarrow> refines f (session_bind (eprintln x) (\<lambda>_. c)) d"
  by (simp_all add: refines_def session_bind_def println_def eprintln_def)

lemma refines_print_lines: "refines f c d \<Longrightarrow> refines f (session_bind (print_lines xs) (\<lambda>_. c)) d"
proof (induction xs)
  case Nil
  then show ?case by (simp add: refines_def session_bind_def quiet_def cli_return_def)
next
  case (Cons x xs)
  then show ?case by (simp add: refines_def session_bind_def println_def split: prod.splits sum.splits)
qed

lemma refines_done: "refines (\<lambda>_. ()) (quiet (cli_return ())) (cli_return y)" "refines (\<lambda>_. ()) (println x) (cli_return y)"
  "refines (\<lambda>_. ()) (eprintln x) (cli_return y)"
  by (simp_all add: refines_def quiet_def cli_return_def println_def eprintln_def)

lemma refines_nothing: "refines (\<lambda>_. ()) (quiet (cli_return ())) (cli_bind (cli_return z) (\<lambda>x. cli_return (h x)))"
  by (simp add: refines_def quiet_def cli_return_def cli_bind_def)

lemma refines_image: "refines f c d \<Longrightarrow> (\<And>x. f x = g (h x)) \<Longrightarrow> refines g c (cli_bind d (\<lambda>x. cli_return (h x)))"
  by (auto simp: refines_def cli_bind_def cli_return_def map_sum.comp split: prod.split sum.split)

lemma print_rows_refines: "refines (\<lambda>rows. table @ map row_cells rows) (print_rows e has_conn evs table) (report_rows e has_conn evs)"
proof (induction evs arbitrary: table)
  case Nil
  then show ?case by (simp add: refines_def quiet_def cli_return_def)
next
  case (Cons ev evs)
  have "refines (\<lambda>rows. table @ map row_cells rows)
      (session_bind (if in_db then quiet (cli_return ()) else eprintln (unknown_employee ev)) (\<lambda>_. print_rows e has_conn evs (table @ [row_cells r])))
      (cli_bind (report_rows e has_conn evs) (\<lambda>rows. cli_return (r # rows)))" for in_db r
    using refines_image [OF Cons [of "table @ [row_cells r]"], of "\<lambda>rows. table @ map row_cells rows" "\<lambda>rows. r # rows"]
    by (cases in_db) (auto simp: refines_def session_bind_def quiet_def cli_return_def eprintln_def)
  then show ?case by (auto simp: Let_def intro!: refines_bind [OF refines_quiet])
qed

lemma print_mismatches_refines: "refines (\<lambda>n. n) (print_mismatches e evs count) (check_salary_mismatches e evs count)"
proof (induction evs arbitrary: count)
  case (Cons ev evs)
  then show ?case by (auto intro!: refines_bind [OF refines_quiet] refines_print split: option.split)
qed (simp add: refines_quiet)

lemma ask_irrelevant [simp]:
  "open_db (ask server u c n e) = open_db e" "report_rows (ask server u c n e) b evs = report_rows e b evs"
  "check_salary_mismatches (ask server u c n e) evs k = check_salary_mismatches e evs k"
proof -
  have io: "io_fails (ask server u c n e) = io_fails e" "default_file_mode (ask server u c n e) = default_file_mode e"
    by (simp_all add: ask_def)
  have get: "get_employee (ask server u c n e) k = get_employee e k" for k by (simp add: get_employee_def io fun_eq_iff)
  then have ex: "employee_exists (ask server u c n e) k = employee_exists e k" for k by (simp add: employee_exists_def)
  show "open_db (ask server u c n e) = open_db e" by (simp add: open_db_def cli_io_def [abs_def] io cong: option.case_cong)
  show "report_rows (ask server u c n e) b evs = report_rows e b evs" by (induction evs) (simp_all add: ex)
  show "check_salary_mismatches (ask server u c n e) evs k = check_salary_mismatches e evs k"
    by (induction evs arbitrary: k) (simp_all add: get)
qed

text \<open>The report of a session is that of \<open>reconcile_run\<close> on the reply of the server.\<close>

lemma run_report_refines:
  "refines (\<lambda>_. ()) (run_report l server render e args)
     (reconcile_run l (ask server (ra_rpc_url args) (ra_contract_id args) (ra_start_ledger args) e) (ra_company_id args))"
  unfolding run_report_def print_payments_def print_salary_check_def reconcile_run_def ask_irrelevant
  by (intro refines_print_lines refines_bind [OF refines_quiet] refines_print refines_bind [OF print_rows_refines])
    (auto intro!: refines_print_lines refines_bind [OF refines_quiet] refines_print refines_bind [OF print_rows_refines]
      refines_bind [OF print_mismatches_refines] refines_done refines_nothing)

section \<open>What is printed\<close>

definition keeps_stdout :: "'a session \<Rightarrow> bool" where
  "keeps_stdout c \<longleftrightarrow> (\<forall>s. stdout (snd (snd (c s))) = stdout (snd s))"

lemma keeps_stdoutD: "keeps_stdout c \<Longrightarrow> c (m, t) = (r, m', t') \<Longrightarrow> stdout t' = stdout t"
  unfolding keeps_stdout_def by (metis snd_conv)

lemma keeps_stdout_basic: "keeps_stdout (quiet c)" "keeps_stdout (eprintln x)"
  by (simp_all add: keeps_stdout_def quiet_def eprintln_def split: prod.split)

lemma keeps_stdout_bind: "keeps_stdout c \<Longrightarrow> (\<And>x. keeps_stdout (f x)) \<Longrightarrow> keeps_stdout (session_bind c f)"
  by (simp add: keeps_stdout_def session_bind_def split: prod.split sum.split) (metis snd_conv)

lemma keeps_stdout_if: "keeps_stdout c \<Longrightarrow> keeps_stdout d \<Longrightarrow> keeps_stdout (if b then c else d)"
  by simp

lemma keeps_stdout_loops: "keeps_stdout (print_rows e b evs table)" "keeps_stdout (print_mismatches e evs k)"
proof -
  show "keeps_stdout (print_rows e b evs table)"
    by (induction evs arbitrary: table) (auto simp: Let_def intro!: keeps_stdout_bind keeps_stdout_basic)
  show "keeps_stdout (print_mismatches e evs k)"
    by (induction evs arbitrary: k) (auto intro!: keeps_stdout_bind keeps_stdout_basic split: option.split)
qed

lemma keeps_stdout_check: "keeps_stdout (print_salary_check e b evs)"
  unfolding print_salary_check_def by (intro keeps_stdout_if keeps_stdout_bind keeps_stdout_basic keeps_stdout_loops)

lemma session_bind_ok: "session_bind c f s = (Inr v, s') \<longleftrightarrow> (\<exists>x s''. c s = (Inr x, s'') \<and> f x s'' = (Inr v, s'))"
  by (auto simp: session_bind_def split: prod.splits sum.splits)

lemma println_ok: "println x s = (Inr u, m', t') \<longleftrightarrow> m' = fst s \<and> t' = (snd s)\<lparr>stdout := stdout (snd s) @ [x]\<rparr>"
  by (auto simp: println_def)

lemma print_lines_ok: "print_lines xs (m, t) = (Inr u, m', t') \<longleftrightarrow> m' = m \<and> t' = t\<lparr>stdout := stdout t @ xs\<rparr>"
  by (induction xs arbitrary: t) (auto simp: quiet_def cli_return_def session_bind_ok println_ok)

lemma quiet_ok: "quiet c s = (Inr v, m', t') \<longleftrightarrow> c (fst s) = (Inr v, m') \<and> t' = snd s"
  by (auto simp: quiet_def split: prod.splits)

lemma report_rows_length: "report_rows e b evs m = (Inr rows, m') \<Longrightarrow> length rows = length evs"
  by (induction evs arbitrary: m rows m') auto

lemma session_bind_okE:
  assumes "session_bind c f s = (Inr v, s')"
  obtains x m'' t'' where "c s = (Inr x, m'', t'')" "f x (m'', t'') = (Inr v, s')"
  using assms by (auto simp: session_bind_ok)

text \<open>The rows that are printed are those of the report, and the final check prints nothing to the standard
  output.\<close>

lemma print_payments_output:
  assumes "print_payments render e evs (m, t) = (Inr (), m', t')"
  obtains rows m1 m2 where "(if db_file m \<noteq> None then open_db e else cli_return ()) m = (Inr (), m1)"
    "report_rows e (db_file m \<noteq> None) evs m1 = (Inr rows, m2)"
    "stdout t' = stdout t @ [render table_header (map row_cells rows), show_nat (length evs) @ '' payment(s) found.'']"
  using assms unfolding print_payments_def
proof (elim session_bind_okE)
  fix path m0 t0 has m1 t1 u m2 t2 table m3 t3 u1 m4 t4 u2 m5 t5
  assume c: "quiet db_path (m, t) = (Inr path, m0, t0)" "quiet (\<lambda>m. (Inr (db_file m \<noteq> None), m)) (m0, t0) = (Inr has, m1, t1)"
    "quiet (if has then open_db e else cli_return ()) (m1, t1) = (Inr u, m2, t2)"
    and rows: "print_rows e has evs [] (m2, t2) = (Inr table, m3, t3)"
    and lines: "println (render table_header table) (m3, t3) = (Inr u1, m4, t4)"
      "println (show_nat (length evs) @ '' payment(s) found.'') (m4, t4) = (Inr u2, m5, t5)"
    and last: "print_salary_check e has evs (m5, t5) = (Inr (), m', t')"
  have has: "has = (db_file m \<noteq> None)" "t2 = t" and m: "m1 = m"
    using c by (auto simp: quiet_ok db_path_def split: option.splits)
  obtain rs where rs: "report_rows e has evs m2 = (Inr rs, m3)" "table = map row_cells rs"
    using refinesD [OF print_rows_refines rows] by auto
  have "stdout t3 = stdout t2"
    by (rule keeps_stdoutD [OF keeps_stdout_loops(1) rows])
  moreover have "stdout t' = stdout t5"
    by (rule keeps_stdoutD [OF keeps_stdout_check last])
  moreover have "stdout t5 = stdout t3 @ [render table_header table, show_nat (length evs) @ '' payment(s) found.'']"
    using lines by (auto simp: println_ok)
  ultimately show thesis using that [of m2 rs m3] c(3) rs by (simp add: has m quiet_ok)
qed

text \<open>A report that ends without an error prints its heading, then either that nothing was found or the
  table with one row per payment and their number; the rows are those of \<open>reconcile_run\<close>.\<close>

lemma report_output:
  assumes "run_report l server render e args (m, t) = (Inr (), m', t')"
  obtains rows n where "reconcile_run l (ask server (ra_rpc_url args) (ra_contract_id args) (ra_start_ledger args) e) (ra_company_id args) m =
      (Inr (rows, n), m')"
    and "stdout t' = stdout t @ report_header args @ (if rows = [] then [no_events args]
      else [render table_header (map row_cells rows), show_nat (length rows) @ '' payment(s) found.''])"
proof -
  let ?e = "ask server (ra_rpc_url args) (ra_contract_id args) (ra_start_ledger args) e"
  obtain evs where evs: "fetch_payroll_events l ?e (ra_company_id args) = Inr evs"
    and rest: "(if evs = [] then println (no_events args) else print_payments render e evs)
      (m, t\<lparr>stdout := stdout t @ report_header args\<rparr>) = (Inr (), m', t')"
    using assms unfolding run_report_def by (elim session_bind_okE) (auto simp: print_lines_ok quiet_ok)
  obtain y where y: "reconcile_run l ?e (ra_company_id args) m = (Inr y, m')"
    using refinesD [OF run_report_refines assms] by blast
  show thesis
  proof (cases "evs = []")
    case True
    with rest y evs that [of "[]" 0] show thesis by (auto simp: reconcile_run_def println_ok)
  next
    case False
    with rest obtain rows m1 m2 where r: "(if db_file m \<noteq> None then open_db e else cli_return ()) m = (Inr (), m1)"
      "report_rows e (db_file m \<noteq> None) evs m1 = (Inr rows, m2)"
      "stdout t' = stdout t @ report_header args @ [render table_header (map row_cells rows), show_nat (length evs) @ '' payment(s) found.'']"
      by (auto elim: print_payments_output)
    have "fst y = rows"
      using y evs False r(1,2) by (auto simp: reconcile_run_def db_path_def split: if_splits option.splits)
    moreover have "length rows = length evs" using report_rows_length [OF r(2)] .
    moreover from this have "rows \<noteq> []" using False by auto
    ultimately show thesis using y r(3) that [of rows "snd y"] by (cases y) simp
  qed
qed

section \<open>One page of events\<close>

text \<open>The request asks for one page of 200 events and the client never asks for the next one: a server that
  keeps to the limit makes it report at most 200 payments, whatever happened on the ledger.\<close>

definition keeps_limit :: "rpc_server \<Rightarrow> bool" where
  "keeps_limit server \<longleftrightarrow> (\<forall>url rq resp evs. server url rq = Some resp \<and> rpc_result resp = Some evs \<longrightarrow> length evs \<le> rq_limit rq)"

lemma collect_length: "collect_payroll_events l co raws out = Inr evs \<Longrightarrow> length evs \<le> length out + length raws"
  by (induction raws arbitrary: out) (force split: if_splits option.splits)+

lemma report_at_most_one_page:
  assumes "keeps_limit server" "reconcile_run l (ask server u c n e) co m = (Inr (rows, k), m')"
  shows "length rows \<le> 200"
proof -
  let ?e = "ask server u c n e"
  obtain evs where evs: "fetch_payroll_events l ?e co = Inr evs" "length rows = length evs"
    using assms(2) by (auto simp: reconcile_run_def split: if_splits dest!: report_rows_length)
  then obtain resp where "server u (get_events_body c n) = Some resp"
    "collect_payroll_events l co (unwrap_or [] (rpc_result resp)) [] = Inr evs"
    by (auto simp: fetch_payroll_events_def ask_def)
  moreover have "length (unwrap_or [] (rpc_result resp)) \<le> 200"
    using assms(1) calculation(1) unfolding keeps_limit_def
    by (cases "rpc_result resp") (simp_all, metis get_events_body_def get_events_request.select_convs(5))
  ultimately show ?thesis using collect_length [of l co "unwrap_or [] (rpc_result resp)" "[]" evs] evs(2) by simp
qed

section \<open>The commands on the machine\<close>

text \<open>What a command does to the machine does not depend on the terminal: it is what \<open>run_command\<close> does, so the
  theorems on the table of blinding factors hold of sessions.\<close>

definition erase_command :: "rpc_server \<Rightarrow> cli_env \<Rightarrow> Commands \<Rightarrow> cli_env \<times> command" where
  "erase_command server e cmd = (case cmd of
     CmdInitCompany \<Rightarrow> (e, InitCompany)
   | CmdAddEmployee pubkey amount \<Rightarrow> (e, AddEmployee pubkey amount)
   | CmdReconcile rpc_url contract_id company_id start_ledger \<Rightarrow>
       (ask server (unwrap_or DEFAULT_RPC_URL rpc_url) contract_id (unwrap_or 1 start_ledger) e, Reconcile company_id))"

lemma print_lines_eq: "print_lines xs (m, t) = (Inr (), m, t\<lparr>stdout := stdout t @ xs\<rparr>)"
  using print_lines_ok by blast

lemma main_session_machine:
  "fst (snd (main_session l server render e cmd (m, t))) = run_command l (erase_command server e cmd) m"
proof (cases cmd)
  case CmdInitCompany
  then show ?thesis
    by (simp add: main_session_def print_init_company_def erase_command_def run_command_def session_bind_def quiet_def
        print_lines_eq db_path_def del: print_lines.simps split: prod.split sum.split option.split)
next
  case (CmdAddEmployee k a)
  then show ?thesis
    by (simp add: main_session_def print_add_employee_def erase_command_def run_command_def session_bind_def quiet_def
        print_lines_eq del: print_lines.simps split: prod.split sum.split)
next
  case (CmdReconcile u c co n)
  let ?args = "\<lparr>ra_rpc_url = unwrap_or DEFAULT_RPC_URL u, ra_contract_id = c, ra_company_id = co, ra_start_ledger = unwrap_or 1 n\<rparr>"
  show ?thesis using run_report_refines [of l server render e ?args]
    by (simp add: CmdReconcile main_session_def erase_command_def run_command_def refines_def)
qed

end
