(* ===== verification/Cli_Tests.thy ===== *)
theory Cli_Tests
  imports Cli_Report
begin

text \<open>
  The unit tests of the command line client (\<open>main.rs\<close>, \<open>db.rs\<close>, \<open>rpc.rs\<close>, \<open>reconcile.rs\<close>), each under the name
  it has in the source, as a truth value. The in-memory database is a machine whose table exists and
  whose disk does not fail. The tests of \<open>crypto.rs\<close> are about the random numbers and the hash of the crates.
\<close>

section \<open>\<open>main.rs\<close>\<close>

definition valid_key :: string where
  "valid_key = ''G'' @ replicate 55 CHR ''A''"

definition valid_pubkey_passes_validation :: bool where
  "valid_pubkey_passes_validation = (validate_stellar_pubkey valid_key = Inr ())"

definition wrong_prefix_is_rejected :: bool where
  "wrong_prefix_is_rejected = isl (validate_stellar_pubkey (''S'' @ replicate 55 CHR ''A''))"

definition wrong_length_is_rejected :: bool where
  "wrong_length_is_rejected = (isl (validate_stellar_pubkey ''GABC'') \<and>
     isl (validate_stellar_pubkey (''G'' @ replicate 60 CHR ''A'')))"

definition invalid_chars_are_rejected :: bool where
  "invalid_chars_are_rejected = (let bad_key = valid_key[20 := CHR 0x21] in isl (validate_stellar_pubkey bad_key))"

section \<open>\<open>db.rs\<close>\<close>

definition sound_disk :: cli_env where
  "sound_disk = \<lparr>io_fails = (\<lambda>_. False), default_dir_mode = 0, default_file_mode = 0, os_rng = [], rpc_reply = None\<rparr>"

definition in_memory_conn :: machine where
  "in_memory_conn = snd (initialise sound_disk
     \<lparr>home_dir = None, zk_dir_mode = None, db_mode = 0, db_file = Some None\<rparr>)"

definition test_pubkey :: string where
  "test_pubkey = ''GAAZI4TCR3TY5OJHCTJC2A4QSY6CJWJH5IAJTGKIN2ER7LBNVKOCCWN''"

definition initialise_is_idempotent :: bool where
  "initialise_is_idempotent = (fst (initialise sound_disk in_memory_conn) = Inr ())"

definition insert_and_retrieve_employee :: bool where
  "insert_and_retrieve_employee = (let blinding = replicate 64 CHR ''a'' in
     case insert_employee sound_disk test_pubkey blinding 5000000 in_memory_conn of
       (Inl _, _) \<Rightarrow> False
     | (Inr _, conn) \<Rightarrow> fst (get_employee sound_disk test_pubkey conn) = Inr (Some (blinding, 5000000)))"

definition insert_duplicate_pubkey_errors :: bool where
  "insert_duplicate_pubkey_errors = (let blinding = replicate 64 CHR ''b'' in
     case insert_employee sound_disk test_pubkey blinding 1000 in_memory_conn of
       (Inl _, _) \<Rightarrow> False
     | (Inr _, conn) \<Rightarrow> isl (fst (insert_employee sound_disk test_pubkey blinding 2000 conn)))"

definition get_employee_returns_none_for_unknown_pubkey :: bool where
  "get_employee_returns_none_for_unknown_pubkey = (fst (get_employee sound_disk ''GNOBODY'' in_memory_conn) = Inr None)"

definition employee_exists_reflects_insertion :: bool where
  "employee_exists_reflects_insertion = (fst (employee_exists sound_disk test_pubkey in_memory_conn) = Inr False \<and>
     (case insert_employee sound_disk test_pubkey (replicate 64 CHR ''d'') 1 in_memory_conn of
       (Inl _, _) \<Rightarrow> False
     | (Inr _, conn) \<Rightarrow> fst (employee_exists sound_disk test_pubkey conn) = Inr True))"

section \<open>\<open>rpc.rs\<close>\<close>

text \<open>The encoders of the crates are arguments; the theorem assumes that the decoders undo them.\<close>

definition decode_symbol_scval_roundtrip :: "('fr, 'x) libs_scheme \<Rightarrow> (ScVal \<Rightarrow> bytes) \<Rightarrow> (bytes \<Rightarrow> string) \<Rightarrow> bool" where
  "decode_symbol_scval_roundtrip l to_xdr b64_encode =
     (let sym = ScSymbol (map of_char ''PayrollProcessed''); xdr = to_xdr sym; b64 = b64_encode xdr in
     case decode_scval l b64 of
       Inr (ScSymbol s) \<Rightarrow> from_utf8 s = Inr ''PayrollProcessed''
     | _ \<Rightarrow> False)"

section \<open>\<open>reconcile.rs\<close>\<close>

definition truncate_short_string_unchanged :: bool where
  "truncate_short_string_unchanged = (Cli_Client.truncate ''GABC'' 20 = Inr ''GABC'')"

text \<open>A character that does not continue another one counts as one.\<close>

definition char_count :: "string \<Rightarrow> nat" where
  "char_count s = length (filter (\<lambda>c. \<not> utf8_tail (of_char c)) s)"

definition truncate_long_string_appends_ellipsis :: bool where
  "truncate_long_string_appends_ellipsis = (case Cli_Client.truncate (replicate 30 CHR ''G'') 20 of
     Inl _ \<Rightarrow> False
   | Inr result \<Rightarrow> drop (length result - 3) result = map char_of [0xE2, 0x80, 0xA6 :: nat] \<and> char_count result \<le> 21)"

definition narrative_includes_date_and_period :: bool where
  "narrative_includes_date_and_period = (case build_narrative ''GAAZ1234'' 10000000 3 ''2024-12-01T00:00:00Z'' of
     Inl _ \<Rightarrow> False
   | Inr n \<Rightarrow> contains ''2024-12-01'' (narrative_text n) \<and> contains ''period 3'' (narrative_text n) \<and> contains ''1.000 XLM'' (narrative_text n))"

section \<open>Outcomes\<close>

lemma pubkey_tests_pass: "valid_pubkey_passes_validation" "wrong_prefix_is_rejected" "wrong_length_is_rejected" "invalid_chars_are_rejected"
  by (simp_all add: valid_pubkey_passes_validation_def wrong_prefix_is_rejected_def wrong_length_is_rejected_def invalid_chars_are_rejected_def
      valid_key_def validate_stellar_pubkey_def is_base32_char_def fail_if_def numeral_eq_Suc of_char_def Let_def)

lemma db_tests_pass: "initialise_is_idempotent" "insert_and_retrieve_employee" "insert_duplicate_pubkey_errors"
  "get_employee_returns_none_for_unknown_pubkey" "employee_exists_reflects_insertion"
  by (simp_all add: initialise_is_idempotent_def insert_and_retrieve_employee_def insert_duplicate_pubkey_errors_def
      get_employee_returns_none_for_unknown_pubkey_def employee_exists_reflects_insertion_def in_memory_conn_def sound_disk_def
      initialise_def insert_employee_def get_employee_def employee_exists_def cli_io_def cli_bind_def cli_return_def Let_def)

lemma scval_test_passes:
  assumes "\<And>v. from_xdr l (to_xdr v) = Some v" "\<And>bs. b64_decode l (b64_encode bs) = Some bs"
  shows "decode_symbol_scval_roundtrip l to_xdr b64_encode"
  using assms from_utf8_ascii [of "''PayrollProcessed''"]
  by (simp add: decode_symbol_scval_roundtrip_def decode_scval_def ascii_def Let_def)

lemma truncate_tests_pass: "truncate_short_string_unchanged" "truncate_long_string_appends_ellipsis"
  by (simp_all add: truncate_short_string_unchanged_def truncate_long_string_appends_ellipsis_def Cli_Client.truncate_def str_prefix_def
      char_count_def utf8_tail_def filter_replicate char_of_def of_char_def bit_0)

lemma narrative_test_passes: "narrative_includes_date_and_period"
proof -
  have "build_narrative ''GAAZ1234'' 10000000 3 ''2024-12-01T00:00:00Z'' =
      Inr \<lparr>na_date = ''2024-12-01'', na_name = ''GAAZ1234'', na_amount = 10000000, na_period = 3\<rparr>"
    by (simp add: build_narrative_def str_prefix_def)
  moreover have "show_nat (unat (3 :: u32)) = ''3''" by (simp add: show_nat.simps char_of_def bit_0)
  ultimately show ?thesis
    by (simp add: narrative_includes_date_and_period_def narrative_text_def stroops_to_xlm_display_formats_correctly(1))
qed

text \<open>The key that the error message of the check gives as an example, and that the tests of the table use, is
  one character short: the check refuses it.\<close>

lemma example_key_rejected: "validate_stellar_pubkey test_pubkey = Inl (InvalidPubkey test_pubkey)"
  by (simp add: validate_stellar_pubkey_def test_pubkey_def)

end
