(* ===== verification/Symbol_Tests.thy ===== *)
theory Symbol_Tests
  imports Payroll_Symbols Test_Programs
begin

text \<open>
  The unit tests on asset symbols: those of \<open>payroll/src/lib.rs\<close>, and those of
  \<open>payment_executor/src/lib.rs\<close>, which bring a normalization of their own. \<open>Symbol::new\<close> of the host is the
  argument \<open>symbol_new\<close>; the theorems assume what its documentation says: a text of up to 32 letters,
  digits and underscores is a symbol, and the symbol is that text.
\<close>

definition symbol_char :: "char \<Rightarrow> bool" where
  "symbol_char c = (let n = of_char c :: nat in n = 95 \<or> 48 \<le> n \<and> n \<le> 57 \<or> 65 \<le> n \<and> n \<le> 90 \<or> 97 \<le> n \<and> n \<le> 122)"

definition symbols_kept :: "(string \<Rightarrow> symbol outcome) \<Rightarrow> bool" where
  "symbols_kept symbol_new \<longleftrightarrow> (\<forall>s. length s \<le> 32 \<and> list_all symbol_char s \<longrightarrow> symbol_new s = Inr s)"

text \<open>A string literal as a list of scalar values.\<close>

definition str :: "string \<Rightarrow> scalars" where
  "str s = map of_char s"

section \<open>The tests of the payroll contract\<close>

definition test_asset_symbol_normalization_mixed_case_and_whitespace :: "(string \<Rightarrow> symbol outcome) \<Rightarrow> unit outcome" where
  "test_asset_symbol_normalization_mixed_case_and_whitespace symbol_new =
     and_then (normalize_asset_symbol symbol_new (str ''usdc'')) (\<lambda>n.
     and_then (symbol_new ''USDC'') (\<lambda>s.
     and_then (check (n = s)) (\<lambda>_.
     and_then (normalize_asset_symbol symbol_new (str ''  USDC  '')) (\<lambda>n.
     and_then (check (n = s)) (\<lambda>_.
     and_then (normalize_asset_symbol symbol_new (str ''usd_coin'')) (\<lambda>n.
     and_then (symbol_new ''USD_COIN'') (\<lambda>s.
     check (n = s))))))))"

definition test_asset_symbol_normalization_rejects_empty_symbol :: "(string \<Rightarrow> symbol outcome) \<Rightarrow> unit outcome" where
  "test_asset_symbol_normalization_rejects_empty_symbol symbol_new =
     call (normalize_asset_symbol symbol_new (str ''   ''))"

definition test_asset_symbol_normalization_rejects_symbol_over_32_bytes :: "(string \<Rightarrow> symbol outcome) \<Rightarrow> unit outcome" where
  "test_asset_symbol_normalization_rejects_symbol_over_32_bytes symbol_new =
     call (normalize_asset_symbol symbol_new (str ''ABCDEFGHIJKLMNOPQRSTUVWXYZ1234567890''))"

definition test_asset_symbol_normalization_before_allowlist_and_reservation_checks :: "(string \<Rightarrow> symbol outcome) \<Rightarrow> unit outcome" where
  "test_asset_symbol_normalization_before_allowlist_and_reservation_checks symbol_new =
     and_then (symbol_new ''USDC'') (\<lambda>allowlist_symbol.
     and_then (normalize_asset_symbol symbol_new (str ''usdc'')) (\<lambda>submitted_symbol.
     and_then (check (submitted_symbol = allowlist_symbol)) (\<lambda>_.
     and_then (normalize_asset_symbol symbol_new (str ''  USDC  '')) (\<lambda>n.
     check (n = allowlist_symbol)))))"

section \<open>The tests of the executor\<close>

definition pe_normalize_asset_symbol :: "(string \<Rightarrow> symbol outcome) \<Rightarrow> scalars \<Rightarrow> symbol outcome" where
  "pe_normalize_asset_symbol symbol_new symbol =
     (let normalized = map ascii_upper (trim symbol) in
     symbol_new (map char_of (as_bytes normalized)))"

definition test_normalize_asset_symbol_trims_and_uppercases :: "(string \<Rightarrow> symbol outcome) \<Rightarrow> unit outcome" where
  "test_normalize_asset_symbol_trims_and_uppercases symbol_new =
     and_then (pe_normalize_asset_symbol symbol_new (str ''  usdc '')) (\<lambda>n.
     and_then (symbol_new ''USDC'') (\<lambda>s.
     check (n = s)))"

definition test_normalize_asset_symbol_preserves_canonical_asset_codes :: "(string \<Rightarrow> symbol outcome) \<Rightarrow> unit outcome" where
  "test_normalize_asset_symbol_preserves_canonical_asset_codes symbol_new =
     and_then (pe_normalize_asset_symbol symbol_new (str ''USDC'')) (\<lambda>n.
     and_then (symbol_new ''USDC'') (\<lambda>s.
     check (n = s)))"

definition test_normalize_asset_symbol_handles_mixed_case_alphanumeric_codes :: "(string \<Rightarrow> symbol outcome) \<Rightarrow> unit outcome" where
  "test_normalize_asset_symbol_handles_mixed_case_alphanumeric_codes symbol_new =
     and_then (pe_normalize_asset_symbol symbol_new (str ''  xLm12 '')) (\<lambda>n.
     and_then (symbol_new ''XLM12'') (\<lambda>s.
     check (n = s)))"

definition test_allowlist_comparison_uses_normalized_symbol :: "(string \<Rightarrow> symbol outcome) \<Rightarrow> unit outcome" where
  "test_allowlist_comparison_uses_normalized_symbol symbol_new =
     and_then (symbol_new ''USDC'') (\<lambda>allowlisted.
     and_then (symbol_new ''usdc'') (\<lambda>raw_submitted.
     and_then (check (raw_submitted \<noteq> allowlisted)) (\<lambda>_.
     and_then (pe_normalize_asset_symbol symbol_new (str ''usdc'')) (\<lambda>normalized.
     check (normalized = allowlisted)))))"

section \<open>Outcomes\<close>

lemma symbol_kept: "symbols_kept symbol_new \<Longrightarrow> length s \<le> 32 \<Longrightarrow> list_all symbol_char s \<Longrightarrow> symbol_new s = Inr s"
  by (simp add: symbols_kept_def)

lemma bit_one_0: "bit (Suc 0) 0"
  by (simp add: bit_0)

lemmas symbol_test_steps = symbol_kept bit_one_0 symbol_char_def str_def normalize_asset_symbol_def pe_normalize_asset_symbol_def
  normalize_byte_def ascii_upper_def trim_def is_whitespace_def as_bytes_def utf8_def char_of_def of_char_def

lemma symbol_tests_pass:
  assumes "symbols_kept symbol_new"
  shows "test_asset_symbol_normalization_mixed_case_and_whitespace symbol_new = Inr ()"
    "should_panic ''Asset symbol cannot be empty'' (test_asset_symbol_normalization_rejects_empty_symbol symbol_new)"
    "should_panic ''Asset symbol too long'' (test_asset_symbol_normalization_rejects_symbol_over_32_bytes symbol_new)"
    "test_asset_symbol_normalization_before_allowlist_and_reservation_checks symbol_new = Inr ()"
    "test_normalize_asset_symbol_trims_and_uppercases symbol_new = Inr ()"
    "test_normalize_asset_symbol_preserves_canonical_asset_codes symbol_new = Inr ()"
    "test_normalize_asset_symbol_handles_mixed_case_alphanumeric_codes symbol_new = Inr ()"
    "test_allowlist_comparison_uses_normalized_symbol symbol_new = Inr ()"
  using assms
  by (simp_all add: test_asset_symbol_normalization_mixed_case_and_whitespace_def
      test_asset_symbol_normalization_rejects_empty_symbol_def
      test_asset_symbol_normalization_rejects_symbol_over_32_bytes_def
      test_asset_symbol_normalization_before_allowlist_and_reservation_checks_def
      test_normalize_asset_symbol_trims_and_uppercases_def
      test_normalize_asset_symbol_preserves_canonical_asset_codes_def
      test_normalize_asset_symbol_handles_mixed_case_alphanumeric_codes_def
      test_allowlist_comparison_uses_normalized_symbol_def
      symbol_test_steps)

end
