(* ===== verification/Payroll_Test_Setup.thy ===== *)
theory Payroll_Test_Setup
  imports Test_Ledger
begin

text \<open>
  What the unit tests of \<open>contracts/payroll/src/lib.rs\<close> share: the set-up, which registers and connects a
  verifier, a commitment contract, a token and the payroll contract, the clients through which the tests
  call them, and the state that the set-up leaves. \<open>mock_vk\<close>, \<open>mock_proof\<close> and \<open>test_nonce\<close> are the ones of
  the integration tests, word for word. The set-up takes the addresses \<open>gen 0\<close> to \<open>gen 9\<close>; what a test
  generates itself starts at \<open>gen 10\<close>.
\<close>

section \<open>Clients\<close>

text \<open>Calls of the payroll contract at \<open>gen 5\<close>: without a result, with a result, and those that move tokens.\<close>

definition p_do :: "env \<Rightarrow> (nat \<Rightarrow> address) \<Rightarrow> (venv \<Rightarrow> payroll \<Rightarrow> payroll outcome) \<Rightarrow> ledger \<Rightarrow> ledger outcome" where
  "p_do e gen f L = and_then (payroll_client e (gen 5) (\<lambda>e w. no_value (on_pay (f e) w)) L) (\<lambda>(_, L). Inr L)"

definition p_new :: "env \<Rightarrow> (nat \<Rightarrow> address) \<Rightarrow> (venv \<Rightarrow> payroll \<Rightarrow> ('r \<times> payroll) outcome) \<Rightarrow> ledger \<Rightarrow> ('r \<times> ledger) outcome" where
  "p_new e gen f L = payroll_client e (gen 5) (\<lambda>e w. and_then (f e (pay w)) (\<lambda>(r, s). Inr (r, w\<lparr>pay := s\<rparr>))) L"

definition p_move :: "env \<Rightarrow> (nat \<Rightarrow> address) \<Rightarrow> (venv \<Rightarrow> world \<Rightarrow> world outcome) \<Rightarrow> ledger \<Rightarrow> ledger outcome" where
  "p_move e gen f L = and_then (payroll_client e (gen 5) (\<lambda>e w. no_value (f e w)) L) (\<lambda>(_, L). Inr L)"

text \<open>Calls that only read.\<close>

definition p_try :: "(nat \<Rightarrow> address) \<Rightarrow> (payroll \<Rightarrow> 'r outcome) \<Rightarrow> ledger \<Rightarrow> 'r outcome" where
  "p_try gen f L = client (payrolls L) (gen 5) f"

definition p_get :: "(nat \<Rightarrow> address) \<Rightarrow> (payroll \<Rightarrow> 'r) \<Rightarrow> ledger \<Rightarrow> 'r outcome" where
  "p_get gen f L = p_try gen (\<lambda>s. Inr (f s)) L"

definition p_view :: "(nat \<Rightarrow> address) \<Rightarrow> (world \<Rightarrow> 'r outcome) \<Rightarrow> ledger \<Rightarrow> 'r outcome" where
  "p_view gen f L = client (\<lambda>a. payroll_view a L) (gen 5) f"

definition p_batch :: "env \<Rightarrow> (nat \<Rightarrow> address) \<Rightarrow> bytes list \<times> i128 list \<times> address list \<Rightarrow> i128 \<Rightarrow> bytes \<Rightarrow> bytes option \<Rightarrow>
    ledger \<Rightarrow> (u64 \<times> ledger) outcome" where
  "p_batch e gen b tot nonce draft_hash L = (case b of (proofs, amounts, employees) \<Rightarrow>
     payroll_client e (gen 5) (\<lambda>e w. batch_process_payroll e proofs amounts employees tot nonce draft_hash w) L)"

definition p_prepare :: "env \<Rightarrow> (nat \<Rightarrow> address) \<Rightarrow> bytes list \<times> i128 list \<times> address list \<Rightarrow> i128 \<Rightarrow> bytes \<Rightarrow> bytes option \<Rightarrow>
    ledger \<Rightarrow> (u64 \<times> ledger) outcome" where
  "p_prepare e gen b tot nonce draft_hash L = (case b of (proofs, amounts, employees) \<Rightarrow>
     p_new e gen (\<lambda>e. prepare_payroll_run e proofs amounts employees tot nonce draft_hash) L)"

definition p_mint :: "(nat \<Rightarrow> address) \<Rightarrow> address \<Rightarrow> i128 \<Rightarrow> ledger \<Rightarrow> ledger outcome" where
  "p_mint gen a n L = and_then (token_client (gen 4) (\<lambda>t. no_value (mint a n t)) L) (\<lambda>(_, L). Inr L)"

definition p_balance :: "(nat \<Rightarrow> address) \<Rightarrow> address \<Rightarrow> ledger \<Rightarrow> i128 outcome" where
  "p_balance gen a L = client (token_contracts L) (gen 4) (\<lambda>t. Inr (balance t a))"

definition p_store :: "env \<Rightarrow> (nat \<Rightarrow> address) \<Rightarrow> address \<Rightarrow> bytes \<Rightarrow> ledger \<Rightarrow> ledger outcome" where
  "p_store e gen employee c L = and_then (commitment_client e (gen 2) (\<lambda>e s. store_commitment e employee c s) L) (\<lambda>(_, L). Inr L)"

definition pm_do :: "env \<Rightarrow> address \<Rightarrow> (env \<Rightarrow> pause_manager \<Rightarrow> pause_manager outcome) \<Rightarrow> ledger \<Rightarrow> ledger outcome" where
  "pm_do e a f L = and_then (manager_client e a f L) (\<lambda>(_, L). Inr L)"

definition register_manager :: "address \<Rightarrow> ledger \<Rightarrow> ledger" where
  "register_manager a L = L\<lparr>managers := (managers L)(a \<mapsto> fresh_pause_manager)\<rparr>"

section \<open>Set-up\<close>

definition payroll_registered :: "(nat \<Rightarrow> address) \<Rightarrow> ledger" where
  "payroll_registered gen = \<lparr>managers = Map.empty, token_contracts = [gen 4 \<mapsto> \<lparr>balances = Map.empty\<rparr>],
     verifier_contracts = [gen 0 \<mapsto> fresh_verifier], salary_ledgers = [gen 2 \<mapsto> fresh_salary],
     registry_contracts = Map.empty, executors = Map.empty, payrolls = [gen 5 \<mapsto> pay_blank], audits = Map.empty\<rparr>"

text \<open>The steps of the set-up; the tests differ in the amount that the treasury starts with.\<close>

definition setup_funded_payroll :: "env \<Rightarrow> (nat \<Rightarrow> address) \<Rightarrow> i128 \<Rightarrow> ((address \<times> address \<times> address \<times> address) \<times> ledger) outcome" where
  "setup_funded_payroll e gen funds =
     and_then (verifier_client e (gen 0) (\<lambda>e s. no_value (init_verifier_admin (gen 1) s)) (payroll_registered gen)) (\<lambda>(_, L).
     and_then (verifier_client e (gen 0) (\<lambda>e s. no_value (initialize_verifier e mock_vk s)) L) (\<lambda>(_, L).
     and_then (commitment_client e (gen 2) (\<lambda>e s. no_value (init_commitment_admin (gen 3) s)) L) (\<lambda>(_, L).
     let treasury = gen 6; admin = gen 7; treasury_owner = gen 8 in
     and_then (p_mint gen treasury funds L) (\<lambda>L.
     and_then (p_do e gen (\<lambda>e. initialize e admin (gen 4) (gen 0) (gen 2) treasury treasury_owner) L) (\<lambda>L.
     and_then (commitment_client e (gen 2) (\<lambda>e s. no_value (set_payroll_operator e (gen 5) s)) L) (\<lambda>(_, L).
     let employee = gen 9 in
     and_then (p_store e gen employee (replicate 32 0) L) (\<lambda>L.
     Inr ((admin, treasury, treasury_owner, employee), L))))))))"

definition setup_simple_payroll :: "env \<Rightarrow> (nat \<Rightarrow> address) \<Rightarrow> ((address \<times> address \<times> address \<times> address) \<times> ledger) outcome" where
  "setup_simple_payroll e gen = setup_funded_payroll e gen 1000000"

definition single_payment_batch :: "address \<Rightarrow> i128 \<Rightarrow> bytes list \<times> i128 list \<times> address list" where
  "single_payment_batch employee amount = ([mock_proof], [amount], [employee])"

section \<open>The state after the set-up\<close>

definition simple_payroll :: "env \<Rightarrow> (nat \<Rightarrow> address) \<Rightarrow> payroll" where
  "simple_payroll e gen = initialize_storage_version e (emit_payroll_initialized (gen 7) (gen 4) (gen 0) (gen 2) (gen 6) (gen 8)
     (pay_blank\<lparr>addresses := Some \<lparr>ca_admin = gen 7, ca_token = gen 4, ca_verifier = gen 0, ca_commitment = gen 2,
          ca_treasury = gen 6, ca_treasury_owner = gen 8\<rparr>,
        allowed_assets := [gen 4 \<mapsto> True], treasury_owner_key := Some (gen 8), run_counter := Some 0\<rparr>))"

definition simple_salary :: "env \<Rightarrow> (nat \<Rightarrow> address) \<Rightarrow> salary_commitment" where
  "simple_salary e gen = emit_commitment_stored (gen 9) (replicate 32 0) (emit_payroll_operator_set (gen 5)
     (fresh_salary\<lparr>commitment_admin := Some (gen 3), payroll_operator := Some (gen 5), commitment_index := [replicate 32 0 \<mapsto> True],
        commitments := [gen 9 \<mapsto> \<lparr>commitment = replicate 32 0, created_at = timestamp e, updated_at = timestamp e, version = 1,
          commitment_revoked = False\<rparr>]\<rparr>))"

definition simple_verifier :: "(nat \<Rightarrow> address) \<Rightarrow> proof_verifier" where
  "simple_verifier gen = fresh_verifier\<lparr>verifier_admin := Some (gen 1), verification_key := Some mock_vk\<rparr>"

definition simple_ledger :: "env \<Rightarrow> (nat \<Rightarrow> address) \<Rightarrow> i128 \<Rightarrow> ledger" where
  "simple_ledger e gen n = \<lparr>managers = Map.empty, token_contracts = [gen 4 \<mapsto> \<lparr>balances = [gen 6 \<mapsto> n]\<rparr>],
     verifier_contracts = [gen 0 \<mapsto> simple_verifier gen], salary_ledgers = [gen 2 \<mapsto> simple_salary e gen],
     registry_contracts = Map.empty, executors = Map.empty, payrolls = [gen 5 \<mapsto> simple_payroll e gen], audits = Map.empty\<rparr>"

lemmas p_defs = p_do_def p_new_def p_move_def p_try_def p_get_def p_view_def p_batch_def p_prepare_def p_mint_def p_balance_def
  p_store_def pm_do_def register_manager_def manager_client_def client_defs

lemma setup_funded:
  assumes "mocked e" "0 \<le> n" "in_i128 n"
  shows "setup_funded_payroll e gen n = Inr ((gen 7, gen 6, gen 8, gen 9), simple_ledger e gen n)"
  using assms
  by (simp add: setup_funded_payroll_def payroll_registered_def p_defs init_verifier_admin_def fresh_verifier_def
      initialize_verifier_def require_verifier_admin_def init_commitment_admin_def fresh_salary_def initialize_def
      pay_blank_def set_payroll_operator_def sc_require_not_paused_def require_commitment_admin_def pause_guard_def
      store_commitment_def register_commitment_uniqueness_def mint_def add_i128_def
      simple_ledger_def simple_payroll_def simple_salary_def simple_verifier_def emits publish_def Let_def)

lemma setup_simple: "mocked e \<Longrightarrow> setup_simple_payroll e gen = Inr ((gen 7, gen 6, gen 8, gen 9), simple_ledger e gen 1000000)"
  by (simp add: setup_simple_payroll_def setup_funded in_i128_def)

lemma simple_payroll_fields [simp]:
  "addresses (simple_payroll e gen) = Some \<lparr>ca_admin = gen 7, ca_token = gen 4, ca_verifier = gen 0, ca_commitment = gen 2,
     ca_treasury = gen 6, ca_treasury_owner = gen 8\<rparr>"
  "payroll_pause_manager (simple_payroll e gen) = None" "payroll_runs (simple_payroll e gen) = Map.empty"
  "pending_runs (simple_payroll e gen) = Map.empty" "treasury_owner_key (simple_payroll e gen) = Some (gen 8)"
  "run_counter (simple_payroll e gen) = Some 0" "run_drafts (simple_payroll e gen) = Map.empty"
  "run_draft_counter (simple_payroll e gen) = None" "payroll.pending_admin_rotation (simple_payroll e gen) = None"
  "pending_treasury_rotation (simple_payroll e gen) = None" "run_nonces (simple_payroll e gen) = Map.empty"
  "deposit_nonces (simple_payroll e gen) = Map.empty" "draft_commitments (simple_payroll e gen) = Map.empty"
  "emergency_request (simple_payroll e gen) = None" "company_balances (simple_payroll e gen) = Map.empty"
  "archived_runs (simple_payroll e gen) = Map.empty" "challenged_runs (simple_payroll e gen) = Map.empty"
  "active_draft_for_period (simple_payroll e gen) = Map.empty" "company_state (simple_payroll e gen) = None"
  "payroll_states (simple_payroll e gen) = Map.empty" "payroll.allowed_assets (simple_payroll e gen) = [gen 4 \<mapsto> True]"
  "supported_assets (simple_payroll e gen) = None" "pending_run_count (simple_payroll e gen) = None"
  "batch_checkpoints (simple_payroll e gen) = Map.empty" "authorized_reviewers (simple_payroll e gen) = Map.empty"
  "run_reviews (simple_payroll e gen) = Map.empty" "pending_admin_handover (simple_payroll e gen) = None"
  "locked_payroll_funds (simple_payroll e gen) = Map.empty" "consumed_quorums (simple_payroll e gen) = Map.empty"
  "compliance_holds (simple_payroll e gen) = Map.empty" "compliance_hold_counter (simple_payroll e gen) = None"
  "reservation_expiries (simple_payroll e gen) = Map.empty" "archive_markers (simple_payroll e gen) = Map.empty"
  "employer_nonce_sequences (simple_payroll e gen) = Map.empty" "evidence_pointers (simple_payroll e gen) = Map.empty"
  "evidence_pointer_index (simple_payroll e gen) = Map.empty" "cancelled_batches (simple_payroll e gen) = Map.empty"
  "batch_splits (simple_payroll e gen) = Map.empty"
  "storage_version (simple_payroll e gen) = Some \<lparr>sv_version = 1, sv_updated_at = timestamp e, sv_migration_complete = True,
     sv_version_description = ''Initial version''\<rparr>"
  by (simp_all add: simple_payroll_def pay_blank_def initialize_storage_version_def CURRENT_STORAGE_VERSION_def emits publish_def)

lemma simple_salary_fields [simp]:
  "commitments (simple_salary e gen) = [gen 9 \<mapsto> \<lparr>commitment = replicate 32 0, created_at = timestamp e, updated_at = timestamp e,
     version = 1, commitment_revoked = False\<rparr>]"
  "sc_pause_manager (simple_salary e gen) = None" "commitment_admin (simple_salary e gen) = Some (gen 3)"
  "payroll_operator (simple_salary e gen) = Some (gen 5)" "nullifiers (simple_salary e gen) = Map.empty"
  "commitment_lock (simple_salary e gen) = Map.empty" "commitment_index (simple_salary e gen) = [replicate 32 0 \<mapsto> True]"
  by (simp_all add: simple_salary_def fresh_salary_def emits publish_def)

lemma simple_verifier_key [simp]: "verification_key (simple_verifier gen) = Some mock_vk"
  by (simp add: simple_verifier_def)

lemma simple_ledger_fields [simp]:
  "managers (simple_ledger e gen n) = Map.empty" "token_contracts (simple_ledger e gen n) = [gen 4 \<mapsto> \<lparr>balances = [gen 6 \<mapsto> n]\<rparr>]"
  "verifier_contracts (simple_ledger e gen n) = [gen 0 \<mapsto> simple_verifier gen]"
  "salary_ledgers (simple_ledger e gen n) = [gen 2 \<mapsto> simple_salary e gen]" "payrolls (simple_ledger e gen n) = [gen 5 \<mapsto> simple_payroll e gen]"
  by (simp_all add: simple_ledger_def)

section \<open>Digests\<close>

lemma test_nonce_u256: "nonce_to_u256 (test_nonce x) = push_bit 120 (ucast x)"
proof -
  have "take 16 (test_nonce x) = x # replicate 15 0"
    by (simp add: test_nonce_def take_update_swap min_def flip: replicate_Suc) (simp add: numeral_eq_Suc)
  then show ?thesis unfolding nonce_to_u256_def by (simp only: list.simps fold_simps nonce_shift) simp
qed

lemma test_nonce_eq [simp]: "test_nonce x = test_nonce y \<longleftrightarrow> x = y" "test_nonce x = zero32 \<longleftrightarrow> x = 0"
  by (auto simp: test_nonce_def zero32_def first_byte list_eq_iff_nth_eq nth_list_update)

lemma b32_zero [simp]: "b32 x = zero32 \<longleftrightarrow> x = 0" "zero32 = b32 x \<longleftrightarrow> x = 0"
  by (auto simp: b32_def zero32_def)

end
