(* ===== verification/Payroll_Test_Rules.thy ===== *)
theory Payroll_Test_Rules
  imports Payroll_Test_Setup
begin

text \<open>
  The rules by which the unit tests of the payroll contract are evaluated: the order of the test nonces,
  and the definitions of the entry points that the tests call.
\<close>

lemma push_120: "unat (push_bit 120 (ucast x :: u128)) = unat x * 2 ^ 120" for x :: u8
proof -
  have "unat x * 2 ^ 120 < 2 ^ 128" using unsigned_less [of x, where ?'a = nat] by simp
  moreover have "unat (ucast x :: u128) = unat x" using unsigned_less [of x, where ?'a = nat] by (simp add: unsigned_ucast_eq take_bit_eq_mod)
  ultimately show ?thesis by (simp add: push_bit_eq_mult unat_word_ariths)
qed

lemma test_nonce_order [simp]: "nonce_to_u256 (test_nonce x) \<le> nonce_to_u256 (test_nonce y) \<longleftrightarrow> x \<le> y"
  by (simp add: test_nonce_u256 word_le_nat_alt push_120)

lemma require_auth_update [simp]: "require_auth (e\<lparr>auth := f\<rparr>) a = (if f a then Inr () else Inl (AuthError a))"
  by (simp add: require_auth_def)

lemmas payroll_run_steps = checked_sub_i128_def checked_add_i128_def validate_run_id_def require_no_active_payroll_run_def pending_payroll_run_count_def
  get_available_treasury_balance_def get_locked_funds_def payroll_registered_def fresh_verifier_def init_verifier_admin_def
  initialize_verifier_def require_verifier_admin_def single_payment_batch_def inj_eq Let_def emits publish_def expect_def
  fresh_pause_manager_def pm_defs all_categories_def is_paused_def pause_guard_def
  batch_process_payroll_def require_company_active_def validate_storage_version_for_operation_def
  CURRENT_STORAGE_VERSION_def MIN_SUPPORTED_STORAGE_VERSION_def MAX_SUPPORTED_STORAGE_VERSION_def validate_non_zero_digest_def
  MAX_BATCH_def consume_draft_commitment_def validate_nonce_monotonicity_def is_asset_allowed_def require_not_paused_def
  derive_run_id_def get_run_counter_def add_u_def update_nonce_sequence_def token_balance_def pay_employee_def get_commitment_def balance_def
  add_i128_def sub_i128_def in_i128_def zero_nullifier mock_vk_def verify_payment_proof_def simulated_verify_groth16_def
  record_nullifier_def lock_commitment_updates_def sc_require_not_paused_def require_admin_or_operator_def
  token_transfer_def transfer_def record_payroll_run_state_def invoked_by_self_def get_payroll_run_def set_pause_manager_def
  admin_guard_def commit_draft_def mint_def

lemmas payroll_state_steps = validate_approval_not_expired_def is_payroll_approval_expired_def DEFAULT_APPROVAL_EXPIRY_SECONDS_def get_run_review_def
  prepare_payroll_run_def finalize_payroll_run_def cancel_payroll_run_with_reason_def cancel_payroll_run_def
  get_pending_run_def get_cancelled_batch_status_def get_batch_lock_timestamp_def add_locked_funds_def subtract_locked_funds_def
  get_payroll_run_state_def get_payroll_run_state_internal_def transition_payroll_run_state_def update_reconciliation_status_def
  is_state_transition_allowed_def is_payroll_state_terminal_def is_payroll_state_retryable_def
  is_allowed_payroll_state_transition_internal_def is_terminal_payroll_state_internal_def is_retryable_payroll_state_internal_def
  commit_metadata_hash_def set_run_metadata_def deposit_def get_treasury_balance_def has_active_payroll_run_def
  get_safe_treasury_summary_def validate_symbol_not_empty_def request_emergency_withdrawal_def

lemmas payroll_role_steps = create_run_draft_def amend_run_draft_def finalize_run_draft_def get_run_draft_def move_run_draft_def
  submit_run_draft_def cancel_run_draft_def expire_run_draft_def is_draft_transition_allowed_def is_draft_state_terminal_def
  is_allowed_draft_state_transition_internal_def is_terminal_draft_state_internal_def validate_symbol_not_empty_def validate_draft_id_def
  propose_admin_rotation_def accept_admin_rotation_def cancel_admin_rotation_def get_pending_admin_rotation_def
  propose_treasury_rotation_def accept_treasury_rotation_def cancel_treasury_rotation_def get_pending_treasury_rotation_def owner_guard_def
  request_emergency_withdrawal_def approve_emergency_withdrawal_def cancel_emergency_withdrawal_def get_emergency_request_def

lemma hash_at [simp]: "hash_quorum_payload (venv_at e a L) p = hash_quorum_payload e p"
  by (simp add: hash_quorum_payload_def quorum_preimage_def ledger_envs)

lemmas payroll_review_steps = set_asset_allowed_def update_supported_def get_supported_assets_def add_reviewer_def remove_reviewer_def
  is_reviewer_def store_review_def approve_payroll_run_def reject_payroll_run_def request_changes_payroll_run_def
  begin_batch_execution_checkpoint_def record_batch_checkpoint_progress_def checkpoint_mismatch_def get_batch_execution_checkpoint_def
  resume_batch_execution_def request_admin_handover_def accept_admin_handover_def cancel_admin_handover_def get_pending_admin_handover_def
  is_quorum_consumed_def verify_and_consume_quorum_def

text \<open>\<open>env.ledger().with_mut(|li| li.timestamp += n)\<close>.\<close>

definition later :: "u64 \<Rightarrow> env \<Rightarrow> env" where
  "later n e = e\<lparr>timestamp := timestamp e + n\<rparr>"

lemma later_simps [simp]: "mocked (later n e) = mocked e" "timestamp (later n e) = timestamp e + n"
  by (simp_all add: later_def mocked_def)

lemma pointer_at [simp]: "generate_pointer_id (venv_at e a L) h = generate_pointer_id e h"
  by (simp add: generate_pointer_id_def ledger_envs)

lemma u8_order: "\<not> (2 :: u8) \<le> 1" "\<not> (5 :: u8) \<le> 1"
  by (simp_all add: word_le_nat_alt)

lemmas payroll_record_steps = place_compliance_hold_def release_compliance_hold_def is_compliance_hold_active_def get_compliance_hold_def
  hold_scope_symbol_def set_reservation_expiry_policy_def release_expired_reservation_def get_reservation_expiry_def
  archive_payroll_run_with_reason_def is_payroll_run_archived_def get_archive_marker_def get_employer_nonce_sequence_def
  create_evidence_pointer_def get_evidence_pointer_def evidence_pointer_exists_def get_storage_version_def is_storage_version_supported_def
  is_migration_required_def check_migration_readiness_def readiness_def set_storage_version_def get_addresses_def saturating_add_def saturating_sub_def u8_order

end
