(* ===== verification/Payroll_Tests_Drafts.thy ===== *)
theory Payroll_Tests_Drafts
  imports Payroll_Test_Rules
begin

text \<open>
  The unit tests of \<open>contracts/payroll/src/lib.rs\<close>, first part: pausing, drafts, nonces, draft hashes, the
  rotations and the emergency withdrawal, as programs over the ledger, each under the name it has in the
  source (\<open>pay_\<close> before a name that other contracts use too). A test that spells out the steps of
  \<open>setup_simple_payroll\<close> calls it here. One test does not pass: it creates two drafts for one period, which \<open>create_run_draft\<close> refuses.
\<close>

section \<open>Runs and pausing\<close>

definition test_payroll_run_id_derivation :: "env \<Rightarrow> (nat \<Rightarrow> address) \<Rightarrow> unit outcome" where
  "test_payroll_run_id_derivation e gen =
     and_then (setup_simple_payroll e gen) (\<lambda>((admin, treasury, treasury_owner, employee), L).
     and_then (p_batch e gen (single_payment_batch employee 1000) 1000 (test_nonce 1) None L) (\<lambda>(run_id_1, L).
     and_then (check (run_id_1 = 1)) (\<lambda>_.
     and_then (p_try gen (get_payroll_run run_id_1) L) (\<lambda>run_1.
     and_then (check (pr_run_id run_1 = 1)) (\<lambda>_.
     and_then (check (pr_total_amount run_1 = 1000)) (\<lambda>_.
     check (pr_employee_count run_1 = 1)))))))"

definition test_set_pause_manager_stores_address :: "env \<Rightarrow> (nat \<Rightarrow> address) \<Rightarrow> unit outcome" where
  "test_set_pause_manager_stores_address e gen =
     and_then (setup_simple_payroll e gen) (\<lambda>((admin, treasury, treasury_owner, employee), L).
     let pm_id = gen 10; L = register_manager pm_id L; operator = gen 11 in
     and_then (pm_do e pm_id (\<lambda>e. initialize_pm e operator) L) (\<lambda>L.
     and_then (p_do e gen (\<lambda>e. set_pause_manager e pm_id) L) (\<lambda>L.
     and_then (pm_do e pm_id (\<lambda>e. pause e) L) (\<lambda>L.
     and_then (check_err (p_batch e gen (single_payment_batch employee 1000) 1000 (test_nonce 3) None L)) (\<lambda>_.
     Inr ())))))"

definition test_paused_payroll_rejects_batch_processing :: "env \<Rightarrow> (nat \<Rightarrow> address) \<Rightarrow> unit outcome" where
  "test_paused_payroll_rejects_batch_processing e gen =
     and_then (setup_simple_payroll e gen) (\<lambda>((admin, treasury, treasury_owner, employee), L).
     let pm_id = gen 10; L = register_manager pm_id L; operator = gen 11 in
     and_then (pm_do e pm_id (\<lambda>e. initialize_pm e operator) L) (\<lambda>L.
     and_then (p_do e gen (\<lambda>e. set_pause_manager e pm_id) L) (\<lambda>L.
     and_then (pm_do e pm_id (\<lambda>e. pause e) L) (\<lambda>L.
     and_then (check_err (p_batch e gen (single_payment_batch employee 1000) 1000 (test_nonce 4) None L)) (\<lambda>_.
     Inr ())))))"

definition test_unpaused_payroll_resumes_processing :: "env \<Rightarrow> (nat \<Rightarrow> address) \<Rightarrow> unit outcome" where
  "test_unpaused_payroll_resumes_processing e gen =
     and_then (setup_simple_payroll e gen) (\<lambda>((admin, treasury, treasury_owner, employee), L).
     let pm_id = gen 10; L = register_manager pm_id L; operator = gen 11 in
     and_then (pm_do e pm_id (\<lambda>e. initialize_pm e operator) L) (\<lambda>L.
     and_then (p_do e gen (\<lambda>e. set_pause_manager e pm_id) L) (\<lambda>L.
     and_then (pm_do e pm_id (\<lambda>e. pause e) L) (\<lambda>L.
     and_then (check_err (p_batch e gen (single_payment_batch employee 1000) 1000 (test_nonce 5) None L)) (\<lambda>_.
     and_then (pm_do e pm_id (\<lambda>e. unpause e) L) (\<lambda>L.
     call (p_batch e gen (single_payment_batch employee 1000) 1000 (test_nonce 6) None L)))))))"

definition test_payroll_works_without_pause_manager :: "env \<Rightarrow> (nat \<Rightarrow> address) \<Rightarrow> unit outcome" where
  "test_payroll_works_without_pause_manager e gen =
     and_then (setup_simple_payroll e gen) (\<lambda>((admin, treasury, treasury_owner, employee), L).
     call (p_batch e gen (single_payment_batch employee 1000) 1000 (test_nonce 7) None L))"

definition pay_test_set_pause_manager_rejects_unauthorized :: "env \<Rightarrow> (nat \<Rightarrow> address) \<Rightarrow> unit outcome" where
  "pay_test_set_pause_manager_rejects_unauthorized e gen =
     and_then (verifier_client (unsigned e) (gen 0) (\<lambda>e s. no_value (init_verifier_admin (gen 1) s)) (payroll_registered gen)) (\<lambda>(_, L).
     and_then (verifier_client (unsigned e) (gen 0) (\<lambda>e s. no_value (initialize_verifier e mock_vk s)) L) (\<lambda>(_, L).
     let treasury = gen 6; admin = gen 7; treasury_owner = gen 8; attacker = gen 9 in
     and_then (p_do (signed_by admin e) gen (\<lambda>e. initialize e admin (gen 4) (gen 0) (gen 2) treasury treasury_owner) L) (\<lambda>L.
     let pm_id = gen 10 in
     call (p_do (signed_by attacker e) gen (\<lambda>e. set_pause_manager e pm_id) L))))"

section \<open>Drafts\<close>

definition test_create_run_draft_returns_incremental_id :: "env \<Rightarrow> (nat \<Rightarrow> address) \<Rightarrow> unit outcome" where
  "test_create_run_draft_returns_incremental_id e gen =
     and_then (setup_simple_payroll e gen) (\<lambda>((admin, treasury, treasury_owner, employee), L).
     let label = ''Q1_2025'' in
     and_then (p_new e gen (\<lambda>e. create_run_draft e admin 5000 10 label) L) (\<lambda>(id1, L).
     and_then (p_new e gen (\<lambda>e. create_run_draft e admin 3000 5 label) L) (\<lambda>(id2, L).
     and_then (check (id1 = 1)) (\<lambda>_.
     check (id2 = 2)))))"

definition test_create_run_draft_starts_pending :: "env \<Rightarrow> (nat \<Rightarrow> address) \<Rightarrow> unit outcome" where
  "test_create_run_draft_starts_pending e gen =
     and_then (setup_simple_payroll e gen) (\<lambda>((admin, treasury, treasury_owner, employee), L).
     and_then (p_new e gen (\<lambda>e. create_run_draft e admin 10000 20 ''JAN'') L) (\<lambda>(id, L).
     and_then (p_try gen (get_run_draft id) L) (\<lambda>draft.
     and_then (check (rd_state draft = DraftPending)) (\<lambda>_.
     and_then (check (rd_total_amount draft = 10000)) (\<lambda>_.
     and_then (check (rd_employee_count draft = 20)) (\<lambda>_.
     check (rd_amendment_count draft = 0)))))))"

definition test_amend_run_draft_updates_fields_and_increments_count :: "env \<Rightarrow> (nat \<Rightarrow> address) \<Rightarrow> unit outcome" where
  "test_amend_run_draft_updates_fields_and_increments_count e gen =
     and_then (setup_simple_payroll e gen) (\<lambda>((admin, treasury, treasury_owner, employee), L).
     and_then (p_new e gen (\<lambda>e. create_run_draft e admin 10000 20 ''FEB'') L) (\<lambda>(id, L).
     and_then (p_do e gen (\<lambda>e. amend_run_draft e admin id 12000 22) L) (\<lambda>L.
     and_then (p_try gen (get_run_draft id) L) (\<lambda>draft.
     and_then (check (rd_total_amount draft = 12000)) (\<lambda>_.
     and_then (check (rd_employee_count draft = 22)) (\<lambda>_.
     and_then (check (rd_amendment_count draft = 1)) (\<lambda>_.
     check (rd_state draft = DraftPending))))))))"

definition test_finalize_run_draft_makes_it_immutable :: "env \<Rightarrow> (nat \<Rightarrow> address) \<Rightarrow> unit outcome" where
  "test_finalize_run_draft_makes_it_immutable e gen =
     and_then (setup_simple_payroll e gen) (\<lambda>((admin, treasury, treasury_owner, employee), L).
     and_then (p_new e gen (\<lambda>e. create_run_draft e admin 8000 15 ''MAR'') L) (\<lambda>(id, L).
     and_then (p_do e gen (\<lambda>e. finalize_run_draft e admin id) L) (\<lambda>L.
     and_then (p_try gen (get_run_draft id) L) (\<lambda>draft.
     check (rd_state draft = DraftFinalized)))))"

definition test_amend_finalized_draft_is_rejected :: "env \<Rightarrow> (nat \<Rightarrow> address) \<Rightarrow> unit outcome" where
  "test_amend_finalized_draft_is_rejected e gen =
     and_then (setup_simple_payroll e gen) (\<lambda>((admin, treasury, treasury_owner, employee), L).
     and_then (p_new e gen (\<lambda>e. create_run_draft e admin 5000 10 ''APR'') L) (\<lambda>(id, L).
     and_then (p_do e gen (\<lambda>e. finalize_run_draft e admin id) L) (\<lambda>L.
     and_then (check_err (p_do e gen (\<lambda>e. amend_run_draft e admin id 9000 18) L)) (\<lambda>_.
     Inr ()))))"

definition test_submit_run_draft_transitions_to_submitted :: "env \<Rightarrow> (nat \<Rightarrow> address) \<Rightarrow> unit outcome" where
  "test_submit_run_draft_transitions_to_submitted e gen =
     and_then (setup_simple_payroll e gen) (\<lambda>((admin, treasury, treasury_owner, employee), L).
     and_then (p_new e gen (\<lambda>e. create_run_draft e admin 10000 20 ''MAY'') L) (\<lambda>(id, L).
     and_then (p_try gen (get_run_draft id) L) (\<lambda>draft.
     and_then (check (rd_state draft = DraftPending)) (\<lambda>_.
     and_then (p_do e gen (\<lambda>e. submit_run_draft e admin id) L) (\<lambda>L.
     and_then (p_try gen (get_run_draft id) L) (\<lambda>draft.
     and_then (check (rd_state draft = DraftSubmitted)) (\<lambda>_.
     check (is_draft_state_terminal (rd_state draft)))))))))"

definition test_cancel_run_draft_transitions_to_cancelled :: "env \<Rightarrow> (nat \<Rightarrow> address) \<Rightarrow> unit outcome" where
  "test_cancel_run_draft_transitions_to_cancelled e gen =
     and_then (setup_simple_payroll e gen) (\<lambda>((admin, treasury, treasury_owner, employee), L).
     and_then (p_new e gen (\<lambda>e. create_run_draft e admin 10000 20 ''JUN'') L) (\<lambda>(id, L).
     and_then (p_do e gen (\<lambda>e. cancel_run_draft e admin id) L) (\<lambda>L.
     and_then (p_try gen (get_run_draft id) L) (\<lambda>draft.
     and_then (check (rd_state draft = DraftCancelled)) (\<lambda>_.
     check (is_draft_state_terminal (rd_state draft)))))))"

definition test_expire_run_draft_transitions_to_expired :: "env \<Rightarrow> (nat \<Rightarrow> address) \<Rightarrow> unit outcome" where
  "test_expire_run_draft_transitions_to_expired e gen =
     and_then (setup_simple_payroll e gen) (\<lambda>((admin, treasury, treasury_owner, employee), L).
     and_then (p_new e gen (\<lambda>e. create_run_draft e admin 10000 20 ''JUL'') L) (\<lambda>(id, L).
     and_then (p_do e gen (\<lambda>e. expire_run_draft e admin id) L) (\<lambda>L.
     and_then (p_try gen (get_run_draft id) L) (\<lambda>draft.
     and_then (check (rd_state draft = DraftExpired)) (\<lambda>_.
     check (is_draft_state_terminal (rd_state draft)))))))"

definition test_terminal_draft_rejects_amendments_and_retransitions :: "env \<Rightarrow> (nat \<Rightarrow> address) \<Rightarrow> unit outcome" where
  "test_terminal_draft_rejects_amendments_and_retransitions e gen =
     and_then (setup_simple_payroll e gen) (\<lambda>((admin, treasury, treasury_owner, employee), L).
     and_then (p_new e gen (\<lambda>e. create_run_draft e admin 10000 20 ''AUG'') L) (\<lambda>(id, L).
     and_then (p_do e gen (\<lambda>e. cancel_run_draft e admin id) L) (\<lambda>L.
     and_then (check_err (p_do e gen (\<lambda>e. amend_run_draft e admin id 15000 25) L)) (\<lambda>_.
     and_then (check_err (p_do e gen (\<lambda>e. submit_run_draft e admin id) L)) (\<lambda>_.
     and_then (check_err (p_do e gen (\<lambda>e. expire_run_draft e admin id) L)) (\<lambda>_.
     Inr ()))))))"

definition test_unauthorized_draft_transitions_fail :: "env \<Rightarrow> (nat \<Rightarrow> address) \<Rightarrow> unit outcome" where
  "test_unauthorized_draft_transitions_fail e gen =
     and_then (setup_simple_payroll e gen) (\<lambda>((admin, treasury, treasury_owner, employee), L).
     let attacker = gen 10 in
     and_then (p_new e gen (\<lambda>e. create_run_draft e admin 10000 20 ''SEP'') L) (\<lambda>(id, L).
     and_then (check_err (p_do e gen (\<lambda>e. submit_run_draft e attacker id) L)) (\<lambda>_.
     and_then (check_err (p_do e gen (\<lambda>e. cancel_run_draft e attacker id) L)) (\<lambda>_.
     and_then (check_err (p_do e gen (\<lambda>e. expire_run_draft e attacker id) L)) (\<lambda>_.
     Inr ())))))"

definition test_is_draft_state_helpers :: "env \<Rightarrow> (nat \<Rightarrow> address) \<Rightarrow> unit outcome" where
  "test_is_draft_state_helpers e gen =
     and_then (setup_simple_payroll e gen) (\<lambda>((admin, treasury, treasury_owner, employee), L).
     and_then (check (is_draft_transition_allowed DraftPending DraftSubmitted)) (\<lambda>_.
     and_then (check (is_draft_transition_allowed DraftFinalized DraftCancelled)) (\<lambda>_.
     and_then (check (\<not> is_draft_transition_allowed DraftSubmitted DraftPending)) (\<lambda>_.
     and_then (check (\<not> is_draft_transition_allowed DraftCancelled DraftSubmitted)) (\<lambda>_.
     and_then (check (\<not> is_draft_state_terminal DraftPending)) (\<lambda>_.
     and_then (check (\<not> is_draft_state_terminal DraftFinalized)) (\<lambda>_.
     and_then (check (is_draft_state_terminal DraftSubmitted)) (\<lambda>_.
     and_then (check (is_draft_state_terminal DraftCancelled)) (\<lambda>_.
     check (is_draft_state_terminal DraftExpired))))))))))"

definition test_create_run_draft_rejects_non_admin :: "env \<Rightarrow> (nat \<Rightarrow> address) \<Rightarrow> unit outcome" where
  "test_create_run_draft_rejects_non_admin e gen =
     and_then (setup_simple_payroll e gen) (\<lambda>((admin, treasury, treasury_owner, employee), L).
     let attacker = gen 10 in
     call (p_new e gen (\<lambda>e. create_run_draft e attacker 1000 1 ''MAY'') L))"

section \<open>Nonces and draft hashes\<close>

definition test_duplicate_nonce_is_rejected :: "env \<Rightarrow> (nat \<Rightarrow> address) \<Rightarrow> unit outcome" where
  "test_duplicate_nonce_is_rejected e gen =
     and_then (setup_simple_payroll e gen) (\<lambda>((admin, treasury, treasury_owner, employee), L).
     and_then (p_batch e gen (single_payment_batch employee 1000) 1000 (test_nonce 10) None L) (\<lambda>(_, L).
     and_then (check_err (p_batch e gen (single_payment_batch employee 1000) 1000 (test_nonce 10) None L)) (\<lambda>_.
     Inr ())))"

definition test_distinct_nonces_allow_multiple_runs :: "env \<Rightarrow> (nat \<Rightarrow> address) \<Rightarrow> unit outcome" where
  "test_distinct_nonces_allow_multiple_runs e gen =
     and_then (setup_simple_payroll e gen) (\<lambda>((admin, treasury, treasury_owner, employee), L).
     and_then (p_batch e gen (single_payment_batch employee 500) 500 (test_nonce 11) None L) (\<lambda>(id1, L).
     let gen = (\<lambda>n. gen (n + 20)) in
     and_then (setup_simple_payroll e gen) (\<lambda>((admin, treasury, treasury_owner, employee), L).
     and_then (p_batch e gen (single_payment_batch employee 500) 500 (test_nonce 12) None L) (\<lambda>(id2, L).
     and_then (check (id1 > 0)) (\<lambda>_.
     check (id2 > 0))))))"

definition test_nonce_is_stored_in_payroll_run :: "env \<Rightarrow> (nat \<Rightarrow> address) \<Rightarrow> unit outcome" where
  "test_nonce_is_stored_in_payroll_run e gen =
     and_then (setup_simple_payroll e gen) (\<lambda>((admin, treasury, treasury_owner, employee), L).
     and_then (p_batch e gen (single_payment_batch employee 1000) 1000 (test_nonce 13) None L) (\<lambda>(run_id, L).
     and_then (p_try gen (get_payroll_run run_id) L) (\<lambda>run.
     check (pr_nonce run = test_nonce 13))))"

definition test_draft_hash_binding_accepted_when_pre_committed :: "env \<Rightarrow> (nat \<Rightarrow> address) \<Rightarrow> unit outcome" where
  "test_draft_hash_binding_accepted_when_pre_committed e gen =
     and_then (setup_simple_payroll e gen) (\<lambda>((admin, treasury, treasury_owner, employee), L).
     let draft_hash = b32 0xab in
     and_then (p_do e gen (\<lambda>e. commit_draft e admin draft_hash) L) (\<lambda>L.
     and_then (p_batch e gen (single_payment_batch employee 1000) 1000 (test_nonce 20) (Some draft_hash) L) (\<lambda>(run_id, L).
     and_then (p_try gen (get_payroll_run run_id) L) (\<lambda>run.
     check (pr_draft_hash run = draft_hash)))))"

definition test_draft_hash_rejected_without_pre_commitment :: "env \<Rightarrow> (nat \<Rightarrow> address) \<Rightarrow> unit outcome" where
  "test_draft_hash_rejected_without_pre_commitment e gen =
     and_then (setup_simple_payroll e gen) (\<lambda>((admin, treasury, treasury_owner, employee), L).
     let unknown_hash = b32 0xcd in
     and_then (check_err (p_batch e gen (single_payment_batch employee 1000) 1000 (test_nonce 21) (Some unknown_hash) L)) (\<lambda>_.
     Inr ()))"

definition test_draft_commitment_is_consumed_after_use :: "env \<Rightarrow> (nat \<Rightarrow> address) \<Rightarrow> unit outcome" where
  "test_draft_commitment_is_consumed_after_use e gen =
     and_then (setup_simple_payroll e gen) (\<lambda>((admin, treasury, treasury_owner, employee), L).
     let draft_hash = b32 0xef in
     and_then (p_do e gen (\<lambda>e. commit_draft e admin draft_hash) L) (\<lambda>L.
     and_then (p_batch e gen (single_payment_batch employee 1000) 1000 (test_nonce 22) (Some draft_hash) L) (\<lambda>(_, L).
     and_then (check_err (p_batch e gen (single_payment_batch employee 1000) 1000 (test_nonce 23) (Some draft_hash) L)) (\<lambda>_.
     Inr ()))))"

definition test_batch_runs_without_draft_hash :: "env \<Rightarrow> (nat \<Rightarrow> address) \<Rightarrow> unit outcome" where
  "test_batch_runs_without_draft_hash e gen =
     and_then (setup_simple_payroll e gen) (\<lambda>((admin, treasury, treasury_owner, employee), L).
     and_then (p_batch e gen (single_payment_batch employee 1000) 1000 (test_nonce 24) None L) (\<lambda>(run_id, L).
     check (run_id > 0)))"

section \<open>Rotations\<close>

definition test_admin_rotation_full_flow :: "env \<Rightarrow> (nat \<Rightarrow> address) \<Rightarrow> unit outcome" where
  "test_admin_rotation_full_flow e gen =
     and_then (setup_simple_payroll e gen) (\<lambda>((admin, treasury, treasury_owner, employee), L).
     let new_admin = gen 10 in
     and_then (p_do e gen (\<lambda>e. propose_admin_rotation e admin new_admin) L) (\<lambda>L.
     and_then (p_get gen get_pending_admin_rotation L) (\<lambda>r.
     and_then (expect ''proposal should exist'' r) (\<lambda>proposal.
     and_then (check (new_holder proposal = new_admin)) (\<lambda>_.
     and_then (check (proposed_by proposal = admin)) (\<lambda>_.
     and_then (p_do e gen (\<lambda>e. accept_admin_rotation e new_admin) L) (\<lambda>L.
     and_then (p_get gen get_pending_admin_rotation L) (\<lambda>r.
     check (r = None)))))))))"

definition test_propose_admin_rotation_rejects_non_admin :: "env \<Rightarrow> (nat \<Rightarrow> address) \<Rightarrow> unit outcome" where
  "test_propose_admin_rotation_rejects_non_admin e gen =
     and_then (setup_simple_payroll e gen) (\<lambda>((admin, treasury, treasury_owner, employee), L).
     let attacker = gen 10; new_admin = gen 11 in
     call (p_do e gen (\<lambda>e. propose_admin_rotation e attacker new_admin) L))"

definition test_accept_admin_rotation_rejects_wrong_address :: "env \<Rightarrow> (nat \<Rightarrow> address) \<Rightarrow> unit outcome" where
  "test_accept_admin_rotation_rejects_wrong_address e gen =
     and_then (setup_simple_payroll e gen) (\<lambda>((admin, treasury, treasury_owner, employee), L).
     let new_admin = gen 10 in
     and_then (p_do e gen (\<lambda>e. propose_admin_rotation e admin new_admin) L) (\<lambda>L.
     let impostor = gen 11 in
     call (p_do e gen (\<lambda>e. accept_admin_rotation e impostor) L)))"

definition test_cancel_admin_rotation :: "env \<Rightarrow> (nat \<Rightarrow> address) \<Rightarrow> unit outcome" where
  "test_cancel_admin_rotation e gen =
     and_then (setup_simple_payroll e gen) (\<lambda>((admin, treasury, treasury_owner, employee), L).
     let new_admin = gen 10 in
     and_then (p_do e gen (\<lambda>e. propose_admin_rotation e admin new_admin) L) (\<lambda>L.
     and_then (p_do e gen (\<lambda>e. cancel_admin_rotation e admin) L) (\<lambda>L.
     and_then (p_get gen get_pending_admin_rotation L) (\<lambda>r.
     check (r = None)))))"

definition test_treasury_rotation_full_flow :: "env \<Rightarrow> (nat \<Rightarrow> address) \<Rightarrow> unit outcome" where
  "test_treasury_rotation_full_flow e gen =
     and_then (setup_simple_payroll e gen) (\<lambda>((admin, treasury, treasury_owner, employee), L).
     let new_owner = gen 10 in
     and_then (p_do e gen (\<lambda>e. propose_treasury_rotation e treasury_owner new_owner) L) (\<lambda>L.
     and_then (p_get gen get_pending_treasury_rotation L) (\<lambda>r.
     and_then (expect ''proposal should exist'' r) (\<lambda>proposal.
     and_then (check (new_holder proposal = new_owner)) (\<lambda>_.
     and_then (p_do e gen (\<lambda>e. accept_treasury_rotation e new_owner) L) (\<lambda>L.
     and_then (p_get gen get_pending_treasury_rotation L) (\<lambda>r.
     check (r = None))))))))"

definition test_propose_treasury_rotation_rejects_non_owner :: "env \<Rightarrow> (nat \<Rightarrow> address) \<Rightarrow> unit outcome" where
  "test_propose_treasury_rotation_rejects_non_owner e gen =
     and_then (setup_simple_payroll e gen) (\<lambda>((admin, treasury, treasury_owner, employee), L).
     let attacker = gen 10; new_owner = gen 11 in
     call (p_do e gen (\<lambda>e. propose_treasury_rotation e attacker new_owner) L))"

definition test_duplicate_admin_rotation_proposal_rejected :: "env \<Rightarrow> (nat \<Rightarrow> address) \<Rightarrow> unit outcome" where
  "test_duplicate_admin_rotation_proposal_rejected e gen =
     and_then (setup_simple_payroll e gen) (\<lambda>((admin, treasury, treasury_owner, employee), L).
     let new_admin1 = gen 10 in
     and_then (p_do e gen (\<lambda>e. propose_admin_rotation e admin new_admin1) L) (\<lambda>L.
     let new_admin2 = gen 11 in
     call (p_do e gen (\<lambda>e. propose_admin_rotation e admin new_admin2) L)))"

section \<open>Emergency withdrawals\<close>

definition test_emergency_request_then_approve :: "env \<Rightarrow> (nat \<Rightarrow> address) \<Rightarrow> unit outcome" where
  "test_emergency_request_then_approve e gen =
     and_then (setup_simple_payroll e gen) (\<lambda>((admin, treasury, treasury_owner, employee), L).
     let recipient = gen 10 in
     and_then (p_move e gen (\<lambda>e. request_emergency_withdrawal e treasury_owner 500 recipient) L) (\<lambda>L.
     and_then (p_get gen get_emergency_request L) (\<lambda>r.
     and_then (expect ''request should exist'' r) (\<lambda>req.
     and_then (check (ew_amount req = 500)) (\<lambda>_.
     and_then (check (ew_recipient req = recipient)) (\<lambda>_.
     check (\<not> ew_approved req)))))))"

definition test_emergency_request_rejects_non_treasury_owner :: "env \<Rightarrow> (nat \<Rightarrow> address) \<Rightarrow> unit outcome" where
  "test_emergency_request_rejects_non_treasury_owner e gen =
     and_then (setup_simple_payroll e gen) (\<lambda>((admin, treasury, treasury_owner, employee), L).
     let attacker = gen 10; recipient = gen 11 in
     call (p_move e gen (\<lambda>e. request_emergency_withdrawal e attacker 500 recipient) L))"

definition test_emergency_approve_rejects_non_admin :: "env \<Rightarrow> (nat \<Rightarrow> address) \<Rightarrow> unit outcome" where
  "test_emergency_approve_rejects_non_admin e gen =
     and_then (setup_simple_payroll e gen) (\<lambda>((admin, treasury, treasury_owner, employee), L).
     let recipient = gen 10 in
     and_then (p_move e gen (\<lambda>e. request_emergency_withdrawal e treasury_owner 100 recipient) L) (\<lambda>L.
     let attacker = gen 11 in
     call (p_move e gen (\<lambda>e. approve_emergency_withdrawal e attacker) L)))"

definition test_approve_without_request_panics :: "env \<Rightarrow> (nat \<Rightarrow> address) \<Rightarrow> unit outcome" where
  "test_approve_without_request_panics e gen =
     and_then (setup_simple_payroll e gen) (\<lambda>((admin, treasury, treasury_owner, employee), L).
     call (p_move e gen (\<lambda>e. approve_emergency_withdrawal e admin) L))"

definition test_cancel_emergency_withdrawal_by_admin :: "env \<Rightarrow> (nat \<Rightarrow> address) \<Rightarrow> unit outcome" where
  "test_cancel_emergency_withdrawal_by_admin e gen =
     and_then (setup_simple_payroll e gen) (\<lambda>((admin, treasury, treasury_owner, employee), L).
     let recipient = gen 10 in
     and_then (p_move e gen (\<lambda>e. request_emergency_withdrawal e treasury_owner 200 recipient) L) (\<lambda>L.
     and_then (p_do e gen (\<lambda>e. cancel_emergency_withdrawal e admin) L) (\<lambda>L.
     and_then (p_get gen get_emergency_request L) (\<lambda>r.
     check (r = None)))))"

definition test_cancel_emergency_withdrawal_by_treasury_owner :: "env \<Rightarrow> (nat \<Rightarrow> address) \<Rightarrow> unit outcome" where
  "test_cancel_emergency_withdrawal_by_treasury_owner e gen =
     and_then (setup_simple_payroll e gen) (\<lambda>((admin, treasury, treasury_owner, employee), L).
     let recipient = gen 10 in
     and_then (p_move e gen (\<lambda>e. request_emergency_withdrawal e treasury_owner 200 recipient) L) (\<lambda>L.
     and_then (p_do e gen (\<lambda>e. cancel_emergency_withdrawal e treasury_owner) L) (\<lambda>L.
     and_then (p_get gen get_emergency_request L) (\<lambda>r.
     check (r = None)))))"

definition test_duplicate_emergency_request_rejected :: "env \<Rightarrow> (nat \<Rightarrow> address) \<Rightarrow> unit outcome" where
  "test_duplicate_emergency_request_rejected e gen =
     and_then (setup_simple_payroll e gen) (\<lambda>((admin, treasury, treasury_owner, employee), L).
     let recipient = gen 10 in
     and_then (p_move e gen (\<lambda>e. request_emergency_withdrawal e treasury_owner 100 recipient) L) (\<lambda>L.
     call (p_move e gen (\<lambda>e. request_emergency_withdrawal e treasury_owner 200 recipient) L)))"

section \<open>Outcomes\<close>

lemmas payroll_draft_steps = setup_simple p_defs payroll_run_steps payroll_role_steps

lemma payroll_draft_tests_outcome:
  assumes "mocked e" "inj gen"
  shows "test_payroll_run_id_derivation e gen = Inr ()"
    "test_set_pause_manager_stores_address e gen = Inr ()"
    "test_paused_payroll_rejects_batch_processing e gen = Inr ()"
    "test_unpaused_payroll_resumes_processing e gen = Inr ()"
    "test_payroll_works_without_pause_manager e gen = Inr ()"
    "should_panic ''authorized'' (pay_test_set_pause_manager_rejects_unauthorized e gen)"
    "test_create_run_draft_returns_incremental_id e gen = Inl (Panic ''A pending draft already exists for this payroll period'')"
    "test_create_run_draft_starts_pending e gen = Inr ()"
    "test_amend_run_draft_updates_fields_and_increments_count e gen = Inr ()"
    "test_finalize_run_draft_makes_it_immutable e gen = Inr ()"
    "test_amend_finalized_draft_is_rejected e gen = Inr ()"
    "test_submit_run_draft_transitions_to_submitted e gen = Inr ()"
    "test_cancel_run_draft_transitions_to_cancelled e gen = Inr ()"
    "test_expire_run_draft_transitions_to_expired e gen = Inr ()"
    "test_terminal_draft_rejects_amendments_and_retransitions e gen = Inr ()"
    "test_unauthorized_draft_transitions_fail e gen = Inr ()"
    "test_is_draft_state_helpers e gen = Inr ()"
    "should_panic ''Unauthorized'' (test_create_run_draft_rejects_non_admin e gen)"
    "test_duplicate_nonce_is_rejected e gen = Inr ()"
    "test_distinct_nonces_allow_multiple_runs e gen = Inr ()"
    "test_nonce_is_stored_in_payroll_run e gen = Inr ()"
    "test_draft_hash_binding_accepted_when_pre_committed e gen = Inr ()"
    "test_draft_hash_rejected_without_pre_commitment e gen = Inr ()"
    "test_draft_commitment_is_consumed_after_use e gen = Inr ()"
    "test_batch_runs_without_draft_hash e gen = Inr ()"
    "test_admin_rotation_full_flow e gen = Inr ()"
    "should_panic ''Unauthorized: caller is not the current admin'' (test_propose_admin_rotation_rejects_non_admin e gen)"
    "should_panic ''Unauthorized: caller is not the proposed admin'' (test_accept_admin_rotation_rejects_wrong_address e gen)"
    "test_cancel_admin_rotation e gen = Inr ()"
    "test_treasury_rotation_full_flow e gen = Inr ()"
    "should_panic ''Unauthorized: caller is not the current treasury owner'' (test_propose_treasury_rotation_rejects_non_owner e gen)"
    "should_panic ''A pending admin rotation already exists'' (test_duplicate_admin_rotation_proposal_rejected e gen)"
    "test_emergency_request_then_approve e gen = Inr ()"
    "should_panic ''Unauthorized: caller is not treasury owner'' (test_emergency_request_rejects_non_treasury_owner e gen)"
    "should_panic ''Unauthorized'' (test_emergency_approve_rejects_non_admin e gen)"
    "should_panic ''No pending emergency request'' (test_approve_without_request_panics e gen)"
    "test_cancel_emergency_withdrawal_by_admin e gen = Inr ()"
    "test_cancel_emergency_withdrawal_by_treasury_owner e gen = Inr ()"
    "should_panic ''A pending emergency request already exists'' (test_duplicate_emergency_request_rejected e gen)"
  using assms
  by (simp_all add: test_payroll_run_id_derivation_def
      test_set_pause_manager_stores_address_def
      test_paused_payroll_rejects_batch_processing_def
      test_unpaused_payroll_resumes_processing_def
      test_payroll_works_without_pause_manager_def
      pay_test_set_pause_manager_rejects_unauthorized_def
      test_create_run_draft_returns_incremental_id_def
      test_create_run_draft_starts_pending_def
      test_amend_run_draft_updates_fields_and_increments_count_def
      test_finalize_run_draft_makes_it_immutable_def
      test_amend_finalized_draft_is_rejected_def
      test_submit_run_draft_transitions_to_submitted_def
      test_cancel_run_draft_transitions_to_cancelled_def
      test_expire_run_draft_transitions_to_expired_def
      test_terminal_draft_rejects_amendments_and_retransitions_def
      test_unauthorized_draft_transitions_fail_def
      test_is_draft_state_helpers_def
      test_create_run_draft_rejects_non_admin_def
      test_duplicate_nonce_is_rejected_def
      test_distinct_nonces_allow_multiple_runs_def
      test_nonce_is_stored_in_payroll_run_def
      test_draft_hash_binding_accepted_when_pre_committed_def
      test_draft_hash_rejected_without_pre_commitment_def
      test_draft_commitment_is_consumed_after_use_def
      test_batch_runs_without_draft_hash_def
      test_admin_rotation_full_flow_def
      test_propose_admin_rotation_rejects_non_admin_def
      test_accept_admin_rotation_rejects_wrong_address_def
      test_cancel_admin_rotation_def
      test_treasury_rotation_full_flow_def
      test_propose_treasury_rotation_rejects_non_owner_def
      test_duplicate_admin_rotation_proposal_rejected_def
      test_emergency_request_then_approve_def
      test_emergency_request_rejects_non_treasury_owner_def
      test_emergency_approve_rejects_non_admin_def
      test_approve_without_request_panics_def
      test_cancel_emergency_withdrawal_by_admin_def
      test_cancel_emergency_withdrawal_by_treasury_owner_def
      test_duplicate_emergency_request_rejected_def
      payroll_draft_steps)

text \<open>The test on the pause manager panics before it comes to the pause manager: its first guarded call is
  the one that configures the verifier, and nothing is signed yet.\<close>

lemma rejects_unauthorized_stops_early:
  "pay_test_set_pause_manager_rejects_unauthorized e gen = Inl (AuthError (gen 1))"
  by (simp add: pay_test_set_pause_manager_rejects_unauthorized_def payroll_draft_steps)

end
