(* ===== verification/Payroll_Tests_Runs.thy ===== *)
theory Payroll_Tests_Runs
  imports Payroll_Test_Rules
begin

text \<open>
  The unit tests of \<open>contracts/payroll/src/lib.rs\<close>, second part: reconciliation, the state machine, pending
  runs and their cancellation, metadata hashes, rollback of failed executions, deposits and amounts.
\<close>

section \<open>Reconciliation\<close>

definition test_new_run_is_unreconciled :: "env \<Rightarrow> (nat \<Rightarrow> address) \<Rightarrow> unit outcome" where
  "test_new_run_is_unreconciled e gen =
     and_then (setup_simple_payroll e gen) (\<lambda>((admin, treasury, treasury_owner, employee), L).
     and_then (p_batch e gen (single_payment_batch employee 1000) 1000 (test_nonce 30) None L) (\<lambda>(run_id, L).
     and_then (p_try gen (get_payroll_run run_id) L) (\<lambda>run.
     check (pr_reconciliation_status run = Unreconciled))))"

definition test_admin_can_update_reconciliation_status :: "env \<Rightarrow> (nat \<Rightarrow> address) \<Rightarrow> unit outcome" where
  "test_admin_can_update_reconciliation_status e gen =
     and_then (setup_simple_payroll e gen) (\<lambda>((admin, treasury, treasury_owner, employee), L).
     and_then (p_batch e gen (single_payment_batch employee 1000) 1000 (test_nonce 31) None L) (\<lambda>(run_id, L).
     and_then (p_do e gen (\<lambda>e. update_reconciliation_status e admin run_id Reconciled) L) (\<lambda>L.
     and_then (p_try gen (get_payroll_run run_id) L) (\<lambda>run.
     and_then (check (pr_reconciliation_status run = Reconciled)) (\<lambda>_.
     and_then (p_try gen (get_payroll_run_state run_id) L) (\<lambda>st.
     and_then (check (st = Completed)) (\<lambda>_.
     and_then (check_err (p_do e gen (\<lambda>e. update_reconciliation_status e admin run_id ReconciliationFailed) L)) (\<lambda>_.
     Inr ()))))))))"

definition test_reconciled_run_cannot_be_replayed :: "env \<Rightarrow> (nat \<Rightarrow> address) \<Rightarrow> unit outcome" where
  "test_reconciled_run_cannot_be_replayed e gen =
     and_then (setup_simple_payroll e gen) (\<lambda>((admin, treasury, treasury_owner, employee), L).
     and_then (p_batch e gen (single_payment_batch employee 1000) 1000 (test_nonce 220) None L) (\<lambda>(run_id, L).
     and_then (p_do e gen (\<lambda>e. update_reconciliation_status e admin run_id Reconciled) L) (\<lambda>L.
     and_then (p_try gen (get_payroll_run_state run_id) L) (\<lambda>st.
     and_then (check (st = Completed)) (\<lambda>_.
     and_then (check_err (p_do e gen (\<lambda>e. update_reconciliation_status e admin run_id Reconciled) L)) (\<lambda>_.
     Inr ()))))))"

definition test_failed_reconciliation_writes_retryable_payroll_state :: "env \<Rightarrow> (nat \<Rightarrow> address) \<Rightarrow> unit outcome" where
  "test_failed_reconciliation_writes_retryable_payroll_state e gen =
     and_then (setup_simple_payroll e gen) (\<lambda>((admin, treasury, treasury_owner, employee), L).
     and_then (p_batch e gen (single_payment_batch employee 1000) 1000 (test_nonce 33) None L) (\<lambda>(run_id, L).
     and_then (p_do e gen (\<lambda>e. update_reconciliation_status e admin run_id ReconciliationFailed) L) (\<lambda>L.
     and_then (p_try gen (get_payroll_run_state run_id) L) (\<lambda>st.
     and_then (check (st = Failed)) (\<lambda>_.
     check (is_payroll_state_retryable Failed))))))"

definition test_non_admin_cannot_update_reconciliation_status :: "env \<Rightarrow> (nat \<Rightarrow> address) \<Rightarrow> unit outcome" where
  "test_non_admin_cannot_update_reconciliation_status e gen =
     and_then (setup_simple_payroll e gen) (\<lambda>((admin, treasury, treasury_owner, employee), L).
     and_then (p_batch e gen (single_payment_batch employee 1000) 1000 (test_nonce 32) None L) (\<lambda>(run_id, L).
     let non_admin = gen 10 in
     call (p_do e gen (\<lambda>e. update_reconciliation_status e non_admin run_id Reconciled) L)))"

definition test_update_status_for_invalid_run_panics :: "env \<Rightarrow> (nat \<Rightarrow> address) \<Rightarrow> unit outcome" where
  "test_update_status_for_invalid_run_panics e gen =
     and_then (setup_simple_payroll e gen) (\<lambda>((admin, treasury, treasury_owner, employee), L).
     call (p_do e gen (\<lambda>e. update_reconciliation_status e admin 999 Reconciled) L))"

section \<open>State machine\<close>

definition test_payroll_state_machine_allows_canonical_forward_transitions :: "env \<Rightarrow> (nat \<Rightarrow> address) \<Rightarrow> unit outcome" where
  "test_payroll_state_machine_allows_canonical_forward_transitions e gen =
     and_then (setup_simple_payroll e gen) (\<lambda>((admin, treasury, treasury_owner, employee), L).
     and_then (check (is_state_transition_allowed Draft Validating)) (\<lambda>_.
     and_then (check (is_state_transition_allowed Validating ProofPending)) (\<lambda>_.
     and_then (check (is_state_transition_allowed ProofPending ReadyToSubmit)) (\<lambda>_.
     and_then (check (is_state_transition_allowed ReadyToSubmit Submitted)) (\<lambda>_.
     and_then (check (is_state_transition_allowed Submitted Confirming)) (\<lambda>_.
     and_then (check (is_state_transition_allowed Confirming ReconciliationRequired)) (\<lambda>_.
     check (is_state_transition_allowed ReconciliationRequired Completed))))))))"

definition test_payroll_state_machine_rejects_forbidden_transitions :: "env \<Rightarrow> (nat \<Rightarrow> address) \<Rightarrow> unit outcome" where
  "test_payroll_state_machine_rejects_forbidden_transitions e gen =
     and_then (setup_simple_payroll e gen) (\<lambda>((admin, treasury, treasury_owner, employee), L).
     and_then (check (\<not> is_state_transition_allowed Draft Completed)) (\<lambda>_.
     and_then (check (\<not> is_state_transition_allowed Submitted Draft)) (\<lambda>_.
     and_then (check (\<not> is_state_transition_allowed Completed Failed)) (\<lambda>_.
     check (\<not> is_state_transition_allowed Cancelled Submitted)))))"

definition test_payroll_state_machine_terminal_and_retryable_metadata :: "env \<Rightarrow> (nat \<Rightarrow> address) \<Rightarrow> unit outcome" where
  "test_payroll_state_machine_terminal_and_retryable_metadata e gen =
     and_then (setup_simple_payroll e gen) (\<lambda>((admin, treasury, treasury_owner, employee), L).
     and_then (check (is_payroll_state_terminal Completed)) (\<lambda>_.
     and_then (check (is_payroll_state_terminal Cancelled)) (\<lambda>_.
     and_then (check (\<not> is_payroll_state_terminal Failed)) (\<lambda>_.
     and_then (check (is_payroll_state_retryable Failed)) (\<lambda>_.
     check (\<not> is_payroll_state_retryable ReconciliationRequired))))))"

definition test_prepare_and_cancel_write_canonical_payroll_states :: "env \<Rightarrow> (nat \<Rightarrow> address) \<Rightarrow> unit outcome" where
  "test_prepare_and_cancel_write_canonical_payroll_states e gen =
     and_then (setup_simple_payroll e gen) (\<lambda>((admin, treasury, treasury_owner, employee), L).
     and_then (p_prepare e gen (single_payment_batch employee 1000) 1000 (test_nonce 150) None L) (\<lambda>(run_id, L).
     and_then (p_try gen (get_payroll_run_state run_id) L) (\<lambda>st.
     and_then (check (st = Submitted)) (\<lambda>_.
     and_then (p_do e gen (\<lambda>e. cancel_payroll_run_with_reason e admin run_id ''CANCEL'') L) (\<lambda>L.
     and_then (p_try gen (get_payroll_run_state run_id) L) (\<lambda>st.
     check (st = Cancelled)))))))"

definition test_terminal_payroll_state_cannot_be_mutated :: "env \<Rightarrow> (nat \<Rightarrow> address) \<Rightarrow> unit outcome" where
  "test_terminal_payroll_state_cannot_be_mutated e gen =
     and_then (setup_simple_payroll e gen) (\<lambda>((admin, treasury, treasury_owner, employee), L).
     and_then (p_prepare e gen (single_payment_batch employee 1000) 1000 (test_nonce 151) None L) (\<lambda>(run_id, L).
     and_then (p_do e gen (\<lambda>e. cancel_payroll_run_with_reason e admin run_id ''CANCEL'') L) (\<lambda>L.
     and_then (check_err (p_do e gen (\<lambda>e. transition_payroll_run_state e admin run_id Submitted) L)) (\<lambda>_.
     Inr ()))))"

definition test_non_admin_cannot_transition_payroll_state :: "env \<Rightarrow> (nat \<Rightarrow> address) \<Rightarrow> unit outcome" where
  "test_non_admin_cannot_transition_payroll_state e gen =
     and_then (setup_simple_payroll e gen) (\<lambda>((admin, treasury, treasury_owner, employee), L).
     and_then (p_prepare e gen (single_payment_batch employee 1000) 1000 (test_nonce 152) None L) (\<lambda>(run_id, L).
     let attacker = gen 10 in
     and_then (check_err (p_do e gen (\<lambda>e. transition_payroll_run_state e attacker run_id Confirming) L)) (\<lambda>_.
     Inr ())))"

section \<open>Pending runs\<close>

definition test_prepare_payroll_run_creates_pending_run :: "env \<Rightarrow> (nat \<Rightarrow> address) \<Rightarrow> unit outcome" where
  "test_prepare_payroll_run_creates_pending_run e gen =
     and_then (setup_simple_payroll e gen) (\<lambda>((admin, treasury, treasury_owner, employee), L).
     and_then (p_prepare e gen (single_payment_batch employee 1000) 1000 (test_nonce 40) None L) (\<lambda>(run_id, L).
     and_then (check (run_id > 0)) (\<lambda>_.
     and_then (p_get gen (get_pending_run run_id) L) (\<lambda>r.
     and_then (expect ''Pending run should exist'' r) (\<lambda>pending.
     and_then (check (pp_run_id pending = run_id)) (\<lambda>_.
     and_then (check (pp_total_amount pending = 1000)) (\<lambda>_.
     check (pp_employee_count pending = 1))))))))"

definition test_cancel_pending_payroll_run :: "env \<Rightarrow> (nat \<Rightarrow> address) \<Rightarrow> unit outcome" where
  "test_cancel_pending_payroll_run e gen =
     and_then (setup_simple_payroll e gen) (\<lambda>((admin, treasury, treasury_owner, employee), L).
     and_then (p_prepare e gen (single_payment_batch employee 1000) 1000 (test_nonce 41) None L) (\<lambda>(run_id, L).
     and_then (p_do e gen (\<lambda>e. cancel_payroll_run_with_reason e admin run_id ''CANCEL'') L) (\<lambda>L.
     and_then (p_get gen (get_pending_run run_id) L) (\<lambda>r.
     check (r = None)))))"

definition test_cancel_by_non_admin_fails :: "env \<Rightarrow> (nat \<Rightarrow> address) \<Rightarrow> unit outcome" where
  "test_cancel_by_non_admin_fails e gen =
     and_then (setup_simple_payroll e gen) (\<lambda>((admin, treasury, treasury_owner, employee), L).
     and_then (p_prepare e gen (single_payment_batch employee 1000) 1000 (test_nonce 42) None L) (\<lambda>(run_id, L).
     let non_admin = gen 10; reason = ''attack'' in
     call (p_do e gen (\<lambda>e. cancel_payroll_run_with_reason e non_admin run_id reason) L)))"

definition test_cancel_non_existent_run_fails :: "env \<Rightarrow> (nat \<Rightarrow> address) \<Rightarrow> unit outcome" where
  "test_cancel_non_existent_run_fails e gen =
     and_then (setup_simple_payroll e gen) (\<lambda>((admin, treasury, treasury_owner, employee), L).
     let reason = ''no_such_run'' in
     call (p_do e gen (\<lambda>e. cancel_payroll_run_with_reason e admin 999 reason) L))"

definition test_prepare_rejects_duplicate_nonce :: "env \<Rightarrow> (nat \<Rightarrow> address) \<Rightarrow> unit outcome" where
  "test_prepare_rejects_duplicate_nonce e gen =
     and_then (setup_simple_payroll e gen) (\<lambda>((admin, treasury, treasury_owner, employee), L).
     and_then (p_prepare e gen (single_payment_batch employee 1000) 1000 (test_nonce 43) None L) (\<lambda>(_, L).
     and_then (check_err (p_prepare e gen (single_payment_batch employee 1000) 1000 (test_nonce 43) None L)) (\<lambda>_.
     Inr ())))"

definition test_cancel_payroll_run_twice_fails :: "env \<Rightarrow> (nat \<Rightarrow> address) \<Rightarrow> unit outcome" where
  "test_cancel_payroll_run_twice_fails e gen =
     and_then (setup_simple_payroll e gen) (\<lambda>((admin, treasury, treasury_owner, employee), L).
     and_then (p_prepare e gen (single_payment_batch employee 1000) 1000 (test_nonce 44) None L) (\<lambda>(run_id, L).
     let reason = ''double_cancel'' in
     and_then (p_do e gen (\<lambda>e. cancel_payroll_run_with_reason e admin run_id reason) L) (\<lambda>L.
     call (p_do e gen (\<lambda>e. cancel_payroll_run_with_reason e admin run_id reason) L))))"

definition test_cancel_pending_payroll_run_frees_nonce_and_cleans_state :: "env \<Rightarrow> (nat \<Rightarrow> address) \<Rightarrow> unit outcome" where
  "test_cancel_pending_payroll_run_frees_nonce_and_cleans_state e gen =
     and_then (setup_simple_payroll e gen) (\<lambda>((admin, treasury, treasury_owner, employee), L).
     and_then (p_prepare e gen (single_payment_batch employee 1000) 1000 (test_nonce 45) None L) (\<lambda>(run_id, L).
     and_then (p_get gen (get_pending_run run_id) L) (\<lambda>r.
     and_then (check (r \<noteq> None)) (\<lambda>_.
     let reason = ''test_cleanup'' in
     and_then (p_do e gen (\<lambda>e. cancel_payroll_run_with_reason e admin run_id reason) L) (\<lambda>L.
     and_then (p_get gen (get_pending_run run_id) L) (\<lambda>r.
     and_then (check (r = None)) (\<lambda>_.
     and_then (p_try gen (get_payroll_run_state run_id) L) (\<lambda>st.
     check (st = Cancelled)))))))))"

definition test_finalize_payroll_run_records_reconciliation_required_and_cleans_pending :: "env \<Rightarrow> (nat \<Rightarrow> address) \<Rightarrow> unit outcome" where
  "test_finalize_payroll_run_records_reconciliation_required_and_cleans_pending e gen =
     and_then (setup_simple_payroll e gen) (\<lambda>((admin, treasury, treasury_owner, employee), L).
     and_then (p_prepare e gen (single_payment_batch employee 1000) 1000 (test_nonce 46) None L) (\<lambda>(run_id, L).
     and_then (p_get gen (get_pending_run run_id) L) (\<lambda>r.
     and_then (check (r \<noteq> None)) (\<lambda>_.
     and_then (p_try gen (get_payroll_run_state run_id) L) (\<lambda>st.
     and_then (check (st = Submitted)) (\<lambda>_.
     and_then (p_do e gen (\<lambda>e. finalize_payroll_run e admin run_id) L) (\<lambda>L.
     and_then (p_get gen (get_pending_run run_id) L) (\<lambda>r.
     and_then (check (r = None)) (\<lambda>_.
     and_then (p_try gen (get_payroll_run_state run_id) L) (\<lambda>st.
     and_then (check (st = ReconciliationRequired)) (\<lambda>_.
     and_then (p_try gen (get_payroll_run run_id) L) (\<lambda>run.
     check (pr_reconciliation_status run = Unreconciled)))))))))))))"

definition test_failed_prepare_does_not_lock_nonce :: "env \<Rightarrow> (nat \<Rightarrow> address) \<Rightarrow> unit outcome" where
  "test_failed_prepare_does_not_lock_nonce e gen =
     and_then (setup_simple_payroll e gen) (\<lambda>((admin, treasury, treasury_owner, employee), L).
     and_then (p_prepare e gen (single_payment_batch employee 500) 500 (test_nonce 107) None L) (\<lambda>(run_id, L).
     and_then (check (run_id > 0)) (\<lambda>_.
     let attacker = gen 10; reason = ''attack'' in
     and_then (check_err (p_do e gen (\<lambda>e. cancel_payroll_run_with_reason e attacker run_id reason) L)) (\<lambda>_.
     and_then (p_get gen (get_pending_run run_id) L) (\<lambda>pending.
     check (pending \<noteq> None))))))"

section \<open>Metadata hashes\<close>

definition test_commit_metadata_hash_stores_commitment :: "env \<Rightarrow> (nat \<Rightarrow> address) \<Rightarrow> unit outcome" where
  "test_commit_metadata_hash_stores_commitment e gen =
     and_then (setup_simple_payroll e gen) (\<lambda>((admin, treasury, treasury_owner, employee), L).
     let meta_hash = b32 0xaa in
     call (p_do e gen (\<lambda>e. commit_metadata_hash e admin meta_hash) L))"

definition test_commit_metadata_hash_twice_panics :: "env \<Rightarrow> (nat \<Rightarrow> address) \<Rightarrow> unit outcome" where
  "test_commit_metadata_hash_twice_panics e gen =
     and_then (setup_simple_payroll e gen) (\<lambda>((admin, treasury, treasury_owner, employee), L).
     let meta_hash = b32 0xbb in
     and_then (p_do e gen (\<lambda>e. commit_metadata_hash e admin meta_hash) L) (\<lambda>L.
     call (p_do e gen (\<lambda>e. commit_metadata_hash e admin meta_hash) L)))"

definition test_set_run_metadata_binds_hash_to_run :: "env \<Rightarrow> (nat \<Rightarrow> address) \<Rightarrow> unit outcome" where
  "test_set_run_metadata_binds_hash_to_run e gen =
     and_then (setup_simple_payroll e gen) (\<lambda>((admin, treasury, treasury_owner, employee), L).
     and_then (p_batch e gen (single_payment_batch employee 1000) 1000 (test_nonce 50) None L) (\<lambda>(run_id, L).
     and_then (check (run_id > 0)) (\<lambda>_.
     let meta_hash = b32 0xcc in
     and_then (p_do e gen (\<lambda>e. commit_metadata_hash e admin meta_hash) L) (\<lambda>L.
     and_then (p_do e gen (\<lambda>e. set_run_metadata e admin run_id meta_hash) L) (\<lambda>L.
     and_then (p_try gen (get_payroll_run run_id) L) (\<lambda>run.
     check (pr_metadata_hash run = meta_hash)))))))"

definition test_set_run_metadata_rejects_uncommitted_hash :: "env \<Rightarrow> (nat \<Rightarrow> address) \<Rightarrow> unit outcome" where
  "test_set_run_metadata_rejects_uncommitted_hash e gen =
     and_then (setup_simple_payroll e gen) (\<lambda>((admin, treasury, treasury_owner, employee), L).
     and_then (p_batch e gen (single_payment_batch employee 1000) 1000 (test_nonce 51) None L) (\<lambda>(run_id, L).
     let meta_hash = b32 0xdd in
     call (p_do e gen (\<lambda>e. set_run_metadata e admin run_id meta_hash) L)))"

definition test_run_metadata_hash_defaults_to_zero :: "env \<Rightarrow> (nat \<Rightarrow> address) \<Rightarrow> unit outcome" where
  "test_run_metadata_hash_defaults_to_zero e gen =
     and_then (setup_simple_payroll e gen) (\<lambda>((admin, treasury, treasury_owner, employee), L).
     and_then (p_batch e gen (single_payment_batch employee 1000) 1000 (test_nonce 52) None L) (\<lambda>(run_id, L).
     and_then (p_try gen (get_payroll_run run_id) L) (\<lambda>run.
     check (pr_metadata_hash run = b32 0))))"

section \<open>Failed executions roll back\<close>

definition test_failed_proof_mid_batch_rolls_back_nonce :: "env \<Rightarrow> (nat \<Rightarrow> address) \<Rightarrow> unit outcome" where
  "test_failed_proof_mid_batch_rolls_back_nonce e gen =
     and_then (setup_simple_payroll e gen) (\<lambda>((admin, treasury, treasury_owner, employee), L).
     let emp1 = employee; emp2 = gen 10; nonce = test_nonce 100 in
     and_then (check_err (p_batch e gen ([mock_proof, mock_proof], [500, 500], [emp1, emp2]) 1000 nonce None L)) (\<lambda>_.
     and_then (p_batch e gen (single_payment_batch emp1 500) 500 (test_nonce 100) None L) (\<lambda>(run_id, L).
     check (run_id > 0))))"

definition test_insufficient_funds_rolls_back_nonce_and_commitment :: "env \<Rightarrow> (nat \<Rightarrow> address) \<Rightarrow> unit outcome" where
  "test_insufficient_funds_rolls_back_nonce_and_commitment e gen =
     and_then (setup_funded_payroll e gen 100) (\<lambda>((admin, treasury, treasury_owner, employee), L).
     let nonce = test_nonce 101; draft_hash = b32 0x81 in
     and_then (p_do e gen (\<lambda>e. commit_draft e admin draft_hash) L) (\<lambda>L.
     and_then (check_err (p_batch e gen (single_payment_batch employee 1000) 1000 (test_nonce 101) (Some draft_hash) L)) (\<lambda>_.
     and_then (p_mint gen treasury 10000 L) (\<lambda>L.
     and_then (p_batch e gen (single_payment_batch employee 1000) 1000 (test_nonce 101) (Some draft_hash) L) (\<lambda>(run_id, L).
     check (run_id > 0))))))"

definition test_failed_execution_does_not_create_payroll_run :: "env \<Rightarrow> (nat \<Rightarrow> address) \<Rightarrow> unit outcome" where
  "test_failed_execution_does_not_create_payroll_run e gen =
     and_then (setup_simple_payroll e gen) (\<lambda>((admin, treasury, treasury_owner, employee), L).
     and_then (check_err (p_batch e gen (single_payment_batch employee 500) 999 (test_nonce 102) None L)) (\<lambda>_.
     and_then (p_get gen (\<lambda>s. list_ex (\<lambda>run_id. case get_payroll_run run_id s of Inr _ \<Rightarrow> True | Inl _ \<Rightarrow> False) [1, 2, 3, 4]) L) (\<lambda>any_run.
     and_then (check (\<not> any_run)) (\<lambda>_.
     and_then (p_batch e gen (single_payment_batch employee 500) 500 (test_nonce 102) None L) (\<lambda>(run_id, L).
     check (run_id > 0))))))"

definition test_failed_execution_does_not_consume_draft_commitment :: "env \<Rightarrow> (nat \<Rightarrow> address) \<Rightarrow> unit outcome" where
  "test_failed_execution_does_not_consume_draft_commitment e gen =
     and_then (setup_simple_payroll e gen) (\<lambda>((admin, treasury, treasury_owner, employee), L).
     let draft_hash = b32 0x82 in
     and_then (p_do e gen (\<lambda>e. commit_draft e admin draft_hash) L) (\<lambda>L.
     and_then (check_err (p_batch e gen (single_payment_batch employee 500) 999 (test_nonce 103) (Some draft_hash) L)) (\<lambda>_.
     and_then (p_batch e gen (single_payment_batch employee 500) 500 (test_nonce 104) (Some draft_hash) L) (\<lambda>(run_id, L).
     check (run_id > 0)))))"

definition test_failed_execution_does_not_leave_pending_state :: "env \<Rightarrow> (nat \<Rightarrow> address) \<Rightarrow> unit outcome" where
  "test_failed_execution_does_not_leave_pending_state e gen =
     and_then (setup_simple_payroll e gen) (\<lambda>((admin, treasury, treasury_owner, employee), L).
     and_then (check_err (p_batch e gen (single_payment_batch employee 500) 999 (test_nonce 105) None L)) (\<lambda>_.
     and_then (p_batch e gen (single_payment_batch employee 500) 500 (test_nonce 105) None L) (\<lambda>(run_id, L).
     check (run_id > 0))))"

definition test_successful_run_consumes_nonce_permanently :: "env \<Rightarrow> (nat \<Rightarrow> address) \<Rightarrow> unit outcome" where
  "test_successful_run_consumes_nonce_permanently e gen =
     and_then (setup_simple_payroll e gen) (\<lambda>((admin, treasury, treasury_owner, employee), L).
     and_then (p_batch e gen (single_payment_batch employee 500) 500 (test_nonce 106) None L) (\<lambda>(_, L).
     call (p_batch e gen (single_payment_batch employee 500) 500 (test_nonce 106) None L)))"

definition test_failed_execution_array_mismatch_rolls_back :: "env \<Rightarrow> (nat \<Rightarrow> address) \<Rightarrow> unit outcome" where
  "test_failed_execution_array_mismatch_rolls_back e gen =
     and_then (setup_simple_payroll e gen) (\<lambda>((admin, treasury, treasury_owner, employee), L).
     and_then (check_err (p_batch e gen ([mock_proof], [500, 500], [employee]) 1000 (test_nonce 108) None L)) (\<lambda>_.
     and_then (p_batch e gen (single_payment_batch employee 500) 500 (test_nonce 108) None L) (\<lambda>(run_id, L).
     check (run_id > 0))))"

section \<open>Deposits, pausing and amounts\<close>

definition test_pause_blocks_deposit :: "env \<Rightarrow> (nat \<Rightarrow> address) \<Rightarrow> unit outcome" where
  "test_pause_blocks_deposit e gen =
     and_then (setup_simple_payroll e gen) (\<lambda>((admin, treasury, treasury_owner, employee), L).
     let pm_id = gen 10; L = register_manager pm_id L in
     and_then (pm_do e pm_id (\<lambda>e. initialize_pm e admin) L) (\<lambda>L.
     and_then (p_do e gen (\<lambda>e. set_pause_manager e pm_id) L) (\<lambda>L.
     and_then (pm_do e pm_id (\<lambda>e. pause e) L) (\<lambda>L.
     let deposit_id = b32 0xff in
     call (p_move e gen (\<lambda>e. deposit e treasury 100 deposit_id) L)))))"

definition test_pause_blocks_emergency_withdrawal_request :: "env \<Rightarrow> (nat \<Rightarrow> address) \<Rightarrow> unit outcome" where
  "test_pause_blocks_emergency_withdrawal_request e gen =
     and_then (setup_simple_payroll e gen) (\<lambda>((admin, treasury, treasury_owner, employee), L).
     let pm_id = gen 10; L = register_manager pm_id L in
     and_then (pm_do e pm_id (\<lambda>e. initialize_pm e admin) L) (\<lambda>L.
     and_then (p_do e gen (\<lambda>e. set_pause_manager e pm_id) L) (\<lambda>L.
     and_then (pm_do e pm_id (\<lambda>e. pause e) L) (\<lambda>L.
     let recipient = gen 11 in
     call (p_move e gen (\<lambda>e. request_emergency_withdrawal e treasury_owner 500 recipient) L)))))"

definition test_deposit_with_unique_id_succeeds :: "env \<Rightarrow> (nat \<Rightarrow> address) \<Rightarrow> unit outcome" where
  "test_deposit_with_unique_id_succeeds e gen =
     and_then (setup_simple_payroll e gen) (\<lambda>((admin, treasury, treasury_owner, employee), L).
     let deposit_id = b32 1 in
     call (p_move e gen (\<lambda>e. deposit e treasury 500 deposit_id) L))"

definition test_deposit_replay_with_same_id_rejected :: "env \<Rightarrow> (nat \<Rightarrow> address) \<Rightarrow> unit outcome" where
  "test_deposit_replay_with_same_id_rejected e gen =
     and_then (setup_simple_payroll e gen) (\<lambda>((admin, treasury, treasury_owner, employee), L).
     let deposit_id = b32 2 in
     and_then (p_move e gen (\<lambda>e. deposit e treasury 500 deposit_id) L) (\<lambda>L.
     call (p_move e gen (\<lambda>e. deposit e treasury 500 deposit_id) L)))"

definition test_deposit_distinct_ids_both_succeed :: "env \<Rightarrow> (nat \<Rightarrow> address) \<Rightarrow> unit outcome" where
  "test_deposit_distinct_ids_both_succeed e gen =
     and_then (setup_simple_payroll e gen) (\<lambda>((admin, treasury, treasury_owner, employee), L).
     let id1 = b32 3; id2 = b32 4 in
     and_then (p_move e gen (\<lambda>e. deposit e treasury 500 id1) L) (\<lambda>L.
     call (p_move e gen (\<lambda>e. deposit e treasury 500 id2) L)))"

definition test_batch_process_rejects_zero_amount :: "env \<Rightarrow> (nat \<Rightarrow> address) \<Rightarrow> unit outcome" where
  "test_batch_process_rejects_zero_amount e gen =
     and_then (setup_simple_payroll e gen) (\<lambda>((admin, treasury, treasury_owner, employee), L).
     call (p_batch e gen (single_payment_batch employee 0) 0 (test_nonce 200) None L))"

definition test_batch_process_rejects_negative_amount :: "env \<Rightarrow> (nat \<Rightarrow> address) \<Rightarrow> unit outcome" where
  "test_batch_process_rejects_negative_amount e gen =
     and_then (setup_simple_payroll e gen) (\<lambda>((admin, treasury, treasury_owner, employee), L).
     call (p_batch e gen (single_payment_batch employee (-1)) (-1) (test_nonce 201) None L))"

definition test_prepare_payroll_run_rejects_zero_amount :: "env \<Rightarrow> (nat \<Rightarrow> address) \<Rightarrow> unit outcome" where
  "test_prepare_payroll_run_rejects_zero_amount e gen =
     and_then (setup_simple_payroll e gen) (\<lambda>((admin, treasury, treasury_owner, employee), L).
     call (p_prepare e gen (single_payment_batch employee 0) 0 (test_nonce 202) None L))"

definition test_prepare_payroll_run_rejects_negative_amount :: "env \<Rightarrow> (nat \<Rightarrow> address) \<Rightarrow> unit outcome" where
  "test_prepare_payroll_run_rejects_negative_amount e gen =
     and_then (setup_simple_payroll e gen) (\<lambda>((admin, treasury, treasury_owner, employee), L).
     call (p_prepare e gen (single_payment_batch employee (-1)) (-1) (test_nonce 203) None L))"

section \<open>Outcomes\<close>

lemmas payroll_run_test_steps = setup_simple setup_funded p_defs payroll_run_steps payroll_state_steps

lemma payroll_run_tests_outcome:
  assumes "mocked e" "inj gen"
  shows "test_new_run_is_unreconciled e gen = Inr ()"
    "test_admin_can_update_reconciliation_status e gen = Inr ()"
    "test_reconciled_run_cannot_be_replayed e gen = Inr ()"
    "test_failed_reconciliation_writes_retryable_payroll_state e gen = Inr ()"
    "should_panic ''Unauthorized'' (test_non_admin_cannot_update_reconciliation_status e gen)"
    "should_panic ''Run not found'' (test_update_status_for_invalid_run_panics e gen)"
    "test_payroll_state_machine_allows_canonical_forward_transitions e gen = Inr ()"
    "test_payroll_state_machine_rejects_forbidden_transitions e gen = Inr ()"
    "test_payroll_state_machine_terminal_and_retryable_metadata e gen = Inr ()"
    "test_prepare_and_cancel_write_canonical_payroll_states e gen = Inr ()"
    "test_terminal_payroll_state_cannot_be_mutated e gen = Inr ()"
    "test_non_admin_cannot_transition_payroll_state e gen = Inr ()"
    "test_prepare_payroll_run_creates_pending_run e gen = Inr ()"
    "test_cancel_pending_payroll_run e gen = Inr ()"
    "should_panic ''Unauthorized'' (test_cancel_by_non_admin_fails e gen)"
    "should_panic ''Pending run not found'' (test_cancel_non_existent_run_fails e gen)"
    "test_prepare_rejects_duplicate_nonce e gen = Inr ()"
    "should_panic ''Pending run not found'' (test_cancel_payroll_run_twice_fails e gen)"
    "test_cancel_pending_payroll_run_frees_nonce_and_cleans_state e gen = Inr ()"
    "test_finalize_payroll_run_records_reconciliation_required_and_cleans_pending e gen = Inr ()"
    "test_failed_prepare_does_not_lock_nonce e gen = Inr ()"
    "test_commit_metadata_hash_stores_commitment e gen = Inr ()"
    "should_panic ''Metadata hash already committed'' (test_commit_metadata_hash_twice_panics e gen)"
    "test_set_run_metadata_binds_hash_to_run e gen = Inr ()"
    "should_panic ''Metadata hash not pre-committed'' (test_set_run_metadata_rejects_uncommitted_hash e gen)"
    "test_run_metadata_hash_defaults_to_zero e gen = Inr ()"
    "test_failed_proof_mid_batch_rolls_back_nonce e gen = Inr ()"
    "test_insufficient_funds_rolls_back_nonce_and_commitment e gen = Inr ()"
    "test_failed_execution_does_not_create_payroll_run e gen = Inr ()"
    "test_failed_execution_does_not_consume_draft_commitment e gen = Inr ()"
    "test_failed_execution_does_not_leave_pending_state e gen = Inr ()"
    "should_panic ''Duplicate run nonce'' (test_successful_run_consumes_nonce_permanently e gen)"
    "test_failed_execution_array_mismatch_rolls_back e gen = Inr ()"
    "should_panic ''Payroll is paused'' (test_pause_blocks_deposit e gen)"
    "should_panic ''Payroll is paused'' (test_pause_blocks_emergency_withdrawal_request e gen)"
    "test_deposit_with_unique_id_succeeds e gen = Inr ()"
    "should_panic ''Deposit already processed'' (test_deposit_replay_with_same_id_rejected e gen)"
    "test_deposit_distinct_ids_both_succeed e gen = Inr ()"
    "should_panic ''Amount must be positive'' (test_batch_process_rejects_zero_amount e gen)"
    "should_panic ''Amount must be positive'' (test_batch_process_rejects_negative_amount e gen)"
    "should_panic ''Amount must be positive'' (test_prepare_payroll_run_rejects_zero_amount e gen)"
    "should_panic ''Amount must be positive'' (test_prepare_payroll_run_rejects_negative_amount e gen)"
  using assms
  by (simp_all add: test_new_run_is_unreconciled_def
      test_admin_can_update_reconciliation_status_def
      test_reconciled_run_cannot_be_replayed_def
      test_failed_reconciliation_writes_retryable_payroll_state_def
      test_non_admin_cannot_update_reconciliation_status_def
      test_update_status_for_invalid_run_panics_def
      test_payroll_state_machine_allows_canonical_forward_transitions_def
      test_payroll_state_machine_rejects_forbidden_transitions_def
      test_payroll_state_machine_terminal_and_retryable_metadata_def
      test_prepare_and_cancel_write_canonical_payroll_states_def
      test_terminal_payroll_state_cannot_be_mutated_def
      test_non_admin_cannot_transition_payroll_state_def
      test_prepare_payroll_run_creates_pending_run_def
      test_cancel_pending_payroll_run_def
      test_cancel_by_non_admin_fails_def
      test_cancel_non_existent_run_fails_def
      test_prepare_rejects_duplicate_nonce_def
      test_cancel_payroll_run_twice_fails_def
      test_cancel_pending_payroll_run_frees_nonce_and_cleans_state_def
      test_finalize_payroll_run_records_reconciliation_required_and_cleans_pending_def
      test_failed_prepare_does_not_lock_nonce_def
      test_commit_metadata_hash_stores_commitment_def
      test_commit_metadata_hash_twice_panics_def
      test_set_run_metadata_binds_hash_to_run_def
      test_set_run_metadata_rejects_uncommitted_hash_def
      test_run_metadata_hash_defaults_to_zero_def
      test_failed_proof_mid_batch_rolls_back_nonce_def
      test_insufficient_funds_rolls_back_nonce_and_commitment_def
      test_failed_execution_does_not_create_payroll_run_def
      test_failed_execution_does_not_consume_draft_commitment_def
      test_failed_execution_does_not_leave_pending_state_def
      test_successful_run_consumes_nonce_permanently_def
      test_failed_execution_array_mismatch_rolls_back_def
      test_pause_blocks_deposit_def
      test_pause_blocks_emergency_withdrawal_request_def
      test_deposit_with_unique_id_succeeds_def
      test_deposit_replay_with_same_id_rejected_def
      test_deposit_distinct_ids_both_succeed_def
      test_batch_process_rejects_zero_amount_def
      test_batch_process_rejects_negative_amount_def
      test_prepare_payroll_run_rejects_zero_amount_def
      test_prepare_payroll_run_rejects_negative_amount_def
      payroll_run_test_steps)

end
