(* ===== verification/Payroll_Tests_Reviews.thy ===== *)
theory Payroll_Tests_Reviews
  imports Payroll_Test_Rules
begin

text \<open>
  The unit tests of \<open>contracts/payroll/src/lib.rs\<close>, third part: completion guards, the asset allowlist,
  reviewers, batch checkpoints, the handover of the admin, locked funds and quorums.
\<close>

section \<open>Set-up\<close>

definition setup_payroll_with_token ::
  "env \<Rightarrow> (nat \<Rightarrow> address) \<Rightarrow> ((address \<times> address \<times> address \<times> address \<times> address) \<times> ledger) outcome" where
  "setup_payroll_with_token e gen = and_then (setup_funded_payroll e gen 1000000) (\<lambda>((admin, treasury, treasury_owner, employee), L).
     Inr ((admin, treasury, treasury_owner, employee, gen 4), L))"

section \<open>Storage keys and completion guards\<close>

definition test_storage_keys_are_namespaced :: "env \<Rightarrow> (nat \<Rightarrow> address) \<Rightarrow> unit outcome" where
  "test_storage_keys_are_namespaced e gen =
     and_then (setup_simple_payroll e gen) (\<lambda>((admin, treasury, treasury_owner, employee), L).
     and_then (p_batch e gen (single_payment_batch employee 1000) 1000 (test_nonce 210) None L) (\<lambda>(run_id, L).
     and_then (p_new e gen (\<lambda>e. create_run_draft e admin 5000 10 ''Q1'') L) (\<lambda>(draft_id, L).
     and_then (p_try gen (get_payroll_run run_id) L) (\<lambda>run.
     and_then (p_try gen (get_run_draft draft_id) L) (\<lambda>draft.
     and_then (check (pr_run_id run = run_id)) (\<lambda>_.
     check (rd_draft_id draft = draft_id)))))))"

definition test_parameterized_keys_support_schema_extension :: "env \<Rightarrow> (nat \<Rightarrow> address) \<Rightarrow> unit outcome" where
  "test_parameterized_keys_support_schema_extension e gen =
     and_then (setup_simple_payroll e gen) (\<lambda>((admin, treasury, treasury_owner, employee), L).
     and_then (p_batch e gen (single_payment_batch employee 1000) 1000 (test_nonce 211) None L) (\<lambda>(run_id, L).
     and_then (p_try gen (get_payroll_run run_id) L) (\<lambda>run.
     and_then (check (pr_run_id run = run_id)) (\<lambda>_.
     and_then (check (pr_total_amount run = 1000)) (\<lambda>_.
     check (pr_employee_count run = 1))))))"

definition test_finalize_run_draft_is_idempotent :: "env \<Rightarrow> (nat \<Rightarrow> address) \<Rightarrow> unit outcome" where
  "test_finalize_run_draft_is_idempotent e gen =
     and_then (setup_simple_payroll e gen) (\<lambda>((admin, treasury, treasury_owner, employee), L).
     and_then (p_new e gen (\<lambda>e. create_run_draft e admin 8000 15 ''MAR'') L) (\<lambda>(id, L).
     and_then (p_do e gen (\<lambda>e. finalize_run_draft e admin id) L) (\<lambda>L.
     and_then (p_try gen (get_run_draft id) L) (\<lambda>draft.
     and_then (check (rd_state draft = DraftFinalized)) (\<lambda>_.
     and_then (check_err (p_do e gen (\<lambda>e. finalize_run_draft e admin id) L)) (\<lambda>_.
     Inr ()))))))"

definition test_payroll_run_execution_is_idempotent_via_nonce :: "env \<Rightarrow> (nat \<Rightarrow> address) \<Rightarrow> unit outcome" where
  "test_payroll_run_execution_is_idempotent_via_nonce e gen =
     and_then (setup_simple_payroll e gen) (\<lambda>((admin, treasury, treasury_owner, employee), L).
     and_then (p_batch e gen (single_payment_batch employee 1000) 1000 (test_nonce 212) None L) (\<lambda>(run_id, L).
     and_then (check (run_id > 0)) (\<lambda>_.
     and_then (check_err (p_batch e gen (single_payment_batch employee 1000) 1000 (test_nonce 212) None L)) (\<lambda>_.
     Inr ()))))"

definition test_pending_run_cannot_be_cancelled_twice :: "env \<Rightarrow> (nat \<Rightarrow> address) \<Rightarrow> unit outcome" where
  "test_pending_run_cannot_be_cancelled_twice e gen =
     and_then (setup_simple_payroll e gen) (\<lambda>((admin, treasury, treasury_owner, employee), L).
     and_then (p_prepare e gen (single_payment_batch employee 1000) 1000 (test_nonce 213) None L) (\<lambda>(run_id, L).
     let reason = ''settlement_guard'' in
     and_then (p_do e gen (\<lambda>e. cancel_payroll_run_with_reason e admin run_id reason) L) (\<lambda>L.
     and_then (check_err (p_do e gen (\<lambda>e. cancel_payroll_run_with_reason e admin run_id reason) L)) (\<lambda>_.
     Inr ()))))"

definition test_settlement_completion_guard_via_draft_state :: "env \<Rightarrow> (nat \<Rightarrow> address) \<Rightarrow> unit outcome" where
  "test_settlement_completion_guard_via_draft_state e gen =
     and_then (setup_simple_payroll e gen) (\<lambda>((admin, treasury, treasury_owner, employee), L).
     and_then (p_new e gen (\<lambda>e. create_run_draft e admin 10000 20 ''Q4'') L) (\<lambda>(draft_id, L).
     and_then (p_try gen (get_run_draft draft_id) L) (\<lambda>draft.
     and_then (check (rd_state draft = DraftPending)) (\<lambda>_.
     and_then (p_do e gen (\<lambda>e. finalize_run_draft e admin draft_id) L) (\<lambda>L.
     and_then (p_try gen (get_run_draft draft_id) L) (\<lambda>draft.
     and_then (check (rd_state draft = DraftFinalized)) (\<lambda>_.
     and_then (check_err (p_do e gen (\<lambda>e. amend_run_draft e admin draft_id 12000 22) L)) (\<lambda>_.
     and_then (check_err (p_do e gen (\<lambda>e. finalize_run_draft e admin draft_id) L)) (\<lambda>_.
     Inr ())))))))))"

section \<open>Asset allowlist\<close>

definition pay_test_asset_allowlist_management_and_execution :: "env \<Rightarrow> (nat \<Rightarrow> address) \<Rightarrow> unit outcome" where
  "pay_test_asset_allowlist_management_and_execution e gen =
     and_then (setup_payroll_with_token e gen) (\<lambda>((admin, treasury, treasury_owner, employee, token_id), L).
     and_then (p_get gen (is_asset_allowed token_id) L) (\<lambda>r.
     and_then (check (r)) (\<lambda>_.
     and_then (p_do e gen (\<lambda>e. set_asset_allowed e token_id False) L) (\<lambda>L.
     and_then (p_get gen (is_asset_allowed token_id) L) (\<lambda>r.
     and_then (check (\<not> r)) (\<lambda>_.
     and_then (p_do e gen (\<lambda>e. set_asset_allowed e token_id True) L) (\<lambda>L.
     and_then (p_get gen (is_asset_allowed token_id) L) (\<lambda>r.
     check (r)))))))))"

definition test_execute_payroll_fails_when_asset_disallowed :: "env \<Rightarrow> (nat \<Rightarrow> address) \<Rightarrow> unit outcome" where
  "test_execute_payroll_fails_when_asset_disallowed e gen =
     and_then (setup_payroll_with_token e gen) (\<lambda>((admin, treasury, treasury_owner, employee, token_id), L).
     and_then (p_do e gen (\<lambda>e. set_asset_allowed e token_id False) L) (\<lambda>L.
     call (p_batch e gen (single_payment_batch employee 1000) 1000 (test_nonce 220) None L)))"

definition test_prepare_payroll_run_fails_when_asset_disallowed :: "env \<Rightarrow> (nat \<Rightarrow> address) \<Rightarrow> unit outcome" where
  "test_prepare_payroll_run_fails_when_asset_disallowed e gen =
     and_then (setup_payroll_with_token e gen) (\<lambda>((admin, treasury, treasury_owner, employee, token_id), L).
     and_then (p_do e gen (\<lambda>e. set_asset_allowed e token_id False) L) (\<lambda>L.
     call (p_prepare e gen (single_payment_batch employee 1000) 1000 (test_nonce 221) None L)))"

definition test_non_admin_cannot_manage_allowlist :: "env \<Rightarrow> (nat \<Rightarrow> address) \<Rightarrow> unit outcome" where
  "test_non_admin_cannot_manage_allowlist e gen =
     and_then (setup_payroll_with_token e gen) (\<lambda>((admin, treasury, treasury_owner, employee, token_id), L).
     let attacker = gen 10 in
     call (p_do (signed_by attacker e) gen (\<lambda>e. set_asset_allowed e token_id False) L))"

section \<open>Reviewers\<close>

definition test_reviewer_authorization_workflow :: "env \<Rightarrow> (nat \<Rightarrow> address) \<Rightarrow> unit outcome" where
  "test_reviewer_authorization_workflow e gen =
     and_then (setup_simple_payroll e gen) (\<lambda>((admin, treasury, treasury_owner, employee), L).
     let reviewer = gen 10 in
     and_then (p_get gen (is_reviewer reviewer) L) (\<lambda>r.
     and_then (check (\<not> r)) (\<lambda>_.
     and_then (p_do e gen (\<lambda>e. add_reviewer e admin reviewer) L) (\<lambda>L.
     and_then (p_get gen (is_reviewer reviewer) L) (\<lambda>r.
     and_then (check (r)) (\<lambda>_.
     and_then (p_prepare e gen (single_payment_batch employee 1000) 1000 (test_nonce 99) None L) (\<lambda>(run_id, L).
     and_then (p_do e gen (\<lambda>e. approve_payroll_run e reviewer run_id) L) (\<lambda>L.
     and_then (p_get gen (get_run_review run_id) L) (\<lambda>r.
     and_then (expect ''Review record missing'' r) (\<lambda>review.
     and_then (check (rv_run_id review = run_id)) (\<lambda>_.
     and_then (check (rv_reviewer review = reviewer)) (\<lambda>_.
     and_then (check (rv_decision review = Approved)) (\<lambda>_.
     let reason_changes = ''need_docs'' in
     and_then (p_do e gen (\<lambda>e. request_changes_payroll_run e reviewer run_id reason_changes) L) (\<lambda>L.
     and_then (p_get gen (get_run_review run_id) L) (\<lambda>r.
     and_then (expect ''Review record missing'' r) (\<lambda>review2.
     and_then (check (rv_decision review2 = ChangesRequested)) (\<lambda>_.
     and_then (check (rv_reason review2 = reason_changes)) (\<lambda>_.
     let reason_reject = ''invalid'' in
     and_then (p_do e gen (\<lambda>e. reject_payroll_run e reviewer run_id reason_reject) L) (\<lambda>L.
     and_then (p_get gen (get_run_review run_id) L) (\<lambda>r.
     and_then (expect ''Review record missing'' r) (\<lambda>review3.
     and_then (check (rv_decision review3 = Rejected)) (\<lambda>_.
     and_then (check (rv_reason review3 = reason_reject)) (\<lambda>_.
     and_then (p_do e gen (\<lambda>e. remove_reviewer e admin reviewer) L) (\<lambda>L.
     and_then (p_get gen (is_reviewer reviewer) L) (\<lambda>r.
     check (\<not> r))))))))))))))))))))))))))"

definition test_unauthorized_approve_panics :: "env \<Rightarrow> (nat \<Rightarrow> address) \<Rightarrow> unit outcome" where
  "test_unauthorized_approve_panics e gen =
     and_then (setup_simple_payroll e gen) (\<lambda>((admin, treasury, treasury_owner, employee), L).
     let unauthorized = gen 10 in
     and_then (p_prepare e gen (single_payment_batch employee 1000) 1000 (test_nonce 100) None L) (\<lambda>(run_id, L).
     call (p_do e gen (\<lambda>e. approve_payroll_run e unauthorized run_id) L)))"

section \<open>Batch checkpoints\<close>

definition test_batch_checkpoint_resume_flow :: "env \<Rightarrow> (nat \<Rightarrow> address) \<Rightarrow> unit outcome" where
  "test_batch_checkpoint_resume_flow e gen =
     and_then (setup_simple_payroll e gen) (\<lambda>((admin, treasury, treasury_owner, employee), L).
     let employer = gen 10; asset = gen 11; batch_root = b32 0x11; execution_nonce = b32 0x22 in
     and_then (p_do e gen (\<lambda>e. begin_batch_execution_checkpoint e admin employer batch_root asset execution_nonce 0) L) (\<lambda>L.
     and_then (p_try gen (get_batch_execution_checkpoint employer batch_root asset execution_nonce) L) (\<lambda>checkpoint.
     and_then (check (bc_state checkpoint = CpStarted)) (\<lambda>_.
     and_then (check (\<not> bc_completed checkpoint)) (\<lambda>_.
     and_then (p_do e gen (\<lambda>e. record_batch_checkpoint_progress e admin employer batch_root asset execution_nonce 5 CpPartiallyCheckpointed) L) (\<lambda>L.
     and_then (p_new e gen (\<lambda>e. resume_batch_execution e admin employer batch_root asset execution_nonce 5) L) (\<lambda>(resumed, L).
     and_then (check (resumed)) (\<lambda>_.
     and_then (p_try gen (get_batch_execution_checkpoint employer batch_root asset execution_nonce) L) (\<lambda>checkpoint_after.
     and_then (check (bc_state checkpoint_after = CpResumed)) (\<lambda>_.
     and_then (check (bc_last_checkpoint_index checkpoint_after = 5)) (\<lambda>_.
     check (bc_total_checkpoints checkpoint_after = 2))))))))))))"

definition test_batch_checkpoint_rejects_backward_progress :: "env \<Rightarrow> (nat \<Rightarrow> address) \<Rightarrow> unit outcome" where
  "test_batch_checkpoint_rejects_backward_progress e gen =
     and_then (setup_simple_payroll e gen) (\<lambda>((admin, treasury, treasury_owner, employee), L).
     let employer = gen 10; asset = gen 11; batch_root = b32 0x99; execution_nonce = b32 0xaa in
     and_then (p_do e gen (\<lambda>e. begin_batch_execution_checkpoint e admin employer batch_root asset execution_nonce 2) L) (\<lambda>L.
     call (p_do e gen (\<lambda>e. record_batch_checkpoint_progress e admin employer batch_root asset execution_nonce 1 CpPartiallyCheckpointed) L)))"

definition test_batch_checkpoint_replay_is_rejected :: "env \<Rightarrow> (nat \<Rightarrow> address) \<Rightarrow> unit outcome" where
  "test_batch_checkpoint_replay_is_rejected e gen =
     and_then (setup_simple_payroll e gen) (\<lambda>((admin, treasury, treasury_owner, employee), L).
     let employer = gen 10; asset = gen 11; batch_root = b32 0x33; execution_nonce = b32 0x44 in
     and_then (p_do e gen (\<lambda>e. begin_batch_execution_checkpoint e admin employer batch_root asset execution_nonce 3) L) (\<lambda>L.
     and_then (check_err (p_new e gen (\<lambda>e. resume_batch_execution e admin employer batch_root asset execution_nonce 0) L)) (\<lambda>_.
     and_then (p_try gen (get_batch_execution_checkpoint employer batch_root asset execution_nonce) L) (\<lambda>checkpoint.
     check (bc_state checkpoint = CpStarted)))))"

definition test_batch_checkpoint_resume_rejects_unauthorized_caller :: "env \<Rightarrow> (nat \<Rightarrow> address) \<Rightarrow> unit outcome" where
  "test_batch_checkpoint_resume_rejects_unauthorized_caller e gen =
     and_then (setup_simple_payroll e gen) (\<lambda>((admin, treasury, treasury_owner, employee), L).
     let employer = gen 10; asset = gen 11; batch_root = b32 0x55; execution_nonce = b32 0x66 in
     and_then (p_do e gen (\<lambda>e. begin_batch_execution_checkpoint e admin employer batch_root asset execution_nonce 4) L) (\<lambda>L.
     let attacker = gen 12 in
     call (p_new e gen (\<lambda>e. resume_batch_execution e attacker employer batch_root asset execution_nonce 4) L)))"

definition test_batch_checkpoint_rejects_mismatched_resume_inputs :: "env \<Rightarrow> (nat \<Rightarrow> address) \<Rightarrow> unit outcome" where
  "test_batch_checkpoint_rejects_mismatched_resume_inputs e gen =
     and_then (setup_simple_payroll e gen) (\<lambda>((admin, treasury, treasury_owner, employee), L).
     let employer = gen 10; asset = gen 11; batch_root = b32 0x77; execution_nonce = b32 0x88 in
     and_then (p_do e gen (\<lambda>e. begin_batch_execution_checkpoint e admin employer batch_root asset execution_nonce 7) L) (\<lambda>L.
     let wrong_asset = gen 12 in
     call (p_new e gen (\<lambda>e. resume_batch_execution e admin employer batch_root wrong_asset execution_nonce 7) L)))"

section \<open>Handover\<close>

definition test_admin_handover_full_flow :: "env \<Rightarrow> (nat \<Rightarrow> address) \<Rightarrow> unit outcome" where
  "test_admin_handover_full_flow e gen =
     and_then (setup_simple_payroll e gen) (\<lambda>((admin, treasury, treasury_owner, employee), L).
     let new_admin = gen 10 in
     and_then (p_do e gen (\<lambda>e. request_admin_handover e admin new_admin) L) (\<lambda>L.
     and_then (p_get gen get_pending_admin_handover L) (\<lambda>r.
     and_then (expect ''Handover should exist'' r) (\<lambda>pending.
     and_then (check (ah_current_admin pending = admin)) (\<lambda>_.
     and_then (check (ah_pending_admin pending = new_admin)) (\<lambda>_.
     and_then (p_do e gen (\<lambda>e. accept_admin_handover e new_admin) L) (\<lambda>L.
     and_then (p_get gen get_pending_admin_handover L) (\<lambda>r.
     and_then (check (r = None)) (\<lambda>_.
     and_then (p_new e gen (\<lambda>e. create_run_draft e new_admin 5000 10 ''P1'') L) (\<lambda>(draft_id, L).
     check (draft_id = 1)))))))))))"

definition test_admin_handover_cancellation :: "env \<Rightarrow> (nat \<Rightarrow> address) \<Rightarrow> unit outcome" where
  "test_admin_handover_cancellation e gen =
     and_then (setup_simple_payroll e gen) (\<lambda>((admin, treasury, treasury_owner, employee), L).
     let new_admin = gen 10 in
     and_then (p_do e gen (\<lambda>e. request_admin_handover e admin new_admin) L) (\<lambda>L.
     and_then (p_do e gen (\<lambda>e. cancel_admin_handover e admin) L) (\<lambda>L.
     and_then (p_get gen get_pending_admin_handover L) (\<lambda>r.
     check (r = None)))))"

definition test_admin_handover_unauthorized_request :: "env \<Rightarrow> (nat \<Rightarrow> address) \<Rightarrow> unit outcome" where
  "test_admin_handover_unauthorized_request e gen =
     and_then (setup_simple_payroll e gen) (\<lambda>((admin, treasury, treasury_owner, employee), L).
     let attacker = gen 10; new_admin = gen 11 in
     call (p_do e gen (\<lambda>e. request_admin_handover e attacker new_admin) L))"

definition test_admin_handover_unauthorized_accept :: "env \<Rightarrow> (nat \<Rightarrow> address) \<Rightarrow> unit outcome" where
  "test_admin_handover_unauthorized_accept e gen =
     and_then (setup_simple_payroll e gen) (\<lambda>((admin, treasury, treasury_owner, employee), L).
     let new_admin = gen 10 in
     and_then (p_do e gen (\<lambda>e. request_admin_handover e admin new_admin) L) (\<lambda>L.
     let attacker = gen 11 in
     call (p_do e gen (\<lambda>e. accept_admin_handover e attacker) L)))"

definition test_admin_handover_unauthorized_cancel :: "env \<Rightarrow> (nat \<Rightarrow> address) \<Rightarrow> unit outcome" where
  "test_admin_handover_unauthorized_cancel e gen =
     and_then (setup_simple_payroll e gen) (\<lambda>((admin, treasury, treasury_owner, employee), L).
     let new_admin = gen 10 in
     and_then (p_do e gen (\<lambda>e. request_admin_handover e admin new_admin) L) (\<lambda>L.
     let attacker = gen 11 in
     call (p_do e gen (\<lambda>e. cancel_admin_handover e attacker) L)))"

section \<open>Locked funds and quorums\<close>

definition test_withdrawal_guardrails_before_and_after_lock :: "env \<Rightarrow> (nat \<Rightarrow> address) \<Rightarrow> unit outcome" where
  "test_withdrawal_guardrails_before_and_after_lock e gen =
     and_then (setup_payroll_with_token e gen) (\<lambda>((admin, treasury, treasury_owner, employee, token_id), L).
     and_then (p_balance gen treasury L) (\<lambda>init_balance.
     and_then (p_get gen (get_locked_funds token_id) L) (\<lambda>n.
     and_then (check (n = 0)) (\<lambda>_.
     and_then (p_view gen (get_available_treasury_balance token_id) L) (\<lambda>n.
     and_then (check (n = init_balance)) (\<lambda>_.
     and_then (p_prepare e gen (single_payment_batch employee 800) 800 (test_nonce 43) None L) (\<lambda>(run_id, L).
     and_then (p_get gen (get_locked_funds token_id) L) (\<lambda>n.
     and_then (check (n = 800)) (\<lambda>_.
     and_then (p_view gen (get_available_treasury_balance token_id) L) (\<lambda>n.
     and_then (check (n = init_balance - 800)) (\<lambda>_.
     let recipient = gen 10 in
     and_then (p_move e gen (\<lambda>e. request_emergency_withdrawal e treasury_owner 150 recipient) L) (\<lambda>L.
     and_then (p_move e gen (\<lambda>e. approve_emergency_withdrawal e admin) L) (\<lambda>L.
     and_then (p_do e gen (\<lambda>e. cancel_payroll_run e admin run_id ''cancel'') L) (\<lambda>L.
     and_then (p_get gen (get_locked_funds token_id) L) (\<lambda>n.
     and_then (check (n = 0)) (\<lambda>_.
     and_then (p_view gen (get_available_treasury_balance token_id) L) (\<lambda>n.
     check (n = init_balance - 150))))))))))))))))))"

definition test_withdrawal_guardrails_rejects_underfunding :: "env \<Rightarrow> (nat \<Rightarrow> address) \<Rightarrow> unit outcome" where
  "test_withdrawal_guardrails_rejects_underfunding e gen =
     and_then (setup_payroll_with_token e gen) (\<lambda>((admin, treasury, treasury_owner, employee, token_id), L).
     and_then (p_balance gen treasury L) (\<lambda>init_balance.
     and_then (p_prepare e gen (single_payment_batch employee (init_balance-100)) (init_balance-100) (test_nonce 44) None L) (\<lambda>(_, L).
     let recipient = gen 10 in
     call (p_move e gen (\<lambda>e. request_emergency_withdrawal e treasury_owner 300 recipient) L))))"

definition test_quorum_approval_valid_and_replay_rejected :: "env \<Rightarrow> (nat \<Rightarrow> address) \<Rightarrow> unit outcome" where
  "test_quorum_approval_valid_and_replay_rejected e gen =
     and_then (setup_payroll_with_token e gen) (\<lambda>((admin, treasury, treasury_owner, employee, token_id), L).
     let signers = [gen 10, gen 11]; payload = \<lparr>qa_batch_root = b32 1, qa_employer = admin, qa_period = ''Q1_2026'', qa_asset = token_id, qa_nonce = test_nonce 55, qa_policy_version = 1\<rparr>; q_hash = hash_quorum_payload e payload in
     and_then (p_get gen (is_quorum_consumed q_hash) L) (\<lambda>r.
     and_then (check (\<not> r)) (\<lambda>_.
     and_then (p_new e gen (\<lambda>e. verify_and_consume_quorum e payload signers 2) L) (\<lambda>(consumed_hash, L).
     and_then (check (q_hash = consumed_hash)) (\<lambda>_.
     and_then (p_get gen (is_quorum_consumed q_hash) L) (\<lambda>r.
     and_then (check (r)) (\<lambda>_.
     and_then (check_err (p_new e gen (\<lambda>e. verify_and_consume_quorum e payload signers 2) L)) (\<lambda>_.
     Inr ()))))))))"

definition test_quorum_insufficient_signers :: "env \<Rightarrow> (nat \<Rightarrow> address) \<Rightarrow> unit outcome" where
  "test_quorum_insufficient_signers e gen =
     and_then (setup_payroll_with_token e gen) (\<lambda>((admin, treasury, treasury_owner, employee, token_id), L).
     let signers = [gen 10]; payload = \<lparr>qa_batch_root = b32 2, qa_employer = admin, qa_period = ''Q1_2026'', qa_asset = token_id, qa_nonce = test_nonce 56, qa_policy_version = 1\<rparr> in
     call (p_new e gen (\<lambda>e. verify_and_consume_quorum e payload signers 2) L))"

definition test_domain_separation_treasury_vs_proof :: "env \<Rightarrow> (nat \<Rightarrow> address) \<Rightarrow> unit outcome" where
  "test_domain_separation_treasury_vs_proof e gen =
     and_then (setup_payroll_with_token e gen) (\<lambda>((admin, treasury, treasury_owner, employee, token_id), L).
     let treasury_nonce = test_nonce 101; proof_nonce = test_nonce (101 + 1) in
     and_then (check (treasury_nonce \<noteq> proof_nonce)) (\<lambda>_.
     and_then (p_prepare e gen (single_payment_batch employee 1000) 1000 (test_nonce (101+1)) None L) (\<lambda>(run_id, L).
     let deposit_nonce = treasury_nonce in
     and_then (p_move e gen (\<lambda>e. deposit e treasury 1000 deposit_nonce) L) (\<lambda>L.
     call (p_do e gen (\<lambda>e. finalize_payroll_run e admin run_id) L)))))"

definition test_domain_separation_batch_vs_audit :: "env \<Rightarrow> (nat \<Rightarrow> address) \<Rightarrow> unit outcome" where
  "test_domain_separation_batch_vs_audit e gen =
     and_then (setup_payroll_with_token e gen) (\<lambda>((admin, treasury, treasury_owner, employee, token_id), L).
     let test_hash = b32 42; batch_nonce = test_nonce 100 in
     and_then (p_do e gen (\<lambda>e. commit_draft e admin test_hash) L) (\<lambda>L.
     let quorum_payload = \<lparr>qa_batch_root = test_hash, qa_employer = admin, qa_period = ''Q1_2026'', qa_asset = token_id, qa_nonce = batch_nonce, qa_policy_version = 1\<rparr>; batch_quorum_hash = hash_quorum_payload e quorum_payload in
     check (test_hash \<noteq> batch_quorum_hash)))"

section \<open>Outcomes\<close>

lemmas payroll_review_test_steps = setup_simple setup_payroll_with_token_def setup_funded p_defs payroll_run_steps payroll_state_steps payroll_role_steps
  payroll_review_steps

lemma payroll_review_tests_outcome:
  assumes "mocked e" "inj gen"
  shows "test_storage_keys_are_namespaced e gen = Inr ()"
    "test_parameterized_keys_support_schema_extension e gen = Inr ()"
    "test_finalize_run_draft_is_idempotent e gen = Inr ()"
    "test_payroll_run_execution_is_idempotent_via_nonce e gen = Inr ()"
    "test_pending_run_cannot_be_cancelled_twice e gen = Inr ()"
    "test_settlement_completion_guard_via_draft_state e gen = Inr ()"
    "pay_test_asset_allowlist_management_and_execution e gen = Inr ()"
    "should_panic ''Asset not allowed'' (test_execute_payroll_fails_when_asset_disallowed e gen)"
    "should_panic ''Asset not allowed'' (test_prepare_payroll_run_fails_when_asset_disallowed e gen)"
    "should_panic ''authorized'' (test_non_admin_cannot_manage_allowlist e gen)"
    "test_reviewer_authorization_workflow e gen = Inr ()"
    "should_panic ''Unauthorized: caller is not an authorized reviewer'' (test_unauthorized_approve_panics e gen)"
    "test_batch_checkpoint_resume_flow e gen = Inr ()"
    "should_panic ''ERR_BATCH_CHECKPOINT_MISMATCH'' (test_batch_checkpoint_rejects_backward_progress e gen)"
    "test_batch_checkpoint_replay_is_rejected e gen = Inr ()"
    "should_panic ''Unauthorized'' (test_batch_checkpoint_resume_rejects_unauthorized_caller e gen)"
    "should_panic ''ERR_BATCH_CHECKPOINT_MISMATCH'' (test_batch_checkpoint_rejects_mismatched_resume_inputs e gen)"
    "test_admin_handover_full_flow e gen = Inr ()"
    "test_admin_handover_cancellation e gen = Inr ()"
    "should_panic ''Unauthorized: caller is not current admin'' (test_admin_handover_unauthorized_request e gen)"
    "should_panic ''Unauthorized: caller is not the pending admin'' (test_admin_handover_unauthorized_accept e gen)"
    "should_panic ''Unauthorized: caller is not current admin'' (test_admin_handover_unauthorized_cancel e gen)"
    "test_withdrawal_guardrails_before_and_after_lock e gen = Inr ()"
    "should_panic ''Insufficient available treasury balance: funds locked for pending payroll'' (test_withdrawal_guardrails_rejects_underfunding e gen)"
    "test_quorum_approval_valid_and_replay_rejected e gen = Inr ()"
    "should_panic ''Insufficient signer quorum'' (test_quorum_insufficient_signers e gen)"
    "test_domain_separation_treasury_vs_proof e gen = Inr ()"
  using assms
  by (simp_all add: test_storage_keys_are_namespaced_def
      test_parameterized_keys_support_schema_extension_def
      test_finalize_run_draft_is_idempotent_def
      test_payroll_run_execution_is_idempotent_via_nonce_def
      test_pending_run_cannot_be_cancelled_twice_def
      test_settlement_completion_guard_via_draft_state_def
      pay_test_asset_allowlist_management_and_execution_def
      test_execute_payroll_fails_when_asset_disallowed_def
      test_prepare_payroll_run_fails_when_asset_disallowed_def
      test_non_admin_cannot_manage_allowlist_def
      test_reviewer_authorization_workflow_def
      test_unauthorized_approve_panics_def
      test_batch_checkpoint_resume_flow_def
      test_batch_checkpoint_rejects_backward_progress_def
      test_batch_checkpoint_replay_is_rejected_def
      test_batch_checkpoint_resume_rejects_unauthorized_caller_def
      test_batch_checkpoint_rejects_mismatched_resume_inputs_def
      test_admin_handover_full_flow_def
      test_admin_handover_cancellation_def
      test_admin_handover_unauthorized_request_def
      test_admin_handover_unauthorized_accept_def
      test_admin_handover_unauthorized_cancel_def
      test_withdrawal_guardrails_before_and_after_lock_def
      test_withdrawal_guardrails_rejects_underfunding_def
      test_quorum_approval_valid_and_replay_rejected_def
      test_quorum_insufficient_signers_def
      test_domain_separation_treasury_vs_proof_def
      payroll_review_test_steps)

text \<open>The raw digest and the quorum digest differ as long as the hash does not map the one to the other.\<close>

lemma domain_separation_outcome:
  assumes "mocked e" "inj gen"
  shows "test_domain_separation_batch_vs_audit e gen = Inr () \<longleftrightarrow>
    hash_quorum_payload e \<lparr>qa_batch_root = b32 42, qa_employer = gen 7, qa_period = ''Q1_2026'', qa_asset = gen 4, qa_nonce = test_nonce 100,
      qa_policy_version = 1\<rparr> \<noteq> b32 42"
  using assms by (auto simp: test_domain_separation_batch_vs_audit_def payroll_review_test_steps)

end
