(* ===== verification/Payroll_Tests_Records.thy ===== *)
theory Payroll_Tests_Records
  imports Payroll_Test_Rules
begin

text \<open>
  The unit tests of \<open>contracts/payroll/src/lib.rs\<close>, last part: compliance holds, reservations, the archive,
  the order of nonces, evidence pointers, storage versions, lock times, the treasury summary, expiry of
  approvals and cancelled batches. The ledger time of a new environment is 0.
\<close>

section \<open>Compliance holds\<close>

definition test_overlapping_raw_inputs_different_domains :: "env \<Rightarrow> (nat \<Rightarrow> address) \<Rightarrow> unit outcome" where
  "test_overlapping_raw_inputs_different_domains e gen =
     and_then (setup_simple_payroll e gen) (\<lambda>((admin, treasury, treasury_owner, employee), L).
     let input1 = b32 3; input2 = b32 3 in
     and_then (p_do e gen (\<lambda>e. commit_draft e admin input1) L) (\<lambda>L.
     call (p_prepare e gen (single_payment_batch employee 1000) 1000 input2 None L)))"

definition test_compliance_hold_place_and_release :: "env \<Rightarrow> (nat \<Rightarrow> address) \<Rightarrow> unit outcome" where
  "test_compliance_hold_place_and_release e gen =
     and_then (setup_simple_payroll e gen) (\<lambda>((admin, treasury, treasury_owner, employee), L).
     let target = gen 10; reason = ''audit_review'' in
     and_then (p_new e gen (\<lambda>e. place_compliance_hold e admin HoldEmployee target reason) L) (\<lambda>(hold_id, L).
     and_then (p_get gen (is_compliance_hold_active hold_id) L) (\<lambda>r.
     and_then (check (r)) (\<lambda>_.
     and_then (p_get gen (get_compliance_hold hold_id) L) (\<lambda>r.
     and_then (expect ''Hold should exist'' r) (\<lambda>hold.
     and_then (check (ch_hold_id hold = hold_id)) (\<lambda>_.
     and_then (check (ch_target hold = target)) (\<lambda>_.
     and_then (check (ch_scope hold = HoldEmployee)) (\<lambda>_.
     and_then (check (ch_is_active hold)) (\<lambda>_.
     and_then (p_do e gen (\<lambda>e. release_compliance_hold e admin hold_id) L) (\<lambda>L.
     and_then (p_get gen (is_compliance_hold_active hold_id) L) (\<lambda>r.
     and_then (check (\<not> r)) (\<lambda>_.
     and_then (p_get gen (get_compliance_hold hold_id) L) (\<lambda>r.
     and_then (expect ''Hold should still exist but inactive'' r) (\<lambda>hold_after.
     check (\<not> ch_is_active hold_after))))))))))))))))"

definition test_compliance_hold_multiple_scopes :: "env \<Rightarrow> (nat \<Rightarrow> address) \<Rightarrow> unit outcome" where
  "test_compliance_hold_multiple_scopes e gen =
     and_then (setup_simple_payroll e gen) (\<lambda>((admin, treasury, treasury_owner, employee), L).
     let target_batch = gen 10; target_employee = gen 11; target_employer = gen 12 in
     and_then (p_new e gen (\<lambda>e. place_compliance_hold e admin HoldBatch target_batch ''review'') L) (\<lambda>(hold_batch, L).
     and_then (p_new e gen (\<lambda>e. place_compliance_hold e admin HoldEmployee target_employee ''suspend'') L) (\<lambda>(hold_employee, L).
     and_then (p_new e gen (\<lambda>e. place_compliance_hold e admin HoldEmployer target_employer ''lockdown'') L) (\<lambda>(hold_employer, L).
     and_then (p_get gen (is_compliance_hold_active hold_batch) L) (\<lambda>r.
     and_then (check (r)) (\<lambda>_.
     and_then (p_get gen (is_compliance_hold_active hold_employee) L) (\<lambda>r.
     and_then (check (r)) (\<lambda>_.
     and_then (p_get gen (is_compliance_hold_active hold_employer) L) (\<lambda>r.
     and_then (check (r)) (\<lambda>_.
     and_then (p_get gen (get_compliance_hold hold_batch) L) (\<lambda>r.
     and_then (expect ''unwrap'' r) (\<lambda>hold_b.
     and_then (p_get gen (get_compliance_hold hold_employee) L) (\<lambda>r.
     and_then (expect ''unwrap'' r) (\<lambda>hold_e.
     and_then (p_get gen (get_compliance_hold hold_employer) L) (\<lambda>r.
     and_then (expect ''unwrap'' r) (\<lambda>hold_er.
     and_then (check (ch_scope hold_b = HoldBatch)) (\<lambda>_.
     and_then (check (ch_scope hold_e = HoldEmployee)) (\<lambda>_.
     check (ch_scope hold_er = HoldEmployer)))))))))))))))))))"

definition test_release_already_released_hold_panics :: "env \<Rightarrow> (nat \<Rightarrow> address) \<Rightarrow> unit outcome" where
  "test_release_already_released_hold_panics e gen =
     and_then (setup_simple_payroll e gen) (\<lambda>((admin, treasury, treasury_owner, employee), L).
     let target = gen 10 in
     and_then (p_new e gen (\<lambda>e. place_compliance_hold e admin HoldEmployee target ''test'') L) (\<lambda>(hold_id, L).
     and_then (p_do e gen (\<lambda>e. release_compliance_hold e admin hold_id) L) (\<lambda>L.
     call (p_do e gen (\<lambda>e. release_compliance_hold e admin hold_id) L))))"

section \<open>Reservations and archive\<close>

definition test_reservation_expiry_policy_set_and_release :: "env \<Rightarrow> (nat \<Rightarrow> address) \<Rightarrow> unit outcome" where
  "test_reservation_expiry_policy_set_and_release e gen =
     and_then (setup_simple_payroll e gen) (\<lambda>((admin, treasury, treasury_owner, employee), L).
     let token_id = gen 4 in
     and_then (p_do e gen (\<lambda>e. set_reservation_expiry_policy e admin token_id 5000 86400) L) (\<lambda>L.
     and_then (p_get gen (get_reservation_expiry token_id) L) (\<lambda>expiry.
     and_then (check (expiry \<noteq> None)) (\<lambda>_.
     and_then (expect ''unwrap'' expiry) (\<lambda>exp_policy.
     and_then (check (re_reserved_amount exp_policy = 5000)) (\<lambda>_.
     check (re_asset exp_policy = token_id)))))))"

definition test_cannot_release_unexpired_reservation :: "env \<Rightarrow> (nat \<Rightarrow> address) \<Rightarrow> unit outcome" where
  "test_cannot_release_unexpired_reservation e gen =
     and_then (setup_simple_payroll e gen) (\<lambda>((admin, treasury, treasury_owner, employee), L).
     let token_id = gen 4 in
     and_then (p_do e gen (\<lambda>e. set_reservation_expiry_policy e admin token_id 5000 86400) L) (\<lambda>L.
     call (p_do e gen (\<lambda>e. release_expired_reservation e token_id) L)))"

definition test_archive_payroll_run :: "env \<Rightarrow> (nat \<Rightarrow> address) \<Rightarrow> unit outcome" where
  "test_archive_payroll_run e gen =
     and_then (setup_simple_payroll e gen) (\<lambda>((admin, treasury, treasury_owner, employee), L).
     and_then (p_prepare e gen (single_payment_batch employee 1000) 1000 (test_nonce 150) None L) (\<lambda>(run_id, L).
     and_then (p_do e gen (\<lambda>e. finalize_payroll_run e admin run_id) L) (\<lambda>L.
     and_then (p_get gen (is_payroll_run_archived run_id) L) (\<lambda>r.
     and_then (check (\<not> r)) (\<lambda>_.
     and_then (p_do e gen (\<lambda>e. archive_payroll_run_with_reason e admin run_id ''compliance'') L) (\<lambda>L.
     and_then (p_get gen (is_payroll_run_archived run_id) L) (\<lambda>r.
     and_then (check (r)) (\<lambda>_.
     and_then (p_get gen (get_archive_marker run_id) L) (\<lambda>r.
     and_then (expect ''Archive marker should exist'' r) (\<lambda>marker.
     and_then (check (am_run_id marker = run_id)) (\<lambda>_.
     check (am_archived_by marker = admin))))))))))))"

definition test_cannot_archive_already_archived_run :: "env \<Rightarrow> (nat \<Rightarrow> address) \<Rightarrow> unit outcome" where
  "test_cannot_archive_already_archived_run e gen =
     and_then (setup_simple_payroll e gen) (\<lambda>((admin, treasury, treasury_owner, employee), L).
     and_then (p_prepare e gen (single_payment_batch employee 1000) 1000 (test_nonce 151) None L) (\<lambda>(run_id, L).
     and_then (p_do e gen (\<lambda>e. finalize_payroll_run e admin run_id) L) (\<lambda>L.
     and_then (p_do e gen (\<lambda>e. archive_payroll_run_with_reason e admin run_id ''compliance'') L) (\<lambda>L.
     call (p_do e gen (\<lambda>e. archive_payroll_run_with_reason e admin run_id ''retention'') L)))))"

definition test_archive_multiple_runs :: "env \<Rightarrow> (nat \<Rightarrow> address) \<Rightarrow> unit outcome" where
  "test_archive_multiple_runs e gen =
     and_then (setup_simple_payroll e gen) (\<lambda>((admin, treasury, treasury_owner, employee), L).
     and_then (p_prepare e gen (single_payment_batch employee 1000) 1000 (test_nonce 200) None L) (\<lambda>(run_id, L).
     and_then (p_do e gen (\<lambda>e. finalize_payroll_run e admin run_id) L) (\<lambda>L.
     and_then (p_do e gen (\<lambda>e. archive_payroll_run_with_reason e admin run_id ''compliance'') L) (\<lambda>L.
     and_then (p_get gen (is_payroll_run_archived run_id) L) (\<lambda>r.
     and_then (check (r)) (\<lambda>_.
     and_then (p_prepare e gen (single_payment_batch employee 1000) 1000 (test_nonce 201) None L) (\<lambda>(run_id, L).
     and_then (p_do e gen (\<lambda>e. finalize_payroll_run e admin run_id) L) (\<lambda>L.
     and_then (p_do e gen (\<lambda>e. archive_payroll_run_with_reason e admin run_id ''compliance'') L) (\<lambda>L.
     and_then (p_get gen (is_payroll_run_archived run_id) L) (\<lambda>r.
     and_then (check (r)) (\<lambda>_.
     and_then (p_prepare e gen (single_payment_batch employee 1000) 1000 (test_nonce 202) None L) (\<lambda>(run_id, L).
     and_then (p_do e gen (\<lambda>e. finalize_payroll_run e admin run_id) L) (\<lambda>L.
     and_then (p_do e gen (\<lambda>e. archive_payroll_run_with_reason e admin run_id ''compliance'') L) (\<lambda>L.
     and_then (p_get gen (is_payroll_run_archived run_id) L) (\<lambda>r.
     check (r))))))))))))))))"

section \<open>Order of nonces\<close>

definition test_nonce_monotonicity_sequential_nonces_accepted :: "env \<Rightarrow> (nat \<Rightarrow> address) \<Rightarrow> unit outcome" where
  "test_nonce_monotonicity_sequential_nonces_accepted e gen =
     and_then (setup_simple_payroll e gen) (\<lambda>((admin, treasury, treasury_owner, employee), L).
     and_then (p_prepare e gen (single_payment_batch employee 1000) 1000 (test_nonce 1) None L) (\<lambda>(_, L).
     and_then (p_prepare e gen (single_payment_batch employee 1000) 1000 (test_nonce 2) None L) (\<lambda>(_, L).
     and_then (p_get gen (get_employer_nonce_sequence admin) L) (\<lambda>sequence.
     and_then (check (sequence \<noteq> None)) (\<lambda>_.
     and_then (expect ''unwrap'' sequence) (\<lambda>seq.
     and_then (check (ns_current_sequence seq = 2)) (\<lambda>_.
     check (ns_last_nonce seq = test_nonce 2))))))))"

definition test_nonce_monotonicity_repeated_nonce_rejected :: "env \<Rightarrow> (nat \<Rightarrow> address) \<Rightarrow> unit outcome" where
  "test_nonce_monotonicity_repeated_nonce_rejected e gen =
     and_then (setup_simple_payroll e gen) (\<lambda>((admin, treasury, treasury_owner, employee), L).
     and_then (p_batch e gen (single_payment_batch employee 1000) 1000 (test_nonce 10) None L) (\<lambda>(_, L).
     and_then (check_err (p_batch e gen (single_payment_batch employee 1000) 1000 (test_nonce 10) None L)) (\<lambda>_.
     Inr ())))"

definition test_nonce_monotonicity_stale_nonce_rejected :: "env \<Rightarrow> (nat \<Rightarrow> address) \<Rightarrow> unit outcome" where
  "test_nonce_monotonicity_stale_nonce_rejected e gen =
     and_then (setup_simple_payroll e gen) (\<lambda>((admin, treasury, treasury_owner, employee), L).
     and_then (p_batch e gen (single_payment_batch employee 1000) 1000 (test_nonce 20) None L) (\<lambda>(_, L).
     and_then (check_err (p_batch e gen (single_payment_batch employee 1000) 1000 (test_nonce 10) None L)) (\<lambda>_.
     Inr ())))"

definition test_nonce_monotonicity_skipped_nonces_allowed :: "env \<Rightarrow> (nat \<Rightarrow> address) \<Rightarrow> unit outcome" where
  "test_nonce_monotonicity_skipped_nonces_allowed e gen =
     and_then (setup_simple_payroll e gen) (\<lambda>((admin, treasury, treasury_owner, employee), L).
     and_then (p_prepare e gen (single_payment_batch employee 1000) 1000 (test_nonce 1) None L) (\<lambda>(_, L).
     and_then (p_prepare e gen (single_payment_batch employee 1000) 1000 (test_nonce 5) None L) (\<lambda>(_, L).
     and_then (p_get gen (get_employer_nonce_sequence admin) L) (\<lambda>sequence.
     and_then (check (sequence \<noteq> None)) (\<lambda>_.
     and_then (expect ''unwrap'' sequence) (\<lambda>seq.
     and_then (check (ns_current_sequence seq = 2)) (\<lambda>_.
     check (ns_last_nonce seq = test_nonce 5))))))))"

section \<open>Evidence pointers\<close>

definition test_evidence_pointer_creation_valid :: "env \<Rightarrow> (nat \<Rightarrow> address) \<Rightarrow> unit outcome" where
  "test_evidence_pointer_creation_valid e gen =
     and_then (setup_simple_payroll e gen) (\<lambda>((admin, treasury, treasury_owner, employee), L).
     let content_hash = b32 0xab; target = gen 10 in
     and_then (p_new e gen (\<lambda>e. create_evidence_pointer e admin content_hash EvidenceEmployer target None) L) (\<lambda>(pointer_id, L).
     and_then (p_try gen (get_evidence_pointer pointer_id) L) (\<lambda>pointer.
     and_then (check (ep_content_hash pointer = content_hash)) (\<lambda>_.
     and_then (check (ep_scope pointer = EvidenceEmployer)) (\<lambda>_.
     and_then (check (ep_target pointer = target)) (\<lambda>_.
     and_then (p_get gen (evidence_pointer_exists content_hash) L) (\<lambda>r.
     check (r))))))))"

definition test_evidence_pointer_creation_empty_hash_rejected :: "env \<Rightarrow> (nat \<Rightarrow> address) \<Rightarrow> unit outcome" where
  "test_evidence_pointer_creation_empty_hash_rejected e gen =
     and_then (setup_simple_payroll e gen) (\<lambda>((admin, treasury, treasury_owner, employee), L).
     let zero_hash = b32 0; target = gen 10 in
     and_then (check_err (p_new e gen (\<lambda>e. create_evidence_pointer e admin zero_hash EvidenceEmployer target None) L)) (\<lambda>_.
     Inr ()))"

definition test_evidence_pointer_creation_duplicate_rejected :: "env \<Rightarrow> (nat \<Rightarrow> address) \<Rightarrow> unit outcome" where
  "test_evidence_pointer_creation_duplicate_rejected e gen =
     and_then (setup_simple_payroll e gen) (\<lambda>((admin, treasury, treasury_owner, employee), L).
     let content_hash = b32 0xcd; target = gen 10 in
     and_then (p_new e gen (\<lambda>e. create_evidence_pointer e admin content_hash EvidenceEmployer target None) L) (\<lambda>(_, L).
     and_then (check_err (p_new e gen (\<lambda>e. create_evidence_pointer e admin content_hash EvidencePeriod target None) L)) (\<lambda>_.
     Inr ())))"

section \<open>Storage versions\<close>

definition test_storage_version_initialized_on_contract_init :: "env \<Rightarrow> (nat \<Rightarrow> address) \<Rightarrow> unit outcome" where
  "test_storage_version_initialized_on_contract_init e gen =
     and_then (setup_simple_payroll e gen) (\<lambda>((admin, treasury, treasury_owner, employee), L).
     and_then (p_get gen get_storage_version L) (\<lambda>version.
     and_then (check (version \<noteq> None)) (\<lambda>_.
     and_then (expect ''unwrap'' version) (\<lambda>version_state.
     and_then (check (sv_version version_state = 1)) (\<lambda>_.
     check (sv_migration_complete version_state))))))"

definition test_storage_version_is_supported :: "env \<Rightarrow> (nat \<Rightarrow> address) \<Rightarrow> unit outcome" where
  "test_storage_version_is_supported e gen =
     and_then (setup_simple_payroll e gen) (\<lambda>((admin, treasury, treasury_owner, employee), L).
     and_then (p_get gen is_storage_version_supported L) (\<lambda>r.
     check (r)))"

definition test_storage_version_no_migration_required :: "env \<Rightarrow> (nat \<Rightarrow> address) \<Rightarrow> unit outcome" where
  "test_storage_version_no_migration_required e gen =
     and_then (setup_simple_payroll e gen) (\<lambda>((admin, treasury, treasury_owner, employee), L).
     and_then (p_get gen is_migration_required L) (\<lambda>r.
     check (\<not> r)))"

definition test_storage_version_readiness_check :: "env \<Rightarrow> (nat \<Rightarrow> address) \<Rightarrow> unit outcome" where
  "test_storage_version_readiness_check e gen =
     and_then (setup_simple_payroll e gen) (\<lambda>((admin, treasury, treasury_owner, employee), L).
     and_then (p_get gen (check_migration_readiness e) L) (\<lambda>ready.
     and_then (check (mr_ready ready)) (\<lambda>_.
     and_then (check (mr_current_version ready = 1)) (\<lambda>_.
     and_then (check (mr_min_supported ready = 1)) (\<lambda>_.
     check (mr_max_supported ready = 1))))))"

definition test_storage_version_set_by_admin :: "env \<Rightarrow> (nat \<Rightarrow> address) \<Rightarrow> unit outcome" where
  "test_storage_version_set_by_admin e gen =
     and_then (setup_simple_payroll e gen) (\<lambda>((admin, treasury, treasury_owner, employee), L).
     let description = ''Test version'' in
     and_then (p_do e gen (\<lambda>e. set_storage_version e admin 1 description) L) (\<lambda>L.
     and_then (p_get gen get_storage_version L) (\<lambda>r.
     and_then (expect ''unwrap'' r) (\<lambda>version.
     check (sv_version version = 1)))))"

section \<open>Lock times, treasury summary, expiry of approvals, cancelled batches\<close>

definition test_batch_lock_timestamp_non_existent_run :: "env \<Rightarrow> (nat \<Rightarrow> address) \<Rightarrow> unit outcome" where
  "test_batch_lock_timestamp_non_existent_run e gen =
     and_then (setup_simple_payroll e gen) (\<lambda>((admin, treasury, treasury_owner, employee), L).
     and_then (p_get gen (get_batch_lock_timestamp 999) L) (\<lambda>r.
     check (r = None)))"

definition test_batch_lock_timestamp_pending_and_executed_runs :: "env \<Rightarrow> (nat \<Rightarrow> address) \<Rightarrow> unit outcome" where
  "test_batch_lock_timestamp_pending_and_executed_runs e gen =
     and_then (setup_simple_payroll e gen) (\<lambda>((admin, treasury, treasury_owner, employee), L).
     and_then (p_prepare e gen (single_payment_batch employee 10000) 10000 (test_nonce 1) None L) (\<lambda>(run_id, L).
     let expected_lock_time = timestamp e in
     and_then (p_get gen (get_batch_lock_timestamp run_id) L) (\<lambda>r.
     and_then (check (r = Some expected_lock_time)) (\<lambda>_.
     and_then (p_try gen get_addresses L) (\<lambda>addrs.
     and_then (p_do e gen (\<lambda>e. finalize_payroll_run e (ca_admin addrs) run_id) L) (\<lambda>L.
     and_then (p_get gen (get_batch_lock_timestamp run_id) L) (\<lambda>r.
     check (r = Some expected_lock_time))))))))"

definition test_safe_treasury_summary_view :: "env \<Rightarrow> (nat \<Rightarrow> address) \<Rightarrow> unit outcome" where
  "test_safe_treasury_summary_view e gen =
     and_then (setup_simple_payroll e gen) (\<lambda>((admin, treasury, treasury_owner, employee), L).
     and_then (p_try gen get_addresses L) (\<lambda>addrs.
     and_then (p_view gen (get_safe_treasury_summary (ca_token addrs)) L) (\<lambda>summary_initial.
     and_then (check (ts_total_balance summary_initial = 1000000)) (\<lambda>_.
     and_then (check (ts_reserved_balance summary_initial = 0)) (\<lambda>_.
     and_then (check (ts_available_balance summary_initial = 1000000)) (\<lambda>_.
     and_then (check (ts_blocked_balance summary_initial = 0)) (\<lambda>_.
     and_then (p_prepare e gen (single_payment_batch employee 50000) 50000 (test_nonce 2) None L) (\<lambda>(run_id, L).
     and_then (p_view gen (get_safe_treasury_summary (ca_token addrs)) L) (\<lambda>summary_locked.
     and_then (check (ts_total_balance summary_locked = 1000000)) (\<lambda>_.
     and_then (check (ts_reserved_balance summary_locked = 50000)) (\<lambda>_.
     and_then (check (ts_available_balance summary_locked = 950000)) (\<lambda>_.
     and_then (check (ts_blocked_balance summary_locked = 0)) (\<lambda>_.
     and_then (p_do e gen (\<lambda>e. cancel_payroll_run e (ca_admin addrs) run_id ''mistake'') L) (\<lambda>L.
     and_then (p_view gen (get_safe_treasury_summary (ca_token addrs)) L) (\<lambda>summary_released.
     and_then (check (ts_total_balance summary_released = 1000000)) (\<lambda>_.
     and_then (check (ts_reserved_balance summary_released = 0)) (\<lambda>_.
     check (ts_available_balance summary_released = 1000000))))))))))))))))))"

definition test_payroll_approval_expiry_active_and_expired :: "env \<Rightarrow> (nat \<Rightarrow> address) \<Rightarrow> unit outcome" where
  "test_payroll_approval_expiry_active_and_expired e gen =
     and_then (setup_simple_payroll e gen) (\<lambda>((admin, treasury, treasury_owner, employee), L).
     let reviewer = gen 10 in
     and_then (p_do e gen (\<lambda>e. add_reviewer e admin reviewer) L) (\<lambda>L.
     and_then (p_prepare e gen (single_payment_batch employee 10000) 10000 (test_nonce 3) None L) (\<lambda>(run_id, L).
     and_then (p_do e gen (\<lambda>e. approve_payroll_run e reviewer run_id) L) (\<lambda>L.
     and_then (p_get gen (is_payroll_approval_expired e run_id DEFAULT_APPROVAL_EXPIRY_SECONDS) L) (\<lambda>r.
     and_then (check (\<not> r)) (\<lambda>_.
     let e = later (DEFAULT_APPROVAL_EXPIRY_SECONDS + 1) e in
     and_then (p_get gen (is_payroll_approval_expired e run_id DEFAULT_APPROVAL_EXPIRY_SECONDS) L) (\<lambda>r.
     check (r))))))))"

definition test_finalize_panics_on_expired_approval :: "env \<Rightarrow> (nat \<Rightarrow> address) \<Rightarrow> unit outcome" where
  "test_finalize_panics_on_expired_approval e gen =
     and_then (setup_simple_payroll e gen) (\<lambda>((admin, treasury, treasury_owner, employee), L).
     let reviewer = gen 10 in
     and_then (p_do e gen (\<lambda>e. add_reviewer e admin reviewer) L) (\<lambda>L.
     and_then (p_prepare e gen (single_payment_batch employee 10000) 10000 (test_nonce 4) None L) (\<lambda>(run_id, L).
     and_then (p_do e gen (\<lambda>e. approve_payroll_run e reviewer run_id) L) (\<lambda>L.
     let e = later (DEFAULT_APPROVAL_EXPIRY_SECONDS + 10) e in
     call (p_do e gen (\<lambda>e. finalize_payroll_run e admin run_id) L)))))"

definition test_cancelled_batch_status_read_helper :: "env \<Rightarrow> (nat \<Rightarrow> address) \<Rightarrow> unit outcome" where
  "test_cancelled_batch_status_read_helper e gen =
     and_then (setup_simple_payroll e gen) (\<lambda>((admin, treasury, treasury_owner, employee), L).
     and_then (p_get gen (get_cancelled_batch_status 999) L) (\<lambda>r.
     and_then (check (r = None)) (\<lambda>_.
     and_then (p_prepare e gen (single_payment_batch employee 25000) 25000 (test_nonce 5) None L) (\<lambda>(run_id, L).
     and_then (p_get gen (get_cancelled_batch_status run_id) L) (\<lambda>r.
     and_then (check (r = None)) (\<lambda>_.
     let cancel_reason = ''duplicate_order'' in
     and_then (p_do e gen (\<lambda>e. cancel_payroll_run e admin run_id cancel_reason) L) (\<lambda>L.
     and_then (p_get gen (get_cancelled_batch_status run_id) L) (\<lambda>r.
     and_then (expect ''unwrap'' r) (\<lambda>status.
     and_then (check (cb_run_id status = run_id)) (\<lambda>_.
     and_then (check (cb_cancelled_by status = admin)) (\<lambda>_.
     and_then (check (cb_reason status = cancel_reason)) (\<lambda>_.
     and_then (check (cb_employee_count status = 1)) (\<lambda>_.
     and_then (check (cb_total_amount status = 25000)) (\<lambda>_.
     check (cb_is_cancelled status)))))))))))))))"

definition test_evidence_pointer_scoping :: "env \<Rightarrow> (nat \<Rightarrow> address) \<Rightarrow> unit outcome" where
  "test_evidence_pointer_scoping e gen =
     and_then (setup_simple_payroll e gen) (\<lambda>((admin, treasury, treasury_owner, employee), L).
     let employer = gen 10; period = gen 11; review_case = gen 12 in
     let hash1 = b32 0x11 in
     and_then (p_new e gen (\<lambda>e. create_evidence_pointer e admin hash1 EvidenceEmployer employer None) L) (\<lambda>(pointer1, L).
     let hash2 = b32 0x22 in
     and_then (p_new e gen (\<lambda>e. create_evidence_pointer e admin hash2 EvidencePeriod period None) L) (\<lambda>(pointer2, L).
     let hash3 = b32 0x33 in
     and_then (p_new e gen (\<lambda>e. create_evidence_pointer e admin hash3 EvidenceReviewCase review_case None) L) (\<lambda>(pointer3, L).
     and_then (p_try gen (get_evidence_pointer pointer1) L) (\<lambda>p1.
     and_then (check (ep_scope p1 = EvidenceEmployer)) (\<lambda>_.
     and_then (check (ep_target p1 = employer)) (\<lambda>_.
     and_then (p_try gen (get_evidence_pointer pointer2) L) (\<lambda>p2.
     and_then (check (ep_scope p2 = EvidencePeriod)) (\<lambda>_.
     and_then (check (ep_target p2 = period)) (\<lambda>_.
     and_then (p_try gen (get_evidence_pointer pointer3) L) (\<lambda>p3.
     and_then (check (ep_scope p3 = EvidenceReviewCase)) (\<lambda>_.
     check (ep_target p3 = review_case)))))))))))))"

section \<open>Outcomes\<close>

lemmas payroll_record_test_steps = setup_simple p_defs payroll_run_steps payroll_state_steps payroll_review_steps payroll_record_steps

lemma payroll_record_tests_outcome:
  assumes "mocked e" "inj gen" "timestamp e = 0"
  shows "test_overlapping_raw_inputs_different_domains e gen = Inr ()"
    "test_compliance_hold_place_and_release e gen = Inr ()"
    "test_compliance_hold_multiple_scopes e gen = Inr ()"
    "should_panic ''Hold is not active'' (test_release_already_released_hold_panics e gen)"
    "test_reservation_expiry_policy_set_and_release e gen = Inr ()"
    "should_panic ''Reservation has not yet expired'' (test_cannot_release_unexpired_reservation e gen)"
    "test_archive_payroll_run e gen = Inr ()"
    "should_panic ''Payroll run is already archived'' (test_cannot_archive_already_archived_run e gen)"
    "test_archive_multiple_runs e gen = Inr ()"
    "test_nonce_monotonicity_sequential_nonces_accepted e gen = Inr ()"
    "test_nonce_monotonicity_repeated_nonce_rejected e gen = Inr ()"
    "test_nonce_monotonicity_stale_nonce_rejected e gen = Inr ()"
    "test_nonce_monotonicity_skipped_nonces_allowed e gen = Inr ()"
    "test_evidence_pointer_creation_valid e gen = Inr ()"
    "test_evidence_pointer_creation_empty_hash_rejected e gen = Inr ()"
    "test_evidence_pointer_creation_duplicate_rejected e gen = Inr ()"
    "test_storage_version_initialized_on_contract_init e gen = Inr ()"
    "test_storage_version_is_supported e gen = Inr ()"
    "test_storage_version_no_migration_required e gen = Inr ()"
    "test_storage_version_readiness_check e gen = Inr ()"
    "test_storage_version_set_by_admin e gen = Inr ()"
    "test_batch_lock_timestamp_non_existent_run e gen = Inr ()"
    "test_batch_lock_timestamp_pending_and_executed_runs e gen = Inr ()"
    "test_safe_treasury_summary_view e gen = Inr ()"
    "test_payroll_approval_expiry_active_and_expired e gen = Inr ()"
    "should_panic ''Payroll approval expired: approval record exceeds maximum allowed age'' (test_finalize_panics_on_expired_approval e gen)"
    "test_cancelled_batch_status_read_helper e gen = Inr ()"
  using assms
  by (simp_all add: test_overlapping_raw_inputs_different_domains_def
      test_compliance_hold_place_and_release_def
      test_compliance_hold_multiple_scopes_def
      test_release_already_released_hold_panics_def
      test_reservation_expiry_policy_set_and_release_def
      test_cannot_release_unexpired_reservation_def
      test_archive_payroll_run_def
      test_cannot_archive_already_archived_run_def
      test_archive_multiple_runs_def
      test_nonce_monotonicity_sequential_nonces_accepted_def
      test_nonce_monotonicity_repeated_nonce_rejected_def
      test_nonce_monotonicity_stale_nonce_rejected_def
      test_nonce_monotonicity_skipped_nonces_allowed_def
      test_evidence_pointer_creation_valid_def
      test_evidence_pointer_creation_empty_hash_rejected_def
      test_evidence_pointer_creation_duplicate_rejected_def
      test_storage_version_initialized_on_contract_init_def
      test_storage_version_is_supported_def
      test_storage_version_no_migration_required_def
      test_storage_version_readiness_check_def
      test_storage_version_set_by_admin_def
      test_batch_lock_timestamp_non_existent_run_def
      test_batch_lock_timestamp_pending_and_executed_runs_def
      test_safe_treasury_summary_view_def
      test_payroll_approval_expiry_active_and_expired_def
      test_finalize_panics_on_expired_approval_def
      test_cancelled_batch_status_read_helper_def
      payroll_record_test_steps)

text \<open>Three pointers stay apart as long as their identifiers do.\<close>

lemma evidence_pointer_scoping_passes:
  assumes "mocked e" "inj gen" "distinct (map (generate_pointer_id e) [b32 0x33, b32 0x22, b32 0x11])"
  shows "test_evidence_pointer_scoping e gen = Inr ()"
  using assms by (simp add: test_evidence_pointer_scoping_def payroll_record_test_steps) metis

end
