(* ===== verification/Spec2Isabelle.thy ===== *)
theory Spec2Isabelle
  imports Events Interfaces Pause_Manager Token Proof_Verifier Salary_Commitment Payroll_Drafts
    Payroll_Liabilities Payroll_Symbols Executor_Histories Audit_Histories Audit_Challenge Idempotency Module_Template Cli_Theorems
    Cli_Amounts Ledger_Debits Fuzz_Harness Test_Fixtures Pause_Client Pause_Tests Salary_Tests Executor_Tests
    Cli_Tests Symbol_Tests Payroll_Tests_Drafts Payroll_Tests_Runs Payroll_Tests_Reviews Payroll_Tests_Records
begin

text \<open>
  \<^bold>\<open>Confidential payroll on Soroban\<close>

  The repository holds a set of Rust contracts for the Soroban platform
  (\<open>src/contracts/<name>/src/lib.rs\<close>). An employer keeps hidden salary commitments on chain,
  prepares payroll runs, pays employees from a treasury against zero-knowledge proofs, and
  lets auditors look at selected data.

  \<^bold>\<open>Parts and theories\<close>

  \<^item> \<open>Prelude\<close>: machine integers, faults, checked arithmetic, the host environment, events.
    An entry point is a function from the environment, its arguments and the storage record of
    its contract to a fault (\<open>Inl\<close>) or the result with the new storage (\<open>Inr\<close>).
  \<^item> \<open>Events\<close>: the helpers \<open>emit_*\<close> of \<open>events\<close>, with the topics and data they publish.
  \<^item> \<open>Interfaces\<close>: histories of calls (\<open>run_calls\<close>; a failed call leaves the state as it was) and
    the interfaces as locales: \<open>role_change\<close> and \<open>two_step_role\<close> (a role changes hands only with
    the consent of both sides; the second is a sublocale of the first) and \<open>token_ledger\<close>.
  \<^item> \<open>Pause_Manager\<close>: \<open>pause_manager\<close>; all entry points; operator rotation interprets
    \<open>two_step_role\<close>. The guard that the other contracts call is \<open>pause_guard\<close>. \<open>Pause_Client\<close>:
    \<open>PauseManagerClient\<close>, through which they call it by name with untyped values; every function of it
    reaches the entry point of its name, and \<open>pause_guard\<close> is the guard written with it.
  \<^item> \<open>Token\<close>: \<open>token\<close>; interprets \<open>token_ledger\<close>.
  \<^item> \<open>Proof_Verifier\<close>: \<open>proof_verifier\<close>; verification key, proof references and their expiry. The
    pairing check of the source accepts every proof, and so does the model.
  \<^item> \<open>Salary_Commitment\<close>: \<open>salary_commitment\<close>; commitments, archive slots, locks, reference ids,
    nullifiers, operator and admin. Interprets \<open>two_step_role\<close>.
  \<^item> \<open>Payroll_State\<close>, \<open>Payroll_Config\<close>, \<open>Payroll_Runs\<close>, \<open>Payroll_Admin\<close>: \<open>payroll\<close>, in the order
    of its source file: the types and the storage (one field of the record \<open>payroll\<close> per variant of
    \<open>DataKey\<close> but \<open>BatchSplitTracker\<close>, which no operation uses); initialization, guards, nonces, storage versions, evidence pointers, asset
    allowlist and company state; the state machine, treasury and runs; checkpoints, drafts,
    rotations, handover, quorums, archive, reviews, holds, reservations and splits.
  \<^item> \<open>Payroll_Calls\<close>: the calls of the payroll contract as a datatype, their interpretation
    \<open>payroll_invoke\<close> on the world (payroll storage, tokens and commitment contracts), and the
    effect of each run operation. \<open>Payroll_Invariants\<close>: accounting of pending runs and locked
    funds over histories. \<open>Payroll_Frames\<close>: which call changes which part of the storage.
  \<^item> \<open>Payroll_Registry\<close>: \<open>payroll_registry\<close>; companies, employees and their status, rotations of
    admin and treasury, approval thresholds, and the format check of wallet addresses (base-32
    decoder and CRC-16 on words). \<open>Registry_Wallet\<close>: that check against the strkey format.
    \<open>Registry_Histories\<close>: the calls of the registry, its storage invariant, and the interpretation
    of \<open>two_step_role\<close> for the admin of each company.
  \<^item> \<open>Payment_Executor\<close>: \<open>payment_executor\<close>; periods, payments, batches, asset decimals.
    \<open>Executor_Payments\<close>: what one payment and one batch do. \<open>Executor_Histories\<close>: the calls, and
    \<open>executor_step\<close>, the step relation that the invariants are proved on.
  \<^item> \<open>Audit_Module\<close>: \<open>audit_module\<close>; view keys, delegation, audits and the audit log.
    \<open>Audit_Delegation\<close>: when a revocation returns, and what it removes. \<open>Audit_Histories\<close>: the calls
    and the log. \<open>Audit_Challenge\<close>: \<open>audit_module/src/challenge.rs\<close>.
  \<^item> \<open>Shared_Errors\<close>: \<open>shared_errors\<close>, the error enums and their numbers. \<open>Idempotency\<close>:
    \<open>payroll/src/idempotency.rs\<close>. \<open>Payroll_Symbols\<close>: \<open>normalize_asset_symbol\<close> of the payroll
    contract, and beside it \<open>normalize_symbol\<close> of \<open>payroll/src/assets.rs\<close>. \<open>Module_Template\<close>:
    \<open>module_template\<close>.
  \<^item> \<open>Cli_Client\<close>: the command line client \<open>cli/src\<close>; commands, the local table of blinding factors,
    the commitment, the decoding of events and the reconciliation. \<open>Cli_Theorems\<close>: the client beside
    the registry and the executor. \<open>Cli_Amounts\<close>: \<open>stroops_to_xlm_display\<close> of \<open>cli/src/reconcile.rs\<close>, with
    the conversion to double precision, the division and the printing to three places as exact
    roundings of fractions. \<open>Cli_Report\<close>: the request to the RPC server and all that the commands print, as
    sessions on a machine and a terminal that refine the commands.
  \<^item> \<open>Payroll_Ledger\<close>: all contracts together. The record \<open>ledger\<close> has a table of instances per
    contract; \<open>ledger_invoke\<close> runs one call on one instance, gives it the other instances as its
    environment, and keeps what it changed in them. The locale \<open>ledger_component\<close> states when the
    histories of the ledger are histories of one contract; it is interpreted for the seven
    contracts. \<open>Ledger_Theorems\<close>, \<open>Ledger_Debits\<close>: what holds of the contracts together.
  \<^item> \<open>Upgrade_Scenarios\<close>, \<open>Integration_Scenarios\<close>, \<open>Fuzz_Harness\<close>, \<open>Test_Fixtures\<close>: the scenarios of
    \<open>integration_tests/src/upgrade_simulation.rs\<close>, the end-to-end tests of
    \<open>integration_tests/src/lib.rs\<close>, the fuzz target
    \<open>fuzz/fuzz_targets/fuzz_proof_validation.rs\<close> and the constants of
    \<open>integration_tests/src/fixtures.rs\<close>. A test is a program over the contracts that ends with
    \<open>Inr ()\<close> or with the fault of a failed assertion or call; the addresses that it generates, the
    ledger time and the hash function are its parameters, and mocked authorization is a hypothesis
    on the environment.
  \<^item> \<open>Test_Programs\<close>, \<open>Test_Ledger\<close>, \<open>Payroll_Test_Setup\<close>, \<open>Payroll_Test_Rules\<close>: assertions, expected panics, signers
    and set-ups of tests. \<open>Pause_Tests\<close>, \<open>Salary_Tests\<close>, \<open>Executor_Tests\<close>, \<open>Symbol_Tests\<close>, \<open>Payroll_Tests_Drafts\<close>,
    \<open>Payroll_Tests_Runs\<close>, \<open>Payroll_Tests_Reviews\<close>, \<open>Payroll_Tests_Records\<close>, \<open>Cli_Tests\<close>: the unit tests inside the files
    of \<open>pause_manager\<close>, \<open>salary_commitment\<close>, \<open>payment_executor\<close>, \<open>payroll\<close> and \<open>cli\<close>, about 250 programs under the names
    that they have in the source.
  \<^item> \<open>Proof_Helper\<close>: \<open>integration_tests/src/proof_helper.rs\<close>, which runs the proof generator and reads
    the file that it leaves. Processes and files are the parameter \<open>proof_machine\<close>; slices of strings
    panic inside a character as in Rust. The writer of the file in \<open>circuits/generate_proof.js\<close> is
    modelled for the round trip.

  \<^bold>\<open>What is shown\<close>

  \<^item> Salary commitments (\<open>Salary_Commitment\<close>): a value is bound at most once, replaced values are
    archived in order, locked commitments are frozen, reference ids are a bijection, nullifiers
    are recorded once, and openings are binding up to a SHA-256 collision.
  \<^item> Accounting, nonces, prepare/cancel/finalize (\<open>Payroll_Theorems\<close>).
  \<^item> A batch pays exactly what it states (\<open>Payroll_Payments\<close>, on top of the lemmas that
    \<open>token_ledger\<close> gives for the token), and its nullifiers make a second batch impossible.
  \<^item> The life of a run refines an abstract transition system, and terminal states of runs that are
    not pending are final (\<open>Payroll_Lifecycle\<close>).
  \<^item> Payroll obligations are conserved: everything that was ever prepared or executed is still locked, or
    recorded, or released by a cancellation, the invariant that \<open>contracts/tests/liability_invariants.rs\<close>
    tests on examples (\<open>Payroll_Liabilities\<close>).
  \<^item> Admin and treasury owner change only with consent, by a proposal of the present holder and a later
    acceptance (\<open>Payroll_Roles\<close>, by interpretation of \<open>role_change\<close> and \<open>two_step_role\<close>), and the settings are
    locked while a run is pending.
  \<^item> Emergency withdrawals, deposits, quorums (\<open>Payroll_Treasury\<close>); drafts and checkpoints
    (\<open>Payroll_Drafts\<close>).
  \<^item> The registry keeps its tables consistent over every history, changes the admin of a company
    only with both consents and a threshold only after its grace period (\<open>Registry_Histories\<close>);
    its address check accepts exactly the strkey texts (\<open>Registry_Wallet\<close>).
  \<^item> The executor pays exactly the stated amount to an employee, once per period number and
    nullifier, its books agree with the payments it announced, periods are numbered without a gap
    and closed ones are final (\<open>Executor_Payments\<close>, \<open>Executor_Histories\<close>). A batch refines the
    sequence of transfers of \<open>token_ledger\<close>.
  \<^item> The revocation of a view key returns exactly when no delegation cycle is reached, and then
    removes exactly the descendants; the audit log only grows; an audit accepts the true opening
    and, up to a collision of SHA-256, no other (\<open>Audit_Delegation\<close>, \<open>Audit_Histories\<close>).
  \<^item> The client keeps the opening of a printed commitment for good and lets every wallet pass that
    the registry accepts; its reconciliation reads the events of the executor (\<open>Cli_Theorems\<close>); amounts are displayed to
    the nearest thousandth of an XLM (\<open>Cli_Amounts\<close>).
  \<^item> In the composed ledger every contract still runs histories of its own, so its theorems carry
    over; tokens are created by \<open>mint\<close> alone; every announced payment is backed by the registry and
    the commitment contract of the executor; a paused manager stops all payments under it
    (\<open>Ledger_Theorems\<close>); an account loses tokens only by a call that may take them, with the signatures
    that the paying contract demands (\<open>Ledger_Debits\<close>).
  \<^item> The end-to-end tests, the upgrade scenarios and the assertions of the fuzz target hold for all
    generated addresses, times and hash functions, the fuzz assertions in every connected system
    and for every input (\<open>Integration_Scenarios\<close>, \<open>Upgrade_Scenarios\<close>, \<open>Fuzz_Harness\<close>). The proof file is
    read back exactly (\<open>Proof_Helper\<close>).
  \<^item> Every unit test of those files has the outcome that its theorem states, for all generated addresses
    and hash functions; the tests pass but for eight, which the code as it stands makes fail: six payments of the executor
    without configured decimals, one event of \<open>salary_commitment\<close>, and one test that opens two drafts for one period. What the
    client prints is the report of \<open>reconcile_run\<close> (\<open>report_output\<close>), which covers one page of events
    (\<open>report_at_most_one_page\<close>).
  \<^item> Pause flags and operator, proof references and token conservation, in the theories of those
    contracts.
  \<^item> Where the code differs from its documentation or from its evident purpose, a theorem states
    what the code does: for instance \<open>second_batch_rejected\<close>, \<open>anyone_unlocks_funds\<close>,
    \<open>rotation_survives_handover\<close>, \<open>quorum_without_signers\<close>, \<open>store_bypasses_lock\<close>,
    \<open>period_number_shared_by_companies\<close>, \<open>payment_ignores_eligibility\<close>, \<open>view_keys_never_revoked\<close>,
    \<open>self_delegation_blocks_revocation\<close>, \<open>audit_acceptance_is_collision\<close>,
    \<open>reconcile_misses_executor_payments\<close>, \<open>fuzz_payment_never_succeeds\<close>, \<open>hex_decode_lenient\<close>.

  \<^bold>\<open>Modelling conventions\<close>

  \<^item> The host is outside the repository and enters as the record \<open>env\<close>: ledger time and sequence,
    the set of addresses whose authorization covers the invocation, SHA-256 and the XDR encodings
    as functions. Nothing is assumed of the hash or the encodings except where a theorem says so.
    Authorization covers the nested invocations as well; a call that one contract makes to another
    carries the caller's own address (\<open>invoked_by_self\<close>).
  \<^item> \<open>u32\<close>, \<open>u64\<close> and \<open>u128\<close> are words; \<open>+\<close> on them is checked (\<open>add_u\<close>), because the release profile
    enables overflow checks. \<open>i128\<close> is \<open>int\<close> with explicit range checks.
  \<^item> A panic, a failed authorization, an overflow and a call to an address without a contract are
    the faults. The host discards the effects of a failed invocation; that is \<open>transact\<close>.
  \<^item> Storage entries of persistent and instance storage do not expire in the model; time to live of
    storage is not modelled.
  \<^item> Contracts that an invocation only reads (pause managers, verifiers; for the executor also the
    registries and commitment contracts, in \<open>xenv\<close>) are part of the environment of the call; contracts that it changes (tokens, commitment contracts) are part of the world.
    \<open>PcOutside\<close> and \<open>XcTokensMove\<close> stand for any activity of those between two calls. The token of
    the payroll contract and of the executor is the token contract of the repository.
  \<^item> The loops of the source run over the arguments of a call and are structural recursions; the
    search for a free archive slot ends because there are finitely many slot numbers. The one
    recursion that may not end is \<open>revoke_descendants\<close> of the audit module, over stored lists that
    may form a cycle: it is the partial function \<open>revoke_each\<close>, whose value \<open>None\<close> means that the
    source does not return, and the host then aborts the invocation. No fuel is used anywhere.

  \<^bold>\<open>Not modelled\<close>

  What the program calls and does not contain is a parameter: in the client the parser of arguments, the
  HTTP transport, the layout of the table and the crates for base64, XDR, strkey, hex, field arithmetic
  and Poseidon (\<open>libs\<close>), of which nothing is assumed beyond what a theorem states, and the Unicode
  upper-case mapping in \<open>normalize_symbol\<close>. Left out are the benchmark of fifty payments and the tests of
  \<open>cli/src/crypto.rs\<close>, which are about random numbers and the hash of the crates; the test programs in files
  of their own (\<open>tests.rs\<close> of the registry, the audit module and the verifier, \<open>contracts/tests\<close>, \<open>tests\<close>), which run
  single entry points on examples; the circuit and, but for its file writer, the proof generator;
  documentation and scripts.
\<close>

end
